(* ===== verification/JsBase.thy ===== *)
theory JsBase
  imports Complex_Main "HOL-Library.AList" "HOL-Library.Word" "HOL-Library.Char_ord"
    "HOL-Library.Sublist"
begin

text \<open>
  The prelude: the part of the JavaScript language and library that the modelled code uses.
  Strings are lists of 8-bit characters (the Latin-1 part of the UTF-16 code units of the
  source; a text outside it is named by a constructor or, where the units matter, given as a
  list of 16-bit words). Numbers are the three special values and the rationals: the model
  does not round. Objects used as dictionaries are association lists in insertion order,
  written with \<open>AList.update\<close> and \<open>AList.delete\<close>, which replace in place and append at the
  end as property assignment does. \<open>undefined\<close> is \<open>None\<close>; an exception is the \<open>Inl\<close> side
  of a sum.
\<close>

named_theorems wire_defs \<open>definitions that build requests and their bodies\<close>
named_theorems js_string \<open>facts about splitting, joining and searching strings\<close>

type_synonym 'v obj = "(string \<times> 'v) list"
type_synonym strobj = "string obj"

section \<open>Strings\<close>

definition newline :: char where
  "newline = CHR 0x0A"

definition starts_with :: "string \<Rightarrow> string \<Rightarrow> bool" where
  "starts_with s p = prefix p s"

definition ends_with :: "string \<Rightarrow> string \<Rightarrow> bool" where
  "ends_with s p = suffix p s"

definition str_includes :: "string \<Rightarrow> string \<Rightarrow> bool" where
  "str_includes s p = sublist p s"

lemma str_includes_append_left [intro]: "str_includes t p \<Longrightarrow> str_includes (s @ t) p"
  by (simp add: str_includes_def sublist_append)

lemma str_includes_append_right [intro]: "str_includes s p \<Longrightarrow> str_includes (s @ t) p"
  by (simp add: str_includes_def sublist_append)

lemma str_includes_self [simp]: "str_includes s s"
  by (simp add: str_includes_def)

lemma str_includes_set: "str_includes s p \<Longrightarrow> set p \<subseteq> set s"
  by (simp add: str_includes_def set_mono_sublist)

text \<open>A pattern with a character that does not occur in the string is not included in it.\<close>

lemma not_includes_char [js_string]: "c \<in> set p \<Longrightarrow> c \<notin> set s \<Longrightarrow> \<not> str_includes s p"
  using str_includes_set by blast

fun split_char :: "char \<Rightarrow> string \<Rightarrow> string list" where
  "split_char c [] = [[]]"
| "split_char c (x # xs) =
     (if x = c then [] # split_char c xs
      else (case split_char c xs of [] \<Rightarrow> [[x]] | p # ps \<Rightarrow> (x # p) # ps))"

fun join_with :: "string \<Rightarrow> string list \<Rightarrow> string" where
  "join_with sep [] = []"
| "join_with sep [x] = x"
| "join_with sep (x # y # ys) = x @ sep @ join_with sep (y # ys)"

lemma split_char_not_Nil [simp]: "split_char c s \<noteq> []"
  by (induction s) (auto split: list.splits)

lemma join_with_Cons: "xs \<noteq> [] \<Longrightarrow> join_with sep (x # xs) = x @ sep @ join_with sep xs"
  by (cases xs) auto

lemma join_split [js_string]: "join_with [c] (split_char c s) = s"
proof (induction s)
  case Nil
  then show ?case by simp
next
  case (Cons x s)
  obtain p ps where ps: "split_char c s = p # ps"
    using split_char_not_Nil by (metis list.exhaust)
  with Cons show ?case
    by (cases ps) (auto simp: join_with_Cons)
qed

lemma split_char_free [js_string, simp]: "c \<notin> set s \<Longrightarrow> split_char c s = [s]"
  by (induction s) auto

lemma split_char_append [js_string]:
  "c \<notin> set s \<Longrightarrow> split_char c (s @ c # t) = s # split_char c t"
  by (induction s) auto

lemma split_char_cut [js_string]:
  "split_char c (s @ t) = butlast (split_char c s) @ split_char c (last (split_char c s) @ t)"
proof (induction s)
  case (Cons x s)
  obtain p ps where ps: "split_char c s = p # ps"
    using split_char_not_Nil by (metis list.exhaust)
  with Cons show ?case
    by (cases ps) (auto split: list.split)
qed simp

lemma split_char_parts [js_string]: "p \<in> set (split_char c s) \<Longrightarrow> c \<notin> set p"
proof (induction s arbitrary: p)
  case Nil
  then show ?case by simp
next
  case (Cons x s)
  obtain q qs where "split_char c s = q # qs"
    using split_char_not_Nil by (metis list.exhaust)
  with Cons show ?case by (auto split: if_splits)
qed

lemma split_join [js_string]:
  "xs \<noteq> [] \<Longrightarrow> \<forall>x\<in>set xs. c \<notin> set x \<Longrightarrow> split_char c (join_with [c] xs) = xs"
  by (induction "[c]" xs rule: join_with.induct) (auto simp: split_char_append)

lemma length_split_char [js_string]: "length (split_char c s) = Suc (count_list s c)"
  by (induction s) (auto split: list.splits)

fun replace_first :: "string \<Rightarrow> string \<Rightarrow> string \<Rightarrow> string" where
  "replace_first pat rep [] = (if pat = [] then rep else [])"
| "replace_first pat rep (c # cs) =
     (if prefix pat (c # cs) then rep @ drop (length pat) (c # cs)
      else c # replace_first pat rep cs)"

lemma replace_first_absent: "\<not> str_includes s p \<Longrightarrow> replace_first p r s = s"
  by (induction s) (auto simp: str_includes_def sublist_Cons_right)

lemma replace_first_suffix [js_string]:
  "p = c # q \<Longrightarrow> c \<notin> set s \<Longrightarrow> replace_first p r (s @ p) = s @ r"
  by (induction s) auto

function replace_all :: "string \<Rightarrow> string \<Rightarrow> string \<Rightarrow> string" where
  "replace_all pat rep s =
     (case s of [] \<Rightarrow> []
      | c # cs \<Rightarrow>
          if pat \<noteq> [] \<and> prefix pat s then rep @ replace_all pat rep (drop (length pat) s)
          else c # replace_all pat rep cs)"
  by pat_completeness auto
termination
  by (relation "measure (\<lambda>(pat, rep, s). length s)") auto

declare replace_all.simps [simp del]

lemma replace_all_absent: "\<not> str_includes s p \<Longrightarrow> replace_all p r s = s"
proof (induction s)
  case Nil
  then show ?case by (simp add: replace_all.simps)
next
  case (Cons c s)
  then have "\<not> str_includes s p" "\<not> prefix p (c # s)"
    by (auto simp: str_includes_def sublist_Cons_right)
  with Cons show ?case by (subst replace_all.simps) auto
qed

section \<open>Decimal numerals\<close>

definition digit_char :: "nat \<Rightarrow> char" where
  "digit_char d = char_of (48 + d)"

definition char_val :: "char \<Rightarrow> nat" where
  "char_val c = of_char c - 48"

definition is_digit :: "char \<Rightarrow> bool" where
  "is_digit c \<longleftrightarrow> 48 \<le> (of_char c :: nat) \<and> (of_char c :: nat) \<le> 57"

lemma is_digit_digit_char [simp]: "d < 10 \<Longrightarrow> is_digit (digit_char d)"
  by (simp add: is_digit_def digit_char_def)

lemma char_val_digit_char [simp]: "d < 10 \<Longrightarrow> char_val (digit_char d) = d"
  by (simp add: char_val_def digit_char_def)

fun nat_str :: "nat \<Rightarrow> string" where
  "nat_str n = (if n < 10 then [digit_char n] else nat_str (n div 10) @ [digit_char (n mod 10)])"

declare nat_str.simps [simp del]

definition int_str :: "int \<Rightarrow> string" where
  "int_str i = (if i < 0 then CHR ''-'' # nat_str (nat (- i)) else nat_str (nat i))"

definition digits_val :: "string \<Rightarrow> nat" where
  "digits_val ds = foldl (\<lambda>a c. 10 * a + char_val c) 0 ds"

lemma digits_val_snoc [simp]: "digits_val (ds @ [c]) = 10 * digits_val ds + char_val c"
  by (simp add: digits_val_def)

lemma nat_str_digits: "\<forall>c\<in>set (nat_str n). is_digit c"
proof (induction n rule: nat_str.induct)
  case (1 n)
  then show ?case by (subst nat_str.simps) auto
qed

lemma nat_str_not_Nil [simp]: "nat_str n \<noteq> []"
  by (subst nat_str.simps) simp

lemma digits_val_nat_str [simp]: "digits_val (nat_str n) = n"
proof (induction n rule: nat_str.induct)
  case (1 n)
  then show ?case
    by (subst nat_str.simps) (auto simp: digits_val_def)
qed

lemma nat_str_inj: "nat_str m = nat_str n \<Longrightarrow> m = n"
  by (metis digits_val_nat_str)

lemma nat_str_free [js_string]: "\<not> is_digit c \<Longrightarrow> c \<notin> set (nat_str n)"
  using nat_str_digits by blast

lemma nat_str_hd: "is_digit (hd (nat_str n))"
  using nat_str_digits hd_in_set nat_str_not_Nil by blast

lemma int_str_inj: "int_str i = int_str j \<Longrightarrow> i = j"
proof -
  assume eq: "int_str i = int_str j"
  have minus: "\<not> is_digit (CHR ''-'')" by (simp add: is_digit_def)
  have "i < 0 \<longleftrightarrow> j < 0"
    using eq minus nat_str_hd [of "nat i"] nat_str_hd [of "nat j"]
    by (auto simp: int_str_def split: if_splits) (metis list.sel(1))+
  with eq show "i = j"
    by (auto simp: int_str_def split: if_splits dest: nat_str_inj)
qed

lemma int_str_not_Nil [simp]: "int_str i \<noteq> []"
  by (simp add: int_str_def)

lemma int_str_chars: "c \<in> set (int_str i) \<Longrightarrow> is_digit c \<or> c = CHR ''-''"
  using nat_str_digits by (auto simp: int_str_def split: if_splits)

lemma int_str_free [js_string]: "\<not> is_digit c \<Longrightarrow> c \<noteq> CHR ''-'' \<Longrightarrow> c \<notin> set (int_str i)"
  using int_str_chars by blast

lemma join_with_snoc: "xs \<noteq> [] \<Longrightarrow> join_with sep (xs @ [y]) = join_with sep xs @ sep @ y"
proof (induction xs)
  case Nil
  then show ?case by simp
next
  case (Cons x xs)
  then show ?case by (cases "xs = []") (simp_all add: join_with_Cons)
qed

text \<open>\<open>toLowerCase\<close> of a character up to U+00FF.\<close>

definition to_lower :: "char \<Rightarrow> char" where
  "to_lower c = (let n = of_char c :: nat in
     if 65 \<le> n \<and> n \<le> 90 \<or> 192 \<le> n \<and> n \<le> 222 \<and> n \<noteq> 215 then char_of (n + 32) else c)"

end
