(* ===== verification/JsNumber.thy ===== *)
theory JsNumber
  imports JsBase
begin

text \<open>
  Numbers of the source: \<open>NaN\<close>, the two infinities and the rationals. Arithmetic follows
  IEEE 754 on the special values and is exact on the rationals (no rounding, one zero).
  \<open>parseInt\<close>, \<open>parseFloat\<close> and the conversion to a string follow ECMAScript; the
  conversion prints at most twenty fraction digits and never uses the exponent form, so it
  is the source's for numbers below \<open>10 ^ 21\<close> with a finite decimal expansion.
\<close>

datatype number = NaN | PInf | NInf | Fin rat

fun is_nan :: "number \<Rightarrow> bool" where
  "is_nan NaN = True"
| "is_nan _ = False"

fun is_finite_num :: "number \<Rightarrow> bool" where
  "is_finite_num (Fin _) = True"
| "is_finite_num _ = False"

definition inf_signed :: "bool \<Rightarrow> number" where
  "inf_signed pos = (if pos then PInf else NInf)"

fun num_mul :: "number \<Rightarrow> number \<Rightarrow> number" where
  "num_mul NaN _ = NaN"
| "num_mul _ NaN = NaN"
| "num_mul (Fin a) (Fin b) = Fin (a * b)"
| "num_mul (Fin a) PInf = (if a = 0 then NaN else inf_signed (0 < a))"
| "num_mul (Fin a) NInf = (if a = 0 then NaN else inf_signed (a < 0))"
| "num_mul PInf (Fin b) = (if b = 0 then NaN else inf_signed (0 < b))"
| "num_mul NInf (Fin b) = (if b = 0 then NaN else inf_signed (b < 0))"
| "num_mul PInf PInf = PInf"
| "num_mul PInf NInf = NInf"
| "num_mul NInf PInf = NInf"
| "num_mul NInf NInf = PInf"

fun num_div :: "number \<Rightarrow> number \<Rightarrow> number" where
  "num_div NaN _ = NaN"
| "num_div _ NaN = NaN"
| "num_div (Fin a) (Fin b) =
     (if b = 0 then (if a = 0 then NaN else inf_signed (0 < a)) else Fin (a / b))"
| "num_div (Fin _) _ = Fin 0"
| "num_div PInf (Fin b) = inf_signed (0 \<le> b)"
| "num_div NInf (Fin b) = inf_signed (b < 0)"
| "num_div _ _ = NaN"

fun num_less :: "number \<Rightarrow> number \<Rightarrow> bool" where
  "num_less NaN _ = False"
| "num_less _ NaN = False"
| "num_less (Fin a) (Fin b) = (a < b)"
| "num_less NInf y = (y \<noteq> NInf)"
| "num_less PInf _ = False"
| "num_less (Fin _) y = (y = PInf)"

definition num_le :: "number \<Rightarrow> number \<Rightarrow> bool" where
  "num_le x y \<longleftrightarrow> num_less x y \<or> (x = y \<and> x \<noteq> NaN)"

fun num_floor :: "number \<Rightarrow> number" where
  "num_floor (Fin r) = Fin (of_int \<lfloor>r\<rfloor>)"
| "num_floor x = x"

text \<open>\<open>x || 0\<close> on a number: both \<open>NaN\<close> and zero are false.\<close>

definition num_or_zero :: "number \<Rightarrow> number" where
  "num_or_zero x = (if x = NaN \<or> x = Fin 0 then Fin 0 else x)"

section \<open>Reading numbers\<close>

definition js_space :: "char \<Rightarrow> bool" where
  "js_space c \<longleftrightarrow> (of_char c :: nat) \<in> {9, 10, 11, 12, 13, 32, 160}"

definition trim_start :: "string \<Rightarrow> string" where
  "trim_start s = dropWhile js_space s"

definition js_trim :: "string \<Rightarrow> string" where
  "js_trim s = rev (dropWhile js_space (rev (dropWhile js_space s)))"

definition parse_sign :: "string \<Rightarrow> rat \<times> string" where
  "parse_sign s =
     (case s of [] \<Rightarrow> (1, [])
      | c # cs \<Rightarrow> if c = CHR ''-'' then (-1, cs) else if c = CHR ''+'' then (1, cs) else (1, s))"

definition hex_val :: "char \<Rightarrow> nat option" where
  "hex_val c =
     (let n = of_char c :: nat in
      if 48 \<le> n \<and> n \<le> 57 then Some (n - 48)
      else if 97 \<le> n \<and> n \<le> 102 then Some (n - 87)
      else if 65 \<le> n \<and> n \<le> 70 then Some (n - 55) else None)"

definition parse_int :: "string \<Rightarrow> number" where
  "parse_int s =
     (let (sg, r) = parse_sign (trim_start s) in
      if prefix ''0x'' r \<or> prefix ''0X'' r then
        (let hs = takeWhile (\<lambda>c. hex_val c \<noteq> None) (drop 2 r) in
         if hs = [] then NaN
         else Fin (sg * of_nat (foldl (\<lambda>a c. 16 * a + the (hex_val c)) 0 hs)))
      else
        (let ds = takeWhile is_digit r in
         if ds = [] then NaN else Fin (sg * of_nat (digits_val ds))))"

text \<open>The fraction after the integer digits: its digits and what follows.\<close>

definition parse_frac :: "string \<Rightarrow> string \<times> string" where
  "parse_frac r =
     (case r of [] \<Rightarrow> ([], [])
      | c # cs \<Rightarrow> if c = CHR ''.'' then (takeWhile is_digit cs, dropWhile is_digit cs) else ([], r))"

definition parse_exp :: "string \<Rightarrow> int" where
  "parse_exp r =
     (case r of [] \<Rightarrow> 0
      | c # cs \<Rightarrow>
          if c = CHR ''e'' \<or> c = CHR ''E'' then
            (let (sg, t) = parse_sign cs; ds = takeWhile is_digit t in
             if ds = [] then 0
             else if sg < 0 then - int (digits_val ds) else int (digits_val ds))
          else 0)"

definition scale10 :: "rat \<Rightarrow> int \<Rightarrow> rat" where
  "scale10 v e = (if 0 \<le> e then v * 10 ^ nat e else v / 10 ^ nat (- e))"

definition parse_float :: "string \<Rightarrow> number" where
  "parse_float s =
     (let (sg, r) = parse_sign (trim_start s) in
      if prefix ''Infinity'' r then inf_signed (0 < sg)
      else
        (let ip = takeWhile is_digit r; (fp, r2) = parse_frac (dropWhile is_digit r) in
         if ip = [] \<and> fp = [] then NaN
         else Fin (sg * scale10 (of_nat (digits_val (ip @ fp))) (parse_exp r2 - int (length fp)))))"

section \<open>Printing numbers\<close>

fun frac_digits :: "nat \<Rightarrow> nat \<Rightarrow> nat \<Rightarrow> string" where
  "frac_digits 0 p q = []"
| "frac_digits (Suc k) p q =
     (if p = 0 then [] else digit_char (10 * p div q) # frac_digits k (10 * p mod q) q)"

definition rat_str :: "rat \<Rightarrow> string" where
  "rat_str r =
     (let (p, q) = quotient_of r; m = nat \<bar>p\<bar>; n = nat q in
      (if p < 0 then ''-'' else []) @ nat_str (m div n)
        @ (if q = 1 then [] else CHR ''.'' # frac_digits 20 (m mod n) n))"

fun num_str :: "number \<Rightarrow> string" where
  "num_str NaN = ''NaN''"
| "num_str PInf = ''Infinity''"
| "num_str NInf = ''-Infinity''"
| "num_str (Fin r) = rat_str r"

text \<open>A finite decimal expansion of at most twenty digits.\<close>

definition decimal20 :: "rat \<Rightarrow> bool" where
  "decimal20 r \<longleftrightarrow> snd (quotient_of r) dvd 10 ^ 20"

lemma rat_str_of_int: "rat_str (of_int i) = int_str i"
  by (simp add: rat_str_def int_str_def)

lemma decimal20_of_int [simp]: "decimal20 (of_int i)"
  by (simp add: decimal20_def)

lemma takeWhile_digits_append [simp]:
  "\<forall>c\<in>set ds. is_digit c \<Longrightarrow> takeWhile is_digit (ds @ r) = ds @ takeWhile is_digit r"
  by (simp add: takeWhile_append2)

lemma dropWhile_digits_append [simp]:
  "\<forall>c\<in>set ds. is_digit c \<Longrightarrow> dropWhile is_digit (ds @ r) = dropWhile is_digit r"
  by (simp add: dropWhile_append2)

lemma takeWhile_digits_all [simp]: "\<forall>c\<in>set ds. is_digit c \<Longrightarrow> takeWhile is_digit ds = ds"
  using takeWhile_digits_append [of ds "[]"] by simp

lemma dropWhile_digits_all [simp]: "\<forall>c\<in>set ds. is_digit c \<Longrightarrow> dropWhile is_digit ds = []"
  using dropWhile_digits_append [of ds "[]"] by simp

lemma digit_not_space: "is_digit c \<Longrightarrow> \<not> js_space c"
  by (auto simp: is_digit_def js_space_def)

lemma trim_start_digit: "ds \<noteq> [] \<Longrightarrow> is_digit (hd ds) \<Longrightarrow> trim_start (ds @ r) = ds @ r"
  by (cases ds) (auto simp: trim_start_def digit_not_space)

lemma not_digit_special [simp]:
  "\<not> is_digit (CHR ''-'')" "\<not> is_digit (CHR ''+'')" "\<not> is_digit (CHR ''.'')" "\<not> is_digit (CHR ''I'')"
  "\<not> is_digit (CHR ''G'')" "\<not> is_digit (CHR ''e'')" "\<not> is_digit (CHR ''E'')" "\<not> is_digit (CHR ''x'')"
  "\<not> is_digit (CHR ''X'')" "\<not> is_digit (CHR ''m'')" "\<not> is_digit (CHR ''K'')" "\<not> is_digit (CHR ''M'')"
  "\<not> is_digit (CHR ''T'')" "\<not> is_digit (CHR ''i'')" "\<not> is_digit (CHR '' '')" "\<not> is_digit (CHR ''/'')"
  by (simp_all add: is_digit_def)

lemma parse_sign_digit: "ds \<noteq> [] \<Longrightarrow> is_digit (hd ds) \<Longrightarrow> parse_sign (ds @ r) = (1, ds @ r)"
  by (cases ds) (auto simp: parse_sign_def)

definition stops_digits :: "string \<Rightarrow> bool" where
  "stops_digits r \<longleftrightarrow> (r = [] \<or> \<not> is_digit (hd r) \<and> hd r \<notin> set ''xX'')"

lemma stops_digits_take: "stops_digits r \<Longrightarrow> takeWhile is_digit r = []"
  by (cases r) (auto simp: stops_digits_def)

lemma stops_digits_drop: "stops_digits r \<Longrightarrow> dropWhile is_digit r = r"
  by (cases r) (auto simp: stops_digits_def)

lemma no_hex_prefix:
  assumes "\<forall>c\<in>set ds. is_digit c" "ds \<noteq> []" "stops_digits r"
  shows "\<not> prefix ''0x'' (ds @ r)" "\<not> prefix ''0X'' (ds @ r)"
proof -
  obtain d es where ds: "ds = d # es" using assms(2) by (cases ds) auto
  show "\<not> prefix ''0x'' (ds @ r)" "\<not> prefix ''0X'' (ds @ r)"
    using assms ds by (cases es; cases r; auto simp: stops_digits_def)+
qed

lemma parse_int_digits:
  assumes "\<forall>c\<in>set ds. is_digit c" "ds \<noteq> []" "stops_digits r"
  shows "parse_int (ds @ r) = Fin (of_nat (digits_val ds))"
proof -
  have "is_digit (hd ds)" using assms by (cases ds) auto
  with assms show ?thesis
    by (simp add: parse_int_def trim_start_digit parse_sign_digit no_hex_prefix stops_digits_take)
qed

lemma parse_int_nat_str:
  "stops_digits r \<Longrightarrow> parse_int (nat_str n @ r) = Fin (of_nat n)"
  using parse_int_digits [of "nat_str n" r] nat_str_digits by auto

lemma trim_start_minus: "trim_start (CHR ''-'' # s) = CHR ''-'' # s"
  by (simp add: trim_start_def js_space_def)

lemma parse_int_int_str:
  assumes "stops_digits r"
  shows "parse_int (int_str i @ r) = Fin (of_int i)"
proof (cases "i < 0")
  case True
  have "\<not> prefix ''0x'' (nat_str n @ r)" "\<not> prefix ''0X'' (nat_str n @ r)" for n
    using no_hex_prefix [of "nat_str n" r] nat_str_digits assms by auto
  then have "parse_int (int_str i @ r) = Fin (- of_nat (nat (- i)))"
    using assms nat_str_digits True
    by (simp add: int_str_def parse_int_def trim_start_minus parse_sign_def stops_digits_take)
  with True show ?thesis by simp
next
  case False
  then show ?thesis
    using parse_int_nat_str [OF assms, of "nat i"] by (simp add: int_str_def)
qed

subsection \<open>Decimal fractions\<close>

lemma digits_val_Nil [simp]: "digits_val [] = 0"
  by (simp add: digits_val_def)

lemma digits_val_append: "digits_val (xs @ ys) = digits_val xs * 10 ^ length ys + digits_val ys"
proof (induction ys rule: rev_induct)
  case Nil
  then show ?case by simp
next
  case (snoc y ys)
  have "digits_val (xs @ ys @ [y]) = 10 * digits_val (xs @ ys) + char_val y"
    using digits_val_snoc [of "xs @ ys" y] by simp
  with snoc show ?case by (simp add: algebra_simps)
qed

lemma digits_val_Cons: "digits_val (c # ds) = char_val c * 10 ^ length ds + digits_val ds"
  using digits_val_append [of "[c]" ds] by (simp add: digits_val_def)

lemma frac_digits_digits: "p < q \<Longrightarrow> \<forall>c\<in>set (frac_digits k p q). is_digit c"
proof (induction k arbitrary: p)
  case 0
  then show ?case by simp
next
  case (Suc k)
  from Suc.prems have "10 * p div q < 10" by (simp add: less_mult_imp_div_less)
  moreover from Suc.prems have "10 * p mod q < q" by simp
  ultimately show ?case using Suc.IH by auto
qed

lemma frac_digits_val:
  "p < q \<Longrightarrow> q dvd p * 10 ^ k \<Longrightarrow>
   digits_val (frac_digits k p q) * q = p * 10 ^ length (frac_digits k p q)"
proof (induction k arbitrary: p)
  case 0
  then have "p = 0" using nat_dvd_not_less by auto
  then show ?case by simp
next
  case (Suc k)
  show ?case
  proof (cases "p = 0")
    case True
    then show ?thesis by simp
  next
    case False
    define d where "d = 10 * p div q"
    define m where "m = 10 * p mod q"
    have split: "10 * p = d * q + m" by (simp add: d_def m_def)
    from Suc.prems have lt: "d < 10" "m < q"
      by (simp_all add: d_def m_def less_mult_imp_div_less)
    have "q dvd (d * q + m) * 10 ^ k"
      using Suc.prems(2) split by (metis mult.assoc mult.commute power_Suc)
    then have "q dvd m * 10 ^ k"
      by (metis distrib_right dvd_add_right_iff dvd_mult2 dvd_triv_right)
    then have IH: "digits_val (frac_digits k m q) * q = m * 10 ^ length (frac_digits k m q)"
      using Suc.IH lt by blast
    let ?n = "length (frac_digits k m q)"
    have "digits_val (frac_digits (Suc k) p q) * q
        = d * q * 10 ^ ?n + digits_val (frac_digits k m q) * q"
      using False lt by (simp add: digits_val_Cons d_def m_def algebra_simps)
    also have "\<dots> = (d * q + m) * 10 ^ ?n" using IH by (simp add: algebra_simps)
    also have "\<dots> = (10 * p) * 10 ^ ?n" by (simp only: split)
    also have "\<dots> = p * 10 ^ Suc ?n" by simp
    finally show ?thesis using False by (simp add: d_def m_def)
  qed
qed

lemma frac_digits_not_Nil: "p \<noteq> 0 \<Longrightarrow> frac_digits (Suc k) p q \<noteq> []"
  by simp

text \<open>Printing a nonnegative decimal and reading it back with \<open>parseFloat\<close>.\<close>

lemma parse_float_digits:
  assumes ip: "\<forall>c\<in>set ip. is_digit c" "ip \<noteq> []" and fp: "\<forall>c\<in>set fp. is_digit c"
  shows "parse_float (ip @ CHR ''.'' # fp)
      = Fin (of_nat (digits_val (ip @ fp)) / 10 ^ length fp)"
    and "parse_float ip = Fin (of_nat (digits_val ip))"
proof -
  have hd: "is_digit (hd ip)" using ip by (cases ip) auto
  have inf: "\<not> prefix ''Infinity'' (ip @ r)" for r
    using ip by (cases ip) auto
  have fpt: "parse_frac (CHR ''.'' # fp) = (fp, [])"
    using fp takeWhile_eq_all_conv [of is_digit fp] dropWhile_eq_Nil_conv [of is_digit fp]
    by (simp add: parse_frac_def)
  show "parse_float (ip @ CHR ''.'' # fp) = Fin (of_nat (digits_val (ip @ fp)) / 10 ^ length fp)"
    using ip hd inf fpt
    by (simp add: parse_float_def trim_start_digit parse_sign_digit parse_exp_def scale10_def)
  have ts: "trim_start ip = ip" "parse_sign ip = (1, ip)" "\<not> prefix ''Infinity'' ip"
    using trim_start_digit [of ip "[]"] parse_sign_digit [of ip "[]"] inf [of "[]"] hd ip by auto
  show "parse_float ip = Fin (of_nat (digits_val ip))"
    using ip ts by (simp add: parse_float_def parse_frac_def parse_exp_def scale10_def)
qed

lemma parse_float_rat_str:
  assumes "0 \<le> r" and "decimal20 r"
  shows "parse_float (rat_str r) = Fin r"
proof -
  obtain p q where pq: "quotient_of r = (p, q)" by (cases "quotient_of r")
  have q: "0 < q" using quotient_of_denom_pos [OF pq] .
  have r: "r = of_int p / of_int q" using quotient_of_div [OF pq] .
  have p: "0 \<le> p" using assms(1) r q by (simp add: zero_le_divide_iff)
  define m n where mn: "m = nat p" "n = nat q"
  have n: "0 < n" using q mn by simp
  have rn: "r = of_nat m / of_nat n" using r p q mn by simp
  have dvd: "n dvd 10 ^ 20"
  proof -
    have "int n dvd int (10 ^ 20)" using assms(2) pq q mn by (simp add: decimal20_def)
    then show ?thesis by (simp only: of_nat_dvd_iff)
  qed
  show ?thesis
  proof (cases "q = 1")
    case True
    then have "rat_str r = nat_str m" using pq p mn by (simp add: rat_str_def)
    moreover have "parse_float (nat_str m) = Fin (of_nat m)"
      using parse_float_digits(2) [of "nat_str m"] nat_str_digits by auto
    ultimately show ?thesis using rn mn True by simp
  next
    case False
    let ?fp = "frac_digits 20 (m mod n) n"
    have fpd: "\<forall>c\<in>set ?fp. is_digit c" by (rule frac_digits_digits) (use n in simp)
    have "n dvd (m mod n) * 10 ^ 20" using dvd by (rule dvd_mult)
    then have val: "digits_val ?fp * n = (m mod n) * 10 ^ length ?fp"
      by (intro frac_digits_val) (use n in simp)
    have "rat_str r = nat_str (m div n) @ CHR ''.'' # ?fp"
      using pq p mn False by (simp add: rat_str_def Let_def)
    then have pf: "parse_float (rat_str r)
        = Fin (of_nat (m div n * 10 ^ length ?fp + digits_val ?fp) / 10 ^ length ?fp)"
      using parse_float_digits(1) [of "nat_str (m div n)" ?fp] nat_str_digits fpd
      by (simp add: digits_val_append)
    have "(m div n * 10 ^ length ?fp + digits_val ?fp) * n = m * 10 ^ length ?fp"
    proof -
      have "(m div n * 10 ^ length ?fp + digits_val ?fp) * n
          = (m div n * n + m mod n) * 10 ^ length ?fp"
        by (simp only: distrib_right val) (simp only: mult.assoc mult.commute [of n])
      then show ?thesis by (simp only: div_mult_mod_eq)
    qed
    then have "(of_nat (m div n * 10 ^ length ?fp + digits_val ?fp) :: rat) * of_nat n
        = of_nat m * 10 ^ length ?fp"
      by (metis of_nat_mult of_nat_numeral of_nat_power)
    then have "of_nat (m div n * 10 ^ length ?fp + digits_val ?fp) / 10 ^ length ?fp
        = (of_nat m / of_nat n :: rat)"
      using n by (simp add: field_simps)
    with pf rn show ?thesis by simp
  qed
qed

lemma parse_float_int_str: "0 \<le> i \<Longrightarrow> parse_float (int_str i) = Fin (of_int i)"
  using parse_float_rat_str [of "of_int i"] by (simp add: rat_str_of_int)

lemma rat_str_chars: "c \<in> set (rat_str r) \<Longrightarrow> is_digit c \<or> c = CHR ''-'' \<or> c = CHR ''.''"
proof -
  assume c: "c \<in> set (rat_str r)"
  obtain p q where pq: "quotient_of r = (p, q)" by (cases "quotient_of r")
  have "0 < q" using quotient_of_denom_pos [OF pq] .
  then have "\<forall>c\<in>set (frac_digits 20 (nat \<bar>p\<bar> mod nat q) (nat q)). is_digit c"
    by (intro frac_digits_digits) simp
  with c pq nat_str_digits show ?thesis by (auto simp: rat_str_def Let_def split: if_splits)
qed

lemma rat_str_not_Nil [simp]: "rat_str r \<noteq> []"
  by (simp add: rat_str_def Let_def split: prod.splits)

end
