(* ===== verification/Json.thy ===== *)
theory Json
  imports JsNumber
begin

text \<open>
  JSON values and the two library functions the program uses on them:
  \<open>JSON.stringify(v, null, 2)\<close> (the form the templates are stored in) and \<open>JSON.parse\<close>,
  a recursive-descent parser with fuel. The length of the text is enough fuel, and reading
  back what was printed gives the same value when numbers are decimal and keys distinct.
\<close>

datatype json =
    JNull
  | JBool bool
  | JNum rat
  | JStr string
  | JArr "json list"
  | JObj "(string \<times> json) list"

type_synonym jobj = "json obj"

section \<open>Property access\<close>

text \<open>Reading a property: \<open>undefined\<close> when it is absent or the value is no object.\<close>

fun jget :: "json \<Rightarrow> string \<Rightarrow> json option" where
  "jget (JObj ms) k = map_of ms k"
| "jget _ k = None"

text \<open>A field that is left out when it is undefined, as \<open>JSON.stringify\<close> does.\<close>

definition opt_field :: "string \<Rightarrow> ('a \<Rightarrow> json) \<Rightarrow> 'a option \<Rightarrow> jobj" where
  "opt_field k f x = (case x of None \<Rightarrow> [] | Some v \<Rightarrow> [(k, f v)])"

definition jint :: "int \<Rightarrow> json" where
  "jint i = JNum (of_int i)"

definition jstrs :: "string list \<Rightarrow> json" where
  "jstrs xs = JArr (map JStr xs)"

definition jints :: "int list \<Rightarrow> json" where
  "jints xs = JArr (map jint xs)"

definition jstrobj :: "strobj \<Rightarrow> json" where
  "jstrobj m = JObj (map (\<lambda>(k, v). (k, JStr v)) m)"

lemma jint_inj [simp]: "jint i = jint j \<longleftrightarrow> i = j"
  by (simp add: jint_def)

lemma inj_JStr [simp]: "inj JStr"
  by (rule injI) simp

lemma jstrs_inj [simp]: "jstrs xs = jstrs ys \<longleftrightarrow> xs = ys"
  by (simp add: jstrs_def inj_map_eq_map)

lemma opt_field_keys [simp]: "map fst (opt_field k f x) = (if x = None then [] else [k])"
  by (simp add: opt_field_def split: option.splits)

lemma map_of_opt_field [simp]:
  "map_of (opt_field k f x) k' = (if k' = k then map_option f x else None)"
  by (simp add: opt_field_def split: option.splits)

section \<open>Printing\<close>

definition esc_char :: "char \<Rightarrow> string" where
  "esc_char c =
     (if c = CHR 0x22 then [CHR 0x5C, CHR 0x22]
      else if c = CHR 0x5C then [CHR 0x5C, CHR 0x5C]
      else if c = CHR 0x08 then [CHR 0x5C, CHR ''b'']
      else if c = CHR 0x0C then [CHR 0x5C, CHR ''f'']
      else if c = CHR 0x0A then [CHR 0x5C, CHR ''n'']
      else if c = CHR 0x0D then [CHR 0x5C, CHR ''r'']
      else if c = CHR 0x09 then [CHR 0x5C, CHR ''t'']
      else if (of_char c :: nat) < 32 then
        CHR 0x5C # ''u00'' @ [if (of_char c :: nat) < 16 then CHR ''0'' else CHR ''1'']
          @ [let d = of_char c mod (16 :: nat) in char_of (if d < 10 then 48 + d else 87 + d)]
      else [c])"

definition esc_str :: "string \<Rightarrow> string" where
  "esc_str s = CHR 0x22 # concat (map esc_char s) @ [CHR 0x22]"

definition nl_indent :: "nat \<Rightarrow> string" where
  "nl_indent d = CHR 0x0A # replicate (2 * d) (CHR '' '')"

fun pretty :: "nat \<Rightarrow> json \<Rightarrow> string"
  and pretty_elems :: "nat \<Rightarrow> json list \<Rightarrow> string"
  and pretty_members :: "nat \<Rightarrow> (string \<times> json) list \<Rightarrow> string" where
  "pretty d JNull = ''null''"
| "pretty d (JBool b) = (if b then ''true'' else ''false'')"
| "pretty d (JNum r) = rat_str r"
| "pretty d (JStr s) = esc_str s"
| "pretty d (JArr []) = ''[]''"
| "pretty d (JArr (x # xs)) =
     CHR ''['' # pretty_elems (Suc d) (x # xs) @ nl_indent d @ '']''"
| "pretty d (JObj []) = ''{}''"
| "pretty d (JObj (m # ms)) =
     CHR ''{'' # pretty_members (Suc d) (m # ms) @ nl_indent d @ ''}''"
| "pretty_elems d [] = []"
| "pretty_elems d [x] = nl_indent d @ pretty d x"
| "pretty_elems d (x # y # xs) = nl_indent d @ pretty d x @ '','' @ pretty_elems d (y # xs)"
| "pretty_members d [] = []"
| "pretty_members d [(k, v)] = nl_indent d @ esc_str k @ '': '' @ pretty d v"
| "pretty_members d ((k, v) # m # ms) =
     nl_indent d @ esc_str k @ '': '' @ pretty d v @ '','' @ pretty_members d (m # ms)"

definition json_stringify :: "json \<Rightarrow> string" where
  "json_stringify v = pretty 0 v"

section \<open>Parsing\<close>

definition json_space :: "char \<Rightarrow> bool" where
  "json_space c \<longleftrightarrow> c = CHR '' '' \<or> c = CHR 0x0A \<or> c = CHR 0x0D \<or> c = CHR 0x09"

definition skip_ws :: "string \<Rightarrow> string" where
  "skip_ws s = dropWhile json_space s"

fun unesc :: "char \<Rightarrow> char option" where
  "unesc c =
     (if c = CHR 0x22 \<or> c = CHR 0x5C \<or> c = CHR ''/'' then Some c
      else if c = CHR ''b'' then Some (CHR 0x08)
      else if c = CHR ''f'' then Some (CHR 0x0C)
      else if c = CHR ''n'' then Some (CHR 0x0A)
      else if c = CHR ''r'' then Some (CHR 0x0D)
      else if c = CHR ''t'' then Some (CHR 0x09) else None)"

text \<open>The rest of a string after its opening quote; control characters must be escaped.\<close>

fun parse_str :: "string \<Rightarrow> (string \<times> string) option" where
  "parse_str [] = None"
| "parse_str (c # cs) =
     (if c = CHR 0x22 then Some ([], cs)
      else if c = CHR 0x5C then
        (case cs of
           [] \<Rightarrow> None
         | e # es \<Rightarrow>
             if e = CHR ''u'' then
               (case es of
                  h1 # h2 # h3 # h4 # rest \<Rightarrow>
                    (case (hex_val h1, hex_val h2, hex_val h3, hex_val h4) of
                       (Some 0, Some 0, Some a, Some b) \<Rightarrow>
                         map_option (\<lambda>(s, r). (char_of (16 * a + b) # s, r)) (parse_str rest)
                     | _ \<Rightarrow> None)
                | _ \<Rightarrow> None)
             else
               (case unesc e of
                  None \<Rightarrow> None
                | Some u \<Rightarrow> map_option (\<lambda>(s, r). (u # s, r)) (parse_str es)))
      else if (of_char c :: nat) < 32 then None
      else map_option (\<lambda>(s, r). (c # s, r)) (parse_str cs))"

definition num_char :: "char \<Rightarrow> bool" where
  "num_char c \<longleftrightarrow> is_digit c \<or> c \<in> set ''+-.eE''"

text \<open>A number: an optional minus, digits without a leading zero, fraction, exponent.\<close>

definition valid_number :: "string \<Rightarrow> bool" where
  "valid_number t =
     (let u = (case t of [] \<Rightarrow> [] | c # cs \<Rightarrow> if c = CHR ''-'' then cs else t);
          ip = takeWhile is_digit u; r = dropWhile is_digit u in
      ip \<noteq> [] \<and> (hd ip = CHR ''0'' \<longrightarrow> length ip = 1) \<and>
      (let r2 = (case r of [] \<Rightarrow> Some []
                 | c # cs \<Rightarrow> if c = CHR ''.'' then
                     (if takeWhile is_digit cs = [] then None else Some (dropWhile is_digit cs))
                   else Some r) in
       case r2 of
         None \<Rightarrow> False
       | Some [] \<Rightarrow> True
       | Some (e # es) \<Rightarrow> (e = CHR ''e'' \<or> e = CHR ''E'') \<and>
           (let ds = snd (parse_sign es) in ds \<noteq> [] \<and> list_all is_digit ds)))"

definition parse_num :: "string \<Rightarrow> (json \<times> string) option" where
  "parse_num s =
     (let t = takeWhile num_char s in
      if valid_number t then
        (case parse_float t of Fin r \<Rightarrow> Some (JNum r, dropWhile num_char s) | _ \<Rightarrow> None)
      else None)"

fun parse_value :: "nat \<Rightarrow> string \<Rightarrow> (json \<times> string) option"
  and parse_elems :: "nat \<Rightarrow> string \<Rightarrow> (json list \<times> string) option"
  and parse_members :: "nat \<Rightarrow> string \<Rightarrow> ((string \<times> json) list \<times> string) option" where
  "parse_value 0 s = None"
| "parse_value (Suc n) s =
     (case skip_ws s of
        [] \<Rightarrow> None
      | c # cs \<Rightarrow>
          if c = CHR 0x22 then map_option (\<lambda>(t, r). (JStr t, r)) (parse_str cs)
          else if c = CHR ''['' then
            (case skip_ws cs of
               [] \<Rightarrow> None
             | e # es \<Rightarrow>
                 if e = CHR '']'' then Some (JArr [], es)
                 else map_option (\<lambda>(xs, r). (JArr xs, r)) (parse_elems n (e # es)))
          else if c = CHR ''{'' then
            (case skip_ws cs of
               [] \<Rightarrow> None
             | e # es \<Rightarrow>
                 if e = CHR ''}'' then Some (JObj [], es)
                 else map_option (\<lambda>(ms, r). (JObj (fold (\<lambda>(k, v). AList.update k v) ms []), r))
                        (parse_members n (e # es)))
          else if prefix ''null'' (c # cs) then Some (JNull, drop 4 (c # cs))
          else if prefix ''true'' (c # cs) then Some (JBool True, drop 4 (c # cs))
          else if prefix ''false'' (c # cs) then Some (JBool False, drop 5 (c # cs))
          else parse_num (c # cs))"
| "parse_elems 0 s = None"
| "parse_elems (Suc n) s =
     (case parse_value n s of
        None \<Rightarrow> None
      | Some (v, r) \<Rightarrow>
          (case skip_ws r of
             [] \<Rightarrow> None
           | c # cs \<Rightarrow>
               if c = CHR '','' then map_option (\<lambda>(vs, t). (v # vs, t)) (parse_elems n cs)
               else if c = CHR '']'' then Some ([v], cs) else None))"
| "parse_members 0 s = None"
| "parse_members (Suc n) s =
     (case skip_ws s of
        [] \<Rightarrow> None
      | q # qs \<Rightarrow>
          if q \<noteq> CHR 0x22 then None
          else (case parse_str qs of
             None \<Rightarrow> None
           | Some (k, r) \<Rightarrow>
               (case skip_ws r of
                  [] \<Rightarrow> None
                | c # cs \<Rightarrow>
                    if c \<noteq> CHR '':'' then None
                    else (case parse_value n cs of
                       None \<Rightarrow> None
                     | Some (v, t) \<Rightarrow>
                         (case skip_ws t of
                            [] \<Rightarrow> None
                          | e # es \<Rightarrow>
                              if e = CHR '','' then
                                map_option (\<lambda>(ms, u). ((k, v) # ms, u)) (parse_members n es)
                              else if e = CHR ''}'' then Some ([(k, v)], es) else None)))))"

definition json_parse :: "string \<Rightarrow> json option" where
  "json_parse s =
     (case parse_value (Suc (length s)) s of
        None \<Rightarrow> None
      | Some (v, r) \<Rightarrow> if skip_ws r = [] then Some v else None)"

section \<open>Reading back what was printed\<close>

fun wf_json :: "json \<Rightarrow> bool" where
  "wf_json (JNum r) = decimal20 r"
| "wf_json (JArr xs) = (\<forall>x\<in>set xs. wf_json x)"
| "wf_json (JObj ms) = (distinct (map fst ms) \<and> (\<forall>m\<in>set ms. wf_json (snd m)))"
| "wf_json _ = True"

lemma skip_ws_indent [simp]: "skip_ws (nl_indent d @ s) = skip_ws s"
proof -
  have "dropWhile json_space (replicate n (CHR '' '') @ s) = dropWhile json_space s" for n
    by (induction n) (auto simp: json_space_def)
  then show ?thesis by (simp add: skip_ws_def nl_indent_def json_space_def)
qed

lemma skip_ws_Cons: "\<not> json_space c \<Longrightarrow> skip_ws (c # s) = c # s"
  by (simp add: skip_ws_def)

lemma skip_ws_simps [simp]:
  "skip_ws (CHR '','' # s) = CHR '','' # s" "skip_ws (CHR '']'' # s) = CHR '']'' # s"
  "skip_ws (CHR ''}'' # s) = CHR ''}'' # s" "skip_ws (CHR '':'' # s) = CHR '':'' # s"
  "skip_ws (CHR '' '' # s) = skip_ws s" "skip_ws [] = []"
  "skip_ws (CHR 0x22 # s) = CHR 0x22 # s" "skip_ws (CHR ''['' # s) = CHR ''['' # s"
  "skip_ws (CHR ''{'' # s) = CHR ''{'' # s" "skip_ws (CHR ''n'' # s) = CHR ''n'' # s"
  "skip_ws (CHR ''t'' # s) = CHR ''t'' # s" "skip_ws (CHR ''f'' # s) = CHR ''f'' # s"
  by (simp_all add: skip_ws_def json_space_def)

lemma hex_val_char_of: "d < 16 \<Longrightarrow> hex_val (char_of (if d < 10 then 48 + d else 87 + d)) = Some d"
  by (auto simp: hex_val_def Let_def)

lemma hex_val_zero: "hex_val (CHR ''0'') = Some 0"
  by (simp add: hex_val_def)

definition short_escapes :: "char list" where
  "short_escapes = [CHR 0x22, CHR 0x5C, CHR 0x08, CHR 0x0C, CHR 0x0A, CHR 0x0D, CHR 0x09]"

lemma parse_str_short:
  "c \<in> set short_escapes \<Longrightarrow> parse_str (esc_char c @ r) = map_option (\<lambda>(s, t). (c # s, t)) (parse_str r)"
  unfolding short_escapes_def set_simps insert_iff empty_iff
  by (elim disjE) (simp_all add: esc_char_def)

lemma esc_char_plain:
  "c \<notin> set short_escapes \<Longrightarrow> \<not> (of_char c :: nat) < 32 \<Longrightarrow> esc_char c = [c] \<and> c \<noteq> CHR 0x22 \<and> c \<noteq> CHR 0x5C"
  by (simp add: short_escapes_def esc_char_def)

lemma esc_char_control:
  "c \<notin> set short_escapes \<Longrightarrow> (of_char c :: nat) < 32 \<Longrightarrow>
   esc_char c = CHR 0x5C # ''u00'' @ [if (of_char c :: nat) < 16 then CHR ''0'' else CHR ''1'']
          @ [let d = of_char c mod (16 :: nat) in char_of (if d < 10 then 48 + d else 87 + d)]"
  by (simp add: short_escapes_def esc_char_def)

lemma parse_str_esc_char:
  "parse_str (esc_char c @ r) = map_option (\<lambda>(s, t). (c # s, t)) (parse_str r)"
proof (cases "c \<in> set short_escapes")
  case True
  then show ?thesis by (rule parse_str_short)
next
  case plain: False
  show ?thesis
  proof (cases "(of_char c :: nat) < 32")
    case True
    let ?n = "of_char c :: nat"
    let ?h = "if ?n < 16 then CHR ''0'' else CHR ''1''"
    let ?l = "let d = ?n mod 16 in char_of (if d < 10 then 48 + d else 87 + d) :: char"
    have "?n div 16 = (if ?n < 16 then 0 else 1)" using True by (cases "?n < 16") auto
    then have h: "hex_val ?h = Some (?n div 16)" by (simp add: hex_val_def)
    have l: "hex_val ?l = Some (?n mod 16)"
      using hex_val_char_of [of "?n mod 16"] by (simp add: Let_def)
    have c: "char_of (16 * (?n div 16) + ?n mod 16) = c"
      by (simp only: mult_div_mod_eq char_of_char)
    have "esc_char c @ r = CHR 0x5C # CHR ''u'' # CHR ''0'' # CHR ''0'' # ?h # ?l # r"
      using esc_char_control [OF plain True] by simp
    then show ?thesis
      by (simp only: parse_str.simps h l hex_val_zero list.case option.case prod.case c if_True if_False
          char.inject simp_thms not_Cons_self) simp
  next
    case False
    with esc_char_plain [OF plain False] show ?thesis by simp
  qed
qed

lemma parse_str_esc [simp]: "parse_str (concat (map esc_char s) @ CHR 0x22 # r) = Some (s, r)"
  by (induction s) (simp_all add: parse_str_esc_char)

lemma nat_str_no_leading_zero: "hd (nat_str n) = CHR ''0'' \<Longrightarrow> length (nat_str n) = 1"
proof (induction n rule: nat_str.induct)
  case (1 n)
  have nz: "m \<noteq> 0 \<Longrightarrow> hd (nat_str m) \<noteq> CHR ''0''" for m
  proof (induction m rule: nat_str.induct)
    case (1 m)
    show ?case
    proof (cases "m < 10")
      case True
      have "char_val (digit_char m) = m" using True by simp
      with "1.prems" True show ?thesis
        by (subst nat_str.simps) (auto simp: char_val_def)
    next
      case False
      then have "m div 10 \<noteq> 0" by simp
      with "1.IH" False show ?thesis by (subst nat_str.simps) (simp add: hd_append)
    qed
  qed
  show ?case
  proof (cases "n < 10")
    case True
    then show ?thesis by (subst nat_str.simps) simp
  next
    case False
    then show ?thesis using nz [of n] "1.prems" by simp
  qed
qed

fun jfuel :: "json \<Rightarrow> nat"
  and jfuels :: "json list \<Rightarrow> nat"
  and jfuelm :: "(string \<times> json) list \<Rightarrow> nat" where
  "jfuel (JArr xs) = Suc (jfuels xs)"
| "jfuel (JObj ms) = Suc (jfuelm ms)"
| "jfuel _ = 1"
| "jfuels [] = 0"
| "jfuels (x # xs) = Suc (max (jfuel x) (jfuels xs))"
| "jfuelm [] = 0"
| "jfuelm ((k, v) # ms) = Suc (max (jfuel v) (jfuelm ms))"

lemma length_nl_indent [simp]: "length (nl_indent d) = Suc (2 * d)"
  by (simp add: nl_indent_def)

lemma length_esc_str: "2 \<le> length (esc_str s)"
  by (simp add: esc_str_def)

lemma length_rat_str: "1 \<le> length (rat_str r)"
  using rat_str_not_Nil [of r] by (cases "rat_str r") auto

text \<open>The text is at least as long as the fuel its value needs.\<close>

lemma jfuel_length:
  "jfuel v \<le> length (pretty d v)"
  "xs \<noteq> [] \<Longrightarrow> jfuels xs \<le> length (pretty_elems d xs)"
  "ms \<noteq> [] \<Longrightarrow> jfuelm ms \<le> length (pretty_members d ms)"
proof (induction d v and d xs and d ms rule: pretty_pretty_elems_pretty_members.induct)
  case (3 d r)
  then show ?case using length_rat_str by simp
next
  case (4 d s)
  then show ?case using length_esc_str [of s] by simp
qed auto

definition stops_num :: "string \<Rightarrow> bool" where
  "stops_num r \<longleftrightarrow> r = [] \<or> \<not> num_char (hd r)"

lemma stops_num_simps [simp]:
  "stops_num []" "stops_num (CHR '','' # s)" "stops_num (nl_indent d @ s)"
  by (simp_all add: stops_num_def num_char_def is_digit_def nl_indent_def)

lemma num_char_digit: "is_digit c \<Longrightarrow> num_char c"
  by (simp add: num_char_def)

lemma rat_str_num_char: "\<forall>c\<in>set (rat_str r). num_char c"
  using rat_str_chars [of _ r] by (auto simp: num_char_def)

lemma takeWhile_rat_str:
  "stops_num s \<Longrightarrow> takeWhile num_char (rat_str r @ s) = rat_str r \<and> dropWhile num_char (rat_str r @ s) = s"
  using rat_str_num_char [of r]
  by (cases s) (auto simp: stops_num_def takeWhile_append2 dropWhile_append2)

text \<open>The shape of a printed number: sign, digits, and a fraction unless it is an integer.\<close>

lemma rat_str_shape:
  "\<exists>sg ip fp. rat_str r = sg @ ip @ fp \<and> (sg = [] \<or> sg = ''-'') \<and> ip \<noteq> [] \<and>
     (\<forall>c\<in>set ip. is_digit c) \<and> (hd ip = CHR ''0'' \<longrightarrow> length ip = 1) \<and>
     (fp = [] \<or> (\<exists>ds. fp = CHR ''.'' # ds \<and> ds \<noteq> [] \<and> (\<forall>c\<in>set ds. is_digit c)))"
proof -
  obtain p q where pq: "quotient_of r = (p, q)" by (cases "quotient_of r")
  have q: "0 < q" using quotient_of_denom_pos [OF pq] .
  have co: "coprime p q" using quotient_of_coprime [OF pq] .
  define m n where "m = nat \<bar>p\<bar>" and "n = nat q"
  define sg :: string where "sg = (if p < 0 then ''-'' else [])"
  define fp where "fp = (if q = 1 then [] else CHR ''.'' # frac_digits 20 (m mod n) n)"
  have eq: "rat_str r = sg @ nat_str (m div n) @ fp"
    by (simp add: rat_str_def pq Let_def m_def n_def sg_def fp_def)
  have "\<forall>c\<in>set (frac_digits 20 (m mod n) n). is_digit c"
    by (rule frac_digits_digits) (use q in \<open>simp add: n_def\<close>)
  moreover have "frac_digits 20 (m mod n) n \<noteq> []" if "q \<noteq> 1"
  proof -
    have "m mod n \<noteq> 0"
    proof
      assume "m mod n = 0"
      then have "n dvd m" by (simp add: dvd_eq_mod_eq_0)
      then have "int n dvd int m" by (simp only: of_nat_dvd_iff)
      then have "q dvd p" using q by (simp add: n_def m_def)
      from co this dvd_refl have "is_unit q" by (rule coprime_common_divisor)
      with q that show False by (simp add: zdvd1_eq)
    qed
    then show ?thesis using frac_digits_not_Nil [of "m mod n" 19 n] by (simp add: eval_nat_numeral)
  qed
  ultimately have "fp = [] \<or> (\<exists>ds. fp = CHR ''.'' # ds \<and> ds \<noteq> [] \<and> (\<forall>c\<in>set ds. is_digit c))"
    by (auto simp: fp_def)
  moreover have "sg = [] \<or> sg = ''-''" by (simp add: sg_def)
  ultimately show ?thesis
    using eq nat_str_digits nat_str_no_leading_zero nat_str_not_Nil by blast
qed

lemma valid_number_rat_str: "valid_number (rat_str r)"
proof -
  obtain sg ip fp where s: "rat_str r = sg @ ip @ fp" "sg = [] \<or> sg = ''-''" "ip \<noteq> []"
    "\<forall>c\<in>set ip. is_digit c" "hd ip = CHR ''0'' \<longrightarrow> length ip = 1"
    and fp: "fp = [] \<or> (\<exists>ds. fp = CHR ''.'' # ds \<and> ds \<noteq> [] \<and> (\<forall>c\<in>set ds. is_digit c))"
    using rat_str_shape [of r] by (elim exE conjE) (rule that)
  have hd: "hd ip \<noteq> CHR ''-''" using s(3,4) by (cases ip) auto
  have u: "(case rat_str r of [] \<Rightarrow> [] | c # cs \<Rightarrow> if c = CHR ''-'' then cs else rat_str r) = ip @ fp"
    using s(1,2,3) hd by (cases ip) auto
  have "takeWhile is_digit fp = []" "dropWhile is_digit fp = fp"
    using fp by auto
  then have t: "takeWhile is_digit (ip @ fp) = ip" "dropWhile is_digit (ip @ fp) = fp"
    using s(4) by simp_all
  show ?thesis
  proof (cases fp)
    case Nil
    show ?thesis unfolding valid_number_def u Let_def t using s(3,5) Nil by simp
  next
    case (Cons c ds)
    with fp have "c = CHR ''.''" "takeWhile is_digit ds = ds" "dropWhile is_digit ds = []" "ds \<noteq> []"
      by auto
    then show ?thesis unfolding valid_number_def u Let_def t using s(3,5) Cons by simp
  qed
qed

lemma parse_float_minus:
  assumes "s \<noteq> []" "is_digit (hd s)" "parse_float s = Fin v"
  shows "parse_float (CHR ''-'' # s) = Fin (- v)"
proof -
  have "trim_start s = s" "parse_sign s = (1, s)"
    using trim_start_digit [of s "[]"] parse_sign_digit [of s "[]"] assms by auto
  moreover have "\<not> prefix ''Infinity'' s" using assms(1,2) by (cases s) auto
  ultimately show ?thesis
    using assms(3)
    by (auto simp: parse_float_def trim_start_minus parse_sign_def Let_def split: prod.splits if_splits)
qed

lemma rat_str_neg:
  assumes "r < 0"
  shows "rat_str r = CHR ''-'' # rat_str (- r)"
proof -
  obtain p q where pq: "quotient_of r = (p, q)" by (cases "quotient_of r")
  have q: "0 < q" using quotient_of_denom_pos [OF pq] .
  have "r = of_int p / of_int q" using quotient_of_div [OF pq] .
  with assms q have p: "p < 0" by (simp add: divide_less_0_iff)
  have "quotient_of (- r) = (- p, q)" by (simp add: rat_uminus_code pq)
  with pq p show ?thesis by (simp add: rat_str_def Let_def)
qed

lemma parse_float_rat_str_all: "decimal20 r \<Longrightarrow> parse_float (rat_str r) = Fin r"
proof (cases "r < 0")
  case True
  assume d: "decimal20 r"
  have "decimal20 (- r)"
    using d by (cases "quotient_of r") (simp add: decimal20_def rat_uminus_code)
  then have pf: "parse_float (rat_str (- r)) = Fin (- r)" using True by (intro parse_float_rat_str) auto
  obtain sg ip fp where s: "rat_str (- r) = sg @ ip @ fp" "sg = [] \<or> sg = ''-''" "ip \<noteq> []"
    "\<forall>c\<in>set ip. is_digit c" using rat_str_shape [of "- r"] by (elim exE conjE) (rule that)
  obtain p q where pq: "quotient_of (- r) = (p, q)" by (cases "quotient_of (- r)")
  have "0 < q" "- r = of_int p / of_int q"
    using quotient_of_denom_pos [OF pq] quotient_of_div [OF pq] by auto
  then have "0 \<le> p" using True by (metis neg_0_le_iff_le less_imp_le of_int_0_le_iff zero_le_divide_iff not_less of_int_0_less_iff)
  then have "is_digit (hd (rat_str (- r)))"
    using pq nat_str_hd by (simp add: rat_str_def Let_def hd_append)
  with pf rat_str_neg [OF True] show ?thesis
    using parse_float_minus [of "rat_str (- r)" "- r"] by simp
next
  case False
  assume "decimal20 r"
  with False show ?thesis by (intro parse_float_rat_str) auto
qed

lemma parse_num_rat_str: "decimal20 r \<Longrightarrow> stops_num s \<Longrightarrow> parse_num (rat_str r @ s) = Some (JNum r, s)"
  by (simp add: parse_num_def takeWhile_rat_str valid_number_rat_str parse_float_rat_str_all)

text \<open>The member list of an object is rebuilt in order when its keys are distinct.\<close>

lemma update_fresh: "k \<notin> fst ` set al \<Longrightarrow> AList.update k v al = al @ [(k, v)]"
  by (induction al) auto

lemma fold_update_distinct:
  "distinct (map fst (acc @ ms)) \<Longrightarrow> fold (\<lambda>(k, v). AList.update k v) ms acc = acc @ ms"
proof (induction ms arbitrary: acc)
  case Nil
  then show ?case by simp
next
  case (Cons m ms)
  obtain k v where m: "m = (k, v)" by (cases m)
  with Cons.prems have "AList.update k v acc = acc @ [(k, v)]" by (intro update_fresh) auto
  with m Cons.IH [of "acc @ [(k, v)]"] Cons.prems show ?case by simp
qed

lemma parse_value_indent [simp]: "parse_value n (nl_indent d @ s) = parse_value n s"
  by (cases n) simp_all

lemma parse_value_blank [simp]: "parse_value n (CHR '' '' # s) = parse_value n s"
  by (cases n) simp_all

lemma parse_elems_indent [simp]: "parse_elems n (nl_indent d @ s) = parse_elems n s"
  by (cases n) simp_all

lemma parse_members_indent [simp]: "parse_members n (nl_indent d @ s) = parse_members n s"
  by (cases n) simp_all

lemma pretty_hd:
  "\<exists>c cs. pretty d v @ s = c # cs \<and> \<not> json_space c \<and> c \<noteq> CHR '']''"
proof (cases v)
  case (JNum r)
  obtain c cs where rs: "rat_str r = c # cs" using rat_str_not_Nil by (metis list.exhaust)
  then have "num_char c" using rat_str_num_char [of r] by simp
  then have "\<not> json_space c" "c \<noteq> CHR '']''"
    by (auto simp: num_char_def is_digit_def json_space_def)
  with JNum rs show ?thesis by simp
next
  case (JArr xs)
  then show ?thesis by (cases xs) (auto simp: json_space_def)
next
  case (JObj ms)
  then show ?thesis by (cases ms) (auto simp: json_space_def)
qed (auto simp: json_space_def esc_str_def)

lemma pretty_elems_hd:
  assumes "xs \<noteq> []"
  shows "\<exists>c cs. skip_ws (pretty_elems d xs @ s) = c # cs \<and> c \<noteq> CHR '']'' \<and>
     (\<forall>n. parse_elems n (pretty_elems d xs @ s) = parse_elems n (c # cs))"
proof -
  obtain x ys where xs: "xs = x # ys" using assms by (cases xs) auto
  obtain t where t: "pretty_elems d xs @ s = nl_indent d @ pretty d x @ t"
    using xs by (cases ys) auto
  obtain c cs where "pretty d x @ t = c # cs" "\<not> json_space c" "c \<noteq> CHR '']''"
    using pretty_hd by blast
  with t show ?thesis by (simp add: skip_ws_Cons)
qed

lemma parse_value_num:
  assumes "decimal20 r" "stops_num s"
  shows "parse_value (Suc n) (rat_str r @ s) = Some (JNum r, s)"
proof -
  obtain c cs where rs: "rat_str r = c # cs" using rat_str_not_Nil by (metis list.exhaust)
  then have "is_digit c \<or> c = CHR ''-'' \<or> c = CHR ''.''" using rat_str_chars [of c r] by simp
  then have sp: "\<not> json_space c"
    and c: "c \<noteq> CHR 0x22" "c \<noteq> CHR ''[''" "c \<noteq> CHR ''{''" "c \<noteq> CHR ''n''" "c \<noteq> CHR ''t''"
    "c \<noteq> CHR ''f''"
    by (auto simp: is_digit_def json_space_def)
  have "parse_num (c # cs @ s) = Some (JNum r, s)" using parse_num_rat_str [OF assms] rs by simp
  with sp c c [symmetric] rs show ?thesis by (simp add: skip_ws_Cons)
qed

lemma pretty_members_hd:
  assumes "ms \<noteq> []"
  shows "\<exists>cs. skip_ws (pretty_members d ms @ s) = CHR 0x22 # cs \<and>
     (\<forall>n. parse_members n (pretty_members d ms @ s) = parse_members n (CHR 0x22 # cs))"
proof -
  obtain k v ns where ms: "ms = (k, v) # ns" using assms by (cases ms) auto
  obtain t where t: "pretty_members d ms @ s = nl_indent d @ esc_str k @ t"
    using ms by (cases ns) auto
  then show ?thesis by (simp add: esc_str_def)
qed

text \<open>The three printers against the three parsers, by computation induction on the printers.\<close>

lemma parse_pretty:
  "wf_json v \<Longrightarrow> stops_num s \<Longrightarrow> jfuel v \<le> n \<Longrightarrow> parse_value n (pretty d v @ s) = Some (v, s)"
  "\<forall>x\<in>set xs. wf_json x \<Longrightarrow> xs \<noteq> [] \<Longrightarrow> jfuels xs \<le> n \<Longrightarrow>
     parse_elems n (pretty_elems d xs @ nl_indent e @ CHR '']'' # s) = Some (xs, s)"
  "\<forall>m\<in>set ms. wf_json (snd m) \<Longrightarrow> ms \<noteq> [] \<Longrightarrow> jfuelm ms \<le> n \<Longrightarrow>
     parse_members n (pretty_members d ms @ nl_indent e @ CHR ''}'' # s) = Some (ms, s)"
proof (induction d v and d xs and d ms arbitrary: n s and n s e and n s e
    rule: pretty_pretty_elems_pretty_members.induct)
  case (1 d)
  then show ?case by (cases n) auto
next
  case (2 d b)
  then show ?case by (cases n) auto
next
  case (3 d r)
  then obtain m where n: "n = Suc m" by (cases n) auto
  have "parse_value (Suc m) (rat_str r @ s) = Some (JNum r, s)"
    by (rule parse_value_num) (use 3 in simp_all)
  then show ?case by (simp only: n pretty.simps)
next
  case (4 d t)
  then show ?case by (cases n) (simp_all add: esc_str_def)
next
  case (5 d)
  then show ?case by (cases n) auto
next
  case (6 d x xs)
  then obtain m where n: "n = Suc m" "jfuels (x # xs) \<le> m" by (cases n) auto
  let ?t = "pretty_elems (Suc d) (x # xs) @ nl_indent d @ CHR '']'' # s"
  obtain c cs where c: "skip_ws ?t = c # cs" "c \<noteq> CHR '']''" "parse_elems m ?t = parse_elems m (c # cs)"
    using pretty_elems_hd [of "x # xs"] by blast
  have "parse_elems m ?t = Some (x # xs, s)" using "6.IH" "6.prems"(1) n by simp
  with c n show ?case by simp
next
  case (7 d)
  then show ?case by (cases n) auto
next
  case (8 d p ms)
  then obtain m where n: "n = Suc m" "jfuelm (p # ms) \<le> m" by (cases n) auto
  let ?t = "pretty_members (Suc d) (p # ms) @ nl_indent d @ CHR ''}'' # s"
  obtain cs where c: "skip_ws ?t = CHR 0x22 # cs" "parse_members m ?t = parse_members m (CHR 0x22 # cs)"
    using pretty_members_hd [of "p # ms"] by blast
  have "parse_members m ?t = Some (p # ms, s)" using "8.IH" "8.prems"(1) n by simp
  moreover have "fold (\<lambda>(k, v). AList.update k v) (p # ms) [] = p # ms"
    using fold_update_distinct [of "[]" "p # ms"] "8.prems"(1) by simp
  ultimately show ?case using c n by simp
next
  case (10 d x)
  then obtain m where "n = Suc m" by (cases n) auto
  with 10 show ?case by simp
next
  case (11 d x y xs)
  then obtain m where "n = Suc m" by (cases n) auto
  with 11 show ?case by simp
next
  case (13 d k v)
  then obtain m where "n = Suc m" by (cases n) auto
  with 13 show ?case by (simp add: esc_str_def)
next
  case (14 d k v p ms)
  then obtain m where "n = Suc m" by (cases n) auto
  with 14 show ?case by (simp add: esc_str_def)
qed auto

theorem json_parse_stringify:
  assumes "wf_json v"
  shows "json_parse (json_stringify v) = Some v"
proof -
  have "jfuel v \<le> Suc (length (pretty 0 v))" using jfuel_length(1) [of v 0] by simp
  with assms have "parse_value (Suc (length (pretty 0 v))) (pretty 0 v @ []) = Some (v, [])"
    by (intro parse_pretty(1)) simp_all
  then have "parse_value (Suc (length (pretty 0 v))) (pretty 0 v) = Some (v, [])"
    by (simp only: append_Nil2)
  then show ?thesis by (simp del: parse_value.simps add: json_parse_def json_stringify_def)
qed

end
