(* ===== verification/Collections.thy ===== *)
theory Collections
  imports Json "HOL-Library.Multiset"
begin

text \<open>
  Library collections of the source: \<open>Array.prototype.sort\<close> with a comparison function
  (stable, as the language requires), \<open>Set\<close> and \<open>Map\<close> in insertion order. The sort is an
  interface: a comparison that is total and transitive gets a sorted, stable permutation.
\<close>

section \<open>Sorting with a comparison function\<close>

fun insert_by :: "('a \<Rightarrow> 'a \<Rightarrow> int) \<Rightarrow> 'a \<Rightarrow> 'a list \<Rightarrow> 'a list" where
  "insert_by cmp x [] = [x]"
| "insert_by cmp x (y # ys) = (if cmp x y \<le> 0 then x # y # ys else y # insert_by cmp x ys)"

definition sort_by :: "('a \<Rightarrow> 'a \<Rightarrow> int) \<Rightarrow> 'a list \<Rightarrow> 'a list" where
  "sort_by cmp xs = foldr (insert_by cmp) xs []"

lemma sort_by_simps [simp]:
  "sort_by cmp [] = []" "sort_by cmp (x # xs) = insert_by cmp x (sort_by cmp xs)"
  by (simp_all add: sort_by_def)

lemma mset_insert_by [simp]: "mset (insert_by cmp x ys) = add_mset x (mset ys)"
  by (induction ys) auto

lemma mset_sort_by [simp]: "mset (sort_by cmp xs) = mset xs"
  by (induction xs) auto

lemma set_sort_by [simp]: "set (sort_by cmp xs) = set xs"
  by (metis mset_sort_by set_mset_mset)

lemma length_sort_by [simp]: "length (sort_by cmp xs) = length xs"
  by (metis mset_sort_by size_mset)

lemma distinct_sort_by [simp]: "distinct (sort_by cmp xs) = distinct xs"
  by (metis mset_sort_by mset_eq_imp_distinct_iff)

lemma filter_insert_by:
  assumes "\<And>a b. P a \<Longrightarrow> P b \<Longrightarrow> cmp a b \<le> 0"
  shows "filter P (insert_by cmp x ys) = (if P x then x # filter P ys else filter P ys)"
  using assms by (induction ys) auto

text \<open>Stability: elements that compare as equal keep their order.\<close>

lemma filter_sort_by:
  assumes "\<And>a b. P a \<Longrightarrow> P b \<Longrightarrow> cmp a b \<le> 0"
  shows "filter P (sort_by cmp xs) = filter P xs"
  using assms by (induction xs) (auto simp: filter_insert_by)

locale comparator =
  fixes cmp :: "'a \<Rightarrow> 'a \<Rightarrow> int"
  assumes cmp_total: "cmp x y \<le> 0 \<or> cmp y x \<le> 0"
    and cmp_trans: "cmp x y \<le> 0 \<Longrightarrow> cmp y z \<le> 0 \<Longrightarrow> cmp x z \<le> 0"
begin

lemma sorted_insert_by:
  "sorted_wrt (\<lambda>a b. cmp a b \<le> 0) ys \<Longrightarrow> sorted_wrt (\<lambda>a b. cmp a b \<le> 0) (insert_by cmp x ys)"
proof (induction ys)
  case Nil
  then show ?case by simp
next
  case (Cons y ys)
  have "set (insert_by cmp x ys) = insert x (set ys)"
    by (metis mset_insert_by set_mset_add_mset_insert set_mset_mset)
  then show ?case using Cons cmp_total cmp_trans by (fastforce)
qed

lemma sorted_sort_by: "sorted_wrt (\<lambda>a b. cmp a b \<le> 0) (sort_by cmp xs)"
  by (induction xs) (simp_all add: sorted_insert_by)

lemma sort_by_stable:
  "filter (\<lambda>y. cmp x y \<le> 0 \<and> cmp y x \<le> 0) (sort_by cmp xs)
    = filter (\<lambda>y. cmp x y \<le> 0 \<and> cmp y x \<le> 0) xs"
  by (rule filter_sort_by) (blast intro: cmp_trans)

text \<open>Sorting by a second comparison keeps the first one's order among equals.\<close>

lemma sort_by_keeps:
  assumes "sorted_wrt R xs"
  shows "sorted_wrt R (filter (\<lambda>y. cmp x y \<le> 0 \<and> cmp y x \<le> 0) (sort_by cmp xs))"
  using assms by (simp add: sort_by_stable sorted_wrt_filter)

end

text \<open>Comparing by a key of integers, \<open>(a, b) => f a - f b\<close>.\<close>

definition by_key :: "('a \<Rightarrow> int) \<Rightarrow> 'a \<Rightarrow> 'a \<Rightarrow> int" where
  "by_key f a b = f a - f b"

interpretation by_key: comparator "by_key f" for f :: "'a \<Rightarrow> int"
  by unfold_locales (auto simp: by_key_def)

lemma comparator_key: "comparator cmp \<Longrightarrow> comparator (\<lambda>a b. cmp (f a) (f b))"
  by (simp add: comparator_def)

text \<open>Comparing strings by their code points. The witnesses take it for \<open>localeCompare\<close>, whose order on
  names of lower-case letters and digits it is.\<close>

fun compare_codes :: "string \<Rightarrow> string \<Rightarrow> int" where
  "compare_codes [] [] = 0"
| "compare_codes [] (c # cs) = -1"
| "compare_codes (c # cs) [] = 1"
| "compare_codes (c # cs) (d # ds) =
     (if c = d then compare_codes cs ds else int (of_char c) - int (of_char d))"

lemma compare_codes: "comparator compare_codes"
proof
  have tri: "of_char c < (of_char d :: nat) \<or> c = d \<or> of_char d < (of_char c :: nat)" for c d
    by (metis linorder_less_linear of_char_eq_iff)
  show "compare_codes x y \<le> 0 \<or> compare_codes y x \<le> 0" for x y
    by (induction x y rule: compare_codes.induct) auto
  show "compare_codes x y \<le> 0 \<Longrightarrow> compare_codes y z \<le> 0 \<Longrightarrow> compare_codes x z \<le> 0" for x y z
  proof (induction x y arbitrary: z rule: compare_codes.induct)
    case (4 c cs d ds)
    then obtain e es where z: "z = e # es" by (cases z) auto
    show ?case
      using 4 z tri [of c d] tri [of d e] by (auto split: if_splits)
  next
    case (2 c cs)
    then show ?case by (cases z) auto
  qed (auto elim: compare_codes.elims)
qed

interpretation codes: comparator compare_codes
  by (rule compare_codes)

section \<open>Sets and maps in insertion order\<close>

definition set_add :: "'a list \<Rightarrow> 'a \<Rightarrow> 'a list" where
  "set_add xs x = (if x \<in> set xs then xs else xs @ [x])"

definition js_set :: "'a list \<Rightarrow> 'a list" where
  "js_set xs = foldl set_add [] xs"

lemma set_set_add [simp]: "set (set_add xs x) = insert x (set xs)"
  by (auto simp: set_add_def)

lemma distinct_set_add: "distinct xs \<Longrightarrow> distinct (set_add xs x)"
  by (auto simp: set_add_def)

lemma set_foldl_set_add [simp]: "set (foldl set_add acc xs) = set acc \<union> set xs"
  by (induction xs arbitrary: acc) auto

lemma distinct_foldl_set_add: "distinct acc \<Longrightarrow> distinct (foldl set_add acc xs)"
  by (induction xs arbitrary: acc) (auto intro: distinct_set_add)

lemma prefix_set_add: "prefix xs (set_add xs x)"
  by (simp add: set_add_def)

lemma prefix_foldl_set_add: "prefix acc (foldl set_add acc xs)"
proof (induction xs arbitrary: acc)
  case Nil
  then show ?case by simp
next
  case (Cons x xs)
  have "prefix acc (set_add acc x)" by (rule prefix_set_add)
  also have "prefix (set_add acc x) (foldl set_add (set_add acc x) xs)" by (rule Cons.IH)
  finally show ?case by simp
qed

lemma length_foldl_set_add: "length (foldl set_add acc xs) \<le> length acc + length xs"
proof (induction xs arbitrary: acc)
  case Nil
  then show ?case by simp
next
  case (Cons x xs)
  have "length (set_add acc x) \<le> Suc (length acc)" by (simp add: set_add_def)
  with Cons [of "set_add acc x"] show ?case by simp
qed

definition js_map :: "('k \<times> 'v) list \<Rightarrow> ('k \<times> 'v) list" where
  "js_map kvs = fold (\<lambda>(k, v). AList.update k v) kvs []"

text \<open>\<open>Array.from(new Map(...).values())\<close>.\<close>

definition map_values :: "('k \<times> 'v) list \<Rightarrow> 'v list" where
  "map_values m = map snd m"

lemma map_of_fold_update:
  "map_of (fold (\<lambda>(k, v). AList.update k v) kvs m) = map_of m ++ map_of (rev kvs)"
proof (induction kvs arbitrary: m)
  case Nil
  then show ?case by simp
next
  case (Cons p kvs)
  then show ?case by (cases p) (simp add: update_conv' map_add_upd fun_eq_iff map_add_def
      split: option.splits)
qed

lemma map_of_js_map: "map_of (js_map kvs) = map_of (rev kvs)"
  by (simp add: js_map_def map_of_fold_update)

lemma distinct_fold_update:
  "distinct (map fst m) \<Longrightarrow> distinct (map fst (fold (\<lambda>(k, v). AList.update k v) kvs m))"
  by (induction kvs arbitrary: m) (auto simp: distinct_update)

lemma distinct_js_map [simp]: "distinct (map fst (js_map kvs))"
  unfolding js_map_def by (rule distinct_fold_update) simp

lemma js_map_subset: "set (js_map kvs) \<subseteq> set kvs"
proof
  fix p assume p: "p \<in> set (js_map kvs)"
  obtain k v where kv: "p = (k, v)" by (cases p)
  with p have "map_of (js_map kvs) k = Some v" by (simp add: map_of_eq_Some_iff)
  then have "map_of (rev kvs) k = Some v" by (simp add: map_of_js_map)
  with kv show "p \<in> set kvs" using map_of_SomeD by fastforce
qed

lemma js_map_keys: "fst ` set (js_map kvs) = fst ` set kvs"
proof -
  have "dom (map_of (js_map kvs)) = dom (map_of (rev kvs))" by (simp add: map_of_js_map)
  then show ?thesis by (simp add: dom_map_of_conv_image_fst)
qed

section \<open>Property stores\<close>

text \<open>
  The contract of an object used as a dictionary, as the modules below use it: reading
  after writing, reading after deleting. The association lists of the model satisfy it.
\<close>

locale property_store =
  fixes get :: "'o \<Rightarrow> string \<Rightarrow> 'v option"
    and put :: "string \<Rightarrow> 'v \<Rightarrow> 'o \<Rightarrow> 'o"
    and del :: "string \<Rightarrow> 'o \<Rightarrow> 'o"
  assumes get_put: "get (put k v m) k' = (if k' = k then Some v else get m k')"
    and get_del: "get (del k m) k' = (if k' = k then None else get m k')"
begin

lemma get_put_same: "get (put k v m) k = Some v"
  by (simp add: get_put)

lemma get_put_other: "k' \<noteq> k \<Longrightarrow> get (put k v m) k' = get m k'"
  by (simp add: get_put)

lemma get_puts:
  "get (fold (\<lambda>(k, v). put k v) kvs m) k
    = (case map_of (rev kvs) k of None \<Rightarrow> get m k | Some v \<Rightarrow> Some v)"
proof (induction kvs arbitrary: m)
  case Nil
  then show ?case by simp
next
  case (Cons p kvs)
  then show ?case
    by (cases p) (auto simp: get_put map_add_def split: option.splits)
qed

text \<open>Taking two keys out and putting them back restores every reading.\<close>

lemma del_put_restore:
  assumes "get m a = Some va" "get m b = Some vb"
  shows "get (put b vb (put a va (del b (del a m)))) k = get m k"
  using assms by (simp add: get_put get_del)

end

interpretation obj: property_store map_of AList.update AList.delete
  by unfold_locales (auto simp: update_conv' delete_conv')

end
