(* ===== verification/Resources.thy ===== *)
theory Resources
  imports Collections
begin

text \<open>
  \<open>utils/resource.ts\<close> and \<open>utils/quota.ts\<close>: Kubernetes resource quantities as strings
  against the numbers of the forms. The functions that show a toast return the messages
  shown, in order, beside their result; those that write into their argument return the
  argument as it is afterwards.
\<close>

type_synonym resource_list = "strobj option"

record resources =
  res_cpu :: "number option"
  res_memory :: "number option"
  res_others :: "strobj option"

section \<open>Single quantities\<close>

definition convertKResourceToResource :: "string \<Rightarrow> string option \<Rightarrow> string list \<times> number option" where
  "convertKResourceToResource key value =
     (case value of
        None \<Rightarrow> ([], None)
      | Some v \<Rightarrow>
          if v = [] then ([], None)
          else if key = ''cpu'' then
            ([], Some (if str_includes v ''m'' then num_div (parse_float (replace_first ''m'' [] v)) (Fin 1000)
                       else parse_float v))
          else if key = ''memory'' then
            (if str_includes v ''Ki'' then
               ([], Some (num_div (num_div (parse_int (replace_first ''Ki'' [] v)) (Fin 1024)) (Fin 1024)))
             else if str_includes v ''Mi'' then
               ([], Some (num_div (parse_int (replace_first ''Mi'' [] v)) (Fin 1024)))
             else if str_includes v ''Gi'' then ([], Some (parse_int (replace_first ''Gi'' [] v)))
             else if str_includes v ''Ti'' then
               ([], Some (num_mul (parse_int (replace_first ''Ti'' [] v)) (Fin 1024)))
             else ([''Invalid memory '' @ v @ '' with unrecognized unit''], Some (Fin 0)))
          else ([], Some (parse_int v)))"

definition betterResourceQuantity :: "string \<Rightarrow> number option \<Rightarrow> bool \<Rightarrow> string" where
  "betterResourceQuantity key value withUnit =
     (case value of
        None \<Rightarrow> []
      | Some v \<Rightarrow>
          if key = ''cpu'' then
            (if withUnit then num_str (num_floor v) @ ''C'' else num_str (num_floor v))
          else if key = ''memory'' then
            (if num_less (Fin 1024) v then
               (if withUnit then num_str (num_floor (num_div v (Fin 1024))) @ ''Ti''
                else num_str (num_floor (num_div v (Fin 1024))))
             else if withUnit then num_str (num_floor v) @ ''Gi''
             else num_str (num_floor v))
          else num_str v)"

text \<open>The template literal prints an undefined value as \<open>undefined\<close>.\<close>

definition opt_num_str :: "number option \<Rightarrow> string" where
  "opt_num_str v = (case v of None \<Rightarrow> ''undefined'' | Some x \<Rightarrow> num_str x)"

definition convertResourceToKResource :: "string \<Rightarrow> number option \<Rightarrow> string" where
  "convertResourceToKResource key value =
     (if key = ''cpu'' then opt_num_str value
      else if key = ''memory'' then opt_num_str value @ ''Gi''
      else opt_num_str value)"

section \<open>Whole resource lists\<close>

text \<open>
  \<open>others\<close> is the argument itself, not a copy: after \<open>delete others.cpu\<close> and
  \<open>delete others.memory\<close> the caller's object has lost both keys. The third component is the
  argument as the call leaves it.
\<close>

definition convertToResources :: "resource_list \<Rightarrow> string list \<times> resources \<times> resource_list" where
  "convertToResources rs =
     (case rs of
        None \<Rightarrow> ([], \<lparr>res_cpu = Some (Fin 0), res_memory = Some (Fin 0), res_others = Some []\<rparr>, None)
      | Some m \<Rightarrow>
          (let (t1, cpu) = convertKResourceToResource ''cpu'' (map_of m ''cpu'');
               (t2, memory) = convertKResourceToResource ''memory'' (map_of m ''memory'');
               others = AList.delete ''memory'' (AList.delete ''cpu'' m) in
           (t1 @ t2, \<lparr>res_cpu = cpu, res_memory = memory, res_others = Some others\<rparr>, Some others)))"

text \<open>
  The result is the object \<open>others\<close> when there is one, written into in place; the second
  component is \<open>resources\<close> afterwards.
\<close>

definition convertToK8sResources :: "resources \<Rightarrow> strobj \<times> resources" where
  "convertToK8sResources r =
     (let cpu = (case res_cpu r of
                   Some c \<Rightarrow> if num_less (Fin (-1)) c then Some (num_str c) else None | None \<Rightarrow> None);
          memory = (case res_memory r of
                   Some c \<Rightarrow> if num_less (Fin (-1)) c then Some (num_str c @ ''Gi'') else None | None \<Rightarrow> None);
          k0 = (case res_others r of None \<Rightarrow> [] | Some m \<Rightarrow> m);
          k1 = (case cpu of None \<Rightarrow> k0 | Some c \<Rightarrow> AList.update ''cpu'' c k0);
          k2 = (case memory of None \<Rightarrow> k1 | Some c \<Rightarrow> AList.update ''memory'' c k1) in
      (k2, if res_others r = None then r else r\<lparr>res_others := Some k2\<rparr>))"

definition hasNvidiaGPU :: "resource_list \<Rightarrow> bool" where
  "hasNvidiaGPU rs =
     (case rs of None \<Rightarrow> False | Some m \<Rightarrow> list_ex (\<lambda>k. starts_with k ''nvidia.com/'') (map fst m))"

section \<open>Quotas\<close>

record quota =
  guaranteed :: "strobj option"
  deserved :: "strobj option"
  capability :: "strobj option"

text \<open>A row of the quota form; \<open>None\<close> is an undefined or null amount.\<close>

record quota_row =
  qr_name :: string
  qr_guaranteed :: "number option"
  qr_deserved :: "number option"
  qr_capability :: "number option"

definition nonNegativeNumberSchema :: "number option \<Rightarrow> bool" where
  "nonNegativeNumberSchema v =
     (case v of None \<Rightarrow> True | Some x \<Rightarrow> is_nan x \<or> (is_finite_num x \<and> num_le (Fin 0) x))"

definition quotaSchema :: "quota_row list \<Rightarrow> bool" where
  "quotaSchema rows =
     list_all (\<lambda>r. 1 \<le> length (qr_name r) \<and> nonNegativeNumberSchema (qr_guaranteed r)
        \<and> nonNegativeNumberSchema (qr_deserved r) \<and> nonNegativeNumberSchema (qr_capability r)) rows"

definition quota_lookup :: "strobj option \<Rightarrow> string \<Rightarrow> string option" where
  "quota_lookup m k = (case m of None \<Rightarrow> None | Some o' \<Rightarrow> map_of o' k)"

definition convertQuotaToForm :: "quota \<Rightarrow> string list option \<Rightarrow> quota_row list" where
  "convertQuotaToForm q resourceTypes =
     (case resourceTypes of
        None \<Rightarrow> []
      | Some names \<Rightarrow>
          map (\<lambda>name. \<lparr>qr_name = name,
             qr_guaranteed = snd (convertKResourceToResource name (quota_lookup (guaranteed q) name)),
             qr_deserved = snd (convertKResourceToResource name (quota_lookup (deserved q) name)),
             qr_capability = snd (convertKResourceToResource name (quota_lookup (capability q) name))\<rparr>)
            names)"

text \<open>An amount that is present and not \<open>NaN\<close> is written under the row's name.\<close>

definition put_amount :: "string \<Rightarrow> number option \<Rightarrow> strobj \<Rightarrow> strobj" where
  "put_amount name v m =
     (case v of None \<Rightarrow> m
      | Some x \<Rightarrow> if is_nan x then m else AList.update name (convertResourceToKResource name (Some x)) m)"

definition convertFormToQuota :: "quota_row list \<Rightarrow> quota" where
  "convertFormToQuota form =
     (let (g, d, c) =
        foldl (\<lambda>(g, d, c) r. (put_amount (qr_name r) (qr_guaranteed r) g,
                              put_amount (qr_name r) (qr_deserved r) d,
                              put_amount (qr_name r) (qr_capability r) c)) ([], [], []) form in
      \<lparr>guaranteed = Some g, deserved = Some d, capability = Some c\<rparr>)"

section \<open>Reading back a printed quantity\<close>

lemma str_includes_chars: "str_includes s p \<Longrightarrow> c \<in> set p \<Longrightarrow> c \<in> set s"
  using str_includes_set by blast

lemma rat_str_no_letter:
  "\<not> is_digit c \<Longrightarrow> c \<noteq> CHR ''-'' \<Longrightarrow> c \<noteq> CHR ''.'' \<Longrightarrow> c \<notin> set (rat_str r)"
  using rat_str_chars by blast

text \<open>\<open>parseInt\<close> of a printed nonnegative number, whatever unit follows, is its floor.\<close>

lemma parse_int_rat_str:
  assumes "0 \<le> r" "stops_digits s"
  shows "parse_int (rat_str r @ s) = Fin (of_int \<lfloor>r\<rfloor>)"
proof -
  obtain p q where pq: "quotient_of r = (p, q)" by (cases "quotient_of r")
  have q: "0 < q" using quotient_of_denom_pos [OF pq] .
  have r: "r = of_int p / of_int q" using quotient_of_div [OF pq] .
  have p: "0 \<le> p" using assms(1) r q by (simp add: zero_le_divide_iff)
  define t where "t = (if q = 1 then [] else CHR ''.'' # frac_digits 20 (nat p mod nat q) (nat q)) @ s"
  have t: "stops_digits t" using assms(2) by (simp add: t_def stops_digits_def)
  have "rat_str r @ s = nat_str (nat p div nat q) @ t"
    using pq p by (simp add: rat_str_def Let_def t_def)
  then have "parse_int (rat_str r @ s) = Fin (of_nat (nat p div nat q))"
    using parse_int_nat_str [OF t] by simp
  moreover have "\<lfloor>r\<rfloor> = p div q" using r by (simp add: floor_divide_of_int_eq)
  moreover have "int (nat p div nat q) = p div q" using p q by (simp add: zdiv_int)
  ultimately show ?thesis by (metis of_int_of_nat_eq)
qed

lemma convertK_memory_Gi:
  assumes "0 \<le> r"
  shows "convertKResourceToResource ''memory'' (Some (rat_str r @ ''Gi'')) = ([], Some (Fin (of_int \<lfloor>r\<rfloor>)))"
proof -
  have no: "c \<notin> set (rat_str r @ ''Gi'')" if "c \<in> {CHR ''K'', CHR ''M''}" for c
    using that by (auto simp: rat_str_no_letter)
  have "\<not> str_includes (rat_str r @ ''Gi'') ''Ki''"
    by (rule not_includes_char [of "CHR ''K''"]) (use no in simp_all)
  moreover have "\<not> str_includes (rat_str r @ ''Gi'') ''Mi''"
    by (rule not_includes_char [of "CHR ''M''"]) (use no in simp_all)
  moreover have "replace_first ''Gi'' [] (rat_str r @ ''Gi'') = rat_str r"
    using replace_first_suffix [of "''Gi''" "CHR ''G''" "''i''" "rat_str r" "[]"]
    by (simp add: rat_str_no_letter)
  moreover have "str_includes (rat_str r @ ''Gi'') ''Gi''" by auto
  moreover have "parse_int (rat_str r) = Fin (of_int \<lfloor>r\<rfloor>)"
    using parse_int_rat_str [OF assms, of "[]"] by (simp add: stops_digits_def)
  ultimately show ?thesis by (simp add: convertKResourceToResource_def)
qed

lemma convertK_cpu:
  assumes "0 \<le> r" "decimal20 r"
  shows "convertKResourceToResource ''cpu'' (Some (rat_str r)) = ([], Some (Fin r))"
proof -
  have "\<not> str_includes (rat_str r) ''m''"
    by (rule not_includes_char [of "CHR ''m''"]) (simp_all add: rat_str_no_letter)
  then show ?thesis
    using assms by (simp add: convertKResourceToResource_def parse_float_rat_str)
qed

lemma convertK_other:
  assumes "0 \<le> r" "k \<noteq> ''cpu''" "k \<noteq> ''memory''"
  shows "convertKResourceToResource k (Some (rat_str r)) = ([], Some (Fin (of_int \<lfloor>r\<rfloor>)))"
  using assms parse_int_rat_str [OF assms(1), of "[]"]
  by (simp add: convertKResourceToResource_def stops_digits_def)

text \<open>What a saved amount reads back as: CPU exactly, every other resource rounded down.\<close>

definition reload_amount :: "string \<Rightarrow> number option \<Rightarrow> number option" where
  "reload_amount k v =
     (case v of Some (Fin r) \<Rightarrow> Some (Fin (if k = ''cpu'' then r else of_int \<lfloor>r\<rfloor>)) | _ \<Rightarrow> None)"

definition amount_ok :: "number option \<Rightarrow> bool" where
  "amount_ok v = (case v of Some (Fin r) \<Rightarrow> 0 \<le> r \<and> decimal20 r | Some x \<Rightarrow> is_nan x | None \<Rightarrow> True)"

lemma reload_stored:
  assumes "0 \<le> r" "decimal20 r"
  shows "convertKResourceToResource k (Some (convertResourceToKResource k (Some (Fin r))))
    = ([], reload_amount k (Some (Fin r)))"
  using assms
  by (simp add: convertResourceToKResource_def opt_num_str_def reload_amount_def convertK_cpu
      convertK_memory_Gi convertK_other)

lemma convertK_None [simp]: "convertKResourceToResource k None = ([], None)"
  by (simp add: convertKResourceToResource_def)

section \<open>The quota form and the stored quota\<close>

text \<open>Each amount column is stored by the same fold.\<close>

definition put_column :: "(quota_row \<Rightarrow> number option) \<Rightarrow> quota_row list \<Rightarrow> strobj \<Rightarrow> strobj" where
  "put_column f form m = foldl (\<lambda>m r. put_amount (qr_name r) (f r) m) m form"

lemma convertFormToQuota_columns:
  "convertFormToQuota form =
     \<lparr>guaranteed = Some (put_column qr_guaranteed form []),
      deserved = Some (put_column qr_deserved form []),
      capability = Some (put_column qr_capability form [])\<rparr>"
proof -
  have "foldl (\<lambda>(g, d, c) r. (put_amount (qr_name r) (qr_guaranteed r) g,
          put_amount (qr_name r) (qr_deserved r) d, put_amount (qr_name r) (qr_capability r) c)) (g, d, c) form
      = (put_column qr_guaranteed form g, put_column qr_deserved form d, put_column qr_capability form c)"
    for g d c
    by (induction form arbitrary: g d c) (simp_all add: put_column_def)
  then show ?thesis by (simp add: convertFormToQuota_def)
qed

lemma map_of_put_amount:
  "map_of (put_amount n v m) k =
     (if k = n \<and> v \<noteq> None \<and> v \<noteq> Some NaN then Some (convertResourceToKResource n v) else map_of m k)"
  by (cases v) (auto simp: put_amount_def obj.get_put elim: is_nan.elims split: number.splits)

lemma put_column_other: "k \<notin> qr_name ` set form \<Longrightarrow> map_of (put_column f form m) k = map_of m k"
  by (induction form arbitrary: m) (auto simp: put_column_def map_of_put_amount)

lemma put_column_row:
  "distinct (map qr_name form) \<Longrightarrow> row \<in> set form \<Longrightarrow>
   map_of (put_column f form m) (qr_name row) = map_of (put_amount (qr_name row) (f row) m) (qr_name row)"
proof (induction form arbitrary: m)
  case Nil
  then show ?case by simp
next
  case (Cons r form)
  have step: "put_column f (r # form) m = put_column f form (put_amount (qr_name r) (f r) m)"
    by (simp add: put_column_def)
  show ?case
  proof (cases "row = r")
    case True
    with Cons.prems step show ?thesis by (simp add: put_column_other)
  next
    case False
    with Cons.prems have row: "row \<in> set form" by simp
    with Cons.prems have "qr_name row \<noteq> qr_name r" by (metis distinct.simps(2) image_eqI list.map(2) set_map)
    with row Cons step show ?thesis by (simp add: map_of_put_amount)
  qed
qed

lemma reload_column:
  assumes "distinct (map qr_name form)" "row \<in> set form" "amount_ok (f row)"
  shows "snd (convertKResourceToResource (qr_name row)
      (quota_lookup (Some (put_column f form [])) (qr_name row))) = reload_amount (qr_name row) (f row)"
proof (cases "f row")
  case None
  then show ?thesis
    using put_column_row [OF assms(1,2), of f "[]"]
    by (simp add: quota_lookup_def map_of_put_amount reload_amount_def)
next
  case (Some x)
  then show ?thesis
    using put_column_row [OF assms(1,2), of f "[]"] assms(3)
    by (cases x) (simp_all add: quota_lookup_def map_of_put_amount reload_stored amount_ok_def
        reload_amount_def [of _ "Some NaN"])
qed

definition reload_row :: "quota_row \<Rightarrow> quota_row" where
  "reload_row r = \<lparr>qr_name = qr_name r,
     qr_guaranteed = reload_amount (qr_name r) (qr_guaranteed r),
     qr_deserved = reload_amount (qr_name r) (qr_deserved r),
     qr_capability = reload_amount (qr_name r) (qr_capability r)\<rparr>"



section \<open>Reading quantities\<close>

lemma unit_free:
  assumes "u \<in> {''Ki'', ''Mi'', ''Gi'', ''Ti''}" "w \<in> {''Ki'', ''Mi'', ''Gi'', ''Ti''}" "u \<noteq> w"
  shows "\<not> str_includes (nat_str n @ u) w"
proof -
  show ?thesis
    by (rule not_includes_char [of "hd w"]) (use assms in \<open>auto simp: nat_str_free is_digit_def\<close>)
qed

lemma unit_removed:
  assumes "u \<in> {''Ki'', ''Mi'', ''Gi'', ''Ti''}"
  shows "replace_first u [] (nat_str n @ u) = nat_str n"
proof -
  have "hd u \<notin> set (nat_str n)" using assms by (auto simp: nat_str_free is_digit_def)
  then show ?thesis
    using replace_first_suffix [of u "hd u" "tl u" "nat_str n" "[]"] assms by auto
qed


lemma parse_int_nat_str_all: "parse_int (nat_str n) = Fin (of_nat n)"
  using parse_int_nat_str [of "[]" n] by (simp add: stops_digits_def)

lemma quantity_Gi:
  "convertKResourceToResource ''memory'' (Some (nat_str n @ ''Gi'')) = ([], Some (Fin (of_nat n)))"
proof -
  have "str_includes (nat_str n @ ''Gi'') ''Gi''" by auto
  then show ?thesis
    by (simp add: convertKResourceToResource_def unit_free unit_removed parse_int_nat_str_all)
qed

text \<open>A stored memory quantity is read in Gi whatever its unit: Ki, Mi, Gi and Ti are scaled by the
  powers of 1024 between the units; a quantity with none of the units is reported and read as 0; CPU in
  millicores is read in cores.\<close>

theorem quantity_units:
  "convertKResourceToResource ''memory'' (Some (nat_str n @ ''Ki'')) = ([], Some (Fin (of_nat n / 1048576))) \<and>
   convertKResourceToResource ''memory'' (Some (nat_str n @ ''Mi'')) = ([], Some (Fin (of_nat n / 1024))) \<and>
   convertKResourceToResource ''memory'' (Some (nat_str n @ ''Gi'')) = ([], Some (Fin (of_nat n))) \<and>
   convertKResourceToResource ''memory'' (Some (nat_str n @ ''Ti'')) = ([], Some (Fin (1024 * of_nat n))) \<and>
   convertKResourceToResource ''memory'' (Some (nat_str n)) =
     ([''Invalid memory '' @ nat_str n @ '' with unrecognized unit''], Some (Fin 0)) \<and>
   convertKResourceToResource ''cpu'' (Some (nat_str n @ ''m'')) = ([], Some (Fin (of_nat n / 1000)))"
proof -
  have m: "replace_first ''m'' [] (nat_str n @ ''m'') = nat_str n"
    using replace_first_suffix [of "''m''" "CHR ''m''" "[]" "nat_str n" "[]"]
    by (simp add: nat_str_free is_digit_def)
  have "str_includes (nat_str n @ ''m'') ''m''" by auto
  moreover have "nat_str n = rat_str (of_nat n)"
    using rat_str_of_int [of "int n"] by (simp add: int_str_def)
  moreover have "decimal20 (of_nat n)" by (simp add: decimal20_def)
  ultimately have cpu: "convertKResourceToResource ''cpu'' (Some (nat_str n @ ''m'')) = ([], Some (Fin (of_nat n / 1000)))"
    using m by (simp add: convertKResourceToResource_def parse_float_rat_str)
  have "\<not> str_includes (nat_str n) u" if "u \<in> {''Ki'', ''Mi'', ''Gi'', ''Ti''}" for u
    by (rule not_includes_char [of "hd u"]) (use that in \<open>auto simp: nat_str_free is_digit_def\<close>)
  moreover have "str_includes (nat_str n @ u) u" for u by auto
  ultimately show ?thesis
    using cpu by (simp add: convertKResourceToResource_def unit_free unit_removed parse_int_nat_str_all)
qed

text \<open>Splitting a Kubernetes resource list for a form and joining it again gives every entry back, for
  a list whose CPU and memory were written by the form (memory in whole Gi). The split itself takes
  \<open>cpu\<close> and \<open>memory\<close> out of the caller's own object, and the join puts both back into that object.\<close>

theorem k8s_resources_round_trip:
  assumes "0 \<le> c" "decimal20 c"
    and "map_of m ''cpu'' = Some (rat_str c)" "map_of m ''memory'' = Some (nat_str g @ ''Gi'')"
  shows "let (toasts, r, arg) = convertToResources (Some m); (k, r') = convertToK8sResources r in
    toasts = [] \<and> res_cpu r = Some (Fin c) \<and> res_memory r = Some (Fin (of_nat g)) \<and>
    map_of k = map_of m \<and> res_others r' = Some k \<and>
    arg = res_others r \<and> map_of (the arg) = (map_of m)(''cpu'' := None, ''memory'' := None)"
proof -
  have g: "convertKResourceToResource ''memory'' (Some (nat_str g @ ''Gi'')) = ([], Some (Fin (of_nat g)))"
    and cpu: "convertKResourceToResource ''cpu'' (Some (rat_str c)) = ([], Some (Fin c))"
    using quantity_Gi convertK_cpu [OF assms(1,2)] by blast+
  have n: "num_str (Fin (of_nat g)) = nat_str g"
    using rat_str_of_int [of "int g"] by (simp add: int_str_def)
  define d where "d = AList.delete ''memory'' (AList.delete ''cpu'' m)"
  define r where "r = \<lparr>res_cpu = Some (Fin c), res_memory = Some (Fin (of_nat g)), res_others = Some d\<rparr>"
  define k where "k = AList.update ''memory'' (nat_str g @ ''Gi'') (AList.update ''cpu'' (rat_str c) d)"
  have split: "convertToResources (Some m) = ([], r, Some d)"
    using assms(3,4) g cpu by (simp add: convertToResources_def r_def d_def Let_def)
  have join: "convertToK8sResources r = (k, r\<lparr>res_others := Some k\<rparr>)"
    using assms(1) n by (simp add: convertToK8sResources_def r_def k_def Let_def)
  have "map_of d = (map_of m)(''cpu'' := None, ''memory'' := None)"
    by (auto simp: d_def obj.get_del)
  moreover have "map_of k = map_of m"
    using assms(3,4) by (auto simp: k_def d_def obj.get_put obj.get_del)
  ultimately show ?thesis by (simp add: split join) (simp add: r_def)
qed

theorem k8s_resources_round_trip_witness:
  "map_of (fst (convertToK8sResources (fst (snd (convertToResources
     (Some [(''cpu'', ''2''), (''memory'', ''8Gi''), (''nvidia.com/a100'', ''1'')])))))) ''nvidia.com/a100'' = Some ''1''"
proof -
  have eqs: "rat_str 2 = ''2''" "nat_str 8 = ''8''" and dec: "decimal20 2" by code_simp+
  show ?thesis
    using k8s_resources_round_trip [of 2 "[(''cpu'', ''2''), (''memory'', ''8Gi''), (''nvidia.com/a100'', ''1'')]" 8] dec
    by (auto simp: eqs split: prod.splits)
qed

end
