(* ===== verification/Wire.thy ===== *)
theory Wire
  imports Resources
begin

text \<open>
  Requests as the client layer builds them (\<open>services/client.ts\<close>, the helpers
  \<open>apiV1Get\<close> to \<open>apiDelete\<close>): method, URL relative to the \<open>/api\<close> prefix, search parameters and
  JSON body. The calls of \<open>services/api\<close> are functions into this type; what happens to a
  request after that is in \<open>Client\<close>.
\<close>

datatype http_method = GET | POST | PUT | DELETE | MKCOL

record http_request =
  rq_method :: http_method
  rq_url :: string
  rq_query :: "(string \<times> json) list"
  rq_body :: "json option"

definition apiGet :: "string \<Rightarrow> (string \<times> json) list \<Rightarrow> http_request" where
  [wire_defs]: "apiGet url searchParams = \<lparr>rq_method = GET, rq_url = url, rq_query = searchParams, rq_body = None\<rparr>"

definition apiPost :: "string \<Rightarrow> json option \<Rightarrow> http_request" where
  [wire_defs]: "apiPost url json = \<lparr>rq_method = POST, rq_url = url, rq_query = [], rq_body = json\<rparr>"

definition apiPut :: "string \<Rightarrow> json option \<Rightarrow> http_request" where
  [wire_defs]: "apiPut url json = \<lparr>rq_method = PUT, rq_url = url, rq_query = [], rq_body = json\<rparr>"

definition apiDelete :: "string \<Rightarrow> json option \<Rightarrow> http_request" where
  [wire_defs]: "apiDelete url json = \<lparr>rq_method = DELETE, rq_url = url, rq_query = [], rq_body = json\<rparr>"

definition apiV1Get :: "string \<Rightarrow> (string \<times> json) list \<Rightarrow> http_request" where
  [wire_defs]: "apiV1Get url searchParams =
     \<lparr>rq_method = GET, rq_url = ''v1/'' @ url, rq_query = searchParams, rq_body = None\<rparr>"

definition apiV1Post :: "string \<Rightarrow> json option \<Rightarrow> http_request" where
  [wire_defs]: "apiV1Post url json = \<lparr>rq_method = POST, rq_url = ''v1/'' @ url, rq_query = [], rq_body = json\<rparr>"

definition apiV1Put :: "string \<Rightarrow> json option \<Rightarrow> http_request" where
  [wire_defs]: "apiV1Put url json = \<lparr>rq_method = PUT, rq_url = ''v1/'' @ url, rq_query = [], rq_body = json\<rparr>"

definition apiV1Delete :: "string \<Rightarrow> json option \<Rightarrow> http_request" where
  [wire_defs]: "apiV1Delete url json = \<lparr>rq_method = DELETE, rq_url = ''v1/'' @ url, rq_query = [], rq_body = json\<rparr>"

text \<open>
  \<open>encodeURIComponent\<close>: letters, digits and \<open>- _ . ! ~ * ' ( )\<close> stay, every other character
  becomes its UTF-8 bytes in hexadecimal (one byte below 128, two for the rest of Latin-1).
\<close>

definition uri_unreserved :: "char \<Rightarrow> bool" where
  "uri_unreserved c \<longleftrightarrow>
     (let n = of_char c :: nat in
      (48 \<le> n \<and> n \<le> 57) \<or> (65 \<le> n \<and> n \<le> 90) \<or> (97 \<le> n \<and> n \<le> 122) \<or>
      n \<in> {45, 95, 46, 33, 126, 42, 39, 40, 41})"

definition hex_digit :: "nat \<Rightarrow> char" where
  "hex_digit d = char_of (if d < 10 then 48 + d else 55 + d)"

definition pct_byte :: "nat \<Rightarrow> string" where
  "pct_byte n = [CHR ''%'', hex_digit (n div 16), hex_digit (n mod 16)]"

definition encode_char :: "char \<Rightarrow> string" where
  "encode_char c =
     (let n = of_char c :: nat in
      if uri_unreserved c then [c]
      else if n < 128 then pct_byte n
      else pct_byte (192 + n div 64) @ pct_byte (128 + n mod 64))"

definition encodeURIComponent :: "string \<Rightarrow> string" where
  "encodeURIComponent s = concat (map encode_char s)"

lemma encode_no_slash: "CHR ''/'' \<notin> set (encodeURIComponent s)"
proof -
  have hex: "hex_digit d \<noteq> CHR ''/''" if "d < 16" for d
  proof -
    have "of_char (hex_digit d) = (if d < 10 then 48 + d else 55 + d)"
      using that by (simp add: hex_digit_def)
    then have "(47 :: nat) < of_char (hex_digit d)" by (simp split: if_splits)
    then show ?thesis by auto
  qed
  have pct: "CHR ''/'' \<notin> set (pct_byte n)" if "n < 256" for n
  proof -
    have "n div 16 < 16" "n mod 16 < 16" using that by auto
    then show ?thesis using hex [of "n div 16"] hex [of "n mod 16"] by (auto simp: pct_byte_def)
  qed
  have "CHR ''/'' \<notin> set (encode_char c)" for c
  proof (cases "uri_unreserved c")
    case True
    then have "c \<noteq> CHR ''/''" by (auto simp: uri_unreserved_def)
    with True show ?thesis by (simp add: encode_char_def Let_def)
  next
    case False
    have "(of_char c :: nat) < 256" by (rule nat_of_char_less_256)
    moreover have "n div 64 < 64 \<and> n mod 64 < 64" if "n < 256" for n :: nat using that by linarith
    ultimately have "of_char c div 64 < (64 :: nat) \<and> of_char c mod 64 < (64 :: nat)" by blast
    then have "192 + of_char c div 64 < (256 :: nat)" "128 + of_char c mod 64 < (256 :: nat)" by auto
    with False pct \<open>of_char c < 256\<close> show ?thesis by (simp add: encode_char_def Let_def)
  qed
  then show ?thesis by (simp add: encodeURIComponent_def)
qed

end
