(* ===== verification/ApiCluster.thy ===== *)
theory ApiCluster
  imports Wire
begin

text \<open>
  Cluster nodes, resources, node labels and pod tools (\<open>services/api/cluster.ts\<close>,
  \<open>resource.ts\<close>, \<open>nodelabel.ts\<close>, \<open>tool.ts\<close>).
\<close>

section \<open>Nodes (cluster.ts)\<close>

datatype NodeRole =
    NodeRole_ControlPlane
  | NodeRole_Worker
  | NodeRole_Virtual

fun NodeRole_val :: "NodeRole \<Rightarrow> string" where
  "NodeRole_val NodeRole_ControlPlane = ''control-plane''"
| "NodeRole_val NodeRole_Worker = ''worker''"
| "NodeRole_val NodeRole_Virtual = ''virtual''"

datatype NodeStatus =
    NodeStatus_Ready
  | NodeStatus_NotReady
  | NodeStatus_Unschedulable
  | NodeStatus_Occupied

fun NodeStatus_val :: "NodeStatus \<Rightarrow> string" where
  "NodeStatus_val NodeStatus_Ready = ''Ready''"
| "NodeStatus_val NodeStatus_NotReady = ''NotReady''"
| "NodeStatus_val NodeStatus_Unschedulable = ''Unschedulable''"
| "NodeStatus_val NodeStatus_Occupied = ''Occupied''"

record INodeBriefInfo =
  nb_name :: string
  nb_role :: NodeRole
  nb_arch :: string
  nb_status :: NodeStatus
  nb_vendor :: string
  nb_taints :: "string list"
  nb_capacity :: resource_list
  nb_allocatable :: resource_list
  nb_used :: resource_list
  nb_workloads :: int
  nb_annotations :: strobj
  nb_kernelVersion :: "string option"
  nb_gpuDriver :: "string option"

record IClusterPodInfo =
  cpi_name :: string
  cpi_namespace :: string
  cpi_ownerReference :: "json list"
  cpi_ip :: string
  cpi_createTime :: string
  cpi_status :: string
  cpi_resources :: strobj
  cpi_locked :: bool
  cpi_permanentLocked :: bool
  cpi_lockedTimestamp :: "string option"
  cpi_type :: "string option"

record IClusterNodeDetail =
  nd_name :: string
  nd_role :: string
  nd_isReady :: string
  nd_time :: string
  nd_address :: string
  nd_os :: string
  nd_osVersion :: string
  nd_arch :: string
  nd_kubeletVersion :: string
  nd_containerRuntimeVersion :: string
  nd_kernelVersion :: "string option"
  nd_gpuDriver :: "string option"

record IClusterNodeGPU =
  ng_name :: string
  ng_haveGPU :: bool
  ng_gpuCount :: int
  ng_gpuUtil :: "rat obj"
  ng_relateJobs :: "string list"
  ng_gpuMemory :: string
  ng_gpuArch :: string
  ng_gpuDriver :: string
  ng_cudaVersion :: string
  ng_gpuProduct :: string

record IClusterNodeLabel =
  nl_key :: string
  nl_value :: string

definition fields_IClusterNodeLabel :: "'a IClusterNodeLabel_scheme \<Rightarrow> jobj" where
  [wire_defs]: "fields_IClusterNodeLabel r = [(''key'', JStr (nl_key r)), (''value'', JStr (nl_value r))]"

definition json_IClusterNodeLabel :: "'a IClusterNodeLabel_scheme \<Rightarrow> json" where
  [wire_defs]: "json_IClusterNodeLabel r = JObj (fields_IClusterNodeLabel r)"

record IClusterNodeAnnotation =
  na_key :: string
  na_value :: string

definition fields_IClusterNodeAnnotation :: "'a IClusterNodeAnnotation_scheme \<Rightarrow> jobj" where
  [wire_defs]: "fields_IClusterNodeAnnotation r = [(''key'', JStr (na_key r)), (''value'', JStr (na_value r))]"

definition json_IClusterNodeAnnotation :: "'a IClusterNodeAnnotation_scheme \<Rightarrow> json" where
  [wire_defs]: "json_IClusterNodeAnnotation r = JObj (fields_IClusterNodeAnnotation r)"

record IClusterNodeTaint =
  nt_key :: string
  nt_value :: string
  nt_effect :: string
  nt_reason :: "string option"

definition fields_IClusterNodeTaint :: "'a IClusterNodeTaint_scheme \<Rightarrow> jobj" where
  [wire_defs]: "fields_IClusterNodeTaint r = [(''key'', JStr (nt_key r)), (''value'', JStr (nt_value r)), (''effect'', JStr (nt_effect r))]
     @ opt_field ''reason'' JStr (nt_reason r)"

definition json_IClusterNodeTaint :: "'a IClusterNodeTaint_scheme \<Rightarrow> json" where
  [wire_defs]: "json_IClusterNodeTaint r = JObj (fields_IClusterNodeTaint r)"

record IClusterNodeMark =
  nm_labels :: "IClusterNodeLabel list"
  nm_annotations :: "IClusterNodeAnnotation list"
  nm_taints :: "IClusterNodeTaint list"

datatype TaintEffect =
    TaintEffect_NoSchedule
  | TaintEffect_PreferNoSchedule
  | TaintEffect_NoExecute

fun TaintEffect_val :: "TaintEffect \<Rightarrow> string" where
  "TaintEffect_val TaintEffect_NoSchedule = ''NoSchedule''"
| "TaintEffect_val TaintEffect_PreferNoSchedule = ''PreferNoSchedule''"
| "TaintEffect_val TaintEffect_NoExecute = ''NoExecute''"

definition JoinTaint :: "IClusterNodeTaint \<Rightarrow> string" where
  "JoinTaint taint = nt_key taint @ ''='' @ nt_value taint @ '':'' @ nt_effect taint"

definition apiGetNodes :: "http_request" where
  [wire_defs]: "apiGetNodes = apiV1Get (''nodes'') []"

definition apiGetNodeDetail :: "string \<Rightarrow> http_request" where
  [wire_defs]: "apiGetNodeDetail name = apiV1Get (''nodes/'' @ name) []"

definition apiGetNodePods :: "string \<Rightarrow> http_request" where
  [wire_defs]: "apiGetNodePods name = apiV1Get (''nodes/'' @ name @ ''/pods'') []"

definition apiGetNodeGPU :: "string \<Rightarrow> http_request" where
  [wire_defs]: "apiGetNodeGPU name = apiV1Get (''nodes/'' @ name @ ''/gpu'') []"

definition apichangeNodeScheduling :: "string \<Rightarrow> string option option \<Rightarrow> http_request" where
  [wire_defs]: "apichangeNodeScheduling name body =
     apiV1Put (''nodes/'' @ name) (map_option (\<lambda>reason. JObj (opt_field ''reason'' JStr reason)) body)"

definition apiAddNodeTaint :: "string \<Rightarrow> IClusterNodeTaint \<Rightarrow> http_request" where
  [wire_defs]: "apiAddNodeTaint nodeName taintContent = apiV1Post (''admin/nodes/'' @ nodeName @ ''/taint'') (Some (json_IClusterNodeTaint taintContent))"

definition apiDeleteNodeTaint :: "string \<Rightarrow> IClusterNodeTaint \<Rightarrow> http_request" where
  [wire_defs]: "apiDeleteNodeTaint nodeName taintContent = apiV1Delete (''admin/nodes/'' @ nodeName @ ''/taint'') (Some (json_IClusterNodeTaint taintContent))"

definition apiAddNodeLabel :: "string \<Rightarrow> IClusterNodeLabel \<Rightarrow> http_request" where
  [wire_defs]: "apiAddNodeLabel nodeName labelContent = apiV1Post (''admin/nodes/'' @ nodeName @ ''/label'') (Some (json_IClusterNodeLabel labelContent))"

definition apiDeleteNodeLabel :: "string \<Rightarrow> IClusterNodeLabel \<Rightarrow> http_request" where
  [wire_defs]: "apiDeleteNodeLabel nodeName labelContent = apiV1Delete (''admin/nodes/'' @ nodeName @ ''/label'') (Some (json_IClusterNodeLabel labelContent))"

definition apiAddNodeAnnotation :: "string \<Rightarrow> IClusterNodeAnnotation \<Rightarrow> http_request" where
  [wire_defs]: "apiAddNodeAnnotation nodeName annotationContent = apiV1Post (''admin/nodes/'' @ nodeName @ ''/annotation'') (Some (json_IClusterNodeAnnotation annotationContent))"

definition apiDeleteNodeAnnotation :: "string \<Rightarrow> IClusterNodeAnnotation \<Rightarrow> http_request" where
  [wire_defs]: "apiDeleteNodeAnnotation nodeName annotationContent = apiV1Delete (''admin/nodes/'' @ nodeName @ ''/annotation'') (Some (json_IClusterNodeAnnotation annotationContent))"

definition apiGetNodeMark :: "string \<Rightarrow> http_request" where
  [wire_defs]: "apiGetNodeMark name = apiV1Get (''admin/nodes/'' @ name @ ''/mark'') []"

section \<open>Resources (resource.ts)\<close>

datatype ResourceKind = Kind_gpu | Kind_rdma | Kind_vgpu | Kind_default

fun ResourceKind_val :: "ResourceKind \<Rightarrow> string" where
  "ResourceKind_val Kind_gpu = ''gpu''"
| "ResourceKind_val Kind_rdma = ''rdma''"
| "ResourceKind_val Kind_vgpu = ''vgpu''"
| "ResourceKind_val Kind_default = ''default''"

datatype ResourceInfo = ResourceInfo (rs_ID: int) (rs_name: string) (rs_vendorDomain: string)
  (rs_resourceType: string) (rs_amount: int) (rs_amountSingleMax: int) (rs_format: string)
  (rs_priority: int) (rs_label: string) (rs_type: "ResourceKind option")
  (rs_networks: "ResourceInfo list option")

record ResourceVGPU =
  rv_ID :: int
  rv_vgpuResourceId :: "int option"
  rv_min :: "int option"
  rv_max :: "int option"
  rv_description :: "string option"
  rv_vgpuResource :: "ResourceInfo option"

record LinkGPUToVGPUReq =
  lv_vgpuResourceId :: "int option"
  lv_min :: "int option"
  lv_max :: "int option"
  lv_description :: "string option"

definition fields_LinkGPUToVGPUReq :: "'a LinkGPUToVGPUReq_scheme \<Rightarrow> jobj" where
  [wire_defs]: "fields_LinkGPUToVGPUReq r = opt_field ''vgpuResourceId'' jint (lv_vgpuResourceId r)
     @ opt_field ''min'' jint (lv_min r)
     @ opt_field ''max'' jint (lv_max r)
     @ opt_field ''description'' JStr (lv_description r)"

definition json_LinkGPUToVGPUReq :: "'a LinkGPUToVGPUReq_scheme \<Rightarrow> json" where
  [wire_defs]: "json_LinkGPUToVGPUReq r = JObj (fields_LinkGPUToVGPUReq r)"

record UpdateGPUVGPULinkReq =
  uv_vgpuResourceId :: "int option"
  uv_min :: "int option"
  uv_max :: "int option"
  uv_description :: "string option"

definition fields_UpdateGPUVGPULinkReq :: "'a UpdateGPUVGPULinkReq_scheme \<Rightarrow> jobj" where
  [wire_defs]: "fields_UpdateGPUVGPULinkReq r = opt_field ''vgpuResourceId'' jint (uv_vgpuResourceId r)
     @ opt_field ''min'' jint (uv_min r)
     @ opt_field ''max'' jint (uv_max r)
     @ opt_field ''description'' JStr (uv_description r)"

definition json_UpdateGPUVGPULinkReq :: "'a UpdateGPUVGPULinkReq_scheme \<Rightarrow> json" where
  [wire_defs]: "json_UpdateGPUVGPULinkReq r = JObj (fields_UpdateGPUVGPULinkReq r)"

definition apiResourceList :: "bool \<Rightarrow> http_request" where
  [wire_defs]: "apiResourceList withVendorDomain = apiV1Get (''resources'') [(''withVendorDomain'', JBool withVendorDomain)]"

definition apiResourceNetworks :: "int \<Rightarrow> http_request" where
  [wire_defs]: "apiResourceNetworks id' = apiV1Get (''resources/'' @ int_str id' @ ''/networks'') []"

definition apiAdminResourceSync :: "http_request" where
  [wire_defs]: "apiAdminResourceSync = apiV1Post (''admin/resources/sync'') None"

text \<open>The type may be left out, null, or a kind.\<close>

definition apiAdminResourceUpdate ::
    "int \<Rightarrow> string option \<Rightarrow> ResourceKind option option \<Rightarrow> http_request" where
  [wire_defs]: "apiAdminResourceUpdate id' label type =
     apiV1Put (''admin/resources/'' @ int_str id')
       (Some (JObj (opt_field ''label'' JStr label
          @ opt_field ''type'' (\<lambda>t. case t of None \<Rightarrow> JNull | Some k \<Rightarrow> JStr (ResourceKind_val k)) type)))"

text \<open>An undefined namespace or pod name is printed as \<open>undefined\<close>.\<close>

definition opt_str :: "string option \<Rightarrow> string" where
  [wire_defs]: "opt_str s = (case s of None \<Rightarrow> ''undefined'' | Some x \<Rightarrow> x)"

definition apiAdminResourceReset ::
    "string option \<Rightarrow> string option \<Rightarrow> bool \<Rightarrow> string \<Rightarrow> http_request" where
  [wire_defs]: "apiAdminResourceReset namespace podName is_cpu val =
     apiV1Put (''admin/namespaces/'' @ opt_str namespace @ ''/pods/'' @ opt_str podName @ ''/resources'')
       (Some (JObj [(''resources'', JObj [(if is_cpu then ''cpu'' else ''memory'', JStr val)])]))"

definition apiAdminResourceDelete :: "int \<Rightarrow> http_request" where
  [wire_defs]: "apiAdminResourceDelete id' = apiV1Delete (''admin/resources/'' @ int_str id') None"

definition apiAdminResourceNetworksList :: "int \<Rightarrow> http_request" where
  [wire_defs]: "apiAdminResourceNetworksList id' = apiV1Get (''admin/resources/'' @ int_str id' @ ''/networks'') []"

definition apiAdminResourceNetworkAdd :: "int \<Rightarrow> int \<Rightarrow> http_request" where
  [wire_defs]: "apiAdminResourceNetworkAdd id' rdmaId = apiV1Post (''admin/resources/'' @ int_str id' @ ''/networks'') (Some (JObj [(''rdmaId'', jint rdmaId)]))"

definition apiAdminResourceNetworkDelete :: "int \<Rightarrow> int \<Rightarrow> http_request" where
  [wire_defs]: "apiAdminResourceNetworkDelete id' networkId = apiV1Delete (''admin/resources/'' @ int_str id' @ ''/networks/'' @ int_str networkId) None"

definition apiAdminResourceVGPUAdd :: "int \<Rightarrow> LinkGPUToVGPUReq \<Rightarrow> http_request" where
  [wire_defs]: "apiAdminResourceVGPUAdd id' data = apiV1Post (''admin/resources/'' @ int_str id' @ ''/vgpu'') (Some (json_LinkGPUToVGPUReq data))"

definition apiAdminResourceVGPUList :: "int \<Rightarrow> http_request" where
  [wire_defs]: "apiAdminResourceVGPUList id' = apiV1Get (''admin/resources/'' @ int_str id' @ ''/vgpu'') []"

definition apiResourceVGPUList :: "int \<Rightarrow> http_request" where
  [wire_defs]: "apiResourceVGPUList id' = apiV1Get (''resources/'' @ int_str id' @ ''/vgpu'') []"

definition apiAdminResourceVGPUUpdate :: "int \<Rightarrow> int \<Rightarrow> UpdateGPUVGPULinkReq \<Rightarrow> http_request" where
  [wire_defs]: "apiAdminResourceVGPUUpdate id' vgpuId data = apiV1Put (''admin/resources/'' @ int_str id' @ ''/vgpu/'' @ int_str vgpuId) (Some (json_UpdateGPUVGPULinkReq data))"

definition apiAdminResourceVGPUDelete :: "int \<Rightarrow> int \<Rightarrow> http_request" where
  [wire_defs]: "apiAdminResourceVGPUDelete id' vgpuId = apiV1Delete (''admin/resources/'' @ int_str id' @ ''/vgpu/'' @ int_str vgpuId) None"

section \<open>Node labels (nodelabel.ts)\<close>

datatype LabelType =
    LabelType_NVIDIA

fun LabelType_val :: "LabelType \<Rightarrow> int" where
  "LabelType_val LabelType_NVIDIA = 1"

record LabelInfo =
  li_id :: int
  li_label :: string
  li_name :: string
  li_resource :: string
  li_type :: LabelType
  li_count :: int
  li_priority :: int

definition apiNodeLabelsList :: "http_request" where
  [wire_defs]: "apiNodeLabelsList = apiV1Get (''labels'') []"

definition apiNodeLabelsUpdate :: "int \<Rightarrow> string \<Rightarrow> int \<Rightarrow> http_request" where
  [wire_defs]: "apiNodeLabelsUpdate id' name priority = apiV1Put (''admin/labels/'' @ int_str id') (Some (JObj [(''name'', JStr name), (''priority'', jint priority)]))"

definition apiNodeLabelsNvidiaSync :: "http_request" where
  [wire_defs]: "apiNodeLabelsNvidiaSync = apiV1Post (''admin/labels/sync/nvidia'') None"

section \<open>Pods, containers, ingresses and node ports (tool.ts)\<close>

record ContainerInfo =
  ci_name :: string
  ci_image :: string
  ci_state :: json
  ci_node :: string
  ci_resources :: "strobj option"
  ci_restartCount :: int
  ci_isInitContainer :: bool

record ContainerStatusResponse =
  cs_containers :: "ContainerInfo list"

record PodContainerLogQueryReq =
  lq_timestamps :: bool
  lq_follow :: bool
  lq_previous :: bool
  lq_tailLines :: "int option"

definition fields_PodContainerLogQueryReq :: "'a PodContainerLogQueryReq_scheme \<Rightarrow> jobj" where
  [wire_defs]: "fields_PodContainerLogQueryReq r = [(''timestamps'', JBool (lq_timestamps r)), (''follow'', JBool (lq_follow r)), (''previous'', JBool (lq_previous r))]
     @ opt_field ''tailLines'' jint (lq_tailLines r)"

definition json_PodContainerLogQueryReq :: "'a PodContainerLogQueryReq_scheme \<Rightarrow> json" where
  [wire_defs]: "json_PodContainerLogQueryReq r = JObj (fields_PodContainerLogQueryReq r)"

record PodIngress =
  pi_name :: string
  pi_port :: int
  pi_prefix :: string

record PodIngressMgr =
  pm_name :: string
  pm_port :: int

definition fields_PodIngressMgr :: "'a PodIngressMgr_scheme \<Rightarrow> jobj" where
  [wire_defs]: "fields_PodIngressMgr r = [(''name'', JStr (pm_name r)), (''port'', jint (pm_port r))]"

definition json_PodIngressMgr :: "'a PodIngressMgr_scheme \<Rightarrow> json" where
  [wire_defs]: "json_PodIngressMgr r = JObj (fields_PodIngressMgr r)"

record PodIngressesList =
  pl_ingresses :: "PodIngress list"

record PodNodeport =
  pn_name :: string
  pn_containerPort :: int
  pn_address :: string
  pn_nodePort :: int

record PodNodeportMgr =
  pnm_name :: string
  pnm_containerPort :: int

definition fields_PodNodeportMgr :: "'a PodNodeportMgr_scheme \<Rightarrow> jobj" where
  [wire_defs]: "fields_PodNodeportMgr r = [(''name'', JStr (pnm_name r)), (''containerPort'', jint (pnm_containerPort r))]"

definition json_PodNodeportMgr :: "'a PodNodeportMgr_scheme \<Rightarrow> json" where
  [wire_defs]: "json_PodNodeportMgr r = JObj (fields_PodNodeportMgr r)"

record PodNodeportsList =
  pnl_nodeports :: "PodNodeport list"

definition apiGetPodContainers :: "string option \<Rightarrow> string option \<Rightarrow> http_request" where
  [wire_defs]: "apiGetPodContainers namespace podName =
     apiV1Get (''namespaces/'' @ opt_str namespace @ ''/pods/'' @ opt_str podName @ ''/containers'') []"

definition apiGetPodEvents :: "string option \<Rightarrow> string option \<Rightarrow> http_request" where
  [wire_defs]: "apiGetPodEvents namespace podName =
     apiV1Get (''namespaces/'' @ opt_str namespace @ ''/pods/'' @ opt_str podName @ ''/events'') []"

definition apiGetPodContainerLog ::
    "string option \<Rightarrow> string option \<Rightarrow> string option \<Rightarrow> PodContainerLogQueryReq option \<Rightarrow> http_request" where
  [wire_defs]: "apiGetPodContainerLog namespace podName containerName query =
     apiV1Get (''namespaces/'' @ opt_str namespace @ ''/pods/'' @ opt_str podName @ ''/containers/''
         @ opt_str containerName @ ''/log'')
       (case query of None \<Rightarrow> [] | Some q \<Rightarrow> fields_PodContainerLogQueryReq q)"

definition apiGetPodIngresses :: "string \<Rightarrow> string \<Rightarrow> http_request" where
  [wire_defs]: "apiGetPodIngresses namespace podName = apiV1Get (''namespaces/'' @ namespace @ ''/pods/'' @ podName @ ''/ingresses'') []"

definition apiCreatePodIngress :: "string \<Rightarrow> string \<Rightarrow> PodIngressMgr \<Rightarrow> http_request" where
  [wire_defs]: "apiCreatePodIngress namespace podName ingressMgr = apiV1Post (''namespaces/'' @ namespace @ ''/pods/'' @ podName @ ''/ingresses'') (Some (json_PodIngressMgr ingressMgr))"

definition apiDeletePodIngress :: "string \<Rightarrow> string \<Rightarrow> PodIngressMgr \<Rightarrow> http_request" where
  [wire_defs]: "apiDeletePodIngress namespace podName ingressMgr = apiV1Delete (''namespaces/'' @ namespace @ ''/pods/'' @ podName @ ''/ingresses'') (Some (JObj [(''data'', json_PodIngressMgr ingressMgr)]))"

definition apiGetPodNodeports :: "string \<Rightarrow> string \<Rightarrow> http_request" where
  [wire_defs]: "apiGetPodNodeports namespace podName = apiV1Get (''namespaces/'' @ namespace @ ''/pods/'' @ podName @ ''/nodeports'') []"

definition apiCreatePodNodeport :: "string \<Rightarrow> string \<Rightarrow> PodNodeportMgr \<Rightarrow> http_request" where
  [wire_defs]: "apiCreatePodNodeport namespace podName nodeportMgr = apiV1Post (''namespaces/'' @ namespace @ ''/pods/'' @ podName @ ''/nodeports'') (Some (json_PodNodeportMgr nodeportMgr))"

definition apiDeletePodNodeport :: "string \<Rightarrow> string \<Rightarrow> PodNodeportMgr \<Rightarrow> http_request" where
  [wire_defs]: "apiDeletePodNodeport namespace podName nodeportMgr = apiV1Delete (''namespaces/'' @ namespace @ ''/pods/'' @ podName @ ''/nodeports'') (Some (JObj [(''data'', json_PodNodeportMgr nodeportMgr)]))"

end
