(* ===== verification/ApiAccounts.thy ===== *)
theory ApiAccounts
  imports Wire
begin

text \<open>
  Users, authentication, accounts, queues and the user's own context
  (\<open>services/api/auth.ts\<close>, \<open>account.ts\<close>, \<open>user.ts\<close>, \<open>admin/user.ts\<close>, \<open>queue.ts\<close>,
  \<open>context.ts\<close>): each interface as a record, each enum as a datatype with its wire value, and each
  call as the request it sends. A \<open>Date\<close> is the string it is sent as.
\<close>

section \<open>Roles and access modes\<close>

datatype Role =
    Role_Guest
  | Role_User
  | Role_Admin

fun Role_val :: "Role \<Rightarrow> int" where
  "Role_val Role_Guest = 1"
| "Role_val Role_User = 2"
| "Role_val Role_Admin = 3"

datatype AccessMode =
    AccessMode_NotAllowed
  | AccessMode_ReadOnly
  | AccessMode_ReadWrite

fun AccessMode_val :: "AccessMode \<Rightarrow> int" where
  "AccessMode_val AccessMode_NotAllowed = 1"
| "AccessMode_val AccessMode_ReadOnly = 2"
| "AccessMode_val AccessMode_ReadWrite = 3"

datatype AuthMode =
    AuthMode_ACT
  | AuthMode_NORMAL

fun AuthMode_val :: "AuthMode \<Rightarrow> string" where
  "AuthMode_val AuthMode_ACT = ''act''"
| "AuthMode_val AuthMode_NORMAL = ''normal''"

datatype ProjectStatus =
    ProjectStatus_Pending
  | ProjectStatus_Active
  | ProjectStatus_Inactive

fun ProjectStatus_val :: "ProjectStatus \<Rightarrow> int" where
  "ProjectStatus_val ProjectStatus_Pending = 1"
| "ProjectStatus_val ProjectStatus_Active = 2"
| "ProjectStatus_val ProjectStatus_Inactive = 3"

datatype Access =
    Access_NA
  | Access_RO
  | Access_RW
  | Access_AO

fun Access_val :: "Access \<Rightarrow> int" where
  "Access_val Access_NA = 1"
| "Access_val Access_RO = 2"
| "Access_val Access_RW = 3"
| "Access_val Access_AO = 4"

section \<open>Users (admin/user.ts, user.ts)\<close>

record IUserAttributes =
  ua_id :: int
  ua_name :: string
  ua_nickname :: string
  ua_email :: "string option"
  ua_teacher :: "string option"
  ua_group :: "string option"
  ua_expiredAt :: "string option"
  ua_phone :: "string option"
  ua_avatar :: "string option"
  ua_uid :: "string option"
  ua_gid :: "string option"

definition fields_IUserAttributes :: "'a IUserAttributes_scheme \<Rightarrow> jobj" where
  [wire_defs]: "fields_IUserAttributes r = [(''id'', jint (ua_id r)), (''name'', JStr (ua_name r)), (''nickname'', JStr (ua_nickname r))]
     @ opt_field ''email'' JStr (ua_email r)
     @ opt_field ''teacher'' JStr (ua_teacher r)
     @ opt_field ''group'' JStr (ua_group r)
     @ opt_field ''expiredAt'' JStr (ua_expiredAt r)
     @ opt_field ''phone'' JStr (ua_phone r)
     @ opt_field ''avatar'' JStr (ua_avatar r)
     @ opt_field ''uid'' JStr (ua_uid r)
     @ opt_field ''gid'' JStr (ua_gid r)"

definition json_IUserAttributes :: "'a IUserAttributes_scheme \<Rightarrow> json" where
  [wire_defs]: "json_IUserAttributes r = JObj (fields_IUserAttributes r)"

record IAdminUser =
  au_id :: int
  au_name :: string
  au_role :: Role
  au_status :: ProjectStatus
  au_attributes :: IUserAttributes

definition apiAdminUserList :: "http_request" where
  [wire_defs]: "apiAdminUserList = apiV1Get (''admin/users'') []"

definition apiAdminUserDelete :: "string \<Rightarrow> http_request" where
  [wire_defs]: "apiAdminUserDelete userName = apiV1Delete (''admin/users/'' @ userName) None"

definition apiAdminUpdateUserAttributes :: "string \<Rightarrow> IUserAttributes \<Rightarrow> http_request" where
  [wire_defs]: "apiAdminUpdateUserAttributes username data = apiV1Put (''admin/users/'' @ username @ ''/attributes'') (Some (json_IUserAttributes data))"

definition apiAdminUserUpdateRole :: "string \<Rightarrow> Role \<Rightarrow> http_request" where
  [wire_defs]: "apiAdminUserUpdateRole userName role = apiV1Put (''admin/users/'' @ userName @ ''/role'') (Some (JObj [(''role'', jint (Role_val role))]))"

record IUser =
  us_id :: int
  us_name :: string
  us_nickname :: string
  us_role :: Role
  us_status :: ProjectStatus
  us_createdAt :: string
  us_teacher :: "string option"
  us_group :: "string option"
  us_avatar :: "string option"

record BaseUserInfo =
  bu_name :: string
  bu_nickname :: string
  bu_space :: string

record EmailVerifiedResponse =
  ev_verified :: bool
  ev_lastEmailVerifiedAt :: "string option"

definition apiGetUser :: "string \<Rightarrow> http_request" where
  [wire_defs]: "apiGetUser userName = apiV1Get (''users/'' @ userName) []"

definition apiUserEmailVerified :: "http_request" where
  [wire_defs]: "apiUserEmailVerified = apiV1Get (''users/email/verified'') []"

definition apiGetBaseUserInfo :: "http_request" where
  [wire_defs]: "apiGetBaseUserInfo = apiV1Get (''admin/users/baseinfo'') []"

section \<open>Authentication (auth.ts)\<close>

record ISignup =
  sg_userName :: string
  sg_password :: string

definition fields_ISignup :: "'a ISignup_scheme \<Rightarrow> jobj" where
  [wire_defs]: "fields_ISignup r = [(''userName'', JStr (sg_userName r)), (''password'', JStr (sg_password r))]"

definition json_ISignup :: "'a ISignup_scheme \<Rightarrow> json" where
  [wire_defs]: "json_ISignup r = JObj (fields_ISignup r)"

record ILogin =
  lg_auth :: string
  lg_token :: "string option"
  lg_username :: "string option"
  lg_password :: "string option"

definition fields_ILogin :: "'a ILogin_scheme \<Rightarrow> jobj" where
  [wire_defs]: "fields_ILogin r = [(''auth'', JStr (lg_auth r))]
     @ opt_field ''token'' JStr (lg_token r)
     @ opt_field ''username'' JStr (lg_username r)
     @ opt_field ''password'' JStr (lg_password r)"

definition json_ILogin :: "'a ILogin_scheme \<Rightarrow> json" where
  [wire_defs]: "json_ILogin r = JObj (fields_ILogin r)"

record IUserContext =
  uc_queue :: string
  uc_roleQueue :: Role
  uc_rolePlatform :: Role
  uc_accessQueue :: AccessMode
  uc_accessPublic :: AccessMode
  uc_space :: string

record IBackendVersionInfo =
  bv_appVersion :: string
  bv_commitSHA :: string
  bv_buildType :: string
  bv_buildTime :: string

record IAuthResponse =
  ar_accessToken :: string
  ar_refreshToken :: string
  ar_user :: IUserAttributes
  ar_context :: IUserContext
  ar_version :: IBackendVersionInfo

record ICheckResponse =
  cr_user :: IUserAttributes
  cr_context :: IUserContext
  cr_version :: IBackendVersionInfo

definition apiSignup :: "ISignup \<Rightarrow> http_request" where
  [wire_defs]: "apiSignup user = apiPost (''auth/signup'') (Some (json_ISignup user))"

definition apiGetAuthMode :: "http_request" where
  [wire_defs]: "apiGetAuthMode = apiGet (''auth/mode'') []"

definition apiLogin :: "ILogin \<Rightarrow> http_request" where
  [wire_defs]: "apiLogin user = apiPost (''auth/login'') (Some (json_ILogin user))"

definition apiCheckToken :: "http_request" where
  [wire_defs]: "apiCheckToken = apiGet (''auth/check'') []"

definition apiQueueSwitch_request :: "string \<Rightarrow> http_request" where
  [wire_defs]: "apiQueueSwitch_request queue = apiV1Post (''auth/switch'') (Some (JObj [(''queue'', JStr queue)]))"

section \<open>Accounts (account.ts, queue.ts)\<close>

definition json_quota :: "quota \<Rightarrow> json" where
  [wire_defs]: "json_quota q = JObj (opt_field ''guaranteed'' jstrobj (guaranteed q)
     @ opt_field ''deserved'' jstrobj (deserved q) @ opt_field ''capability'' jstrobj (capability q))"

record ProjectBasic =
  pb_id :: int
  pb_name :: string
  pb_role :: Role
  pb_accessmode :: Access

record ICreateOrUpdateAccount =
  ca_name :: string
  ca_quota :: quota
  ca_expiredAt :: "string option"
  ca_withoutVolcano :: bool
  ca_admins :: "int list option"

definition fields_ICreateOrUpdateAccount :: "'a ICreateOrUpdateAccount_scheme \<Rightarrow> jobj" where
  [wire_defs]: "fields_ICreateOrUpdateAccount r = [(''name'', JStr (ca_name r)), (''quota'', json_quota (ca_quota r))]
     @ opt_field ''expiredAt'' JStr (ca_expiredAt r)
     @ [(''withoutVolcano'', JBool (ca_withoutVolcano r))]
     @ opt_field ''admins'' jints (ca_admins r)"

definition json_ICreateOrUpdateAccount :: "'a ICreateOrUpdateAccount_scheme \<Rightarrow> json" where
  [wire_defs]: "json_ICreateOrUpdateAccount r = JObj (fields_ICreateOrUpdateAccount r)"

record ICreateProjectResponse =
  cp_id :: int

record IAccount =
  ac_id :: int
  ac_name :: string
  ac_nickname :: string
  ac_space :: string
  ac_quota :: quota
  ac_expiredAt :: "string option"

definition apiAdminAccountList :: "http_request" where
  [wire_defs]: "apiAdminAccountList = apiV1Get (''admin/accounts'') []"

definition apiAccountCreate :: "ICreateOrUpdateAccount \<Rightarrow> http_request" where
  [wire_defs]: "apiAccountCreate account = apiV1Post (''admin/accounts'') (Some (json_ICreateOrUpdateAccount account))"

definition apiAccountUpdate :: "int \<Rightarrow> ICreateOrUpdateAccount \<Rightarrow> http_request" where
  [wire_defs]: "apiAccountUpdate id' account = apiV1Put (''admin/accounts/'' @ int_str id') (Some (json_ICreateOrUpdateAccount account))"

record IDeleteProjectResp =
  dp_name :: string

definition apiProjectDelete :: "int \<Rightarrow> http_request" where
  [wire_defs]: "apiProjectDelete id' = apiV1Delete (''admin/accounts/'' @ int_str id') None"

record IUserInAccountCreate =
  uic_id :: int
  uic_name :: string
  uic_role :: string
  uic_accessmode :: string

record IUserInAccountUpdateReq =
  uiq_aid :: int
  uiq_uid :: int
  uiq_role :: "string option"
  uiq_accessmode :: "string option"
  uiq_quota :: "quota option"

definition fields_IUserInAccountUpdateReq :: "'a IUserInAccountUpdateReq_scheme \<Rightarrow> jobj" where
  [wire_defs]: "fields_IUserInAccountUpdateReq r = [(''aid'', jint (uiq_aid r)), (''uid'', jint (uiq_uid r))]
     @ opt_field ''role'' JStr (uiq_role r)
     @ opt_field ''accessmode'' JStr (uiq_accessmode r)
     @ opt_field ''quota'' json_quota (uiq_quota r)"

definition json_IUserInAccountUpdateReq :: "'a IUserInAccountUpdateReq_scheme \<Rightarrow> json" where
  [wire_defs]: "json_IUserInAccountUpdateReq r = JObj (fields_IUserInAccountUpdateReq r)"

record IUserInAccountUpdateResp =
  uir_aid :: int
  uir_uid :: int

record IUserInAccount = IUserInAccountCreate +
  uia_userInfo :: IUserAttributes
  uia_quota :: quota

definition apiAddUser :: "int \<Rightarrow> IUserInAccountCreate \<Rightarrow> http_request" where
  [wire_defs]: "apiAddUser pid user = apiV1Post (''admin/accounts/add/'' @ int_str pid @ ''/'' @ int_str (uic_id user)) (Some (JObj [(''role'', JStr (uic_role user)), (''accessmode'', JStr (uic_accessmode user))]))"

definition apiUpdateUser :: "int \<Rightarrow> IUserInAccountCreate \<Rightarrow> http_request" where
  [wire_defs]: "apiUpdateUser pid user = apiV1Post (''admin/accounts/update/'' @ int_str pid @ ''/'' @ int_str (uic_id user)) (Some (JObj [(''role'', JStr (uic_role user)), (''accessmode'', JStr (uic_accessmode user))]))"

definition apiRemoveUser :: "int \<Rightarrow> IUserInAccountCreate \<Rightarrow> http_request" where
  [wire_defs]: "apiRemoveUser pid user = apiV1Delete (''admin/accounts/'' @ int_str pid @ ''/'' @ int_str (uic_id user)) None"

definition apiUserInProjectList :: "int \<Rightarrow> http_request" where
  [wire_defs]: "apiUserInProjectList pid = apiV1Get (''admin/accounts/userIn/'' @ int_str pid) []"

definition apiUserOutOfProjectList :: "int \<Rightarrow> http_request" where
  [wire_defs]: "apiUserOutOfProjectList pid = apiV1Get (''admin/accounts/userOutOf/'' @ int_str pid) []"

definition apiUpdateUserOutOfProjectList :: "IUserInAccountUpdateReq \<Rightarrow> http_request" where
  [wire_defs]: "apiUpdateUserOutOfProjectList user = apiV1Put (''admin/accounts/userIn/'' @ int_str (uiq_aid user)) (Some (json_IUserInAccountUpdateReq user))"

definition apiAccountQuotaGet :: "int \<Rightarrow> http_request" where
  [wire_defs]: "apiAccountQuotaGet pid = apiV1Get (''admin/accounts/'' @ int_str pid @ ''/quota'') []"

definition apiAccountGet :: "int \<Rightarrow> http_request" where
  [wire_defs]: "apiAccountGet pid = apiV1Get (''admin/accounts/'' @ int_str pid) []"

definition apiAccountGetByName :: "string \<Rightarrow> http_request" where
  [wire_defs]: "apiAccountGetByName name = apiV1Get (''accounts/'' @ name) []"

record QueueBasic =
  qb_name :: string
  qb_nickname :: string
  qb_role :: Role
  qb_access :: AccessMode
  qb_expiredAt :: "string option"

definition apiQueueList :: "http_request" where
  [wire_defs]: "apiQueueList = apiV1Get (''accounts'') []"

section \<open>The user's own context (context.ts)\<close>

record ResourceBase =
  rb_amount :: rat
  rb_format :: string

record ResourceResp =
  rr_label :: string
  rr_allocated :: "ResourceBase option"
  rr_guarantee :: "ResourceBase option"
  rr_deserved :: "ResourceBase option"
  rr_capability :: "ResourceBase option"

record QuotaResp =
  qp_cpu :: ResourceResp
  qp_memory :: ResourceResp
  qp_gpus :: "ResourceResp list"

definition apiContextQuota :: "string \<Rightarrow> http_request" where
  [wire_defs]: "apiContextQuota scheduler =
     (let url = if scheduler = ''volcano'' then ''context/quota'' else ''aijobs/quota'' in apiV1Get url [])"

definition apiContextUpdateUserAttributes :: "IUserAttributes \<Rightarrow> http_request" where
  [wire_defs]: "apiContextUpdateUserAttributes data = apiV1Put (''context/attributes'') (Some (json_IUserAttributes data))"

definition apiSendVerificationEmail :: "string \<Rightarrow> http_request" where
  [wire_defs]: "apiSendVerificationEmail email = apiV1Post (''context/email/code'') (Some (JObj [(''email'', JStr email)]))"

definition apiVerifyEmailCode :: "string \<Rightarrow> string \<Rightarrow> http_request" where
  [wire_defs]: "apiVerifyEmailCode email code = apiV1Post (''context/email/update'') (Some (JObj [(''code'', JStr code), (''email'', JStr email)]))"

end
