(* ===== verification/Coerce.thy ===== *)
theory Coerce
  imports Json
begin

text \<open>
  The conversion \<open>Number(x)\<close> of JavaScript, on texts and on JSON values: unlike \<open>parseFloat\<close> it reads
  the whole text or gives \<open>NaN\<close>.
\<close>

definition exponent_ok :: "string \<Rightarrow> bool" where
  "exponent_ok r =
     (case r of [] \<Rightarrow> True
      | c # cs \<Rightarrow> (c = CHR ''e'' \<or> c = CHR ''E'') \<and>
          (let ds = snd (parse_sign cs) in ds \<noteq> [] \<and> list_all is_digit ds))"

text \<open>A decimal literal with an optional sign, as a whole.\<close>

definition decimal_literal :: "string \<Rightarrow> bool" where
  "decimal_literal s =
     (let r = snd (parse_sign s) in
      r = ''Infinity'' \<or>
      (let ip = takeWhile is_digit r; (fp, r2) = parse_frac (dropWhile is_digit r) in
       (ip \<noteq> [] \<or> fp \<noteq> []) \<and> exponent_ok r2))"

definition digit_val :: "nat \<Rightarrow> char \<Rightarrow> nat option" where
  "digit_val base c = (case hex_val c of None \<Rightarrow> None | Some d \<Rightarrow> if d < base then Some d else None)"

definition based_literal :: "nat \<Rightarrow> string \<Rightarrow> number" where
  "based_literal base ds =
     (if ds \<noteq> [] \<and> list_all (\<lambda>c. digit_val base c \<noteq> None) ds
      then Fin (of_nat (foldl (\<lambda>a c. base * a + the (digit_val base c)) 0 ds)) else NaN)"

definition string_number :: "string \<Rightarrow> number" where
  "string_number s =
     (let t = js_trim s in
      if t = [] then Fin 0
      else if prefix ''0x'' t \<or> prefix ''0X'' t then based_literal 16 (drop 2 t)
      else if prefix ''0o'' t \<or> prefix ''0O'' t then based_literal 8 (drop 2 t)
      else if prefix ''0b'' t \<or> prefix ''0B'' t then based_literal 2 (drop 2 t)
      else if decimal_literal t then parse_float t else NaN)"

text \<open>An array is its text: the empty one is 0, one of a single element that element's text.\<close>

fun json_number :: "json \<Rightarrow> number" where
  "json_number JNull = Fin 0"
| "json_number (JBool b) = Fin (if b then 1 else 0)"
| "json_number (JNum r) = Fin r"
| "json_number (JStr s) = string_number s"
| "json_number (JArr []) = Fin 0"
| "json_number (JArr [x]) = (case x of JBool b \<Rightarrow> NaN | _ \<Rightarrow> json_number x)"
| "json_number (JArr (x # y # xs)) = NaN"
| "json_number (JObj ms) = NaN"

definition to_number :: "json option \<Rightarrow> number" where
  "to_number v = (case v of None \<Rightarrow> NaN | Some x \<Rightarrow> json_number x)"

text \<open>A number as JSON: what is not finite is printed as \<open>null\<close>.\<close>

fun json_of_number :: "number \<Rightarrow> json" where
  "json_of_number (Fin r) = JNum r"
| "json_of_number _ = JNull"

definition jnumbers :: "number list \<Rightarrow> json" where
  "jnumbers ns = JArr (map json_of_number ns)"

text \<open>\<open>z.coerce.number().int().positive()\<close>.\<close>

definition positive_int :: "number \<Rightarrow> bool" where
  "positive_int n = (case n of Fin r \<Rightarrow> r \<in> \<int> \<and> 0 < r | _ \<Rightarrow> False)"

lemma positive_int_code [code]:
  "positive_int n = (case n of Fin r \<Rightarrow> snd (quotient_of r) = 1 \<and> 0 < r | _ \<Rightarrow> False)"
proof -
  have "r \<in> \<int> \<longleftrightarrow> snd (quotient_of r) = 1" for r :: rat
  proof
    assume "r \<in> \<int>"
    then obtain i where "r = of_int i" by (rule Ints_cases)
    then show "snd (quotient_of r) = 1" by simp
  next
    assume one: "snd (quotient_of r) = 1"
    obtain p q where pq: "quotient_of r = (p, q)" by (cases "quotient_of r")
    then have "r = of_int p / of_int q" by (rule quotient_of_div)
    with one pq show "r \<in> \<int>" by simp
  qed
  then show ?thesis by (simp add: positive_int_def split: number.split)
qed

lemma number_of_digits:
  assumes "ds \<noteq> []" "list_all is_digit ds" "hd ds \<noteq> CHR ''0''"
  shows "string_number ds = Fin (of_nat (digits_val ds))"
proof -
  have sp: "\<not> js_space c" if "is_digit c" for c
    using that by (auto simp: is_digit_def js_space_def)
  have none: "dropWhile js_space xs = xs" if "set xs \<subseteq> set ds" for xs
  proof (cases xs)
    case (Cons x ys)
    then show ?thesis using that assms(2) sp by (auto simp: list_all_iff)
  qed simp
  have trim: "js_trim ds = ds" by (simp add: js_trim_def none)
  have dig: "takeWhile is_digit ds = ds" "dropWhile is_digit ds = []"
    using assms(2) by (auto simp: list_all_iff takeWhile_eq_all_conv)
  obtain c cs where ds: "ds = c # cs" using assms(1) by (cases ds) auto
  have c: "is_digit c" "c \<noteq> CHR ''0''" using assms ds by auto
  then have s: "parse_sign ds = (1, ds)" "ds \<noteq> ''Infinity''" "\<not> prefix ''Infinity'' ds" "trim_start ds = ds"
    using ds sp by (auto simp: parse_sign_def is_digit_def trim_start_def)
  have "decimal_literal ds"
    using s dig assms(1) by (simp add: decimal_literal_def parse_frac_def exponent_ok_def)
  moreover have "parse_float ds = Fin (of_nat (digits_val ds))"
    using s dig assms(1) by (simp add: parse_float_def parse_frac_def parse_exp_def scale10_def)
  moreover have "\<not> prefix (CHR ''0'' # p) ds" for p using c ds by simp
  ultimately show ?thesis using assms(1) by (simp add: string_number_def trim Let_def)
qed

end
