(* ===== verification/ApiJobs.thy ===== *)
theory ApiJobs
  imports Wire Coerce
begin

text \<open>
  Jobs, job templates, approval orders and the analysis service
  (\<open>services/api/vcjob.ts\<close>, \<open>jobtemplate.ts\<close>, \<open>approvalorder.ts\<close>, \<open>ai-task.ts\<close>,
  \<open>recommend/dl-task.ts\<close>). \<open>JOB_URL\<close>, read from the store when the module is loaded, is the
  first argument \<open>u\<close> of the job calls. The types of the Kubernetes client package are
  JSON values.
\<close>

section \<open>Jobs (vcjob.ts)\<close>

datatype JobType =
    JobType_Jupyter
  | JobType_Pytorch
  | JobType_Tensorflow
  | JobType_Custom
  | JobType_KubeRay
  | JobType_DeepSpeed
  | JobType_OpenMPI

fun JobType_val :: "JobType \<Rightarrow> string" where
  "JobType_val JobType_Jupyter = ''jupyter''"
| "JobType_val JobType_Pytorch = ''pytorch''"
| "JobType_val JobType_Tensorflow = ''tensorflow''"
| "JobType_val JobType_Custom = ''custom''"
| "JobType_val JobType_KubeRay = ''kuberay''"
| "JobType_val JobType_DeepSpeed = ''deepspeed''"
| "JobType_val JobType_OpenMPI = ''openmpi''"

datatype JobPhase =
    JobPhase_Pending
  | JobPhase_Aborting
  | JobPhase_Aborted
  | JobPhase_Running
  | JobPhase_Restarting
  | JobPhase_Completing
  | JobPhase_Completed
  | JobPhase_Terminating
  | JobPhase_Terminated
  | JobPhase_Failed
  | JobPhase_Deleted
  | JobPhase_Freed
  | JobPhase_Cancelled
  | JobPhase_Init

fun JobPhase_val :: "JobPhase \<Rightarrow> string" where
  "JobPhase_val JobPhase_Pending = ''Pending''"
| "JobPhase_val JobPhase_Aborting = ''Aborting''"
| "JobPhase_val JobPhase_Aborted = ''Aborted''"
| "JobPhase_val JobPhase_Running = ''Running''"
| "JobPhase_val JobPhase_Restarting = ''Restarting''"
| "JobPhase_val JobPhase_Completing = ''Completing''"
| "JobPhase_val JobPhase_Completed = ''Completed''"
| "JobPhase_val JobPhase_Terminating = ''Terminating''"
| "JobPhase_val JobPhase_Terminated = ''Terminated''"
| "JobPhase_val JobPhase_Failed = ''Failed''"
| "JobPhase_val JobPhase_Deleted = ''Deleted''"
| "JobPhase_val JobPhase_Freed = ''Freed''"
| "JobPhase_val JobPhase_Cancelled = ''Cancelled''"
| "JobPhase_val JobPhase_Init = []"

datatype JobStatus =
    JobStatus_NotStarted
  | JobStatus_Running
  | JobStatus_Terminated
  | JobStatus_MetadataOnly
  | JobStatus_Unknown

fun JobStatus_val :: "JobStatus \<Rightarrow> string" where
  "JobStatus_val JobStatus_NotStarted = ''NotStarted''"
| "JobStatus_val JobStatus_Running = ''Running''"
| "JobStatus_val JobStatus_Terminated = ''Terminated''"
| "JobStatus_val JobStatus_MetadataOnly = ''MetadataOnly''"
| "JobStatus_val JobStatus_Unknown = ''Unknown''"

record IUserInfo =
  ui_username :: string
  ui_nickname :: string

record IJobInfo =
  ji_name :: string
  ji_jobName :: string
  ji_owner :: string
  ji_userInfo :: IUserInfo
  ji_jobType :: JobType
  ji_queue :: string
  ji_status :: JobPhase
  ji_createdAt :: string
  ji_startedAt :: string
  ji_completedAt :: string
  ji_nodes :: "string list"
  ji_resources :: "strobj option"
  ji_locked :: bool
  ji_permanentLocked :: bool
  ji_lockedTimestamp :: "string option"

record PodDetail =
  pd_name :: string
  pd_namespace :: string
  pd_nodename :: string
  pd_ip :: string
  pd_port :: string
  pd_resource :: "strobj option"
  pd_phase :: string

record ProfileData =
  pf_cpu_request :: "rat option"
  pf_cpu_limit :: "rat option"
  pf_mem_request :: "rat option"
  pf_mem_limit :: "rat option"
  pf_cpu_usage_avg :: "rat option"
  pf_cpu_usage_max :: "rat option"
  pf_cpu_usage_std :: "rat option"
  pf_cpu_mem_avg :: "rat option"
  pf_cpu_mem_max :: "rat option"
  pf_cpu_mem_std :: "rat option"
  pf_gpu_util_avg :: "rat option"
  pf_gpu_util_max :: "rat option"
  pf_gpu_util_std :: "rat option"
  pf_sm_active_avg :: "rat option"
  pf_sm_active_max :: "rat option"
  pf_sm_active_std :: "rat option"
  pf_sm_util_avg :: "rat option"
  pf_sm_util_max :: "rat option"
  pf_sm_util_std :: "rat option"
  pf_sm_occupancy_avg :: "rat option"
  pf_sm_occupancy_max :: "rat option"
  pf_sm_occupancy_std :: "rat option"
  pf_dram_util_avg :: "rat option"
  pf_dram_util_max :: "rat option"
  pf_dram_util_std :: "rat option"
  pf_dram_active_avg :: "rat option"
  pf_dram_active_max :: "rat option"
  pf_dram_active_std :: "rat option"
  pf_mem_copy_util_avg :: "rat option"
  pf_mem_copy_util_max :: "rat option"
  pf_mem_copy_util_std :: "rat option"
  pf_pcie_tx_avg :: "rat option"
  pf_pcie_tx_max :: "rat option"
  pf_pcie_rx_avg :: "rat option"
  pf_pcie_rx_max :: "rat option"
  pf_gpu_mem_total :: "rat option"
  pf_gpu_mem_max :: "rat option"
  pf_gpu_mem_avg :: "rat option"
  pf_gpu_mem_std :: "rat option"
  pf_tensor_active_avg :: "rat option"
  pf_tensor_active_max :: "rat option"
  pf_tensor_active_std :: "rat option"
  pf_fp64_active_avg :: "rat option"
  pf_fp64_active_max :: "rat option"
  pf_fp64_active_std :: "rat option"
  pf_fp32_active_avg :: "rat option"
  pf_fp32_active_max :: "rat option"
  pf_fp32_active_std :: "rat option"
  pf_fp16_active_avg :: "rat option"
  pf_fp16_active_max :: "rat option"
  pf_fp16_active_std :: "rat option"

record ScheduleData =
  sd_imagePullTime :: string
  sd_imageSize :: "string option"

record IJupyterDetail =
  jd_name :: string
  jd_namespace :: string
  jd_username :: string
  jd_nickname :: string
  jd_userInfo :: IUserInfo
  jd_jobName :: string
  jd_jobType :: JobType
  jd_retry :: string
  jd_queue :: string
  jd_status :: JobPhase
  jd_resources :: "strobj option"
  jd_profileData :: "ProfileData option"
  jd_scheduleData :: "ScheduleData option"
  jd_events :: "json list option"
  jd_terminatedStates :: "json list option"
  jd_createdAt :: string
  jd_startedAt :: string
  jd_completedAt :: string

record ISSHPortData =
  spd_IP :: string
  spd_nodePort :: int
  spd_username :: string

record ISSHPortDetail =
  sp_open :: bool
  sp_data :: ISSHPortData

record SSHInfo =
  si_ip :: string
  si_port :: string

record VolumeMount =
  vm_subPath :: string
  vm_mountPath :: string

definition fields_VolumeMount :: "'a VolumeMount_scheme \<Rightarrow> jobj" where
  [wire_defs]: "fields_VolumeMount r = [(''subPath'', JStr (vm_subPath r)), (''mountPath'', JStr (vm_mountPath r))]"

definition json_VolumeMount :: "'a VolumeMount_scheme \<Rightarrow> json" where
  [wire_defs]: "json_VolumeMount r = JObj (fields_VolumeMount r)"

record Forward =
  fw_name :: string
  fw_port :: int

definition fields_Forward :: "'a Forward_scheme \<Rightarrow> jobj" where
  [wire_defs]: "fields_Forward r = [(''name'', JStr (fw_name r)), (''port'', jint (fw_port r))]"

definition json_Forward :: "'a Forward_scheme \<Rightarrow> json" where
  [wire_defs]: "json_Forward r = JObj (fields_Forward r)"

record Env =
  en_name :: string
  en_value :: string

definition fields_Env :: "'a Env_scheme \<Rightarrow> jobj" where
  [wire_defs]: "fields_Env r = [(''name'', JStr (en_name r)), (''value'', JStr (en_value r))]"

definition json_Env :: "'a Env_scheme \<Rightarrow> json" where
  [wire_defs]: "json_Env r = JObj (fields_Env r)"

datatype NodeSelectorOperator = OpIn | OpNotIn | OpExists | OpDoesNotExist | OpGt | OpLt

fun NodeSelectorOperator_val :: "NodeSelectorOperator \<Rightarrow> string" where
  "NodeSelectorOperator_val OpIn = ''In''"
| "NodeSelectorOperator_val OpNotIn = ''NotIn''"
| "NodeSelectorOperator_val OpExists = ''Exists''"
| "NodeSelectorOperator_val OpDoesNotExist = ''DoesNotExist''"
| "NodeSelectorOperator_val OpGt = ''Gt''"
| "NodeSelectorOperator_val OpLt = ''Lt''"

record NodeSelectorRequirement =
  ns_key :: string
  ns_operator :: NodeSelectorOperator
  ns_values :: "string list option"

definition fields_NodeSelectorRequirement :: "'a NodeSelectorRequirement_scheme \<Rightarrow> jobj" where
  [wire_defs]: "fields_NodeSelectorRequirement r = [(''key'', JStr (ns_key r)), (''operator'', (\<lambda>x. JStr (NodeSelectorOperator_val x)) (ns_operator r))]
     @ opt_field ''values'' jstrs (ns_values r)"

definition json_NodeSelectorRequirement :: "'a NodeSelectorRequirement_scheme \<Rightarrow> json" where
  [wire_defs]: "json_NodeSelectorRequirement r = JObj (fields_NodeSelectorRequirement r)"

record IImageBaseInfo =
  ib_imageLink :: string
  ib_archs :: "string list"

definition fields_IImageBaseInfo :: "'a IImageBaseInfo_scheme \<Rightarrow> jobj" where
  [wire_defs]: "fields_IImageBaseInfo r = [(''imageLink'', JStr (ib_imageLink r)), (''archs'', jstrs (ib_archs r))]"

definition json_IImageBaseInfo :: "'a IImageBaseInfo_scheme \<Rightarrow> json" where
  [wire_defs]: "json_IImageBaseInfo r = JObj (fields_IImageBaseInfo r)"

text \<open>
  A call passes its mounts on as they are, and the objects of the forms have more properties than
  \<open>VolumeMount\<close> names; so the payloads hold them as JSON objects.
\<close>

record IJupyterCreate =
  jc_name :: string
  jc_resource :: resource_list
  jc_image :: IImageBaseInfo
  jc_volumeMounts :: "json list"
  jc_envs :: "Env list"
  jc_selectors :: "NodeSelectorRequirement list option"
  jc_template :: string
  jc_alertEnabled :: bool
  jc_forwards :: "Forward list"

definition fields_IJupyterCreate :: "'a IJupyterCreate_scheme \<Rightarrow> jobj" where
  [wire_defs]: "fields_IJupyterCreate r = [(''name'', JStr (jc_name r))]
     @ opt_field ''resource'' jstrobj (jc_resource r)
     @ [(''image'', json_IImageBaseInfo (jc_image r)), (''volumeMounts'', JArr (jc_volumeMounts r)), (''envs'', (\<lambda>xs. JArr (map json_Env xs)) (jc_envs r))]
     @ opt_field ''selectors'' (\<lambda>xs. JArr (map json_NodeSelectorRequirement xs)) (jc_selectors r)
     @ [(''template'', JStr (jc_template r)), (''alertEnabled'', JBool (jc_alertEnabled r)), (''forwards'', (\<lambda>xs. JArr (map json_Forward xs)) (jc_forwards r))]"

definition json_IJupyterCreate :: "'a IJupyterCreate_scheme \<Rightarrow> json" where
  [wire_defs]: "json_IJupyterCreate r = JObj (fields_IJupyterCreate r)"

record ITrainingCreate = IJupyterCreate +
  tc_shell :: "string option"
  tc_command :: "string option"
  tc_workingDir :: "string option"

definition fields_ITrainingCreate :: "'a ITrainingCreate_scheme \<Rightarrow> jobj" where
  [wire_defs]: "fields_ITrainingCreate r = fields_IJupyterCreate r @ opt_field ''shell'' JStr (tc_shell r)
     @ opt_field ''command'' JStr (tc_command r) @ opt_field ''workingDir'' JStr (tc_workingDir r)"

definition json_ITrainingCreate :: "'a ITrainingCreate_scheme \<Rightarrow> json" where
  [wire_defs]: "json_ITrainingCreate r = JObj (fields_ITrainingCreate r)"

record ISparseCreate = ITrainingCreate +
  sc_runningType :: "string option"
  sc_params :: "number option"
  sc_macs :: "number option"
  sc_batchSize :: "number option"
  sc_vocabularySize :: "number list option"
  sc_embeddingDim :: "number list option"
  sc_replicas :: "int option"

definition json_ISparseCreate :: "ISparseCreate \<Rightarrow> json" where
  [wire_defs]: "json_ISparseCreate r = JObj (fields_ITrainingCreate r
     @ opt_field ''runningType'' JStr (sc_runningType r) @ opt_field ''params'' json_of_number (sc_params r)
     @ opt_field ''macs'' json_of_number (sc_macs r) @ opt_field ''batchSize'' json_of_number (sc_batchSize r)
     @ opt_field ''vocabularySize'' jnumbers (sc_vocabularySize r)
     @ opt_field ''embeddingDim'' jnumbers (sc_embeddingDim r) @ opt_field ''replicas'' jint (sc_replicas r))"

record TaskPort =
  tp_name :: string
  tp_port :: int

definition json_TaskPort :: "TaskPort \<Rightarrow> json" where
  [wire_defs]: "json_TaskPort p = JObj [(''name'', JStr (tp_name p)), (''port'', jint (tp_port p))]"

record TaskCreate =
  tk_name :: string
  tk_replicas :: int
  tk_resource :: resource_list
  tk_image :: IImageBaseInfo
  tk_command :: "string option"
  tk_workingDir :: "string option"
  tk_ports :: "TaskPort list"

definition json_TaskCreate :: "TaskCreate \<Rightarrow> json" where
  [wire_defs]: "json_TaskCreate t = JObj ([(''name'', JStr (tk_name t)), (''replicas'', jint (tk_replicas t))]
     @ opt_field ''resource'' jstrobj (tk_resource t) @ [(''image'', json_IImageBaseInfo (tk_image t))]
     @ opt_field ''command'' JStr (tk_command t) @ opt_field ''workingDir'' JStr (tk_workingDir t)
     @ [(''ports'', JArr (map json_TaskPort (tk_ports t)))])"

record ITensorflowCreate =
  tf_name :: string
  tf_tasks :: "TaskCreate list"
  tf_volumeMounts :: "json list"
  tf_envs :: "Env list"
  tf_selectors :: "NodeSelectorRequirement list option"
  tf_alertEnabled :: bool
  tf_template :: "string option"
  tf_forwards :: "Forward list"

definition json_ITensorflowCreate :: "ITensorflowCreate \<Rightarrow> json" where
  [wire_defs]: "json_ITensorflowCreate r = JObj ([(''name'', JStr (tf_name r)),
      (''tasks'', JArr (map json_TaskCreate (tf_tasks r))),
      (''volumeMounts'', JArr (tf_volumeMounts r)),
      (''envs'', JArr (map json_Env (tf_envs r)))]
     @ opt_field ''selectors'' (\<lambda>xs. JArr (map json_NodeSelectorRequirement xs)) (tf_selectors r)
     @ [(''alertEnabled'', JBool (tf_alertEnabled r))] @ opt_field ''template'' JStr (tf_template r)
     @ [(''forwards'', JArr (map json_Forward (tf_forwards r)))])"

definition apiAdminGetJobList :: "string \<Rightarrow> int \<Rightarrow> http_request" where
  [wire_defs]: "apiAdminGetJobList u days = apiV1Get (''admin/'' @ u) [(''days'', jint days)]"

definition apiAdminGetJobDetail :: "string \<Rightarrow> string \<Rightarrow> http_request" where
  [wire_defs]: "apiAdminGetJobDetail u jobName = apiV1Get (''admin/'' @ u @ ''/'' @ jobName @ ''/detail'') []"

definition apiJobAllList :: "string \<Rightarrow> http_request" where
  [wire_defs]: "apiJobAllList u = apiV1Get (u @ ''/all'') []"

definition apiJobBatchList :: "string \<Rightarrow> http_request" where
  [wire_defs]: "apiJobBatchList u = apiV1Get (u) []"

definition apiJobInteractiveList :: "string \<Rightarrow> http_request" where
  [wire_defs]: "apiJobInteractiveList u = apiV1Get (u) []"

definition apiJupyterCreate :: "string \<Rightarrow> IJupyterCreate \<Rightarrow> http_request" where
  [wire_defs]: "apiJupyterCreate u task = apiV1Post (u @ ''/jupyter'') (Some (json_IJupyterCreate task))"

definition apiTrainingCreate :: "string \<Rightarrow> ITrainingCreate \<Rightarrow> http_request" where
  [wire_defs]: "apiTrainingCreate u task = apiV1Post (u @ ''/training'') (Some (json_ITrainingCreate task))"

definition apiSparseCreate :: "string \<Rightarrow> ISparseCreate \<Rightarrow> http_request" where
  [wire_defs]: "apiSparseCreate u task = apiV1Post (u @ ''/training'') (Some (json_ISparseCreate task))"

definition apiTensorflowCreate :: "string \<Rightarrow> ITensorflowCreate \<Rightarrow> http_request" where
  [wire_defs]: "apiTensorflowCreate u task = apiV1Post (u @ ''/tensorflow'') (Some (json_ITensorflowCreate task))"

definition apiPytorchCreate :: "string \<Rightarrow> ITensorflowCreate \<Rightarrow> http_request" where
  [wire_defs]: "apiPytorchCreate u task = apiV1Post (u @ ''/pytorch'') (Some (json_ITensorflowCreate task))"

definition apiJobDelete :: "string \<Rightarrow> string \<Rightarrow> http_request" where
  [wire_defs]: "apiJobDelete u jobName = apiV1Delete (u @ ''/'' @ jobName) None"

definition apiJobDeleteForAdmin :: "string \<Rightarrow> string \<Rightarrow> http_request" where
  [wire_defs]: "apiJobDeleteForAdmin u jobName = apiV1Delete (''admin/'' @ u @ ''/'' @ jobName) None"

definition apiJobToggleKeepForAdmin :: "string \<Rightarrow> http_request" where
  [wire_defs]: "apiJobToggleKeepForAdmin jobName = apiV1Put (''admin/operations/keep/'' @ jobName) None"

definition apiJobUnlock :: "string \<Rightarrow> http_request" where
  [wire_defs]: "apiJobUnlock jobName = apiV1Put (''admin/operations/clear/locktime'') (Some (JObj [(''name'', JStr jobName)]))"

definition apiJobLock :: "json \<Rightarrow> http_request" where
  [wire_defs]: "apiJobLock params = apiV1Put (''admin/operations/add/locktime'') (Some (params))"

definition apiJobGetDetail :: "string \<Rightarrow> string \<Rightarrow> http_request" where
  [wire_defs]: "apiJobGetDetail u jobName = apiV1Get (u @ ''/'' @ jobName @ ''/detail'') []"

definition apiJobGetPods :: "string \<Rightarrow> string \<Rightarrow> http_request" where
  [wire_defs]: "apiJobGetPods u jobName = apiV1Get (u @ ''/'' @ jobName @ ''/pods'') []"

definition apiJobGetYaml :: "string \<Rightarrow> string \<Rightarrow> http_request" where
  [wire_defs]: "apiJobGetYaml u jobName = apiV1Get (u @ ''/'' @ jobName @ ''/yaml'') []"

definition apiJobGetEvent :: "string \<Rightarrow> string \<Rightarrow> http_request" where
  [wire_defs]: "apiJobGetEvent u jobName = apiV1Get (u @ ''/'' @ jobName @ ''/event'') []"

definition apiJobTemplate :: "string \<Rightarrow> string \<Rightarrow> http_request" where
  [wire_defs]: "apiJobTemplate u jobName = apiV1Get (u @ ''/'' @ jobName @ ''/template'') []"

definition apiJTaskImageList :: "string \<Rightarrow> http_request" where
  [wire_defs]: "apiJTaskImageList imageTaskType = apiV1Get (''images/available?type='' @ imageTaskType) []"

definition apiJupyterTokenGet :: "string \<Rightarrow> string \<Rightarrow> http_request" where
  [wire_defs]: "apiJupyterTokenGet u jobName = apiV1Get (u @ ''/'' @ jobName @ ''/token'') []"

definition apiJupyterSnapshot :: "string \<Rightarrow> string \<Rightarrow> http_request" where
  [wire_defs]: "apiJupyterSnapshot u jobName = apiV1Post (u @ ''/jupyter/'' @ jobName @ ''/snapshot'') None"

definition apiOpenSSH :: "string \<Rightarrow> string \<Rightarrow> http_request" where
  [wire_defs]: "apiOpenSSH u jobName = apiV1Post (u @ ''/'' @ jobName @ ''/ssh'') None"

definition apiJobScheduleAdmin :: "http_request" where
  [wire_defs]: "apiJobScheduleAdmin = apiV1Get (''admin/operations/cronjob'') []"

definition apiJobScheduleChangeAdmin :: "json \<Rightarrow> http_request" where
  [wire_defs]: "apiJobScheduleChangeAdmin schedule = apiV1Put (''admin/operations/cronjob'') (Some (schedule))"

record WaitingJupyterJobCancelReq =
  wj_waitMinutes :: int

record CleanLongTimeReq =
  cl_batchDays :: "int option"
  cl_interactiveDays :: "int option"

record CleanLowGPUUsageReq =
  cg_timeRange :: int
  cg_waitTime :: "int option"
  cg_util :: "int option"

record CleanupResult =
  cu_reminded :: "string list"
  cu_deleted :: "string list"

definition apiAdminWaitingJupyterJobCancel :: "WaitingJupyterJobCancelReq \<Rightarrow> http_request" where
  [wire_defs]: "apiAdminWaitingJupyterJobCancel param = apiV1Post (''admin/operations/clean/clean-waiting-jupyter-job'') (Some (JObj [(''waitMinitues'', jint (wj_waitMinutes param))]))"

definition apiAdminLongTimeRunningJobsCleanup :: "CleanLongTimeReq \<Rightarrow> http_request" where
  [wire_defs]: "apiAdminLongTimeRunningJobsCleanup param = apiV1Post (''admin/operations/clean/clean-long-running-job'') (Some (JObj (opt_field ''batchDays'' jint (cl_batchDays param)
       @ opt_field ''interactiveDays'' jint (cl_interactiveDays param))))"

definition apiAdminLowGPUUsageJobsCleanup :: "CleanLowGPUUsageReq \<Rightarrow> http_request" where
  [wire_defs]: "apiAdminLowGPUUsageJobsCleanup param = apiV1Post (''admin/operations/clean/clean-low-gpu-usage-job'') (Some (JObj ([(''timeRange'', jint (cg_timeRange param))]
       @ opt_field ''waitTime'' jint (cg_waitTime param) @ opt_field ''util'' jint (cg_util param))))"

record CronJobData =
  cj_reminded :: "string list option"
  cj_deleted :: "string list option"

record CronJobRecord =
  cjr_id :: int
  cjr_createdAt :: string
  cjr_updatedAt :: string
  cjr_name :: string
  cjr_executeTime :: string
  cjr_status :: string
  cjr_message :: string
  cjr_jobData :: "CronJobData option"

record CronJobRecordListReq =
  cjq_name :: "string list option"
  cjq_startTime :: "string option"
  cjq_endTime :: "string option"
  cjq_status :: "string option"

definition fields_CronJobRecordListReq :: "'a CronJobRecordListReq_scheme \<Rightarrow> jobj" where
  [wire_defs]: "fields_CronJobRecordListReq r = opt_field ''name'' jstrs (cjq_name r)
     @ opt_field ''startTime'' JStr (cjq_startTime r)
     @ opt_field ''endTime'' JStr (cjq_endTime r)
     @ opt_field ''status'' JStr (cjq_status r)"

definition json_CronJobRecordListReq :: "'a CronJobRecordListReq_scheme \<Rightarrow> json" where
  [wire_defs]: "json_CronJobRecordListReq r = JObj (fields_CronJobRecordListReq r)"

record CronJobRecordListResp =
  cjp_records :: "CronJobRecord list"
  cjp_total :: int

definition apiAdminCronJobNameList :: "http_request" where
  [wire_defs]: "apiAdminCronJobNameList = apiV1Post (''admin/operations/cronjob/config/name'') None"

definition apiAdminCronJobRecordTimeRange :: "http_request" where
  [wire_defs]: "apiAdminCronJobRecordTimeRange = apiV1Post (''admin/operations/cronjob/record/time'') None"

definition apiAdminCronJobRecordList :: "CronJobRecordListReq \<Rightarrow> http_request" where
  [wire_defs]: "apiAdminCronJobRecordList param = apiV1Post (''admin/operations/cronjob/record/list'') (Some (json_CronJobRecordListReq param))"

record DeleteCronJobRecordsReq =
  dcj_id :: "int list option"
  dcj_startTime :: "string option"
  dcj_endTime :: "string option"

definition fields_DeleteCronJobRecordsReq :: "'a DeleteCronJobRecordsReq_scheme \<Rightarrow> jobj" where
  [wire_defs]: "fields_DeleteCronJobRecordsReq r = opt_field ''id'' jints (dcj_id r)
     @ opt_field ''startTime'' JStr (dcj_startTime r)
     @ opt_field ''endTime'' JStr (dcj_endTime r)"

definition json_DeleteCronJobRecordsReq :: "'a DeleteCronJobRecordsReq_scheme \<Rightarrow> json" where
  [wire_defs]: "json_DeleteCronJobRecordsReq r = JObj (fields_DeleteCronJobRecordsReq r)"

definition apiAdminCronJobRecordDelete :: "DeleteCronJobRecordsReq \<Rightarrow> http_request" where
  [wire_defs]: "apiAdminCronJobRecordDelete param = apiV1Post (''admin/operations/cronjob/record/delete'') (Some (json_DeleteCronJobRecordsReq param))"

section \<open>Job templates (jobtemplate.ts) and approval orders (approvalorder.ts)\<close>

record JobTemplate =
  jt_id :: int
  jt_name :: string
  jt_describe :: string
  jt_document :: string
  jt_createdAt :: string
  jt_template :: string
  jt_userInfo :: IUserInfo

record JobTemplateReq =
  jq_describe :: string
  jq_name :: string
  jq_document :: string
  jq_template :: string

definition fields_JobTemplateReq :: "'a JobTemplateReq_scheme \<Rightarrow> jobj" where
  [wire_defs]: "fields_JobTemplateReq r = [(''describe'', JStr (jq_describe r)), (''name'', JStr (jq_name r)), (''document'', JStr (jq_document r)), (''template'', JStr (jq_template r))]"

definition json_JobTemplateReq :: "'a JobTemplateReq_scheme \<Rightarrow> json" where
  [wire_defs]: "json_JobTemplateReq r = JObj (fields_JobTemplateReq r)"

definition listJobTemplate :: "http_request" where
  [wire_defs]: "listJobTemplate = apiV1Get (''jobtemplate/list'') []"

definition createJobTemplate :: "JobTemplateReq \<Rightarrow> http_request" where
  [wire_defs]: "createJobTemplate data = apiV1Post (''jobtemplate/create'') (Some (json_JobTemplateReq data))"

definition getJobTemplate :: "int \<Rightarrow> http_request" where
  [wire_defs]: "getJobTemplate id' = apiV1Get (''jobtemplate/'' @ int_str id') []"

definition deleteJobTemplate :: "int \<Rightarrow> http_request" where
  [wire_defs]: "deleteJobTemplate id' = apiV1Delete (''jobtemplate/delete/'' @ int_str id') None"

definition updateJobTemplate :: "JobTemplateReq \<Rightarrow> int \<Rightarrow> http_request" where
  [wire_defs]: "updateJobTemplate data id' = apiV1Put (''jobtemplate/update/'' @ int_str id') (Some (JObj (fields_JobTemplateReq data @ [(''id'', jint id')])))"

datatype OrderStatus = Order_Pending | Order_Approved | Order_Rejected | Order_Canceled

record Content =
  ct_approvalorderTypeID :: int
  ct_approvalorderReason :: string
  ct_approvalorderExtensionHours :: int

record ApprovalOrder =
  ao_id :: int
  ao_name :: string
  ao_type :: string
  ao_status :: OrderStatus
  ao_content :: Content
  ao_reviewNotes :: string
  ao_creator :: IUserInfo
  ao_reviewer :: IUserInfo
  ao_createdAt :: string

record ApprovalOrderReq =
  aq_name :: string
  aq_type :: string
  aq_status :: string
  aq_approvalorderTypeID :: int
  aq_approvalorderReason :: string
  aq_approvalorderExtensionHours :: int
  aq_reviewerID :: "int option"
  aq_reviewNotes :: "string option"

definition fields_ApprovalOrderReq :: "'a ApprovalOrderReq_scheme \<Rightarrow> jobj" where
  [wire_defs]: "fields_ApprovalOrderReq r = [(''name'', JStr (aq_name r)), (''type'', JStr (aq_type r)), (''status'', JStr (aq_status r)), (''approvalorderTypeID'', jint (aq_approvalorderTypeID r)), (''approvalorderReason'', JStr (aq_approvalorderReason r)), (''approvalorderExtensionHours'', jint (aq_approvalorderExtensionHours r))]
     @ opt_field ''reviewerID'' jint (aq_reviewerID r)
     @ opt_field ''reviewNotes'' JStr (aq_reviewNotes r)"

definition json_ApprovalOrderReq :: "'a ApprovalOrderReq_scheme \<Rightarrow> json" where
  [wire_defs]: "json_ApprovalOrderReq r = JObj (fields_ApprovalOrderReq r)"

definition listApprovalOrders :: "http_request" where
  [wire_defs]: "listApprovalOrders = apiV1Get (''admin/approvalorder'') []"

definition listMyApprovalOrder :: "http_request" where
  [wire_defs]: "listMyApprovalOrder = apiV1Get (''approvalorder'') []"

definition deleteApprovalOrder :: "int \<Rightarrow> http_request" where
  [wire_defs]: "deleteApprovalOrder id' = apiV1Delete (''approvalorder/'' @ int_str id') None"

definition createApprovalOrder :: "ApprovalOrderReq \<Rightarrow> http_request" where
  [wire_defs]: "createApprovalOrder data = apiV1Post (''approvalorder'') (Some (json_ApprovalOrderReq data))"

definition updateApprovalOrder :: "int \<Rightarrow> ApprovalOrderReq \<Rightarrow> http_request" where
  [wire_defs]: "updateApprovalOrder id' data = apiV1Put (''approvalorder/'' @ int_str id') (Some (json_ApprovalOrderReq data))"

definition listApprovalOrdersbyName :: "string \<Rightarrow> http_request" where
  [wire_defs]: "listApprovalOrdersbyName name = apiV1Get (''approvalorder/name/'' @ name) []"

definition getApprovalOrder :: "int \<Rightarrow> http_request" where
  [wire_defs]: "getApprovalOrder id' = apiV1Get (''approvalorder/'' @ int_str id') []"

definition adminGetApprovalOrder :: "int \<Rightarrow> http_request" where
  [wire_defs]: "adminGetApprovalOrder id' = apiV1Get (''admin/approvalorder/'' @ int_str id') []"

definition checkPendingApprovalOrder :: "http_request" where
  [wire_defs]: "checkPendingApprovalOrder = apiV1Put (''admin/approvalorder/check'') None"

section \<open>AI tasks (ai-task.ts) and the training analysis (recommend/dl-task.ts)\<close>

record IAiTask =
  it_id :: int
  it_taskName :: string
  it_userName :: string
  it_namespace :: string
  it_taskType :: string
  it_createdAt :: string
  it_updatedAt :: string
  it_admittedAt :: string
  it_startedAt :: string
  it_finishAt :: string
  it_duration :: int
  it_jct :: int
  it_image :: string
  it_resourceRequest :: string
  it_workingDir :: string
  it_ShareDirs :: "string list"
  it_command :: string
  it_args :: string
  it_slo :: int
  it_status :: string
  it_jobName :: string
  it_isDeleted :: bool
  it_profileStatus :: int
  it_profileStat :: string
  it_estimatedTime :: int
  it_scheduleInfo :: string

record ProfileStat =
  ps_gpu_util_avg :: rat
  ps_gpu_util_max :: rat
  ps_gpu_util_std :: rat
  ps_sm_active_avg :: rat
  ps_sm_active_max :: rat
  ps_sm_util_std :: rat
  ps_sm_occupancy_avg :: rat
  ps_sm_occupancy_max :: rat
  ps_sm_occupancy_std :: rat
  ps_dram_util_avg :: rat
  ps_dram_util_max :: rat
  ps_dram_util_std :: rat
  ps_mem_copy_util_avg :: rat
  ps_mem_copy_util_max :: rat
  ps_mem_copy_util_std :: rat
  ps_pcie_tx_avg :: rat
  ps_pcie_tx_max :: rat
  ps_pcie_rx_avg :: rat
  ps_pcie_rx_max :: rat
  ps_cpu_usage_avg :: rat
  ps_gpu_mem_max :: rat
  ps_cpu_mem_max :: rat

definition apiAiTaskGet :: "int \<Rightarrow> http_request" where
  [wire_defs]: "apiAiTaskGet taskID = apiV1Get (''aitask/get'') [(''taskID'', jint taskID)]"

record IDlAnalyzeRequest =
  da_runningType :: string
  da_relationShips :: "string list"
  da_macs :: number
  da_params :: number
  da_batchSize :: number
  da_vocabularySize :: "number list"
  da_embeddingDim :: "number list"

definition fields_IDlAnalyzeRequest :: "'a IDlAnalyzeRequest_scheme \<Rightarrow> jobj" where
  [wire_defs]: "fields_IDlAnalyzeRequest r = [(''runningType'', JStr (da_runningType r)), (''relationShips'', jstrs (da_relationShips r)), (''macs'', json_of_number (da_macs r)), (''params'', json_of_number (da_params r)), (''batchSize'', json_of_number (da_batchSize r)), (''vocabularySize'', jnumbers (da_vocabularySize r)), (''embeddingDim'', jnumbers (da_embeddingDim r))]"

definition json_IDlAnalyzeRequest :: "'a IDlAnalyzeRequest_scheme \<Rightarrow> json" where
  [wire_defs]: "json_IDlAnalyzeRequest r = JObj (fields_IDlAnalyzeRequest r)"

definition apiDlAnalyze :: "IDlAnalyzeRequest \<Rightarrow> http_request" where
  [wire_defs]: "apiDlAnalyze data = apiV1Post (''recommenddljob/analyze'') (Some (json_IDlAnalyzeRequest data))"

end
