(* ===== verification/ApiImages.thy ===== *)
theory ApiImages
  imports ApiAccounts ApiJobs
begin

text \<open>
  The image registry calls (\<open>services/api/imagepack.ts\<close>, \<open>admin/imagepack.ts\<close>): their data
  and the requests they send. The logic of the same file is in \<open>Images\<close>.
\<close>

section \<open>Images (imagepack.ts)\<close>

datatype ImagePackStatus = Pack_Initial | Pack_Pending | Pack_Running | Pack_Finished | Pack_Failed
  | Pack_Canceled | Pack_Empty

datatype ImagePackSource =
    ImagePackSource_Dockerfile
  | ImagePackSource_PipApt
  | ImagePackSource_Snapshot
  | ImagePackSource_EnvdAdvanced
  | ImagePackSource_EnvdRaw

fun ImagePackSource_val :: "ImagePackSource \<Rightarrow> string" where
  "ImagePackSource_val ImagePackSource_Dockerfile = ''Dockerfile''"
| "ImagePackSource_val ImagePackSource_PipApt = ''PipApt''"
| "ImagePackSource_val ImagePackSource_Snapshot = ''Snapshot''"
| "ImagePackSource_val ImagePackSource_EnvdAdvanced = ''EnvdAdvanced''"
| "ImagePackSource_val ImagePackSource_EnvdRaw = ''EnvdRaw''"

record KanikoInfoResponse =
  ki_ID :: int
  ki_imageLink :: string
  ki_status :: ImagePackStatus
  ki_buildSource :: ImagePackSource
  ki_createdAt :: string
  ki_size :: int
  ki_dockerfile :: string
  ki_description :: string
  ki_podName :: string
  ki_podNameSpace :: string
  ki_nodeName :: string
  ki_userInfo :: IUserInfo
  ki_tags :: "string list"
  ki_imagepackName :: string
  ki_archs :: "string list"

record ListKanikoResponse =
  lk_kanikoList :: "KanikoInfoResponse list"

record ImageInfoResponse =
  ii_ID :: int
  ii_imageLink :: string
  ii_description :: string
  ii_status :: string
  ii_createdAt :: string
  ii_isPublic :: bool
  ii_taskType :: JobType
  ii_userInfo :: IUserInfo
  ii_tags :: "string list"
  ii_imageBuildSource :: int
  ii_imagepackName :: string
  ii_imageShareStatus :: string
  ii_archs :: "string list"

record ListImageResponse =
  ll_imageList :: "ImageInfoResponse list"

record ProjectCredentialResponse =
  pc_name :: string
  pc_password :: string
  pc_exist :: bool

record ProjectDetailResponse =
  pj_quota :: int
  pj_used :: int
  pj_total :: int
  pj_project :: string

record ImageUsers =
  iu_nickname :: string
  iu_name :: string
  iu_id :: int

record ImageAccounts =
  ia_name :: string
  ia_id :: int

record ImageShareObjectsResponse =
  is_userList :: "ImageUsers list"
  is_accountList :: "ImageAccounts list"

record SearchUngrantedUserResponse =
  su_userList :: "IUserAttributes list"

record GetUngrantedAccountsResponse =
  gu_accountList :: "ImageAccounts list"

record KanikoCreate =
  kc_description :: string
  kc_image :: string
  kc_packages :: string
  kc_requirements :: string
  kc_name :: string
  kc_tag :: string
  kc_tags :: "string list"
  kc_template :: string
  kc_buildSource :: ImagePackSource
  kc_archs :: "string list"

definition fields_KanikoCreate :: "'a KanikoCreate_scheme \<Rightarrow> jobj" where
  [wire_defs]: "fields_KanikoCreate r = [(''description'', JStr (kc_description r)), (''image'', JStr (kc_image r)), (''packages'', JStr (kc_packages r)), (''requirements'', JStr (kc_requirements r)), (''name'', JStr (kc_name r)), (''tag'', JStr (kc_tag r)), (''tags'', jstrs (kc_tags r)), (''template'', JStr (kc_template r)), (''buildSource'', (\<lambda>x. JStr (ImagePackSource_val x)) (kc_buildSource r)), (''archs'', jstrs (kc_archs r))]"

definition json_KanikoCreate :: "'a KanikoCreate_scheme \<Rightarrow> json" where
  [wire_defs]: "json_KanikoCreate r = JObj (fields_KanikoCreate r)"

record DockerfileCreate =
  dc_description :: string
  dc_dockerfile :: string
  dc_name :: string
  dc_tag :: string
  dc_tags :: "string list"
  dc_template :: string
  dc_buildSource :: ImagePackSource
  dc_archs :: "string list"

definition fields_DockerfileCreate :: "'a DockerfileCreate_scheme \<Rightarrow> jobj" where
  [wire_defs]: "fields_DockerfileCreate r = [(''description'', JStr (dc_description r)), (''dockerfile'', JStr (dc_dockerfile r)), (''name'', JStr (dc_name r)), (''tag'', JStr (dc_tag r)), (''tags'', jstrs (dc_tags r)), (''template'', JStr (dc_template r)), (''buildSource'', (\<lambda>x. JStr (ImagePackSource_val x)) (dc_buildSource r)), (''archs'', jstrs (dc_archs r))]"

definition json_DockerfileCreate :: "'a DockerfileCreate_scheme \<Rightarrow> json" where
  [wire_defs]: "json_DockerfileCreate r = JObj (fields_DockerfileCreate r)"

record EnvdCreate =
  ec_description :: string
  ec_envd :: string
  ec_name :: string
  ec_tag :: string
  ec_python :: string
  ec_base :: string
  ec_tags :: "string list"
  ec_template :: string
  ec_buildSource :: ImagePackSource

definition fields_EnvdCreate :: "'a EnvdCreate_scheme \<Rightarrow> jobj" where
  [wire_defs]: "fields_EnvdCreate r = [(''description'', JStr (ec_description r)), (''envd'', JStr (ec_envd r)), (''name'', JStr (ec_name r)), (''tag'', JStr (ec_tag r)), (''python'', JStr (ec_python r)), (''base'', JStr (ec_base r)), (''tags'', jstrs (ec_tags r)), (''template'', JStr (ec_template r)), (''buildSource'', (\<lambda>x. JStr (ImagePackSource_val x)) (ec_buildSource r))]"

definition json_EnvdCreate :: "'a EnvdCreate_scheme \<Rightarrow> json" where
  [wire_defs]: "json_EnvdCreate r = JObj (fields_EnvdCreate r)"

record ImageUpload =
  iup_imageLink :: string
  iup_imageName :: string
  iup_imageTag :: string
  iup_description :: string
  iup_tags :: "string list"

definition fields_ImageUpload :: "'a ImageUpload_scheme \<Rightarrow> jobj" where
  [wire_defs]: "fields_ImageUpload r = [(''imageLink'', JStr (iup_imageLink r)), (''imageName'', JStr (iup_imageName r)), (''imageTag'', JStr (iup_imageTag r)), (''description'', JStr (iup_description r)), (''tags'', jstrs (iup_tags r))]"

definition json_ImageUpload :: "'a ImageUpload_scheme \<Rightarrow> json" where
  [wire_defs]: "json_ImageUpload r = JObj (fields_ImageUpload r)"

record UpdateDescription =
  ud_id :: int
  ud_description :: string

definition fields_UpdateDescription :: "'a UpdateDescription_scheme \<Rightarrow> jobj" where
  [wire_defs]: "fields_UpdateDescription r = [(''id'', jint (ud_id r)), (''description'', JStr (ud_description r))]"

definition json_UpdateDescription :: "'a UpdateDescription_scheme \<Rightarrow> json" where
  [wire_defs]: "json_UpdateDescription r = JObj (fields_UpdateDescription r)"

record UpdateImageTag =
  ut_id :: int
  ut_tags :: "string list"

definition fields_UpdateImageTag :: "'a UpdateImageTag_scheme \<Rightarrow> jobj" where
  [wire_defs]: "fields_UpdateImageTag r = [(''id'', jint (ut_id r)), (''tags'', jstrs (ut_tags r))]"

definition json_UpdateImageTag :: "'a UpdateImageTag_scheme \<Rightarrow> json" where
  [wire_defs]: "json_UpdateImageTag r = JObj (fields_UpdateImageTag r)"

record UpdateImageArch =
  uar_id :: int
  uar_archs :: "string list"

definition fields_UpdateImageArch :: "'a UpdateImageArch_scheme \<Rightarrow> jobj" where
  [wire_defs]: "fields_UpdateImageArch r = [(''id'', jint (uar_id r)), (''archs'', jstrs (uar_archs r))]"

definition json_UpdateImageArch :: "'a UpdateImageArch_scheme \<Rightarrow> json" where
  [wire_defs]: "json_UpdateImageArch r = JObj (fields_UpdateImageArch r)"

definition json_IUserInfo :: "IUserInfo \<Rightarrow> json" where
  [wire_defs]: "json_IUserInfo u = JObj [(''username'', JStr (ui_username u)), (''nickname'', JStr (ui_nickname u))]"

record ImageLinkPair =
  lp_id :: int
  lp_imageLink :: string
  lp_description :: string
  lp_creator :: IUserInfo

definition fields_ImageLinkPair :: "'a ImageLinkPair_scheme \<Rightarrow> jobj" where
  [wire_defs]: "fields_ImageLinkPair r = [(''id'', jint (lp_id r)), (''imageLink'', JStr (lp_imageLink r)), (''description'', JStr (lp_description r)), (''creator'', json_IUserInfo (lp_creator r))]"

definition json_ImageLinkPair :: "'a ImageLinkPair_scheme \<Rightarrow> json" where
  [wire_defs]: "json_ImageLinkPair r = JObj (fields_ImageLinkPair r)"

record ImageLinkPairs =
  lps_linkPairs :: "ImageLinkPair list"

definition fields_ImageLinkPairs :: "'a ImageLinkPairs_scheme \<Rightarrow> jobj" where
  [wire_defs]: "fields_ImageLinkPairs r = [(''linkPairs'', (\<lambda>xs. JArr (map json_ImageLinkPair xs)) (lps_linkPairs r))]"

definition json_ImageLinkPairs :: "'a ImageLinkPairs_scheme \<Rightarrow> json" where
  [wire_defs]: "json_ImageLinkPairs r = JObj (fields_ImageLinkPairs r)"

record ImageIDList =
  il_idList :: "int list"

record HarborIPData =
  hi_ip :: string

record GetImageShare =
  gi_imageID :: int

definition fields_GetImageShare :: "'a GetImageShare_scheme \<Rightarrow> jobj" where
  [wire_defs]: "fields_GetImageShare r = [(''imageID'', jint (gi_imageID r))]"

definition json_GetImageShare :: "'a GetImageShare_scheme \<Rightarrow> json" where
  [wire_defs]: "json_GetImageShare r = JObj (fields_GetImageShare r)"

record AddImageShare =
  ai_idList :: "int list"
  ai_imageID :: int
  ai_type :: string

definition fields_AddImageShare :: "'a AddImageShare_scheme \<Rightarrow> jobj" where
  [wire_defs]: "fields_AddImageShare r = [(''idList'', jints (ai_idList r)), (''imageID'', jint (ai_imageID r)), (''type'', JStr (ai_type r))]"

definition json_AddImageShare :: "'a AddImageShare_scheme \<Rightarrow> json" where
  [wire_defs]: "json_AddImageShare r = JObj (fields_AddImageShare r)"

record DeleteImageShare =
  di_id :: int
  di_imageID :: int
  di_type :: string

definition fields_DeleteImageShare :: "'a DeleteImageShare_scheme \<Rightarrow> jobj" where
  [wire_defs]: "fields_DeleteImageShare r = [(''id'', jint (di_id r)), (''imageID'', jint (di_imageID r)), (''type'', JStr (di_type r))]"

definition json_DeleteImageShare :: "'a DeleteImageShare_scheme \<Rightarrow> json" where
  [wire_defs]: "json_DeleteImageShare r = JObj (fields_DeleteImageShare r)"

record SearchUngrantedUsers =
  sq_imageID :: int

definition fields_SearchUngrantedUsers :: "'a SearchUngrantedUsers_scheme \<Rightarrow> jobj" where
  [wire_defs]: "fields_SearchUngrantedUsers r = [(''imageID'', jint (sq_imageID r))]"

definition json_SearchUngrantedUsers :: "'a SearchUngrantedUsers_scheme \<Rightarrow> json" where
  [wire_defs]: "json_SearchUngrantedUsers r = JObj (fields_SearchUngrantedUsers r)"

record GetUngrantedAccounts =
  ga_imageID :: int

definition fields_GetUngrantedAccounts :: "'a GetUngrantedAccounts_scheme \<Rightarrow> jobj" where
  [wire_defs]: "fields_GetUngrantedAccounts r = [(''imageID'', jint (ga_imageID r))]"

definition json_GetUngrantedAccounts :: "'a GetUngrantedAccounts_scheme \<Rightarrow> json" where
  [wire_defs]: "json_GetUngrantedAccounts r = JObj (fields_GetUngrantedAccounts r)"

record CudaBaseImage =
  cb_id :: int
  cb_imageLabel :: string
  cb_label :: string
  cb_value :: string

record CudaBaseImageCreate =
  cc_imageLabel :: string
  cc_label :: string
  cc_value :: string

definition fields_CudaBaseImageCreate :: "'a CudaBaseImageCreate_scheme \<Rightarrow> jobj" where
  [wire_defs]: "fields_CudaBaseImageCreate r = [(''imageLabel'', JStr (cc_imageLabel r)), (''label'', JStr (cc_label r)), (''value'', JStr (cc_value r))]"

definition json_CudaBaseImageCreate :: "'a CudaBaseImageCreate_scheme \<Rightarrow> json" where
  [wire_defs]: "json_CudaBaseImageCreate r = JObj (fields_CudaBaseImageCreate r)"

record CudaBaseImageResponse =
  cbr_cudaBaseImages :: "CudaBaseImage list"


definition apiUserListKaniko :: "http_request" where
  [wire_defs]: "apiUserListKaniko = apiV1Get (''images/kaniko'') []"

definition apiUserCreateKaniko :: "KanikoCreate \<Rightarrow> http_request" where
  [wire_defs]: "apiUserCreateKaniko imagepack = apiV1Post (''images/kaniko'') (Some (json_KanikoCreate imagepack))"

definition apiUserCreateByDockerfile :: "DockerfileCreate \<Rightarrow> http_request" where
  [wire_defs]: "apiUserCreateByDockerfile imageDockerfile = apiV1Post (''images/dockerfile'') (Some (json_DockerfileCreate imageDockerfile))"

definition apiUserCreateByEnvd :: "EnvdCreate \<Rightarrow> http_request" where
  [wire_defs]: "apiUserCreateByEnvd envdInfo = apiV1Post (''images/envd'') (Some (json_EnvdCreate envdInfo))"

definition apiUserRemoveKanikoList :: "int list \<Rightarrow> http_request" where
  [wire_defs]: "apiUserRemoveKanikoList idList = apiV1Post ''images/remove'' (Some (JObj [(''idList'', jints idList)]))"

definition apiUserGetKaniko :: "string \<Rightarrow> http_request" where
  [wire_defs]: "apiUserGetKaniko name = apiV1Get (''images/getbyname?name='' @ name) []"

definition apiUserListImage :: "http_request" where
  [wire_defs]: "apiUserListImage = apiV1Get (''images/image'') []"

definition apiUserChangeImagePublicStatus :: "int \<Rightarrow> http_request" where
  [wire_defs]: "apiUserChangeImagePublicStatus id' = apiV1Post (''images/change/'' @ int_str id') None"

definition apiUserUploadImage :: "ImageUpload \<Rightarrow> http_request" where
  [wire_defs]: "apiUserUploadImage imageupload = apiV1Post (''images/image'') (Some (json_ImageUpload imageupload))"

definition apiUserDeleteImage :: "int \<Rightarrow> http_request" where
  [wire_defs]: "apiUserDeleteImage id' = apiV1Delete (''images/image/'' @ int_str id') None"

definition apiUserDeleteImageList :: "int list \<Rightarrow> http_request" where
  [wire_defs]: "apiUserDeleteImageList idList = apiV1Post ''images/deleteimage'' (Some (JObj [(''idList'', jints idList)]))"

definition apiUserGetCredential :: "http_request" where
  [wire_defs]: "apiUserGetCredential = apiV1Post (''images/credential'') None"

definition apiUserGetQuota :: "http_request" where
  [wire_defs]: "apiUserGetQuota = apiV1Get (''images/quota'') []"

definition apiUserChangeImageDescription :: "UpdateDescription \<Rightarrow> http_request" where
  [wire_defs]: "apiUserChangeImageDescription data = apiV1Post (''images/description'') (Some (json_UpdateDescription data))"

definition apiUserCheckImageValid :: "ImageLinkPairs \<Rightarrow> http_request" where
  [wire_defs]: "apiUserCheckImageValid linkPairs = apiV1Post (''images/valid'') (Some (json_ImageLinkPairs linkPairs))"

definition apiGetHarborIP :: "http_request" where
  [wire_defs]: "apiGetHarborIP = apiV1Get (''images/harbor'') []"

definition apiUserUpdateImageTags :: "UpdateImageTag \<Rightarrow> http_request" where
  [wire_defs]: "apiUserUpdateImageTags data = apiV1Post (''images/tags'') (Some (json_UpdateImageTag data))"

definition apiUserUpdateImageArchs :: "UpdateImageArch \<Rightarrow> http_request" where
  [wire_defs]: "apiUserUpdateImageArchs data = apiV1Post (''images/arch'') (Some (json_UpdateImageArch data))"

definition apiUserGetImageTemplate :: "string \<Rightarrow> http_request" where
  [wire_defs]: "apiUserGetImageTemplate name = apiV1Get (''images/template?name='' @ name) []"

definition apiUserGetImageShareObjects :: "GetImageShare \<Rightarrow> http_request" where
  [wire_defs]: "apiUserGetImageShareObjects data = apiV1Get (''images/share'') (fields_GetImageShare data)"

definition apiUserAddImageShare :: "AddImageShare \<Rightarrow> http_request" where
  [wire_defs]: "apiUserAddImageShare data = apiV1Post (''images/share'') (Some (json_AddImageShare data))"

definition apiUserDeleteImageShare :: "DeleteImageShare \<Rightarrow> http_request" where
  [wire_defs]: "apiUserDeleteImageShare data = apiV1Delete (''images/share'') (Some (JObj [(''data'', json_DeleteImageShare data)]))"

definition apiUserSearchUser :: "SearchUngrantedUsers \<Rightarrow> http_request" where
  [wire_defs]: "apiUserSearchUser data = apiV1Get (''images/user'') (fields_SearchUngrantedUsers data)"

definition apiUserGetUngrantedAccounts :: "GetUngrantedAccounts \<Rightarrow> http_request" where
  [wire_defs]: "apiUserGetUngrantedAccounts data = apiV1Get (''images/account'') (fields_GetUngrantedAccounts data)"

definition apiGetCudaBaseImages :: "http_request" where
  [wire_defs]: "apiGetCudaBaseImages = apiV1Get (''images/cudabaseimage'') []"

definition apiAddCudaBaseImage :: "CudaBaseImageCreate \<Rightarrow> http_request" where
  [wire_defs]: "apiAddCudaBaseImage data = apiV1Post (''images/cudabaseimage'') (Some (json_CudaBaseImageCreate data))"

definition apiDeleteCudaBaseImage :: "int \<Rightarrow> http_request" where
  [wire_defs]: "apiDeleteCudaBaseImage id' = apiV1Delete (''images/cudabaseimage/'' @ int_str id') None"

section \<open>Images for administrators (admin/imagepack.ts)\<close>

definition apiAdminImagePublicStatusChange :: "int \<Rightarrow> http_request" where
  [wire_defs]: "apiAdminImagePublicStatusChange id' = apiV1Post (''admin/images/change'') (Some (jint id'))"

definition apiAdminListImage :: "http_request" where
  [wire_defs]: "apiAdminListImage = apiV1Get (''admin/images/image'') []"

definition apiAdminDeleteKanikoList :: "int list \<Rightarrow> http_request" where
  [wire_defs]: "apiAdminDeleteKanikoList idList = apiV1Post ''admin/images/deletekaniko'' (Some (JObj [(''idList'', jints idList)]))"

definition apiAdminListKaniko :: "http_request" where
  [wire_defs]: "apiAdminListKaniko = apiV1Get (''admin/images/kaniko'') []"

definition apiAdminDeleteImageList :: "int list \<Rightarrow> http_request" where
  [wire_defs]: "apiAdminDeleteImageList idList = apiV1Post ''admin/images/deleteimage'' (Some (JObj [(''idList'', jints idList)]))"

definition apiAdminChangeImagePublicStatus :: "int \<Rightarrow> http_request" where
  [wire_defs]: "apiAdminChangeImagePublicStatus id' = apiV1Post (''admin/images/change/'' @ int_str id') None"

definition apiAdminChangeImageDescription :: "UpdateDescription \<Rightarrow> http_request" where
  [wire_defs]: "apiAdminChangeImageDescription data = apiV1Post (''admin/images/description'') (Some (json_UpdateDescription data))"

end
