(* ===== verification/ApiData.thy ===== *)
theory ApiData
  imports ApiJobs
begin

text \<open>
  Datasets and files (\<open>services/api/dataset.ts\<close>, \<open>file.ts\<close>).
\<close>

section \<open>Datasets (dataset.ts)\<close>

record Extra =
  ex_tag :: "string list"
  ex_weburl :: string
  ex_editable :: bool

record IDataset =
  ds_id :: int
  ds_name :: string
  ds_url :: string
  ds_describe :: string
  ds_createdAt :: string
  ds_type :: string
  ds_extra :: Extra
  ds_userInfo :: IUserInfo

record UserDataset =
  dus_datasetID :: int
  dus_userIDs :: "int list"

definition fields_UserDataset :: "'a UserDataset_scheme \<Rightarrow> jobj" where
  [wire_defs]: "fields_UserDataset r = [(''datasetID'', jint (dus_datasetID r)), (''userIDs'', jints (dus_userIDs r))]"

definition json_UserDataset :: "'a UserDataset_scheme \<Rightarrow> json" where
  [wire_defs]: "json_UserDataset r = JObj (fields_UserDataset r)"

record QueueDataset =
  dqs_queueIDs :: "int list"
  dqs_datasetID :: int

definition fields_QueueDataset :: "'a QueueDataset_scheme \<Rightarrow> jobj" where
  [wire_defs]: "fields_QueueDataset r = [(''queueIDs'', jints (dqs_queueIDs r)), (''datasetID'', jint (dqs_datasetID r))]"

definition json_QueueDataset :: "'a QueueDataset_scheme \<Rightarrow> json" where
  [wire_defs]: "json_QueueDataset r = JObj (fields_QueueDataset r)"

record DatasetReq =
  dr_describe :: string
  dr_name :: string
  dr_url :: string
  dr_type :: string
  dr_tags :: "string list"
  dr_weburl :: string
  dr_ispublic :: bool
  dr_editable :: bool

definition fields_DatasetReq :: "'a DatasetReq_scheme \<Rightarrow> jobj" where
  [wire_defs]: "fields_DatasetReq r = [(''describe'', JStr (dr_describe r)), (''name'', JStr (dr_name r)), (''url'', JStr (dr_url r)), (''type'', JStr (dr_type r)), (''tags'', jstrs (dr_tags r)), (''weburl'', JStr (dr_weburl r)), (''ispublic'', JBool (dr_ispublic r)), (''editable'', JBool (dr_editable r))]"

definition json_DatasetReq :: "'a DatasetReq_scheme \<Rightarrow> json" where
  [wire_defs]: "json_DatasetReq r = JObj (fields_DatasetReq r)"

record DatasetRenameReq =
  drn_datasetID :: int
  drn_name :: string

definition fields_DatasetRenameReq :: "'a DatasetRenameReq_scheme \<Rightarrow> jobj" where
  [wire_defs]: "fields_DatasetRenameReq r = [(''datasetID'', jint (drn_datasetID r)), (''name'', JStr (drn_name r))]"

definition json_DatasetRenameReq :: "'a DatasetRenameReq_scheme \<Rightarrow> json" where
  [wire_defs]: "json_DatasetRenameReq r = JObj (fields_DatasetRenameReq r)"

record UserDatasetResp =
  dur_id :: int
  dur_name :: string
  dur_isowner :: bool

record QueueDatasetGetResp =
  dqr_id :: int
  dqr_name :: string

record cancelSharedUserResp =
  csu_datasetID :: int
  csu_userID :: int

definition fields_cancelSharedUserResp :: "'a cancelSharedUserResp_scheme \<Rightarrow> jobj" where
  [wire_defs]: "fields_cancelSharedUserResp r = [(''datasetID'', jint (csu_datasetID r)), (''userID'', jint (csu_userID r))]"

definition json_cancelSharedUserResp :: "'a cancelSharedUserResp_scheme \<Rightarrow> json" where
  [wire_defs]: "json_cancelSharedUserResp r = JObj (fields_cancelSharedUserResp r)"

record cancelSharedQueueResp =
  csq_datasetID :: int
  csq_queueID :: int

definition fields_cancelSharedQueueResp :: "'a cancelSharedQueueResp_scheme \<Rightarrow> jobj" where
  [wire_defs]: "fields_cancelSharedQueueResp r = [(''datasetID'', jint (csq_datasetID r)), (''queueID'', jint (csq_queueID r))]"

definition json_cancelSharedQueueResp :: "'a cancelSharedQueueResp_scheme \<Rightarrow> json" where
  [wire_defs]: "json_cancelSharedQueueResp r = JObj (fields_cancelSharedQueueResp r)"

definition apiGetDataset :: "http_request" where
  [wire_defs]: "apiGetDataset = apiV1Get (''dataset/mydataset'') []"

definition apiGetDatasetByID :: "int \<Rightarrow> http_request" where
  [wire_defs]: "apiGetDatasetByID datasetID = apiV1Get (''dataset/detail/'' @ int_str datasetID) []"

definition apiAdminGetDatasetByID :: "int \<Rightarrow> http_request" where
  [wire_defs]: "apiAdminGetDatasetByID datasetID = apiV1Get (''dataset/detail/'' @ int_str datasetID) []"

definition apiAdminGetDataset :: "http_request" where
  [wire_defs]: "apiAdminGetDataset = apiV1Get (''admin/dataset/alldataset'') []"

definition apiShareDatasetwithUser :: "UserDataset \<Rightarrow> http_request" where
  [wire_defs]: "apiShareDatasetwithUser ud = apiV1Post (''dataset/share/user'') (Some (json_UserDataset ud))"

definition apiShareDatasetwithQueue :: "QueueDataset \<Rightarrow> http_request" where
  [wire_defs]: "apiShareDatasetwithQueue qd = apiV1Post (''dataset/share/queue'') (Some (json_QueueDataset qd))"

definition apiDatasetCreate :: "DatasetReq \<Rightarrow> http_request" where
  [wire_defs]: "apiDatasetCreate dataset = apiV1Post (''dataset/create'') (Some (json_DatasetReq dataset))"

definition apiDatasetDelete :: "int \<Rightarrow> http_request" where
  [wire_defs]: "apiDatasetDelete datasetID = apiV1Delete (''dataset/delete/'' @ int_str datasetID) None"

definition apiDatasetRename :: "DatasetRenameReq \<Rightarrow> http_request" where
  [wire_defs]: "apiDatasetRename drr = apiV1Post (''dataset/rename'') (Some (json_DatasetRenameReq drr))"

definition apiAdminShareDatasetwithUser :: "UserDataset \<Rightarrow> http_request" where
  [wire_defs]: "apiAdminShareDatasetwithUser ud = apiV1Post (''admin/dataset/share/user'') (Some (json_UserDataset ud))"

definition apiAdminShareDatasetwithQueue :: "QueueDataset \<Rightarrow> http_request" where
  [wire_defs]: "apiAdminShareDatasetwithQueue qd = apiV1Post (''admin/dataset/share/queue'') (Some (json_QueueDataset qd))"

definition apiListUsersNotInDataset :: "int \<Rightarrow> http_request" where
  [wire_defs]: "apiListUsersNotInDataset datasetID = apiV1Get (''dataset/'' @ int_str datasetID @ ''/usersNotIn'') []"

definition apiListQueuesNotInDataset :: "int \<Rightarrow> http_request" where
  [wire_defs]: "apiListQueuesNotInDataset datasetID = apiV1Get (''dataset/'' @ int_str datasetID @ ''/queuesNotIn'') []"

definition apiListUsersInDataset :: "int \<Rightarrow> http_request" where
  [wire_defs]: "apiListUsersInDataset datasetID = apiV1Get (''dataset/'' @ int_str datasetID @ ''/usersIn'') []"

definition apiListQueuesInDataset :: "int \<Rightarrow> http_request" where
  [wire_defs]: "apiListQueuesInDataset datasetID = apiV1Get (''dataset/'' @ int_str datasetID @ ''/queuesIn'') []"

definition apiCancelShareWithUser :: "cancelSharedUserResp \<Rightarrow> http_request" where
  [wire_defs]: "apiCancelShareWithUser CSU = apiV1Post (''dataset/cancelshare/user'') (Some (json_cancelSharedUserResp CSU))"

definition apiCancelShareWithQueue :: "cancelSharedQueueResp \<Rightarrow> http_request" where
  [wire_defs]: "apiCancelShareWithQueue CSQ = apiV1Post (''dataset/cancelshare/queue'') (Some (json_cancelSharedQueueResp CSQ))"

definition apiAdminCancelShareWithUser :: "cancelSharedUserResp \<Rightarrow> http_request" where
  [wire_defs]: "apiAdminCancelShareWithUser CSU = apiV1Post (''admin/dataset/cancelshare/user'') (Some (json_cancelSharedUserResp CSU))"

definition apiAdminCancelShareWithQueue :: "cancelSharedQueueResp \<Rightarrow> http_request" where
  [wire_defs]: "apiAdminCancelShareWithQueue CSQ = apiV1Post (''admin/dataset/cancelshare/queue'') (Some (json_cancelSharedQueueResp CSQ))"

definition apiDatasetUpdate :: "DatasetReq \<Rightarrow> int \<Rightarrow> http_request" where
  [wire_defs]: "apiDatasetUpdate dataset datasetId = apiV1Post (''dataset/update'') (Some (JObj (fields_DatasetReq dataset @ [(''datasetId'', jint datasetId)])))"

section \<open>Files (file.ts)\<close>

record FileItem =
  fi_isdir :: bool
  fi_modifytime :: string
  fi_name :: string
  fi_size :: int

record MoveFile =
  mf_fileName :: string
  mf_dst :: string

definition fields_MoveFile :: "'a MoveFile_scheme \<Rightarrow> jobj" where
  [wire_defs]: "fields_MoveFile r = [(''fileName'', JStr (mf_fileName r)), (''dst'', JStr (mf_dst r))]"

definition json_MoveFile :: "'a MoveFile_scheme \<Rightarrow> json" where
  [wire_defs]: "json_MoveFile r = JObj (fields_MoveFile r)"

text \<open>\<open>path.replace(/^\\//, '')\<close>: one leading slash is taken off.\<close>

fun strip_slash :: "string \<Rightarrow> string" where
  "strip_slash [] = []"
| "strip_slash (c # cs) = (if c = CHR ''/'' then cs else c # cs)"

definition apiGetFiles :: "string \<Rightarrow> http_request" where
  [wire_defs]: "apiGetFiles path = apiGet (''ss/files/'' @ encodeURIComponent (strip_slash path)) []"

definition apiGetRWFiles :: "string \<Rightarrow> http_request" where
  [wire_defs]: "apiGetRWFiles path = apiGet (''ss/rwfiles/'' @ strip_slash path) []"

definition apiGetAdminFiles :: "string \<Rightarrow> http_request" where
  [wire_defs]: "apiGetAdminFiles path = apiGet (''ss/admin/files/'' @ strip_slash path) []"

definition apiMkdir :: "string \<Rightarrow> http_request" where
  [wire_defs]: "apiMkdir path =
     \<lparr>rq_method = MKCOL, rq_url = ''ss/'' @ strip_slash path, rq_query = [], rq_body = None\<rparr>"

definition apiFileDelete :: "string \<Rightarrow> http_request" where
  [wire_defs]: "apiFileDelete path = apiDelete (''ss/delete/'' @ strip_slash path) None"

definition apiMoveFile :: "MoveFile \<Rightarrow> string \<Rightarrow> http_request" where
  [wire_defs]: "apiMoveFile req path = apiPost (''ss/move/'' @ strip_slash path) (Some (json_MoveFile req))"

definition apiGetDatasetFiles :: "int \<Rightarrow> string \<Rightarrow> http_request" where
  [wire_defs]: "apiGetDatasetFiles datasetID path =
     apiGet (if path = [] then ''ss/dataset/'' @ int_str datasetID
             else ''ss/dataset/'' @ int_str datasetID @ ''/'' @ strip_slash path) []"

end
