(* ===== verification/Machine.thy ===== *)
theory Machine
  imports Main
begin

text \<open>
  What the asynchronous components share: runs of a labelled step relation, and two contracts on
  a machine. \<open>machine\<close> says that an invariant holds at the start and is kept by every step;
  \<open>draining_machine\<close> adds that the machine's replies (the steps it does not depend on the user
  for) use up a weight, and that one of them is possible while the weight is not used up;
  \<open>refinement\<close> says that each step of a machine is a step of an abstract one.
\<close>

inductive runs :: "('s \<Rightarrow> 'e \<Rightarrow> 's \<Rightarrow> bool) \<Rightarrow> 's \<Rightarrow> 'e list \<Rightarrow> 's \<Rightarrow> bool"
  for step :: "'s \<Rightarrow> 'e \<Rightarrow> 's \<Rightarrow> bool" where
  runs_Nil: "runs step s [] s"
| runs_Cons: "step s e s' \<Longrightarrow> runs step s' es s'' \<Longrightarrow> runs step s (e # es) s''"

inductive_cases runs_NilE: "runs step s [] s'"
inductive_cases runs_ConsE: "runs step s (e # es) s'"

inductive_simps runs_Nil_simp [simp]: "runs step s [] s'"
inductive_simps runs_Cons_simp: "runs step s (e # es) s'"

lemma runs_append: "runs step s es s' \<Longrightarrow> runs step s' fs s'' \<Longrightarrow> runs step s (es @ fs) s''"
  by (induction rule: runs.induct) (auto intro: runs_Cons)

lemma runs_single: "step s e s' \<Longrightarrow> runs step s [e] s'"
  by (auto intro: runs.intros)

lemma runs_snocE:
  assumes "runs step s (es @ [e]) s''"
  obtains s' where "runs step s es s'" "step s' e s''"
proof -
  have "\<exists>s'. runs step s es s' \<and> step s' e s''"
    using assms
    by (induction es arbitrary: s) (auto elim!: runs_ConsE intro: runs.intros, blast intro: runs_Cons)
  then show ?thesis using that by blast
qed

lemma runs_appendE:
  assumes "runs step s (es @ fs) s''"
  obtains s' where "runs step s es s'" "runs step s' fs s''"
proof -
  have "\<exists>s'. runs step s es s' \<and> runs step s' fs s''"
    using assms by (induction es arbitrary: s) (auto elim!: runs_ConsE, blast intro: runs_Cons)
  then show ?thesis using that by blast
qed

text \<open>What the last of the events that say anything of it says.\<close>

fun latest :: "('e \<Rightarrow> 'a option) \<Rightarrow> 'e list \<Rightarrow> 'a option" where
  "latest f [] = None"
| "latest f (e # es) = (case latest f es of None \<Rightarrow> f e | Some x \<Rightarrow> Some x)"

lemma latest_snoc [simp]: "latest f (es @ [e]) = (case f e of None \<Rightarrow> latest f es | Some x \<Rightarrow> Some x)"
  by (induction es) (simp_all split: option.split)

lemma latest_Some: "latest f es = Some x \<Longrightarrow> \<exists>e \<in> set es. f e = Some x"
  by (induction es) (auto split: option.splits)

locale machine =
  fixes step :: "'s \<Rightarrow> 'e \<Rightarrow> 's \<Rightarrow> bool" and start :: "'s \<Rightarrow> bool" and inv :: "'s \<Rightarrow> bool"
  assumes start_inv: "start s \<Longrightarrow> inv s"
    and step_inv: "inv s \<Longrightarrow> step s e s' \<Longrightarrow> inv s'"
begin

lemma runs_inv: "runs step s es s' \<Longrightarrow> inv s \<Longrightarrow> inv s'"
  by (induction rule: runs.induct) (auto intro: step_inv)

lemma reachable_inv: "start s \<Longrightarrow> runs step s es s' \<Longrightarrow> inv s'"
  using runs_inv start_inv by blast

end

locale draining_machine = machine step start inv
  for step :: "'s \<Rightarrow> 'e \<Rightarrow> 's \<Rightarrow> bool" and start :: "'s \<Rightarrow> bool" and inv :: "'s \<Rightarrow> bool" +
  fixes reply :: "'e \<Rightarrow> bool" and weight :: "'s \<Rightarrow> nat"
  assumes reply_less: "inv s \<Longrightarrow> step s e s' \<Longrightarrow> reply e \<Longrightarrow> weight s' < weight s"
    and reply_enabled: "inv s \<Longrightarrow> 0 < weight s \<Longrightarrow> \<exists>e s'. reply e \<and> step s e s'"
begin

lemma replies_bounded:
  "runs step s es s' \<Longrightarrow> inv s \<Longrightarrow> list_all reply es \<Longrightarrow> length es + weight s' \<le> weight s"
proof (induction rule: runs.induct)
  case (runs_Nil s)
  then show ?case by simp
next
  case (runs_Cons s e s' es s'')
  then have "inv s'" "weight s' < weight s" by (auto intro: step_inv reply_less)
  with runs_Cons show ?case by simp
qed

lemma drains: "inv s \<Longrightarrow> \<exists>es s'. list_all reply es \<and> runs step s es s' \<and> weight s' = 0"
proof (induction "weight s" arbitrary: s rule: less_induct)
  case less
  show ?case
  proof (cases "weight s = 0")
    case True
    then show ?thesis by (intro exI [of _ "[]"] exI [of _ s]) simp
  next
    case False
    with less.prems obtain e s' where e: "reply e" "step s e s'" using reply_enabled by blast
    with less obtain es s'' where "list_all reply es" "runs step s' es s''" "weight s'' = 0"
      using reply_less step_inv by blast
    with e show ?thesis
      by (intro exI [of _ "e # es"] exI [of _ s'']) (simp add: runs_Cons)
  qed
qed

end

text \<open>
  A concrete machine refines an abstract one through \<open>h\<close> when it starts in a state that is a start
  for the abstract one and each of its steps, under its invariant, is a matching abstract step.
\<close>

locale refinement = machine step start inv
  for step :: "'s \<Rightarrow> 'e \<Rightarrow> 's \<Rightarrow> bool" and start :: "'s \<Rightarrow> bool" and inv :: "'s \<Rightarrow> bool" +
  fixes astep :: "'t \<Rightarrow> 'a \<Rightarrow> 't \<Rightarrow> bool" and astart :: "'t \<Rightarrow> bool"
    and h :: "'s \<Rightarrow> 't" and matches :: "'e \<Rightarrow> 'a \<Rightarrow> bool"
  assumes start_abs: "start s \<Longrightarrow> astart (h s)"
    and step_abs: "inv s \<Longrightarrow> step s e s' \<Longrightarrow> \<exists>a. matches e a \<and> astep (h s) a (h s')"
begin

lemma runs_abs: "runs step s es s' \<Longrightarrow> inv s \<Longrightarrow> \<exists>as. list_all2 matches es as \<and> runs astep (h s) as (h s')"
proof (induction rule: runs.induct)
  case (runs_Nil s)
  then show ?case by simp
next
  case (runs_Cons s e s' es s'')
  then obtain as where "list_all2 matches es as" "runs astep (h s') as (h s'')"
    using step_inv by blast
  moreover obtain a where "matches e a" "astep (h s) a (h s')" using runs_Cons step_abs by blast
  ultimately have "list_all2 matches (e # es) (a # as) \<and> runs astep (h s) (a # as) (h s'')"
    by (simp add: runs.runs_Cons)
  then show ?case by blast
qed

lemma reachable_abs:
  assumes "start s" "runs step s es s'"
  shows "astart (h s) \<and> (\<exists>as. list_all2 matches es as \<and> runs astep (h s) as (h s'))"
  using assms start_abs runs_abs start_inv by blast

end

end
