(* ===== verification/Client.thy ===== *)
theory Client
  imports ApiAccounts Machine
begin

text \<open>
  \<open>services/client.ts\<close>: the HTTP client every call of the application goes through. Its module
  state is \<open>isRefreshing\<close> and \<open>failedQueue\<close>; each request in the hands of the client is an
  entry of \<open>requests\<close>, whose phase says which \<open>await\<close> it is in. One step is one piece of
  code that runs without interruption, from the answer that wakes it up to its next \<open>await\<close>.
  Also here: the error reporting of \<open>apiRequest\<close>, \<open>getErrorCode\<close> and
  \<open>utils/toast.ts\<close>, and the upload and download by \<open>XMLHttpRequest\<close>.
  The \<open>ky\<close> library sends the requests; what it answers is an argument of the step.
\<close>

section \<open>Error codes (services/error_code.ts)\<close>

definition OK :: int where "OK = 0"
definition ERROR_INVALID_REQUEST :: int where "ERROR_INVALID_REQUEST = 40001"
definition ERROR_TOKEN_EXPIRED :: int where "ERROR_TOKEN_EXPIRED = 40101"
definition ERROR_TOKEN_INVALID :: int where "ERROR_TOKEN_INVALID = 40102"
definition ERROR_MUST_REGISTER :: int where "ERROR_MUST_REGISTER = 40103"
definition ERROR_REGISTER_TIMEOUT :: int where "ERROR_REGISTER_TIMEOUT = 40104"
definition ERROR_REGISTER_NOT_FOUND :: int where "ERROR_REGISTER_NOT_FOUND = 40105"
definition ERROR_INVALID_CREDENTIALS :: int where "ERROR_INVALID_CREDENTIALS = 40106"
definition ERROR_USER_NOT_ALLOWED :: int where "ERROR_USER_NOT_ALLOWED = 40301"
definition ERROR_USER_EMAIL_NOT_VERIFIED :: int where "ERROR_USER_EMAIL_NOT_VERIFIED = 40302"
definition ERROR_SERVICE_SSHD_NOT_FOUND :: int where "ERROR_SERVICE_SSHD_NOT_FOUND = 40401"
definition ERROR_BACKEND :: int where "ERROR_BACKEND = 50001"
definition ERROR_NOT_SPECIFIED :: int where "ERROR_NOT_SPECIFIED = 99999"

lemmas error_code_defs = OK_def ERROR_INVALID_REQUEST_def ERROR_TOKEN_EXPIRED_def ERROR_TOKEN_INVALID_def
  ERROR_MUST_REGISTER_def ERROR_REGISTER_TIMEOUT_def ERROR_REGISTER_NOT_FOUND_def
  ERROR_INVALID_CREDENTIALS_def ERROR_USER_NOT_ALLOWED_def ERROR_USER_EMAIL_NOT_VERIFIED_def
  ERROR_SERVICE_SSHD_NOT_FOUND_def ERROR_BACKEND_def ERROR_NOT_SPECIFIED_def

section \<open>Responses and failures\<close>

text \<open>
  The body of an error response: not JSON, the JSON value \<open>null\<close>, or a value whose
  \<open>code\<close> and \<open>msg\<close> may be missing; or a body that has been read already, which cannot be
  read again. \<open>rs_text\<close> is the message of the \<open>HTTPError\<close> the \<open>ky\<close> library makes of
  the response.
\<close>

datatype payload = Not_json | Null_json | Consumed | Fields "int option" "string option"

record response =
  rs_status :: int
  rs_payload :: payload
  rs_text :: string

datatype failure = Http response | Failure string

datatype outcome = Succeeded response | Rejected failure

definition response_ok :: "response \<Rightarrow> bool" where
  "response_ok r \<longleftrightarrow> 200 \<le> rs_status r \<and> rs_status r < 300"

text \<open>What a plain \<open>ky\<close> call makes of the response: it throws for every status that is not 2xx.\<close>

definition plain_outcome :: "failure + response \<Rightarrow> outcome" where
  "plain_outcome a = (case a of Inl f \<Rightarrow> Rejected f
     | Inr r \<Rightarrow> if response_ok r then Succeeded r else Rejected (Http r))"

definition null_code_error :: string where
  "null_code_error = ''Cannot read properties of null (reading 'code')''"

section \<open>The client's state\<close>

definition ACCESS_TOKEN_KEY :: string where "ACCESS_TOKEN_KEY = ''access_token''"
definition REFRESH_TOKEN_KEY :: string where "REFRESH_TOKEN_KEY = ''refresh_token''"

text \<open>
  A request is on its way with the token of its \<open>Authorization\<close> header; waits in
  \<open>failedQueue\<close>; leads a refresh, waiting for the answer to \<open>auth/refresh\<close> (it keeps its own
  401 response and the refresh token it sent) or having stored the new tokens; is on its way a
  second time; or has its outcome.
\<close>

datatype phase =
    In_flight "string option"
  | Waiting
  | Refreshing response string
  | Refreshed string
  | Retrying string
  | Settled outcome

record client =
  requests :: "phase list"
  isRefreshing :: bool
  failedQueue :: "nat list"
  localStorage :: strobj
  href :: string
  navigations :: "string list"

definition settle :: "nat \<Rightarrow> outcome \<Rightarrow> client \<Rightarrow> client" where
  "settle i out c = c\<lparr>requests := (requests c)[i := Settled out]\<rparr>"

text \<open>\<open>localStorage.getItem(k) || ''\<close>, and the header the \<open>beforeRequest\<close> hook sets.\<close>

definition stored :: "strobj \<Rightarrow> string \<Rightarrow> string" where
  "stored ls k = (case map_of ls k of None \<Rightarrow> [] | Some v \<Rightarrow> v)"

definition bearer :: "strobj \<Rightarrow> string option" where
  "bearer ls = (let token = stored ls ACCESS_TOKEN_KEY in if token = [] then None else Some token)"

definition send_request :: "client \<Rightarrow> client" where
  "send_request c = c\<lparr>requests := requests c @ [In_flight (bearer (localStorage c))]\<rparr>"

text \<open>\<open>processQueue(error, token)\<close>: every waiting request is rejected, or sent again with the token.\<close>

definition processQueue :: "failure option \<Rightarrow> string \<Rightarrow> client \<Rightarrow> client" where
  "processQueue error token c =
     c\<lparr>requests := foldl (\<lambda>rs i. rs[i := (case error of Some e \<Rightarrow> Settled (Rejected e) | None \<Rightarrow> Retrying token)])
         (requests c) (failedQueue c),
       failedQueue := []\<rparr>"

section \<open>The handlers\<close>

text \<open>
  The \<open>afterResponse\<close> hook, from the moment the body of the answer is read (from a clone: the
  response itself stays unread) to its next suspension.
\<close>

definition afterResponse :: "nat \<Rightarrow> response \<Rightarrow> client \<Rightarrow> client" where
  "afterResponse i r c =
     (if response_ok r then settle i (Succeeded r) c
      else if rs_status r = 401 then
        (case rs_payload r of
           Not_json \<Rightarrow> settle i (Rejected (Http r)) c
         | Consumed \<Rightarrow> settle i (Rejected (Http r)) c
         | Null_json \<Rightarrow> settle i (Rejected (Failure null_code_error)) c
         | Fields code msg \<Rightarrow>
             if code = Some ERROR_TOKEN_EXPIRED then
               (if isRefreshing c then
                  c\<lparr>requests := (requests c)[i := Waiting], failedQueue := failedQueue c @ [i]\<rparr>
                else
                  c\<lparr>isRefreshing := True,
                    requests := (requests c)[i := Refreshing r (stored (localStorage c) REFRESH_TOKEN_KEY)]\<rparr>)
             else settle i (Rejected (Http r)) c)
      else settle i (Rejected (Http r)) c)"

text \<open>\<open>refreshTokenFn\<close>: the request it sends, and what it does with the answer.\<close>

definition refreshTokenFn_request :: "string \<Rightarrow> http_request" where
  "refreshTokenFn_request token = apiPost ''auth/refresh'' (Some (JObj [(''refreshToken'', JStr token)]))"

definition refresh_stored :: "nat \<Rightarrow> string \<Rightarrow> string \<Rightarrow> client \<Rightarrow> client" where
  "refresh_stored i access refresh c =
     c\<lparr>localStorage := AList.update REFRESH_TOKEN_KEY refresh (AList.update ACCESS_TOKEN_KEY access (localStorage c)),
       requests := (requests c)[i := Refreshed access]\<rparr>"

text \<open>After \<open>await refreshTokenFn()\<close> has returned.\<close>

definition refresh_continue :: "nat \<Rightarrow> string \<Rightarrow> client \<Rightarrow> client" where
  "refresh_continue i token c =
     (let c1 = processQueue None token c;
          c2 = c1\<lparr>requests := (requests c1)[i := Retrying token]\<rparr> in
      c2\<lparr>isRefreshing := False\<rparr>)"

text \<open>
  The \<open>catch\<close> block: off the login page it navigates there and rethrows the error of the refresh; on
  the login page control falls through to the last line, which throws the request's own 401.
\<close>

definition refresh_catch :: "nat \<Rightarrow> response \<Rightarrow> failure \<Rightarrow> client \<Rightarrow> client" where
  "refresh_catch i r error c =
     (let c1 = processQueue (Some error) [] c in
      if \<not> ends_with (href c1) ''/auth''
      then (settle i (Rejected error) c1)\<lparr>navigations := navigations c1 @ [''/auth''], isRefreshing := False\<rparr>
      else settle i (Rejected (Http r)) (c1\<lparr>isRefreshing := False\<rparr>))"

text \<open>
  The events. \<open>Send\<close> is a new call; \<open>Storage\<close> is any other code of the page (login, logout,
  another tab) writing to \<open>localStorage\<close>. The others are answers the client waits for.
\<close>

datatype client_event =
    Send
  | Storage strobj
  | Answer nat response
  | Lost nat failure
  | Refresh_answer nat "failure + string \<times> string"
  | Refresh_done nat
  | Retry_answer nat "failure + response"

definition phase_at :: "client \<Rightarrow> nat \<Rightarrow> phase \<Rightarrow> bool" where
  "phase_at c i p \<longleftrightarrow> i < length (requests c) \<and> requests c ! i = p"

inductive client_step :: "client \<Rightarrow> client_event \<Rightarrow> client \<Rightarrow> bool" where
  step_send: "client_step c Send (send_request c)"
| step_storage: "client_step c (Storage ls) (c\<lparr>localStorage := ls\<rparr>)"
| step_answer: "phase_at c i (In_flight t) \<Longrightarrow> client_step c (Answer i r) (afterResponse i r c)"
| step_lost: "phase_at c i (In_flight t) \<Longrightarrow> client_step c (Lost i f) (settle i (Rejected f) c)"
| step_refresh_ok: "phase_at c i (Refreshing r t) \<Longrightarrow>
    client_step c (Refresh_answer i (Inr (access, refresh))) (refresh_stored i access refresh c)"
| step_refresh_fail: "phase_at c i (Refreshing r t) \<Longrightarrow>
    client_step c (Refresh_answer i (Inl error)) (refresh_catch i r error c)"
| step_refresh_done: "phase_at c i (Refreshed token) \<Longrightarrow>
    client_step c (Refresh_done i) (refresh_continue i token c)"
| step_retry: "phase_at c i (Retrying t) \<Longrightarrow>
    client_step c (Retry_answer i a) (settle i (plain_outcome a) c)"

inductive_cases client_stepE: "client_step c e c'"

definition client_start :: "client \<Rightarrow> bool" where
  "client_start c \<longleftrightarrow> requests c = [] \<and> \<not> isRefreshing c \<and> failedQueue c = [] \<and> navigations c = []"

section \<open>The invariant\<close>

fun leading :: "phase \<Rightarrow> bool" where
  "leading (Refreshing r t) = True"
| "leading (Refreshed t) = True"
| "leading _ = False"

definition leaders :: "phase list \<Rightarrow> nat set" where
  "leaders rs = {i. i < length rs \<and> leading (rs ! i)}"

definition waiters :: "phase list \<Rightarrow> nat set" where
  "waiters rs = {i. i < length rs \<and> rs ! i = Waiting}"

definition client_inv :: "client \<Rightarrow> bool" where
  "client_inv c \<longleftrightarrow>
     (isRefreshing c \<longleftrightarrow> leaders (requests c) \<noteq> {}) \<and>
     (\<forall>i \<in> leaders (requests c). \<forall>j \<in> leaders (requests c). i = j) \<and>
     distinct (failedQueue c) \<and>
     set (failedQueue c) = waiters (requests c) \<and>
     (failedQueue c \<noteq> [] \<longrightarrow> isRefreshing c)"

lemma leaders_update [simp]:
  "i < length rs \<Longrightarrow> leaders (rs[i := p]) = (if leading p then insert i (leaders rs) else leaders rs - {i})"
  by (auto simp: leaders_def nth_list_update)

lemma waiters_update [simp]:
  "i < length rs \<Longrightarrow> waiters (rs[i := p]) = (if p = Waiting then insert i (waiters rs) else waiters rs - {i})"
  by (auto simp: waiters_def nth_list_update)

lemma leaders_snoc [simp]: "\<not> leading p \<Longrightarrow> leaders (rs @ [p]) = leaders rs"
  by (auto simp: leaders_def nth_append less_Suc_eq)

lemma waiters_snoc [simp]: "p \<noteq> Waiting \<Longrightarrow> waiters (rs @ [p]) = waiters rs"
  by (auto simp: waiters_def nth_append less_Suc_eq)

lemma in_leaders: "i \<in> leaders rs \<longleftrightarrow> i < length rs \<and> leading (rs ! i)"
  by (simp add: leaders_def)

lemma in_waiters: "i \<in> waiters rs \<longleftrightarrow> i < length rs \<and> rs ! i = Waiting"
  by (simp add: waiters_def)

lemma length_foldl_update [simp]: "length (foldl (\<lambda>rs i. rs[i := x]) rs q) = length rs"
  by (induction q arbitrary: rs) simp_all

lemma nth_foldl_update:
  "j < length rs \<Longrightarrow> foldl (\<lambda>rs i. rs[i := x]) rs q ! j = (if j \<in> set q then x else rs ! j)"
  by (induction q arbitrary: rs) (auto simp: nth_list_update)

lemmas handler_defs = settle_def send_request_def afterResponse_def refresh_stored_def refresh_continue_def
  refresh_catch_def processQueue_def phase_at_def Let_def

lemma start_client_inv: "client_start c \<Longrightarrow> client_inv c"
  by (simp add: client_start_def client_inv_def leaders_def waiters_def)

text \<open>Settling or moving on a request that neither leads nor waits keeps the invariant.\<close>

lemma inv_update_quiet:
  assumes "client_inv c" "i < length (requests c)" "\<not> leading (requests c ! i)" "requests c ! i \<noteq> Waiting"
    and "\<not> leading p" "p \<noteq> Waiting"
  shows "client_inv (c\<lparr>requests := (requests c)[i := p]\<rparr>)"
proof -
  have "i \<notin> leaders (requests c)" "i \<notin> waiters (requests c)"
    using assms by (simp_all add: in_leaders in_waiters)
  with assms show ?thesis by (auto simp: client_inv_def)
qed

lemma inv_send: "client_inv c \<Longrightarrow> client_inv (send_request c)"
  by (auto simp: client_inv_def send_request_def)

lemma inv_join_queue:
  assumes "client_inv c" "phase_at c i (In_flight t)" "isRefreshing c"
  shows "client_inv (c\<lparr>requests := (requests c)[i := Waiting], failedQueue := failedQueue c @ [i]\<rparr>)"
proof -
  have "i < length (requests c)" "i \<notin> leaders (requests c)" "i \<notin> waiters (requests c)"
    using assms by (auto simp: in_leaders in_waiters phase_at_def)
  with assms show ?thesis by (auto simp: client_inv_def)
qed

lemma inv_lead:
  assumes "client_inv c" "phase_at c i (In_flight t)" "\<not> isRefreshing c"
  shows "client_inv (c\<lparr>isRefreshing := True, requests := (requests c)[i := Refreshing r tok]\<rparr>)"
proof -
  have "i < length (requests c)" "i \<notin> waiters (requests c)"
    using assms by (auto simp: in_waiters phase_at_def)
  with assms show ?thesis by (auto simp: client_inv_def)
qed

lemma inv_answer:
  assumes "client_inv c" "phase_at c i (In_flight t)"
  shows "client_inv (afterResponse i r c)"
proof -
  have quiet: "client_inv (settle i out c)" for out
    using inv_update_quiet [OF assms(1), of i "Settled out"] assms(2) by (simp add: settle_def phase_at_def)
  then show ?thesis
    using inv_join_queue [OF assms] inv_lead [OF assms]
    by (simp add: afterResponse_def split: payload.split)
qed

lemma inv_stored:
  assumes "client_inv c" "phase_at c i (Refreshing r t)"
  shows "client_inv (refresh_stored i access refresh c)"
proof -
  have i: "i < length (requests c)" "i \<in> leaders (requests c)" "i \<notin> waiters (requests c)"
    using assms by (auto simp: in_leaders in_waiters phase_at_def)
  then have "insert i (leaders (requests c)) = leaders (requests c)" by blast
  with i assms(1) show ?thesis by (auto simp: client_inv_def refresh_stored_def)
qed

text \<open>
  When the leader is done, with the tokens or with an error, the queue is emptied: after
  \<open>processQueue\<close> and the leader's own move there is no leader and nobody waits.
\<close>

lemma inv_finish:
  assumes "client_inv c" "i < length (requests c)" "leading (requests c ! i)"
    and "\<not> leading p" "p \<noteq> Waiting"
  shows "client_inv (c'\<lparr>requests := (requests (processQueue error token c))[i := p],
    isRefreshing := False, failedQueue := []\<rparr>)"
proof -
  define ph where "ph = (requests (processQueue error token c))[i := p]"
  have only: "j = i" if "j \<in> leaders (requests c)" for j
    using assms that by (auto simp: client_inv_def in_leaders)
  have "\<not> leading (ph ! j) \<and> ph ! j \<noteq> Waiting" if "j < length (requests c)" for j
    using assms that only [of j]
    by (auto simp: client_inv_def ph_def processQueue_def nth_list_update nth_foldl_update in_leaders in_waiters
        split: option.split)
  moreover have "length ph = length (requests c)" by (simp add: ph_def processQueue_def)
  ultimately have "leaders ph = {}" "waiters ph = {}" by (auto simp: leaders_def waiters_def)
  then show ?thesis unfolding ph_def [symmetric] by (simp add: client_inv_def)
qed

lemma inv_done:
  assumes "client_inv c" "phase_at c i (Refreshed token)"
  shows "client_inv (refresh_continue i token c)"
proof -
  have "refresh_continue i token c =
      c\<lparr>requests := (requests (processQueue None token c))[i := Retrying token],
        isRefreshing := False, failedQueue := []\<rparr>"
    by (simp add: refresh_continue_def Let_def processQueue_def)
  then show ?thesis using inv_finish [of c i "Retrying token"] assms by (simp add: phase_at_def)
qed

lemma inv_catch:
  assumes "client_inv c" "phase_at c i (Refreshing r t)"
  shows "client_inv (refresh_catch i r error c)"
proof -
  obtain out c' where "refresh_catch i r error c =
      c'\<lparr>requests := (requests (processQueue (Some error) [] c))[i := Settled out],
        isRefreshing := False, failedQueue := []\<rparr>"
  proof (cases "ends_with (href c) ''/auth''")
    case True
    then have "refresh_catch i r error c =
      c\<lparr>requests := (requests (processQueue (Some error) [] c))[i := Settled (Rejected (Http r))],
        isRefreshing := False, failedQueue := []\<rparr>"
      by (simp add: handler_defs)
    then show ?thesis using that by blast
  next
    case False
    then have "refresh_catch i r error c =
      (c\<lparr>navigations := navigations c @ [''/auth'']\<rparr>)
       \<lparr>requests := (requests (processQueue (Some error) [] c))[i := Settled (Rejected error)],
        isRefreshing := False, failedQueue := []\<rparr>"
      by (simp add: handler_defs)
    then show ?thesis using that by blast
  qed
  then show ?thesis using inv_finish [where c = c and i = i and p = "Settled out"] assms by (simp add: phase_at_def)
qed

lemma client_step_inv: "client_step c e c' \<Longrightarrow> client_inv c \<Longrightarrow> client_inv c'"
proof (induction rule: client_step.induct)
  case (step_storage c ls)
  then show ?case by (auto simp: client_inv_def)
next
  case (step_lost c i t f)
  then show ?case using inv_update_quiet [of c i] by (simp add: settle_def phase_at_def)
next
  case (step_retry c i t a)
  then show ?case using inv_update_quiet [of c i] by (simp add: settle_def phase_at_def)
qed (auto intro: inv_send inv_answer inv_stored inv_catch inv_done)

section \<open>Progress\<close>

text \<open>How many steps a request can still take.\<close>

fun phase_weight :: "phase \<Rightarrow> nat" where
  "phase_weight (In_flight t) = 4"
| "phase_weight (Refreshing r t) = 3"
| "phase_weight (Refreshed t) = 2"
| "phase_weight Waiting = 2"
| "phase_weight (Retrying t) = 1"
| "phase_weight (Settled out) = 0"

definition client_weight :: "client \<Rightarrow> nat" where
  "client_weight c = (\<Sum>i < length (requests c). phase_weight (requests c ! i))"

fun is_reply :: "client_event \<Rightarrow> bool" where
  "is_reply Send = False"
| "is_reply (Storage ls) = False"
| "is_reply _ = True"

lemma weight_less:
  assumes "length (requests c') = length (requests c)" "i < length (requests c)"
    and "phase_weight (requests c' ! i) < phase_weight (requests c ! i)"
    and "\<And>j. j < length (requests c) \<Longrightarrow> phase_weight (requests c' ! j) \<le> phase_weight (requests c ! j)"
  shows "client_weight c' < client_weight c"
  unfolding client_weight_def assms(1)
  by (rule sum_strict_mono_ex1) (use assms in auto)

lemma weight_update:
  assumes "requests c' = (requests c)[i := p]" "i < length (requests c)" "phase_weight p < phase_weight (requests c ! i)"
  shows "client_weight c' < client_weight c"
  by (rule weight_less [of _ _ i]) (use assms in \<open>auto simp: nth_list_update\<close>)

lemma weight_finish:
  assumes "client_inv c" "requests c' = (requests (processQueue error token c))[i := p]"
    and "i < length (requests c)" "phase_weight p < phase_weight (requests c ! i)"
  shows "client_weight c' < client_weight c"
proof (rule weight_less [of _ _ i])
  fix j assume j: "j < length (requests c)"
  have "j \<in> set (failedQueue c) \<Longrightarrow> requests c ! j = Waiting"
    using assms(1) by (auto simp: client_inv_def in_waiters)
  then show "phase_weight (requests c' ! j) \<le> phase_weight (requests c ! j)"
    using assms j by (auto simp: processQueue_def nth_list_update nth_foldl_update split: option.split)
qed (use assms in \<open>auto simp: processQueue_def\<close>)

lemma client_reply_less: "client_step c e c' \<Longrightarrow> client_inv c \<Longrightarrow> is_reply e \<Longrightarrow> client_weight c' < client_weight c"
proof (induction rule: client_step.induct)
  case (step_answer c i t r)
  have "\<exists>p. requests (afterResponse i r c) = (requests c)[i := p] \<and> phase_weight p < 4"
    by (auto simp: afterResponse_def settle_def split: payload.split)
  with step_answer show ?case using weight_update [of "afterResponse i r c" c i] by (auto simp: phase_at_def)
next
  case (step_lost c i t f)
  then show ?case by (intro weight_update [of _ _ i]) (auto simp: handler_defs)
next
  case (step_refresh_ok c i r t access refresh)
  then show ?case by (intro weight_update [of _ _ i]) (auto simp: handler_defs)
next
  case (step_refresh_fail c i r t error)
  have "\<exists>out. requests (refresh_catch i r error c) = (requests (processQueue (Some error) [] c))[i := Settled out]"
    by (auto simp: refresh_catch_def settle_def Let_def)
  with step_refresh_fail show ?case using weight_finish [of c "refresh_catch i r error c"] by (auto simp: phase_at_def)
next
  case (step_refresh_done c i token)
  then show ?case
    by (intro weight_finish [of _ _ None token i "Retrying token"]) (auto simp: refresh_continue_def phase_at_def Let_def)
next
  case (step_retry c i t a)
  then show ?case by (intro weight_update [of _ _ i]) (auto simp: handler_defs)
qed simp_all

lemma client_reply_enabled:
  assumes "client_inv c" "0 < client_weight c"
  shows "\<exists>e c'. is_reply e \<and> client_step c e c'"
proof -
  have leader: "\<exists>e c'. is_reply e \<and> client_step c e c'"
    if "i < length (requests c)" "leading (requests c ! i)" for i
  proof (cases "requests c ! i")
    case (Refreshing r t)
    with that have "client_step c (Refresh_answer i (Inl (Failure []))) (refresh_catch i r (Failure []) c)"
      by (auto simp: phase_at_def intro: client_step.intros)
    then show ?thesis by (intro exI conjI) auto
  next
    case (Refreshed t)
    with that have "client_step c (Refresh_done i) (refresh_continue i t c)"
      by (auto simp: phase_at_def intro: client_step.intros)
    then show ?thesis by (intro exI conjI) auto
  qed (use that in auto)
  have "\<exists>i < length (requests c). phase_weight (requests c ! i) \<noteq> 0"
  proof (rule ccontr)
    assume "\<not> ?thesis"
    then have "client_weight c = 0" by (simp add: client_weight_def)
    with assms(2) show False by simp
  qed
  then obtain i where i: "i < length (requests c)" "phase_weight (requests c ! i) \<noteq> 0" by blast
  show ?thesis
  proof (cases "requests c ! i")
    case (In_flight t)
    with i have "client_step c (Lost i (Failure [])) (settle i (Rejected (Failure [])) c)"
      by (auto simp: phase_at_def intro: client_step.intros)
    then show ?thesis by (intro exI conjI) auto
  next
    case Waiting
    with i assms(1) have "i \<in> set (failedQueue c)" by (simp add: client_inv_def in_waiters)
    with assms(1) have "isRefreshing c" by (auto simp: client_inv_def)
    with assms(1) have "leaders (requests c) \<noteq> {}" by (simp add: client_inv_def)
    then obtain j where "j \<in> leaders (requests c)" by blast
    then show ?thesis using leader [of j] by (simp add: in_leaders)
  next
    case (Retrying t)
    with i have "client_step c (Retry_answer i (Inl (Failure []))) (settle i (plain_outcome (Inl (Failure []))) c)"
      by (auto simp: phase_at_def intro: client_step.intros)
    then show ?thesis by (intro exI conjI) auto
  qed (use i leader in auto)
qed

interpretation http: draining_machine client_step client_start client_inv is_reply client_weight
proof
  show "client_start s \<Longrightarrow> client_inv s" for s by (rule start_client_inv)
  show "client_inv s \<Longrightarrow> client_step s e s' \<Longrightarrow> client_inv s'" for s e s' by (rule client_step_inv)
  show "client_inv s \<Longrightarrow> client_step s e s' \<Longrightarrow> is_reply e \<Longrightarrow> client_weight s' < client_weight s" for s e s'
    by (rule client_reply_less)
  show "client_inv s \<Longrightarrow> 0 < client_weight s \<Longrightarrow> \<exists>e s'. is_reply e \<and> client_step s e s'" for s
    by (rule client_reply_enabled)
qed

text \<open>The next state as a function, to compute runs with.\<close>

definition phase_of :: "client \<Rightarrow> nat \<Rightarrow> phase option" where
  "phase_of c i = (if i < length (requests c) then Some (requests c ! i) else None)"

fun client_next :: "client \<Rightarrow> client_event \<Rightarrow> client option" where
  "client_next c Send = Some (send_request c)"
| "client_next c (Storage ls) = Some (c\<lparr>localStorage := ls\<rparr>)"
| "client_next c (Answer i r) =
     (case phase_of c i of Some (In_flight t) \<Rightarrow> Some (afterResponse i r c) | _ \<Rightarrow> None)"
| "client_next c (Lost i f) =
     (case phase_of c i of Some (In_flight t) \<Rightarrow> Some (settle i (Rejected f) c) | _ \<Rightarrow> None)"
| "client_next c (Refresh_answer i a) =
     (case phase_of c i of
        Some (Refreshing r t) \<Rightarrow>
          Some (case a of Inl error \<Rightarrow> refresh_catch i r error c
                | Inr (access, refresh) \<Rightarrow> refresh_stored i access refresh c)
      | _ \<Rightarrow> None)"
| "client_next c (Refresh_done i) =
     (case phase_of c i of Some (Refreshed token) \<Rightarrow> Some (refresh_continue i token c) | _ \<Rightarrow> None)"
| "client_next c (Retry_answer i a) =
     (case phase_of c i of Some (Retrying t) \<Rightarrow> Some (settle i (plain_outcome a) c) | _ \<Rightarrow> None)"

lemma client_step_next: "client_step c e c' \<longleftrightarrow> client_next c e = Some c'"
proof
  show "client_step c e c' \<Longrightarrow> client_next c e = Some c'"
    by (induction rule: client_step.induct) (auto simp: phase_at_def phase_of_def)
  show "client_next c e = Some c' \<Longrightarrow> client_step c e c'"
    by (cases e) (auto simp: phase_of_def phase_at_def split: if_splits phase.splits sum.splits prod.splits
        intro: client_step.intros)
qed

lemma client_runs_next:
  "runs client_step c (e # es) c'' \<longleftrightarrow> (\<exists>c'. client_next c e = Some c' \<and> runs client_step c' es c'')"
  by (simp add: runs_Cons_simp client_step_next)

section \<open>Properties\<close>

text \<open>C1. In every reachable state of the HTTP client at most one request leads a token refresh;
  \<open>isRefreshing\<close> says whether one does; \<open>failedQueue\<close> lists each waiting request once and
  nothing else; and no request waits unless a refresh is under way that will wake it.\<close>

theorem refresh_single_flight:
  assumes "client_start c" "runs client_step c es c'"
  shows "(\<forall>i < length (requests c'). \<forall>j < length (requests c').
            leading (requests c' ! i) \<and> leading (requests c' ! j) \<longrightarrow> i = j) \<and>
    (isRefreshing c' \<longleftrightarrow> (\<exists>i < length (requests c'). leading (requests c' ! i))) \<and>
    distinct (failedQueue c') \<and>
    (\<forall>i. i \<in> set (failedQueue c') \<longleftrightarrow> i < length (requests c') \<and> requests c' ! i = Waiting) \<and>
    ((\<exists>i < length (requests c'). requests c' ! i = Waiting) \<longrightarrow> isRefreshing c')"
proof -
  have "client_inv c'" using http.reachable_inv assms .
  then have one: "\<forall>i \<in> leaders (requests c'). \<forall>j \<in> leaders (requests c'). i = j"
    and flag: "isRefreshing c' \<longleftrightarrow> leaders (requests c') \<noteq> {}"
    and q: "distinct (failedQueue c')" "set (failedQueue c') = waiters (requests c')"
    and w: "failedQueue c' \<noteq> [] \<longrightarrow> isRefreshing c'"
    by (auto simp: client_inv_def)
  have "failedQueue c' \<noteq> []" if "i < length (requests c')" "requests c' ! i = Waiting" for i
    using q(2) that by (auto simp: in_waiters)
  then show ?thesis using one flag q w by (auto simp: leaders_def in_waiters)
qed

text \<open>The run of the witnesses: two calls find the token expired, and one refresh serves both.\<close>

definition expired_response :: response where
  "expired_response = \<lparr>rs_status = 401, rs_payload = Fields (Some 40101) (Some ''expired''), rs_text = ''401''\<rparr>"

definition page_start :: client where
  "page_start = \<lparr>requests = [], isRefreshing = False, failedQueue = [],
     localStorage = [(''access_token'', ''a''), (''refresh_token'', ''r'')], href = ''/portal'', navigations = []\<rparr>"

definition two_expired :: "client_event list" where
  "two_expired = [Send, Send, Answer 0 expired_response, Answer 1 expired_response]"

definition page_two_expired :: client where
  "page_two_expired = page_start\<lparr>requests := [Refreshing expired_response ''r'', Waiting],
     isRefreshing := True, failedQueue := [1]\<rparr>"

lemmas page_defs = page_start_def page_two_expired_def two_expired_def expired_response_def
  stored_def bearer_def ACCESS_TOKEN_KEY_def REFRESH_TOKEN_KEY_def response_ok_def ERROR_TOKEN_EXPIRED_def

lemma page_start: "client_start page_start"
  by (simp add: client_start_def page_start_def)

lemma page_runs: "runs client_step page_start two_expired page_two_expired"
  by (simp add: client_runs_next page_defs handler_defs phase_of_def)

theorem refresh_single_flight_witness:
  "requests page_two_expired ! 1 = Waiting \<and> isRefreshing page_two_expired"
  using refresh_single_flight [OF page_start page_runs]
  by (auto simp: page_two_expired_def)

lemma weight_bound: "client_weight c \<le> 4 * length (requests c)"
proof -
  have "phase_weight p \<le> 4" for p by (cases p) auto
  then show ?thesis
    using sum_bounded_above [of "{..<length (requests c)}" "\<lambda>i. phase_weight (requests c ! i)" 4]
    by (simp add: client_weight_def mult.commute)
qed

definition all_settled :: "client \<Rightarrow> bool" where
  "all_settled c \<longleftrightarrow> list_all (\<lambda>p. case p of Settled out \<Rightarrow> True | _ \<Rightarrow> False) (requests c)"

lemma all_settled_weight: "all_settled c \<longleftrightarrow> client_weight c = 0"
proof -
  have "(case p of Settled out \<Rightarrow> True | _ \<Rightarrow> False) \<longleftrightarrow> phase_weight p = 0" for p
    by (cases p) auto
  then show ?thesis by (auto simp: all_settled_def client_weight_def list_all_length)
qed

text \<open>C2. The HTTP client never hangs and never refreshes without end: from a reachable state, the
  answers of the network can come in at most four steps per request, whatever they are; while some
  request is unsettled an answer is still possible; and there is a sequence of answers after which
  every request has its outcome.\<close>

theorem requests_settle:
  assumes "client_start c0" "runs client_step c0 es c"
  shows "(\<forall>fs c'. runs client_step c fs c' \<and> list_all is_reply fs \<longrightarrow> length fs \<le> 4 * length (requests c)) \<and>
    (\<not> all_settled c \<longrightarrow> (\<exists>e c'. is_reply e \<and> client_step c e c')) \<and>
    (\<exists>fs c'. runs client_step c fs c' \<and> list_all is_reply fs \<and> all_settled c')"
proof -
  have inv: "client_inv c" using http.reachable_inv assms .
  have "length fs \<le> 4 * length (requests c)" if "runs client_step c fs c'" "list_all is_reply fs" for fs c'
    using http.replies_bounded [OF that(1) inv that(2)] weight_bound [of c] by linarith
  moreover have "\<not> all_settled c \<longrightarrow> (\<exists>e c'. is_reply e \<and> client_step c e c')"
    using client_reply_enabled [OF inv] by (simp add: all_settled_weight)
  moreover have "\<exists>fs c'. runs client_step c fs c' \<and> list_all is_reply fs \<and> all_settled c'"
    using http.drains [OF inv] by (auto simp: all_settled_weight)
  ultimately show ?thesis by blast
qed

theorem requests_settle_witness:
  "\<exists>fs c'. runs client_step page_two_expired fs c' \<and> list_all is_reply fs \<and> all_settled c'"
  using requests_settle [OF page_start page_runs] by blast

text \<open>C3. When a refresh succeeds, the new access and refresh tokens are in \<open>localStorage\<close>; when its
  leader goes on, the leader and exactly the requests that waited for it are sent again with the new
  access token, every other request stays as it was, the queue is empty and the next expired request
  may lead a refresh again.\<close>

theorem refresh_success:
  assumes "client_start c0" "runs client_step c0 es c"
  shows "(phase_at c i (Refreshing r t) \<and> client_step c (Refresh_answer i (Inr (access, refresh))) c' \<longrightarrow>
      map_of (localStorage c') ACCESS_TOKEN_KEY = Some access \<and>
      map_of (localStorage c') REFRESH_TOKEN_KEY = Some refresh \<and>
      requests c' = (requests c)[i := Refreshed access]) \<and>
    (phase_at c i (Refreshed token) \<and> client_step c (Refresh_done i) c' \<longrightarrow>
      length (requests c') = length (requests c) \<and>
      (\<forall>j < length (requests c). requests c' ! j =
         (if j = i \<or> requests c ! j = Waiting then Retrying token else requests c ! j)) \<and>
      failedQueue c' = [] \<and> \<not> isRefreshing c' \<and> localStorage c' = localStorage c)"
proof -
  have inv: "client_inv c" using http.reachable_inv assms .
  have q: "j \<in> set (failedQueue c) \<longleftrightarrow> requests c ! j = Waiting" if "j < length (requests c)" for j
    using inv that by (auto simp: client_inv_def in_waiters)
  have "map_of (localStorage c') ACCESS_TOKEN_KEY = Some access \<and>
      map_of (localStorage c') REFRESH_TOKEN_KEY = Some refresh \<and>
      requests c' = (requests c)[i := Refreshed access]"
    if "phase_at c i (Refreshing r t)" "client_step c (Refresh_answer i (Inr (access, refresh))) c'"
    using that by (auto simp: client_step_next phase_of_def phase_at_def refresh_stored_def obj.get_put
        ACCESS_TOKEN_KEY_def REFRESH_TOKEN_KEY_def)
  moreover have "length (requests c') = length (requests c) \<and>
      (\<forall>j < length (requests c). requests c' ! j =
         (if j = i \<or> requests c ! j = Waiting then Retrying token else requests c ! j)) \<and>
      failedQueue c' = [] \<and> \<not> isRefreshing c' \<and> localStorage c' = localStorage c"
    if "phase_at c i (Refreshed token)" "client_step c (Refresh_done i) c'"
  proof -
    have i: "i < length (requests c)" and c': "c' = refresh_continue i token c"
      using that by (auto simp: client_step_next phase_of_def phase_at_def)
    show ?thesis
      using q i by (auto simp: c' refresh_continue_def Let_def processQueue_def nth_list_update nth_foldl_update)
  qed
  ultimately show ?thesis by blast
qed

definition page_two_refreshed :: client where
  "page_two_refreshed = page_two_expired\<lparr>requests := [Refreshed ''b'', Waiting],
     localStorage := [(''access_token'', ''b''), (''refresh_token'', ''s'')]\<rparr>"

lemma page_refreshed:
  "runs client_step page_start (two_expired @ [Refresh_answer 0 (Inr (''b'', ''s''))])
     page_two_refreshed"
  by (rule runs_append [OF page_runs])
    (simp add: page_two_refreshed_def client_runs_next page_defs handler_defs phase_of_def)

theorem refresh_success_witness:
  "requests (refresh_continue 0 ''b'' page_two_refreshed) ! 1 = Retrying ''b''"
proof -
  have at: "phase_at page_two_refreshed 0 (Refreshed ''b'')" by (simp add: phase_at_def page_two_refreshed_def)
  have "client_step page_two_refreshed (Refresh_done 0) (refresh_continue 0 ''b'' page_two_refreshed)"
    using client_step.step_refresh_done [OF at] .
  moreover have "1 < length (requests page_two_refreshed)" "requests page_two_refreshed ! 1 = Waiting"
    by (simp_all add: page_two_refreshed_def)
  ultimately show ?thesis
    using refresh_success [OF page_start page_refreshed, of 0 _ _ _ _ _ "''b''"] at by fastforce
qed

lemma refresh_catch_effect:
  assumes "client_start c0" "runs client_step c0 es c" "phase_at c i (Refreshing r t)"
    and "client_step c (Refresh_answer i (Inl error)) c'"
  shows "length (requests c') = length (requests c) \<and>
    (\<forall>j < length (requests c). requests c' ! j =
       (if j = i then Settled (Rejected (if ends_with (href c) ''/auth'' then Http r else error))
        else if requests c ! j = Waiting then Settled (Rejected error) else requests c ! j)) \<and>
    failedQueue c' = [] \<and> \<not> isRefreshing c' \<and> localStorage c' = localStorage c \<and>
    navigations c' = navigations c @ (if ends_with (href c) ''/auth'' then [] else [''/auth''])"
proof -
  have inv: "client_inv c" using http.reachable_inv assms(1,2) .
  have c': "c' = refresh_catch i r error c"
    using assms(3,4) by (simp add: client_step_next phase_of_def phase_at_def)
  have "j \<in> set (failedQueue c) \<longleftrightarrow> requests c ! j = Waiting" if "j < length (requests c)" for j
    using inv that by (auto simp: client_inv_def in_waiters)
  moreover have "i < length (requests c)" using assms(3) by (simp add: phase_at_def)
  ultimately show ?thesis
    by (auto simp: c' refresh_catch_def settle_def Let_def processQueue_def nth_list_update nth_foldl_update)
qed

text \<open>C4. When a refresh fails, every request that waited for it is rejected with the error of the
  refresh; the leader is rejected with it too and the page goes to \<open>/auth\<close>, unless it is there
  already: then the leader is rejected with its own 401 and no navigation happens. The tokens stay.\<close>

theorem refresh_failure:
  assumes "client_start c0" "runs client_step c0 es c" "phase_at c i (Refreshing r t)"
    and "client_step c (Refresh_answer i (Inl error)) c'"
  shows "length (requests c') = length (requests c) \<and>
    (\<forall>j < length (requests c). requests c' ! j =
       (if j = i then Settled (Rejected (if ends_with (href c) ''/auth'' then Http r else error))
        else if requests c ! j = Waiting then Settled (Rejected error) else requests c ! j)) \<and>
    failedQueue c' = [] \<and> \<not> isRefreshing c' \<and> localStorage c' = localStorage c \<and>
    navigations c' = navigations c @ (if ends_with (href c) ''/auth'' then [] else [''/auth''])"
  using assms by (rule refresh_catch_effect)

theorem refresh_failure_witness:
  "navigations (refresh_catch 0 expired_response (Failure ''down'') page_two_expired) = [''/auth''] \<and>
   requests (refresh_catch 0 expired_response (Failure ''down'') page_two_expired) ! 1 =
     Settled (Rejected (Failure ''down''))"
proof -
  have "phase_at page_two_expired 0 (Refreshing expired_response ''r'')"
    by (simp add: phase_at_def page_two_expired_def)
  moreover have "\<not> ends_with (href page_two_expired) ''/auth''"
    by (simp add: page_two_expired_def page_start_def ends_with_def suffix_def)
  moreover have "client_step page_two_expired (Refresh_answer 0 (Inl (Failure ''down'')))
      (refresh_catch 0 expired_response (Failure ''down'') page_two_expired)"
    using calculation by (auto intro: client_step.intros)
  ultimately show ?thesis
    using refresh_failure [OF page_start page_runs]
    by (auto simp: page_two_expired_def page_start_def)
qed

end
