(* ===== verification/ApiErrors.thy ===== *)
theory ApiErrors
  imports Client
begin

text \<open>
  How failures reach the user: \<open>showErrorToast\<close> (\<open>utils/toast.ts\<close>), and
  \<open>apiRequest\<close>, \<open>getErrorCode\<close>, \<open>apiXMLPut\<close> and \<open>apiXMLDownload\<close> of
  \<open>services/client.ts\<close>. A function that shows toasts returns them with its result. The
  messages of the user interface that the sources write in Chinese are named by constructors.
\<close>

datatype ui_text =
    Txt string
  | Undefined_text
  | Bad_request string
  | No_account
  | Email_not_verified
  | Request_failed
  | Upload_failed
  | Upload_failed_retry
  | Upload_timeout
  | Network_error
  | Download_failed string
  | Download_timeout

text \<open>\<open>toast.error(title, {description})\<close>.\<close>

record toast =
  toast_title :: ui_text
  toast_description :: "ui_text option"

definition toast_error :: "ui_text \<Rightarrow> toast" where
  "toast_error t = \<lparr>toast_title = t, toast_description = None\<rparr>"

section \<open>showErrorToast\<close>

text \<open>
  The cases the function tells apart: an error of axios, with the \<open>msg\<close> of its response data
  when it has data; a string; any other error object, by its message.
\<close>

datatype thrown =
    Axios_error "string option option" string
  | Thrown_string string
  | Thrown_error string

fun showErrorToast :: "thrown \<Rightarrow> toast" where
  "showErrorToast (Axios_error (Some (Some msg)) message) =
     toast_error (Txt (if msg = [] then message else msg))"
| "showErrorToast (Axios_error _ message) = toast_error (Txt message)"
| "showErrorToast (Thrown_string s) = toast_error (Txt s)"
| "showErrorToast (Thrown_error message) = toast_error (Txt message)"

section \<open>apiRequest and getErrorCode\<close>

text \<open>A template literal prints an absent string as \<open>undefined\<close>; \<open>a || b\<close> skips an empty one.\<close>

definition template :: "string option \<Rightarrow> string" where
  "template s = (case s of None \<Rightarrow> ''undefined'' | Some v \<Rightarrow> v)"

definition first_text :: "string option list \<Rightarrow> ui_text" where
  "first_text xs = (case filter (\<lambda>s. s \<noteq> None \<and> s \<noteq> Some []) xs of
     Some s # _ \<Rightarrow> Txt s | _ \<Rightarrow> Request_failed)"

definition title_of :: "string option \<Rightarrow> ui_text" where
  "title_of m = (case m of None \<Rightarrow> Undefined_text | Some s \<Rightarrow> Txt s)"

text \<open>The \<open>switch\<close> over the code of the response's body.\<close>

definition code_toasts :: "response \<Rightarrow> string option \<Rightarrow> int option \<Rightarrow> string option \<Rightarrow> toast list" where
  "code_toasts r errorMessage code msg =
     (if code = Some ERROR_TOKEN_INVALID then []
      else if code = Some ERROR_INVALID_REQUEST then [toast_error (Bad_request (template msg))]
      else if code = Some ERROR_USER_NOT_ALLOWED then [toast_error No_account]
      else if code = Some ERROR_USER_EMAIL_NOT_VERIFIED then [toast_error Email_not_verified]
      else if code = Some ERROR_BACKEND then [showErrorToast (Thrown_string (template msg))]
      else if code = Some ERROR_NOT_SPECIFIED then [showErrorToast (Thrown_error (rs_text r))]
      else [\<lparr>toast_title = title_of errorMessage, toast_description = Some (first_text [msg, errorMessage])\<rparr>])"

text \<open>
  The result of \<open>apiRequest\<close>: the response, or the failure it throws. It reads the body of an
  HTTP error, so the error it throws again has a body that has been read. A body that cannot be read
  (not JSON, the value \<open>null\<close>, or read before) is reported with the message of the failure, and
  the failure is replaced by one with the message \<open>errorMessage\<close>, which is empty when there is none.
\<close>

definition read_body :: "response \<Rightarrow> response" where
  "read_body r = r\<lparr>rs_payload := Consumed\<rparr>"

definition apiRequest :: "failure + 'a \<Rightarrow> string option \<Rightarrow> toast list \<times> (failure + 'a)" where
  "apiRequest answer errorMessage =
     (case answer of
        Inr v \<Rightarrow> ([], Inr v)
      | Inl (Failure m) \<Rightarrow> ([], Inl (Failure m))
      | Inl (Http r) \<Rightarrow>
          (case rs_payload r of
             Fields code msg \<Rightarrow> (code_toasts r errorMessage code msg, Inl (Http (read_body r)))
           | _ \<Rightarrow> ([\<lparr>toast_title = title_of errorMessage, toast_description = Some (first_text [Some (rs_text r)])\<rparr>],
                   Inl (Failure (case errorMessage of None \<Rightarrow> [] | Some m \<Rightarrow> m)))))"

definition getErrorCode :: "failure \<Rightarrow> int \<times> string" where
  "getErrorCode error =
     (case error of
        Failure m \<Rightarrow> (ERROR_NOT_SPECIFIED, m)
      | Http r \<Rightarrow>
          (case rs_payload r of
             Fields code msg \<Rightarrow>
               ((case code of None \<Rightarrow> ERROR_NOT_SPECIFIED | Some k \<Rightarrow> k),
                (case msg of None \<Rightarrow> rs_text r | Some m \<Rightarrow> m))
           | _ \<Rightarrow> (ERROR_NOT_SPECIFIED, rs_text r)))"

text \<open>\<open>err?.response?.status\<close>, as the callers read the status of what they caught.\<close>

definition error_status :: "failure \<Rightarrow> int option" where
  "error_status f = (case f of Http r \<Rightarrow> Some (rs_status r) | Failure m \<Rightarrow> None)"

text \<open>\<open>SSHPortDialog\<close>: what its \<open>onError\<close> says about a failed \<open>apiOpenSSH\<close>.\<close>

definition ssh_onError :: "failure \<Rightarrow> bool" where
  "ssh_onError error = (fst (getErrorCode error) = ERROR_SERVICE_SSHD_NOT_FOUND)"

lemma apiRequest_thrown:
  "apiRequest (Inl f) m = (ts, r) \<Longrightarrow> \<exists>f'. r = Inl f' \<and>
     ((\<exists>q. f = Http q \<and> f' = Http (read_body q)) \<or> (\<exists>e. f' = Failure e))"
  by (auto simp: apiRequest_def split: failure.splits payload.splits)

section \<open>Upload and download\<close>

text \<open>How an \<open>XMLHttpRequest\<close> ends.\<close>

datatype xhr_end =
    Xhr_load int string
  | Xhr_error
  | Xhr_timeout

record xhr_request =
  xhr_method :: http_method
  xhr_url :: string
  xhr_bearer :: "string option"
  xhr_timeout_ms :: nat

definition apiXMLPut_request :: "string \<Rightarrow> strobj \<Rightarrow> string \<Rightarrow> xhr_request" where
  "apiXMLPut_request baseURL ls url =
     \<lparr>xhr_method = PUT, xhr_url = baseURL @ ''/'' @ url, xhr_bearer = bearer ls, xhr_timeout_ms = 30000\<rparr>"

text \<open>The progress callback, for an event whose length is computable.\<close>

definition on_progress :: "bool \<Rightarrow> nat \<Rightarrow> nat \<Rightarrow> (nat \<times> nat) option" where
  "on_progress lengthComputable loaded all = (if lengthComputable then Some (loaded, all) else None)"

text \<open>The upload resolves with the parsed body, or with \<open>null\<close> when there is none to parse.\<close>

definition js_truthy_str :: "json \<Rightarrow> string option" where
  "js_truthy_str v = (case v of JStr s \<Rightarrow> if s = [] then None else Some s | _ \<Rightarrow> None)"

definition apiXMLPut :: "xhr_end \<Rightarrow> ui_text + json" where
  "apiXMLPut e =
     (case e of
        Xhr_load status text \<Rightarrow>
          (if 200 \<le> status \<and> status < 300 then
             Inr (if text = [] then JNull else case json_parse text of None \<Rightarrow> JNull | Some v \<Rightarrow> v)
           else
             (case json_parse text of
                None \<Rightarrow> Inl Upload_failed_retry
              | Some JNull \<Rightarrow> Inl Upload_failed_retry
              | Some v \<Rightarrow> (case Option.bind (jget v ''msg'') js_truthy_str of
                  Some m \<Rightarrow> Inl (Txt m) | None \<Rightarrow> Inl Upload_failed)))
      | Xhr_error \<Rightarrow> Inl Network_error
      | Xhr_timeout \<Rightarrow> Inl Upload_timeout)"

definition apiXMLDownload_request :: "string \<Rightarrow> strobj \<Rightarrow> string \<Rightarrow> xhr_request" where
  "apiXMLDownload_request baseURL ls url =
     \<lparr>xhr_method = GET, xhr_url = baseURL @ ''/'' @ url, xhr_bearer = bearer ls, xhr_timeout_ms = 600000\<rparr>"

text \<open>A download that succeeds clicks a link with the file's name and resolves.\<close>

definition apiXMLDownload :: "string \<Rightarrow> xhr_end \<Rightarrow> ui_text + string" where
  "apiXMLDownload filename e =
     (case e of
        Xhr_load status statusText \<Rightarrow>
          (if 200 \<le> status \<and> status < 300 then Inr filename else Inl (Download_failed statusText))
      | Xhr_error \<Rightarrow> Inl Network_error
      | Xhr_timeout \<Rightarrow> Inl Download_timeout)"

section \<open>Properties\<close>

text \<open>C14. Every failure of a request reaches the caller as a failure, with at most one toast, and an HTTP
  error is silent exactly when its body carries the code for an invalid token. What the caller catches
  has no readable body any more: \<open>getErrorCode\<close> never sees the server's code, so the dialog that
  tests for the missing SSH service never takes that branch; and its status is readable only if the
  server's body was an object of JSON.\<close>

theorem request_errors:
  "\<exists>toasts f'. apiRequest (Inl f :: failure + 'a) m = (toasts, Inl f') \<and>
     length toasts \<le> 1 \<and>
     (toasts = [] \<longleftrightarrow> (case f of Failure e \<Rightarrow> True
        | Http r \<Rightarrow> (case rs_payload r of Fields code msg \<Rightarrow> code = Some ERROR_TOKEN_INVALID | _ \<Rightarrow> False))) \<and>
     fst (getErrorCode f') = ERROR_NOT_SPECIFIED \<and> \<not> ssh_onError f' \<and>
     error_status f' = (case f of Failure e \<Rightarrow> None
        | Http r \<Rightarrow> (case rs_payload r of Fields code msg \<Rightarrow> Some (rs_status r) | _ \<Rightarrow> None))"
proof (cases f)
  case (Http r)
  show ?thesis
  proof (cases "rs_payload r")
    case (Fields code msg)
    have "length (code_toasts r m code msg) \<le> 1" "code_toasts r m code msg = [] \<longleftrightarrow> code = Some ERROR_TOKEN_INVALID"
      by (simp_all add: code_toasts_def)
    then show ?thesis
      using Http Fields
      by (simp add: apiRequest_def getErrorCode_def read_body_def ssh_onError_def error_status_def error_code_defs)
  qed (simp_all add: Http apiRequest_def getErrorCode_def ssh_onError_def error_status_def error_code_defs)
qed (simp add: apiRequest_def getErrorCode_def ssh_onError_def error_status_def error_code_defs)

end
