(* ===== verification/Session.thy ===== *)
theory Session
  imports ApiErrors
begin

text \<open>
  Who is logged in and where the router lets them go: the atoms of \<open>utils/store/index.ts\<close>,
  \<open>AuthProvider\<close> (\<open>hooks/use-auth.tsx\<close>), the queue switch (\<open>services/api/auth.ts\<close>,
  \<open>components/sidebar/team-switcher.tsx\<close>), the login form
  (\<open>routes/auth/-components/login-form.tsx\<close>) and the guards of the routes.
\<close>

section \<open>The store\<close>

datatype scheduler = Volcano | Colocate | Sparse

record settings =
  st_scheduler :: scheduler
  st_hideUsername :: bool

definition initial_settings :: settings where
  "initial_settings = \<lparr>st_scheduler = Volcano, st_hideUsername = False\<rparr>"

definition globalJobUrl :: "settings \<Rightarrow> string" where
  "globalJobUrl s = (case st_scheduler s of
     Volcano \<Rightarrow> ''vcjobs'' | Colocate \<Rightarrow> ''aijobs'' | Sparse \<Rightarrow> ''spjobs'')"

definition globalHideUsername :: "settings \<Rightarrow> bool" where
  "globalHideUsername s = st_hideUsername s"

record BreadCrumbItem =
  bc_href :: string
  bc_label :: string
  bc_back :: "bool option"

record UserInfo = IUserAttributes +
  uf_space :: string

definition user_info :: "IUserAttributes \<Rightarrow> string \<Rightarrow> UserInfo" where
  "user_info u space = IUserAttributes.extend u \<lparr>uf_space = space\<rparr>"

section \<open>The session\<close>

record session =
  ss_storage :: strobj
  ss_user :: "UserInfo option"
  ss_context :: "IUserContext option"
  ss_version :: "IBackendVersionInfo option"
  isAuthenticated :: bool
  isLoading :: bool
  ss_lastView :: string
  ss_settings :: settings
  ss_queries_cleared :: nat

definition set_tokens :: "string \<Rightarrow> string \<Rightarrow> strobj \<Rightarrow> strobj" where
  "set_tokens access refresh ls =
     AList.update REFRESH_TOKEN_KEY refresh (AList.update ACCESS_TOKEN_KEY access ls)"

definition useResetStore :: "session \<Rightarrow> session" where
  "useResetStore s = s\<lparr>ss_settings := initial_settings\<rparr>"

definition forget :: "session \<Rightarrow> session" where
  "forget s = s\<lparr>ss_user := None, ss_context := None, ss_version := None\<rparr>"

text \<open>The effect that restores the session, by the answer to \<open>apiCheckToken\<close>: an error, no data, or data.\<close>

definition restore :: "failure + ICheckResponse option \<Rightarrow> session \<Rightarrow> session" where
  "restore answer s =
     (case answer of
        Inr (Some d) \<Rightarrow> s\<lparr>ss_user := Some (user_info (cr_user d) (uc_space (cr_context d))),
          ss_context := Some (cr_context d), ss_version := Some (cr_version d),
          isAuthenticated := True, isLoading := False\<rparr>
      | _ \<Rightarrow> (forget s)\<lparr>isAuthenticated := False, isLoading := False\<rparr>)"

definition login :: "IAuthResponse \<Rightarrow> session \<Rightarrow> session" where
  "login d s = s\<lparr>ss_storage := set_tokens (ar_accessToken d) (ar_refreshToken d) (ss_storage s),
     ss_user := Some (user_info (ar_user d) (uc_space (ar_context d))),
     ss_context := Some (ar_context d), ss_version := Some (ar_version d), isAuthenticated := True\<rparr>"

definition logout :: "session \<Rightarrow> session" where
  "logout s =
     useResetStore ((forget s)\<lparr>isAuthenticated := False, ss_lastView := ''portal'',
       ss_storage := AList.delete REFRESH_TOKEN_KEY (AList.delete ACCESS_TOKEN_KEY (ss_storage s)),
       ss_queries_cleared := Suc (ss_queries_cleared s)\<rparr>)"

text \<open>
  \<open>apiQueueSwitch\<close> stores the new tokens when the answer's code is \<open>OK\<close>, and returns the
  answer's data whatever the code; the switcher then takes over its context. The tokens carry the
  account, so a switch that leaves the old ones in place changes the display only.
\<close>

definition apiQueueSwitch :: "int \<Rightarrow> IAuthResponse \<Rightarrow> strobj \<Rightarrow> strobj \<times> IAuthResponse" where
  "apiQueueSwitch code d ls =
     (if code = OK then set_tokens (ar_accessToken d) (ar_refreshToken d) ls else ls, d)"

definition switchQueue :: "int \<Rightarrow> IAuthResponse \<Rightarrow> session \<Rightarrow> session" where
  "switchQueue code d s =
     (let (ls, d') = apiQueueSwitch code d (ss_storage s) in
      s\<lparr>ss_storage := ls, ss_context := Some (ar_context d')\<rparr>)"

datatype session_event =
    Checked "failure + ICheckResponse option"
  | Logged_in IAuthResponse
  | Logged_out
  | Switched int IAuthResponse
  | Settings settings

fun session_next :: "session_event \<Rightarrow> session \<Rightarrow> session" where
  "session_next (Checked a) s = restore a s"
| "session_next (Logged_in d) s = login d s"
| "session_next Logged_out s = logout s"
| "session_next (Switched code d) s = switchQueue code d s"
| "session_next (Settings v) s = s\<lparr>ss_settings := v\<rparr>"

definition session_step :: "session \<Rightarrow> session_event \<Rightarrow> session \<Rightarrow> bool" where
  "session_step s e s' \<longleftrightarrow> s' = session_next e s"

definition session_start :: "session \<Rightarrow> bool" where
  "session_start s \<longleftrightarrow> ss_user s = None \<and> ss_context s = None \<and> ss_version s = None \<and>
     \<not> isAuthenticated s \<and> isLoading s"

text \<open>An authenticated session knows its user, context and backend version, and the user's space is
  the one of some context the server sent; nobody is authenticated without a user.\<close>

definition session_inv :: "session \<Rightarrow> bool" where
  "session_inv s \<longleftrightarrow>
     (isAuthenticated s \<longleftrightarrow> ss_user s \<noteq> None) \<and>
     (isAuthenticated s \<longleftrightarrow> ss_version s \<noteq> None) \<and>
     (isAuthenticated s \<longrightarrow> ss_context s \<noteq> None)"

lemmas session_defs = restore_def login_def logout_def forget_def useResetStore_def switchQueue_def
  apiQueueSwitch_def set_tokens_def Let_def

interpretation auth: machine session_step session_start session_inv
proof
  show "session_start s \<Longrightarrow> session_inv s" for s by (simp add: session_start_def session_inv_def)
  show "session_inv s \<Longrightarrow> session_step s e s' \<Longrightarrow> session_inv s'" for s e s'
    by (cases e) (auto simp: session_step_def session_inv_def session_defs split: sum.splits option.splits)
qed

section \<open>Route guards\<close>

text \<open>A location: the path, and the \<open>redirect\<close> of its search parameters.\<close>

record location =
  loc_path :: string
  loc_redirect :: "string option"

definition at_path :: "string \<Rightarrow> location" where
  "at_path p = \<lparr>loc_path = p, loc_redirect = None\<rparr>"

definition under :: "string \<Rightarrow> string \<Rightarrow> bool" where
  "under p base \<longleftrightarrow> p = base \<or> starts_with p (base @ ''/'')"

text \<open>\<open>validateSearch\<close>: an empty \<open>redirect\<close> is dropped.\<close>

definition validateSearch :: "string option \<Rightarrow> string option" where
  "validateSearch r = (if r = Some [] then None else r)"

text \<open>Where the route of a location sends the visitor, if anywhere.\<close>

definition index_guard :: "location option" where
  "index_guard = Some (at_path ''/portal'')"

definition portal_guard :: "session \<Rightarrow> location \<Rightarrow> location option" where
  "portal_guard s l =
     (if \<not> isAuthenticated s then Some \<lparr>loc_path = ''/auth'', loc_redirect = Some (loc_path l)\<rparr>
      else if loc_path l = ''/portal'' then Some (at_path ''/portal/overview'')
      else None)"

definition admin_guard :: "session \<Rightarrow> location \<Rightarrow> location option" where
  "admin_guard s l =
     (if \<not> isAuthenticated s \<or> map_option uc_rolePlatform (ss_context s) \<noteq> Some Role_Admin
      then Some \<lparr>loc_path = ''/auth'', loc_redirect = Some (loc_path l)\<rparr>
      else if loc_path l = ''/admin'' then Some (at_path ''/admin/cluster/nodes'')
      else None)"

definition auth_guard :: "session \<Rightarrow> location \<Rightarrow> location option" where
  "auth_guard s l =
     (case validateSearch (loc_redirect l) of
        Some target \<Rightarrow> if isAuthenticated s then Some (at_path target) else None
      | None \<Rightarrow> None)"

definition guard :: "session \<Rightarrow> location \<Rightarrow> location option" where
  "guard s l =
     (if loc_path l = ''/'' then index_guard
      else if under (loc_path l) ''/portal'' then portal_guard s l
      else if under (loc_path l) ''/admin'' then admin_guard s l
      else if loc_path l = ''/auth'' then auth_guard s l
      else None)"

text \<open>Following redirects; \<open>None\<close> when the fuel does not reach a location that is shown.\<close>

fun navigate :: "nat \<Rightarrow> session \<Rightarrow> location \<Rightarrow> location option" where
  "navigate 0 s l = None"
| "navigate (Suc n) s l = (case guard s l of None \<Rightarrow> Some l | Some l' \<Rightarrow> navigate n s l')"

definition not_admin :: "session \<Rightarrow> bool" where
  "not_admin s \<longleftrightarrow> map_option uc_rolePlatform (ss_context s) \<noteq> Some Role_Admin"

lemma under_simps [simp]:
  "\<not> under ''/auth'' ''/portal''" "\<not> under ''/auth'' ''/admin''" "\<not> under ''/'' ''/admin''" "\<not> under ''/'' ''/portal''"
  "\<not> under ''/admin'' ''/portal''"
  "under ''/portal/overview'' ''/portal''" "under ''/portal'' ''/portal''"
  "under ''/admin/cluster/nodes'' ''/admin''" "\<not> under ''/admin/cluster/nodes'' ''/portal''"
  by (simp_all add: under_def starts_with_def)

lemma under_admin: "under p ''/admin'' \<Longrightarrow> \<not> under p ''/portal'' \<and> p \<noteq> ''/'' \<and> p \<noteq> []"
  by (auto simp: under_def starts_with_def prefix_def)

lemma under_portal: "under p ''/portal'' \<Longrightarrow> p \<noteq> ''/'' \<and> p \<noteq> []"
  by (auto simp: under_def starts_with_def prefix_def)

lemmas guard_defs = guard_def index_guard_def portal_guard_def admin_guard_def auth_guard_def
  validateSearch_def at_path_def

text \<open>A logged-in visitor who is no platform administrator goes back and forth between an
  administration page and the login page.\<close>

lemma admin_loop:
  assumes "isAuthenticated s" "not_admin s" "under p ''/admin''"
  shows "navigate n s (at_path p) = None \<and>
    navigate n s \<lparr>loc_path = ''/auth'', loc_redirect = Some p\<rparr> = None"
proof (induction n)
  case 0
  then show ?case by simp
next
  case (Suc n)
  have "guard s (at_path p) = Some \<lparr>loc_path = ''/auth'', loc_redirect = Some p\<rparr>"
    using assms under_admin [OF assms(3)] by (simp add: guard_defs not_admin_def)
  moreover have "guard s \<lparr>loc_path = ''/auth'', loc_redirect = Some p\<rparr> = Some (at_path p)"
    using assms under_admin [OF assms(3)] by (simp add: guard_defs)
  ultimately show ?case using Suc.IH by simp
qed

lemma navigate_mono: "navigate n s l = Some l' \<Longrightarrow> n \<le> m \<Longrightarrow> navigate m s l = Some l'"
proof (induction n arbitrary: l m)
  case 0
  then show ?case by simp
next
  case (Suc n)
  then obtain m' where "m = Suc m'" by (cases m) auto
  with Suc show ?case by (auto split: option.splits)
qed

text \<open>Where a visitor ends up.\<close>

definition landing :: "session \<Rightarrow> string \<Rightarrow> location" where
  "landing s p =
     (let q = (if p = ''/'' then ''/portal'' else p) in
      if (under q ''/portal'' \<or> under q ''/admin'') \<and> \<not> isAuthenticated s
      then \<lparr>loc_path = ''/auth'', loc_redirect = Some q\<rparr>
      else if q = ''/portal'' then at_path ''/portal/overview''
      else if q = ''/admin'' then at_path ''/admin/cluster/nodes'' else at_path q)"

lemma navigate_step:
  "0 < n \<Longrightarrow> navigate n s l = (case guard s l of None \<Rightarrow> Some l | Some l' \<Rightarrow> navigate (n - 1) s l')"
  by (cases n) (simp_all split: option.split)

lemma navigate_landing:
  assumes "\<not> (isAuthenticated s \<and> not_admin s \<and> under p ''/admin'')"
  shows "navigate 4 s (at_path p) = Some (landing s p)"
proof -
  have four: "navigate 4 s l = (case guard s l of None \<Rightarrow> Some l | Some l' \<Rightarrow> navigate 3 s l')"
    and three: "navigate 3 s l = (case guard s l of None \<Rightarrow> Some l | Some l' \<Rightarrow> navigate 2 s l')"
    and two: "navigate 2 s l = (case guard s l of None \<Rightarrow> Some l | Some l' \<Rightarrow> navigate 1 s l')"
    and one: "navigate 1 s l = (case guard s l of None \<Rightarrow> Some l | Some l' \<Rightarrow> None)" for l
    using navigate_step [of 4 s l] navigate_step [of 3 s l] navigate_step [of 2 s l] navigate_step [of 1 s l]
    by (simp_all split: option.split)
  consider (root) "p = ''/''" | (portal) "under p ''/portal''" | (admin) "under p ''/admin''"
    | (other) "p \<noteq> ''/''" "\<not> under p ''/portal''" "\<not> under p ''/admin''" by blast
  then show ?thesis
  proof cases
    case root
    then show ?thesis by (simp add: four three two one guard_defs landing_def)
  next
    case portal
    then show ?thesis
      using under_portal [OF portal] by (auto simp: four three two guard_defs landing_def Let_def)
  next
    case admin
    then show ?thesis
      using under_admin [OF admin] assms
      by (auto simp: four three two guard_defs landing_def Let_def not_admin_def)
  next
    case other
    then have "guard s (at_path p) = None" by (simp add: guard_defs)
    moreover have "p \<noteq> ''/portal''" "p \<noteq> ''/admin''" using other by (auto simp: under_def)
    then have "landing s p = at_path p" using other by (simp add: landing_def)
    ultimately show ?thesis by (simp add: four)
  qed
qed


text \<open>A visitor who asks for a page before logging in is shown the login page; logging in there takes
  them to the page they asked for, provided an administration page is asked for by an administrator.\<close>

theorem login_returns:
  assumes "\<not> isAuthenticated s" "under p ''/portal'' \<or> under p ''/admin'' \<and> uc_rolePlatform (ar_context d) = Role_Admin"
  shows "navigate 4 s (at_path p) = Some \<lparr>loc_path = ''/auth'', loc_redirect = Some p\<rparr> \<and>
    navigate 5 (login d s) \<lparr>loc_path = ''/auth'', loc_redirect = Some p\<rparr> = Some (landing (login d s) p) \<and>
    loc_path (landing (login d s) p) \<in> {p, ''/portal/overview'', ''/admin/cluster/nodes''}"
proof -
  have p: "p \<noteq> []" "p \<noteq> ''/''" using assms under_portal under_admin by blast+
  have auth: "isAuthenticated (login d s)" by (simp add: login_def)
  have adm: "\<not> (not_admin (login d s) \<and> under p ''/admin'')"
    using assms(2) under_admin [of p] by (auto simp: not_admin_def login_def)
  have "guard (login d s) \<lparr>loc_path = ''/auth'', loc_redirect = Some p\<rparr> = Some (at_path p)"
    using p auth by (simp add: guard_defs)
  then have "navigate 5 (login d s) \<lparr>loc_path = ''/auth'', loc_redirect = Some p\<rparr> = navigate 4 (login d s) (at_path p)"
    by (simp add: numeral_eq_Suc)
  moreover have "landing s p = \<lparr>loc_path = ''/auth'', loc_redirect = Some p\<rparr>"
    using assms p by (auto simp: landing_def)
  moreover have "loc_path (landing (login d s) p) \<in> {p, ''/portal/overview'', ''/admin/cluster/nodes''}"
    using p auth by (simp add: landing_def at_path_def)
  ultimately show ?thesis
    using navigate_landing [of s p] navigate_landing [of "login d s" p] assms(1) adm by simp
qed


definition demo_auth :: IAuthResponse where
  "demo_auth = \<lparr>ar_accessToken = ''a'', ar_refreshToken = ''r'',
     ar_user = \<lparr>ua_id = 1, ua_name = ''li'', ua_nickname = ''Li'', ua_email = None, ua_teacher = None,
       ua_group = None, ua_expiredAt = None, ua_phone = None, ua_avatar = None, ua_uid = None, ua_gid = None\<rparr>,
     ar_context = \<lparr>uc_queue = ''q'', uc_roleQueue = Role_User, uc_rolePlatform = Role_User,
       uc_accessQueue = AccessMode_ReadWrite, uc_accessPublic = AccessMode_ReadOnly, uc_space = ''u-1''\<rparr>,
     ar_version = \<lparr>bv_appVersion = ''1'', bv_commitSHA = [], bv_buildType = [], bv_buildTime = []\<rparr>\<rparr>"

definition demo_session :: session where
  "demo_session = \<lparr>ss_storage = [], ss_user = None, ss_context = None, ss_version = None,
     isAuthenticated = False, isLoading = True, ss_lastView = [], ss_settings = initial_settings,
     ss_queries_cleared = 0\<rparr>"

theorem login_returns_witness:
  "navigate 4 demo_session (at_path ''/portal/jobs'') = Some \<lparr>loc_path = ''/auth'', loc_redirect = Some ''/portal/jobs''\<rparr>"
proof -
  have "under ''/portal/jobs'' ''/portal''" by (simp add: under_def starts_with_def)
  then show ?thesis
    using login_returns [of demo_session "''/portal/jobs''" demo_auth] by (simp add: demo_session_def)
qed


end
