(* ===== verification/AuthForms.thy ===== *)
theory AuthForms
  imports Session
begin

text \<open>
  The login page (\<open>routes/auth\<close>): the schemas of the login and signup forms, what they send, and
  how they react to the answer.
\<close>

section \<open>Schemas\<close>

definition lower_letter :: "char \<Rightarrow> bool" where
  "lower_letter c \<longleftrightarrow> 97 \<le> (of_char c :: nat) \<and> (of_char c :: nat) \<le> 122"

text \<open>\<open>/^[a-z][a-z0-9-]*[a-z0-9]$/\<close>.\<close>

definition username_regex :: "string \<Rightarrow> bool" where
  "username_regex s \<longleftrightarrow> 2 \<le> length s \<and> lower_letter (hd s) \<and>
     list_all (\<lambda>c. lower_letter c \<or> is_digit c \<or> c = CHR ''-'') (butlast (tl s)) \<and>
     (lower_letter (last s) \<or> is_digit (last s))"

record login_values =
  lv_username :: string
  lv_password :: string

definition between :: "nat \<Rightarrow> nat \<Rightarrow> string \<Rightarrow> bool" where
  "between lo hi s \<longleftrightarrow> lo \<le> length s \<and> length s \<le> hi"

definition login_formSchema :: "login_values \<Rightarrow> bool" where
  "login_formSchema v \<longleftrightarrow> between 1 20 (lv_username v) \<and> username_regex (lv_username v) \<and> between 1 20 (lv_password v)"

record signup_values = login_values +
  sv_passwordConfirm :: string

definition signup_formSchema :: "signup_values \<Rightarrow> bool" where
  "signup_formSchema v \<longleftrightarrow> between 1 20 (lv_username v) \<and> between 1 20 (lv_password v) \<and>
     lv_password v = sv_passwordConfirm v"

section \<open>Logging in\<close>

definition is_act :: "AuthMode \<Rightarrow> bool" where
  "is_act m \<longleftrightarrow> AuthMode_val m = AuthMode_val AuthMode_ACT"

text \<open>The submit handler: nothing while a login is pending; otherwise the settings are reset and the
  credentials sent.\<close>

definition login_onSubmit :: "AuthMode \<Rightarrow> bool \<Rightarrow> login_values \<Rightarrow> session \<Rightarrow> session \<times> http_request option" where
  "login_onSubmit authMode pending v s =
     (if pending then (s, None)
      else (useResetStore s,
        Some (apiLogin \<lparr>lg_auth = (if is_act authMode then ''act-ldap'' else ''normal''), lg_token = None,
          lg_username = Some (lv_username v), lg_password = Some (lv_password v)\<rparr>)))"

text \<open>The effect on the \<open>token\<close> search parameter.\<close>

definition login_token :: "string option \<Rightarrow> http_request option" where
  "login_token token =
     (case token of None \<Rightarrow> None
      | Some t \<Rightarrow> if t = [] then None
          else Some (apiLogin \<lparr>lg_auth = ''act-api'', lg_token = Some t, lg_username = None, lg_password = None\<rparr>))"

datatype reaction =
    Greet_administrator string
  | Greet_user string
  | Go_to string
  | Wrong_password
  | Open_register_dialog
  | Uid_server_timeout
  | Uid_server_failed
  | Login_failed
  | Signed_up

text \<open>A JavaScript number is true unless it is zero.\<close>

definition login_onSuccess :: "IAuthResponse \<Rightarrow> string option \<Rightarrow> reaction list" where
  "login_onSuccess d target =
     [if Role_val (uc_rolePlatform (ar_context d)) \<noteq> 0 then Greet_administrator (ua_nickname (ar_user d))
      else Greet_user (ua_nickname (ar_user d)),
      Go_to (case target of None \<Rightarrow> ''/portal'' | Some t \<Rightarrow> if t = [] then ''/portal'' else t)]"

text \<open>What an error handler sees: an error of axios with the code of its response, or any other error.\<close>

datatype seen_error = Of_axios "int option" | Other_error

text \<open>What the HTTP client throws is an \<open>HTTPError\<close> of \<open>ky\<close> or a plain error, never one of axios.\<close>

definition seen :: "failure \<Rightarrow> seen_error" where
  "seen f = Other_error"

definition login_onError :: "seen_error \<Rightarrow> reaction list" where
  "login_onError e =
     (case e of
        Of_axios code \<Rightarrow>
          (if code = Some ERROR_INVALID_CREDENTIALS then [Wrong_password]
           else if code = Some ERROR_MUST_REGISTER then [Open_register_dialog]
           else if code = Some ERROR_REGISTER_TIMEOUT then [Uid_server_timeout]
           else if code = Some ERROR_REGISTER_NOT_FOUND then [Uid_server_failed]
           else [])
      | Other_error \<Rightarrow> [Login_failed])"

section \<open>Signing up\<close>

definition signup_onSubmit :: "bool \<Rightarrow> signup_values \<Rightarrow> http_request option" where
  "signup_onSubmit isPending v =
     (if isPending then None
      else Some (apiSignup \<lparr>sg_userName = lv_username v, sg_password = lv_password v\<rparr>))"

definition signup_onSuccess :: "reaction list \<times> location" where
  "signup_onSuccess = ([Signed_up], \<lparr>loc_path = ''/auth'', loc_redirect = Some ''/''\<rparr>)"

definition signup_onError :: "seen_error \<Rightarrow> reaction list" where
  "signup_onError e =
     (case e of
        Of_axios code \<Rightarrow>
          (if code = Some ERROR_REGISTER_TIMEOUT then [Uid_server_timeout]
           else if code = Some ERROR_REGISTER_NOT_FOUND then [Uid_server_failed] else [])
      | Other_error \<Rightarrow> [Login_failed])"

section \<open>The login page's panels\<close>

record panels =
  showSignup :: bool
  showForgotPassword :: bool
  showRegisterDialog :: bool

text \<open>The second component says whether the message that names the contact is shown.\<close>

definition handleRegisterClick :: "AuthMode \<Rightarrow> panels \<Rightarrow> panels" where
  "handleRegisterClick mode p =
     (if is_act mode then p\<lparr>showRegisterDialog := True\<rparr>
      else p\<lparr>showSignup := True, showForgotPassword := False\<rparr>)"

definition handleForgotPasswordClick :: "AuthMode \<Rightarrow> panels \<Rightarrow> panels \<times> bool" where
  "handleForgotPasswordClick mode p =
     (if is_act mode then (p, True) else (p\<lparr>showForgotPassword := True, showSignup := False\<rparr>, False))"

definition handleBackToLogin :: "panels \<Rightarrow> panels" where
  "handleBackToLogin p = p\<lparr>showSignup := False, showForgotPassword := False\<rparr>"

text \<open>A login through the HTTP client: whatever the server's error code, the form shows only the
  general message, since the cases for a wrong password or a missing registration look for errors of
  axios; and a login that succeeds greets everybody as an administrator, since no role has the
  value 0.\<close>

theorem login_reactions:
  "(case apiRequest (Inl f :: failure + IAuthResponse) m of
      (toasts, Inl f') \<Rightarrow> login_onError (seen f') = [Login_failed]
    | (toasts, Inr d) \<Rightarrow> False) \<and>
   hd (login_onSuccess d target) = Greet_administrator (ua_nickname (ar_user d)) \<and>
   login_onError (Of_axios (Some ERROR_INVALID_CREDENTIALS)) = [Wrong_password]"
proof -
  have "Role_val (uc_rolePlatform (ar_context d)) \<noteq> 0" by (cases "uc_rolePlatform (ar_context d)") auto
  then show ?thesis
    by (auto simp: apiRequest_def login_onError_def seen_def login_onSuccess_def error_code_defs
        split: failure.splits payload.splits)
qed

end
