(* ===== verification/Forms.thy ===== *)
theory Forms
  imports ApiJobs
begin

text \<open>
  \<open>utils/form.ts\<close> and \<open>components/form/types.ts\<close>: the schemas the job forms share, the
  text a form is exported to and imported from, and the resource list a form asks for. A number
  input that is not a whole number is refused by \<open>z.number().int()\<close>, so the records hold
  integers and the schema checks the other rules.
\<close>

section \<open>Schemas\<close>

definition jobNameSchema :: "string \<Rightarrow> bool" where
  "jobNameSchema s \<longleftrightarrow> 1 \<le> length s \<and> length s \<le> 40"

record gpu_form =
  gf_count :: int
  gf_model :: "string option"

record network_form =
  nf_enabled :: bool
  nf_model :: "string option"

record vgpu_model =
  vg_label :: string
  vg_value :: int

record vgpu_form =
  vf_enabled :: bool
  vf_models :: "vgpu_model list option"

text \<open>A form filled from an old configuration may lack \<open>network\<close> or \<open>vgpu\<close>.\<close>

record resource_form =
  rf_cpu :: int
  rf_memory :: int
  rf_gpu :: gpu_form
  rf_network :: "network_form option"
  rf_vgpu :: "vgpu_form option"

definition gpu_ok :: "gpu_form \<Rightarrow> bool" where
  "gpu_ok g \<longleftrightarrow> 0 \<le> gf_count g \<and> (gf_count g = 0 \<or> 0 < gf_count g \<and> gf_model g \<noteq> None)"

definition network_ok :: "network_form \<Rightarrow> bool" where
  "network_ok n \<longleftrightarrow> \<not> nf_enabled n \<or> nf_enabled n \<and> nf_model n \<noteq> None"

definition vgpu_ok :: "vgpu_form \<Rightarrow> bool" where
  "vgpu_ok v \<longleftrightarrow>
     (case vf_models v of None \<Rightarrow> True | Some ms \<Rightarrow> list_all (\<lambda>m. 1 \<le> length (vg_label m) \<and> 0 \<le> vg_value m) ms)"

definition resourceSchema :: "resource_form \<Rightarrow> bool" where
  "resourceSchema r \<longleftrightarrow> 0 \<le> rf_cpu r \<and> 0 \<le> rf_memory r \<and> gpu_ok (rf_gpu r) \<and>
     (case rf_network r of None \<Rightarrow> False | Some n \<Rightarrow> network_ok n) \<and>
     (case rf_vgpu r of None \<Rightarrow> False | Some v \<Rightarrow> vgpu_ok v)"

definition defaultResource :: resource_form where
  "defaultResource = \<lparr>rf_cpu = 1, rf_memory = 2, rf_gpu = \<lparr>gf_count = 0, gf_model = None\<rparr>,
     rf_network = Some \<lparr>nf_enabled = False, nf_model = None\<rparr>,
     rf_vgpu = Some \<lparr>vf_enabled = False, vf_models = None\<rparr>\<rparr>"

record task_form =
  tf'_taskName :: string
  tf'_replicas :: int
  tf'_resource :: resource_form
  tf'_image :: IImageBaseInfo
  tf'_shell :: "string option"
  tf'_command :: "string option"
  tf'_workingDir :: "string option"
  tf'_ports :: "TaskPort list"

definition taskSchema :: "task_form \<Rightarrow> bool" where
  "taskSchema t \<longleftrightarrow> 1 \<le> length (tf'_taskName t) \<and> 1 \<le> tf'_replicas t \<and> resourceSchema (tf'_resource t) \<and>
     1 \<le> length (ib_imageLink (tf'_image t)) \<and> list_all (\<lambda>p. 1 \<le> length (tp_name p)) (tf'_ports t)"

datatype VolumeMountType = FileType | DataType

fun VolumeMountType_val :: "VolumeMountType \<Rightarrow> int" where
  "VolumeMountType_val FileType = 1"
| "VolumeMountType_val DataType = 2"

record mount_form =
  mt_type :: int
  mt_subPath :: string
  mt_datasetID :: "int option"
  mt_mountPath :: string

definition mount_path_ok :: "string \<Rightarrow> bool" where
  "mount_path_ok value \<longleftrightarrow> 1 \<le> length value \<and> starts_with value ''/'' \<and> \<not> str_includes value ''..'' \<and>
     \<not> str_includes value ''//'' \<and> value \<noteq> ''/''"

definition volumeMountsSchema :: "mount_form list \<Rightarrow> bool" where
  "volumeMountsSchema ms \<longleftrightarrow>
     list_all (\<lambda>m. 1 \<le> length (mt_subPath m) \<and>
       (case mt_datasetID m of None \<Rightarrow> True | Some i \<Rightarrow> 0 \<le> i) \<and> mount_path_ok (mt_mountPath m)) ms"

definition envsSchema :: "Env list \<Rightarrow> bool" where
  "envsSchema es \<longleftrightarrow> list_all (\<lambda>e. 1 \<le> length (en_name e) \<and> 1 \<le> length (en_value e)) es"

text \<open>\<open>/^[a-z]+$/\<close>.\<close>

definition lower_name :: "string \<Rightarrow> bool" where
  "lower_name s \<longleftrightarrow> s \<noteq> [] \<and> list_all (\<lambda>c. 97 \<le> (of_char c :: nat) \<and> (of_char c :: nat) \<le> 122) s"

definition forwardsSchema :: "Forward list \<Rightarrow> bool" where
  "forwardsSchema fs \<longleftrightarrow>
     list_all (\<lambda>f. 1 \<le> length (fw_name f) \<and> length (fw_name f) \<le> 20 \<and> lower_name (fw_name f) \<and> 0 < fw_port f) fs"

record selector_form =
  sf_enable :: bool
  sf_nodeName :: "string option"

definition nodeSelectorSchema :: "selector_form \<Rightarrow> bool" where
  "nodeSelectorSchema s \<longleftrightarrow> \<not> sf_enable s \<or> sf_enable s \<and> sf_nodeName s \<noteq> None"

section \<open>The forms' values as JSON\<close>

text \<open>A property whose value is undefined is left out.\<close>

definition json_gpu :: "gpu_form \<Rightarrow> json" where
  "json_gpu g = JObj ([(''count'', jint (gf_count g))] @ opt_field ''model'' JStr (gf_model g))"

definition json_network :: "network_form \<Rightarrow> json" where
  "json_network n = JObj ([(''enabled'', JBool (nf_enabled n))] @ opt_field ''model'' JStr (nf_model n))"

definition json_vgpu :: "vgpu_form \<Rightarrow> json" where
  "json_vgpu v = JObj ([(''enabled'', JBool (vf_enabled v))] @
     opt_field ''models'' (\<lambda>ms. JArr (map (\<lambda>m. JObj [(''label'', JStr (vg_label m)), (''value'', jint (vg_value m))]) ms))
       (vf_models v))"

definition json_resource :: "resource_form \<Rightarrow> json" where
  "json_resource r = JObj ([(''cpu'', jint (rf_cpu r)), (''memory'', jint (rf_memory r)), (''gpu'', json_gpu (rf_gpu r))]
     @ opt_field ''network'' json_network (rf_network r) @ opt_field ''vgpu'' json_vgpu (rf_vgpu r))"

definition json_task :: "task_form \<Rightarrow> json" where
  "json_task t = JObj ([(''taskName'', JStr (tf'_taskName t)), (''replicas'', jint (tf'_replicas t)),
      (''resource'', json_resource (tf'_resource t)), (''image'', json_IImageBaseInfo (tf'_image t))]
     @ opt_field ''shell'' JStr (tf'_shell t) @ opt_field ''command'' JStr (tf'_command t)
     @ opt_field ''workingDir'' JStr (tf'_workingDir t) @ [(''ports'', JArr (map json_TaskPort (tf'_ports t)))])"

definition json_mount :: "mount_form \<Rightarrow> json" where
  "json_mount m = JObj ([(''type'', jint (mt_type m)), (''subPath'', JStr (mt_subPath m))]
     @ opt_field ''datasetID'' jint (mt_datasetID m) @ [(''mountPath'', JStr (mt_mountPath m))])"

definition json_selector :: "selector_form \<Rightarrow> json" where
  "json_selector s = JObj ([(''enable'', JBool (sf_enable s))] @ opt_field ''nodeName'' JStr (sf_nodeName s))"

lemmas form_json_defs = json_gpu_def json_network_def json_vgpu_def json_resource_def json_task_def
  json_mount_def json_selector_def

section \<open>Export and import\<close>

record MetadataFormType =
  md_version :: string
  md_type :: string

definition MetadataFormAccount :: MetadataFormType where
  "MetadataFormAccount = \<lparr>md_version = ''20241208'', md_type = ''account''\<rparr>"
definition MetadataFormJupyter :: MetadataFormType where
  "MetadataFormJupyter = \<lparr>md_version = ''20250420'', md_type = ''jupyter''\<rparr>"
definition MetadataFormCustom :: MetadataFormType where
  "MetadataFormCustom = \<lparr>md_version = ''20250317'', md_type = ''custom''\<rparr>"
definition MetadataFormCustomEmias :: MetadataFormType where
  "MetadataFormCustomEmias = \<lparr>md_version = ''20250420'', md_type = ''custom-emias''\<rparr>"
definition MetadataFormTensorflow :: MetadataFormType where
  "MetadataFormTensorflow = \<lparr>md_version = ''20240528'', md_type = ''tensorflow''\<rparr>"
definition MetadataFormPytorch :: MetadataFormType where
  "MetadataFormPytorch = \<lparr>md_version = ''20240528'', md_type = ''pytorch''\<rparr>"
definition MetadataFormJupyterEmias :: MetadataFormType where
  "MetadataFormJupyterEmias = \<lparr>md_version = ''20240528'', md_type = ''jupyter-emias''\<rparr>"

datatype form_error =
    Syntax_error
  | Type_error
  | No_file
  | Version_differs string "json option"
  | Type_differs string "json option"

definition job_submit :: "MetadataFormType \<Rightarrow> json \<Rightarrow> json" where
  "job_submit metadata data =
     JObj [(''version'', JStr (md_version metadata)), (''type'', JStr (md_type metadata)), (''data'', data)]"

definition exportToJsonString :: "MetadataFormType \<Rightarrow> json \<Rightarrow> string" where
  "exportToJsonString metadata data = json_stringify (job_submit metadata data)"

text \<open>The file that is downloaded: its name and its text.\<close>

definition exportToJsonFile :: "json \<Rightarrow> string \<Rightarrow> string \<times> string" where
  "exportToJsonFile data filename = (filename, json_stringify data)"

text \<open>Reading a property of \<open>undefined\<close> or \<open>null\<close> throws; other values that are not objects have none.\<close>

fun get_prop :: "json option \<Rightarrow> string \<Rightarrow> form_error + json option" where
  "get_prop None k = Inl Type_error"
| "get_prop (Some JNull) k = Inl Type_error"
| "get_prop (Some (JObj ms)) k = Inr (map_of ms k)"
| "get_prop (Some _) k = Inr None"

definition importFromJsonString :: "MetadataFormType \<Rightarrow> string \<Rightarrow> form_error + json option" where
  "importFromJsonString metadata text =
     (case json_parse text of
        None \<Rightarrow> Inl Syntax_error
      | Some jobInfo \<Rightarrow>
          (case get_prop (Some jobInfo) ''version'' of
             Inl e \<Rightarrow> Inl e
           | Inr version \<Rightarrow>
               if version \<noteq> Some (JStr (md_version metadata)) then Inl (Version_differs (md_version metadata) version)
               else if jget jobInfo ''type'' \<noteq> Some (JStr (md_type metadata))
               then Inl (Type_differs (md_type metadata) (jget jobInfo ''type''))
               else Inr (jget jobInfo ''data'')))"

definition importFromJsonFile :: "string \<Rightarrow> string \<Rightarrow> string option \<Rightarrow> form_error + json option" where
  "importFromJsonFile version type' file =
     (case file of
        None \<Rightarrow> Inl No_file
      | Some text \<Rightarrow> importFromJsonString \<lparr>md_version = version, md_type = type'\<rparr> text)"

section \<open>Images\<close>

definition default_archs :: json where
  "default_archs = jstrs [''linux/amd64'']"

definition ensureImageCompatibility :: "json option \<Rightarrow> json option" where
  "ensureImageCompatibility imageField =
     (case imageField of
        Some (JStr s) \<Rightarrow> Some (JObj [(''imageLink'', JStr s), (''archs'', default_archs)])
      | Some (JObj ms) \<Rightarrow>
          if ''imageLink'' \<in> set (map fst ms) \<and> ''archs'' \<notin> set (map fst ms)
          then Some (JObj (ms @ [(''archs'', default_archs)]))
          else Some (JObj ms)
      | _ \<Rightarrow> imageField)"

section \<open>The resource list a form asks for\<close>

text \<open>
  A missing or empty \<open>model\<close> is false. A form without \<open>network\<close> or \<open>vgpu\<close> makes the reads
  of their \<open>enabled\<close> throw, which happens only when a GPU is asked for.
\<close>

definition model_set :: "string option \<Rightarrow> bool" where
  "model_set m \<longleftrightarrow> m \<noteq> None \<and> m \<noteq> Some []"

definition put_network :: "network_form \<Rightarrow> strobj \<Rightarrow> strobj" where
  "put_network n m = (if nf_enabled n \<and> model_set (nf_model n) then AList.update (the (nf_model n)) ''1'' m else m)"

definition put_vgpu :: "vgpu_form \<Rightarrow> strobj \<Rightarrow> strobj" where
  "put_vgpu v m =
     (case vf_models v of
        None \<Rightarrow> m
      | Some ms \<Rightarrow> if vf_enabled v then foldl (\<lambda>o' x. AList.update (vg_label x) (int_str (vg_value x)) o') m ms else m)"

definition convertToResourceList :: "resource_form \<Rightarrow> form_error + strobj" where
  "convertToResourceList r =
     (let base = [(''cpu'', int_str (rf_cpu r)), (''memory'', int_str (rf_memory r) @ ''Gi'')] in
      if model_set (gf_model (rf_gpu r)) \<and> 0 < gf_count (rf_gpu r) then
        (case (rf_network r, rf_vgpu r) of
           (Some n, Some v) \<Rightarrow>
             Inr (AList.update (the (gf_model (rf_gpu r))) (int_str (gf_count (rf_gpu r))) (put_vgpu v (put_network n base)))
         | _ \<Rightarrow> Inl Type_error)
      else Inr base)"

section \<open>Properties\<close>

lemma wf_job_submit [simp]: "wf_json (job_submit md v) = wf_json v"
  by (simp add: job_submit_def)

lemma import_exported:
  assumes "wf_json v"
  shows "importFromJsonString md' (exportToJsonString md v) =
    (if md_version md \<noteq> md_version md' then Inl (Version_differs (md_version md') (Some (JStr (md_version md))))
     else if md_type md \<noteq> md_type md' then Inl (Type_differs (md_type md') (Some (JStr (md_type md))))
     else Inr (Some v))"
proof -
  have "json_parse (exportToJsonString md v) = Some (job_submit md v)"
    using json_parse_stringify [of "job_submit md v"] assms by (simp add: exportToJsonString_def)
  then show ?thesis by (simp add: importFromJsonString_def job_submit_def)
qed

text \<open>A form's configuration exported as text is imported again as the same value by a form of the
  same version and type; a form of another version or type refuses it, naming what it found.\<close>

theorem export_import:
  assumes "wf_json v"
  shows "importFromJsonString md' (exportToJsonString md v) =
    (if md_version md \<noteq> md_version md' then Inl (Version_differs (md_version md') (Some (JStr (md_version md))))
     else if md_type md \<noteq> md_type md' then Inl (Type_differs (md_type md') (Some (JStr (md_type md))))
     else Inr (Some v))"
  using assms by (rule import_exported)

theorem export_import_witness:
  "importFromJsonString MetadataFormJupyter (exportToJsonString MetadataFormJupyter (JObj [(''jobName'', JStr ''a'')])) =
     Inr (Some (JObj [(''jobName'', JStr ''a'')])) \<and>
   importFromJsonString MetadataFormCustom (exportToJsonString MetadataFormJupyter (JObj [(''jobName'', JStr ''a'')])) =
     Inl (Version_differs ''20250317'' (Some (JStr ''20250420'')))"
  using export_import [of "JObj [(''jobName'', JStr ''a'')]"]
  by (simp add: MetadataFormJupyter_def MetadataFormCustom_def)

lemma join_with_append:
  "xs \<noteq> [] \<Longrightarrow> ys \<noteq> [] \<Longrightarrow> join_with sep (xs @ ys) = join_with sep xs @ sep @ join_with sep ys"
proof (induction xs)
  case Nil
  then show ?case by simp
next
  case (Cons x xs)
  then show ?case by (cases "xs = []") (simp_all add: join_with_Cons)
qed

lemma split_part_includes:
  assumes "s \<in> set (split_char c p)" "str_includes s q"
  shows "str_includes p q"
proof -
  obtain as bs where sp: "split_char c p = as @ s # bs" using assms(1) by (meson split_list)
  have "str_includes (join_with [c] (s # bs)) q"
    using assms(2) by (cases "bs = []") (auto simp: join_with_Cons)
  then have "str_includes (join_with [c] (as @ s # bs)) q"
    using str_includes_append_left [of _ q "join_with [c] as @ [c]"]
    by (cases "as = []") (auto simp: join_with_append)
  then show ?thesis using join_split [of c p] sp by simp
qed

lemma split_empty_part:
  assumes "split_char c p = as @ [] # b # bs" "as \<noteq> []"
  shows "str_includes p [c, c]"
proof -
  have "p = join_with [c] as @ [c] @ [c] @ join_with [c] (b # bs)"
    using join_split [of c p] assms by (simp add: join_with_append join_with_Cons)
  then have "p = join_with [c] as @ [c, c] @ join_with [c] (b # bs)" by simp
  then show ?thesis unfolding str_includes_def sublist_def by blast
qed



text \<open>The names a form may give to its network and GPU resources, other than CPU and memory.\<close>

definition form_keys :: "resource_form \<Rightarrow> string set" where
  "form_keys r = set_option (gf_model (rf_gpu r)) \<union>
     (case rf_network r of None \<Rightarrow> {} | Some n \<Rightarrow> set_option (nf_model n)) \<union>
     (case rf_vgpu r of None \<Rightarrow> {} | Some v \<Rightarrow> (case vf_models v of None \<Rightarrow> {} | Some ms \<Rightarrow> vg_label ` set ms))"

lemma put_vgpu_other:
  assumes "\<forall>ms. vf_models v = Some ms \<longrightarrow> k \<notin> vg_label ` set ms"
  shows "map_of (put_vgpu v m) k = map_of m k"
proof -
  have "k \<notin> vg_label ` set ms \<Longrightarrow>
      map_of (foldl (\<lambda>o' x. AList.update (vg_label x) (int_str (vg_value x)) o') m ms) k = map_of m k" for ms
    by (induction ms arbitrary: m) (auto simp: obj.get_put)
  with assms show ?thesis by (cases "vf_models v") (auto simp: put_vgpu_def)
qed

lemma put_network_other:
  "nf_model n \<noteq> Some k \<Longrightarrow> map_of (put_network n m) k = map_of m k"
  by (auto simp: put_network_def obj.get_put model_set_def)

text \<open>Every resource form the schema accepts is turned into a resource list without an error: a GPU
  that is asked for appears under its model with its count, and, unless a model is called \<open>cpu\<close>
  or \<open>memory\<close>, reading the list back gives the form's CPU and memory without a warning.\<close>

theorem resource_list_of_form:
  assumes "resourceSchema r" "''cpu'' \<notin> form_keys r" "''memory'' \<notin> form_keys r"
  shows "\<exists>m. convertToResourceList r = Inr m \<and>
    (case gf_model (rf_gpu r) of
       Some g \<Rightarrow> if g \<noteq> [] \<and> 0 < gf_count (rf_gpu r) then map_of m g = Some (int_str (gf_count (rf_gpu r))) else length m = 2
     | None \<Rightarrow> length m = 2) \<and>
    (let (toasts, res, _) = convertToResources (Some m) in
      toasts = [] \<and> res_cpu res = Some (Fin (of_int (rf_cpu r))) \<and> res_memory res = Some (Fin (of_int (rf_memory r))))"
proof -
  define base where "base = [(''cpu'', int_str (rf_cpu r)), (''memory'', int_str (rf_memory r) @ ''Gi'')]"
  have nn: "0 \<le> rf_cpu r" "0 \<le> rf_memory r" using assms(1) by (auto simp: resourceSchema_def)
  obtain n v where nv: "rf_network r = Some n" "rf_vgpu r = Some v"
    using assms(1) by (auto simp: resourceSchema_def split: option.splits)
  define full where "full = put_vgpu v (put_network n base)"
  have keys: "map_of full k = map_of base k" if "k \<in> {''cpu'', ''memory''}" for k
  proof -
    have "k \<notin> form_keys r" using assms(2,3) that by auto
    then have "\<forall>ms. vf_models v = Some ms \<longrightarrow> k \<notin> vg_label ` set ms" "nf_model n \<noteq> Some k"
      using nv by (auto simp: form_keys_def)
    then show ?thesis by (simp add: full_def put_vgpu_other put_network_other)
  qed
  have read: "let (toasts, res, _) = convertToResources (Some m) in
      toasts = [] \<and> res_cpu res = Some (Fin (of_int (rf_cpu r))) \<and> res_memory res = Some (Fin (of_int (rf_memory r)))"
    if "map_of m ''cpu'' = Some (int_str (rf_cpu r))" "map_of m ''memory'' = Some (int_str (rf_memory r) @ ''Gi'')" for m
  proof -
    have "convertKResourceToResource ''cpu'' (Some (int_str (rf_cpu r))) = ([], Some (Fin (of_int (rf_cpu r))))"
      using convertK_cpu [of "of_int (rf_cpu r)"] nn by (simp add: rat_str_of_int decimal20_def)
    moreover have "convertKResourceToResource ''memory'' (Some (int_str (rf_memory r) @ ''Gi'')) = ([], Some (Fin (of_int (rf_memory r))))"
      using quantity_Gi [of "nat (rf_memory r)"] nn by (simp add: int_str_def)
    ultimately show ?thesis using that by (simp add: convertToResources_def Let_def)
  qed
  show ?thesis
  proof (cases "model_set (gf_model (rf_gpu r)) \<and> 0 < gf_count (rf_gpu r)")
    case True
    then obtain g where g: "gf_model (rf_gpu r) = Some g" "g \<noteq> []" by (auto simp: model_set_def)
    then have gk: "g \<noteq> ''cpu''" "g \<noteq> ''memory''" using assms(2,3) by (auto simp: form_keys_def)
    define m where "m = AList.update g (int_str (gf_count (rf_gpu r))) full"
    have "convertToResourceList r = Inr m"
      using True g nv by (simp add: convertToResourceList_def m_def full_def base_def)
    moreover have "map_of m ''cpu'' = Some (int_str (rf_cpu r))" "map_of m ''memory'' = Some (int_str (rf_memory r) @ ''Gi'')"
      using gk keys by (simp_all add: m_def obj.get_put base_def)
    moreover have "map_of m g = Some (int_str (gf_count (rf_gpu r)))" by (simp add: m_def obj.get_put)
    ultimately show ?thesis using True g read by (intro exI [of _ m]) simp
  next
    case False
    then have "convertToResourceList r = Inr base" by (auto simp: convertToResourceList_def base_def)
    moreover have "map_of base ''cpu'' = Some (int_str (rf_cpu r))" "map_of base ''memory'' = Some (int_str (rf_memory r) @ ''Gi'')"
      "length base = 2" by (simp_all add: base_def)
    ultimately show ?thesis using False read by (intro exI [of _ base]) (auto simp: model_set_def split: option.split)
  qed
qed

theorem resource_list_of_form_witness:
  "\<exists>m. convertToResourceList (defaultResource\<lparr>rf_gpu := \<lparr>gf_count = 2, gf_model = Some ''nvidia.com/a100''\<rparr>\<rparr>) = Inr m \<and>
     map_of m ''nvidia.com/a100'' = Some (int_str 2)"
  using resource_list_of_form [of "defaultResource\<lparr>rf_gpu := \<lparr>gf_count = 2, gf_model = Some ''nvidia.com/a100''\<rparr>\<rparr>"]
  by (auto simp: defaultResource_def resourceSchema_def gpu_ok_def network_ok_def vgpu_ok_def form_keys_def)

end
