(* ===== verification/JobForms.thy ===== *)
theory JobForms
  imports Forms
begin

text \<open>
  The job forms of \<open>routes/portal/jobs/new\<close>: what each form submits, the configuration it stores
  with the job, and how the configuration is repaired when a form is filled from it again.
\<close>

section \<open>JavaScript objects as JSON\<close>

text \<open>
  A property set to \<open>undefined\<close> counts as absent. Setting a property of a value that is not an
  object throws; of an array it changes nothing that JSON shows.
\<close>

definition bindE :: "'e + 'a \<Rightarrow> ('a \<Rightarrow> 'e + 'b) \<Rightarrow> 'e + 'b" where
  "bindE x f = (case x of Inl e \<Rightarrow> Inl e | Inr v \<Rightarrow> f v)"

lemma bindE_simps [simp]: "bindE (Inl e) f = Inl e" "bindE (Inr v) f = f v"
  by (simp_all add: bindE_def)

fun set_prop :: "json option \<Rightarrow> string \<Rightarrow> json option \<Rightarrow> form_error + json option" where
  "set_prop (Some (JObj ms)) k (Some v) = Inr (Some (JObj (AList.update k v ms)))"
| "set_prop (Some (JObj ms)) k None = Inr (Some (JObj (AList.delete k ms)))"
| "set_prop (Some (JArr xs)) k _ = Inr (Some (JArr xs))"
| "set_prop _ k _ = Inl Type_error"

text \<open>Changing the object found under a property, in place.\<close>

definition at_prop :: "string \<Rightarrow> (json option \<Rightarrow> form_error + json option) \<Rightarrow> json option \<Rightarrow> form_error + json option" where
  "at_prop k f v =
     bindE (get_prop v k) (\<lambda>x. bindE (f x) (\<lambda>x'.
       case (v, x') of (Some (JObj ms), Some y) \<Rightarrow> Inr (Some (JObj (AList.update k y ms))) | _ \<Rightarrow> Inr v))"

fun truthy :: "json option \<Rightarrow> bool" where
  "truthy None = False"
| "truthy (Some JNull) = False"
| "truthy (Some (JBool b)) = b"
| "truthy (Some (JNum r)) = (r \<noteq> 0)"
| "truthy (Some (JStr s)) = (s \<noteq> [])"
| "truthy (Some _) = True"

section \<open>Repairing a configuration\<close>

definition fix_image :: "json option \<Rightarrow> form_error + json option" where
  "fix_image task = bindE (get_prop task ''image'') (\<lambda>i. set_prop task ''image'' (ensureImageCompatibility i))"

definition fix_forwards :: "json option \<Rightarrow> form_error + json option" where
  "fix_forwards data = bindE (get_prop data ''forwards'')
     (\<lambda>f. if f = None \<or> f = Some JNull then set_prop data ''forwards'' (Some (JArr [])) else Inr data)"

definition network_off :: json where
  "network_off = JObj [(''enabled'', JBool False)]"

definition drop_network :: "json option \<Rightarrow> form_error + json option" where
  "drop_network resource = bindE (get_prop resource ''network'')
     (\<lambda>n. if truthy n
          then at_prop ''network'' (\<lambda>n. bindE (set_prop n ''enabled'' (Some (JBool False))) (\<lambda>n. set_prop n ''model'' None)) resource
          else Inr resource)"

definition default_network :: "json option \<Rightarrow> form_error + json option" where
  "default_network resource = bindE (get_prop resource ''network'')
     (\<lambda>n. if truthy n then Inr resource else set_prop resource ''network'' (Some network_off))"

definition default_vgpu :: "json option \<Rightarrow> form_error + json option" where
  "default_vgpu resource = bindE (get_prop resource ''vgpu'')
     (\<lambda>n. if truthy n then Inr resource else set_prop resource ''vgpu'' (Some network_off))"

definition dataProcessor_single :: "json option \<Rightarrow> form_error + json option" where
  "dataProcessor_single data =
     bindE (at_prop ''task'' fix_image data) (\<lambda>data.
     bindE (fix_forwards data) (\<lambda>data.
     at_prop ''task'' (at_prop ''resource'' (\<lambda>r. bindE (drop_network r) (\<lambda>r. bindE (default_network r) default_vgpu))) data))"

definition dataProcessor_jupyter :: "json option \<Rightarrow> form_error + json option" where
  "dataProcessor_jupyter data =
     bindE (at_prop ''task'' fix_image data) (\<lambda>data.
     at_prop ''task'' (at_prop ''resource'' (\<lambda>r. bindE (default_network r) default_vgpu)) data)"

text \<open>The forms of the distributed jobs have two tasks, \<open>ps\<close> and \<open>worker\<close>.\<close>

definition dataProcessor_pair :: "json option \<Rightarrow> form_error + json option" where
  "dataProcessor_pair data =
     bindE (at_prop ''ps'' fix_image data) (\<lambda>data.
     bindE (at_prop ''worker'' fix_image data) (\<lambda>data.
     bindE (fix_forwards data) (\<lambda>data.
     bindE (at_prop ''ps'' (at_prop ''resource'' default_network) data) (\<lambda>data.
     bindE (at_prop ''worker'' (at_prop ''resource'' default_network) data) (\<lambda>data.
     bindE (at_prop ''ps'' (at_prop ''resource'' default_vgpu) data)
       (at_prop ''worker'' (at_prop ''resource'' default_vgpu)))))))"

definition dataProcessor_emias :: "json option \<Rightarrow> form_error + json option" where
  "dataProcessor_emias = dataProcessor_single"

definition dataProcessor_emias_jupyter :: "json option \<Rightarrow> form_error + json option" where
  "dataProcessor_emias_jupyter data =
     bindE (at_prop ''task'' fix_image data) (\<lambda>data.
     at_prop ''task'' (at_prop ''resource'' (\<lambda>r. bindE (drop_network r) (\<lambda>r. bindE (default_network r) default_vgpu))) data)"

section \<open>The forms\<close>

record job_form =
  jf_jobName :: string
  jf_task :: task_form
  jf_envs :: "Env list"
  jf_volumeMounts :: "mount_form list"
  jf_nodeSelector :: selector_form
  jf_alertEnabled :: bool
  jf_forwards :: "Forward list"

definition job_formSchema :: "job_form \<Rightarrow> bool" where
  "job_formSchema v \<longleftrightarrow> jobNameSchema (jf_jobName v) \<and> taskSchema (jf_task v) \<and> envsSchema (jf_envs v) \<and>
     volumeMountsSchema (jf_volumeMounts v) \<and> nodeSelectorSchema (jf_nodeSelector v) \<and> forwardsSchema (jf_forwards v)"

definition json_job :: "job_form \<Rightarrow> json" where
  "json_job v = JObj [(''jobName'', JStr (jf_jobName v)), (''task'', json_task (jf_task v)),
     (''envs'', JArr (map json_Env (jf_envs v))), (''volumeMounts'', JArr (map json_mount (jf_volumeMounts v))),
     (''nodeSelector'', json_selector (jf_nodeSelector v)), (''alertEnabled'', JBool (jf_alertEnabled v)),
     (''forwards'', JArr (map json_Forward (jf_forwards v)))]"

text \<open>The node the job must run on, when one is chosen; \<open>undefined\<close> is printed as that.\<close>

definition selectors_of :: "selector_form \<Rightarrow> NodeSelectorRequirement list option" where
  "selectors_of s =
     (if sf_enable s
      then Some [\<lparr>ns_key = ''kubernetes.io/hostname'', ns_operator = OpIn,
             ns_values = Some [case sf_nodeName s of None \<Rightarrow> ''undefined'' | Some n \<Rightarrow> n]\<rparr>]
      else None)"

definition jupyter_payload :: "MetadataFormType \<Rightarrow> job_form \<Rightarrow> form_error + IJupyterCreate" where
  "jupyter_payload metadata v =
     bindE (convertToResourceList (tf'_resource (jf_task v))) (\<lambda>resource.
       Inr \<lparr>jc_name = jf_jobName v, jc_resource = Some resource, jc_image = tf'_image (jf_task v),
         jc_volumeMounts = map json_mount (jf_volumeMounts v), jc_envs = jf_envs v,
         jc_selectors = selectors_of (jf_nodeSelector v), jc_template = exportToJsonString metadata (json_job v),
         jc_alertEnabled = jf_alertEnabled v, jc_forwards = jf_forwards v\<rparr>)"

definition create_jupyter :: "string \<Rightarrow> job_form \<Rightarrow> form_error + http_request" where
  "create_jupyter u v = bindE (jupyter_payload MetadataFormJupyter v) (\<lambda>p. Inr (apiJupyterCreate u p))"

definition create_emias_jupyter :: "string \<Rightarrow> job_form \<Rightarrow> form_error + http_request" where
  "create_emias_jupyter u v = bindE (jupyter_payload MetadataFormJupyterEmias v) (\<lambda>p. Inr (apiJupyterCreate u p))"

definition single_payload :: "job_form \<Rightarrow> form_error + ITrainingCreate" where
  "single_payload v =
     bindE (jupyter_payload MetadataFormCustom v) (\<lambda>p.
       Inr (IJupyterCreate.extend p \<lparr>tc_shell = tf'_shell (jf_task v), tc_command = tf'_command (jf_task v),
         tc_workingDir = tf'_workingDir (jf_task v)\<rparr>))"

definition create_single :: "string \<Rightarrow> job_form \<Rightarrow> form_error + http_request" where
  "create_single u v = bindE (single_payload v) (\<lambda>p. Inr (apiTrainingCreate u p))"

record pair_form =
  pr_jobName :: string
  pr_ps :: task_form
  pr_worker :: task_form
  pr_envs :: "Env list"
  pr_volumeMounts :: "mount_form list"
  pr_alertEnabled :: bool
  pr_nodeSelector :: selector_form
  pr_forwards :: "Forward list"

definition pair_formSchema :: "pair_form \<Rightarrow> bool" where
  "pair_formSchema v \<longleftrightarrow> jobNameSchema (pr_jobName v) \<and> taskSchema (pr_ps v) \<and> taskSchema (pr_worker v) \<and>
     envsSchema (pr_envs v) \<and> volumeMountsSchema (pr_volumeMounts v) \<and> nodeSelectorSchema (pr_nodeSelector v) \<and>
     forwardsSchema (pr_forwards v)"

definition json_pair :: "pair_form \<Rightarrow> json" where
  "json_pair v = JObj [(''jobName'', JStr (pr_jobName v)), (''ps'', json_task (pr_ps v)),
     (''worker'', json_task (pr_worker v)), (''envs'', JArr (map json_Env (pr_envs v))),
     (''volumeMounts'', JArr (map json_mount (pr_volumeMounts v))), (''alertEnabled'', JBool (pr_alertEnabled v)),
     (''nodeSelector'', json_selector (pr_nodeSelector v)), (''forwards'', JArr (map json_Forward (pr_forwards v)))]"

definition task_create :: "task_form \<Rightarrow> form_error + TaskCreate" where
  "task_create t =
     bindE (convertToResourceList (tf'_resource t)) (\<lambda>resource.
       Inr \<lparr>tk_name = tf'_taskName t, tk_replicas = tf'_replicas t, tk_resource = Some resource,
         tk_image = tf'_image t, tk_command = tf'_command t, tk_workingDir = tf'_workingDir t, tk_ports = tf'_ports t\<rparr>)"

definition pair_payload :: "MetadataFormType \<Rightarrow> pair_form \<Rightarrow> form_error + ITensorflowCreate" where
  "pair_payload metadata v =
     bindE (task_create (pr_ps v)) (\<lambda>ps. bindE (task_create (pr_worker v)) (\<lambda>worker.
       Inr \<lparr>tf_name = pr_jobName v, tf_tasks = [ps, worker],
         tf_volumeMounts = map json_mount (pr_volumeMounts v), tf_envs = pr_envs v,
         tf_selectors = selectors_of (pr_nodeSelector v), tf_alertEnabled = pr_alertEnabled v,
         tf_template = Some (exportToJsonString metadata (json_pair v)), tf_forwards = pr_forwards v\<rparr>))"

definition create_tensorflow :: "string \<Rightarrow> pair_form \<Rightarrow> form_error + http_request" where
  "create_tensorflow u v = bindE (pair_payload MetadataFormTensorflow v) (\<lambda>p. Inr (apiTensorflowCreate u p))"

definition create_pytorch :: "string \<Rightarrow> pair_form \<Rightarrow> form_error + http_request" where
  "create_pytorch u v = bindE (pair_payload MetadataFormPytorch v) (\<lambda>p. Inr (apiPytorchCreate u p))"

section \<open>Filling a form from a stored configuration\<close>

definition reload :: "MetadataFormType \<Rightarrow> (json option \<Rightarrow> form_error + json option) \<Rightarrow> string \<Rightarrow> form_error + json option" where
  "reload metadata dataProcessor template = bindE (importFromJsonString metadata template) dataProcessor"

lemma wf_jint [simp]: "wf_json (jint i)"
  by (simp add: jint_def decimal20_def)

lemma wf_strs [simp]: "wf_json (jstrs xs)"
  by (simp add: jstrs_def)

lemma wf_resource [simp]: "wf_json (json_resource r)"
  by (auto simp: form_json_defs opt_field_def split: option.split)

lemma wf_image [simp]: "wf_json (json_IImageBaseInfo i)"
  by (simp add: wire_defs)

lemma wf_port [simp]: "wf_json (json_TaskPort p)"
  by (simp add: wire_defs)

lemma wf_env [simp]: "wf_json (json_Env e)"
  by (simp add: wire_defs)

lemma wf_forward [simp]: "wf_json (json_Forward f)"
  by (simp add: wire_defs)

lemma wf_mount [simp]: "wf_json (json_mount m)"
  by (auto simp: json_mount_def opt_field_def split: option.split)

lemma wf_selector [simp]: "wf_json (json_selector m)"
  by (auto simp: json_selector_def opt_field_def split: option.split)

lemma wf_task [simp]: "wf_json (json_task t)"
  by (auto simp: json_task_def opt_field_def split: option.split)

lemma wf_job [simp]: "wf_json (json_job v)"
  by (auto simp: json_job_def)

lemma wf_pair [simp]: "wf_json (json_pair v)"
  by (auto simp: json_pair_def)

text \<open>Repairing a task that is complete.\<close>

lemma fix_image_task [simp]: "fix_image (Some (json_task t)) = Inr (Some (json_task t))"
  by (simp add: fix_image_def json_task_def ensureImageCompatibility_def wire_defs)

definition complete :: "resource_form \<Rightarrow> bool" where
  "complete r \<longleftrightarrow> rf_network r \<noteq> None \<and> rf_vgpu r \<noteq> None"

definition without_network :: "resource_form \<Rightarrow> resource_form" where
  "without_network r = r\<lparr>rf_network := Some \<lparr>nf_enabled = False, nf_model = None\<rparr>\<rparr>"

lemma schema_complete: "resourceSchema r \<Longrightarrow> complete r"
  by (auto simp: resourceSchema_def complete_def split: option.splits)

lemma default_network_complete [simp]:
  "complete r \<Longrightarrow> default_network (Some (json_resource r)) = Inr (Some (json_resource r))"
  by (auto simp: complete_def default_network_def json_resource_def json_network_def opt_field_def)

lemma default_vgpu_complete [simp]:
  "complete r \<Longrightarrow> default_vgpu (Some (json_resource r)) = Inr (Some (json_resource r))"
  by (auto simp: complete_def default_vgpu_def json_resource_def json_vgpu_def opt_field_def)

lemma drop_network_complete [simp]:
  "complete r \<Longrightarrow> drop_network (Some (json_resource r)) = Inr (Some (json_resource (without_network r)))"
  by (auto simp: complete_def drop_network_def json_resource_def json_network_def opt_field_def at_prop_def
      without_network_def split: option.splits)

lemma complete_without [simp]: "complete r \<Longrightarrow> complete (without_network r)"
  by (simp add: complete_def without_network_def)

lemma at_resource [simp]:
  "f (Some (json_resource (tf'_resource t))) = Inr (Some (json_resource r)) \<Longrightarrow>
   at_prop ''resource'' f (Some (json_task t)) = Inr (Some (json_task (t\<lparr>tf'_resource := r\<rparr>)))"
  by (simp add: at_prop_def json_task_def)

lemma at_task [simp]:
  "f (Some (json_task (jf_task v))) = Inr (Some (json_task t)) \<Longrightarrow>
   at_prop ''task'' f (Some (json_job v)) = Inr (Some (json_job (v\<lparr>jf_task := t\<rparr>)))"
  by (simp add: at_prop_def json_job_def)

lemma at_ps [simp]:
  "f (Some (json_task (pr_ps v))) = Inr (Some (json_task t)) \<Longrightarrow>
   at_prop ''ps'' f (Some (json_pair v)) = Inr (Some (json_pair (v\<lparr>pr_ps := t\<rparr>)))"
  by (simp add: at_prop_def json_pair_def)

lemma at_worker [simp]:
  "f (Some (json_task (pr_worker v))) = Inr (Some (json_task t)) \<Longrightarrow>
   at_prop ''worker'' f (Some (json_pair v)) = Inr (Some (json_pair (v\<lparr>pr_worker := t\<rparr>)))"
  by (simp add: at_prop_def json_pair_def)

lemma fix_forwards_job [simp]: "fix_forwards (Some (json_job v)) = Inr (Some (json_job v))"
  by (simp add: fix_forwards_def json_job_def)

lemma fix_forwards_pair [simp]: "fix_forwards (Some (json_pair v)) = Inr (Some (json_pair v))"
  by (simp add: fix_forwards_def json_pair_def)

lemma reload_export [simp]:
  "wf_json v \<Longrightarrow> reload md f (exportToJsonString md v) = f (Some v)"
  by (simp add: reload_def importFromJsonString_def exportToJsonString_def json_parse_stringify job_submit_def)

text \<open>The configuration a request carries, and the form it was made of.\<close>

definition stripped :: "job_form \<Rightarrow> job_form" where
  "stripped v = v\<lparr>jf_task := (jf_task v)\<lparr>tf'_resource := without_network (tf'_resource (jf_task v))\<rparr>\<rparr>"

lemma schema_resources:
  "job_formSchema v \<Longrightarrow> resourceSchema (tf'_resource (jf_task v))"
  "pair_formSchema w \<Longrightarrow> resourceSchema (tf'_resource (pr_ps w)) \<and> resourceSchema (tf'_resource (pr_worker w))"
  by (simp_all add: job_formSchema_def pair_formSchema_def taskSchema_def)

lemma convert_total: "resourceSchema r \<Longrightarrow> \<exists>m. convertToResourceList r = Inr m"
  by (auto simp: convertToResourceList_def resourceSchema_def Let_def split: option.splits)

text \<open>C7. A single job submitted from a valid form carries a configuration that fills the form again: all
  of it comes back, except that the network request is switched off.\<close>

theorem single_job_reload:
  assumes "job_formSchema v"
  shows "\<exists>p. single_payload v = Inr p \<and>
    reload MetadataFormCustom dataProcessor_single (jc_template p) = Inr (Some (json_job (stripped v)))"
proof -
  obtain m where "convertToResourceList (tf'_resource (jf_task v)) = Inr m"
    using convert_total schema_resources(1) [OF assms] by blast
  moreover have "complete (tf'_resource (jf_task v))" using schema_complete schema_resources(1) [OF assms] .
  ultimately show ?thesis
    by (simp add: single_payload_def jupyter_payload_def dataProcessor_single_def stripped_def
        IJupyterCreate.defs)
qed

text \<open>C8. An interactive job, and a distributed job of either framework, submitted from a valid form carry
  a configuration that fills the form with exactly the submitted values.\<close>

theorem job_reload:
  assumes "job_formSchema v" "pair_formSchema w"
  shows "(\<exists>p. jupyter_payload MetadataFormJupyter v = Inr p \<and>
      reload MetadataFormJupyter dataProcessor_jupyter (jc_template p) = Inr (Some (json_job v))) \<and>
    (\<forall>md. \<exists>p. pair_payload md w = Inr p \<and>
      reload md dataProcessor_pair (the (tf_template p)) = Inr (Some (json_pair w)))"
proof -
  obtain m m1 m2 where "convertToResourceList (tf'_resource (jf_task v)) = Inr m"
    "convertToResourceList (tf'_resource (pr_ps w)) = Inr m1" "convertToResourceList (tf'_resource (pr_worker w)) = Inr m2"
    using convert_total schema_resources(1) [OF assms(1)] schema_resources(2) [OF assms(2)] by blast
  moreover have "complete (tf'_resource (jf_task v))" "complete (tf'_resource (pr_ps w))" "complete (tf'_resource (pr_worker w))"
    using schema_complete schema_resources(1) [OF assms(1)] schema_resources(2) [OF assms(2)] by blast+
  ultimately show ?thesis
    by (simp add: jupyter_payload_def pair_payload_def task_create_def dataProcessor_jupyter_def dataProcessor_pair_def)
qed

definition demo_task :: task_form where
  "demo_task = \<lparr>tf'_taskName = ''training'', tf'_replicas = 1, tf'_resource = defaultResource,
     tf'_image = \<lparr>ib_imageLink = ''a/b:c'', ib_archs = []\<rparr>, tf'_shell = None, tf'_command = Some ''ls'',
     tf'_workingDir = Some ''/home/li'', tf'_ports = []\<rparr>"

definition demo_job :: job_form where
  "demo_job = \<lparr>jf_jobName = ''demo'', jf_task = demo_task, jf_envs = [], jf_volumeMounts = [],
     jf_nodeSelector = \<lparr>sf_enable = False, sf_nodeName = None\<rparr>, jf_alertEnabled = True, jf_forwards = []\<rparr>"

definition demo_pair :: pair_form where
  "demo_pair = \<lparr>pr_jobName = ''demo'', pr_ps = demo_task, pr_worker = demo_task, pr_envs = [], pr_volumeMounts = [],
     pr_alertEnabled = True, pr_nodeSelector = \<lparr>sf_enable = False, sf_nodeName = None\<rparr>, pr_forwards = []\<rparr>"

lemma demo_task_ok: "taskSchema demo_task"
  by (simp add: taskSchema_def demo_task_def resourceSchema_def defaultResource_def gpu_ok_def network_ok_def vgpu_ok_def)

lemma demo_ok: "job_formSchema demo_job" "pair_formSchema demo_pair"
  using demo_task_ok
  by (simp_all add: job_formSchema_def pair_formSchema_def demo_job_def demo_pair_def jobNameSchema_def envsSchema_def
      volumeMountsSchema_def nodeSelectorSchema_def forwardsSchema_def)

theorem single_job_reload_witness:
  "\<exists>p. single_payload demo_job = Inr p \<and>
    reload MetadataFormCustom dataProcessor_single (jc_template p) = Inr (Some (json_job (stripped demo_job)))"
  by (rule single_job_reload) (rule demo_ok)

theorem job_reload_witness:
  "\<exists>p. jupyter_payload MetadataFormJupyter demo_job = Inr p \<and>
    reload MetadataFormJupyter dataProcessor_jupyter (jc_template p) = Inr (Some (json_job demo_job))"
  using job_reload [OF demo_ok] by blast

end
