(* ===== verification/ApprovalLock.thy ===== *)
theory ApprovalLock
  imports ApiJobs ApiErrors
begin

text \<open>
  Approving an order with a lock: the hook \<open>hooks/use-approval-order-lock.ts\<close>, the dialog that
  locks the job (\<open>routes/admin/jobs/-components/duration-dialog.tsx\<close>), its duration input
  (\<open>components/form/duration-fields.tsx\<close>) and the request that creates such an order
  (\<open>components/job/extension-request-dialog.tsx\<close>).
\<close>

section \<open>Finding the job of an order\<close>

text \<open>\<open>JobPhase[phase]\<close> looks a phase up by the name of the enum's member, which is its value too,
  except that \<open>Init\<close> has the empty value. A status that is no member is compared without case.\<close>

definition JobPhase_keys :: "(string \<times> JobPhase) list" where
  "JobPhase_keys = [(''Pending'', JobPhase_Pending), (''Aborting'', JobPhase_Aborting), (''Aborted'', JobPhase_Aborted),
     (''Running'', JobPhase_Running), (''Restarting'', JobPhase_Restarting), (''Completing'', JobPhase_Completing),
     (''Completed'', JobPhase_Completed), (''Terminating'', JobPhase_Terminating),
     (''Terminated'', JobPhase_Terminated), (''Failed'', JobPhase_Failed), (''Deleted'', JobPhase_Deleted),
     (''Freed'', JobPhase_Freed), (''Cancelled'', JobPhase_Cancelled), (''Init'', JobPhase_Init)]"

definition isRunningPhase :: "string \<Rightarrow> bool" where
  "isRunningPhase phase =
     (case map_of JobPhase_keys phase of
        Some p \<Rightarrow> p = JobPhase_Running
      | None \<Rightarrow> map to_lower phase = ''running'')"

text \<open>\<open>None\<close> is the label for an unknown phase.\<close>

definition phaseLabel :: "string \<Rightarrow> JobPhase option" where
  "phaseLabel phase = map_of JobPhase_keys phase"

definition status_of :: "IJobInfo \<Rightarrow> string" where
  "status_of j = JobPhase_val (ji_status j)"

definition findTarget :: "ApprovalOrder \<Rightarrow> IJobInfo list \<Rightarrow> IJobInfo option" where
  "findTarget order jobs = find (\<lambda>j. ji_jobName j = ao_name order \<or> ji_name j = ao_name order) jobs"

datatype lock_toast =
    Not_running "JobPhase option"
  | Gateway_error_widen
  | Job_not_found
  | Gateway_error
  | Fetch_failed
  | Approve_success
  | Approve_error

text \<open>What a fetch of the job list answers: jobs, or an error with the status of its response.\<close>

type_synonym fetched = "int option + IJobInfo list"

text \<open>What the hook catches of a failed \<open>apiAdminGetJobList\<close>, and reads its status off.\<close>

definition job_list_answers :: "(int \<Rightarrow> failure + IJobInfo list) \<Rightarrow> int \<Rightarrow> fetched" where
  "job_list_answers server d =
     (case snd (apiRequest (server d) None) of Inl f \<Rightarrow> Inl (error_status f) | Inr jobs \<Rightarrow> Inr jobs)"

definition JOB_DAYS_WINDOW :: int where "JOB_DAYS_WINDOW = 7"

definition tryDays :: "int list" where "tryDays = [JOB_DAYS_WINDOW, 14, 30]"

text \<open>
  The loop over the windows: the windows whose list is stored in the query cache, the job that was
  found, whether a 502 was seen, or the error that left the loop.
\<close>

datatype search =
    Found "(int \<times> IJobInfo list) list" IJobInfo
  | Missing "(int \<times> IJobInfo list) list" bool
  | Thrown "(int \<times> IJobInfo list) list" "int option"

fun search_days :: "ApprovalOrder \<Rightarrow> (int \<Rightarrow> fetched) \<Rightarrow> int list \<Rightarrow> (int \<times> IJobInfo list) list \<Rightarrow> bool \<Rightarrow> search" where
  "search_days order fetch [] cache had502 = Missing cache had502"
| "search_days order fetch (d # ds) cache had502 =
     (case fetch d of
        Inr jobs \<Rightarrow>
          (case findTarget order jobs of
             Some j \<Rightarrow> Found (cache @ [(d, jobs)]) j
           | None \<Rightarrow> search_days order fetch ds (cache @ [(d, jobs)]) had502)
      | Inl status \<Rightarrow>
          if status = Some 502 then search_days order fetch ds cache True else Thrown cache status)"

definition require_running :: "IJobInfo \<Rightarrow> IJobInfo option \<times> lock_toast list" where
  "require_running j =
     (if isRunningPhase (status_of j) then (Some j, []) else (None, [Not_running (phaseLabel (status_of j))]))"

text \<open>The job or nothing, the toasts, and the query cache entries written.\<close>

definition findAndValidateJob ::
  "IJobInfo list option \<Rightarrow> (int \<Rightarrow> fetched) \<Rightarrow> ApprovalOrder \<Rightarrow> IJobInfo option \<times> lock_toast list \<times> (int \<times> IJobInfo list) list" where
  "findAndValidateJob jobList fetch order =
     (case Option.bind jobList (findTarget order) of
        Some cached \<Rightarrow> (let (j, ts) = require_running cached in (j, ts, []))
      | None \<Rightarrow>
          (case search_days order fetch tryDays [] False of
             Found cache j \<Rightarrow> (let (j', ts) = require_running j in (j', ts, cache))
           | Missing cache had502 \<Rightarrow> (None, [if had502 then Gateway_error_widen else Job_not_found], cache)
           | Thrown cache status \<Rightarrow> (None, [if status = Some 502 then Gateway_error else Fetch_failed], cache)))"

section \<open>The hook's state\<close>

record lock_state =
  selectedOrder :: "ApprovalOrder option"
  selectedJob :: "IJobInfo option"
  isDelayDialogOpen :: bool
  lk_toasts :: "lock_toast list"
  lk_approving :: "ApprovalOrder list"

definition clearSelection :: "lock_state \<Rightarrow> lock_state" where
  "clearSelection s = s\<lparr>selectedOrder := None, selectedJob := None, isDelayDialogOpen := False\<rparr>"

text \<open>\<open>handleApproveWithDelay\<close>, with the job list it sees and what the fetches answer.\<close>

definition handleApproveWithDelay :: "IJobInfo list option \<Rightarrow> (int \<Rightarrow> fetched) \<Rightarrow> ApprovalOrder \<Rightarrow> lock_state \<Rightarrow> lock_state" where
  "handleApproveWithDelay jobList fetch order s =
     (let (job, ts, _) = findAndValidateJob jobList fetch order;
          s' = s\<lparr>lk_toasts := lk_toasts s @ ts\<rparr> in
      case job of
        None \<Rightarrow> s'
      | Some j \<Rightarrow> s'\<lparr>selectedOrder := Some order, selectedJob := Some j, isDelayDialogOpen := True\<rparr>)"

text \<open>
  The request that approves an order. The hours of an order are whole numbers, so
  \<open>Number(x) || 0\<close> is the value itself.
\<close>

definition approve_request :: "int option \<Rightarrow> ApprovalOrder \<Rightarrow> http_request" where
  "approve_request user order = updateApprovalOrder (ao_id order)
     \<lparr>aq_name = ao_name order, aq_type = ao_type order, aq_status = ''Approved'',
      aq_approvalorderTypeID = ct_approvalorderTypeID (ao_content order),
      aq_approvalorderReason = ct_approvalorderReason (ao_content order),
      aq_approvalorderExtensionHours = ct_approvalorderExtensionHours (ao_content order),
      aq_reviewerID = Some (case user of None \<Rightarrow> 0 | Some i \<Rightarrow> i), aq_reviewNotes = None\<rparr>"

definition handleDelaySuccess :: "lock_state \<Rightarrow> lock_state" where
  "handleDelaySuccess s =
     (case selectedOrder s of None \<Rightarrow> s | Some order \<Rightarrow> s\<lparr>lk_approving := lk_approving s @ [order]\<rparr>)"

definition approve_done :: "bool \<Rightarrow> lock_state \<Rightarrow> lock_state" where
  "approve_done ok s =
     (if ok then clearSelection (s\<lparr>lk_toasts := lk_toasts s @ [Approve_success]\<rparr>)
      else s\<lparr>lk_toasts := lk_toasts s @ [Approve_error]\<rparr>)"

datatype lock_event =
    Approve_with_delay "IJobInfo list option" "int \<Rightarrow> fetched" ApprovalOrder
  | Delay_success
  | Approve_answer bool
  | Close_dialog
  | Clear_selection

fun lock_next :: "lock_event \<Rightarrow> lock_state \<Rightarrow> lock_state" where
  "lock_next (Approve_with_delay jobs fetch order) s = handleApproveWithDelay jobs fetch order s"
| "lock_next Delay_success s = handleDelaySuccess s"
| "lock_next (Approve_answer ok) s = approve_done ok s"
| "lock_next Close_dialog s = s\<lparr>isDelayDialogOpen := False\<rparr>"
| "lock_next Clear_selection s = clearSelection s"

definition lock_step :: "lock_state \<Rightarrow> lock_event \<Rightarrow> lock_state \<Rightarrow> bool" where
  "lock_step s e s' \<longleftrightarrow> s' = lock_next e s"

definition lock_start :: "lock_state \<Rightarrow> bool" where
  "lock_start s \<longleftrightarrow> selectedOrder s = None \<and> selectedJob s = None \<and> \<not> isDelayDialogOpen s \<and> lk_approving s = []"

definition order_job :: "ApprovalOrder \<Rightarrow> IJobInfo \<Rightarrow> bool" where
  "order_job order j \<longleftrightarrow> (ji_jobName j = ao_name order \<or> ji_name j = ao_name order) \<and> ji_status j = JobPhase_Running"

definition lock_inv :: "lock_state \<Rightarrow> bool" where
  "lock_inv s \<longleftrightarrow>
     (case (selectedOrder s, selectedJob s) of
        (None, None) \<Rightarrow> \<not> isDelayDialogOpen s
      | (Some order, Some j) \<Rightarrow> order_job order j
      | _ \<Rightarrow> False)"

lemma running_status: "isRunningPhase (JobPhase_val p) \<longleftrightarrow> p = JobPhase_Running"
  by (cases p) (simp_all add: isRunningPhase_def JobPhase_keys_def to_lower_def)

lemma findTarget_Some:
  "findTarget order jobs = Some j \<Longrightarrow> j \<in> set jobs \<and> (ji_jobName j = ao_name order \<or> ji_name j = ao_name order)"
  by (auto simp: findTarget_def find_Some_iff)

lemma search_Found:
  "search_days order fetch ds cache h = Found cache' j \<Longrightarrow>
   \<exists>d \<in> set ds. \<exists>jobs. fetch d = Inr jobs \<and> findTarget order jobs = Some j"
  by (induction order fetch ds cache h rule: search_days.induct) (auto split: sum.splits option.splits if_splits)

lemma validated:
  assumes "findAndValidateJob jobList fetch order = (Some j, ts, cache)"
  shows "order_job order j \<and> ts = []"
proof -
  have ok: "order_job order k \<and> us = []" if "findTarget order jobs = Some k'" "require_running k' = (Some k, us)" for k k' us jobs
    using findTarget_Some [OF that(1)] that(2)
    by (auto simp: require_running_def order_job_def status_of_def running_status split: if_splits)
  show ?thesis
  proof (cases "Option.bind jobList (findTarget order)")
    case (Some c)
    then obtain jobs where "findTarget order jobs = Some c" by (auto simp: bind_eq_Some_conv)
    with Some assms ok show ?thesis by (auto simp: findAndValidateJob_def split: prod.splits)
  next
    case None
    with assms obtain cache' k where k: "search_days order fetch tryDays [] False = Found cache' k"
      "require_running k = (Some j, ts)"
      by (auto simp: findAndValidateJob_def split: search.splits prod.splits)
    from search_Found [OF k(1)] obtain jobs where "findTarget order jobs = Some k" by blast
    with k(2) ok show ?thesis by blast
  qed
qed

interpretation lock: machine lock_step lock_start lock_inv
proof
  show "lock_start s \<Longrightarrow> lock_inv s" for s by (simp add: lock_start_def lock_inv_def)
  show "lock_inv s \<Longrightarrow> lock_step s e s' \<Longrightarrow> lock_inv s'" for s e s'
  proof (cases e)
    case (Approve_with_delay jobs fetch order)
    assume "lock_inv s" "lock_step s e s'"
    then show ?thesis
      using Approve_with_delay validated [of jobs fetch order]
      by (cases "findAndValidateJob jobs fetch order")
        (auto simp: lock_step_def handleApproveWithDelay_def lock_inv_def Let_def split: option.splits)
  qed (auto simp: lock_step_def lock_inv_def clearSelection_def handleDelaySuccess_def approve_done_def
      split: option.splits)
qed

section \<open>The dialog that locks jobs\<close>

record duration_values =
  dv_isPermanent :: bool
  dv_days :: rat
  dv_hours :: rat

definition durationSchema :: "duration_values \<Rightarrow> bool" where
  "durationSchema v \<longleftrightarrow> 0 \<le> dv_days v \<and> 0 \<le> dv_hours v \<and> dv_hours v \<le> 23"

datatype dialog_view = Mixed_card | Unlock_button | Lock_form

definition duration_view :: "bool option \<Rightarrow> IJobInfo list \<Rightarrow> dialog_view" where
  "duration_view setExtend jobs =
     (let allLocked = jobs \<noteq> [] \<and> list_all ji_locked jobs;
          allUnlocked = jobs \<noteq> [] \<and> list_all (\<lambda>j. \<not> ji_locked j) jobs;
          mixedState = \<not> allLocked \<and> \<not> allUnlocked;
          isExtendDialogOpen = setExtend = Some True \<and> allLocked in
      if mixedState then Mixed_card
      else if allLocked \<and> \<not> isExtendDialogOpen then Unlock_button else Lock_form)"

definition default_values :: "int option \<Rightarrow> int option \<Rightarrow> duration_values" where
  "default_values days hours = \<lparr>dv_isPermanent = False,
     dv_days = (case days of None \<Rightarrow> 0 | Some d \<Rightarrow> of_int d),
     dv_hours = (case hours of None \<Rightarrow> 0 | Some h \<Rightarrow> of_int h)\<rparr>"

definition lock_request :: "duration_values \<Rightarrow> IJobInfo \<Rightarrow> http_request" where
  "lock_request v job = apiJobLock (JObj [(''name'', JStr (ji_jobName job)),
     (''isPermanent'', JBool (dv_isPermanent v)), (''days'', JNum (dv_days v)), (''hours'', JNum (dv_hours v)),
     (''minutes'', JNum 0)])"

text \<open>No requests when neither a duration nor the permanent lock is chosen: the dialog says so.\<close>

definition duration_onSubmit :: "IJobInfo list \<Rightarrow> duration_values \<Rightarrow> http_request list option" where
  "duration_onSubmit jobs v =
     (if \<not> dv_isPermanent v \<and> \<not> (0 < dv_days v \<or> 0 < dv_hours v) then None
      else Some (map (lock_request v) jobs))"

definition unlock_requests :: "IJobInfo list \<Rightarrow> http_request list" where
  "unlock_requests jobs = map (\<lambda>j. apiJobUnlock (ji_jobName j)) jobs"

text \<open>The locked hours the hook reads off the selected order, and the dialog's defaults for them.\<close>

definition selectedExtHours :: "ApprovalOrder option \<Rightarrow> int" where
  "selectedExtHours order =
     (case order of None \<Rightarrow> 0
      | Some order \<Rightarrow> (let n = ct_approvalorderExtensionHours (ao_content order) in if 0 \<le> n then n else 0))"

definition approval_defaults :: "int \<Rightarrow> duration_values" where
  "approval_defaults h = default_values (Some (h div 24)) (Some (h mod 24))"

section \<open>The duration input\<close>

text \<open>Days are cut to 0..4 and hours to 0..23, both to whole numbers; anything not positive is 0.\<close>

definition whole_or_zero :: "number \<Rightarrow> int" where
  "whole_or_zero x = (case x of Fin r \<Rightarrow> if 0 < r then \<lfloor>r\<rfloor> else 0 | _ \<Rightarrow> 0)"

definition normalized :: "number \<Rightarrow> number \<Rightarrow> int \<times> int \<times> int" where
  "normalized days hours =
     (let d = whole_or_zero days; h = whole_or_zero hours;
          d = (if d < 0 then 0 else d); d = (if 4 < d then 4 else d);
          h = (if 23 < h then 23 else h); h = (if h < 0 then 0 else h) in
      (d, h, d * 24 + h))"

text \<open>The mouse wheel moves a value by one and stops at the bounds.\<close>

definition wheel :: "int \<Rightarrow> bool \<Rightarrow> int \<Rightarrow> int" where
  "wheel upper up prev = (let v = prev + (if up then 1 else -1) in if 0 \<le> v \<and> v \<le> upper then v else prev)"

section \<open>Asking for a lock\<close>

datatype extension =
    Reason_missing
  | Duration_too_short
  | Withdrawn
  | Requested http_request

definition similar_order :: "string \<Rightarrow> string \<Rightarrow> ApprovalOrder \<Rightarrow> bool" where
  "similar_order jobName reason order \<longleftrightarrow>
     ao_name order = jobName \<and> ao_status order = Order_Pending \<and>
     (ct_approvalorderReason (ao_content order) = reason \<or>
      str_includes (ct_approvalorderReason (ao_content order)) reason)"

text \<open>The visitor's orders are \<open>None\<close> when they could not be fetched; the submission goes on then.\<close>

definition extension_submit :: "string \<Rightarrow> string \<Rightarrow> int \<Rightarrow> ApprovalOrder list option \<Rightarrow> bool \<Rightarrow> extension" where
  "extension_submit jobName reason hours orders confirm =
     (if js_trim reason = [] then Reason_missing
      else if hours < 1 then Duration_too_short
      else if (case orders of None \<Rightarrow> False | Some os \<Rightarrow> list_ex (similar_order jobName (js_trim reason)) os) \<and> \<not> confirm
      then Withdrawn
      else Requested (createApprovalOrder
        \<lparr>aq_name = jobName, aq_type = ''job'', aq_status = ''Pending'', aq_approvalorderTypeID = 1,
         aq_approvalorderReason = js_trim reason, aq_approvalorderExtensionHours = hours,
         aq_reviewerID = None, aq_reviewNotes = None\<rparr>))"

section \<open>Properties\<close>


lemma search_cache:
  "search_days order fetch ds cache h = r \<Longrightarrow>
   \<exists>new. (case r of Found c j \<Rightarrow> c | Missing c b \<Rightarrow> c | Thrown c e \<Rightarrow> c) = cache @ new \<and>
     subseq (map fst new) ds \<and> (\<forall>(d, jobs) \<in> set new. fetch d = Inr jobs)"
proof (induction order fetch ds cache h arbitrary: r rule: search_days.induct)
  case (1 order fetch cache h)
  then show ?case by auto
next
  case (2 order fetch d ds cache h)
  show ?case
  proof (cases "fetch d")
    case (Inl st)
    then show ?thesis
      using 2 by (cases "st = Some 502") (fastforce intro: list_emb_Cons)+
  next
    case (Inr jobs)
    show ?thesis
    proof (cases "findTarget order jobs")
      case None
      with 2(2) [OF Inr None, of r] 2(3) Inr obtain new where
        "(case r of Found c j \<Rightarrow> c | Missing c b \<Rightarrow> c | Thrown c e \<Rightarrow> c) = (cache @ [(d, jobs)]) @ new"
        "subseq (map fst new) ds" "\<forall>(d, jobs) \<in> set new. fetch d = Inr jobs" by auto
      with Inr show ?thesis by (intro exI [of _ "(d, jobs) # new"]) auto
    next
      case (Some j)
      with 2(3) Inr show ?thesis by (intro exI [of _ "[(d, jobs)]"]) auto
    qed
  qed
qed

text \<open>Looking for an order's job: a job is returned without a message, or exactly one message is
  shown and none is returned; only the windows of 7, 14 and 30 days are asked for, in that order, and
  the query cache gets exactly what the server answered for them.\<close>

theorem find_job_reports:
  "case findAndValidateJob jobList fetch order of (job, toasts, cache) \<Rightarrow>
     length toasts = (if job = None then 1 else 0) \<and>
     subseq (map fst cache) [7, 14, 30] \<and> list_all (\<lambda>(d, jobs). fetch d = Inr jobs) cache"
proof -
  have one: "length us = (if k = None then 1 else 0)" if "require_running j = (k, us)" for j k us
    using that by (auto simp: require_running_def split: if_splits)
  show ?thesis
  proof (cases "Option.bind jobList (findTarget order)")
    case (Some c)
    then show ?thesis
      using one [of c] by (cases "require_running c") (simp add: findAndValidateJob_def)
  next
    case None
    obtain r where r: "search_days order fetch tryDays [] False = r" by blast
    obtain new where new: "(case r of Found c j \<Rightarrow> c | Missing c b \<Rightarrow> c | Thrown c e \<Rightarrow> c) = new"
      "subseq (map fst new) [7, 14, 30]" "list_all (\<lambda>(d, jobs). fetch d = Inr jobs) new"
      using search_cache [OF r] by (auto simp: tryDays_def JOB_DAYS_WINDOW_def list_all_iff)
    show ?thesis
    proof (cases r)
      case (Found c j)
      then show ?thesis
        using None new r one [of j] by (cases "require_running j") (simp add: findAndValidateJob_def)
    qed (use None new r in \<open>simp_all add: findAndValidateJob_def\<close>)
  qed
qed

text \<open>An order whose job is not in the cached list, while the gateway answers 502. If the answer has
  the JSON body of the application's own errors, the wider windows are tried, and the gateway error is
  reported only when they have all failed; if it has any other body, as a gateway's own page has, the
  search stops at the first window with the message for other failures.\<close>

theorem gateway_error_search:
  assumes "\<And>d. server d = Inl (Http r)" "rs_status r = 502" "Option.bind jobList (findTarget order) = None"
  shows "findAndValidateJob jobList (job_list_answers server) order =
    (None, [case rs_payload r of Fields code msg \<Rightarrow> Gateway_error_widen | _ \<Rightarrow> Fetch_failed], [])"
proof -
  have "job_list_answers server d = Inl (case rs_payload r of Fields code msg \<Rightarrow> Some 502 | _ \<Rightarrow> None)" for d
    using assms(1,2) by (simp add: job_list_answers_def apiRequest_def error_status_def read_body_def split: payload.split)
  then show ?thesis
    using assms(3) by (simp add: findAndValidateJob_def tryDays_def split: payload.split)
qed

definition demo_order :: ApprovalOrder where
  "demo_order = \<lparr>ao_id = 3, ao_name = ''job-1'', ao_type = ''job'', ao_status = Order_Pending,
     ao_content = \<lparr>ct_approvalorderTypeID = 1, ct_approvalorderReason = ''paper'', ct_approvalorderExtensionHours = 30\<rparr>,
     ao_reviewNotes = [], ao_creator = \<lparr>ui_username = ''li'', ui_nickname = ''Li''\<rparr>,
     ao_reviewer = \<lparr>ui_username = [], ui_nickname = []\<rparr>, ao_createdAt = ''2025-01-01''\<rparr>"

definition demo_running :: IJobInfo where
  "demo_running = \<lparr>ji_name = ''demo'', ji_jobName = ''job-1'', ji_owner = ''li'',
     ji_userInfo = \<lparr>ui_username = ''li'', ui_nickname = ''Li''\<rparr>, ji_jobType = JobType_Jupyter, ji_queue = ''q'',
     ji_status = JobPhase_Running, ji_createdAt = [], ji_startedAt = [], ji_completedAt = [], ji_nodes = [],
     ji_resources = None, ji_locked = True, ji_permanentLocked = False, ji_lockedTimestamp = None\<rparr>"

definition demo_lock :: lock_state where
  "demo_lock = \<lparr>selectedOrder = None, selectedJob = None, isDelayDialogOpen = False, lk_toasts = [], lk_approving = []\<rparr>"


theorem gateway_error_search_witness:
  "findAndValidateJob None (job_list_answers (\<lambda>d. Inl (Http \<lparr>rs_status = 502, rs_payload = Not_json, rs_text = []\<rparr>)))
     demo_order = (None, [Fetch_failed], [])"
  using gateway_error_search [of "\<lambda>d. Inl (Http \<lparr>rs_status = 502, rs_payload = Not_json, rs_text = []\<rparr>)" _ None demo_order]
  by simp



end
