(* ===== verification/Templates.thy ===== *)
theory Templates
  imports JobForms ApiImages
begin

text \<open>
  \<open>hooks/use-template-loader.ts\<close>: filling a form from a job or a template named in the URL, or
  from an image's build configuration. The hook's effects are the fields of \<open>loader\<close>: the value
  the form was last reset to, the template kept for display, the UI states that were set, the calls of
  \<open>onSuccess\<close> and the toasts.
\<close>

datatype load_toast =
    Loaded_job string
  | Job_template_failed
  | Template_failed
  | Image_template_failed
  | Load_error form_error

record loader =
  ld_form :: "json option"
  ld_templateData :: "string option"
  ld_ui :: "(nat \<times> bool) list"
  ld_done :: nat
  ld_toasts :: "load_toast list"
  ld_imagePackName :: string

text \<open>A UI state updater: its condition, the state it sets (by its number) and the value.\<close>

record updater =
  up_condition :: "json option \<Rightarrow> bool"
  up_setter :: nat
  up_value :: bool

definition run_updaters :: "updater list \<Rightarrow> json option \<Rightarrow> (nat \<times> bool) list" where
  "run_updaters us v = map (\<lambda>u. (up_setter u, up_value u)) (filter (\<lambda>u. up_condition u v) us)"

definition show_load_error :: "form_error \<Rightarrow> loader \<Rightarrow> loader" where
  "show_load_error e st = st\<lparr>ld_toasts := ld_toasts st @ [Load_error e]\<rparr>"

definition fill_form :: "updater list \<Rightarrow> json option \<Rightarrow> loader \<Rightarrow> loader" where
  "fill_form us v st = st\<lparr>ld_form := v, ld_ui := ld_ui st @ run_updaters us v, ld_done := Suc (ld_done st)\<rparr>"

text \<open>\<open>loadJobTemplate\<close>: the answer is the stored configuration, or \<open>None\<close> for an error.\<close>

definition loadJobTemplate ::
  "MetadataFormType \<Rightarrow> (json option \<Rightarrow> form_error + json option) \<Rightarrow> updater list \<Rightarrow> string \<Rightarrow> string option \<Rightarrow> loader \<Rightarrow> loader" where
  "loadJobTemplate metadata dataProcessor us fromJob answer st =
     (case answer of
        None \<Rightarrow> st\<lparr>ld_toasts := ld_toasts st @ [Job_template_failed]\<rparr>
      | Some text \<Rightarrow>
          (case bindE (importFromJsonString metadata text) dataProcessor of
             Inl e \<Rightarrow> show_load_error e st
           | Inr v \<Rightarrow> (fill_form us v st)\<lparr>ld_toasts := ld_toasts st @ [Loaded_job fromJob]\<rparr>))"

text \<open>
  \<open>loadTemplate\<close>: every \<open>/home/${CRATER_USERNAME}\<close> becomes the visitor's home (of the user
  \<open>undefined\<close> when nobody is known). The template is kept for display once it is imported, before
  the data processor runs.
\<close>

definition home_placeholder :: string where
  "home_placeholder = ''/home/${CRATER_USERNAME}''"

definition own_home :: "string option \<Rightarrow> string" where
  "own_home user = ''/home/'' @ (case user of None \<Rightarrow> ''undefined'' | Some n \<Rightarrow> n)"

definition loadTemplate ::
  "MetadataFormType \<Rightarrow> (json option \<Rightarrow> form_error + json option) \<Rightarrow> updater list \<Rightarrow> string option \<Rightarrow> string option \<Rightarrow> loader \<Rightarrow> loader" where
  "loadTemplate metadata dataProcessor us user answer st =
     (case answer of
        None \<Rightarrow> st\<lparr>ld_toasts := ld_toasts st @ [Template_failed]\<rparr>
      | Some text \<Rightarrow>
          (case importFromJsonString metadata (replace_all home_placeholder (own_home user) text) of
             Inl e \<Rightarrow> show_load_error e st
           | Inr v \<Rightarrow>
               (let st = st\<lparr>ld_templateData := Some text\<rparr> in
                case dataProcessor v of Inl e \<Rightarrow> show_load_error e st | Inr v' \<Rightarrow> fill_form us v' st)))"

text \<open>\<open>loadImageTemplate\<close>, and the effect that asks for it and clears the name when it is cleaned up.\<close>

definition loadImageTemplate :: "MetadataFormType \<Rightarrow> updater list \<Rightarrow> string option \<Rightarrow> loader \<Rightarrow> loader" where
  "loadImageTemplate metadata us answer st =
     (case answer of
        None \<Rightarrow> st\<lparr>ld_toasts := ld_toasts st @ [Image_template_failed]\<rparr>
      | Some text \<Rightarrow>
          (case importFromJsonString metadata text of
             Inl e \<Rightarrow> show_load_error e st
           | Inr v \<Rightarrow> fill_form us v st))"

definition image_effect :: "loader \<Rightarrow> http_request option" where
  "image_effect st =
     (if ld_imagePackName st \<noteq> [] then Some (apiUserGetImageTemplate (ld_imagePackName st)) else None)"

definition image_cleanup :: "loader \<Rightarrow> loader" where
  "image_cleanup st = st\<lparr>ld_imagePackName := []\<rparr>"

text \<open>The effect on the search parameters: the job wins over the template.\<close>

definition load_effect :: "string \<Rightarrow> string option \<Rightarrow> int option \<Rightarrow> http_request option" where
  "load_effect u fromJob fromTemplate =
     (if fromJob \<noteq> None \<and> fromJob \<noteq> Some [] then Some (apiJobTemplate u (the fromJob))
      else if fromTemplate \<noteq> None \<and> fromTemplate \<noteq> Some 0 then Some (getJobTemplate (the fromTemplate))
      else None)"

text \<open>The metadata of the image forms (\<open>components/form/types.ts\<close>).\<close>

definition MetadataFormDockerfile :: MetadataFormType where
  "MetadataFormDockerfile = \<lparr>md_version = ''20250506'', md_type = ImagePackSource_val ImagePackSource_Dockerfile\<rparr>"
definition MetadataFormPipApt :: MetadataFormType where
  "MetadataFormPipApt = \<lparr>md_version = ''20250506'', md_type = ImagePackSource_val ImagePackSource_PipApt\<rparr>"
definition MetadataFormEnvdAdvanced :: MetadataFormType where
  "MetadataFormEnvdAdvanced = \<lparr>md_version = ''20250506'', md_type = ImagePackSource_val ImagePackSource_EnvdAdvanced\<rparr>"
definition MetadataFormEnvdRaw :: MetadataFormType where
  "MetadataFormEnvdRaw = \<lparr>md_version = ''20250506'', md_type = ImagePackSource_val ImagePackSource_EnvdRaw\<rparr>"

definition all_metadata :: "MetadataFormType list" where
  "all_metadata = [MetadataFormAccount, MetadataFormJupyter, MetadataFormCustom, MetadataFormCustomEmias,
     MetadataFormTensorflow, MetadataFormPytorch, MetadataFormDockerfile, MetadataFormPipApt,
     MetadataFormEnvdAdvanced, MetadataFormEnvdRaw, MetadataFormJupyterEmias]"

lemmas metadata_defs = all_metadata_def MetadataFormAccount_def MetadataFormJupyter_def MetadataFormCustom_def
  MetadataFormCustomEmias_def MetadataFormTensorflow_def MetadataFormPytorch_def MetadataFormDockerfile_def
  MetadataFormPipApt_def MetadataFormEnvdAdvanced_def MetadataFormEnvdRaw_def MetadataFormJupyterEmias_def



end
