(* ===== verification/Pagination.thy ===== *)
theory Pagination
  imports Collections
begin

text \<open>
  The page numbers under every table (\<open>components/query-table/pagination.tsx\<close>) and the page size
  kept in \<open>localStorage\<close> (\<open>hooks/use-pagination-with-storage.tsx\<close>).
\<close>

datatype page_item = Page int | Dots

text \<open>\<open>Array.from({length: n}, (_, i) => a + i)\<close>: empty when \<open>n\<close> is not positive.\<close>

definition pages_from :: "int \<Rightarrow> int \<Rightarrow> page_item list" where
  "pages_from a n = map (\<lambda>i. Page (a + int i)) [0..<nat n]"

definition usePagination :: "int \<Rightarrow> int \<Rightarrow> int \<Rightarrow> page_item list" where
  "usePagination currentPage totalPages siblingCount =
     (let totalPageNumbers = siblingCount + 5 in
      if totalPages \<le> totalPageNumbers then pages_from 1 totalPages
      else
        (let leftSiblingIndex = max (currentPage - siblingCount) 1;
             rightSiblingIndex = min (currentPage + siblingCount) totalPages;
             shouldShowLeftDots = 2 < leftSiblingIndex;
             shouldShowRightDots = rightSiblingIndex < totalPages - 2;
             itemCount = 3 + 2 * siblingCount in
         if \<not> shouldShowLeftDots \<and> shouldShowRightDots then pages_from 1 itemCount @ [Dots, Page totalPages]
         else if shouldShowLeftDots \<and> \<not> shouldShowRightDots
         then [Page 1, Dots] @ pages_from (totalPages - itemCount + 1) itemCount
         else if shouldShowLeftDots \<and> shouldShowRightDots
         then [Page 1, Dots] @ pages_from leftSiblingIndex (rightSiblingIndex - leftSiblingIndex + 1) @ [Dots, Page totalPages]
         else []))"

text \<open>The pager under a table asks for one sibling; its arrows stop at the first and the last page.\<close>

definition pager_range :: "int \<Rightarrow> int \<Rightarrow> page_item list" where
  "pager_range pageIndex pageCount = usePagination (pageIndex + 1) pageCount 1"

definition page_click :: "page_item \<Rightarrow> int option" where
  "page_click item = (case item of Page p \<Rightarrow> Some (p - 1) | Dots \<Rightarrow> None)"

definition previous_click :: "int \<Rightarrow> int \<Rightarrow> int" where
  "previous_click pageIndex pageCount = (if 1 < pageIndex + 1 then pageIndex + 1 - 1 - 1 else pageIndex)"

definition next_click :: "int \<Rightarrow> int \<Rightarrow> int" where
  "next_click pageIndex pageCount = (if pageIndex + 1 < pageCount then pageIndex + 1 + 1 - 1 else pageIndex)"

text \<open>The state of a table's pagination; the page size of each table is stored under the table's key.\<close>

record pagination_state =
  pn_pageIndex :: int
  pn_pageSize :: int

definition page_size_key :: "string \<Rightarrow> string" where
  "page_size_key tableKey = tableKey @ ''-page-size''"

definition read_pagination :: "(string \<times> int) list \<Rightarrow> string \<Rightarrow> int \<Rightarrow> pagination_state" where
  "read_pagination sizes tableKey pageIndex =
     \<lparr>pn_pageIndex = pageIndex,
      pn_pageSize = (case map_of sizes (page_size_key tableKey) of None \<Rightarrow> 10 | Some n \<Rightarrow> n)\<rparr>"

definition setPagination ::
  "(string \<times> int) list \<Rightarrow> string \<Rightarrow> int \<Rightarrow> (pagination_state \<Rightarrow> pagination_state) \<Rightarrow> int \<times> (string \<times> int) list" where
  "setPagination sizes tableKey pageIndex updater =
     (let newState = updater (read_pagination sizes tableKey pageIndex) in
      (pn_pageIndex newState, AList.update (page_size_key tableKey) (pn_pageSize newState) sizes))"

section \<open>The pages shown\<close>

text \<open>
  A list of items stands for the pages from its first to its last: neighbours are consecutive pages,
  and the dots replace at least one page.
\<close>

fun linked :: "page_item list \<Rightarrow> bool" where
  "linked [Page a] = True"
| "linked (Page a # Page b # xs) = (b = a + 1 \<and> linked (Page b # xs))"
| "linked (Page a # Dots # Page b # xs) = (a + 1 < b \<and> linked (Page b # xs))"
| "linked _ = False"

lemma pages_from_simps [simp]:
  "n \<le> 0 \<Longrightarrow> pages_from a n = []"
  "0 < n \<Longrightarrow> pages_from a n = Page a # pages_from (a + 1) (n - 1)"
proof -
  show "n \<le> 0 \<Longrightarrow> pages_from a n = []" by (simp add: pages_from_def)
  assume "0 < n"
  then have "nat n = Suc (nat (n - 1))" by simp
  then have "[0..<nat n] = 0 # map Suc [0..<nat (n - 1)]" by (simp only: upt_conv_Cons map_Suc_upt zero_less_Suc)
  then show "pages_from a n = Page a # pages_from (a + 1) (n - 1)"
    by (simp add: pages_from_def algebra_simps)
qed

lemma set_pages_from: "set (pages_from a n) = Page ` {a..<a + n}"
proof -
  have "x \<in> set (pages_from a n)" if "x = Page k" "a \<le> k" "k < a + n" for x k
  proof -
    have "k = a + int (nat (k - a))" "nat (k - a) < nat n" using that by auto
    with that(1) show ?thesis unfolding pages_from_def by (metis (no_types, lifting) atLeastLessThan_iff image_eqI
        le0 set_map set_upt)
  qed
  then show ?thesis by (auto simp: pages_from_def)
qed

lemma length_pages_from [simp]: "length (pages_from a n) = nat n"
  by (simp add: pages_from_def)

lemma linked_pages_from:
  "0 < n \<Longrightarrow> linked (pages_from a n) \<and> last (pages_from a n) = Page (a + n - 1)"
proof (induction "nat n" arbitrary: a n)
  case 0
  then show ?case by simp
next
  case (Suc k)
  show ?case
  proof (cases "n = 1")
    case True
    then show ?thesis by simp
  next
    case False
    with Suc.prems have "0 < n - 1" by simp
    moreover have "k = nat (n - 1)" using Suc.hyps(2) by simp
    ultimately have "linked (pages_from (a + 1) (n - 1)) \<and> last (pages_from (a + 1) (n - 1)) = Page (a + 1 + (n - 1) - 1)"
      by (intro Suc.hyps(1))
    with Suc.prems \<open>0 < n - 1\<close> show ?thesis by simp
  qed
qed

text \<open>The pager shows at most seven items; they read as all pages from the first to the last, with
  dots only where pages are left out; the current page and its neighbours are always among them; and
  a click on any of them, or on an arrow, stays within the table.\<close>

theorem pager_shows_all:
  assumes "0 \<le> pageIndex" "pageIndex < pageCount"
  shows "let items = pager_range pageIndex pageCount in
    linked items \<and> hd items = Page 1 \<and> last items = Page pageCount \<and> length items \<le> 7 \<and>
    {Page (pageIndex + 1), Page (max pageIndex 1), Page (min (pageIndex + 2) pageCount)} \<subseteq> set items \<and>
    list_all (\<lambda>item. case page_click item of None \<Rightarrow> True | Some i \<Rightarrow> 0 \<le> i \<and> i < pageCount) items \<and>
    0 \<le> previous_click pageIndex pageCount \<and> next_click pageIndex pageCount < pageCount"
proof -
  have clicks: "0 \<le> previous_click pageIndex pageCount" "next_click pageIndex pageCount < pageCount"
    using assms by (auto simp: previous_click_def next_click_def)
  consider (few) "pageCount \<le> 6" | (start) "6 < pageCount" "pageIndex \<le> 2"
    | (end') "6 < pageCount" "2 < pageIndex" "pageCount - 4 \<le> pageIndex"
    | (middle) "6 < pageCount" "2 < pageIndex" "pageIndex < pageCount - 4" by linarith
  then show ?thesis
  proof cases
    case few
    then have "pager_range pageIndex pageCount = pages_from 1 pageCount"
      by (simp add: pager_range_def usePagination_def)
    moreover have "hd (pages_from 1 pageCount) = Page 1" using assms by simp
    ultimately show ?thesis
      using few assms clicks linked_pages_from [of pageCount 1]
      by (auto simp: Let_def set_pages_from list_all_iff page_click_def simp del: pages_from_simps)
  next
    case start
    then have "pager_range pageIndex pageCount = pages_from 1 5 @ [Dots, Page pageCount]"
      using assms by (simp add: pager_range_def usePagination_def Let_def)
    moreover have "pageIndex \<in> {0, 1, 2}" using start assms by auto
    ultimately show ?thesis using start clicks by (auto simp: page_click_def Let_def)
  next
    case end'
    then have "pager_range pageIndex pageCount = [Page 1, Dots] @ pages_from (pageCount - 4) 5"
      using assms by (simp add: pager_range_def usePagination_def Let_def)
    moreover have "pageIndex \<in> {pageCount - 4, pageCount - 3, pageCount - 2, pageCount - 1}" using end' assms by auto
    ultimately show ?thesis using end' clicks by (auto simp: page_click_def Let_def)
  next
    case middle
    then have "pager_range pageIndex pageCount = [Page 1, Dots] @ pages_from pageIndex 3 @ [Dots, Page pageCount]"
      using assms by (simp add: pager_range_def usePagination_def Let_def)
    then show ?thesis using middle clicks by (auto simp: page_click_def Let_def)
  qed
qed

theorem pager_shows_all_witness:
  "linked (pager_range 4 20) \<and> {Page 5, Page 4, Page 6} \<subseteq> set (pager_range 4 20)"
  using pager_shows_all [of 4 20] by (simp add: Let_def)

end

