(* ===== verification/Images.thy ===== *)
theory Images
  imports ApiImages Collections
begin

text \<open>
  The logic about images: the tags offered in the image forms, the rules for image names and links
  (\<open>services/api/imagepack.ts\<close>), the images a job form offers (\<open>services/query/image.ts\<close>)
  and the upload form (\<open>components/image/images/upload-form.tsx\<close>).
\<close>

section \<open>Tags\<close>

definition ImageDefaultTags :: "string list" where
  "ImageDefaultTags = [''CUDA'', ''Pytorch'', ''Jupyter'', ''Python'', ''vLLM'']"

definition ImageDefaultArchs :: "string list" where
  "ImageDefaultArchs = [''linux/amd64'', ''linux/amd64/v2'', ''linux/amd64/v3'', ''linux/386'',
     ''linux/arm64'', ''linux/arm/v7'', ''linux/arm/v6'']"

definition lower :: "string \<Rightarrow> string" where
  "lower s = map to_lower s"

text \<open>
  A lower-case tag that is not counted: that of a default tag, or one of the two lower-case names
  every object inherits, for which \<open>tagCount[lower]\<close> is already there.
\<close>

definition uncounted :: "string \<Rightarrow> bool" where
  "uncounted l \<longleftrightarrow> l \<in> set (map lower ImageDefaultTags) \<or> l = ''constructor'' \<or> l = ''__proto__''"

type_synonym tag_count = "(string \<times> int \<times> string) list"

definition count_tag :: "tag_count \<Rightarrow> string \<Rightarrow> tag_count" where
  "count_tag m tag =
     (if uncounted (lower tag) then m
      else (case map_of m (lower tag) of
              None \<Rightarrow> AList.update (lower tag) (1, tag) m
            | Some (n, raw) \<Rightarrow> AList.update (lower tag) (n + 1, raw) m))"

text \<open>\<open>Object.values\<close>: keys that are array indices come first, in numeric order.\<close>

definition index_key :: "string \<Rightarrow> bool" where
  "index_key k \<longleftrightarrow> k \<noteq> [] \<and> list_all is_digit k \<and> (k = ''0'' \<or> hd k \<noteq> CHR ''0'') \<and> digits_val k < 4294967295"

definition object_values :: "(string \<times> 'v) list \<Rightarrow> 'v list" where
  "object_values m =
     map snd (sort_by (by_key (\<lambda>e. int (digits_val (fst e)))) (filter (\<lambda>e. index_key (fst e)) m)
       @ filter (\<lambda>e. \<not> index_key (fst e)) m)"

text \<open>\<open>FetchAllUniqueImageTagObjects\<close>: an image without an array of tags has \<open>None\<close>.\<close>

definition all_tags :: "string list option list \<Rightarrow> string list" where
  "all_tags images = concat (map (\<lambda>t. case t of None \<Rightarrow> [] | Some ts \<Rightarrow> ts) images)"

definition FetchAllUniqueImageTagObjects :: "string list option list \<Rightarrow> string list" where
  "FetchAllUniqueImageTagObjects images =
     (let tagCount = foldl count_tag [] (all_tags images);
          topTags = map snd (take 5 (sort_by (by_key (\<lambda>e. - fst e)) (object_values tagCount))) in
      foldl set_add ImageDefaultTags topTags)"

text \<open>How often a tag is used, whatever its case.\<close>

definition uses :: "string list \<Rightarrow> string \<Rightarrow> int" where
  "uses tags l = int (length (filter (\<lambda>t. lower t = l) tags))"

lemma distinct_count_tag: "distinct (map fst m) \<Longrightarrow> distinct (map fst (count_tag m tag))"
  by (auto simp: count_tag_def split: option.split intro: distinct_update)

definition counted :: "string list \<Rightarrow> string \<Rightarrow> (int \<times> string) option" where
  "counted tags l = (if uncounted l then None else map_option (\<lambda>t. (uses tags l, t)) (find (\<lambda>t. lower t = l) tags))"

lemma counted_snoc:
  "counted (tags @ [tag]) l =
     (if l = lower tag \<and> \<not> uncounted l
      then Some (case counted tags l of None \<Rightarrow> (1, tag) | Some (n, raw) \<Rightarrow> (n + 1, raw)) else counted tags l)"
proof -
  have "find P (xs @ [x]) = (case find P xs of None \<Rightarrow> if P x then Some x else None | Some y \<Rightarrow> Some y)"
    for P :: "string \<Rightarrow> bool" and xs x by (induction xs) auto
  moreover have "find (\<lambda>t. lower t = l) tags = None \<Longrightarrow> uses tags l = 0"
    by (auto simp: uses_def find_None_iff filter_empty_conv)
  ultimately show ?thesis by (auto simp: counted_def uses_def split: option.split)
qed

lemma count_tags: "map_of (foldl count_tag [] tags) = counted tags"
proof (induction tags rule: rev_induct)
  case Nil
  then show ?case by (simp add: counted_def fun_eq_iff)
next
  case (snoc tag tags)
  show ?case
  proof
    fix l
    show "map_of (foldl count_tag [] (tags @ [tag])) l = counted (tags @ [tag]) l"
      by (simp add: count_tag_def counted_snoc snoc obj.get_put split: option.split prod.split)
  qed
qed

lemma distinct_count_tags: "distinct (map fst (foldl count_tag [] tags))"
  by (induction tags rule: rev_induct) (simp_all add: distinct_count_tag)

lemma set_object_values [simp]: "set (object_values m) = snd ` set m"
  by (auto simp: object_values_def)

lemma mset_object_values: "mset (object_values m) = image_mset snd (mset m)"
proof -
  have "mset m = mset (filter (\<lambda>e. index_key (fst e)) m) + mset (filter (\<lambda>e. \<not> index_key (fst e)) m)"
    by (simp add: mset_filter flip: multiset_partition)
  then have "image_mset snd (mset m) = image_mset snd (mset (filter (\<lambda>e. index_key (fst e)) m)) +
      image_mset snd (mset (filter (\<lambda>e. \<not> index_key (fst e)) m))" by (metis image_mset_union)
  then show ?thesis by (simp add: object_values_def mset_map)
qed

lemma foldl_set_add_fresh: "distinct (acc @ xs) \<Longrightarrow> foldl set_add acc xs = acc @ xs"
  by (induction xs arbitrary: acc) (auto simp: set_add_def)

lemma counted_Some: "counted tags l = Some (n, t) \<Longrightarrow> \<not> uncounted l \<and> lower t = l \<and> t \<in> set tags \<and> n = uses tags l"
  by (auto simp: counted_def find_Some_iff split: if_splits)

lemma counted_None: "counted tags l = None \<Longrightarrow> uncounted l \<or> (\<forall>t \<in> set tags. lower t \<noteq> l)"
  by (auto simp: counted_def find_None_iff split: if_splits)

definition tag_entries :: "string list \<Rightarrow> (int \<times> string) list" where
  "tag_entries tags = sort_by (by_key (\<lambda>e. - fst e)) (object_values (foldl count_tag [] tags))"

lemma set_tag_entries: "(n, t) \<in> set (tag_entries tags) \<longleftrightarrow> counted tags (lower t) = Some (n, t)"
proof -
  have "(l, n, t) \<in> set (foldl count_tag [] tags) \<longleftrightarrow> counted tags l = Some (n, t)" for l
    using distinct_count_tags [of tags] count_tags [of tags] by (metis map_of_eq_Some_iff)
  moreover have "counted tags l = Some (n, t) \<Longrightarrow> l = lower t" for l using counted_Some by metis
  ultimately show ?thesis by (force simp: tag_entries_def)
qed

lemma distinct_tag_entries: "distinct (map (\<lambda>e. lower (snd e)) (tag_entries tags))"
proof -
  let ?m = "foldl count_tag [] tags"
  have eq: "lower (snd (snd e)) = fst e" if "e \<in> set ?m" for e
  proof -
    obtain l n t where e: "e = (l, n, t)" by (cases e)
    then have "counted tags l = Some (n, t)"
      using that distinct_count_tags [of tags] count_tags [of tags] by (metis map_of_eq_Some_iff)
    then show ?thesis using e counted_Some by (metis fst_conv snd_conv)
  qed
  have "mset (map (\<lambda>e. lower (snd e)) (tag_entries tags)) = image_mset (\<lambda>e. lower (snd (snd e))) (mset ?m)"
    by (simp add: tag_entries_def mset_object_values multiset.map_comp comp_def)
  also have "\<dots> = image_mset fst (mset ?m)" by (rule image_mset_cong) (simp add: eq)
  finally show ?thesis using distinct_count_tags [of tags] by (metis mset_eq_imp_distinct_iff mset_map)
qed

lemma tag_entries_sorted: "i < j \<Longrightarrow> j < length (tag_entries tags) \<Longrightarrow> fst (tag_entries tags ! j) \<le> fst (tag_entries tags ! i)"
  using by_key.sorted_sort_by [of "\<lambda>e. - fst e" "object_values (foldl count_tag [] tags)"]
  by (auto simp: tag_entries_def sorted_wrt_iff_nth_less by_key_def)

lemma default_tags: "map lower ImageDefaultTags = [''cuda'', ''pytorch'', ''jupyter'', ''python'', ''vllm'']"
  by code_simp

lemma offered_entry:
  assumes "t \<in> set (map snd (take k (tag_entries tags)))"
  shows "t \<in> set tags \<and> \<not> uncounted (lower t) \<and> (uses tags (lower t), t) \<in> set (tag_entries tags)"
proof -
  obtain e where e: "e \<in> set (take k (tag_entries tags))" "snd e = t" using assms by (metis imageE set_map)
  then have "(fst e, t) \<in> set (tag_entries tags)" by (metis in_set_takeD prod.collapse)
  then show ?thesis using counted_Some set_tag_entries by metis
qed

lemma distinct_offered: "distinct (map lower (ImageDefaultTags @ map snd (take k (tag_entries tags))))"
proof -
  have "map lower (map snd (take k (tag_entries tags))) = take k (map (\<lambda>e. lower (snd e)) (tag_entries tags))"
    by (simp add: take_map comp_def)
  then have "distinct (map lower (map snd (take k (tag_entries tags))))"
    using distinct_tag_entries [of tags] by simp
  moreover have "distinct (map lower ImageDefaultTags)" by (simp add: default_tags)
  moreover have "set (map lower ImageDefaultTags) \<inter> set (map lower (map snd (take k (tag_entries tags)))) = {}"
  proof (rule equals0I)
    fix l assume l: "l \<in> set (map lower ImageDefaultTags) \<inter> set (map lower (map snd (take k (tag_entries tags))))"
    then obtain t where "t \<in> set (map snd (take k (tag_entries tags)))" "l = lower t"
      by (metis IntD2 imageE set_map)
    with l show False using offered_entry uncounted_def by blast
  qed
  ultimately show ?thesis by (simp only: map_append distinct_append)
qed

lemma fetch_tags: "FetchAllUniqueImageTagObjects images = ImageDefaultTags @ map snd (take 5 (tag_entries (all_tags images)))"
proof -
  have "distinct (ImageDefaultTags @ map snd (take 5 (tag_entries (all_tags images))))"
    using distinct_offered distinct_map by blast
  from foldl_set_add_fresh [OF this] show ?thesis
    by (simp add: FetchAllUniqueImageTagObjects_def tag_entries_def [symmetric] Let_def)
qed

text \<open>The tags offered for an image are the five default tags followed by at most five tags of the
  images, no two of all of them equal up to case; and a tag of some image that is not offered is used
  no more often, up to case, than each offered tag that is not a default (the two names every object
  inherits are never offered).\<close>

theorem offered_tags:
  fixes images
  defines "tags \<equiv> all_tags images" and "r \<equiv> FetchAllUniqueImageTagObjects images"
  shows "take 5 r = ImageDefaultTags \<and> length r \<le> 10 \<and> distinct (map lower r) \<and> set (drop 5 r) \<subseteq> set tags \<and>
    (\<forall>t \<in> set tags. lower t \<in> lower ` set r \<or> lower t \<in> {''constructor'', ''__proto__''} \<or>
      length r = 10 \<and> (\<forall>x \<in> set (drop 5 r). uses tags (lower t) \<le> uses tags (lower x)))"
proof -
  define es where "es = tag_entries tags"
  have r: "r = ImageDefaultTags @ map snd (take 5 es)" by (simp add: r_def fetch_tags es_def tags_def)
  have five: "length ImageDefaultTags = 5" by (simp add: ImageDefaultTags_def)
  have "distinct (map lower r)" using distinct_offered unfolding r es_def .
  moreover have "lower t \<in> lower ` set r \<or> lower t \<in> {''constructor'', ''__proto__''} \<or>
      length r = 10 \<and> (\<forall>x \<in> set (drop 5 r). uses tags (lower t) \<le> uses tags (lower x))" if t: "t \<in> set tags" for t
  proof (cases "uncounted (lower t)")
    case True
    then show ?thesis by (auto simp: uncounted_def r)
  next
    case False
    then obtain n t' where "counted tags (lower t) = Some (n, t')" using counted_None t by (metis option.exhaust surj_pair)
    then have in_es: "(n, t') \<in> set es" and low: "lower t' = lower t" and n: "n = uses tags (lower t)"
      using counted_Some set_tag_entries by (metis es_def)+
    then obtain j where j: "j < length es" "es ! j = (n, t')" by (metis in_set_conv_nth)
    show ?thesis
    proof (cases "j < 5")
      case True
      then have "(n, t') \<in> set (take 5 es)" using j by (auto simp: in_set_conv_nth)
      then have "t' \<in> set r" by (force simp: r)
      then show ?thesis using low by (metis imageI)
    next
      case False
      have "uses tags (lower t) \<le> uses tags (lower x)" if "x \<in> set (drop 5 r)" for x
      proof -
        from that have "x \<in> set (map snd (take 5 es))" by (simp add: r five)
        then obtain i where i: "i < 5" "i < length es" "snd (es ! i) = x" by (auto simp: in_set_conv_nth)
        have "fst (es ! j) \<le> fst (es ! i)" using tag_entries_sorted [of i j tags] i j False by (simp add: es_def)
        moreover have "fst (es ! i) = uses tags (lower x)"
          using i set_tag_entries counted_Some by (metis es_def nth_mem prod.collapse)
        ultimately show ?thesis using j n by simp
      qed
      then show ?thesis using False j by (simp add: r five)
    qed
  qed
  moreover have "set (drop 5 r) \<subseteq> set tags" using offered_entry unfolding r es_def five [symmetric] by fastforce
  ultimately show ?thesis by (simp add: r five)
qed

theorem offered_tags_witness:
  "length (FetchAllUniqueImageTagObjects [Some [''cuda'', ''R'', ''r''], None]) \<le> 10"
  using offered_tags [of "[Some [''cuda'', ''R'', ''r''], None]"] by blast

section \<open>Names and links\<close>

definition ascii_between :: "nat \<Rightarrow> nat \<Rightarrow> char \<Rightarrow> bool" where
  "ascii_between lo hi c \<longleftrightarrow> lo \<le> of_char c \<and> of_char c \<le> hi"

definition lower_alnum :: "char \<Rightarrow> bool" where
  "lower_alnum c \<longleftrightarrow> ascii_between 97 122 c \<or> is_digit c"

definition alnum :: "char \<Rightarrow> bool" where
  "alnum c \<longleftrightarrow> ascii_between 65 90 c \<or> lower_alnum c"

text \<open>\<open>[a-zA-Z0-9_](?:[a-zA-Z0-9_.-]*[a-zA-Z0-9_])?\<close>.\<close>

definition link_tag :: "string \<Rightarrow> bool" where
  "link_tag s \<longleftrightarrow> s \<noteq> [] \<and> list_all (\<lambda>c. alnum c \<or> c \<in> set ''_.-'') s \<and>
     (alnum (hd s) \<or> hd s = CHR ''_'') \<and> (alnum (last s) \<or> last s = CHR ''_'')"

definition link_path :: "string list \<Rightarrow> bool" where
  "link_path segs \<longleftrightarrow> segs \<noteq> [] \<and> list_all (\<lambda>s. s \<noteq> [] \<and> list_all (\<lambda>c. alnum c \<or> c \<in> set ''_.-'') s) segs"

definition link_host :: "string \<Rightarrow> bool" where
  "link_host s \<longleftrightarrow> s \<noteq> [] \<and> list_all (\<lambda>c. alnum c \<or> c \<in> set ''.-'') s"

text \<open>
  \<open>/^[a-zA-Z0-9.-]+(\/[a-zA-Z0-9_.-]+)+:[a-zA-Z0-9_](?:[a-zA-Z0-9_.-]*[a-zA-Z0-9_])?$/\<close>: no part
  may contain a colon or a slash, so the match is the split at the colon and at the slashes.
\<close>

definition imageLinkRegex :: "string \<Rightarrow> bool" where
  "imageLinkRegex s =
     (case split_char (CHR '':'') s of
        [path, tag] \<Rightarrow>
          (case split_char (CHR ''/'') path of
             host # segs \<Rightarrow> link_host host \<and> link_path segs \<and> link_tag tag
           | [] \<Rightarrow> False)
      | _ \<Rightarrow> False)"

text \<open>The same with an optional numeric port after the host.\<close>

definition cudaImageValueRegex :: "string \<Rightarrow> bool" where
  "cudaImageValueRegex s =
     (case split_char (CHR '':'') s of
        [path, tag] \<Rightarrow> imageLinkRegex s
      | [host, rest, tag] \<Rightarrow>
          (case split_char (CHR ''/'') rest of
             port # segs \<Rightarrow> link_host host \<and> port \<noteq> [] \<and> list_all is_digit port \<and> link_path segs \<and> link_tag tag
           | [] \<Rightarrow> False)
      | _ \<Rightarrow> False)"

text \<open>\<open>/^[a-z0-9]+(?:[._-][a-z0-9]+)*$/\<close>: runs of letters and digits with single separators between.\<close>

fun name_runs :: "bool \<Rightarrow> string \<Rightarrow> bool" where
  "name_runs started [] = started"
| "name_runs started (c # cs) =
     (if lower_alnum c then name_runs True cs
      else if started \<and> c \<in> set ''._-'' then name_runs False cs else False)"

definition imageNameRegex :: "string \<Rightarrow> bool" where
  "imageNameRegex s = name_runs False s"

text \<open>\<open>/^(?=.{1,128}$)(?![-.])([a-zA-Z0-9_.+-]*)(?<![-.])$/\<close>.\<close>

definition imageTagRegex :: "string \<Rightarrow> bool" where
  "imageTagRegex s \<longleftrightarrow> 1 \<le> length s \<and> length s \<le> 128 \<and> list_all (\<lambda>c. alnum c \<or> c \<in> set ''_.+-'') s \<and>
     hd s \<notin> set ''-.'' \<and> last s \<notin> set ''-.''"

definition cudaImageLabelRegex :: "string \<Rightarrow> bool" where
  "cudaImageLabelRegex s = imageTagRegex s"

text \<open>The name and the tag of a link, both empty unless it has exactly one colon.\<close>

definition parseImageLink :: "string \<Rightarrow> string \<times> string" where
  "parseImageLink imageLink =
     (case split_char (CHR '':'') imageLink of
        [path, imageTag] \<Rightarrow>
          (let nameParts = split_char (CHR ''/'') path in
           (if 1 < length nameParts then last nameParts else hd nameParts, imageTag))
      | _ \<Rightarrow> ([], []))"

section \<open>Uploading an image\<close>

record upload_form =
  up_imageLink :: string
  up_description :: string
  up_tags :: "string list option"

definition upload_formSchema :: "upload_form \<Rightarrow> bool" where
  "upload_formSchema v \<longleftrightarrow> 1 \<le> length (up_imageLink v) \<and> imageLinkRegex (up_imageLink v) \<and> 1 \<le> length (up_description v)"

definition uploadImagePack :: "upload_form \<Rightarrow> ImageUpload" where
  "uploadImagePack v =
     (let (imageName, imageTag) = parseImageLink (up_imageLink v) in
      \<lparr>iup_imageLink = up_imageLink v, iup_imageName = imageName, iup_imageTag = imageTag,
       iup_description = up_description v, iup_tags = (case up_tags v of None \<Rightarrow> [] | Some ts \<Rightarrow> ts)\<rparr>)"

text \<open>The upload form sends, for every link it accepts, the name and tag the link really has: the
  link is a registry path, a slash, the name, a colon and the tag, and neither name nor tag is empty
  or contains a slash or a colon.\<close>

theorem upload_splits_link:
  assumes "upload_formSchema v"
  shows "\<exists>path. let p = uploadImagePack v in
    up_imageLink v = path @ ''/'' @ iup_imageName p @ '':'' @ iup_imageTag p \<and> path \<noteq> [] \<and>
    iup_imageName p \<noteq> [] \<and> iup_imageTag p \<noteq> [] \<and>
    set (iup_imageName p) \<inter> set ''/:'' = {} \<and> set (iup_imageTag p) \<inter> set ''/:'' = {}"
proof -
  define s where "s = up_imageLink v"
  have "imageLinkRegex s" using assms by (simp add: upload_formSchema_def s_def)
  then obtain pth tg host segs where sp: "split_char (CHR '':'') s = [pth, tg]"
    and seg: "split_char (CHR ''/'') pth = host # segs" and ok: "link_host host" "link_path segs" "link_tag tg"
    by (auto simp: imageLinkRegex_def split: list.splits)
  have s: "s = pth @ '':'' @ tg" using join_split [of "CHR '':''" s] sp by simp
  obtain pre nm where snoc: "segs = pre @ [nm]" using ok(2) by (metis link_path_def rev_exhaust)
  have pth: "pth = join_with ''/'' (host # pre) @ ''/'' @ nm"
    using join_split [of "CHR ''/''" pth] seg snoc join_with_snoc [of "host # pre" "''/''" nm] by simp
  have "join_with ''/'' (host # pre) \<noteq> []"
    using ok(1) by (cases "pre = []") (auto simp: link_host_def join_with_Cons)
  moreover have chars: "c \<notin> set nm \<and> c \<notin> set tg" if "c \<in> set ''/:''" for c
  proof -
    have "\<not> (alnum c \<or> c \<in> set ''_.-'')"
      using that by (auto simp: alnum_def lower_alnum_def ascii_between_def is_digit_def)
    then show ?thesis using ok snoc by (auto simp: link_path_def link_tag_def list_all_iff)
  qed
  moreover have "parseImageLink s = (nm, tg)"
    using sp seg snoc by (simp add: parseImageLink_def)
  moreover have "nm \<noteq> []" "tg \<noteq> []" using ok snoc by (auto simp: link_path_def link_tag_def)
  ultimately show ?thesis
    using s pth by (intro exI [of _ "join_with ''/'' (host # pre)"]) (auto simp: uploadImagePack_def s_def Let_def)
qed

theorem upload_splits_link_witness:
  "\<exists>path. ''hub/lib/cuda:12.8'' = path @ ''/'' @ ''cuda'' @ '':'' @ ''12.8''"
proof -
  define v where "v = \<lparr>up_imageLink = ''hub/lib/cuda:12.8'', up_description = ''d'', up_tags = None\<rparr>"
  have "imageLinkRegex ''hub/lib/cuda:12.8''" by code_simp
  then have "upload_formSchema v" by (simp add: v_def upload_formSchema_def)
  moreover have "parseImageLink ''hub/lib/cuda:12.8'' = (''cuda'', ''12.8'')" by code_simp
  ultimately show ?thesis using upload_splits_link [of v] by (auto simp: v_def uploadImagePack_def)
qed

section \<open>The images a job form offers\<close>

record combobox_item =
  item_value :: string
  item_label :: string
  item_selectedLabel :: string
  item_detail :: ImageInfoResponse
  item_tags :: "string list"

definition usable_image :: "ImageInfoResponse \<Rightarrow> bool" where
  "usable_image i \<longleftrightarrow> ii_imageLink i \<noteq> [] \<and> ii_description i \<noteq> [] \<and>
     ui_nickname (ii_userInfo i) \<noteq> [] \<and> ui_username (ii_userInfo i) \<noteq> []"

definition image_item :: "ImageInfoResponse \<Rightarrow> combobox_item" where
  "image_item i = \<lparr>item_value = ii_imageLink i,
     item_label = ii_description i @ '' ('' @ ii_imageLink i @ '') ['' @ ui_nickname (ii_userInfo i) @ '' '' @
       ui_username (ii_userInfo i) @ '']'',
     item_selectedLabel = ii_description i, item_detail = i, item_tags = ii_tags i\<rparr>"

text \<open>\<open>time\<close> is \<open>new Date(x).getTime()\<close>, for the valid dates the server sends.\<close>

definition queryBaseImages :: "(string \<Rightarrow> int) \<Rightarrow> ImageInfoResponse list \<Rightarrow> combobox_item list" where
  "queryBaseImages time images =
     map image_item
       (sort_by (by_key (\<lambda>i. - time (ii_createdAt i)))
         (filter usable_image (map_values (js_map (map (\<lambda>i. (ii_imageLink i, i)) images)))))"

definition base_image_request :: "JobType option \<Rightarrow> http_request" where
  "base_image_request type' = apiJTaskImageList (JobType_val (case type' of None \<Rightarrow> JobType_Jupyter | Some t \<Rightarrow> t))"

text \<open>The images offered to a job are one per link, newest first; each is an image of the answer with
  a link, a description and an owner; and a link is offered exactly if its last entry in the answer
  is such an image.\<close>

theorem base_images:
  "distinct (map item_value (queryBaseImages time images)) \<and>
   sorted_wrt (\<lambda>a b. time (ii_createdAt (item_detail b)) \<le> time (ii_createdAt (item_detail a))) (queryBaseImages time images) \<and>
   (\<forall>i. i \<in> item_detail ` set (queryBaseImages time images) \<longleftrightarrow>
      usable_image i \<and> map_of (rev (map (\<lambda>i. (ii_imageLink i, i)) images)) (ii_imageLink i) = Some i)"
proof -
  define kvs where "kvs = map (\<lambda>i. (ii_imageLink i, i)) images"
  define vs where "vs = map_values (js_map kvs)"
  have key: "ii_imageLink v = k" if "(k, v) \<in> set (js_map kvs)" for k v
    using js_map_subset [of kvs] that by (auto simp: kvs_def)
  have mem: "i \<in> set vs \<longleftrightarrow> map_of (rev kvs) (ii_imageLink i) = Some i" for i
  proof -
    have "i \<in> set vs \<longleftrightarrow> (ii_imageLink i, i) \<in> set (js_map kvs)"
      using key by (force simp: vs_def map_values_def)
    then show ?thesis by (metis distinct_js_map map_of_eq_Some_iff map_of_js_map)
  qed
  have "map ii_imageLink vs = map fst (js_map kvs)"
    using key by (force simp: vs_def map_values_def)
  then have dist: "distinct (map ii_imageLink vs)" by (metis distinct_js_map)
  define q where "q = sort_by (by_key (\<lambda>i. - time (ii_createdAt i))) (filter usable_image vs)"
  have qq: "queryBaseImages time images = map image_item q"
    by (simp add: queryBaseImages_def q_def vs_def kvs_def)
  have "mset (map ii_imageLink q) = mset (map ii_imageLink (filter usable_image vs))" by (simp add: q_def mset_map)
  then have "distinct (map ii_imageLink q)"
    using distinct_map_filter [OF dist] mset_eq_imp_distinct_iff by metis
  moreover have "map item_value (map image_item q) = map ii_imageLink q" by (simp add: image_item_def)
  moreover have detail: "item_detail (image_item i) = i" for i by (simp add: image_item_def)
  moreover have "sorted_wrt (\<lambda>a b. time (ii_createdAt b) \<le> time (ii_createdAt a)) q"
    using by_key.sorted_sort_by [of "\<lambda>i. - time (ii_createdAt i)" "filter usable_image vs"]
    by (simp add: q_def by_key_def)
  moreover have "item_detail ` set (map image_item q) = set q" by (simp add: image_image detail)
  moreover have "set q = {i \<in> set vs. usable_image i}" by (simp add: q_def)
  ultimately show ?thesis
    using mem unfolding qq by (simp only: kvs_def sorted_wrt_map) auto
qed

end
