(* ===== verification/Nodes.thy ===== *)
theory Nodes
  imports ApiCluster
begin

text \<open>
  Nodes and resources in lists: the order of \<open>services/query/node.ts\<close> and
  \<open>services/query/resource.ts\<close>, and the usage columns of \<open>components/node/node-list.tsx\<close>.
  \<open>localeCompare\<close> depends on the visitor's locale; it is an argument, used only as a comparison.
\<close>

section \<open>Order\<close>

definition vendorOrder :: "string list" where
  "vendorOrder = [''hygon'', ''shenwei'', ''yitian'', []]"

text \<open>\<open>Array.prototype.indexOf\<close>, -1 when the value is not there.\<close>

fun index_from :: "int \<Rightarrow> 'a list \<Rightarrow> 'a \<Rightarrow> int" where
  "index_from i [] x = -1"
| "index_from i (y # ys) x = (if y = x then i else index_from (i + 1) ys x)"

definition indexOf :: "'a list \<Rightarrow> 'a \<Rightarrow> int" where
  "indexOf xs x = index_from 0 xs x"

definition vendor_rank :: "INodeBriefInfo \<Rightarrow> int" where
  "vendor_rank n = indexOf vendorOrder (nb_vendor n)"

definition queryNodes :: "(string \<Rightarrow> string \<Rightarrow> int) \<Rightarrow> bool \<Rightarrow> INodeBriefInfo list \<Rightarrow> INodeBriefInfo list" where
  "queryNodes localeCompare onlyWorker nodes =
     filter (\<lambda>x. \<not> onlyWorker \<or> nb_role x = NodeRole_Worker)
       (sort_by (by_key vendor_rank) (sort_by (\<lambda>a b. localeCompare (nb_name a) (nb_name b)) nodes))"

definition queryResources ::
  "(string \<Rightarrow> string \<Rightarrow> int) \<Rightarrow> (ResourceInfo \<Rightarrow> bool) option \<Rightarrow> (ResourceInfo \<Rightarrow> 'b) \<Rightarrow> ResourceInfo list \<Rightarrow> 'b list" where
  "queryResources localeCompare flt mapper resources =
     map mapper (filter (\<lambda>r. case flt of None \<Rightarrow> True | Some p \<Rightarrow> p r)
       (sort_by (\<lambda>a b. localeCompare (rs_name a) (rs_name b)) resources))"

text \<open>Two sorts in a row order by the second key first and by the first among equals.\<close>

lemma sort_twice:
  assumes "comparator cmp"
  shows "sorted_wrt (\<lambda>a b. f a < f b \<or> f a = f b \<and> cmp a b \<le> 0) (sort_by (by_key f) (sort_by cmp xs))"
proof (unfold sorted_wrt_iff_nth_less, intro allI impI)
  fix i j
  define ys where "ys = sort_by cmp xs"
  define zs where "zs = sort_by (by_key f) ys"
  assume ij: "i < j" "j < length (sort_by (by_key f) (sort_by cmp xs))"
  then have len: "j < length zs" by (simp add: zs_def ys_def)
  have le: "f (zs ! i) \<le> f (zs ! j)"
    using by_key.sorted_sort_by [of f ys] ij len by (simp add: zs_def by_key_def sorted_wrt_iff_nth_less)
  have sorted: "sorted_wrt (\<lambda>a b. cmp a b \<le> 0) (filter (\<lambda>y. f (zs ! i) = f y) zs)"
  proof -
    have "sorted_wrt (\<lambda>a b. cmp a b \<le> 0) ys" unfolding ys_def by (rule comparator.sorted_sort_by [OF assms])
    then have "sorted_wrt (\<lambda>a b. cmp a b \<le> 0) (filter (\<lambda>y. f (zs ! i) = f y) ys)" by (rule sorted_wrt_filter)
    moreover have "filter (\<lambda>y. f (zs ! i) = f y) zs = filter (\<lambda>y. f (zs ! i) = f y) ys"
      unfolding zs_def by (rule filter_sort_by) (simp add: by_key_def)
    ultimately show ?thesis by simp
  qed
  have "cmp (zs ! i) (zs ! j) \<le> 0" if eq: "f (zs ! i) = f (zs ! j)"
  proof -
    have "zs = take j zs @ zs ! j # drop (Suc j) zs" using len by (simp add: id_take_nth_drop)
    then have "filter (\<lambda>y. f (zs ! i) = f y) zs
        = filter (\<lambda>y. f (zs ! i) = f y) (take j zs) @ zs ! j # filter (\<lambda>y. f (zs ! i) = f y) (drop (Suc j) zs)"
      using eq by (metis (mono_tags, lifting) filter.simps(2) filter_append)
    moreover have "zs ! i \<in> set (filter (\<lambda>y. f (zs ! i) = f y) (take j zs))"
    proof -
      have "take j zs ! i = zs ! i" "i < length (take j zs)" using ij(1) len by simp_all
      then have "zs ! i \<in> set (take j zs)" by (metis nth_mem)
      then show ?thesis by simp
    qed
    ultimately show ?thesis using sorted by (auto simp: sorted_wrt_append)
  qed
  with le show "f (sort_by (by_key f) (sort_by cmp xs) ! i) < f (sort_by (by_key f) (sort_by cmp xs) ! j) \<or>
      f (sort_by (by_key f) (sort_by cmp xs) ! i) = f (sort_by (by_key f) (sort_by cmp xs) ! j) \<and>
      cmp (sort_by (by_key f) (sort_by cmp xs) ! i) (sort_by (by_key f) (sort_by cmp xs) ! j) \<le> 0"
    by (fold ys_def, fold zs_def) auto
qed

text \<open>The list of nodes has exactly the nodes asked for (all, or the workers), ordered by vendor and,
  within a vendor, by name: hygon, shenwei, yitian, then nodes without a vendor; a vendor that is not
  in the list comes before all of them.\<close>

theorem nodes_ordered:
  assumes "comparator localeCompare"
  shows "mset (queryNodes localeCompare w nodes) = filter_mset (\<lambda>x. \<not> w \<or> nb_role x = NodeRole_Worker) (mset nodes) \<and>
    sorted_wrt (\<lambda>a b. vendor_rank a < vendor_rank b \<or>
      vendor_rank a = vendor_rank b \<and> localeCompare (nb_name a) (nb_name b) \<le> 0) (queryNodes localeCompare w nodes) \<and>
    (case vendor_rank n of r \<Rightarrow> if r = -1 then nb_vendor n \<notin> set vendorOrder else vendorOrder ! nat r = nb_vendor n)"
proof -
  have "comparator (\<lambda>a b. localeCompare (nb_name a) (nb_name b))" using assms by (rule comparator_key)
  then have "sorted_wrt (\<lambda>a b. vendor_rank a < vendor_rank b \<or>
      vendor_rank a = vendor_rank b \<and> localeCompare (nb_name a) (nb_name b) \<le> 0) (queryNodes localeCompare w nodes)"
    unfolding queryNodes_def by (intro sorted_wrt_filter sort_twice)
  moreover have "case vendor_rank n of r \<Rightarrow> if r = -1 then nb_vendor n \<notin> set vendorOrder else vendorOrder ! nat r = nb_vendor n"
    by (auto simp: vendor_rank_def indexOf_def vendorOrder_def)
  ultimately show ?thesis by (simp add: queryNodes_def mset_filter)
qed

definition demo_node :: "string \<Rightarrow> string \<Rightarrow> INodeBriefInfo" where
  "demo_node name vendor = \<lparr>nb_name = name, nb_role = NodeRole_Worker, nb_arch = ''amd64'', nb_status = NodeStatus_Ready,
     nb_vendor = vendor, nb_taints = [], nb_capacity = None, nb_allocatable = None, nb_used = None, nb_workloads = 0,
     nb_annotations = [], nb_kernelVersion = None, nb_gpuDriver = None\<rparr>"

theorem nodes_ordered_witness:
  "mset (queryNodes compare_codes False [demo_node ''b'' [], demo_node ''a'' ''hygon'']) =
     {#demo_node ''b'' [], demo_node ''a'' ''hygon''#}"
  using nodes_ordered [OF compare_codes, of False "[demo_node ''b'' [], demo_node ''a'' ''hygon'']"] by simp

section \<open>Usage\<close>

record ResourceUsageInfo =
  ru_usagePercent :: "number option"
  ru_displayValue :: "string option"
  ru_acceleratorName :: "string option"

text \<open>A property of an optional object; the empty string is false.\<close>

definition get_res :: "resource_list \<Rightarrow> string \<Rightarrow> string option" where
  "get_res rs k = Option.bind rs (\<lambda>m. map_of m k)"

definition or_zero :: "string option \<Rightarrow> string" where
  "or_zero v = (if v = None \<or> v = Some [] then ''0'' else the v)"

definition nullish_zero :: "string option \<Rightarrow> string" where
  "nullish_zero v = (case v of None \<Rightarrow> ''0'' | Some s \<Rightarrow> s)"

definition allocatable_here :: "resource_list \<Rightarrow> string \<Rightarrow> bool" where
  "allocatable_here allocatable a \<longleftrightarrow>
     get_res allocatable a \<noteq> None \<and> get_res allocatable a \<noteq> Some [] \<and> get_res allocatable a \<noteq> Some ''0''"

text \<open>One of the two loops over the accelerators: the name, what is used and what can be allocated.\<close>

fun find_accelerator :: "resource_list \<Rightarrow> resource_list \<Rightarrow> string list \<Rightarrow> string \<times> string \<times> string" where
  "find_accelerator used allocatable [] = ([], [], [])"
| "find_accelerator used allocatable (a # as) =
     (if allocatable_here allocatable a then (a, or_zero (get_res used a), the (get_res allocatable a))
      else find_accelerator used allocatable as)"

definition usage_of :: "string \<Rightarrow> string \<Rightarrow> string \<Rightarrow> string \<Rightarrow> ResourceUsageInfo" where
  "usage_of resourceKey name resourceUsed resourceAllocatable =
     (let usedValue = num_or_zero (case snd (convertKResourceToResource resourceKey (Some resourceUsed)) of
            None \<Rightarrow> NaN | Some x \<Rightarrow> x);
          allocatableValue = snd (convertKResourceToResource resourceKey (Some resourceAllocatable)) in
      if allocatableValue = None \<or> allocatableValue = Some (Fin 0)
      then \<lparr>ru_usagePercent = None, ru_displayValue = None, ru_acceleratorName = Some name\<rparr>
      else \<lparr>ru_usagePercent = Some (num_mul (num_div usedValue (the allocatableValue)) (Fin 100)),
            ru_displayValue = Some (betterResourceQuantity resourceKey (Some usedValue) False @ ''/'' @
               betterResourceQuantity resourceKey allocatableValue True),
            ru_acceleratorName = Some name\<rparr>)"

datatype usage_key = Key_cpu | Key_memory | Key_accelerator

fun key_name :: "usage_key \<Rightarrow> string" where
  "key_name Key_cpu = ''cpu''"
| "key_name Key_memory = ''memory''"
| "key_name Key_accelerator = ''accelerator''"

definition no_usage :: ResourceUsageInfo where
  "no_usage = \<lparr>ru_usagePercent = None, ru_displayValue = None, ru_acceleratorName = None\<rparr>"

definition calculateResourceUsage ::
  "usage_key \<Rightarrow> resource_list \<Rightarrow> resource_list \<Rightarrow> string list option \<Rightarrow> ResourceUsageInfo" where
  "calculateResourceUsage resourceKey used allocatable accelerators =
     (case resourceKey of
        Key_cpu \<Rightarrow> usage_of ''cpu'' [] (or_zero (get_res used ''cpu'')) (or_zero (get_res allocatable ''cpu''))
      | Key_memory \<Rightarrow>
          usage_of ''memory'' [] (nullish_zero (get_res used ''memory'')) (nullish_zero (get_res allocatable ''memory''))
      | Key_accelerator \<Rightarrow>
          (case accelerators of
             None \<Rightarrow> no_usage
           | Some [] \<Rightarrow> no_usage
           | Some as \<Rightarrow>
               (let first = find_accelerator used allocatable as;
                    (name, u, a) = (if fst first = [] then find_accelerator used allocatable as else first) in
                usage_of ''accelerator'' name u a)))"

definition getResourceUsagePercent ::
  "usage_key \<Rightarrow> resource_list \<Rightarrow> resource_list \<Rightarrow> string list option \<Rightarrow> number" where
  "getResourceUsagePercent resourceKey used allocatable accelerators =
     (case ru_usagePercent (calculateResourceUsage resourceKey used allocatable accelerators) of
        None \<Rightarrow> Fin 0 | Some p \<Rightarrow> p)"

lemma find_accelerator_first:
  "find_accelerator used allocatable as =
     (case find (allocatable_here allocatable) as of
        None \<Rightarrow> ([], [], []) | Some a \<Rightarrow> (a, or_zero (get_res used a), the (get_res allocatable a)))"
  by (induction as) auto

lemma convertK_count: "convertKResourceToResource ''accelerator'' (Some (nat_str n)) = ([], Some (Fin (of_nat n)))"
  by (simp add: convertKResourceToResource_def parse_int_nat_str_all)

text \<open>The usage of a node's accelerators: the first accelerator the node can allocate decides, and the
  search for virtual ones that follows the search for physical ones changes nothing, being the same
  search; with whole counts the percentage is the exact share, between 0 and 100 when no more is used
  than can be allocated.\<close>

theorem accelerator_usage:
  assumes "as \<noteq> []" "[] \<notin> set as"
    and "\<forall>a \<in> set as. \<exists>n. get_res allocatable a = None \<or> get_res allocatable a = Some (nat_str n)"
    and "\<forall>a \<in> set as. \<exists>n. get_res used a = None \<or> get_res used a = Some (nat_str n)"
  shows "case find (allocatable_here allocatable) as of
      None \<Rightarrow> calculateResourceUsage Key_accelerator used allocatable (Some as) =
        \<lparr>ru_usagePercent = None, ru_displayValue = None, ru_acceleratorName = Some []\<rparr>
    | Some a \<Rightarrow> \<exists>u n. or_zero (get_res used a) = nat_str u \<and> get_res allocatable a = Some (nat_str n) \<and> 0 < n \<and>
        calculateResourceUsage Key_accelerator used allocatable (Some as) =
          \<lparr>ru_usagePercent = Some (Fin (of_nat u / of_nat n * 100)),
           ru_displayValue = Some (nat_str u @ ''/'' @ nat_str n), ru_acceleratorName = Some a\<rparr> \<and>
        (u \<le> n \<longleftrightarrow> of_nat u / of_nat n * 100 \<le> (100 :: rat))"
proof (cases "find (allocatable_here allocatable) as")
  case None
  then have "find_accelerator used allocatable as = ([], [], [])" by (simp add: find_accelerator_first)
  then show ?thesis
    using None assms(1)
    by (cases as) (auto simp: calculateResourceUsage_def usage_of_def convertKResourceToResource_def)
next
  case (Some a)
  then have a: "a \<in> set as" "allocatable_here allocatable a" by (auto simp: find_Some_iff)
  then have "get_res allocatable a \<noteq> None" by (simp add: allocatable_here_def)
  with assms(3) a(1) obtain n where n: "get_res allocatable a = Some (nat_str n)" by metis
  have zero: "nat_str 0 = ''0''" by code_simp
  have "0 < n" using a(2) n zero by (cases n) (auto simp: allocatable_here_def)
  obtain u where u: "or_zero (get_res used a) = nat_str u"
  proof (cases "get_res used a")
    case None
    then show ?thesis using that [of 0] zero by (simp add: or_zero_def)
  next
    case (Some v)
    then obtain k where "v = nat_str k" using assms(4) a(1) by fastforce
    then show ?thesis using that [of k] Some by (simp add: or_zero_def)
  qed
  have "a \<noteq> []" using assms(2) a(1) by auto
  then have "calculateResourceUsage Key_accelerator used allocatable (Some as) = usage_of ''accelerator'' a (nat_str u) (nat_str n)"
    using Some assms(1) u n by (cases as) (auto simp: calculateResourceUsage_def find_accelerator_first)
  also have "\<dots> = \<lparr>ru_usagePercent = Some (Fin (of_nat u / of_nat n * 100)),
      ru_displayValue = Some (nat_str u @ ''/'' @ nat_str n), ru_acceleratorName = Some a\<rparr>"
  proof -
    have "num_str (Fin (of_nat k)) = nat_str k" for k
      using rat_str_of_int [of "int k"] by (simp add: int_str_def)
    moreover have "rat_str 0 = nat_str 0" by code_simp
    ultimately show ?thesis
      using \<open>0 < n\<close> by (auto simp: usage_of_def convertK_count num_or_zero_def betterResourceQuantity_def)
  qed
  finally have usage: "calculateResourceUsage Key_accelerator used allocatable (Some as) =
      \<lparr>ru_usagePercent = Some (Fin (of_nat u / of_nat n * 100)),
       ru_displayValue = Some (nat_str u @ ''/'' @ nat_str n), ru_acceleratorName = Some a\<rparr>" .
  have "u \<le> n \<longleftrightarrow> of_nat u / of_nat n * 100 \<le> (100 :: rat)"
    using \<open>0 < n\<close> by (simp add: field_simps)
  with usage u n \<open>0 < n\<close> Some show ?thesis by auto
qed

theorem accelerator_usage_witness:
  "ru_usagePercent (calculateResourceUsage Key_accelerator (Some [(''gpu'', ''1'')]) (Some [(''gpu'', ''4'')]) (Some [''gpu'']))
     = Some (Fin (of_nat 1 / of_nat 4 * 100))"
proof -
  have s: "nat_str 1 = ''1''" "nat_str 4 = ''4''" by code_simp+
  let ?al = "Some [(''gpu'', ''4'')]" and ?us = "Some [(''gpu'', ''1'')]"
  have f: "find (allocatable_here ?al) [''gpu''] = Some ''gpu''"
    by (simp add: allocatable_here_def get_res_def)
  have "\<exists>n. get_res ?al ''gpu'' = None \<or> get_res ?al ''gpu'' = Some (nat_str n)"
    by (rule exI [of _ 4]) (simp add: get_res_def s)
  moreover have "\<exists>n. get_res ?us ''gpu'' = None \<or> get_res ?us ''gpu'' = Some (nat_str n)"
    by (rule exI [of _ 1]) (simp only: get_res_def s, simp)
  ultimately obtain u n where un: "or_zero (get_res ?us ''gpu'') = nat_str u" "get_res ?al ''gpu'' = Some (nat_str n)"
    "calculateResourceUsage Key_accelerator ?us ?al (Some [''gpu'']) =
       \<lparr>ru_usagePercent = Some (Fin (of_nat u / of_nat n * 100)),
        ru_displayValue = Some (nat_str u @ ''/'' @ nat_str n), ru_acceleratorName = Some ''gpu''\<rparr>"
    using accelerator_usage [of "[''gpu'']" ?al ?us] unfolding f by auto
  have "nat_str u = nat_str 1" using un(1) s by (simp add: or_zero_def get_res_def)
  moreover have "nat_str n = nat_str 4" using un(2) s by (simp add: get_res_def)
  ultimately have "u = 1" "n = 4" using nat_str_inj by blast+
  then show ?thesis using un(3) by simp
qed

end
