(* ===== verification/Pseudonym.thy ===== *)
theory Pseudonym
  imports JsBase
begin

text \<open>
  \<open>utils/pseudonym.ts\<close>: a pseudonym is three Chinese characters picked by a hash of the user's
  name. A text is the list of its UTF-16 code units; a user name is given as characters up to U+00FF.
  The hash is computed with 32-bit integers, where it wraps.
\<close>

section \<open>The tables\<close>

definition SURNAMES :: "nat list" where
  "SURNAMES = [26446, 29579, 24352, 21016, 38472, 26472, 36213, 40644, 21608, 21556, 24464, 23385, 32993,
     26417, 39640, 26519, 20309, 37101, 39532, 32599, 26753, 23435, 37073, 35874, 38889, 21776,
     20911, 20110, 33891, 33831, 31243, 26361, 34945, 37011, 35768, 20613, 27784, 26366, 24429,
     21525]"

definition NUMBERS :: "nat list" where
  "NUMBERS = [19968, 20108, 19977, 22235, 20116, 20845, 19971, 20843, 20061, 21313]"

definition OBJECTS :: "nat list" where
  "OBJECTS = [33457, 26641, 33609, 21494, 23665, 27700, 20113, 39118, 38632, 38634, 30707, 22303, 26143,
     26376, 22825, 22320, 27743, 27827, 28246, 28023, 40479, 40060, 34382, 40857, 39532, 29275,
     32650, 40575, 26494, 31481]"

section \<open>The hash\<close>

text \<open>
  \<open>(hash << 5) - hash + c\<close> is computed as a number and cut to 32 bits by \<open>hash |= 0\<close>; both
  steps agree with arithmetic on 32-bit words.
\<close>

definition hash_step :: "32 word \<Rightarrow> char \<Rightarrow> 32 word" where
  "hash_step h c = push_bit 5 h - h + word_of_nat (of_char c)"

definition hash_word :: "string \<Rightarrow> 32 word" where
  "hash_word username = foldl hash_step 0 username"

text \<open>\<open>Math.abs\<close> of the signed value; of the least one it is 2147483648, which is no 32-bit integer.\<close>

definition hashUsername :: "string \<Rightarrow> int" where
  "hashUsername username = \<bar>sint (hash_word username)\<bar>"

text \<open>\<open>ToInt32\<close>, \<open>x >> n\<close> and \<open>x % n\<close>, whose result has the sign of \<open>x\<close>.\<close>

definition to_int32 :: "int \<Rightarrow> int" where
  "to_int32 x = sint (word_of_int x :: 32 word)"

definition shift_right :: "int \<Rightarrow> nat \<Rightarrow> int" where
  "shift_right x n = to_int32 x div 2 ^ n"

definition js_mod :: "int \<Rightarrow> int \<Rightarrow> int" where
  "js_mod x n = sgn x * (\<bar>x\<bar> mod n)"

section \<open>The pseudonym\<close>

text \<open>An element that is not there is \<open>undefined\<close>, and is printed so.\<close>

definition element :: "nat list \<Rightarrow> int \<Rightarrow> nat list" where
  "element xs i = (if 0 \<le> i \<and> i < int (length xs) then [xs ! nat i] else map of_char ''undefined'')"

definition generatePseudonym :: "string \<Rightarrow> nat list" where
  "generatePseudonym username =
     (let hash = hashUsername username;
          surnameIndex = js_mod hash (int (length SURNAMES));
          numberIndex = js_mod (shift_right hash 8) (int (length NUMBERS));
          objectIndex = js_mod (shift_right hash 16) (int (length OBJECTS)) in
      element SURNAMES surnameIndex @ element NUMBERS numberIndex @ element OBJECTS objectIndex)"

text \<open>The module's cache; the result and the cache afterwards.\<close>

definition getUserPseudonym :: "(string \<times> nat list) list \<Rightarrow> string option \<Rightarrow> nat list \<times> (string \<times> nat list) list" where
  "getUserPseudonym cache name =
     (let username = (case name of None \<Rightarrow> [] | Some u \<Rightarrow> u);
          cache' = (if map_of cache username = None
                    then AList.update username (generatePseudonym username) cache else cache) in
      (the (map_of cache' username), cache'))"

fun ask_all :: "(string \<times> nat list) list \<Rightarrow> string option list \<Rightarrow> nat list list \<times> (string \<times> nat list) list" where
  "ask_all cache [] = ([], cache)"
| "ask_all cache (n # ns) =
     (let (p, c) = getUserPseudonym cache n; (ps, c') = ask_all c ns in (p # ps, c'))"

section \<open>Properties\<close>

definition coherent :: "(string \<times> nat list) list \<Rightarrow> bool" where
  "coherent cache \<longleftrightarrow> (\<forall>u p. map_of cache u = Some p \<longrightarrow> p = generatePseudonym u)"

lemma get_coherent:
  "coherent cache \<Longrightarrow> getUserPseudonym cache n = (p, cache') \<Longrightarrow>
   p = generatePseudonym (case n of None \<Rightarrow> [] | Some u \<Rightarrow> u) \<and> coherent cache'"
  by (auto simp: getUserPseudonym_def coherent_def update_conv' Let_def split: if_splits option.splits)

lemma ask_all_coherent:
  "coherent cache \<Longrightarrow> ask_all cache ns = (ps, cache') \<Longrightarrow>
   ps = map (\<lambda>n. generatePseudonym (case n of None \<Rightarrow> [] | Some u \<Rightarrow> u)) ns"
proof (induction ns arbitrary: cache ps cache')
  case Nil
  then show ?case by simp
next
  case (Cons n ns)
  obtain p c where g: "getUserPseudonym cache n = (p, c)" by (cases "getUserPseudonym cache n")
  obtain qs c' where a: "ask_all c ns = (qs, c')" by (cases "ask_all c ns")
  from get_coherent [OF Cons.prems(1) g] Cons.IH [OF _ a] Cons.prems(2) g a show ?case by simp
qed

lemma element_length: "0 \<le> i \<Longrightarrow> i < int (length xs) \<Longrightarrow> \<exists>x \<in> set xs. element xs i = [x]"
  by (auto simp: element_def)

lemma js_mod_range: "0 \<le> x \<Longrightarrow> 0 < n \<Longrightarrow> 0 \<le> js_mod x n \<and> js_mod x n < n"
  by (auto simp: js_mod_def sgn_if)

lemma to_int32_id: "0 \<le> x \<Longrightarrow> x < 2147483648 \<Longrightarrow> to_int32 x = x"
  by (simp add: to_int32_def signed_take_bit_int_eq_self sint_sbintrunc' flip: take_bit_eq_mod)

lemma hash_range: "0 \<le> hashUsername u \<and> hashUsername u \<le> 2147483648 \<and>
    (hashUsername u = 2147483648 \<longleftrightarrow> hash_word u = 0x80000000)"
proof -
  have "- 2147483648 \<le> sint (hash_word u)" "sint (hash_word u) < 2147483648"
    using sint_ge [of "hash_word u"] sint_lt [of "hash_word u"] by simp_all
  moreover have "sint (hash_word u) = - 2147483648 \<longleftrightarrow> hash_word u = 0x80000000"
  proof -
    have "sint (0x80000000 :: 32 word) = - 2147483648" by code_simp
    then show ?thesis by (metis signed_word_eqI)
  qed
  ultimately show ?thesis by (auto simp: hashUsername_def)
qed

text \<open>Whatever calls came before, a user is always shown the same pseudonym, the one generated from the
  name; and it is a surname, a number and an object of the tables, unless the hash of the name is the
  least 32-bit integer, whose absolute value overflows: then the number and the object are the text
  \<open>undefined\<close>.\<close>

theorem pseudonym_stable:
  "fst (ask_all [] names) = map (\<lambda>n. generatePseudonym (case n of None \<Rightarrow> [] | Some u \<Rightarrow> u)) names \<and>
   (if hash_word u = 0x80000000
    then drop 1 (generatePseudonym u) = map of_char ''undefinedundefined''
    else \<exists>s \<in> set SURNAMES. \<exists>n \<in> set NUMBERS. \<exists>x \<in> set OBJECTS. generatePseudonym u = [s, n, x])"
proof -
  have "coherent []" by (simp add: coherent_def)
  then have cache: "fst (ask_all [] names) = map (\<lambda>n. generatePseudonym (case n of None \<Rightarrow> [] | Some u \<Rightarrow> u)) names"
    using ask_all_coherent [of "[]" names] by (cases "ask_all [] names") simp
  have len: "length SURNAMES = 40" "length NUMBERS = 10" "length OBJECTS = 30"
    by (simp_all add: SURNAMES_def NUMBERS_def OBJECTS_def)
  show ?thesis
  proof (cases "hash_word u = 0x80000000")
    case True
    then have h: "hashUsername u = 2147483648" using hash_range by simp
    have "to_int32 2147483648 = - 2147483648" by code_simp
    then have "js_mod (shift_right 2147483648 8) 10 = - 8" "js_mod (shift_right 2147483648 16) 30 = - 8"
      by (simp_all add: shift_right_def js_mod_def)
    moreover have "js_mod 2147483648 40 = 8" by (simp add: js_mod_def)
    ultimately show ?thesis
      using True cache by (simp add: generatePseudonym_def h len element_def)
  next
    case False
    define h where "h = hashUsername u"
    have h: "0 \<le> h" "h < 2147483648" using False hash_range [of u] by (auto simp: h_def)
    then have "0 \<le> shift_right h 8" "0 \<le> shift_right h 16"
      by (simp_all add: shift_right_def to_int32_id)
    then obtain s n x where "s \<in> set SURNAMES" "element SURNAMES (js_mod h 40) = [s]"
      "n \<in> set NUMBERS" "element NUMBERS (js_mod (shift_right h 8) 10) = [n]"
      "x \<in> set OBJECTS" "element OBJECTS (js_mod (shift_right h 16) 30) = [x]"
      using element_length [of "js_mod h 40" SURNAMES] element_length [of "js_mod (shift_right h 8) 10" NUMBERS]
        element_length [of "js_mod (shift_right h 16) 30" OBJECTS] h(1) js_mod_range by (auto simp: len)
    then have "\<exists>s \<in> set SURNAMES. \<exists>n \<in> set NUMBERS. \<exists>x \<in> set OBJECTS. generatePseudonym u = [s, n, x]"
      by (auto simp: generatePseudonym_def h_def [symmetric] len Let_def)
    with cache False show ?thesis by simp
  qed
qed

text \<open>The overflow happens for a name that can be registered.\<close>

lemma overflowing_name: "hash_word ''polygenelubricants'' = 0x80000000"
  by code_simp

end
