(* ===== verification/Jobs.thy ===== *)
theory Jobs
  imports ApiJobs
begin

text \<open>
  What the pages about a job compute: the state a phase belongs to (\<open>services/api/vcjob.ts\<close>) and the
  times of the schedule section (\<open>components/metrics/schedule-info-section.tsx\<close>), which reads a
  duration as Go prints it and shows up to three cards.
\<close>

section \<open>States\<close>

definition getJobStateType :: "JobPhase \<Rightarrow> JobStatus" where
  "getJobStateType phase =
     (let notStartedPhases = [JobPhase_Pending, JobPhase_Init];
          runningPhases = [JobPhase_Running, JobPhase_Restarting, JobPhase_Completing, JobPhase_Aborting, JobPhase_Terminating];
          terminatedPhases = [JobPhase_Completed, JobPhase_Failed, JobPhase_Terminated, JobPhase_Aborted];
          metadataOnlyPhases = [JobPhase_Freed, JobPhase_Deleted, JobPhase_Cancelled] in
      if phase \<in> set notStartedPhases then JobStatus_NotStarted
      else if phase \<in> set runningPhases then JobStatus_Running
      else if phase \<in> set terminatedPhases then JobStatus_Terminated
      else if phase \<in> set metadataOnlyPhases then JobStatus_MetadataOnly
      else JobStatus_Unknown)"

section \<open>Reading a duration\<close>

text \<open>
  The first match of a regular expression \<open>(\d+)\<close> followed by something that does not start with a
  digit: the first maximal run of digits whose rest is accepted. A shorter run is followed by a digit.
\<close>

function first_run :: "(string \<Rightarrow> bool) \<Rightarrow> string \<Rightarrow> string option" where
  "first_run ok [] = None"
| "first_run ok (c # cs) =
     (if is_digit c then
        (let run = c # takeWhile is_digit cs; rest = dropWhile is_digit cs in
         if ok rest then Some run else first_run ok rest)
      else first_run ok cs)"
  by pat_completeness auto
termination
  by (relation "measure (length \<circ> snd)") (auto simp: le_imp_less_Suc length_dropWhile_le)

definition hours_match :: "string \<Rightarrow> string option" where
  "hours_match = first_run (\<lambda>r. starts_with r ''h'')"

definition minutes_match :: "string \<Rightarrow> string option" where
  "minutes_match = first_run (\<lambda>r. starts_with r ''m'' \<and> \<not> starts_with r ''ms'')"

definition milliseconds_match :: "string \<Rightarrow> string option" where
  "milliseconds_match = first_run (\<lambda>r. starts_with r ''ms'')"

text \<open>
  \<open>/(\d+\.?\d*)(?<!m)s/\<close>: digits, a dot and digits, and an \<open>s\<close>. The look-behind always holds, since
  the character before the \<open>s\<close> is a digit or the dot.
\<close>

function seconds_match :: "string \<Rightarrow> string option" where
  "seconds_match [] = None"
| "seconds_match (c # cs) =
     (if is_digit c then
        (let run = c # takeWhile is_digit cs; rest = dropWhile is_digit cs in
         if starts_with rest ''s'' then Some run
         else if starts_with rest ''.'' then
           (let fp = takeWhile is_digit (tl rest) in
            if starts_with (dropWhile is_digit (tl rest)) ''s'' then Some (run @ ''.'' @ fp)
            else seconds_match (tl rest))
         else seconds_match rest)
      else seconds_match cs)"
  by pat_completeness auto
termination
proof (relation "measure length", goal_cases)
  case 1
  show ?case by simp
next
  case (2 c cs)
  then show ?case by (simp add: le_imp_less_Suc length_dropWhile_le le_diff_conv le_SucI)
next
  case (3 c cs)
  then show ?case by (simp add: le_imp_less_Suc length_dropWhile_le)
next
  case (4 c cs)
  then show ?case by simp
qed

text \<open>\<open>parseInt\<close> of digits, and \<open>parseFloat\<close> of digits with a dot, is a finite number.\<close>

definition finite_value :: "number \<Rightarrow> rat" where
  "finite_value x = (case x of Fin r \<Rightarrow> r | _ \<Rightarrow> 0)"

definition read_match :: "(string \<Rightarrow> number) \<Rightarrow> string option \<Rightarrow> rat" where
  "read_match f m = (case m of None \<Rightarrow> 0 | Some ds \<Rightarrow> finite_value (f ds))"

definition parseDurationString :: "string \<Rightarrow> rat" where
  "parseDurationString s =
     (if s = [] then 0
      else read_match parse_int (hours_match s) * 3600 + read_match parse_int (minutes_match s) * 60
        + read_match parse_float (seconds_match s) + read_match parse_int (milliseconds_match s) / 1000)"

text \<open>
  The seconds the section shows, from the times of creation and start (milliseconds) and the time the
  image took: pulling the image, waiting in the queue, and both.
\<close>

definition queue_seconds :: "rat \<Rightarrow> rat \<Rightarrow> string \<Rightarrow> rat" where
  "queue_seconds createdAt startedAt imagePullTime =
     max 0 ((startedAt - createdAt) / 1000 - parseDurationString imagePullTime)"

section \<open>The schedule section\<close>

text \<open>
  What date-fns does is a parameter: \<open>date_ms\<close> reads a time as milliseconds, \<open>distance\<close> names the
  distance of two times, \<open>intervalToDuration\<close> splits milliseconds into the parts of an interval, and
  \<open>hms_text\<close> writes the hours, minutes and seconds that are not 0, the only parts asked for.
\<close>

record interval =
  iv_days :: nat
  iv_hours :: nat
  iv_minutes :: nat
  iv_seconds :: nat

definition formatSecondsToDuration :: "(rat \<Rightarrow> interval) \<Rightarrow> (nat \<Rightarrow> nat \<Rightarrow> nat \<Rightarrow> string) \<Rightarrow> rat \<Rightarrow> string" where
  "formatSecondsToDuration intervalToDuration hms_text seconds = (let d = intervalToDuration (seconds * 1000) in
     hms_text (iv_hours d) (iv_minutes d) (iv_seconds d))"

record schedule_info =
  sf_runTime :: string
  sf_pullTime :: string
  sf_waitTime :: string
  sf_totalWaitTime :: string

definition scheduleInfo :: "(string \<Rightarrow> rat) \<Rightarrow> (rat \<Rightarrow> rat \<Rightarrow> string) \<Rightarrow> (rat \<Rightarrow> string) \<Rightarrow> IJupyterDetail \<Rightarrow> schedule_info option" where
  "scheduleInfo date_ms distance duration_text j =
     (let imagePullTime = (case jd_scheduleData j of None \<Rightarrow> [] | Some d \<Rightarrow> sd_imagePullTime d);
          created = date_ms (jd_createdAt j); started = date_ms (jd_startedAt j); finished = date_ms (jd_completedAt j) in
      if jd_createdAt j = [] \<or> jd_startedAt j = [] \<or> jd_completedAt j = [] then None
      else Some \<lparr>sf_runTime = distance finished started,
        sf_pullTime = duration_text (parseDurationString imagePullTime),
        sf_waitTime = duration_text (queue_seconds created started imagePullTime),
        sf_totalWaitTime = distance started created\<rparr>)"

datatype schedule_card = Wait_card string | Pull_card string | Run_card string

text \<open>The section is there when a card is; a card is there when its text is not empty.\<close>

definition schedule_cards :: "schedule_info option \<Rightarrow> schedule_card list" where
  "schedule_cards info = (case info of None \<Rightarrow> []
   | Some i \<Rightarrow> (if sf_waitTime i = [] then [] else [Wait_card (sf_waitTime i)]) @
      (if sf_pullTime i = [] then [] else [Pull_card (sf_pullTime i)]) @
      (if sf_runTime i = [] then [] else [Run_card (sf_runTime i)]))"

section \<open>How Go prints a duration\<close>

text \<open>
  From one second on: hours and minutes when there are any, and seconds with a fraction; below a
  second: milliseconds with a fraction. The fraction is given by its digits.
\<close>

definition go_fraction :: "string \<Rightarrow> string" where
  "go_fraction fp = (if fp = [] then [] else ''.'' @ fp)"

definition go_seconds :: "nat \<Rightarrow> nat \<Rightarrow> nat \<Rightarrow> string \<Rightarrow> string" where
  "go_seconds h m s fp =
     (if 0 < h then nat_str h @ ''h'' else []) @ (if 0 < h \<or> 0 < m then nat_str m @ ''m'' else []) @
     nat_str s @ go_fraction fp @ ''s''"

definition go_milliseconds :: "nat \<Rightarrow> string \<Rightarrow> string" where
  "go_milliseconds n fp = nat_str n @ go_fraction fp @ ''ms''"

lemma first_run_digits:
  assumes "\<forall>c\<in>set ds. is_digit c" "ds \<noteq> []" "r = [] \<or> \<not> is_digit (hd r)"
  shows "first_run ok (ds @ r) = (if ok r then Some ds else first_run ok r)"
proof -
  obtain d es where "ds = d # es" using assms(2) by (cases ds) auto
  moreover have "takeWhile is_digit r = []" "dropWhile is_digit r = r" using assms(3) by (cases r; auto)+
  ultimately show ?thesis using assms(1) by simp
qed

lemma seconds_match_digits:
  assumes "\<forall>c\<in>set ds. is_digit c" "ds \<noteq> []" "r = [] \<or> \<not> is_digit (hd r)"
  shows "seconds_match (ds @ r) =
    (if starts_with r ''s'' then Some ds
     else if starts_with r ''.'' then
       (if starts_with (dropWhile is_digit (tl r)) ''s'' then Some (ds @ ''.'' @ takeWhile is_digit (tl r))
        else seconds_match (tl r))
     else seconds_match r)"
proof -
  obtain d es where "ds = d # es" using assms(2) by (cases ds) auto
  moreover have "takeWhile is_digit r = []" "dropWhile is_digit r = r" using assms(3) by (cases r; auto)+
  ultimately show ?thesis using assms(1) by (simp add: Let_def)
qed

lemma not_digit_units [simp]: "\<not> is_digit (CHR ''h'')" "\<not> is_digit (CHR ''s'')"
  by (simp_all add: is_digit_def)

lemmas match_defs = hours_match_def minutes_match_def milliseconds_match_def starts_with_def go_fraction_def
  go_seconds_def go_milliseconds_def

lemma run_nat_str [simp]:
  "r = [] \<or> \<not> is_digit (hd r) \<Longrightarrow> first_run ok (nat_str n @ r) = (if ok r then Some (nat_str n) else first_run ok r)"
  using first_run_digits [of "nat_str n"] nat_str_digits by simp

lemma seconds_nat_str [simp]:
  "r = [] \<or> \<not> is_digit (hd r) \<Longrightarrow> seconds_match (nat_str n @ r) =
    (if starts_with r ''s'' then Some (nat_str n)
     else if starts_with r ''.'' then
       (if starts_with (dropWhile is_digit (tl r)) ''s'' then Some (nat_str n @ ''.'' @ takeWhile is_digit (tl r))
        else seconds_match (tl r))
     else seconds_match r)"
  using seconds_match_digits [of "nat_str n"] nat_str_digits by simp

lemma parse_nat_str [simp]:
  "parse_int (nat_str n) = Fin (of_nat n)" "parse_float (nat_str n) = Fin (of_nat n)"
  using parse_int_nat_str [of "[]" n] parse_float_digits(2) [of "nat_str n"] nat_str_digits
  by (auto simp: stops_digits_def)

lemma fraction_value:
  assumes "\<forall>c\<in>set fp. is_digit c"
  shows "finite_value (parse_float (nat_str n @ CHR ''.'' # fp)) = of_nat n + of_nat (digits_val fp) / 10 ^ length fp"
  using parse_float_digits(1) [of "nat_str n" fp] assms nat_str_digits
  by (simp add: finite_value_def digits_val_append add_divide_distrib)

lemma fraction_runs:
  assumes "\<forall>c\<in>set fp. is_digit c" "fp \<noteq> []"
  shows "takeWhile is_digit (fp @ CHR ''s'' # r) = fp"
    "dropWhile is_digit (fp @ CHR ''s'' # r) = CHR ''s'' # r" "takeWhile is_digit (fp @ CHR ''m'' # r) = fp"
    "dropWhile is_digit (fp @ CHR ''m'' # r) = CHR ''m'' # r"
    "first_run ok (fp @ CHR ''s'' # r) = (if ok (CHR ''s'' # r) then Some fp else first_run ok r)"
    "first_run ok (fp @ CHR ''m'' # r) = (if ok (CHR ''m'' # r) then Some fp else first_run ok r)"
    "seconds_match (fp @ CHR ''m'' # r) = seconds_match r"
  using assms first_run_digits [of fp] seconds_match_digits [of fp] by (simp_all add: starts_with_def)

text \<open>Reading the seconds of a duration, after its hours and minutes.\<close>

definition tail_of :: "nat \<Rightarrow> string \<Rightarrow> string" where
  "tail_of s fp = nat_str s @ go_fraction fp @ ''s''"

lemma tail_matches:
  assumes "\<forall>c\<in>set fp. is_digit c"
  shows "hours_match (tail_of s fp) = None" "minutes_match (tail_of s fp) = None"
    "milliseconds_match (tail_of s fp) = None" "seconds_match (tail_of s fp) = Some (nat_str s @ go_fraction fp)"
  using assms by (cases "fp = []"; simp add: tail_of_def match_defs fraction_runs)+

lemma tail_value:
  assumes "\<forall>c\<in>set fp. is_digit c"
  shows "finite_value (parse_float (nat_str s @ go_fraction fp)) = of_nat s + of_nat (digits_val fp) / 10 ^ length fp"
  using fraction_value [OF assms] by (simp add: go_fraction_def finite_value_def)

section \<open>Days are not shown\<close>

text \<open>
  The parts of an interval, as date-fns documents them: the hours are what is left after whole days.
  The days are not asked for, so that a wait that is longer by whole days is shown by the same text.
\<close>

definition splits_days :: "(rat \<Rightarrow> interval) \<Rightarrow> bool" where
  "splits_days f \<longleftrightarrow> (\<forall>n t. 0 \<le> t \<longrightarrow> iv_hours (f (86400000 * of_nat n + t)) = iv_hours (f t) \<and>
     iv_minutes (f (86400000 * of_nat n + t)) = iv_minutes (f t) \<and> iv_seconds (f (86400000 * of_nat n + t)) = iv_seconds (f t))"

lemma days_not_shown:
  assumes "splits_days f" "0 \<le> s"
  shows "formatSecondsToDuration f hms_text (86400 * of_nat n + s) = formatSecondsToDuration f hms_text s"
proof -
  have "(86400 * of_nat n + s) * 1000 = 86400000 * of_nat n + s * 1000" by (simp add: algebra_simps)
  moreover have "0 \<le> s * 1000" using assms(2) by simp
  ultimately show ?thesis using assms(1) by (simp add: formatSecondsToDuration_def splits_days_def Let_def)
qed

definition day_interval :: "rat \<Rightarrow> interval" where
  "day_interval t = (let s = nat \<lfloor>t / 1000\<rfloor> in
     \<lparr>iv_days = s div 86400, iv_hours = s mod 86400 div 3600, iv_minutes = s mod 3600 div 60, iv_seconds = s mod 60\<rparr>)"

lemma day_interval_splits: "splits_days day_interval"
proof -
  have "nat \<lfloor>(86400000 * of_nat n + t) / 1000\<rfloor> = 86400 * n + nat \<lfloor>t / 1000\<rfloor>" if "0 \<le> t" for n and t :: rat
  proof -
    have "(86400000 * of_nat n + t) / 1000 = of_int (86400 * int n) + t / 1000" by simp
    then have "\<lfloor>(86400000 * of_nat n + t) / 1000\<rfloor> = 86400 * int n + \<lfloor>t / 1000\<rfloor>" by linarith
    then show ?thesis using that by (simp add: nat_add_distrib)
  qed
  moreover have "(86400 * n + s) mod 86400 = s mod 86400" "(86400 * n + s) mod 3600 = s mod 3600"
    "(86400 * n + s) mod 60 = s mod 60" for n s :: nat
    using mod_mult_self4 [of 86400 n s] mod_mult_self4 [of 3600 "24 * n" s] mod_mult_self4 [of 60 "1440 * n" s]
    by simp_all
  ultimately show ?thesis by (simp add: splits_days_def day_interval_def Let_def)
qed

lemma a_day_and_an_hour: "formatSecondsToDuration day_interval hms_text 90000 = hms_text 1 0 0"
  by (simp add: formatSecondsToDuration_def day_interval_def)

section \<open>Properties\<close>

text \<open>The schedule section reads what Go prints: of a duration of a second or more, with or without hours,
  minutes and a fraction, it gets the exact number of seconds. Of a duration in milliseconds it gets
  the value only if there is no fraction: with one, it takes the digits of the fraction for the
  milliseconds and forgets the whole part.\<close>

theorem duration_read:
  assumes "\<forall>c\<in>set fp. is_digit c"
  shows "parseDurationString (go_seconds h m s fp) =
      3600 * of_nat h + 60 * of_nat m + of_nat s + of_nat (digits_val fp) / 10 ^ length fp \<and>
    parseDurationString (go_milliseconds n fp) = (if fp = [] then of_nat n else of_nat (digits_val fp)) / 1000"
proof
  have split: "go_seconds h m s fp =
    (if 0 < h then nat_str h @ CHR ''h'' # nat_str m @ CHR ''m'' # tail_of s fp
     else if 0 < m then nat_str m @ CHR ''m'' # tail_of s fp else tail_of s fp)"
    by (simp add: go_seconds_def tail_of_def)
  obtain d ds where d: "tail_of s fp = d # ds" "is_digit d"
    using nat_str_digits [of s] by (cases "nat_str s") (auto simp: tail_of_def)
  have after: "hours_match (CHR ''m'' # tail_of s fp) = None" "milliseconds_match (CHR ''m'' # tail_of s fp) = None"
      "seconds_match (CHR ''m'' # tail_of s fp) = Some (nat_str s @ go_fraction fp)"
      "minutes_match (CHR ''m'' # tail_of s fp) = None"
    using tail_matches [OF assms, of s] d by (simp_all add: hours_match_def minutes_match_def milliseconds_match_def)
  have mins: "hours_match (nat_str m @ CHR ''m'' # tail_of s fp) = None"
      "milliseconds_match (nat_str m @ CHR ''m'' # tail_of s fp) = None"
      "seconds_match (nat_str m @ CHR ''m'' # tail_of s fp) = Some (nat_str s @ go_fraction fp)"
      "minutes_match (nat_str m @ CHR ''m'' # tail_of s fp) = Some (nat_str m)"
    using after d by (auto simp: hours_match_def minutes_match_def milliseconds_match_def starts_with_def)
  show "parseDurationString (go_seconds h m s fp) =
      3600 * of_nat h + 60 * of_nat m + of_nat s + of_nat (digits_val fp) / 10 ^ length fp"
  proof (cases "0 < h")
    case True
    have "hours_match (go_seconds h m s fp) = Some (nat_str h)"
        "milliseconds_match (go_seconds h m s fp) = None"
        "seconds_match (go_seconds h m s fp) = Some (nat_str s @ go_fraction fp)"
        "minutes_match (go_seconds h m s fp) = Some (nat_str m)"
      using True mins unfolding split
      by (simp_all add: hours_match_def minutes_match_def milliseconds_match_def starts_with_def)
    moreover have "go_seconds h m s fp \<noteq> []" by (simp add: split tail_of_def)
    ultimately show ?thesis
      using tail_value [OF assms, of s] by (simp add: parseDurationString_def read_match_def finite_value_def)
  next
    case False
    show ?thesis
    proof (cases "0 < m")
      case True
      then have eq: "go_seconds h m s fp = nat_str m @ CHR ''m'' # tail_of s fp" using False split by simp
      show ?thesis
        unfolding eq using False mins tail_value [OF assms, of s]
        by (simp add: parseDurationString_def read_match_def finite_value_def del: run_nat_str seconds_nat_str)
    next
      case none: False
      then have eq: "go_seconds h m s fp = tail_of s fp" using False split by simp
      show ?thesis
        unfolding eq using False none d tail_matches [OF assms, of s] tail_value [OF assms, of s]
        by (simp add: parseDurationString_def read_match_def finite_value_def)
    qed
  qed
  have "go_milliseconds n fp \<noteq> []" by (simp add: go_milliseconds_def)
  moreover have "parse_int fp = Fin (of_nat (digits_val fp))" if "fp \<noteq> []"
    using parse_int_digits [of fp "[]"] that assms by (simp add: stops_digits_def)
  ultimately show "parseDurationString (go_milliseconds n fp) =
      (if fp = [] then of_nat n else of_nat (digits_val fp)) / 1000"
    using assms by (cases "fp = []")
      (simp_all add: parseDurationString_def read_match_def finite_value_def match_defs fraction_runs)
qed

theorem duration_read_witness:
  "parseDurationString (go_seconds 1 2 3 ''5'') = 3600 + 120 + 3 + 5 / 10 \<and>
   parseDurationString (go_milliseconds 1 ''234'') = 234 / 1000"
proof -
  have "\<forall>c\<in>set ''5''. is_digit c" "\<forall>c\<in>set ''234''. is_digit c" by (simp_all add: is_digit_def)
  moreover have "digits_val ''5'' = 5" "digits_val ''234'' = 234" by (simp_all add: digits_val_def char_val_def)
  ultimately show ?thesis
    using duration_read [of "''5''" 1 2 3 0] duration_read [of "''234''" 0 0 0 1] by simp
qed

end
