(* ===== verification/Publish.thy ===== *)
theory Publish
  imports Templates
begin

text \<open>
  \<open>components/job/publish.tsx\<close>: publishing the configuration of a form as a template that other users
  can start from, and what \<open>loadTemplate\<close> makes of it.
\<close>

record PublishSearch =
  ps_fromTemplate :: "int option"
  ps_fromJob :: "string option"

text \<open>\<open>Number(x) || undefined\<close> and \<open>x || undefined\<close>, for a whole number and a string of the URL.\<close>

definition publishValidateSearch :: "int option \<Rightarrow> string option \<Rightarrow> PublishSearch" where
  "publishValidateSearch fromTemplate fromJob =
     \<lparr>ps_fromTemplate = (if fromTemplate = Some 0 then None else fromTemplate),
      ps_fromJob = (if fromJob = Some [] then None else fromJob)\<rparr>"

record publish_values =
  pv_name :: string
  pv_description :: "string option"
  pv_document :: "string option"

definition publish_formSchema :: "publish_values \<Rightarrow> bool" where
  "publish_formSchema v \<longleftrightarrow> 1 \<le> length (pv_name v)"

definition isUpdate :: "int option \<Rightarrow> JobTemplate option \<Rightarrow> string option \<Rightarrow> bool" where
  "isUpdate fromTemplate templateData user \<longleftrightarrow>
     fromTemplate \<noteq> None \<and> fromTemplate \<noteq> Some 0 \<and> map_option (\<lambda>t. ui_username (jt_userInfo t)) templateData = user"

text \<open>
  The published text: the form's configuration, in which the home directory of the author has become
  the placeholder. The pattern is made of the author's name, which is read as it stands (names are
  lower-case letters, digits and dashes).
\<close>

definition formattedConfig :: "MetadataFormType \<Rightarrow> string option \<Rightarrow> json \<Rightarrow> string" where
  "formattedConfig config user data =
     (let json = json_stringify (job_submit config data) in
      if str_includes json (own_home user) then replace_all (own_home user) home_placeholder json else json)"

definition or_empty :: "string option \<Rightarrow> string" where
  "or_empty s = (case s of None \<Rightarrow> [] | Some v \<Rightarrow> v)"

definition createTemplate ::
  "int option \<Rightarrow> JobTemplate option \<Rightarrow> string option \<Rightarrow> MetadataFormType \<Rightarrow> json \<Rightarrow> publish_values \<Rightarrow> http_request" where
  "createTemplate fromTemplate templateData user config data values =
     (let req = \<lparr>jq_describe = or_empty (pv_description values), jq_name = pv_name values,
                 jq_document = or_empty (pv_document values), jq_template = formattedConfig config user data\<rparr> in
      if isUpdate fromTemplate templateData user then updateJobTemplate req (the fromTemplate)
      else createJobTemplate req)"

definition publish_defaults :: "int option \<Rightarrow> JobTemplate option \<Rightarrow> string option \<Rightarrow> publish_values" where
  "publish_defaults fromTemplate templateData user =
     (case templateData of
        Some t \<Rightarrow> if isUpdate fromTemplate templateData user
          then \<lparr>pv_name = jt_name t, pv_description = Some (jt_describe t), pv_document = Some (jt_document t)\<rparr>
          else \<lparr>pv_name = [], pv_description = Some [], pv_document = Some []\<rparr>
      | None \<Rightarrow> \<lparr>pv_name = [], pv_description = Some [], pv_document = Some []\<rparr>)"

section \<open>Replacing there and back\<close>

text \<open>The placeholder overlaps with itself only completely.\<close>

definition border_free :: "string \<Rightarrow> bool" where
  "border_free p \<longleftrightarrow> p \<noteq> [] \<and> list_all (\<lambda>i. \<not> prefix (drop i p) p) [1..<length p]"

lemma replace_all_Cons:
  "h \<noteq> [] \<Longrightarrow> replace_all h r (c # s) =
     (if prefix h (c # s) then r @ replace_all h r (drop (length h) (c # s)) else c # replace_all h r s)"
  by (subst replace_all.simps) simp

lemma replace_all_Nil [simp]: "replace_all h r [] = []"
  by (subst replace_all.simps) simp

lemma prefix_of_replaced:
  assumes "border_free p" "h \<noteq> []"
  shows "prefix (drop i p) (replace_all h p s) \<Longrightarrow> 0 < i \<Longrightarrow> prefix (drop i p) s"
proof (induction s arbitrary: i)
  case Nil
  then show ?case by simp
next
  case (Cons c cs)
  show ?case
  proof (cases "i < length p")
    case False
    then show ?thesis by simp
  next
    case i: True
    show ?thesis
    proof (cases "prefix h (c # cs)")
      case True
      then have "prefix (drop i p) (p @ replace_all h p (drop (length h) (c # cs)))"
        using Cons.prems(1) by (simp add: replace_all_Cons [OF assms(2)])
      then have "prefix (drop i p) p" by (rule prefix_length_prefix) auto
      with assms(1) i Cons.prems(2) show ?thesis by (auto simp: border_free_def list_all_iff)
    next
      case False
      have p: "drop i p = p ! i # drop (Suc i) p" using i by (simp add: Cons_nth_drop_Suc)
      have "prefix (drop i p) (c # replace_all h p cs)"
        using Cons.prems(1) False by (simp add: replace_all_Cons [OF assms(2)])
      then have "p ! i = c" "prefix (drop (Suc i) p) (replace_all h p cs)" unfolding p by auto
      then show ?thesis using Cons.IH [of "Suc i"] unfolding p by simp
    qed
  qed
qed

lemma replace_replace:
  assumes "border_free p" "h \<noteq> []"
  shows "\<not> str_includes s p \<Longrightarrow> replace_all p r (replace_all h p s) = replace_all h r s"
proof (induction s rule: length_induct)
  case (1 s)
  obtain d ds where p: "p = d # ds" using assms(1) by (cases p) (auto simp: border_free_def)
  show ?case
  proof (cases s)
    case Nil
    then show ?thesis by simp
  next
    case (Cons c cs)
    show ?thesis
    proof (cases "prefix h (c # cs)")
      case True
      have "\<not> str_includes (drop (length h) s) p"
        using 1(2) by (metis append_take_drop_id str_includes_append_left)
      moreover have "length (drop (length h) s) < length s" using assms(2) Cons by simp
      ultimately have IH: "replace_all p r (replace_all h p (drop (length h) s)) = replace_all h r (drop (length h) s)"
        using 1(1) by blast
      have "replace_all p r (p @ x) = r @ replace_all p r x" for x
        using p replace_all_Cons [of p r d "ds @ x"] by simp
      with IH True show ?thesis unfolding Cons by (simp add: replace_all_Cons [OF assms(2)])
    next
      case False
      have "\<not> str_includes cs p" using 1(2) Cons by (metis append_Cons append_Nil str_includes_append_left)
      then have IH: "replace_all p r (replace_all h p cs) = replace_all h r cs" using 1(1) Cons by simp
      have "\<not> prefix p (c # replace_all h p cs)"
      proof
        assume pre: "prefix p (c # replace_all h p cs)"
        with p have "prefix (drop 1 p) (replace_all h p cs)" "d = c" by auto
        then have "prefix (drop 1 p) cs" using prefix_of_replaced [OF assms, of 1 cs] by simp
        with p \<open>d = c\<close> have "prefix p (c # cs)" by simp
        with 1(2) Cons show False by (auto simp: str_includes_def)
      qed
      moreover have "p \<noteq> []" using p by simp
      ultimately show ?thesis
        using IH False unfolding Cons by (simp add: replace_all_Cons [OF assms(2)] replace_all_Cons)
    qed
  qed
qed

lemma placeholder_border_free: "border_free home_placeholder"
proof -
  have "list_all (\<lambda>i. \<not> prefix (drop i home_placeholder) home_placeholder) [1..<length home_placeholder]"
    by (simp add: home_placeholder_def upt_rec)
  then show ?thesis by (auto simp: border_free_def home_placeholder_def list_all_iff)
qed

section \<open>Properties\<close>

text \<open>C24. A template that its author publishes and another user loads: the loaded configuration is the
  published one with the author's home directory replaced by the reader's, text for text; so the
  author gets exactly the form back that was published, repaired as every loaded configuration is.\<close>

theorem template_shared:
  assumes "wf_json data" "\<not> str_includes (exportToJsonString config data) home_placeholder"
  shows "loadTemplate config dataProcessor us reader (Some (formattedConfig config author data)) st =
      (case importFromJsonString config (replace_all (own_home author) (own_home reader) (exportToJsonString config data)) of
         Inl e \<Rightarrow> show_load_error e st
       | Inr v \<Rightarrow> (let st = st\<lparr>ld_templateData := Some (formattedConfig config author data)\<rparr> in
           case dataProcessor v of Inl e \<Rightarrow> show_load_error e st | Inr v' \<Rightarrow> fill_form us v' st)) \<and>
    replace_all (own_home author) (own_home author) (exportToJsonString config data) = exportToJsonString config data \<and>
    (dataProcessor (Some data) = Inr v \<longrightarrow>
      ld_form (loadTemplate config dataProcessor us author (Some (formattedConfig config author data)) st) = v)"
proof -
  have home: "own_home user \<noteq> []" for user by (simp add: own_home_def)
  have swap: "replace_all home_placeholder (own_home user) (formattedConfig config author data)
      = replace_all (own_home author) (own_home user) (exportToJsonString config data)" for user
  proof (cases "str_includes (exportToJsonString config data) (own_home author)")
    case True
    then show ?thesis
      using replace_replace [OF placeholder_border_free home assms(2)]
      by (simp add: formattedConfig_def exportToJsonString_def)
  next
    case False
    then show ?thesis
      using replace_all_absent [OF assms(2)] replace_all_absent [OF False]
      by (simp add: formattedConfig_def exportToJsonString_def)
  qed
  have same: "replace_all h h s = s" if "h \<noteq> []" for h s
  proof (induction s rule: length_induct)
    case (1 s)
    show ?case
    proof (cases s)
      case (Cons c cs)
      with that have "length (drop (length h) s) < length s" "length cs < length s" by simp_all
      with 1 have "replace_all h h (drop (length h) s) = drop (length h) s" "replace_all h h cs = cs" by blast+
      with Cons show ?thesis
        by (auto simp: replace_all_Cons [OF that] prefix_def)
    qed simp
  qed
  show ?thesis
    using import_exported [OF assms(1), of config config] same [OF home]
    by (simp add: loadTemplate_def swap fill_form_def Let_def)
qed

theorem template_shared_witness:
  "ld_form (loadTemplate MetadataFormCustom Inr [] (Some ''li'')
     (Some (formattedConfig MetadataFormCustom (Some ''li'') (JStr ''/home/li'')))
     \<lparr>ld_form = None, ld_templateData = None, ld_ui = [], ld_done = 0, ld_toasts = [], ld_imagePackName = []\<rparr>) =
   Some (JStr ''/home/li'')"
proof -
  have "CHR ''$'' \<notin> set (exportToJsonString MetadataFormCustom (JStr ''/home/li''))"
    by (simp add: exportToJsonString_def job_submit_def json_stringify_def MetadataFormCustom_def esc_str_def esc_char_def
        nl_indent_def)
  then have "\<not> str_includes (exportToJsonString MetadataFormCustom (JStr ''/home/li'')) home_placeholder"
    by (intro not_includes_char [of "CHR ''$''"]) (simp_all add: home_placeholder_def del: char.inject)
  then show ?thesis
    using template_shared [of "JStr ''/home/li''" MetadataFormCustom Inr "[]" "Some ''li''" "Some ''li''" _ "Some (JStr ''/home/li'')",
        THEN conjunct2, THEN conjunct2, rule_format]
    by simp
qed

end
