(* ===== verification/Uri.thy ===== *)
theory Uri
  imports Wire
begin

text \<open>
  Reading URLs: \<open>decodeURIComponent\<close>, the inverse of \<open>encodeURIComponent\<close>, and the path part of a
  URL, which is what a request to it names at the server.
\<close>

text \<open>
  \<open>None\<close> is the \<open>URIError\<close> the function throws. Strings hold characters below 256, so the
  sequences of three and four bytes, whose characters are beyond them, are refused too.
\<close>

fun decodeURIComponent :: "string \<Rightarrow> string option" where
  "decodeURIComponent [] = Some []"
| "decodeURIComponent (c # cs) =
     (if c \<noteq> CHR ''%'' then map_option (Cons c) (decodeURIComponent cs)
      else (case cs of
          a # b # r \<Rightarrow>
            (case (hex_val a, hex_val b) of
               (Some h, Some l) \<Rightarrow>
                 if 16 * h + l < 128 then map_option (Cons (char_of (16 * h + l))) (decodeURIComponent r)
                 else if 16 * h + l = 194 \<or> 16 * h + l = 195 then
                   (case r of
                      p # a' # b' # r' \<Rightarrow>
                        (case (hex_val a', hex_val b') of
                           (Some h', Some l') \<Rightarrow>
                             if p = CHR ''%'' \<and> 128 \<le> 16 * h' + l' \<and> 16 * h' + l' < 192
                             then map_option (Cons (char_of ((16 * h + l - 192) * 64 + (16 * h' + l' - 128)))) (decodeURIComponent r')
                             else None
                         | _ \<Rightarrow> None)
                    | _ \<Rightarrow> None)
                 else None
             | _ \<Rightarrow> None)
        | _ \<Rightarrow> None))"

text \<open>A request is sent to the path before the query and the fragment.\<close>

definition url_path :: "string \<Rightarrow> string" where
  "url_path url = takeWhile (\<lambda>c. c \<noteq> CHR ''?'' \<and> c \<noteq> CHR ''#'') url"

definition url_safe :: "string \<Rightarrow> bool" where
  "url_safe s \<longleftrightarrow> CHR ''?'' \<notin> set s \<and> CHR ''#'' \<notin> set s"

lemma url_path_safe [simp]: "url_safe s \<Longrightarrow> url_path (s @ t) = s @ url_path t"
  by (auto simp: url_safe_def url_path_def intro!: takeWhile_append2)

lemma url_path_safe_all: "url_safe s \<Longrightarrow> url_path s = s"
  using url_path_safe [of s "[]"] by (simp add: url_path_def)

lemma url_safe_simps [simp]:
  "url_safe []" "url_safe (c # s) \<longleftrightarrow> c \<noteq> CHR ''?'' \<and> c \<noteq> CHR ''#'' \<and> url_safe s"
  "url_safe (s @ t) \<longleftrightarrow> url_safe s \<and> url_safe t"
  by (auto simp: url_safe_def)

lemma url_path_cut: "url_path s = s \<longleftrightarrow> url_safe s"
  by (auto simp: url_path_def url_safe_def takeWhile_eq_all_conv)

lemma hex_val_digit [simp]: "d < 16 \<Longrightarrow> hex_val (hex_digit d) = Some d"
  by (simp add: hex_val_def hex_digit_def Let_def)

lemma hex_bytes: "n < 256 \<Longrightarrow> n div 16 < (16 :: nat)" "n mod 16 < (16 :: nat)"
  by auto

lemma decode_encode_char: "decodeURIComponent (encode_char c @ s) = map_option (Cons c) (decodeURIComponent s)"
proof (cases "uri_unreserved c")
  case True
  then have "c \<noteq> CHR ''%''" by (auto simp: uri_unreserved_def)
  with True show ?thesis by (simp add: encode_char_def Let_def)
next
  case False
  define n where "n = (of_char c :: nat)"
  have n: "n < 256" "char_of n = c" by (simp_all add: n_def)
  show ?thesis
  proof (cases "n < 128")
    case True
    then have "encode_char c = [CHR ''%'', hex_digit (n div 16), hex_digit (n mod 16)]"
      using False by (simp add: encode_char_def pct_byte_def n_def Let_def)
    then show ?thesis using True n hex_bytes(1) [OF n(1)] hex_bytes(2) [of n] by simp
  next
    case ge: False
    have lead: "192 + n div 64 < 256" "n div 64 = 2 \<or> n div 64 = 3" using n(1) ge by linarith+
    have rest: "128 + n mod 64 < 256" "n mod 64 < 64" by (auto simp: less_le_trans)
    have enc: "encode_char c = [CHR ''%'', hex_digit ((192 + n div 64) div 16), hex_digit ((192 + n div 64) mod 16),
        CHR ''%'', hex_digit ((128 + n mod 64) div 16), hex_digit ((128 + n mod 64) mod 16)]"
      using False ge by (simp add: encode_char_def pct_byte_def n_def Let_def)
    have "(192 + n div 64 - 192) * 64 + (128 + n mod 64 - 128) = n" by simp
    with lead rest n(2) show ?thesis
      unfolding enc
      using hex_bytes(1) [OF lead(1)] hex_bytes(1) [OF rest(1)] hex_bytes(2)
      by (auto simp: div_mult_mod_eq)
  qed
qed

lemma decode_encode: "decodeURIComponent (encodeURIComponent s) = Some s"
  by (induction s) (simp_all add: encodeURIComponent_def decode_encode_char)

lemma hex_digit_unreserved: "d < 16 \<Longrightarrow> uri_unreserved (hex_digit d)"
  by (simp add: hex_digit_def uri_unreserved_def Let_def)

lemma encode_chars: "c \<in> set (encodeURIComponent s) \<Longrightarrow> uri_unreserved c \<or> c = CHR ''%''"
proof -
  have pct: "uri_unreserved c \<or> c = CHR ''%''" if "c \<in> set (pct_byte n)" "n < 256" for n
    using that hex_digit_unreserved [OF hex_bytes(1)] hex_digit_unreserved [OF hex_bytes(2)]
    by (auto simp: pct_byte_def)
  have "uri_unreserved c \<or> c = CHR ''%''" if "c \<in> set (encode_char d)" for d
  proof (cases "uri_unreserved d")
    case True
    with that show ?thesis by (simp add: encode_char_def Let_def)
  next
    case False
    have "(of_char d :: nat) < 256" by (rule nat_of_char_less_256)
    then have "192 + of_char d div 64 < (256 :: nat)" "128 + of_char d mod 64 < (256 :: nat)"
      by (linarith, simp add: less_le_trans)
    with that False pct \<open>of_char d < 256\<close> show ?thesis
      by (auto simp: encode_char_def Let_def split: if_splits)
  qed
  then show "c \<in> set (encodeURIComponent s) \<Longrightarrow> uri_unreserved c \<or> c = CHR ''%''"
    by (auto simp: encodeURIComponent_def)
qed

lemma encode_safe [simp]: "url_safe (encodeURIComponent s)"
  using encode_chars [of "CHR ''?''" s] encode_chars [of "CHR ''#''" s]
  by (auto simp: url_safe_def uri_unreserved_def)

end
