(* ===== verification/Files.thy ===== *)
theory Files
  imports Uri ApiData ApiErrors Forms
begin

text \<open>
  The file browser (\<open>components/file\<close>): the folder page \<open>file-system-table.tsx\<close> with its actions,
  the start page \<open>folder-navigation.tsx\<close>, the tree \<open>lazy-file-tree.tsx\<close>, the upload
  \<open>file-upload.tsx\<close>, and the mount sources \<open>data-mount-form-field.tsx\<close>. The titles of the
  three spaces, which come from the translations, are named by constructors.
\<close>

section \<open>Where the page is\<close>

text \<open>\<open>useIsAdmin\<close> (\<open>hooks/use-admin.tsx\<close>).\<close>

definition path_parts :: "string \<Rightarrow> string list" where
  "path_parts path = filter (\<lambda>s. s \<noteq> []) (split_char CHR ''/'' path)"

definition useIsAdmin :: "string \<Rightarrow> bool" where
  "useIsAdmin pathname = (case path_parts pathname of [] \<Rightarrow> False | p # ps \<Rightarrow> p = ''admin'')"

datatype folder_title =
    Title_public | Title_account | Title_default
  | Title_admin_public | Title_admin_account | Title_admin_default
  | Title_files
  | Title_name string

definition getFolderTitle :: "string \<Rightarrow> folder_title" where
  "getFolderTitle folder =
     (if folder = ''public'' then Title_public
      else if folder = ''account'' then Title_account
      else if folder = ''user'' then Title_default
      else if folder = ''admin-public'' then Title_admin_public
      else if folder = ''admin-account'' then Title_admin_account
      else if folder = ''admin-user'' then Title_admin_default
      else Title_name folder)"

text \<open>The breadcrumbs of a folder; \<open>None\<close> when a part of the path is not a valid encoding.\<close>

definition files_base :: "bool \<Rightarrow> string" where
  "files_base isAdmin = (if isAdmin then ''/admin/files'' else ''/portal/files'')"

definition crumb :: "bool \<Rightarrow> string list \<Rightarrow> nat \<Rightarrow> (folder_title \<times> string) option" where
  "crumb isAdmin parts i =
     map_option (\<lambda>v. (getFolderTitle v, files_base isAdmin @ ''/'' @ join_with ''/'' (take (Suc i) parts)))
       (decodeURIComponent (parts ! i))"

definition breadcrumb :: "bool \<Rightarrow> string \<Rightarrow> (folder_title \<times> string) list option" where
  "breadcrumb isAdmin path =
     (let parts = path_parts path; crumbs = map (crumb isAdmin parts) [0..<length parts] in
      if list_all (\<lambda>c. c \<noteq> None) crumbs then Some ((Title_files, files_base isAdmin) # map the crumbs) else None)"

section \<open>The listing\<close>

definition file_compare :: "(string \<Rightarrow> string \<Rightarrow> int) \<Rightarrow> FileItem \<Rightarrow> FileItem \<Rightarrow> int" where
  "file_compare localeCompare a b =
     (if fi_isdir a \<and> \<not> fi_isdir b then -1
      else if \<not> fi_isdir a \<and> fi_isdir b then 1
      else localeCompare (fi_name a) (fi_name b))"

definition list_files :: "(string \<Rightarrow> string \<Rightarrow> int) \<Rightarrow> FileItem list option \<Rightarrow> FileItem list" where
  "list_files localeCompare res =
     (case res of None \<Rightarrow> [] | Some fs \<Rightarrow> sort_by (file_compare localeCompare) fs)"

definition isRoot :: "string \<Rightarrow> bool" where
  "isRoot path \<longleftrightarrow> path = []"

definition canEdit :: "string \<Rightarrow> IUserContext option \<Rightarrow> bool" where
  "canEdit path token =
     (if starts_with path ''public'' then map_option uc_accessPublic token = Some AccessMode_ReadWrite
      else if starts_with path ''account'' then map_option uc_accessQueue token = Some AccessMode_ReadWrite
      else if starts_with path ''user'' \<or> starts_with path ''admin'' then True
      else False)"

section \<open>Actions on a file\<close>

text \<open>Deleting, moving and downloading the entry \<open>name\<close> of the folder \<open>path\<close>; a new folder in it.\<close>

definition deleteFile :: "string \<Rightarrow> string \<Rightarrow> http_request" where
  "deleteFile path name = apiFileDelete (path @ ''/'' @ name)"

definition moveFile :: "string \<Rightarrow> string \<Rightarrow> string \<Rightarrow> http_request" where
  "moveFile path name target =
     apiMoveFile \<lparr>mf_fileName = name, mf_dst = target @ ''/'' @ name\<rparr> (path @ ''/'' @ name)"

definition clientCreateDir :: "string \<Rightarrow> string \<Rightarrow> http_request option" where
  "clientCreateDir path dirName = (if dirName \<noteq> [] then Some (apiMkdir (path @ ''/'' @ dirName)) else None)"

definition MAX_FILE_SIZE :: int where "MAX_FILE_SIZE = 1024 * 1024 * 1024"

definition isFileSizeExceeded :: "int \<Rightarrow> bool" where
  "isFileSizeExceeded fileSize \<longleftrightarrow> MAX_FILE_SIZE < fileSize"

definition download_url :: "string \<Rightarrow> string \<Rightarrow> string" where
  "download_url path name =
     ''ss/download'' @ (if path \<noteq> [] then (if starts_with path ''/'' then path else ''/'' @ path) else []) @ ''/'' @ name"

text \<open>\<open>None\<close> when the size is known, not zero and over the limit: only a message is shown.\<close>

definition handleDownload :: "string \<Rightarrow> strobj \<Rightarrow> string \<Rightarrow> string \<Rightarrow> int option \<Rightarrow> xhr_request option" where
  "handleDownload baseURL ls path name bytes =
     (if (case bytes of None \<Rightarrow> False | Some n \<Rightarrow> n \<noteq> 0 \<and> isFileSizeExceeded n) then None
      else Some (apiXMLDownload_request baseURL ls (download_url path name)))"

text \<open>\<open>Math.round(loaded * 100 / total)\<close>, for a total that is not zero.\<close>

definition percent :: "nat \<Rightarrow> nat \<Rightarrow> int" where
  "percent loaded all = \<lfloor>of_nat (loaded * 100) / of_nat all + (1 / 2 :: rat)\<rfloor>"

section \<open>Uploading\<close>

text \<open>
  The component's state. The two timers are the ones the upload's end starts; \<open>up_read\<close> is a file
  whose bytes are being read, \<open>up_sending\<close> the URL the bytes are sent to.
\<close>

record upload =
  up_isUploading :: bool
  up_progress :: int
  up_isProcessing :: bool
  up_currentFile :: "string option"
  up_read :: "string option"
  up_sending :: "string option"
  up_timer500 :: bool
  up_timer1000 :: bool

definition upload_start :: upload where
  "upload_start = \<lparr>up_isUploading = False, up_progress = 0, up_isProcessing = False, up_currentFile = None,
     up_read = None, up_sending = None, up_timer500 = False, up_timer1000 = False\<rparr>"

definition upload_disabled :: "bool \<Rightarrow> upload \<Rightarrow> bool" where
  "upload_disabled disabled u \<longleftrightarrow> up_isUploading u \<or> disabled"

text \<open>\<open>handleUpload\<close> up to reading the first file, and the file name it sends.\<close>

definition handleUpload :: "string \<Rightarrow> upload \<Rightarrow> upload" where
  "handleUpload name u = u\<lparr>up_isUploading := True, up_progress := 0, up_currentFile := Some name, up_read := Some name\<rparr>"

definition upload_url :: "string \<Rightarrow> string \<Rightarrow> string" where
  "upload_url uploadPath name = ''ss/'' @ uploadPath @ ''/'' @ last (split_char CHR ''/'' name)"

definition handleFileChange :: "(string \<times> int) list \<Rightarrow> upload \<Rightarrow> upload" where
  "handleFileChange files u =
     (case files of [] \<Rightarrow> u
      | f # fs \<Rightarrow> if list_ex (\<lambda>f. isFileSizeExceeded (snd f)) files then u else handleUpload (fst f) u)"

definition on_upload_progress :: "nat \<Rightarrow> nat \<Rightarrow> upload \<Rightarrow> upload" where
  "on_upload_progress loaded all u =
     (let p = percent loaded (if all = 0 then 1 else all) in
      u\<lparr>up_progress := p, up_isProcessing := (if p = 100 then True else up_isProcessing u)\<rparr>)"

text \<open>
  \<open>Choose\<close>: the button was pressed and files were chosen. \<open>Read_bytes\<close>: the bytes are there, or
  reading them failed, which happens before the \<open>try\<close>. The others are the upload's own.
\<close>

datatype upload_event =
    Choose "(string \<times> int) list"
  | Read_bytes bool
  | Progress nat nat
  | Sent bool
  | Timer500
  | Timer1000

inductive upload_step :: "string \<Rightarrow> upload \<Rightarrow> upload_event \<Rightarrow> upload \<Rightarrow> bool" for uploadPath where
  up_choose: "\<not> upload_disabled False u \<Longrightarrow> upload_step uploadPath u (Choose fs) (handleFileChange fs u)"
| up_read_ok: "up_read u = Some name \<Longrightarrow> upload_step uploadPath u (Read_bytes True)
    (u\<lparr>up_read := None, up_sending := Some (upload_url uploadPath name)\<rparr>)"
| up_read_fail: "up_read u = Some name \<Longrightarrow> upload_step uploadPath u (Read_bytes False) (u\<lparr>up_read := None\<rparr>)"
| up_progress: "up_sending u \<noteq> None \<Longrightarrow> loaded \<le> all \<Longrightarrow>
    upload_step uploadPath u (Progress loaded all) (on_upload_progress loaded all u)"
| up_sent: "up_sending u \<noteq> None \<Longrightarrow> upload_step uploadPath u (Sent ok)
    (u\<lparr>up_sending := None, up_timer500 := ok, up_timer1000 := True\<rparr>)"
| up_timer500: "up_timer500 u \<Longrightarrow> upload_step uploadPath u Timer500 (u\<lparr>up_timer500 := False, up_progress := 0\<rparr>)"
| up_timer1000: "up_timer1000 u \<Longrightarrow> \<not> up_timer500 u \<Longrightarrow> upload_step uploadPath u Timer1000
    (u\<lparr>up_timer1000 := False, up_isUploading := False, up_isProcessing := False, up_progress := 0\<rparr>)"

inductive_cases upload_stepE: "upload_step uploadPath u e u'"

section \<open>The start page\<close>

text \<open>The comparison of two spaces, as it is written: anything but the listed cases is 1.\<close>

definition folder_compare :: "string \<Rightarrow> string \<Rightarrow> int" where
  "folder_compare a b = (if a = ''public'' then -1 else if a = ''account'' \<and> b = ''user'' then -1 else 1)"

definition sortFolders :: "FileItem list \<Rightarrow> FileItem list" where
  "sortFolders = sort_by (\<lambda>a b. folder_compare (fi_name a) (fi_name b))"

definition getAccessMode :: "string \<Rightarrow> IUserContext option \<Rightarrow> AccessMode" where
  "getAccessMode folder token =
     (case token of None \<Rightarrow> AccessMode_NotAllowed
      | Some t \<Rightarrow> if folder = ''public'' then uc_accessPublic t
          else if folder = ''account'' then uc_accessQueue t else AccessMode_ReadWrite)"

definition handleTitleNavigation :: "string \<Rightarrow> bool \<Rightarrow> string \<Rightarrow> string" where
  "handleTitleNavigation pathname isadmin name =
     pathname @ (if name = ''public'' then (if isadmin then ''/admin-public'' else ''/public'')
       else if name = ''account'' then (if isadmin then ''/admin-account'' else ''/account'')
       else (if isadmin then ''/admin-user'' else ''/user''))"

section \<open>The tree\<close>

text \<open>
  A node shows as many empty entries as its folder counts, until its first opening has fetched the
  folder; a click asks for the folder as long as no answer has come. Its id is its path.
\<close>

record tree_item =
  ti_path :: string
  ti_data :: FileItem
  ti_children :: "FileItem list"
  ti_initialized :: bool

definition placeholder :: FileItem where
  "placeholder = \<lparr>fi_isdir = False, fi_modifytime = [], fi_name = [], fi_size = 0\<rparr>"

definition has_children :: "FileItem \<Rightarrow> bool" where
  "has_children d \<longleftrightarrow> fi_isdir d \<and> 0 < fi_size d"

definition tree_node :: "string \<Rightarrow> FileItem \<Rightarrow> tree_item" where
  "tree_node currentPath d = \<lparr>ti_path = currentPath, ti_data = d,
     ti_children = (if has_children d then replicate (nat (fi_size d)) placeholder else []), ti_initialized = False\<rparr>"

definition tree_click :: "bool \<Rightarrow> tree_item \<Rightarrow> http_request option" where
  "tree_click isrw t =
     (if has_children (ti_data t) \<and> \<not> ti_initialized t
      then Some (if isrw then apiGetRWFiles (ti_path t) else apiGetFiles (ti_path t)) else None)"

definition tree_answer :: "(string \<Rightarrow> string \<Rightarrow> int) \<Rightarrow> FileItem list option \<Rightarrow> tree_item \<Rightarrow> tree_item" where
  "tree_answer localeCompare res t = t\<lparr>ti_children := list_files localeCompare res, ti_initialized := True\<rparr>"

definition child_nodes :: "tree_item \<Rightarrow> tree_item list" where
  "child_nodes t = map (\<lambda>d. tree_node (ti_path t @ ''/'' @ fi_name d) d) (ti_children t)"

section \<open>Mount sources\<close>

text \<open>What choosing a folder or file of the tree puts into a mount: its type, source and mount path.\<close>

definition mount_of_item :: "string \<Rightarrow> string \<Rightarrow> string \<Rightarrow> mount_form \<Rightarrow> mount_form" where
  "mount_of_item user path name m = m\<lparr>mt_subPath := path, mt_type := VolumeMountType_val FileType,
     mt_mountPath := (if path = ''user'' then ''/home/'' @ user
       else if path = ''account'' then ''/data/account''
       else if path = ''public'' then ''/data/public''
       else ''/data/'' @ name)\<rparr>"

definition unique_datasets :: "IDataset list \<Rightarrow> IDataset list" where
  "unique_datasets ds = rev (fold (\<lambda>d acc. if ds_name d \<in> ds_name ` set acc then acc else d # acc) ds [])"

text \<open>Choosing a dataset by its id, as the combobox of the datasets offers them.\<close>

definition mount_of_dataset :: "IDataset list \<Rightarrow> int \<Rightarrow> mount_form \<Rightarrow> mount_form" where
  "mount_of_dataset ds i m = m\<lparr>mt_subPath := int_str i, mt_type := VolumeMountType_val DataType, mt_datasetID := Some i,
     mt_mountPath := ''/data/'' @ (case find (\<lambda>d. ds_id d = i) (unique_datasets ds) of
        None \<Rightarrow> ''undefined'' | Some d \<Rightarrow> ds_name d)\<rparr>"

definition resetVolumeMountsFields :: "VolumeMountType \<Rightarrow> mount_form" where
  "resetVolumeMountsFields ty = \<lparr>mt_type = VolumeMountType_val ty, mt_subPath = [], mt_datasetID = None, mt_mountPath = []\<rparr>"

definition source_locked :: "string \<Rightarrow> mount_form \<Rightarrow> bool" where
  "source_locked user m \<longleftrightarrow> mt_mountPath m = ''/home/'' @ user"

section \<open>Lemmas\<close>

lemma strip_slash_append [simp]: "a \<noteq> [] \<Longrightarrow> strip_slash (a @ b) = strip_slash a @ b"
  by (cases a) auto

lemma strip_slash_safe [simp]: "url_safe a \<Longrightarrow> url_safe (strip_slash a)"
  by (cases a) auto

lemma comparator_files: "comparator cmp \<Longrightarrow> comparator (file_compare cmp)"
proof -
  assume "comparator cmp"
  then have laws: "cmp x y \<le> 0 \<or> cmp y x \<le> 0" "cmp x y \<le> 0 \<Longrightarrow> cmp y z \<le> 0 \<Longrightarrow> cmp x z \<le> 0" for x y z
    unfolding comparator_def by blast+
  show ?thesis
  proof
    show "file_compare cmp x y \<le> 0 \<or> file_compare cmp y x \<le> 0" for x y
      using laws(1) [of "fi_name x" "fi_name y"] by (auto simp: file_compare_def)
    show "file_compare cmp x y \<le> 0 \<Longrightarrow> file_compare cmp y z \<le> 0 \<Longrightarrow> file_compare cmp x z \<le> 0" for x y z
      using laws(2) [of "fi_name x" "fi_name y" "fi_name z"]
      by (cases "fi_isdir x"; cases "fi_isdir y"; cases "fi_isdir z") (simp_all add: file_compare_def)
  qed
qed

interpretation listing: comparator "file_compare compare_codes"
  by (rule comparator_files) (rule compare_codes)

text \<open>A list in which no element with the property follows one without it is cut in two.\<close>

lemma sorted_cut:
  "sorted_wrt (\<lambda>a b. P b \<longrightarrow> P a) xs \<Longrightarrow> xs = filter P xs @ filter (\<lambda>x. \<not> P x) xs"
proof (induction xs)
  case (Cons x xs)
  then show ?case
    by (cases "P x") (auto simp: filter_empty_conv filter_id_conv dest: filter_True)
qed simp

definition upload_inv :: "upload \<Rightarrow> bool" where
  "upload_inv u \<longleftrightarrow>
     (\<not> up_isUploading u \<longrightarrow> up_read u = None \<and> up_sending u = None \<and> \<not> up_timer1000 u) \<and>
     (up_read u \<noteq> None \<longrightarrow> up_sending u = None \<and> \<not> up_timer1000 u) \<and>
     (up_sending u \<noteq> None \<longrightarrow> \<not> up_timer1000 u) \<and>
     (up_timer500 u \<longrightarrow> up_timer1000 u) \<and> 0 \<le> up_progress u \<and> up_progress u \<le> 100"

lemma percent_bounds: "loaded \<le> all \<Longrightarrow> 0 < all \<Longrightarrow> 0 \<le> percent loaded all \<and> percent loaded all \<le> 100"
proof
  assume le: "loaded \<le> all" and pos: "0 < all"
  show "0 \<le> percent loaded all" by (simp add: percent_def)
  have "of_nat (loaded * 100) / of_nat all \<le> (100 :: rat)"
    using le pos by (simp add: divide_le_eq flip: of_nat_mult)
  then have "percent loaded all \<le> \<lfloor>100 + (1 / 2 :: rat)\<rfloor>" unfolding percent_def by (intro floor_mono) simp
  moreover have "\<lfloor>100 + (1 / 2 :: rat)\<rfloor> = 100" by (simp add: floor_eq_iff)
  ultimately show "percent loaded all \<le> 100" by simp
qed

lemma percent_mono: "a \<le> b \<Longrightarrow> percent a all \<le> percent b all"
  unfolding percent_def by (intro floor_mono add_right_mono divide_right_mono) simp_all

lemma percent_full: "loaded \<le> all \<Longrightarrow> 0 < all \<Longrightarrow> percent loaded all = 100 \<longleftrightarrow> 199 * all \<le> 200 * loaded"
proof -
  assume le: "loaded \<le> all" and pos: "0 < all"
  have "percent loaded all = 100 \<longleftrightarrow> 100 \<le> percent loaded all" using percent_bounds [OF le pos] by auto
  also have "\<dots> \<longleftrightarrow> (100 :: rat) - 1 / 2 \<le> of_nat (loaded * 100) / of_nat all"
    by (simp only: percent_def le_floor_iff of_int_numeral) linarith
  also have "\<dots> \<longleftrightarrow> (199 :: rat) * of_nat all \<le> 200 * of_nat loaded" using pos by (simp add: field_simps)
  also have "\<dots> \<longleftrightarrow> 199 * all \<le> 200 * loaded"
    using of_nat_le_iff [of "199 * all" "200 * loaded", where 'a = rat] by simp
  finally show ?thesis .
qed

lemma progress_inv:
  "up_sending u \<noteq> None \<Longrightarrow> upload_inv u \<Longrightarrow> loaded \<le> all \<Longrightarrow> upload_inv (on_upload_progress loaded all u)"
  using percent_bounds [of loaded "if all = 0 then 1 else all"]
  by (cases "all = 0") (auto simp: upload_inv_def on_upload_progress_def Let_def)

interpretation up: machine "upload_step uploadPath" "\<lambda>u. u = upload_start" upload_inv
proof
  show "u = upload_start \<Longrightarrow> upload_inv u" for u by (simp add: upload_start_def upload_inv_def)
  fix u e u'
  assume inv: "upload_inv u" and step: "upload_step uploadPath u e u'"
  from step show "upload_inv u'"
  proof cases
    case (up_progress loaded all)
    then show ?thesis using progress_inv inv by simp
  qed (use inv in \<open>auto simp: upload_inv_def upload_disabled_def handleFileChange_def handleUpload_def split: list.splits\<close>)
qed

lemma canEdit_space:
  "folder = ''public'' \<Longrightarrow> canEdit (folder @ rest) token \<longleftrightarrow> getAccessMode folder token = AccessMode_ReadWrite"
  "folder = ''account'' \<Longrightarrow> canEdit (folder @ rest) token \<longleftrightarrow> getAccessMode folder token = AccessMode_ReadWrite"
  "folder = ''user'' \<Longrightarrow> canEdit (folder @ rest) token"
  by (cases token; simp add: canEdit_def starts_with_def getAccessMode_def)+

lemma canEdit_admin: "canEdit ((''admin-'' @ folder) @ rest) token"
  by (simp add: canEdit_def starts_with_def)

section \<open>Properties\<close>

text \<open>What the actions of a folder page name at the server. The listing is encoded and carries exactly
  the folder. Deleting, moving, downloading and creating put the name into the URL as it is, and the
  server is told the part before the first question mark or number sign: the entry itself exactly when
  its name has neither.\<close>

theorem file_requests_target:
  assumes "url_safe path" "path \<noteq> []"
  shows "(\<exists>seg. rq_url (apiGetFiles path) = ''ss/files/'' @ seg \<and> url_safe seg \<and> CHR ''/'' \<notin> set seg \<and>
      decodeURIComponent seg = Some (strip_slash path)) \<and>
    url_path (rq_url (deleteFile path name)) = ''ss/delete/'' @ strip_slash path @ ''/'' @ url_path name \<and>
    url_path (rq_url (moveFile path name target)) = ''ss/move/'' @ strip_slash path @ ''/'' @ url_path name \<and>
    url_path (download_url path name) = ''ss/download/'' @ strip_slash path @ ''/'' @ url_path name \<and>
    (name \<noteq> [] \<longrightarrow> map_option (url_path \<circ> rq_url) (clientCreateDir path name) = Some (''ss/'' @ strip_slash path @ ''/'' @ url_path name)) \<and>
    (url_path name = name \<longleftrightarrow> url_safe name)"
proof -
  have slash: "url_path (CHR ''/'' # name) = CHR ''/'' # url_path name" by (simp add: url_path_def)
  have "strip_slash (path @ ''/'' @ name) = strip_slash path @ ''/'' @ name" using assms(2) by simp
  moreover have "url_safe (strip_slash path)" using assms(1) by simp
  moreover have "download_url path name = ''ss/download/'' @ strip_slash path @ ''/'' @ name"
    using assms(2) by (cases path) (auto simp: download_url_def starts_with_def)
  moreover have "url_safe ''ss/delete/''" "url_safe ''ss/move/''" "url_safe ''ss/download/''" "url_safe ''ss/''" by simp_all
  moreover have "\<exists>seg. rq_url (apiGetFiles path) = ''ss/files/'' @ seg \<and> url_safe seg \<and> CHR ''/'' \<notin> set seg \<and>
      decodeURIComponent seg = Some (strip_slash path)"
    by (intro exI [of _ "encodeURIComponent (strip_slash path)"]) (simp add: wire_defs decode_encode encode_no_slash)
  ultimately show ?thesis
    using slash url_path_cut [of name]
    by (simp add: deleteFile_def moveFile_def clientCreateDir_def wire_defs del: append.simps)
qed

theorem file_requests_target_witness:
  "url_path (rq_url (deleteFile ''user/a'' ''x#1'')) = ''ss/delete/user/a/x''"
  using file_requests_target [of "''user/a''" "''x#1''" "[]"] by (simp add: url_path_def)

text \<open>A listing shows every entry once, all folders before all files, each kind in the order of the
  names.\<close>

theorem listing_order:
  assumes "comparator localeCompare"
  shows "mset (list_files localeCompare (Some fs)) = mset fs \<and>
    (\<exists>ds rs. list_files localeCompare (Some fs) = ds @ rs \<and> list_all fi_isdir ds \<and> list_all (\<lambda>f. \<not> fi_isdir f) rs \<and>
       sorted_wrt (\<lambda>a b. localeCompare (fi_name a) (fi_name b) \<le> 0) ds \<and>
       sorted_wrt (\<lambda>a b. localeCompare (fi_name a) (fi_name b) \<le> 0) rs)"
proof -
  define xs where "xs = list_files localeCompare (Some fs)"
  have sorted: "sorted_wrt (\<lambda>a b. file_compare localeCompare a b \<le> 0) xs"
    using comparator.sorted_sort_by [OF comparator_files [OF assms], of fs] by (simp add: xs_def list_files_def)
  then have "sorted_wrt (\<lambda>a b. fi_isdir b \<longrightarrow> fi_isdir a) xs"
    by (rule sorted_wrt_mono_rel [rotated]) (auto simp: file_compare_def split: if_splits)
  then have cut: "xs = filter fi_isdir xs @ filter (\<lambda>f. \<not> fi_isdir f) xs" by (rule sorted_cut)
  have part: "sorted_wrt (\<lambda>a b. localeCompare (fi_name a) (fi_name b) \<le> 0) (filter P xs)"
    if "\<And>a b. P a \<Longrightarrow> P b \<Longrightarrow> fi_isdir a = fi_isdir b" for P
  proof (rule sorted_wrt_mono_rel)
    show "sorted_wrt (\<lambda>a b. file_compare localeCompare a b \<le> 0) (filter P xs)" using sorted by (rule sorted_wrt_filter)
    fix a b assume "a \<in> set (filter P xs)" "b \<in> set (filter P xs)" "file_compare localeCompare a b \<le> 0"
    then show "localeCompare (fi_name a) (fi_name b) \<le> 0" using that [of a b] by (simp add: file_compare_def)
  qed
  have "sorted_wrt (\<lambda>a b. localeCompare (fi_name a) (fi_name b) \<le> 0) (filter fi_isdir xs)"
    "sorted_wrt (\<lambda>a b. localeCompare (fi_name a) (fi_name b) \<le> 0) (filter (\<lambda>f. \<not> fi_isdir f) xs)"
    by (rule part; simp)+
  with cut show ?thesis
    unfolding xs_def [symmetric]
    by (intro conjI exI [of _ "filter fi_isdir xs"] exI [of _ "filter (\<lambda>f. \<not> fi_isdir f) xs"])
      (simp_all add: xs_def list_files_def list_all_iff)
qed

theorem listing_order_witness:
  "mset (list_files compare_codes (Some [placeholder])) = {#placeholder#}"
  using listing_order [OF compare_codes, of "[placeholder]"] by simp

text \<open>The actions that change a folder are offered in the two shared spaces exactly when the badge of
  the start page says that the visitor may write there, and always in the visitor's own space; the
  right of a space holds in every folder below it; and every space an administrator can enter from the
  start page can be changed.\<close>

theorem edit_rights:
  assumes "folder \<in> {''public'', ''account'', ''user''}"
  shows "(canEdit (folder @ rest) token \<longleftrightarrow> folder = ''user'' \<or> getAccessMode folder token = AccessMode_ReadWrite) \<and>
    (\<exists>space. handleTitleNavigation p True folder = p @ ''/'' @ space \<and> canEdit (space @ rest) token) \<and>
    (\<exists>space. handleTitleNavigation p False folder = p @ ''/'' @ space \<and> canEdit (space @ rest) token = canEdit (folder @ rest) token)"
proof -
  have nav: "handleTitleNavigation p True folder = p @ ''/'' @ (''admin-'' @ folder)"
    "handleTitleNavigation p False folder = p @ ''/'' @ folder"
    using assms by (auto simp: handleTitleNavigation_def)
  consider "folder = ''public''" | "folder = ''account''" | "folder = ''user''" using assms by blast
  then have "canEdit (folder @ rest) token \<longleftrightarrow> folder = ''user'' \<or> getAccessMode folder token = AccessMode_ReadWrite"
    by cases (use canEdit_space [of folder rest token] in blast)+
  with nav canEdit_admin [of folder rest token] show ?thesis by blast
qed

theorem edit_rights_witness:
  "canEdit ''public/data'' None \<longleftrightarrow> getAccessMode ''public'' None = AccessMode_ReadWrite"
  using edit_rights [of "''public''" "''/data''" None "[]"] by simp


definition demo_upload :: upload where
  "demo_upload = handleUpload ''a.txt'' upload_start"


text \<open>The breadcrumbs of a folder lead down to it step by step: each one's address is the one before it
  with the next part of the path. There are none, because decoding throws, exactly when a part of the path
  is not a valid encoding, as for a folder whose name ends in a percent sign.\<close>

theorem breadcrumb_steps:
  "case breadcrumb isAdmin path of
     None \<Rightarrow> list_ex (\<lambda>p. decodeURIComponent p = None) (path_parts path)
   | Some cs \<Rightarrow> list_all (\<lambda>p. decodeURIComponent p \<noteq> None) (path_parts path) \<and>
       length cs = Suc (length (path_parts path)) \<and> snd (hd cs) = files_base isAdmin \<and>
       list_all (\<lambda>i. snd (cs ! Suc i) = snd (cs ! i) @ ''/'' @ path_parts path ! i) [0..<length (path_parts path)]"
proof -
  define ps where "ps = path_parts path"
  have none: "crumb isAdmin ps i \<noteq> None \<longleftrightarrow> decodeURIComponent (ps ! i) \<noteq> None" for i
    by (simp add: crumb_def)
  show ?thesis
  proof (cases "breadcrumb isAdmin path")
    case None
    then have "\<exists>i < length ps. decodeURIComponent (ps ! i) = None"
      using none by (auto simp: breadcrumb_def Let_def list_all_iff ps_def split: if_splits)
    with None show ?thesis by (auto simp: list_ex_iff ps_def intro: nth_mem intro!: bexI)
  next
    case (Some cs)
    then have all: "\<forall>i < length ps. crumb isAdmin ps i \<noteq> None"
      and cs: "cs = (Title_files, files_base isAdmin) # map (the \<circ> crumb isAdmin ps) [0..<length ps]"
      by (auto simp: breadcrumb_def Let_def list_all_iff ps_def split: if_splits)
    have crumb: "snd (cs ! Suc i) = files_base isAdmin @ ''/'' @ join_with ''/'' (take (Suc i) ps)" if "i < length ps" for i
      using all that cs by (auto simp: crumb_def)
    have "snd (cs ! Suc i) = snd (cs ! i) @ ''/'' @ ps ! i" if "i < length ps" for i
    proof (cases i)
      case 0
      have "take (Suc 0) ps = [ps ! 0]" using that 0 by (cases ps) auto
      then show ?thesis using 0 crumb [OF that] cs by simp
    next
      case (Suc j)
      then have "take i ps \<noteq> []" using that by auto
      then have "join_with ''/'' (take (Suc i) ps) = join_with ''/'' (take i ps) @ ''/'' @ ps ! i"
        using that by (simp add: take_Suc_conv_app_nth join_with_snoc)
      then show ?thesis using crumb [OF that] crumb [of j] Suc that by simp
    qed
    moreover have "list_all (\<lambda>p. decodeURIComponent p \<noteq> None) ps"
      using all none by (auto simp: list_all_length)
    ultimately show ?thesis using Some cs by (simp add: ps_def list_all_iff)
  qed
qed

definition plain_name :: "string \<Rightarrow> bool" where
  "plain_name n \<longleftrightarrow> \<not> str_includes (''/data/'' @ n) ''..'' \<and> \<not> str_includes (''/data/'' @ n) ''//'' \<and>
     \<not> str_includes (''/home/'' @ n) ''..'' \<and> \<not> str_includes (''/home/'' @ n) ''//''"

lemma unique_datasets_inv:
  "set (fold (\<lambda>d acc. if ds_name d \<in> ds_name ` set acc then acc else d # acc) ds acc) \<subseteq> set ds \<union> set acc \<and>
   (distinct (map ds_name acc) \<longrightarrow>
     distinct (map ds_name (fold (\<lambda>d acc. if ds_name d \<in> ds_name ` set acc then acc else d # acc) ds acc)))"
proof (induction ds arbitrary: acc)
  case (Cons d ds)
  show ?case
    using Cons [of acc] Cons [of "d # acc"] by (cases "ds_name d \<in> ds_name ` set acc") auto
qed simp

lemma unique_datasets_props:
  "set (unique_datasets ds) \<subseteq> set ds" "distinct (map ds_name (unique_datasets ds))"
proof -
  have "distinct (map ds_name (rev xs)) = distinct (map ds_name xs)" for xs :: "IDataset list"
    by (metis distinct_rev rev_map)
  then show "set (unique_datasets ds) \<subseteq> set ds" "distinct (map ds_name (unique_datasets ds))"
    using unique_datasets_inv [of ds "[]"] unfolding unique_datasets_def by simp_all
qed

lemma find_unique:
  assumes "distinct (map f xs)" "d \<in> set xs"
  shows "find (\<lambda>x. f x = f d) xs = Some d"
  using assms by (induction xs) (auto simp: image_iff)

lemma mount_path_plain:
  "plain_name n \<Longrightarrow> mount_path_ok (''/data/'' @ n)" "plain_name n \<Longrightarrow> mount_path_ok (''/home/'' @ n)"
  by (simp_all add: mount_path_ok_def plain_name_def starts_with_def)

lemma mount_path_spaces: "mount_path_ok ''/data/account''" "mount_path_ok ''/data/public''"
  by (simp_all add: mount_path_ok_def starts_with_def str_includes_def sublist_code)

text \<open>Whatever is chosen as the source of a mount, a space, an entry of the tree or a dataset that is
  offered, gives a mount that the form accepts, unless the entry's or dataset's name contains two dots or
  two slashes in a row or begins with a slash; and no two of the offered datasets have the same mount path.\<close>

theorem mount_sources:
  assumes "plain_name user" "path \<noteq> []" "plain_name name" "\<forall>i. mt_datasetID m = Some i \<longrightarrow> 0 \<le> i"
    and "distinct (map ds_id ds)" "\<forall>d \<in> set ds. plain_name (ds_name d) \<and> 0 \<le> ds_id d"
  shows "volumeMountsSchema (mount_of_item user path name m #
      map (\<lambda>d. mount_of_dataset ds (ds_id d) m) (unique_datasets ds)) \<and>
    distinct (map (\<lambda>d. mt_mountPath (mount_of_dataset ds (ds_id d) m)) (unique_datasets ds))"
proof -
  have ids: "distinct (map ds_id (unique_datasets ds))"
  proof -
    have "inj_on ds_id (set (unique_datasets ds))"
      using assms(5) unique_datasets_props(1) [of ds] by (meson distinct_map inj_on_subset)
    moreover have "distinct (unique_datasets ds)" using unique_datasets_props(2) [of ds] by (simp add: distinct_map)
    ultimately show ?thesis by (simp add: distinct_map)
  qed
  have path: "mt_mountPath (mount_of_dataset ds (ds_id d) m) = ''/data/'' @ ds_name d" if "d \<in> set (unique_datasets ds)" for d
    using find_unique [OF ids that] by (simp add: mount_of_dataset_def)
  have "mount_path_ok (mt_mountPath (mount_of_item user path name m))"
    using mount_path_plain(1) [OF assms(3)] mount_path_plain(2) [OF assms(1)] mount_path_spaces
    by (simp add: mount_of_item_def)
  moreover have "mount_path_ok (mt_mountPath (mount_of_dataset ds (ds_id d) m))" "0 \<le> ds_id d"
    if "d \<in> set (unique_datasets ds)" for d
    using that assms(6) unique_datasets_props(1) [of ds] mount_path_plain(1) path [OF that] by (auto simp del: append.simps)
  ultimately have "volumeMountsSchema (mount_of_item user path name m #
      map (\<lambda>d. mount_of_dataset ds (ds_id d) m) (unique_datasets ds))"
    using assms(2,4)
    by (auto simp: volumeMountsSchema_def list_all_iff mount_of_item_def mount_of_dataset_def int_str_not_Nil
        Suc_le_eq split: option.split)
  moreover have "map (\<lambda>d. mt_mountPath (mount_of_dataset ds (ds_id d) m)) (unique_datasets ds)
      = map ((@) ''/data/'') (map ds_name (unique_datasets ds))"
    using path by simp
  then have "distinct (map (\<lambda>d. mt_mountPath (mount_of_dataset ds (ds_id d) m)) (unique_datasets ds))"
    using unique_datasets_props(2) [of ds] by (simp only: distinct_map [of "(@) ''/data/''"]) (simp add: inj_on_def)
  ultimately show ?thesis by blast
qed

theorem mount_sources_witness:
  "volumeMountsSchema [mount_of_item ''li'' ''user'' ''x'' (resetVolumeMountsFields FileType)]"
proof -
  have "plain_name ''li''" "plain_name ''x''"
    by (simp_all add: plain_name_def str_includes_def sublist_code)
  then show ?thesis
    using mount_sources [of "''li''" "''user''" "''x''" "resetVolumeMountsFields FileType" "[]"]
    by (simp add: resetVolumeMountsFields_def unique_datasets_def)
qed

end
