(* ===== verification/ClientSpec.thy ===== *)
theory ClientSpec
  imports Client
begin

text \<open>
  What the token refresh of \<open>services/client.ts\<close> promises, without its flag, its queue and its
  store: each call is fresh, leads the refresh, waits for it, has been sent again, or is done. A
  call may lead only while no other one does and wait only while another one leads; the refresh
  ends for its leader and all those that wait at once. The client refines this.
\<close>

datatype mode = Fresh | Leads | Waits | Again | Over

datatype gate_event = New | Finish nat | Lead nat | Wait nat | Silent | Renew | Deny

fun released :: "mode \<Rightarrow> mode \<Rightarrow> mode" where
  "released to Leads = to"
| "released to Waits = to"
| "released to m = m"

inductive gate_step :: "mode list \<Rightarrow> gate_event \<Rightarrow> mode list \<Rightarrow> bool" where
  gate_new: "gate_step ms New (ms @ [Fresh])"
| gate_finish: "i < length ms \<Longrightarrow> ms ! i = Fresh \<or> ms ! i = Again \<Longrightarrow> gate_step ms (Finish i) (ms[i := Over])"
| gate_lead: "i < length ms \<Longrightarrow> ms ! i = Fresh \<Longrightarrow> Leads \<notin> set ms \<Longrightarrow> gate_step ms (Lead i) (ms[i := Leads])"
| gate_wait: "i < length ms \<Longrightarrow> ms ! i = Fresh \<Longrightarrow> Leads \<in> set ms \<Longrightarrow> gate_step ms (Wait i) (ms[i := Waits])"
| gate_silent: "gate_step ms Silent ms"
| gate_renew: "Leads \<in> set ms \<Longrightarrow> gate_step ms Renew (List.map (released Again) ms)"
| gate_deny: "Leads \<in> set ms \<Longrightarrow> gate_step ms Deny (List.map (released Over) ms)"

inductive_cases gate_finishE: "gate_step ms (Finish i) ms'"
inductive_cases gate_leadE: "gate_step ms (Lead i) ms'"

inductive_simps gate_new_simp: "gate_step ms New ms'"
inductive_simps gate_renew_simp: "gate_step ms Renew ms'"

definition gate_start :: "mode list \<Rightarrow> bool" where
  "gate_start ms \<longleftrightarrow> ms = []"

fun mode_of :: "phase \<Rightarrow> mode" where
  "mode_of (In_flight t) = Fresh"
| "mode_of Waiting = Waits"
| "mode_of (Refreshing r t) = Leads"
| "mode_of (Refreshed t) = Leads"
| "mode_of (Retrying t) = Again"
| "mode_of (Settled out) = Over"

definition gate_of :: "client \<Rightarrow> mode list" where
  "gate_of c = List.map mode_of (requests c)"

text \<open>Which step of the gate an event of the client is.\<close>

definition token_expired :: "response \<Rightarrow> bool" where
  "token_expired r \<longleftrightarrow> rs_status r = 401 \<and>
     (case rs_payload r of Fields code msg \<Rightarrow> code = Some ERROR_TOKEN_EXPIRED | _ \<Rightarrow> False)"

fun gate_match :: "client_event \<Rightarrow> gate_event \<Rightarrow> bool" where
  "gate_match Send a \<longleftrightarrow> a = New"
| "gate_match (Storage ls) a \<longleftrightarrow> a = Silent"
| "gate_match (Answer i r) a \<longleftrightarrow> (if token_expired r then a = Lead i \<or> a = Wait i else a = Finish i)"
| "gate_match (Lost i f) a \<longleftrightarrow> a = Finish i"
| "gate_match (Refresh_answer i (Inl error)) a \<longleftrightarrow> a = Deny"
| "gate_match (Refresh_answer i (Inr tokens)) a \<longleftrightarrow> a = Silent"
| "gate_match (Refresh_done i) a \<longleftrightarrow> a = Renew"
| "gate_match (Retry_answer i r) a \<longleftrightarrow> a = Finish i"

section \<open>The simulation\<close>

lemma mode_of_eq:
  "mode_of p = Leads \<longleftrightarrow> leading p" "mode_of p = Waits \<longleftrightarrow> p = Waiting"
  by (cases p; simp)+

lemma length_gate [simp]: "length (gate_of c) = length (requests c)"
  by (simp add: gate_of_def)

lemma nth_gate: "i < length (requests c) \<Longrightarrow> gate_of c ! i = mode_of (requests c ! i)"
  by (simp add: gate_of_def)

lemma gate_update: "requests c' = (requests c)[i := p] \<Longrightarrow> gate_of c' = (gate_of c)[i := mode_of p]"
  by (simp add: gate_of_def map_update)

lemma gate_leads: "client_inv c \<Longrightarrow> Leads \<in> set (gate_of c) \<longleftrightarrow> isRefreshing c"
proof -
  assume "client_inv c"
  moreover have "Leads \<in> set (gate_of c) \<longleftrightarrow> leaders (requests c) \<noteq> {}"
    by (force simp: gate_of_def in_set_conv_nth leaders_def mode_of_eq eq_commute [of Leads])
  ultimately show ?thesis by (simp add: client_inv_def)
qed

text \<open>Emptying the queue and moving the leader on releases exactly those that lead or wait.\<close>

lemma gate_finish_refresh:
  assumes "client_inv c" "i < length (requests c)" "leading (requests c ! i)"
    and "requests c' = (requests (processQueue error token c))[i := p]"
    and "mode_of p = m" "(case error of None \<Rightarrow> Again | Some e \<Rightarrow> Over) = m"
  shows "gate_of c' = List.map (released m) (gate_of c)"
proof (rule nth_equalityI)
  fix j assume "j < length (gate_of c')"
  with assms(4) have j: "j < length (requests c)" by (simp add: processQueue_def)
  have only: "leading (requests c ! j) \<Longrightarrow> j = i"
    using assms(1-3) j by (auto simp: client_inv_def in_leaders)
  have queued: "j \<in> set (failedQueue c) \<longleftrightarrow> requests c ! j = Waiting"
    using assms(1) j by (simp add: client_inv_def in_waiters)
  have waked: "mode_of (case error of Some e \<Rightarrow> Settled (Rejected e) | None \<Rightarrow> Retrying token) = m"
    using assms(6) by (cases error) simp_all
  have "gate_of c' ! j = (if j = i \<or> requests c ! j = Waiting then m else mode_of (requests c ! j))"
    using assms(2,4,5) j queued waked
    by (simp add: gate_of_def processQueue_def nth_list_update nth_foldl_update)
  also have "\<dots> = released m (mode_of (requests c ! j))"
    using assms(3) only by (cases "requests c ! j") auto
  finally show "gate_of c' ! j = List.map (released m) (gate_of c) ! j" using j by (simp add: nth_gate)
qed (use assms in \<open>simp add: processQueue_def\<close>)

lemma settled_update: "\<exists>p. rs[i := Settled out] = rs[i := p] \<and> mode_of p = Over"
  by (rule exI [of _ "Settled out"]) simp

lemma leads_update: "\<exists>p. rs[i := Refreshing r t] = rs[i := p] \<and> mode_of p = Leads"
  by (rule exI [of _ "Refreshing r t"]) simp

lemma waits_update: "\<exists>p. rs[i := Waiting] = rs[i := p] \<and> mode_of p = Waits"
  by (rule exI [of _ Waiting]) simp

lemma gate_answer:
  assumes "client_inv c" "phase_at c i (In_flight t)"
  shows "\<exists>a. gate_match (Answer i r) a \<and> gate_step (gate_of c) a (gate_of (afterResponse i r c))"
proof -
  have i: "i < length (gate_of c)" "gate_of c ! i = Fresh"
    using assms(2) by (auto simp: phase_at_def nth_gate)
  have "\<exists>p. requests (afterResponse i r c) = (requests c)[i := p] \<and>
      (if token_expired r then mode_of p = (if isRefreshing c then Waits else Leads) else mode_of p = Over)"
    unfolding afterResponse_def settle_def token_expired_def response_ok_def
    by (cases "rs_payload r") (auto intro: settled_update leads_update waits_update)
  then obtain p where p: "gate_of (afterResponse i r c) = (gate_of c)[i := mode_of p]"
    and m: "if token_expired r then mode_of p = (if isRefreshing c then Waits else Leads) else mode_of p = Over"
    using gate_update by blast
  consider "\<not> token_expired r" | "token_expired r" "isRefreshing c" | "token_expired r" "\<not> isRefreshing c"
    by blast
  then show ?thesis
  proof cases
    case 1
    then show ?thesis using m p i gate_finish [of i "gate_of c"] by auto
  next
    case 2
    then show ?thesis
      using m p i gate_wait [of i "gate_of c"] gate_leads [OF assms(1)] by (intro exI [of _ "Wait i"]) simp
  next
    case 3
    then show ?thesis
      using m p i gate_lead [of i "gate_of c"] gate_leads [OF assms(1)] by (intro exI [of _ "Lead i"]) simp
  qed
qed

lemma client_step_gate:
  "client_step c e c' \<Longrightarrow> client_inv c \<Longrightarrow> \<exists>a. gate_match e a \<and> gate_step (gate_of c) a (gate_of c')"
proof (induction rule: client_step.induct)
  case (step_send c)
  have "gate_of (send_request c) = gate_of c @ [Fresh]" by (simp add: gate_of_def send_request_def)
  then show ?case using gate_new [of "gate_of c"] by auto
next
  case (step_storage c ls)
  have "gate_of (c\<lparr>localStorage := ls\<rparr>) = gate_of c" by (simp add: gate_of_def)
  then show ?case using gate_silent [of "gate_of c"] by auto
next
  case (step_answer c i t r)
  then show ?case by (rule gate_answer [rotated])
next
  case (step_lost c i t f)
  have "gate_of (settle i (Rejected f) c) = (gate_of c)[i := Over]"
    by (subst gate_update [of _ _ i "Settled (Rejected f)"]) (simp_all add: settle_def)
  then show ?case using gate_finish [of i "gate_of c"] step_lost by (auto simp: phase_at_def nth_gate)
next
  case (step_refresh_ok c i r t access refresh)
  have "gate_of (refresh_stored i access refresh c) = (gate_of c)[i := Leads]"
    by (subst gate_update [of _ _ i "Refreshed access"]) (simp_all add: refresh_stored_def)
  also have "\<dots> = gate_of c" using step_refresh_ok by (auto simp: phase_at_def nth_gate list_update_same_conv)
  finally show ?case using gate_silent [of "gate_of c"] by auto
next
  case (step_refresh_fail c i r t error)
  have "\<exists>out. requests (refresh_catch i r error c) = (requests (processQueue (Some error) [] c))[i := Settled out]"
    by (auto simp: refresh_catch_def settle_def Let_def)
  then have "gate_of (refresh_catch i r error c) = List.map (released Over) (gate_of c)"
    using gate_finish_refresh [of c i "refresh_catch i r error c" "Some error"] step_refresh_fail
    by (auto simp: phase_at_def)
  moreover have "Leads \<in> set (gate_of c)"
    using step_refresh_fail by (metis length_gate mode_of.simps(3) nth_gate nth_mem phase_at_def)
  ultimately show ?case using gate_deny by fastforce
next
  case (step_refresh_done c i token)
  have "requests (refresh_continue i token c) = (requests (processQueue None token c))[i := Retrying token]"
    by (simp add: refresh_continue_def Let_def)
  then have "gate_of (refresh_continue i token c) = List.map (released Again) (gate_of c)"
    using gate_finish_refresh [of c i "refresh_continue i token c" None] step_refresh_done
    by (auto simp: phase_at_def)
  moreover have "Leads \<in> set (gate_of c)"
    using step_refresh_done by (metis length_gate mode_of.simps(4) nth_gate nth_mem phase_at_def)
  ultimately show ?case using gate_renew by fastforce
next
  case (step_retry c i t a)
  have "gate_of (settle i (plain_outcome a) c) = (gate_of c)[i := Over]"
    by (subst gate_update [of _ _ i "Settled (plain_outcome a)"]) (simp_all add: settle_def)
  then show ?case using gate_finish [of i "gate_of c"] step_retry by (auto simp: phase_at_def nth_gate)
qed

interpretation gate: refinement client_step client_start client_inv gate_step gate_start gate_of gate_match
proof
  show "client_start s \<Longrightarrow> gate_start (gate_of s)" for s
    by (simp add: client_start_def gate_start_def gate_of_def)
  show "client_inv s \<Longrightarrow> client_step s e s' \<Longrightarrow> \<exists>a. gate_match e a \<and> gate_step (gate_of s) a (gate_of s')" for s e s'
    by (rule client_step_gate)
qed

section \<open>Properties\<close>

text \<open>C28. The HTTP client, with its flag \<open>isRefreshing\<close>, its \<open>failedQueue\<close> and its tokens,
  refines the abstract gate: from a start, whatever the answers, each of its steps is the step of the
  gate its event stands for. An expired call leads exactly when no other one does and waits
  otherwise; the end of the refresh, good or bad, releases the leader and all that wait at once.\<close>

theorem refresh_refines:
  assumes "client_start c" "runs client_step c es c'"
  shows "gate_start (gate_of c) \<and>
    (\<exists>as. list_all2 gate_match es as \<and> runs gate_step (gate_of c) as (gate_of c'))"
  using gate.reachable_abs assms .

theorem refresh_refines_witness:
  "\<exists>as. length as = 4 \<and> runs gate_step [] as [Leads, Waits]"
proof -
  have "gate_of page_start = []" "gate_of page_two_expired = [Leads, Waits]" "length two_expired = 4"
    by (simp_all add: gate_of_def page_start_def page_two_expired_def two_expired_def)
  moreover obtain as where "list_all2 gate_match two_expired as" "runs gate_step (gate_of page_start) as (gate_of page_two_expired)"
    using refresh_refines [OF page_start page_runs] by blast
  ultimately show ?thesis by (metis list_all2_lengthD)
qed

end
