(* ===== verification/ImageBuild.thy ===== *)
theory ImageBuild
  imports Images Templates
begin

text \<open>
  Building images (\<open>components/image/registry\<close>): the four forms a build starts from (an envd
  script made of choices, a raw envd script, a base image with packages, a Dockerfile), the list of
  builds with cloning and removal (\<open>index.tsx\<close>), and the administrators' CUDA base images.
  A form's \<open>handleSubmit\<close> passes the values its schema has parsed, in the schema's order.
\<close>

definition quote_char :: char where
  "quote_char = CHR 0x22"

section \<open>The rules the forms share\<close>

definition image_name_ok :: "string option \<Rightarrow> bool" where
  "image_name_ok v = (case v of None \<Rightarrow> True | Some s \<Rightarrow> s = [] \<or> imageNameRegex s)"

definition image_tag_ok :: "string option \<Rightarrow> bool" where
  "image_tag_ok v \<longleftrightarrow> (case v of None \<Rightarrow> True | Some s \<Rightarrow> s = [] \<or> imageTagRegex s) \<and> v \<noteq> Some ''latest''"

text \<open>
  A line of \<open>requirements.txt\<close>: a comment, blank, or with some character of \<open>[a-zA-Z0-9_]\<close> (the
  expression is not anchored, so one such character is all it needs).
\<close>

definition word_char :: "char \<Rightarrow> bool" where
  "word_char c \<longleftrightarrow> alnum c \<or> c = CHR ''_''"

definition requirement_line :: "string \<Rightarrow> bool" where
  "requirement_line line \<longleftrightarrow> starts_with (js_trim line) ''#'' \<or> js_trim line = [] \<or> list_ex word_char line"

definition requirements_ok :: "string option \<Rightarrow> bool" where
  "requirements_ok v = (case v of None \<Rightarrow> True
     | Some s \<Rightarrow> s = [] \<or> list_all requirement_line (split_char newline s))"

definition json_values :: "string list \<Rightarrow> json" where
  "json_values vs = JArr (map (\<lambda>v. JObj [(''value'', JStr v)]) vs)"

definition values_of :: "string list option \<Rightarrow> string list" where
  "values_of vs = (case vs of None \<Rightarrow> [] | Some ts \<Rightarrow> ts)"

definition text_of :: "string option \<Rightarrow> string" where
  "text_of v = (case v of None \<Rightarrow> [] | Some s \<Rightarrow> s)"

section \<open>Envd: a script made of choices (envd-sheet.tsx)\<close>

record envd_form =
  ev_python :: string
  ev_base :: string
  ev_description :: string
  ev_aptPackages :: "string option"
  ev_requirements :: "string option"
  ev_enableJupyter :: "bool option"
  ev_enableZsh :: "bool option"
  ev_imageName :: "string option"
  ev_imageTag :: "string option"
  ev_tags :: "string list option"

definition envdFormSchema :: "envd_form \<Rightarrow> bool" where
  "envdFormSchema v \<longleftrightarrow> 1 \<le> length (ev_python v) \<and> 1 \<le> length (ev_base v) \<and> 1 \<le> length (ev_description v) \<and>
     requirements_ok (ev_requirements v) \<and> image_name_ok (ev_imageName v) \<and>
     (case ev_imageName v of None \<Rightarrow> True | Some s \<Rightarrow> s = [] \<or> str_includes s ''envd'') \<and> image_tag_ok (ev_imageTag v)"

definition json_envd :: "envd_form \<Rightarrow> json" where
  "json_envd v = JObj ([(''python'', JStr (ev_python v)), (''base'', JStr (ev_base v)), (''description'', JStr (ev_description v))]
     @ opt_field ''aptPackages'' JStr (ev_aptPackages v) @ opt_field ''requirements'' JStr (ev_requirements v)
     @ opt_field ''enableJupyter'' JBool (ev_enableJupyter v) @ opt_field ''enableZsh'' JBool (ev_enableZsh v)
     @ opt_field ''imageName'' JStr (ev_imageName v) @ opt_field ''imageTag'' JStr (ev_imageTag v)
     @ opt_field ''tags'' json_values (ev_tags v))"

definition PYTHON_VERSIONS :: "string list" where
  "PYTHON_VERSIONS = [''3.13'', ''3.12'', ''3.11'', ''3.10'', ''3.9'', ''3.8'', ''3.7'', ''3.6'']"

definition default_apt :: "string list" where
  "default_apt = [''openssh-server'', ''build-essential'', ''iputils-ping'', ''net-tools'', ''htop'', ''tree'', ''tzdata'']"

text \<open>\<open>items.map((item) => `"${item}"`).join(', ')\<close>.\<close>

definition quoted :: "string \<Rightarrow> string" where
  "quoted s = quote_char # s @ [quote_char]"

definition quoted_list :: "string list \<Rightarrow> string" where
  "quoted_list xs = join_with '', '' (map quoted xs)"

text \<open>The commands that install zsh; in this text the at sign stands for the backslash.\<close>

definition backslashes :: "string \<Rightarrow> string" where
  "backslashes s = map (\<lambda>c. if c = CHR ''@'' then CHR 0x5C else c) s"

definition zsh_lines :: "string list" where
  "zsh_lines = map backslashes [
     ''    run(commands=['',
     ''      \"chsh -s /bin/zsh root;\",'',
     ''      \"git clone --depth 1 https://gitee.com/mirrors/oh-my-zsh.git;\",'',
     ''      \"ZSH=@\"/usr/share/.oh-my-zsh@\" CHSH=@\"no@\" RUNZSH=@\"no@\" REMOTE=https://gitee.com/mirrors/oh-my-zsh.git sh ./oh-my-zsh/tools/install.sh;\",'',
     ''      \"chmod a+rx /usr/share/.oh-my-zsh/oh-my-zsh.sh;\",'',
     ''      \"rm -rf ./oh-my-zsh;\",'',
     ''      \"git clone --depth=1 https://gitee.com/mirrors/zsh-syntax-highlighting.git /usr/share/.oh-my-zsh/custom/plugins/zsh-syntax-highlighting;\",'',
     ''      \"git clone --depth=1 https://gitee.com/mirrors/zsh-autosuggestions.git /usr/share/.oh-my-zsh/custom/plugins/zsh-autosuggestions;\",'',
     ''      \"echo @\"export skip_global_compinit=1@\" >> /etc/zsh/zshenv;\",'',
     ''      \"echo @\"export ZSH=@@@\"/usr/share/.oh-my-zsh@@@\"@\" >> /etc/zsh/zshrc;\",'',
     ''      \"echo @\"plugins=(git extract sudo jsontools colored-man-pages zsh-autosuggestions zsh-syntax-highlighting)@\" >> /etc/zsh/zshrc;\",'',
     ''      \"echo @\"ZSH_THEME=@@@\"robbyrussell@@@\"@\" >> /etc/zsh/zshrc;\",'',
     ''      \"echo @\"export ZSH_COMPDUMP=@@$ZSH/cache/.zcompdump-@@$HOST@\" >> /etc/zsh/zshrc;\",'',
     ''      \"mkdir -p /etc/jupyter;\",'',
     ''      \"echo @\"c.ServerApp.terminado_settings = {@@@\"shell_command@@@\": [@@@\"/bin/zsh@@@\"]}@\" >> /etc/jupyter/jupyter_server_config.py;\",'',
     ''      \"echo @\"source @@$ZSH/oh-my-zsh.sh@\" >> /etc/zsh/zshrc;\",'',
     ''      \"echo @\"zstyle @@@\":omz:update@@@\" mode disabled@\" >> /etc/zsh/zshrc;\",'',
     ''    ])'']"

text \<open>The script is built of pieces that each start a new line; so it is the join of these lines.\<close>

definition apt_line :: "string list \<Rightarrow> string" where
  "apt_line pkgs = ''    install.apt_packages(['' @ quoted_list pkgs @ ''])''"

definition python_line :: "string list \<Rightarrow> string" where
  "python_line pkgs = ''    install.python_packages(name=['' @ quoted_list pkgs @ ''])''"

definition script_head :: "string \<Rightarrow> string \<Rightarrow> string list" where
  "script_head baseImage pythonVersion =
     [''# syntax=v1'', [], ''def build():'', ''    base(image='' @ quoted baseImage @ '', dev=True)'',
      ''    install.python(version='' @ quoted pythonVersion @ '')'']"

definition repo_lines :: "string list" where
  "repo_lines = [''    config.repo('', ''        url=\"https://github.com/raids-lab/crater\",'',
     ''        description=\"Crater\",'', ''    )'',
     ''    config.pip_index(url=\"https://pypi.tuna.tsinghua.edu.cn/simple\")'']"

definition script_lines :: "string \<Rightarrow> string \<Rightarrow> string list \<Rightarrow> string list \<Rightarrow> bool \<Rightarrow> bool \<Rightarrow> string list" where
  "script_lines baseImage pythonVersion extraApt extraPython enableJupyter enableZsh =
     script_head baseImage pythonVersion @ [apt_line (default_apt @ extraApt)] @ repo_lines
     @ (if 0 < length extraPython then [python_line extraPython] else [])
     @ (if enableJupyter \<and> enableZsh then zsh_lines else [])
     @ (if enableJupyter then [''    config.jupyter()''] else [])"

text \<open>The packages are given or \<open>undefined\<close>, for which the parameter's default stands.\<close>

definition generateBuildScript ::
  "string \<Rightarrow> string \<Rightarrow> string list option \<Rightarrow> string list option \<Rightarrow> bool \<Rightarrow> bool \<Rightarrow> string" where
  "generateBuildScript baseImage pythonVersion extraApt extraPython enableJupyter enableZsh =
     join_with [newline] (script_lines baseImage pythonVersion (values_of extraApt) (values_of extraPython) enableJupyter enableZsh)"

text \<open>\<open>text?.split(sep).map((item) => item.trim()).filter(Boolean)\<close>.\<close>

definition items_of :: "char \<Rightarrow> string option \<Rightarrow> string list option" where
  "items_of sep v = map_option (\<lambda>s. filter (\<lambda>x. x \<noteq> []) (map js_trim (split_char sep s))) v"

definition envd_script :: "envd_form \<Rightarrow> string" where
  "envd_script v = generateBuildScript (ev_base v) (ev_python v) (items_of (CHR '' '') (ev_aptPackages v))
     (items_of newline (ev_requirements v)) (ev_enableJupyter v = Some True) (ev_enableZsh v = Some True)"

text \<open>The label of the chosen CUDA base, as the list of base images has it.\<close>

definition base_label :: "CudaBaseImage list \<Rightarrow> string \<Rightarrow> string" where
  "base_label images base = (case find (\<lambda>i. cb_value i = base) images of None \<Rightarrow> [] | Some i \<Rightarrow> cb_imageLabel i)"

definition envd_payload :: "CudaBaseImage list \<Rightarrow> envd_form \<Rightarrow> EnvdCreate" where
  "envd_payload cudaBaseImages v = \<lparr>ec_description = ev_description v, ec_envd = envd_script v,
     ec_name = text_of (ev_imageName v), ec_tag = text_of (ev_imageTag v), ec_python = ev_python v,
     ec_base = base_label cudaBaseImages (ev_base v), ec_tags = values_of (ev_tags v),
     ec_template = exportToJsonString MetadataFormEnvdAdvanced (json_envd v),
     ec_buildSource = ImagePackSource_EnvdAdvanced\<rparr>"

definition envd_onSubmit :: "CudaBaseImage list \<Rightarrow> envd_form \<Rightarrow> http_request" where
  "envd_onSubmit cudaBaseImages v = apiUserCreateByEnvd (envd_payload cudaBaseImages v)"

section \<open>Envd: a raw script (envd-raw-sheet.tsx)\<close>

record envd_raw_form =
  er_envdScript :: string
  er_description :: string
  er_imageName :: string
  er_imageTag :: string
  er_tags :: "string list option"

definition envdRawFormSchema :: "envd_raw_form \<Rightarrow> bool" where
  "envdRawFormSchema v \<longleftrightarrow> 1 \<le> length (er_envdScript v) \<and> 1 \<le> length (er_description v) \<and>
     1 \<le> length (er_imageName v) \<and> image_name_ok (Some (er_imageName v)) \<and> str_includes (er_imageName v) ''envd'' \<and>
     1 \<le> length (er_imageTag v) \<and> image_tag_ok (Some (er_imageTag v))"

definition json_envd_raw :: "envd_raw_form \<Rightarrow> json" where
  "json_envd_raw v = JObj ([(''envdScript'', JStr (er_envdScript v)), (''description'', JStr (er_description v)),
     (''imageName'', JStr (er_imageName v)), (''imageTag'', JStr (er_imageTag v))]
     @ opt_field ''tags'' json_values (er_tags v))"

definition envd_raw_payload :: "envd_raw_form \<Rightarrow> EnvdCreate" where
  "envd_raw_payload v = \<lparr>ec_description = er_description v, ec_envd = er_envdScript v, ec_name = er_imageName v,
     ec_tag = er_imageTag v, ec_python = [], ec_base = [], ec_tags = values_of (er_tags v),
     ec_template = exportToJsonString MetadataFormEnvdRaw (json_envd_raw v), ec_buildSource = ImagePackSource_EnvdRaw\<rparr>"

definition envd_raw_onSubmit :: "envd_raw_form \<Rightarrow> http_request" where
  "envd_raw_onSubmit v = apiUserCreateByEnvd (envd_raw_payload v)"

section \<open>A base image with packages (pip-apt-sheet.tsx)\<close>

record pip_apt_form =
  pa_baseImage :: string
  pa_imageName :: "string option"
  pa_imageTag :: "string option"
  pa_requirements :: "string option"
  pa_aptPackages :: "string option"
  pa_description :: string
  pa_tags :: "string list option"
  pa_imageArchs :: "string list"

definition pipAptFormSchema :: "pip_apt_form \<Rightarrow> bool" where
  "pipAptFormSchema v \<longleftrightarrow> 1 \<le> length (pa_baseImage v) \<and> image_name_ok (pa_imageName v) \<and> image_tag_ok (pa_imageTag v) \<and>
     requirements_ok (pa_requirements v) \<and> 1 \<le> length (pa_description v) \<and> 1 \<le> length (pa_imageArchs v)"

definition json_pip_apt :: "pip_apt_form \<Rightarrow> json" where
  "json_pip_apt v = JObj ([(''baseImage'', JStr (pa_baseImage v))] @ opt_field ''imageName'' JStr (pa_imageName v)
     @ opt_field ''imageTag'' JStr (pa_imageTag v) @ opt_field ''requirements'' JStr (pa_requirements v)
     @ opt_field ''aptPackages'' JStr (pa_aptPackages v) @ [(''description'', JStr (pa_description v))]
     @ opt_field ''tags'' json_values (pa_tags v) @ [(''imageArchs'', json_values (pa_imageArchs v))])"

definition pip_apt_payload :: "pip_apt_form \<Rightarrow> KanikoCreate" where
  "pip_apt_payload v = \<lparr>kc_description = pa_description v, kc_image = pa_baseImage v,
     kc_packages = text_of (pa_aptPackages v), kc_requirements = text_of (pa_requirements v),
     kc_name = text_of (pa_imageName v), kc_tag = text_of (pa_imageTag v), kc_tags = values_of (pa_tags v),
     kc_template = exportToJsonString MetadataFormPipApt (json_pip_apt v),
     kc_buildSource = ImagePackSource_PipApt, kc_archs = pa_imageArchs v\<rparr>"

text \<open>What pressing the button does: a toast, an exception, or the request.\<close>

datatype build_submit = Busy | Name_must_include string | Submit_throws | Submitted http_request

definition name_lacks :: "string \<Rightarrow> string option \<Rightarrow> string \<Rightarrow> bool" where
  "name_lacks baseImage imageName marker \<longleftrightarrow> str_includes baseImage marker \<and> imageName \<noteq> Some [] \<and>
     \<not> (case imageName of None \<Rightarrow> False | Some n \<Rightarrow> str_includes n marker)"

definition pip_apt_onSubmit :: "bool \<Rightarrow> pip_apt_form \<Rightarrow> build_submit" where
  "pip_apt_onSubmit isPending v =
     (if isPending then Busy
      else if name_lacks (pa_baseImage v) (pa_imageName v) ''jupyter'' then Name_must_include ''jupyter''
      else if name_lacks (pa_baseImage v) (pa_imageName v) ''envd'' then Name_must_include ''envd''
      else if name_lacks (pa_baseImage v) (pa_imageName v) ''nvidia'' then Name_must_include ''nvidia''
      else Submitted (apiUserCreateKaniko (pip_apt_payload v)))"

section \<open>A Dockerfile (dockerfile-sheet.tsx)\<close>

record dockerfile_form =
  df_dockerfile :: string
  df_description :: string
  df_imageName :: "string option"
  df_imageTag :: "string option"
  df_tags :: "string list option"
  df_imageArchs :: "string list"

definition dockerfileFormSchema :: "dockerfile_form \<Rightarrow> bool" where
  "dockerfileFormSchema v \<longleftrightarrow> 1 \<le> length (df_dockerfile v) \<and> 1 \<le> length (df_description v) \<and>
     image_name_ok (df_imageName v) \<and> image_tag_ok (df_imageTag v) \<and> 1 \<le> length (df_imageArchs v)"

definition json_dockerfile :: "dockerfile_form \<Rightarrow> json" where
  "json_dockerfile v = JObj ([(''dockerfile'', JStr (df_dockerfile v)), (''description'', JStr (df_description v))]
     @ opt_field ''imageName'' JStr (df_imageName v) @ opt_field ''imageTag'' JStr (df_imageTag v)
     @ opt_field ''tags'' json_values (df_tags v) @ [(''imageArchs'', json_values (df_imageArchs v))])"

text \<open>
  \<open>/^FROM\s+(?:--platform=[^\s]+\s+)?([^\s#]+)/gim\<close> at the start of a line: its first group, when it
  matches. The runs of blanks are taken whole: giving one back leaves a blank where the rest needs
  another character. Without a name after it, the platform is taken for the name.
\<close>

definition image_char :: "char \<Rightarrow> bool" where
  "image_char c \<longleftrightarrow> \<not> js_space c \<and> c \<noteq> CHR ''#''"

definition image_name_at :: "string \<Rightarrow> string option" where
  "image_name_at s = (let n = takeWhile image_char s in if n = [] then None else Some n)"

definition platform_skipped :: "string \<Rightarrow> string option" where
  "platform_skipped s =
     (let p = drop 11 s; r = dropWhile (\<lambda>c. \<not> js_space c) p in
      if lower (take 11 s) = ''--platform='' \<and> p \<noteq> r \<and> r \<noteq> [] then Some (dropWhile js_space r) else None)"

definition from_clause :: "string \<Rightarrow> string option" where
  "from_clause s =
     (let r = drop 4 s; t = dropWhile js_space r in
      if lower (take 4 s) = ''from'' \<and> r \<noteq> t then
        (case Option.bind (platform_skipped t) image_name_at of
           Some n \<Rightarrow> Some n
         | None \<Rightarrow> image_name_at t)
      else None)"

text \<open>\<open>baseImages[0]\<close>: the first line start where the expression matches.\<close>

definition line_break :: "char \<Rightarrow> bool" where
  "line_break c \<longleftrightarrow> c = newline \<or> c = CHR 0x0D"

fun first_base :: "bool \<Rightarrow> string \<Rightarrow> string option" where
  "first_base at_start s =
     (case (if at_start then from_clause s else None) of
        Some n \<Rightarrow> Some n
      | None \<Rightarrow> (case s of [] \<Rightarrow> None | c # cs \<Rightarrow> first_base (line_break c) cs))"

declare first_base.simps [simp del]

definition dockerfile_payload :: "dockerfile_form \<Rightarrow> DockerfileCreate" where
  "dockerfile_payload v = \<lparr>dc_description = df_description v, dc_dockerfile = df_dockerfile v,
     dc_name = text_of (df_imageName v), dc_tag = text_of (df_imageTag v), dc_tags = values_of (df_tags v),
     dc_template = exportToJsonString MetadataFormDockerfile (json_dockerfile v),
     dc_buildSource = ImagePackSource_Dockerfile, dc_archs = df_imageArchs v\<rparr>"

definition dockerfile_onSubmit :: "bool \<Rightarrow> dockerfile_form \<Rightarrow> build_submit" where
  "dockerfile_onSubmit isPending v =
     (if isPending then Busy
      else (case first_base True (df_dockerfile v) of
              None \<Rightarrow> Submit_throws
            | Some baseImage \<Rightarrow>
                if name_lacks baseImage (df_imageName v) ''jupyter'' then Name_must_include ''jupyter''
                else if name_lacks baseImage (df_imageName v) ''nvidia'' then Name_must_include ''nvidia''
                else Submitted (apiUserCreateByDockerfile (dockerfile_payload v))))"

section \<open>The list of builds (index.tsx)\<close>

datatype sheet = Envd_sheet | Envd_raw_sheet | Dockerfile_sheet | Pip_apt_sheet | Cuda_sheet

text \<open>The open sheets, the name of the build to clone, and whether cloning was refused.\<close>

record registry =
  rg_open :: "sheet list"
  rg_imagePackName :: string
  rg_refused :: nat

fun clone_sheet :: "ImagePackSource \<Rightarrow> sheet option" where
  "clone_sheet ImagePackSource_EnvdAdvanced = Some Envd_sheet"
| "clone_sheet ImagePackSource_EnvdRaw = Some Envd_raw_sheet"
| "clone_sheet ImagePackSource_Dockerfile = Some Dockerfile_sheet"
| "clone_sheet ImagePackSource_PipApt = Some Pip_apt_sheet"
| "clone_sheet ImagePackSource_Snapshot = None"

definition clone_build :: "string \<Rightarrow> ImagePackSource \<Rightarrow> registry \<Rightarrow> registry" where
  "clone_build name source rg =
     (let rg = rg\<lparr>rg_imagePackName := name\<rparr> in
      case clone_sheet source of
        Some sh \<Rightarrow> rg\<lparr>rg_open := List.insert sh (rg_open rg)\<rparr>
      | None \<Rightarrow> rg\<lparr>rg_refused := Suc (rg_refused rg)\<rparr>)"

definition open_sheet :: "sheet \<Rightarrow> registry \<Rightarrow> registry" where
  "open_sheet sh rg = rg\<lparr>rg_open := List.insert sh (rg_open rg)\<rparr>"

text \<open>\<open>closeSheet\<close>, after a build was started.\<close>

definition closeSheet :: "sheet \<Rightarrow> registry \<Rightarrow> registry" where
  "closeSheet sh rg = rg\<lparr>rg_open := filter (\<lambda>s. s \<noteq> sh) (rg_open rg),
     rg_imagePackName := (if sh = Cuda_sheet then rg_imagePackName rg else [])\<rparr>"

text \<open>The metadata each sheet hands to \<open>useImageTemplateLoader\<close>.\<close>

fun sheet_metadata :: "sheet \<Rightarrow> MetadataFormType option" where
  "sheet_metadata Envd_sheet = Some MetadataFormEnvdAdvanced"
| "sheet_metadata Envd_raw_sheet = Some MetadataFormEnvdRaw"
| "sheet_metadata Dockerfile_sheet = Some MetadataFormDockerfile"
| "sheet_metadata Pip_apt_sheet = Some MetadataFormPipApt"
| "sheet_metadata Cuda_sheet = None"

text \<open>A finished build may be deleted, any other is cancelled: both by the same request.\<close>

datatype removal_toast = Cancelled | Deleted | Cancel_failed | Delete_failed

definition build_over :: "ImagePackStatus \<Rightarrow> bool" where
  "build_over s \<longleftrightarrow> s = Pack_Finished \<or> s = Pack_Failed \<or> s = Pack_Canceled"

definition removal_toast_of :: "bool \<Rightarrow> bool \<Rightarrow> removal_toast" where
  "removal_toast_of ok isCancel = (if ok then (if isCancel then Cancelled else Deleted)
     else if isCancel then Cancel_failed else Delete_failed)"

text \<open>The pairs to check, and the ids removed when some of them turn out invalid: the user's own only.\<close>

definition link_pair :: "KanikoInfoResponse \<Rightarrow> ImageLinkPair" where
  "link_pair r = \<lparr>lp_id = ki_ID r, lp_imageLink = ki_imageLink r, lp_description = ki_description r,
     lp_creator = ki_userInfo r\<rparr>"

definition delete_invalid :: "string option \<Rightarrow> ImageLinkPair list \<Rightarrow> int list" where
  "delete_invalid user pairs = map lp_id (filter (\<lambda>p. Some (ui_username (lp_creator p)) = user) pairs)"

section \<open>CUDA base images (cuda-base-image-sheet.tsx)\<close>

definition cudaBaseImageSchema :: "CudaBaseImage list \<Rightarrow> CudaBaseImageCreate \<Rightarrow> bool" where
  "cudaBaseImageSchema images v \<longleftrightarrow> 1 \<le> length (cc_label v) \<and>
     1 \<le> length (cc_imageLabel v) \<and> cudaImageLabelRegex (cc_imageLabel v) \<and>
     \<not> list_ex (\<lambda>i. cb_imageLabel i = cc_imageLabel v) images \<and>
     1 \<le> length (cc_value v) \<and> cudaImageValueRegex (cc_value v)"

section \<open>The script's lists, read back\<close>

text \<open>The strings between quotes in the rest of the first line that starts with a prefix.\<close>

fun odds :: "'a list \<Rightarrow> 'a list" where
  "odds (x # y # zs) = y # odds zs"
| "odds _ = []"

definition script_items :: "string \<Rightarrow> string \<Rightarrow> string list option" where
  "script_items pfx script = map_option (\<lambda>l. odds (split_char quote_char (drop (length pfx) l)))
     (find (\<lambda>l. starts_with l pfx) (split_char newline script))"

lemma split_char_thrice:
  "c \<notin> set x \<Longrightarrow> c \<notin> set y \<Longrightarrow> split_char c (c # x @ c # y @ c # u) = [] # x # y # split_char c u"
  by (simp add: split_char_append)

lemma odds_quoted_list:
  "list_all (\<lambda>x. quote_char \<notin> set x) xs \<Longrightarrow> quote_char \<notin> set t \<Longrightarrow>
   odds (split_char quote_char (quoted_list xs @ t)) = xs"
proof (induction xs)
  case Nil
  then show ?case by (simp add: quoted_list_def)
next
  case (Cons x xs)
  show ?case
  proof (cases xs)
    case Nil
    with Cons.prems show ?thesis by (simp add: quoted_list_def quoted_def split_char_append)
  next
    case more: (Cons y ys)
    have sep: "quote_char \<notin> set '', ''" by (simp add: quote_char_def)
    define u where "u = tl (quoted_list xs @ t)"
    have u: "quoted_list xs @ t = quote_char # u"
      by (cases ys) (simp_all add: u_def quoted_list_def quoted_def more)
    have "quoted_list (x # xs) @ t = quote_char # x @ quote_char # '', '' @ quoted_list xs @ t"
      by (simp add: quoted_list_def quoted_def more)
    then have "split_char quote_char (quoted_list (x # xs) @ t) = [] # x # '', '' # split_char quote_char u"
      unfolding u using split_char_thrice [of quote_char x "'', ''" u] Cons.prems sep by simp
    moreover have "split_char quote_char (quoted_list xs @ t) = [] # split_char quote_char u"
      by (simp add: u)
    moreover have "odds (split_char quote_char (quoted_list xs @ t)) = xs" using Cons by simp
    moreover have "odds ([] # p) = xs \<Longrightarrow> odds ([] # x # '', '' # p) = x # xs" for p :: "string list"
      by (cases p) auto
    ultimately show ?thesis by metis
  qed
qed

lemma set_join_with: "set (join_with sep xs) \<subseteq> set sep \<union> (\<Union>x \<in> set xs. set x)"
  by (induction sep xs rule: join_with.induct) auto

lemma quoted_list_free: "c \<noteq> quote_char \<Longrightarrow> c \<notin> set '', '' \<Longrightarrow> list_all (\<lambda>x. c \<notin> set x) xs \<Longrightarrow> c \<notin> set (quoted_list xs)"
  using set_join_with [of "'', ''" "map quoted xs"] by (auto simp: quoted_list_def quoted_def list_all_iff split: if_splits)

lemma newline_neq: "newline \<noteq> quote_char" "newline \<notin> set '', ''" "js_space newline"
  by (simp_all add: newline_def quote_char_def js_space_def)

lemma apt_line_free: "list_all (\<lambda>x. newline \<notin> set x) xs \<Longrightarrow> newline \<notin> set (apt_line xs)"
  using quoted_list_free [of newline xs] newline_neq by (simp add: apt_line_def newline_def)

lemma python_line_free: "list_all (\<lambda>x. newline \<notin> set x) xs \<Longrightarrow> newline \<notin> set (python_line xs)"
  using quoted_list_free [of newline xs] newline_neq by (simp add: python_line_def newline_def)

lemma fixed_lines_free:
  "list_all (\<lambda>l. newline \<notin> set l) (zsh_lines @ repo_lines @ [''    config.jupyter()''] @ default_apt)"
  by code_simp

lemma script_lines_free:
  assumes "newline \<notin> set base" "newline \<notin> set py" "list_all (\<lambda>x. newline \<notin> set x) apt"
    and "list_all (\<lambda>x. newline \<notin> set x) pip"
  shows "\<forall>l \<in> set (script_lines base py apt pip jup zsh). newline \<notin> set l"
proof -
  have "list_all (\<lambda>l. newline \<notin> set l) (script_head base py)"
    using assms(1,2) newline_neq by (simp add: script_head_def quoted_def newline_def)
  moreover have "newline \<notin> set (apt_line (default_apt @ apt))" "newline \<notin> set (python_line pip)"
    using apt_line_free [of "default_apt @ apt"] python_line_free assms(3,4) fixed_lines_free by simp_all
  ultimately show ?thesis using fixed_lines_free by (auto simp: script_lines_def list_all_iff)
qed

definition apt_prefix :: string where
  "apt_prefix = ''    install.apt_packages([''"

definition python_prefix :: string where
  "python_prefix = ''    install.python_packages(name=[''"

lemma find_append: "find P (xs @ ys) = (case find P xs of None \<Rightarrow> find P ys | Some x \<Rightarrow> Some x)"
  by (induction xs) auto

lemma find_none: "list_all (\<lambda>x. \<not> P x) xs \<Longrightarrow> find P xs = None"
  by (induction xs) auto

lemma jupyter_line:
  "''    config.jupyter()'' \<in> set (script_lines base py apt pip jup zsh) \<longleftrightarrow> jup"
proof -
  have "''    config.jupyter()'' \<notin> set (script_head base py)" by (simp add: script_head_def)
  moreover have "''    config.jupyter()'' \<notin> set (repo_lines @ zsh_lines)" by code_simp
  ultimately show ?thesis by (simp add: script_lines_def apt_line_def python_line_def)
qed

lemma head_not_lists:
  "list_all (\<lambda>l. \<not> starts_with l apt_prefix \<and> \<not> starts_with l python_prefix) (script_head base py)"
  by (simp add: script_head_def starts_with_def apt_prefix_def python_prefix_def)

lemma fixed_not_lists:
  "list_all (\<lambda>l. \<not> starts_with l apt_prefix \<and> \<not> starts_with l python_prefix)
     (repo_lines @ zsh_lines @ [''    config.jupyter()''])"
  by code_simp

lemma find_lists:
  "find (\<lambda>l. starts_with l apt_prefix) (script_lines base py apt pip jup zsh) = Some (apt_line (default_apt @ apt))"
  "find (\<lambda>l. starts_with l python_prefix) (script_lines base py apt pip jup zsh) =
     (if pip = [] then None else Some (python_line pip))"
proof -
  have h: "find (\<lambda>l. starts_with l apt_prefix) (script_head base py) = None"
    "find (\<lambda>l. starts_with l python_prefix) (script_head base py) = None"
    using head_not_lists [of base py] by (auto intro!: find_none simp: list_all_iff)
  have f: "find (\<lambda>l. starts_with l python_prefix) repo_lines = None"
    "find (\<lambda>l. starts_with l python_prefix) zsh_lines = None"
    "\<not> starts_with ''    config.jupyter()'' python_prefix"
    using fixed_not_lists by (auto intro!: find_none simp: list_all_iff)
  have "starts_with (apt_line xs) apt_prefix" "\<not> starts_with (apt_line xs) python_prefix"
    "starts_with (python_line xs) python_prefix" for xs
    by (simp_all add: apt_line_def python_line_def starts_with_def apt_prefix_def python_prefix_def)
  with h f show
    "find (\<lambda>l. starts_with l apt_prefix) (script_lines base py apt pip jup zsh) = Some (apt_line (default_apt @ apt))"
    "find (\<lambda>l. starts_with l python_prefix) (script_lines base py apt pip jup zsh) =
       (if pip = [] then None else Some (python_line pip))"
    by (simp_all add: script_lines_def find_append)
qed

lemma set_js_trim: "set (js_trim s) \<subseteq> set s"
  unfolding js_trim_def by (metis order_trans set_dropWhileD set_rev subsetI)

lemma items_free:
  assumes "c \<notin> set (text_of v)"
  shows "list_all (\<lambda>x. c \<notin> set x) (values_of (items_of sep v))"
proof (cases v)
  case None
  then show ?thesis by (simp add: items_of_def values_of_def)
next
  case (Some s)
  have "set (join_with [sep] ps) \<supseteq> set p" if "p \<in> set ps" for p and ps :: "string list"
    using that by (induction "[sep]" ps rule: join_with.induct) auto
  then have "p \<in> set (split_char sep s) \<Longrightarrow> set p \<subseteq> set s" for p by (metis join_split)
  then have "p \<in> set (split_char sep s) \<Longrightarrow> set (js_trim p) \<subseteq> set s" for p using set_js_trim by fast
  then show ?thesis using Some assms by (auto simp: items_of_def values_of_def text_of_def list_all_iff)
qed

lemma items_free_sep: "list_all (\<lambda>x. sep \<notin> set x) (values_of (items_of sep v))"
proof -
  have "p \<in> set (split_char sep s) \<Longrightarrow> sep \<notin> set (js_trim p)" for p s
    using split_char_parts set_js_trim by fast
  then show ?thesis by (auto simp: items_of_def values_of_def list_all_iff split: option.split)
qed

section \<open>The first base image, as the regular expression says\<close>

definition blanks :: "string \<Rightarrow> bool" where
  "blanks ws \<longleftrightarrow> ws \<noteq> [] \<and> list_all js_space ws"

text \<open>\<open>[^\s#]+\<close> takes as many characters as it can.\<close>

definition names :: "string \<Rightarrow> string \<Rightarrow> bool" where
  "names t n \<longleftrightarrow> n \<noteq> [] \<and> list_all image_char n \<and> (\<exists>more. t = n @ more \<and> (more = [] \<or> \<not> image_char (hd more)))"

text \<open>What is left after \<open>FROM\s+\<close>, and after the optional platform too.\<close>

definition after_from :: "string \<Rightarrow> string \<Rightarrow> bool" where
  "after_from s t \<longleftrightarrow> (\<exists>kw ws. s = kw @ ws @ t \<and> lower kw = ''from'' \<and> blanks ws)"

definition after_platform :: "string \<Rightarrow> string \<Rightarrow> bool" where
  "after_platform t u \<longleftrightarrow> (\<exists>flag val gap. t = flag @ val @ gap @ u \<and> lower flag = ''--platform='' \<and>
     val \<noteq> [] \<and> list_all (\<lambda>c. \<not> js_space c) val \<and> blanks gap)"

text \<open>A match at the start of \<open>s\<close>: with the platform when that leads to a name, else without.\<close>

definition from_match :: "string \<Rightarrow> string \<Rightarrow> bool" where
  "from_match s n \<longleftrightarrow>
     (if \<exists>t u m. after_from s t \<and> after_platform t u \<and> names u m
      then \<exists>t u. after_from s t \<and> after_platform t u \<and> names u n
      else \<exists>t. after_from s t \<and> names t n)"

lemma length_lower [simp]: "length (lower s) = length s"
  by (simp add: lower_def)

lemma image_name_at_iff: "image_name_at s = Some n \<longleftrightarrow> names s n"
proof
  assume "image_name_at s = Some n"
  then have n: "n = takeWhile image_char s" "n \<noteq> []" by (auto simp: image_name_at_def Let_def split: if_splits)
  have "s = n @ dropWhile image_char s" using n by simp
  moreover have "dropWhile image_char s = [] \<or> \<not> image_char (hd (dropWhile image_char s))"
    using hd_dropWhile by blast
  moreover have "list_all image_char n" using n set_takeWhileD by (fastforce simp: list_all_iff)
  ultimately show "names s n" using n(2) unfolding names_def by blast
next
  assume "names s n"
  then obtain more where m: "s = n @ more" "n \<noteq> []" "list_all image_char n" "more = [] \<or> \<not> image_char (hd more)"
    by (auto simp: names_def)
  then have "takeWhile image_char s = n" by (cases more) (auto simp: takeWhile_append list_all_iff)
  then show "image_name_at s = Some n" using m by (simp add: image_name_at_def Let_def)
qed

lemma names_start: "names t n \<Longrightarrow> t \<noteq> [] \<and> \<not> js_space (hd t)"
  by (cases n) (auto simp: names_def image_char_def)

text \<open>Blanks before something else are skipped in one way only.\<close>

lemma skip_blanks:
  assumes "t \<noteq> []" "\<not> js_space (hd t)"
  shows "(\<exists>ws. r = ws @ t \<and> blanks ws) \<longleftrightarrow> r \<noteq> t \<and> t = dropWhile js_space r"
proof
  assume "\<exists>ws. r = ws @ t \<and> blanks ws"
  then obtain ws where ws: "r = ws @ t" "blanks ws" by blast
  then have "dropWhile js_space r = t"
    using assms by (cases t) (auto simp: blanks_def list_all_iff dropWhile_append)
  then show "r \<noteq> t \<and> t = dropWhile js_space r" using ws by (auto simp: blanks_def)
next
  assume r: "r \<noteq> t \<and> t = dropWhile js_space r"
  have "r = takeWhile js_space r @ t" using r by (metis takeWhile_dropWhile_id)
  moreover have "blanks (takeWhile js_space r)"
    using r by (auto simp: blanks_def list_all_iff dest: set_takeWhileD) (metis takeWhile_eq_Nil_iff dropWhile_eq_self_iff)
  ultimately show "\<exists>ws. r = ws @ t \<and> blanks ws" by blast
qed

lemma after_from_iff:
  assumes "t \<noteq> []" "\<not> js_space (hd t)"
  shows "after_from s t \<longleftrightarrow> lower (take 4 s) = ''from'' \<and> drop 4 s \<noteq> t \<and> t = dropWhile js_space (drop 4 s)"
proof -
  have "length kw = 4" if "lower kw = ''from''" for kw
    using arg_cong [OF that, of length] by simp
  then have "after_from s t \<longleftrightarrow> lower (take 4 s) = ''from'' \<and> (\<exists>ws. drop 4 s = ws @ t \<and> blanks ws)"
    unfolding after_from_def by (metis append_eq_conv_conj append_take_drop_id)
  then show ?thesis using skip_blanks [OF assms, of "drop 4 s"] by simp
qed

lemma after_platform_iff:
  assumes "u \<noteq> []" "\<not> js_space (hd u)"
  shows "after_platform t u \<longleftrightarrow> platform_skipped t = Some u"
proof
  assume "after_platform t u"
  then obtain flag val gap where p: "t = flag @ val @ gap @ u" "lower flag = ''--platform=''"
    "val \<noteq> []" "list_all (\<lambda>c. \<not> js_space c) val" "blanks gap"
    by (auto simp: after_platform_def)
  have len: "length flag = 11" using arg_cong [OF p(2), of length] by simp
  have "dropWhile (\<lambda>c. \<not> js_space c) (val @ gap @ u) = gap @ u"
    using p(4,5) by (cases gap) (auto simp: blanks_def list_all_iff dropWhile_append)
  moreover have "dropWhile js_space (gap @ u) = u"
    using skip_blanks [OF assms, of "gap @ u"] p(5) by auto
  ultimately show "platform_skipped t = Some u"
    using p len by (cases gap) (simp_all add: platform_skipped_def Let_def blanks_def)
next
  assume skip: "platform_skipped t = Some u"
  define p where "p = drop 11 t"
  define r where "r = dropWhile (\<lambda>c. \<not> js_space c) p"
  have u: "lower (take 11 t) = ''--platform=''" "p \<noteq> r" "r \<noteq> []" "u = dropWhile js_space r"
    using skip by (auto simp: platform_skipped_def p_def r_def Let_def split: if_splits)
  have t: "t = take 11 t @ takeWhile (\<lambda>c. \<not> js_space c) p @ r" by (simp add: p_def r_def)
  have "js_space (hd r)" using u(3) hd_dropWhile unfolding r_def by blast
  then have "r \<noteq> u" using assms by auto
  then obtain gap where "r = gap @ u" "blanks gap" using skip_blanks [OF assms, of r] u(4) by blast
  moreover have "takeWhile (\<lambda>c. \<not> js_space c) p \<noteq> []" using u(2) by (metis append_Nil r_def takeWhile_dropWhile_id)
  moreover have "list_all (\<lambda>c. \<not> js_space c) (takeWhile (\<lambda>c. \<not> js_space c) p)"
    by (auto simp: list_all_iff dest: set_takeWhileD)
  ultimately show "after_platform t u" using t u(1) unfolding after_platform_def by blast
qed

lemma platform_start: "after_platform t u \<Longrightarrow> t \<noteq> [] \<and> \<not> js_space (hd t)"
proof -
  assume "after_platform t u"
  then obtain flag val gap where "t = flag @ val @ gap @ u" and low: "lower flag = ''--platform=''"
    unfolding after_platform_def by blast
  then have f: "prefix flag t" "lower flag = ''--platform=''" by simp_all
  then have flag: "flag \<noteq> []" "to_lower (hd flag) = CHR ''-''" by (auto simp: lower_def hd_map)
  have "js_space (hd flag) \<Longrightarrow> to_lower (hd flag) = hd flag"
    by (auto simp: js_space_def to_lower_def Let_def)
  moreover have "\<not> js_space (CHR ''-'')" by (simp add: js_space_def)
  ultimately have "\<not> js_space (hd flag)" using flag(2) by auto
  then show ?thesis using f(1) flag(1) by (cases flag) (auto simp: prefix_def)
qed

lemma from_clause_iff: "from_clause s = Some n \<longleftrightarrow> from_match s n"
proof -
  define t0 where "t0 = dropWhile js_space (drop 4 s)"
  have skip: "after_from s t \<longleftrightarrow> lower (take 4 s) = ''from'' \<and> drop 4 s \<noteq> t0 \<and> t = t0"
    if "t \<noteq> []" "\<not> js_space (hd t)" for t
    using after_from_iff [OF that] by (auto simp: t0_def)
  have plat: "(\<exists>t u. after_from s t \<and> after_platform t u \<and> names u m) \<longleftrightarrow>
      lower (take 4 s) = ''from'' \<and> drop 4 s \<noteq> t0 \<and> Option.bind (platform_skipped t0) image_name_at = Some m" for m
  proof -
    have "after_from s t \<and> after_platform t u \<and> names u m \<longleftrightarrow>
        lower (take 4 s) = ''from'' \<and> drop 4 s \<noteq> t0 \<and> t = t0 \<and> platform_skipped t0 = Some u \<and> image_name_at u = Some m" for t u
      using skip [of t] platform_start [of t u] after_platform_iff [of u t] names_start [of u m] image_name_at_iff [of u m]
      by auto
    then show ?thesis by (simp add: bind_eq_Some_conv)
  qed
  have plain: "(\<exists>t. after_from s t \<and> names t m) \<longleftrightarrow>
      lower (take 4 s) = ''from'' \<and> drop 4 s \<noteq> t0 \<and> image_name_at t0 = Some m" for m
  proof -
    have "after_from s t \<and> names t m \<longleftrightarrow>
        lower (take 4 s) = ''from'' \<and> drop 4 s \<noteq> t0 \<and> t = t0 \<and> image_name_at t = Some m" for t
      using skip [of t] names_start [of t m] image_name_at_iff [of t m] by auto
    then show ?thesis by simp
  qed
  have any: "(\<exists>t u m. after_from s t \<and> after_platform t u \<and> names u m) \<longleftrightarrow>
      (\<exists>m. lower (take 4 s) = ''from'' \<and> drop 4 s \<noteq> t0 \<and> Option.bind (platform_skipped t0) image_name_at = Some m)"
    using plat by blast
  show ?thesis
  proof (cases "lower (take 4 s) = ''from'' \<and> drop 4 s \<noteq> t0")
    case True
    then have "from_match s n \<longleftrightarrow> (if \<exists>m. Option.bind (platform_skipped t0) image_name_at = Some m
        then Option.bind (platform_skipped t0) image_name_at = Some n else image_name_at t0 = Some n)"
      unfolding from_match_def plain using plat [of n] any by simp
    with True show ?thesis by (auto simp: from_clause_def t0_def Let_def split: option.split)
  next
    case False
    then have "\<not> from_match s n" unfolding from_match_def plain any by auto
    with False show ?thesis by (auto simp: from_clause_def t0_def Let_def)
  qed
qed

text \<open>Where a line of the text starts.\<close>

definition line_start :: "string \<Rightarrow> nat \<Rightarrow> bool" where
  "line_start d i \<longleftrightarrow> i \<le> length d \<and> (i = 0 \<or> line_break (d ! (i - 1)))"

lemma first_base_iff:
  "first_base at_start d = Some n \<longleftrightarrow>
     (\<exists>i \<le> length d. (if i = 0 then at_start else line_break (d ! (i - 1))) \<and> from_match (drop i d) n \<and>
       (\<forall>j < i. (if j = 0 then at_start else line_break (d ! (j - 1))) \<longrightarrow> (\<nexists>m. from_match (drop j d) m)))"
proof (induction d arbitrary: at_start)
  case Nil
  have "from_clause [] = None" by (simp add: from_clause_def lower_def)
  then show ?case by (simp add: first_base.simps flip: from_clause_iff)
next
  case (Cons c d)
  have shift: "(\<exists>i \<le> length (c # d). P i) \<longleftrightarrow> P 0 \<or> (\<exists>i \<le> length d. P (Suc i))" for P
    by (metis (no_types, lifting) Suc_le_mono length_Cons not0_implies_Suc zero_le)
  have less: "(\<forall>j < Suc i. Q j) \<longleftrightarrow> Q 0 \<and> (\<forall>j < i. Q (Suc j))" for Q and i
    using less_Suc_eq_0_disj by auto
  have "(if Suc k = 0 then at_start else line_break ((c # d) ! (Suc k - 1))) \<longleftrightarrow>
      (if k = 0 then line_break c else line_break (d ! (k - 1)))" for k
    by (cases k) simp_all
  then show ?case
    unfolding shift less
    using Cons.IH [of "line_break c"] by (auto simp: first_base.simps [of at_start "c # d"] from_clause_iff [symmetric] split: option.split)
qed

section \<open>Properties\<close>

text \<open>C31. The base image the Dockerfile form checks is the one the regular expression finds first: the
  search over the text returns a name exactly when some line start matches \<open>FROM\<close>, blanks, an
  optional platform and that name, and no line start before it matches.\<close>

theorem dockerfile_base:
  "first_base True d = Some n \<longleftrightarrow>
     (\<exists>i. line_start d i \<and> from_match (drop i d) n \<and> (\<forall>j < i. line_start d j \<longrightarrow> (\<nexists>m. from_match (drop j d) m)))"
proof -
  have "(\<exists>i \<le> length d. (if i = 0 then True else line_break (d ! (i - 1))) \<and> from_match (drop i d) n \<and>
       (\<forall>j < i. (if j = 0 then True else line_break (d ! (j - 1))) \<longrightarrow> (\<nexists>m. from_match (drop j d) m))) \<longleftrightarrow>
     (\<exists>i. line_start d i \<and> from_match (drop i d) n \<and> (\<forall>j < i. line_start d j \<longrightarrow> (\<nexists>m. from_match (drop j d) m)))"
    by (intro arg_cong [of _ _ Ex] ext) (auto simp: line_start_def)
  then show ?thesis unfolding first_base_iff .
qed

definition demo_dockerfile :: string where
  "demo_dockerfile = ''# x'' @ newline # ''from  --Platform=linux/amd64 hub/nvidia:1#c'' @ newline # ''FROM b''"

theorem dockerfile_base_witness:
  "\<exists>i. line_start demo_dockerfile i \<and> from_match (drop i demo_dockerfile) ''hub/nvidia:1''"
proof -
  have "first_base True demo_dockerfile = Some ''hub/nvidia:1''" by code_simp
  then show ?thesis using dockerfile_base [of demo_dockerfile] by blast
qed

text \<open>A build that is sent from the form for base images or for Dockerfiles has a name that is empty
  or well formed and contains \<open>jupyter\<close> and \<open>nvidia\<close> (and for base images \<open>envd\<close>) whenever its base
  image does, a tag other than \<open>latest\<close>, and an architecture; a Dockerfile without a base image sends
  nothing.\<close>

theorem build_names:
  shows "(pipAptFormSchema v \<and> pip_apt_onSubmit pending v = Submitted r \<longrightarrow>
      (let p = pip_apt_payload v in r = apiUserCreateKaniko p \<and> \<not> pending \<and>
        (kc_name p = [] \<or> imageNameRegex (kc_name p)) \<and> kc_tag p \<noteq> ''latest'' \<and> kc_archs p \<noteq> [] \<and>
        (\<forall>m \<in> {''jupyter'', ''envd'', ''nvidia''}. str_includes (kc_image p) m \<longrightarrow> kc_name p = [] \<or> str_includes (kc_name p) m))) \<and>
    (dockerfileFormSchema w \<and> dockerfile_onSubmit pending w = Submitted r \<longrightarrow>
      (let p = dockerfile_payload w in r = apiUserCreateByDockerfile p \<and> \<not> pending \<and>
        (dc_name p = [] \<or> imageNameRegex (dc_name p)) \<and> dc_tag p \<noteq> ''latest'' \<and> dc_archs p \<noteq> [] \<and>
        (\<exists>base. first_base True (dc_dockerfile p) = Some base \<and>
          (\<forall>m \<in> {''jupyter'', ''nvidia''}. str_includes base m \<longrightarrow> dc_name p = [] \<or> str_includes (dc_name p) m))))"
proof -
  have name: "str_includes base m \<longrightarrow> text_of nm = [] \<or> str_includes (text_of nm) m"
    if "\<not> name_lacks base nm m" for base nm m
    using that by (auto simp: name_lacks_def text_of_def split: option.splits)
  have ok: "text_of nm = [] \<or> imageNameRegex (text_of nm)" if "image_name_ok nm" for nm
    using that by (auto simp: image_name_ok_def text_of_def split: option.splits)
  have tag: "text_of tg \<noteq> ''latest''" if "image_tag_ok tg" for tg
    using that by (auto simp: image_tag_ok_def text_of_def split: option.splits)
  have "pipAptFormSchema v \<and> pip_apt_onSubmit pending v = Submitted r \<longrightarrow>
      (let p = pip_apt_payload v in r = apiUserCreateKaniko p \<and> \<not> pending \<and>
        (kc_name p = [] \<or> imageNameRegex (kc_name p)) \<and> kc_tag p \<noteq> ''latest'' \<and> kc_archs p \<noteq> [] \<and>
        (\<forall>m \<in> {''jupyter'', ''envd'', ''nvidia''}. str_includes (kc_image p) m \<longrightarrow> kc_name p = [] \<or> str_includes (kc_name p) m))"
    using name [of "pa_baseImage v" "pa_imageName v"] ok [of "pa_imageName v"] tag [of "pa_imageTag v"]
    by (auto simp: pipAptFormSchema_def pip_apt_onSubmit_def pip_apt_payload_def Let_def split: if_splits)
  moreover have "dockerfileFormSchema w \<and> dockerfile_onSubmit pending w = Submitted r \<longrightarrow>
      (let p = dockerfile_payload w in r = apiUserCreateByDockerfile p \<and> \<not> pending \<and>
        (dc_name p = [] \<or> imageNameRegex (dc_name p)) \<and> dc_tag p \<noteq> ''latest'' \<and> dc_archs p \<noteq> [] \<and>
        (\<exists>base. first_base True (dc_dockerfile p) = Some base \<and>
          (\<forall>m \<in> {''jupyter'', ''nvidia''}. str_includes base m \<longrightarrow> dc_name p = [] \<or> str_includes (dc_name p) m)))"
    using name [of _ "df_imageName w"] ok [of "df_imageName w"] tag [of "df_imageTag w"]
    by (auto simp: dockerfileFormSchema_def dockerfile_onSubmit_def dockerfile_payload_def Let_def
        split: if_splits option.splits)
  ultimately show ?thesis by blast
qed

definition demo_build :: dockerfile_form where
  "demo_build = \<lparr>df_dockerfile = demo_dockerfile, df_description = ''d'', df_imageName = Some ''my-nvidia'',
     df_imageTag = Some ''v1'', df_tags = None, df_imageArchs = [''linux/amd64'']\<rparr>"

theorem build_names_witness:
  "str_includes (dc_name (dockerfile_payload demo_build)) ''nvidia'' \<and>
   dockerfile_onSubmit False (demo_build\<lparr>df_imageName := Some ''mine''\<rparr>) = Name_must_include ''nvidia''"
proof -
  have base: "first_base True demo_dockerfile = Some ''hub/nvidia:1''" by code_simp
  have "dockerfileFormSchema demo_build" by code_simp
  moreover have lacks: "\<not> name_lacks ''hub/nvidia:1'' (Some ''my-nvidia'') ''jupyter''"
    "\<not> name_lacks ''hub/nvidia:1'' (Some ''my-nvidia'') ''nvidia''"
    "\<not> name_lacks ''hub/nvidia:1'' (Some ''mine'') ''jupyter''"
    "name_lacks ''hub/nvidia:1'' (Some ''mine'') ''nvidia''" "str_includes ''hub/nvidia:1'' ''nvidia''"
    by code_simp+
  moreover have "dockerfile_onSubmit False demo_build = Submitted (apiUserCreateByDockerfile (dockerfile_payload demo_build))"
    using base lacks by (simp add: dockerfile_onSubmit_def demo_build_def)
  moreover have "dc_name (dockerfile_payload demo_build) \<noteq> []" "dc_dockerfile (dockerfile_payload demo_build) = demo_dockerfile"
    by (simp_all add: dockerfile_payload_def demo_build_def text_of_def)
  ultimately have "str_includes (dc_name (dockerfile_payload demo_build)) ''nvidia''"
    using build_names [of undefined False "apiUserCreateByDockerfile (dockerfile_payload demo_build)" demo_build] base
    by (auto simp: Let_def)
  then show ?thesis using base lacks by (simp add: dockerfile_onSubmit_def demo_build_def)
qed

text \<open>What cloning does: the sheet of the source reads the stored configuration.\<close>

definition cloned :: "ImagePackSource \<Rightarrow> string \<Rightarrow> updater list \<Rightarrow> loader \<Rightarrow> loader" where
  "cloned source template us st =
     (case Option.bind (clone_sheet source) sheet_metadata of
        None \<Rightarrow> st | Some md \<Rightarrow> loadImageTemplate md us (Some template) st)"

lemma wf_json_values [simp]: "wf_json (json_values vs)"
  by (auto simp: json_values_def)

lemma wf_build_forms:
  "wf_json (json_envd v)" "wf_json (json_envd_raw w)" "wf_json (json_pip_apt p)" "wf_json (json_dockerfile d)"
  by (auto simp: json_envd_def json_envd_raw_def json_pip_apt_def json_dockerfile_def opt_field_def split: option.splits)

text \<open>Cloning gives the form back: for each of the four ways to build an image, the sheet that opens
  for the build's source, given the configuration that was sent with it, fills its form with exactly
  the values that were submitted.\<close>

theorem image_clone:
  "cloned (ec_buildSource (envd_payload images v)) (ec_template (envd_payload images v)) us st = fill_form us (Some (json_envd v)) st \<and>
   cloned (ec_buildSource (envd_raw_payload w)) (ec_template (envd_raw_payload w)) us st = fill_form us (Some (json_envd_raw w)) st \<and>
   cloned (kc_buildSource (pip_apt_payload p)) (kc_template (pip_apt_payload p)) us st = fill_form us (Some (json_pip_apt p)) st \<and>
   cloned (dc_buildSource (dockerfile_payload d)) (dc_template (dockerfile_payload d)) us st = fill_form us (Some (json_dockerfile d)) st"
  by (simp add: cloned_def envd_payload_def envd_raw_payload_def pip_apt_payload_def dockerfile_payload_def
      loadImageTemplate_def import_exported wf_build_forms)

text \<open>The generated envd script installs what the form asks for: its list of APT packages is the
  default packages followed by the form's words, and its list of Python packages the form's lines,
  present only if there are any, whatever characters they contain but a quote (and, for APT packages,
  the base and the version, a line break); and Jupyter is configured exactly when it is enabled.\<close>

theorem envd_script_packages:
  assumes "newline \<notin> set (ev_base v) \<union> set (ev_python v) \<union> set (text_of (ev_aptPackages v))"
    and "quote_char \<notin> set (text_of (ev_aptPackages v)) \<union> set (text_of (ev_requirements v))"
  shows "script_items apt_prefix (envd_script v) = Some (default_apt @ values_of (items_of (CHR '' '') (ev_aptPackages v))) \<and>
    script_items python_prefix (envd_script v) =
      (case values_of (items_of newline (ev_requirements v)) of [] \<Rightarrow> None | ps \<Rightarrow> Some ps) \<and>
    (''    config.jupyter()'' \<in> set (split_char newline (envd_script v)) \<longleftrightarrow> ev_enableJupyter v = Some True)"
proof -
  define apt where "apt = values_of (items_of (CHR '' '') (ev_aptPackages v))"
  define pip where "pip = values_of (items_of newline (ev_requirements v))"
  define ls where "ls = script_lines (ev_base v) (ev_python v) apt pip (ev_enableJupyter v = Some True) (ev_enableZsh v = Some True)"
  have nl: "list_all (\<lambda>x. newline \<notin> set x) apt" "list_all (\<lambda>x. newline \<notin> set x) pip"
    unfolding apt_def pip_def using assms(1) items_free items_free_sep by auto
  have q: "list_all (\<lambda>x. quote_char \<notin> set x) apt" "list_all (\<lambda>x. quote_char \<notin> set x) pip"
    unfolding apt_def pip_def using assms(2) items_free by auto
  have d: "list_all (\<lambda>x. quote_char \<notin> set x) default_apt" by code_simp
  have "ls \<noteq> []" by (simp add: ls_def script_lines_def)
  moreover have "\<forall>l \<in> set ls. newline \<notin> set l"
    unfolding ls_def by (intro script_lines_free) (use nl assms(1) in auto)
  ultimately have lines: "split_char newline (envd_script v) = ls"
    using split_join by (simp add: envd_script_def generateBuildScript_def ls_def apt_def pip_def)
  have end': "quote_char \<notin> set ''])''" by (simp add: quote_char_def)
  have "odds (split_char quote_char (quoted_list (default_apt @ apt) @ ''])'')) = default_apt @ apt"
    "odds (split_char quote_char (quoted_list pip @ ''])'')) = pip"
    using odds_quoted_list [OF _ end'] d q by simp_all
  then have "script_items apt_prefix (envd_script v) = Some (default_apt @ apt)"
    "script_items python_prefix (envd_script v) = (if pip = [] then None else Some pip)"
    unfolding script_items_def lines ls_def find_lists
    by (simp_all add: apt_line_def python_line_def apt_prefix_def python_prefix_def)
  moreover have "''    config.jupyter()'' \<in> set ls \<longleftrightarrow> ev_enableJupyter v = Some True"
    using jupyter_line [of "ev_base v" "ev_python v" apt pip] by (auto simp: ls_def)
  ultimately show ?thesis by (simp add: lines apt_def pip_def split: list.split)
qed

definition demo_envd :: envd_form where
  "demo_envd = \<lparr>ev_python = ''3.12'', ev_base = ''hub/cuda:12'', ev_description = ''d'', ev_aptPackages = Some ''git  curl '',
     ev_requirements = Some (''# torch'' @ [newline] @ ''numpy>=2''), ev_enableJupyter = Some True, ev_enableZsh = None,
     ev_imageName = None, ev_imageTag = None, ev_tags = None\<rparr>"

theorem envd_script_packages_witness:
  "script_items apt_prefix (envd_script demo_envd) = Some (default_apt @ [''git'', ''curl'']) \<and>
   script_items python_prefix (envd_script demo_envd) = Some [''# torch'', ''numpy>=2'']"
proof -
  have "newline \<notin> set (ev_base demo_envd) \<union> set (ev_python demo_envd) \<union> set (text_of (ev_aptPackages demo_envd))"
    "quote_char \<notin> set (text_of (ev_aptPackages demo_envd)) \<union> set (text_of (ev_requirements demo_envd))"
    by (simp_all add: demo_envd_def newline_def quote_char_def text_of_def)
  moreover have "values_of (items_of (CHR '' '') (ev_aptPackages demo_envd)) = [''git'', ''curl'']" by code_simp
  moreover have "values_of (items_of newline (ev_requirements demo_envd)) = [''# torch'', ''numpy>=2'']" by code_simp
  ultimately show ?thesis using envd_script_packages [of demo_envd] by simp
qed

end
