(* ===== verification/TagsInput.thy ===== *)
theory TagsInput
  imports Images Machine
begin

text \<open>
  The field for tags and architectures (\<open>components/form/tags-input.tsx\<close>): the tags in the form,
  the text being typed, and what clicking and typing do to them.
\<close>

record tag_item =
  tg_value :: string
  tg_label :: "string option"

record tags_input =
  ti_tags :: "tag_item list"
  ti_inputValue :: string

definition tag_shown :: "tag_item \<Rightarrow> string" where
  "tag_shown t = (case tg_label t of None \<Rightarrow> tg_value t | Some l \<Rightarrow> l)"

definition addCustomTag :: "tags_input \<Rightarrow> tags_input" where
  "addCustomTag s =
     (if js_trim (ti_inputValue s) \<noteq> [] \<and>
         \<not> list_ex (\<lambda>t. lower (tg_value t) = lower (ti_inputValue s)) (ti_tags s)
      then s\<lparr>ti_tags := ti_tags s @ [\<lparr>tg_value = ti_inputValue s, tg_label = Some (ti_inputValue s)\<rparr>],
             ti_inputValue := []\<rparr>
      else s)"

definition removeTag :: "string \<Rightarrow> tags_input \<Rightarrow> tags_input" where
  "removeTag tagToRemove s = s\<lparr>ti_tags := filter (\<lambda>t. tg_value t \<noteq> tagToRemove) (ti_tags s)\<rparr>"

definition handleKeyDown :: "string \<Rightarrow> tags_input \<Rightarrow> tags_input" where
  "handleKeyDown key s =
     (if key = ''Enter'' \<and> js_trim (ti_inputValue s) \<noteq> [] then addCustomTag s else s)"

text \<open>The tags offered in the list, and choosing one of them.\<close>

definition offered :: "tag_item list \<Rightarrow> tags_input \<Rightarrow> tag_item list" where
  "offered availableTags s =
     filter (\<lambda>tag. \<not> list_ex (\<lambda>t. tg_value t = tg_value tag) (ti_tags s)) availableTags"

definition select_tag :: "tag_item \<Rightarrow> tags_input \<Rightarrow> tags_input" where
  "select_tag tag s = s\<lparr>ti_tags := ti_tags s @ [tag]\<rparr>"

definition clear_tags :: "tags_input \<Rightarrow> tags_input" where
  "clear_tags s = s\<lparr>ti_tags := []\<rparr>"

datatype tags_event = Type_text string | Key string | Press_add | Press_remove string | Choose tag_item | Press_clear

text \<open>
  The add button is disabled while the text is blank; architectures have no text field; only shown
  tags can be removed and only offered ones chosen.
\<close>

inductive tags_step :: "bool \<Rightarrow> tag_item list \<Rightarrow> tags_input \<Rightarrow> tags_event \<Rightarrow> tags_input \<Rightarrow> bool"
  for imageBuildArch :: bool and availableTags :: "tag_item list" where
  tags_type: "\<not> imageBuildArch \<Longrightarrow> tags_step imageBuildArch availableTags s (Type_text x) (s\<lparr>ti_inputValue := x\<rparr>)"
| tags_key: "\<not> imageBuildArch \<Longrightarrow> tags_step imageBuildArch availableTags s (Key k) (handleKeyDown k s)"
| tags_add: "\<not> imageBuildArch \<Longrightarrow> js_trim (ti_inputValue s) \<noteq> [] \<Longrightarrow>
    tags_step imageBuildArch availableTags s Press_add (addCustomTag s)"
| tags_remove: "t \<in> set (ti_tags s) \<Longrightarrow>
    tags_step imageBuildArch availableTags s (Press_remove (tg_value t)) (removeTag (tg_value t) s)"
| tags_choose: "t \<in> set (offered availableTags s) \<Longrightarrow>
    tags_step imageBuildArch availableTags s (Choose t) (select_tag t s)"
| tags_clear: "ti_tags s \<noteq> [] \<Longrightarrow> tags_step imageBuildArch availableTags s Press_clear (clear_tags s)"

inductive_cases tags_stepE: "tags_step arch avail s e s'"
inductive_simps tags_choose_simp: "tags_step arch avail s (Choose t) s'"

definition tags_start :: "tags_input \<Rightarrow> bool" where
  "tags_start s \<longleftrightarrow> distinct (map tg_value (ti_tags s)) \<and> ti_inputValue s = []"

text \<open>No two tags have the same value, and a tag that is not offered from the list is not blank.\<close>

definition tags_inv :: "tag_item list \<Rightarrow> tag_item set \<Rightarrow> tags_input \<Rightarrow> bool" where
  "tags_inv availableTags old s \<longleftrightarrow> distinct (map tg_value (ti_tags s)) \<and>
     (\<forall>t \<in> set (ti_tags s). t \<in> old \<or> t \<in> set availableTags \<or> js_trim (tg_value t) \<noteq> [])"

lemma add_inv: "tags_inv av old s \<Longrightarrow> tags_inv av old (addCustomTag s)"
  by (auto simp: tags_inv_def addCustomTag_def list_ex_iff)

lemma remove_inv: "tags_inv av old s \<Longrightarrow> tags_inv av old (removeTag v s)"
  by (auto simp: tags_inv_def removeTag_def intro: distinct_map_filter)

lemma choose_inv: "tags_inv av old s \<Longrightarrow> t \<in> set (offered av s) \<Longrightarrow> tags_inv av old (select_tag t s)"
  by (auto simp: tags_inv_def select_tag_def offered_def list_ex_iff)

lemma tags_step_inv: "tags_step arch av s e s' \<Longrightarrow> tags_inv av old s \<Longrightarrow> tags_inv av old s'"
proof (induction rule: tags_step.induct)
  case (tags_key s k)
  then show ?case by (simp add: handleKeyDown_def add_inv)
next
  case (tags_add s)
  then show ?case by (simp add: add_inv)
next
  case (tags_remove t s)
  then show ?case by (simp add: remove_inv)
next
  case (tags_choose t s)
  then show ?case by (simp add: choose_inv)
qed (simp_all add: tags_inv_def clear_tags_def)

interpretation tags: machine "tags_step arch av" "\<lambda>s. tags_start s \<and> set (ti_tags s) = old" "tags_inv av old"
  for arch av old
proof
  show "tags_start s \<and> set (ti_tags s) = old \<Longrightarrow> tags_inv av old s" for s
    by (auto simp: tags_start_def tags_inv_def)
  show "tags_inv av old s \<Longrightarrow> tags_step arch av s e s' \<Longrightarrow> tags_inv av old s'" for s e s'
    using tags_step_inv by blast
qed

text \<open>The tags field never holds two tags with the same value, however tags are typed, chosen, removed
  and cleared; every tag was there at first, comes from the list, or is not blank; and for
  architectures every new tag comes from the list.\<close>

theorem tags_distinct:
  assumes "tags_start s" "runs (tags_step arch av) s es s'"
  shows "distinct (map tg_value (ti_tags s')) \<and>
    (\<forall>t \<in> set (ti_tags s'). t \<in> set (ti_tags s) \<or> t \<in> set av \<or> \<not> arch \<and> js_trim (tg_value t) \<noteq> [])"
proof -
  have "arch \<Longrightarrow> \<forall>t \<in> set (ti_tags s'). t \<in> set (ti_tags s) \<or> t \<in> set av"
    using assms(2)
  proof (induction rule: runs.induct)
    case (runs_Cons s e s' es s'')
    from runs_Cons(1,4) have "set (ti_tags s') \<subseteq> set (ti_tags s) \<union> set av"
      by (auto elim!: tags_stepE simp: removeTag_def select_tag_def clear_tags_def offered_def)
    with runs_Cons show ?case by blast
  qed simp
  moreover have "tags_inv av (set (ti_tags s)) s'"
    using tags.reachable_inv assms by blast
  ultimately show ?thesis by (auto simp: tags_inv_def)
qed

theorem tags_distinct_witness:
  "distinct (map tg_value (ti_tags (select_tag \<lparr>tg_value = ''R'', tg_label = None\<rparr>
     (addCustomTag \<lparr>ti_tags = [], ti_inputValue = ''r''\<rparr>))))"
proof -
  define a where "a = \<lparr>tg_value = ''R'', tg_label = None\<rparr>"
  define s0 where "s0 = \<lparr>ti_tags = [], ti_inputValue = []\<rparr>"
  have trim: "js_trim ''r'' \<noteq> []" by code_simp
  have "tags_step False [a] s0 (Type_text ''r'') (s0\<lparr>ti_inputValue := ''r''\<rparr>)" by (rule tags_type) simp
  moreover have "tags_step False [a] (s0\<lparr>ti_inputValue := ''r''\<rparr>) Press_add (addCustomTag (s0\<lparr>ti_inputValue := ''r''\<rparr>))"
    by (rule tags_add) (use trim in simp_all)
  moreover have "tags_step False [a] (addCustomTag (s0\<lparr>ti_inputValue := ''r''\<rparr>)) (Choose a)
      (select_tag a (addCustomTag (s0\<lparr>ti_inputValue := ''r''\<rparr>)))"
    by (rule tags_choose) (use trim in \<open>simp add: offered_def addCustomTag_def s0_def a_def\<close>)
  ultimately have "runs (tags_step False [a]) s0 [Type_text ''r'', Press_add, Choose a]
      (select_tag a (addCustomTag (s0\<lparr>ti_inputValue := ''r''\<rparr>)))"
    by (blast intro: runs.intros)
  moreover have "tags_start s0" by (simp add: tags_start_def s0_def)
  ultimately show ?thesis using tags_distinct by (fastforce simp: s0_def a_def)
qed

end
