(* ===== verification/Config.thy ===== *)
theory Config
  imports JobForms
begin

text \<open>
  The configuration of the site (\<open>utils/store/config.ts\<close>) and the loader of the root route
  (\<open>routes/__root.tsx\<close>), which fetches \<open>/config.json\<close>, keeps it in an atom backed by
  \<open>localStorage\<close> and reloads the page when it changed. How the \<open>jotai\<close> library stores an
  atom is a parameter: \<open>save\<close> is the text it stores, \<open>init\<close> what it reads when the page starts.
\<close>

section \<open>The configuration\<close>

definition CONFIG_STORAGE_KEY :: string where "CONFIG_STORAGE_KEY = ''app_config''"
definition CONFIG_VERSION_KEY :: string where "CONFIG_VERSION_KEY = ''app_config_version''"

definition initial_config :: json where
  "initial_config = JObj [(''version'', JStr []),
     (''url'', JObj [(''apiBase'', JStr []), (''document'', JStr [])]),
     (''grafana'', JObj [
        (''overview'', JObj [(''main'', JStr []), (''schedule'', JStr []), (''network'', JStr [])]),
        (''node'', JObj [(''basic'', JStr []), (''nvidia'', JStr [])]),
        (''job'', JObj [(''basic'', JStr []), (''nvidia'', JStr []), (''pod'', JStr [])]),
        (''user'', JObj [(''nvidia'', JStr [])])])]"

text \<open>\<open>apiGetConfig\<close>: the body of a successful answer, else an error.\<close>

datatype config_error = Load_failed | Not_config

definition apiGetConfig :: "bool \<Rightarrow> string \<Rightarrow> config_error + json" where
  "apiGetConfig ok body = (if \<not> ok then Inl Load_failed
     else (case json_parse body of None \<Rightarrow> Inl Not_config | Some config \<Rightarrow> Inr config))"

text \<open>The derived atoms: reading a property of something missing throws.\<close>

definition config_at :: "json \<Rightarrow> string list \<Rightarrow> form_error + json option" where
  "config_at c path = foldl (\<lambda>r k. bindE r (\<lambda>v. get_prop v k)) (Inr (Some c)) path"

definition configAPIBaseAtom :: "json \<Rightarrow> form_error + json option" where
  "configAPIBaseAtom c = bindE (config_at c [''url'', ''apiBase'']) (\<lambda>v.
     Inr (if truthy v then v else Some (JStr [])))"

definition configAppVersionAtom :: "json \<Rightarrow> form_error + json option" where
  "configAppVersionAtom c = config_at c [''version'']"

definition configUrlWebsiteBaseAtom :: "json \<Rightarrow> form_error + json option" where
  "configUrlWebsiteBaseAtom c = config_at c [''url'', ''document'']"

definition configGrafanaOverviewAtom :: "json \<Rightarrow> form_error + json option" where
  "configGrafanaOverviewAtom c = config_at c [''grafana'', ''overview'']"

definition configGrafanaNodeAtom :: "json \<Rightarrow> form_error + json option" where
  "configGrafanaNodeAtom c = config_at c [''grafana'', ''node'']"

definition configGrafanaJobAtom :: "json \<Rightarrow> form_error + json option" where
  "configGrafanaJobAtom c = config_at c [''grafana'', ''job'']"

definition configGrafanaUserAtom :: "json \<Rightarrow> form_error + json option" where
  "configGrafanaUserAtom c = config_at c [''grafana'', ''user'']"

section \<open>The loader of the root route\<close>

text \<open>\<open>JSON.stringify(v)\<close>, without indentation.\<close>

fun compact :: "json \<Rightarrow> string" where
  "compact JNull = ''null''"
| "compact (JBool b) = (if b then ''true'' else ''false'')"
| "compact (JNum r) = rat_str r"
| "compact (JStr s) = esc_str s"
| "compact (JArr xs) = ''['' @ join_with '','' (map compact xs) @ '']''"
| "compact (JObj ms) = ''{'' @ join_with '','' (map (\<lambda>m. esc_str (fst m) @ '':'' @ compact (snd m)) ms) @ ''}''"

text \<open>
  One load of the page: the stored text, the answer to \<open>/config.json\<close>; the text stored after it
  and whether the page is reloaded. A failed fetch makes the loader throw before it stores anything.
\<close>

definition root_loader ::
  "(json \<Rightarrow> string) \<Rightarrow> (string option \<Rightarrow> json) \<Rightarrow> config_error + json \<Rightarrow> string option \<Rightarrow> config_error + string \<times> bool" where
  "root_loader save init answer stored =
     (case answer of
        Inl e \<Rightarrow> Inl e
      | Inr config \<Rightarrow>
          (let prevConfig = init stored; isEqual = (compact prevConfig = compact config) in
           Inr (save config, \<not> isEqual)))"

text \<open>
  The loads of a page, one after the other while it reloads; \<open>answers n\<close> is what the server answers
  at the \<open>n\<close>-th load. The result is the number of the load that stays and what is stored then; a
  page that reloads for ever has none.
\<close>

partial_function (option) page_loads ::
  "(json \<Rightarrow> string) \<Rightarrow> (string option \<Rightarrow> json) \<Rightarrow> (nat \<Rightarrow> config_error + json) \<Rightarrow> nat \<Rightarrow> string option
     \<Rightarrow> (nat \<times> string option) option" where
  "page_loads save init answers n stored =
     (case root_loader save init (answers n) stored of
        Inl e \<Rightarrow> Some (n, stored)
      | Inr (text, again) \<Rightarrow>
          if again then page_loads save init answers (Suc n) (Some text) else Some (n, Some text))"

lemmas loads_simps = page_loads.simps root_loader_def

text \<open>C30. The page does not reload for ever: if the library reads back the configuration it has stored,
  and the server answers the same configuration twice in a row, or fails, then the page stays: at the
  latest one load after the first of the two, whatever was stored before, and it keeps that
  configuration.\<close>

theorem config_reloads_end:
  assumes "\<And>c. answers n = Inr c \<Longrightarrow> init (Some (save c)) = c"
    and "answers (Suc n) = answers n \<or> (\<exists>e. answers (Suc n) = Inl e)"
  shows "\<exists>m \<in> {n, Suc n}. \<exists>stored'. page_loads save init answers n stored = Some (m, stored') \<and>
    (\<forall>c. answers n = Inr c \<longrightarrow> stored' = Some (save c))"
proof (cases "answers n")
  case (Inl e)
  then show ?thesis by (simp add: loads_simps)
next
  case (Inr c)
  show ?thesis
  proof (cases "compact (init stored) = compact c")
    case True
    with Inr show ?thesis by (simp add: loads_simps)
  next
    case False
    then have "page_loads save init answers n stored = page_loads save init answers (Suc n) (Some (save c))"
      using Inr by (subst page_loads.simps) (simp add: root_loader_def)
    moreover have "page_loads save init answers (Suc n) (Some (save c)) = Some (Suc n, Some (save c))"
      using assms Inr by (subst page_loads.simps) (auto simp: root_loader_def)
    ultimately show ?thesis using Inr by simp
  qed
qed

text \<open>With storage that is not kept (the library then reads the initial value), the page reloads for ever.\<close>

definition json_init :: "string option \<Rightarrow> json" where
  "json_init stored = (case Option.bind stored json_parse of None \<Rightarrow> initial_config | Some v \<Rightarrow> v)"

theorem config_reloads_end_witness:
  "\<exists>m \<in> {0, 1}. \<exists>stored'. page_loads json_stringify json_init (\<lambda>n. Inr initial_config) 0 (Some ''{}'') = Some (m, stored') \<and>
     stored' = Some (json_stringify initial_config)"
proof -
  have "wf_json initial_config" by (simp add: initial_config_def)
  then have "json_init (Some (json_stringify initial_config)) = initial_config"
    by (simp add: json_init_def json_parse_stringify)
  then show ?thesis
    using config_reloads_end [of "\<lambda>n. Inr initial_config" 0 json_init json_stringify "Some ''{}''"] by auto
qed

lemma config_lookups:
  "configAPIBaseAtom initial_config = Inr (Some (JStr []))" "configAPIBaseAtom (JObj []) = Inl Type_error"
  "configGrafanaUserAtom initial_config = Inr (Some (JObj [(''nvidia'', JStr [])]))"
  by (simp_all add: configAPIBaseAtom_def configGrafanaUserAtom_def config_at_def initial_config_def bindE_def)

end
