(* ===== verification/Orders.thy ===== *)
theory Orders
  imports ApprovalLock Collections
begin

text \<open>
  The lists of approval orders and what can be done with them: the administrators' page
  (\<open>routes/admin/settings/orders/index.tsx\<close>) and page of one order (\<open>$id.tsx\<close>), the visitor's
  page (\<open>routes/portal/settings/orders/index.tsx\<close>) and the orders of a job
  (\<open>components/job/detail/job-order-list.tsx\<close>). The instant \<open>new Date(createdAt).getTime()\<close> of a
  time the server sends is the function \<open>instant\<close>.
\<close>

section \<open>The lists\<close>

text \<open>The table of the administrators' page lacks \<open>Canceled\<close>, which gets the rank of the unknown.\<close>

fun admin_rank :: "OrderStatus \<Rightarrow> int" where
  "admin_rank Order_Pending = 0"
| "admin_rank Order_Approved = 1"
| "admin_rank Order_Rejected = 2"
| "admin_rank Order_Canceled = 3"

fun status_rank :: "OrderStatus \<Rightarrow> int" where
  "status_rank Order_Pending = 0"
| "status_rank Order_Approved = 1"
| "status_rank Order_Rejected = 2"
| "status_rank Order_Canceled = 3"

definition order_compare :: "(OrderStatus \<Rightarrow> int) \<Rightarrow> (string \<Rightarrow> int) \<Rightarrow> ApprovalOrder \<Rightarrow> ApprovalOrder \<Rightarrow> int" where
  "order_compare rank instant a b =
     (let d = rank (ao_status a) - rank (ao_status b) in
      if d \<noteq> 0 then d else instant (ao_createdAt b) - instant (ao_createdAt a))"

definition admin_orders :: "(string \<Rightarrow> int) \<Rightarrow> ApprovalOrder list option \<Rightarrow> ApprovalOrder list" where
  "admin_orders instant res = sort_by (order_compare admin_rank instant) (case res of None \<Rightarrow> [] | Some os \<Rightarrow> os)"

definition portal_orders :: "(string \<Rightarrow> int) \<Rightarrow> ApprovalOrder list option \<Rightarrow> ApprovalOrder list" where
  "portal_orders instant res = sort_by (order_compare status_rank instant) (case res of None \<Rightarrow> [] | Some os \<Rightarrow> os)"

definition job_orders :: "(string \<Rightarrow> int) \<Rightarrow> ApprovalOrder list option \<Rightarrow> ApprovalOrder list" where
  "job_orders instant res = sort_by (order_compare status_rank instant) (case res of None \<Rightarrow> [] | Some os \<Rightarrow> os)"

text \<open>The counts on the administrators' page.\<close>

definition totalPending :: "ApprovalOrder list \<Rightarrow> nat" where
  "totalPending os = length (filter (\<lambda>o'. ao_status o' = Order_Pending) os)"

definition pendingJobDelay :: "ApprovalOrder list \<Rightarrow> nat" where
  "pendingJobDelay os = length (filter (\<lambda>o'. ao_status o' = Order_Pending \<and> ao_type o' = ''job'' \<and>
     0 < ct_approvalorderExtensionHours (ao_content o')) os)"

definition pendingDataset :: "ApprovalOrder list \<Rightarrow> nat" where
  "pendingDataset os = length (filter (\<lambda>o'. ao_status o' = Order_Pending \<and> ao_type o' = ''dataset'') os)"

text \<open>The hours shown beside the name of a job's order.\<close>

definition shown_hours :: "bool \<Rightarrow> ApprovalOrder \<Rightarrow> int option" where
  "shown_hours showExtensionHours o' =
     (let extHours = (if showExtensionHours then ct_approvalorderExtensionHours (ao_content o') else 0) in
      if showExtensionHours \<and> ao_type o' = ''job'' \<and> 0 < extHours then Some extHours else None)"

section \<open>The requests\<close>

definition OrderStatus_val :: "OrderStatus \<Rightarrow> string" where
  "OrderStatus_val s = (case s of Order_Pending \<Rightarrow> ''Pending'' | Order_Approved \<Rightarrow> ''Approved''
     | Order_Rejected \<Rightarrow> ''Rejected'' | Order_Canceled \<Rightarrow> ''Canceled'')"

definition review_req :: "int option \<Rightarrow> ApprovalOrder \<Rightarrow> string \<Rightarrow> string option \<Rightarrow> ApprovalOrderReq" where
  "review_req user order status notes =
     \<lparr>aq_name = ao_name order, aq_type = ao_type order, aq_status = status,
      aq_approvalorderTypeID = ct_approvalorderTypeID (ao_content order),
      aq_approvalorderReason = ct_approvalorderReason (ao_content order),
      aq_approvalorderExtensionHours = ct_approvalorderExtensionHours (ao_content order),
      aq_reviewerID = Some (case user of None \<Rightarrow> 0 | Some i \<Rightarrow> i), aq_reviewNotes = notes\<rparr>"

definition approveOrder :: "int option \<Rightarrow> ApprovalOrder \<Rightarrow> http_request" where
  "approveOrder user order = updateApprovalOrder (ao_id order) (review_req user order ''Approved'' None)"

definition rejectOrder :: "int option \<Rightarrow> ApprovalOrder \<Rightarrow> string \<Rightarrow> http_request" where
  "rejectOrder user order reason = updateApprovalOrder (ao_id order) (review_req user order ''Rejected'' (Some reason))"

text \<open>The list of a job's orders rejects without notes.\<close>

definition rejectOrder_of_job :: "int option \<Rightarrow> ApprovalOrder \<Rightarrow> http_request" where
  "rejectOrder_of_job user order = updateApprovalOrder (ao_id order) (review_req user order ''Rejected'' None)"

text \<open>\<open>buildPayload\<close> of the page of one order, with the overrides it is given.\<close>

definition buildPayload :: "int option \<Rightarrow> ApprovalOrder \<Rightarrow> string option \<Rightarrow> string option \<Rightarrow> ApprovalOrderReq" where
  "buildPayload user target status notes =
     review_req user target (case status of None \<Rightarrow> OrderStatus_val (ao_status target) | Some s \<Rightarrow> s)
       (Some (case notes of None \<Rightarrow> ao_reviewNotes target | Some n \<Rightarrow> n))"

section \<open>What a click does\<close>

text \<open>
  A toast, a step of the lock hook, a request, or a navigation. The toast without an order is
  \<open>No_order\<close>, that without a reason \<open>No_reason\<close>.
\<close>

datatype review = No_order | No_reason | Lock_first ApprovalOrder | Review http_request | Hidden

definition approve_click :: "int option \<Rightarrow> ApprovalOrder \<Rightarrow> review" where
  "approve_click user order =
     (if ao_status order \<noteq> Order_Pending then Hidden
      else if ao_type order = ''job'' then Lock_first order
      else Review (approveOrder user order))"

definition handleRejectConfirm :: "int option \<Rightarrow> ApprovalOrder option \<Rightarrow> string \<Rightarrow> review" where
  "handleRejectConfirm user rejectTarget rejectReason =
     (case rejectTarget of
        None \<Rightarrow> No_order
      | Some order \<Rightarrow>
          if js_trim rejectReason = [] then No_reason
          else Review (rejectOrder user order (js_trim rejectReason)))"

definition job_list_approve :: "bool \<Rightarrow> int option \<Rightarrow> ApprovalOrder \<Rightarrow> review" where
  "job_list_approve isAdmin user order = (if isAdmin then approve_click user order else Hidden)"

definition job_list_reject :: "bool \<Rightarrow> int option \<Rightarrow> ApprovalOrder \<Rightarrow> review" where
  "job_list_reject isAdmin user order =
     (if isAdmin \<and> ao_status order = Order_Pending then Review (rejectOrder_of_job user order) else Hidden)"

definition detail_approve :: "int option \<Rightarrow> ApprovalOrder option \<Rightarrow> review" where
  "detail_approve user order =
     (case order of
        None \<Rightarrow> Hidden
      | Some o' \<Rightarrow>
          if ao_status o' \<noteq> Order_Pending then Hidden
          else if ao_type o' = ''job'' then Lock_first o'
          else Review (updateApprovalOrder (ao_id o') (buildPayload user o' (Some ''Approved'') None)))"

definition handleRejectSubmit :: "int option \<Rightarrow> ApprovalOrder option \<Rightarrow> string \<Rightarrow> review" where
  "handleRejectSubmit user order rejectionReason =
     (if js_trim rejectionReason = [] then No_reason
      else (case order of
              None \<Rightarrow> No_order
            | Some o' \<Rightarrow> Review (updateApprovalOrder (ao_id o')
                (buildPayload user o' (Some ''Rejected'') (Some (js_trim rejectionReason))))))"

text \<open>
  After the lock dialog of the page of one order has locked the job: the order that the reference
  still holds is approved; \<open>None\<close> is the toast that there is none.
\<close>

definition detail_lock_success :: "int option \<Rightarrow> ApprovalOrder option \<Rightarrow> review" where
  "detail_lock_success user target =
     (case target of
        None \<Rightarrow> No_order
      | Some o' \<Rightarrow> Review (updateApprovalOrder (ao_id o') (buildPayload user o' (Some ''Approved'') None)))"

text \<open>
  Where viewing an order leads, on the page of one order and on the visitor's page: the page of its
  job, or nowhere. From the list beside a job it is always the job.
\<close>

definition order_link :: "bool \<Rightarrow> ApprovalOrder \<Rightarrow> string option" where
  "order_link isAdmin order =
     (if ao_type order = ''job''
      then Some ((if isAdmin then ''/admin/jobs/'' else ''/portal/jobs/detail/'') @ ao_name order) else None)"

definition job_order_link :: "bool \<Rightarrow> ApprovalOrder \<Rightarrow> string" where
  "job_order_link isAdmin order = (if isAdmin then ''/admin/jobs/'' else ''/portal/jobs/detail/'') @ ao_name order"

text \<open>The link a visitor may send to an administrator, offered while the order is pending.\<close>

definition urgent_link :: "string \<Rightarrow> ApprovalOrder \<Rightarrow> string option" where
  "urgent_link origin order =
     (if ao_status order = Order_Pending then Some (origin @ ''/admin/settings/orders/'' @ int_str (ao_id order)) else None)"

section \<open>Properties\<close>

lemma rank_agree: "admin_rank = status_rank"
proof
  show "admin_rank s = status_rank s" for s by (cases s) simp_all
qed

text \<open>The states of an order in the order of the lists.\<close>

instantiation OrderStatus :: linorder
begin

definition less_eq_OrderStatus :: "OrderStatus \<Rightarrow> OrderStatus \<Rightarrow> bool" where
  "s \<le> t \<longleftrightarrow> status_rank s \<le> status_rank t"

definition less_OrderStatus :: "OrderStatus \<Rightarrow> OrderStatus \<Rightarrow> bool" where
  "s < t \<longleftrightarrow> status_rank s < status_rank t"

instance
proof
  fix s t u :: OrderStatus
  show "s < t \<longleftrightarrow> s \<le> t \<and> \<not> t \<le> s" by (auto simp: less_eq_OrderStatus_def less_OrderStatus_def)
  show "s \<le> s" by (simp add: less_eq_OrderStatus_def)
  show "s \<le> t \<Longrightarrow> t \<le> u \<Longrightarrow> s \<le> u" by (simp add: less_eq_OrderStatus_def)
  show "s \<le> t \<Longrightarrow> t \<le> s \<Longrightarrow> s = t" by (cases s; cases t; simp add: less_eq_OrderStatus_def)
  show "s \<le> t \<or> t \<le> s" by (auto simp: less_eq_OrderStatus_def)
qed

end

lemma pending_least [simp]: "Order_Pending \<le> s"
  by (cases s) (simp_all add: less_eq_OrderStatus_def)

interpretation order_list: comparator "order_compare status_rank instant" for instant
  by unfold_locales (auto simp: order_compare_def Let_def split: if_splits)

text \<open>The three lists of orders show the orders the server sent, in one and the same order: by
  status, pending first, then approved, rejected and cancelled; within a status the newest first; and
  orders of the same status and time as the server had them.\<close>

theorem orders_listed:
  fixes x :: ApprovalOrder
  shows "admin_orders instant (Some os) = portal_orders instant (Some os) \<and>
    job_orders instant (Some os) = portal_orders instant (Some os) \<and>
    mset (portal_orders instant (Some os)) = mset os \<and>
    sorted_wrt (\<lambda>a b. status_rank (ao_status a) < status_rank (ao_status b) \<or>
        ao_status a = ao_status b \<and> instant (ao_createdAt b) \<le> instant (ao_createdAt a))
      (portal_orders instant (Some os)) \<and>
    filter (\<lambda>y. ao_status y = ao_status x \<and> instant (ao_createdAt y) = instant (ao_createdAt x)) (portal_orders instant (Some os)) =
      filter (\<lambda>y. ao_status y = ao_status x \<and> instant (ao_createdAt y) = instant (ao_createdAt x)) os"
proof -
  have inj: "status_rank s = status_rank t \<longleftrightarrow> s = t" for s t by (cases s; cases t) simp_all
  have le: "order_compare status_rank instant a b \<le> 0 \<longleftrightarrow> status_rank (ao_status a) < status_rank (ao_status b) \<or>
      ao_status a = ao_status b \<and> instant (ao_createdAt b) \<le> instant (ao_createdAt a)" for a b
    using inj [of "ao_status a" "ao_status b"] by (auto simp: order_compare_def Let_def)
  have eq: "order_compare status_rank instant x y \<le> 0 \<and> order_compare status_rank instant y x \<le> 0 \<longleftrightarrow>
      ao_status y = ao_status x \<and> instant (ao_createdAt y) = instant (ao_createdAt x)" for y
    unfolding le by auto
  have "admin_orders instant (Some os) = portal_orders instant (Some os)"
    by (simp add: admin_orders_def portal_orders_def rank_agree)
  moreover have "filter (\<lambda>y. ao_status y = ao_status x \<and> instant (ao_createdAt y) = instant (ao_createdAt x))
      (portal_orders instant (Some os)) =
    filter (\<lambda>y. ao_status y = ao_status x \<and> instant (ao_createdAt y) = instant (ao_createdAt x)) os"
    using order_list.sort_by_stable [of instant x os] unfolding eq by (simp add: portal_orders_def)
  ultimately show ?thesis
    using order_list.sorted_sort_by [of instant os] by (simp add: portal_orders_def job_orders_def le)
qed

text \<open>The states go up along a list, so that the pending orders are its first ones.\<close>

lemma states_sorted: "sorted (map ao_status (portal_orders instant (Some os)))"
proof -
  have up: "order_compare status_rank instant a b \<le> 0 \<Longrightarrow> ao_status a \<le> ao_status b" for a b
    by (auto simp: order_compare_def Let_def less_eq_OrderStatus_def split: if_splits)
  show ?thesis unfolding portal_orders_def sorted_map option.case
    by (rule sorted_wrt_mono_rel [OF _ order_list.sorted_sort_by]) (rule up)
qed

lemma sorted_least_first: "sorted (map f xs) \<Longrightarrow> (\<And>y. m \<le> f y) \<Longrightarrow> takeWhile (\<lambda>x. f x = m) xs = filter (\<lambda>x. f x = m) xs"
  for f :: "'a \<Rightarrow> 'b::linorder"
proof (induction xs)
  case (Cons x xs)
  show ?case
  proof (cases "f x = m")
    case True
    then show ?thesis using Cons by simp
  next
    case False
    then have "\<forall>y \<in> set xs. f y \<noteq> m" using Cons.prems(1) Cons.prems(2) [of x] by (fastforce dest: antisym)
    then show ?thesis using False by (simp add: filter_empty_conv)
  qed
qed simp

lemma pending_first:
  "takeWhile (\<lambda>x. ao_status x = Order_Pending) (portal_orders instant (Some os)) =
   filter (\<lambda>x. ao_status x = Order_Pending) (portal_orders instant (Some os))"
  using states_sorted by (rule sorted_least_first) simp


definition dataset_order :: ApprovalOrder where
  "dataset_order = \<lparr>ao_id = 7, ao_name = ''data'', ao_type = ''dataset'', ao_status = Order_Pending,
     ao_content = \<lparr>ct_approvalorderTypeID = 1, ct_approvalorderReason = ''r'', ct_approvalorderExtensionHours = 0\<rparr>,
     ao_reviewNotes = [], ao_creator = \<lparr>ui_username = ''u'', ui_nickname = ''n''\<rparr>,
     ao_reviewer = \<lparr>ui_username = [], ui_nickname = []\<rparr>, ao_createdAt = ''t''\<rparr>"


end
