(* ===== verification/UserSettings.thy ===== *)
theory UserSettings
  imports Session
begin

text \<open>
  The visitor's own settings (\<open>routes/portal/settings/user.tsx\<close>): the form, the check of a new
  email address by a code, and the update that is sent. The addresses and links the \<open>zod\<close> library
  accepts are the parameters \<open>is_email\<close> and \<open>is_url\<close>.
\<close>

record settings_form =
  sg_nickname :: "string option"
  sg_email :: "string option"
  sg_teacher :: "string option"
  sg_group :: "string option"
  sg_expiredAt :: "string option"
  sg_phone :: "string option"
  sg_avatar :: "string option"

definition settings_formSchema :: "(string \<Rightarrow> bool) \<Rightarrow> (string \<Rightarrow> bool) \<Rightarrow> settings_form \<Rightarrow> bool" where
  "settings_formSchema is_email is_url v \<longleftrightarrow>
     (case sg_nickname v of None \<Rightarrow> False | Some n \<Rightarrow> 2 \<le> length n) \<and>
     (case sg_email v of None \<Rightarrow> True | Some e \<Rightarrow> is_email e) \<and>
     (case sg_avatar v of None \<Rightarrow> True | Some a \<Rightarrow> is_url a)"

text \<open>
  The page's state; the codes being checked, with the address they were sent for; the updates sent;
  the times the form was refused; and, for the properties only, the addresses the server confirmed.
\<close>

record settings_page =
  sp_user :: "UserInfo option"
  sp_form :: settings_form
  sp_originalEmail :: string
  sp_emailVerified :: "bool option"
  sp_isEmailVerified :: bool
  sp_isDialogOpen :: bool
  sp_isVerifyError :: bool
  sp_verificationCode :: string
  sp_checking :: "(string \<times> string) list"
  sp_updates :: "IUserAttributes list"
  sp_refused :: nat
  sp_confirmed :: "string set"

text \<open>\<open>x || null\<close> and \<open>x ?? ''\<close>.\<close>

definition or_null :: "string option \<Rightarrow> string option" where
  "or_null v = (if v = Some [] then None else v)"

definition or_blank :: "string option \<Rightarrow> string" where
  "or_blank v = (case v of None \<Rightarrow> [] | Some s \<Rightarrow> s)"

definition orelse :: "'a option \<Rightarrow> 'a option \<Rightarrow> 'a option" where
  "orelse a b = (case a of None \<Rightarrow> b | Some x \<Rightarrow> Some x)"

definition user_email :: "UserInfo option \<Rightarrow> string option" where
  "user_email u = Option.bind u ua_email"

definition settings_defaults :: "UserInfo option \<Rightarrow> settings_form" where
  "settings_defaults u = \<lparr>sg_nickname = map_option ua_nickname u, sg_email = or_null (user_email u),
     sg_teacher = or_null (Option.bind u ua_teacher), sg_group = or_null (Option.bind u ua_group),
     sg_expiredAt = or_null (Option.bind u ua_expiredAt), sg_phone = or_null (Option.bind u ua_phone),
     sg_avatar = or_null (Option.bind u ua_avatar)\<rparr>"

text \<open>
  The page once its first effects have run: without an answer about the email, or with one that it is
  not verified, the effect clears \<open>isEmailVerified\<close>.
\<close>

definition settings_mount :: "UserInfo option \<Rightarrow> bool option \<Rightarrow> settings_page" where
  "settings_mount u cached = \<lparr>sp_user = u, sp_form = settings_defaults u, sp_originalEmail = or_blank (user_email u),
     sp_emailVerified = cached, sp_isEmailVerified = (cached = Some True), sp_isDialogOpen = False,
     sp_isVerifyError = False, sp_verificationCode = [], sp_checking = [], sp_updates = [], sp_refused = 0,
     sp_confirmed = {}\<rparr>"

section \<open>The handlers\<close>

definition edit_email :: "string \<Rightarrow> settings_page \<Rightarrow> settings_page" where
  "edit_email x s = s\<lparr>sp_form := (sp_form s)\<lparr>sg_email := Some x\<rparr>, sp_isEmailVerified := False\<rparr>"

definition email_info :: "bool \<Rightarrow> settings_page \<Rightarrow> settings_page" where
  "email_info v s = (let s = s\<lparr>sp_emailVerified := Some v\<rparr> in if v then s else s\<lparr>sp_isEmailVerified := False\<rparr>)"

definition send_shown :: "settings_page \<Rightarrow> bool" where
  "send_shown s \<longleftrightarrow> sg_email (sp_form s) \<noteq> Some (sp_originalEmail s) \<or> sp_emailVerified s \<noteq> Some True"

definition send_success :: "settings_page \<Rightarrow> settings_page" where
  "send_success s = s\<lparr>sp_isVerifyError := False, sp_verificationCode := [], sp_isDialogOpen := True\<rparr>"

definition verifyEmailCode :: "settings_page \<Rightarrow> settings_page" where
  "verifyEmailCode s = s\<lparr>sp_checking := sp_checking s @ [(or_blank (sg_email (sp_form s)), sp_verificationCode s)]\<rparr>"

definition verify_answer :: "nat \<Rightarrow> bool \<Rightarrow> settings_page \<Rightarrow> settings_page" where
  "verify_answer i ok s =
     (let s' = s\<lparr>sp_checking := take i (sp_checking s) @ drop (Suc i) (sp_checking s)\<rparr> in
      if ok
      then s'\<lparr>sp_originalEmail := or_blank (sg_email (sp_form s)), sp_isEmailVerified := True, sp_isDialogOpen := False,
              sp_confirmed := insert (fst (sp_checking s ! i)) (sp_confirmed s)\<rparr>
      else s'\<lparr>sp_isVerifyError := True\<rparr>)"

text \<open>The attributes an update sends: a value that is null stands for what the user has.\<close>

definition attributes_of :: "UserInfo option \<Rightarrow> settings_form \<Rightarrow> IUserAttributes" where
  "attributes_of u v =
     \<lparr>ua_id = (case u of None \<Rightarrow> 0 | Some x \<Rightarrow> ua_id x), ua_name = (case u of None \<Rightarrow> [] | Some x \<Rightarrow> ua_name x),
      ua_nickname = or_blank (orelse (sg_nickname v) (map_option ua_nickname u)),
      ua_email = orelse (sg_email v) (user_email u), ua_teacher = orelse (sg_teacher v) (Option.bind u ua_teacher),
      ua_group = orelse (sg_group v) (Option.bind u ua_group),
      ua_expiredAt = orelse (sg_expiredAt v) (Option.bind u ua_expiredAt),
      ua_phone = orelse (sg_phone v) (Option.bind u ua_phone), ua_avatar = orelse (sg_avatar v) (Option.bind u ua_avatar),
      ua_uid = None, ua_gid = None\<rparr>"

definition settings_onSubmit :: "settings_page \<Rightarrow> settings_page" where
  "settings_onSubmit s =
     (if \<not> sp_isEmailVerified s \<and> sg_email (sp_form s) \<noteq> Some (sp_originalEmail s)
      then s\<lparr>sp_refused := Suc (sp_refused s)\<rparr>
      else s\<lparr>sp_updates := sp_updates s @ [attributes_of (sp_user s) (sp_form s)]\<rparr>)"

text \<open>After an update: the user's attributes are replaced; \<open>uid\<close> and \<open>gid\<close> are not among the values.\<close>

definition update_success :: "IUserAttributes \<Rightarrow> settings_page \<Rightarrow> settings_page" where
  "update_success a s = s\<lparr>sp_user := Some (user_info
       (a\<lparr>ua_uid := Option.bind (sp_user s) ua_uid, ua_gid := Option.bind (sp_user s) ua_gid\<rparr>)
       (case sp_user s of None \<Rightarrow> [] | Some u \<Rightarrow> uf_space u))\<rparr>"

section \<open>Runs of the page\<close>

datatype settings_event =
    Edit_email string
  | Edit_others settings_form
  | Email_info bool
  | Send_answer bool
  | Type_code string
  | Press_verify
  | Verify_answer nat bool
  | Close_verify
  | Submit_settings
  | Update_answer IUserAttributes bool

text \<open>The dialog is modal: while it is open the form behind it can neither be edited nor submitted.\<close>

inductive settings_step :: "(string \<Rightarrow> bool) \<Rightarrow> (string \<Rightarrow> bool) \<Rightarrow> settings_page \<Rightarrow> settings_event \<Rightarrow> settings_page \<Rightarrow> bool"
  for is_email :: "string \<Rightarrow> bool" and is_url :: "string \<Rightarrow> bool" where
  set_edit: "\<not> sp_isDialogOpen s \<Longrightarrow> settings_step is_email is_url s (Edit_email x) (edit_email x s)"
| set_others: "\<not> sp_isDialogOpen s \<Longrightarrow> sg_email f = sg_email (sp_form s) \<Longrightarrow>
    settings_step is_email is_url s (Edit_others f) (s\<lparr>sp_form := f\<rparr>)"
| set_info: "settings_step is_email is_url s (Email_info v) (email_info v s)"
| set_sent: "settings_step is_email is_url s (Send_answer ok) (if ok then send_success s else s)"
| set_code: "sp_isDialogOpen s \<Longrightarrow> length x \<le> 6 \<Longrightarrow>
    settings_step is_email is_url s (Type_code x) (s\<lparr>sp_verificationCode := x\<rparr>)"
| set_verify: "sp_isDialogOpen s \<Longrightarrow> settings_step is_email is_url s Press_verify (verifyEmailCode s)"
| set_answer: "i < length (sp_checking s) \<Longrightarrow>
    settings_step is_email is_url s (Verify_answer i ok) (verify_answer i ok s)"
| set_close: "sp_isDialogOpen s \<Longrightarrow> settings_step is_email is_url s Close_verify (s\<lparr>sp_isDialogOpen := False\<rparr>)"
| set_submit: "\<not> sp_isDialogOpen s \<Longrightarrow> settings_formSchema is_email is_url (sp_form s) \<Longrightarrow>
    settings_step is_email is_url s Submit_settings (settings_onSubmit s)"
| set_updated: "a \<in> set (sp_updates s) \<Longrightarrow>
    settings_step is_email is_url s (Update_answer a ok) (if ok then update_success a s else s)"

inductive_cases settings_stepE: "settings_step is_email is_url s e s'"
inductive_simps settings_submit_simp: "settings_step is_email is_url s Submit_settings s'"

definition settings_start :: "settings_page \<Rightarrow> bool" where
  "settings_start s \<longleftrightarrow> (\<exists>u cached. s = settings_mount u cached)"

text \<open>Runs in which the address is not edited while a code is being checked.\<close>

definition quiet_step :: "(string \<Rightarrow> bool) \<Rightarrow> (string \<Rightarrow> bool) \<Rightarrow> settings_page \<Rightarrow> settings_event \<Rightarrow> settings_page \<Rightarrow> bool" where
  "quiet_step is_email is_url s e s' \<longleftrightarrow> settings_step is_email is_url s e s' \<and>
     (case e of Edit_email x \<Rightarrow> sp_checking s = [] | _ \<Rightarrow> True)"

text \<open>
  An address that may be saved: none, the one the user had, or one the server confirmed. The address
  in the form is either to be verified or one of these.
\<close>

definition own_email :: "string option \<Rightarrow> settings_page \<Rightarrow> string option \<Rightarrow> bool" where
  "own_email old s e \<longleftrightarrow> or_null e = or_null old \<or> or_null e = None \<or> (\<exists>x \<in> sp_confirmed s. e = Some x)"

definition settings_inv :: "string option \<Rightarrow> settings_page \<Rightarrow> bool" where
  "settings_inv old s \<longleftrightarrow> own_email old s (Some (sp_originalEmail s)) \<and> own_email old s (user_email (sp_user s)) \<and>
     (sp_isEmailVerified s \<longrightarrow> own_email old s (sg_email (sp_form s))) \<and>
     (\<forall>c \<in> set (sp_checking s). fst c = or_blank (sg_email (sp_form s))) \<and>
     (\<forall>a \<in> set (sp_updates s). own_email old s (ua_email a))"

lemma own_mono: "own_email old s e \<Longrightarrow> sp_confirmed s \<subseteq> sp_confirmed s' \<Longrightarrow> own_email old s' e"
  by (auto simp: own_email_def)

lemma own_orelse: "own_email old s a \<Longrightarrow> own_email old s b \<Longrightarrow> own_email old s (orelse a b)"
  by (auto simp: orelse_def split: option.split)

lemma inv_verified:
  assumes "settings_inv old s" "i < length (sp_checking s)"
  shows "settings_inv old (verify_answer i ok s)"
proof -
  have less: "set (take i (sp_checking s) @ drop (Suc i) (sp_checking s)) \<subseteq> set (sp_checking s)"
    using set_take_subset set_drop_subset by fastforce
  have same: "fst (sp_checking s ! i) = or_blank (sg_email (sp_form s))"
    using assms by (simp add: settings_inv_def)
  show ?thesis
  proof (cases ok)
    case True
    let ?s = "verify_answer i True s"
    have c: "sp_confirmed s \<subseteq> sp_confirmed ?s" "or_blank (sg_email (sp_form s)) \<in> sp_confirmed ?s"
      using same by (auto simp: verify_answer_def Let_def)
    then have "own_email old ?s (Some (or_blank (sg_email (sp_form s))))" "own_email old ?s (sg_email (sp_form s))"
      by (auto simp: own_email_def or_null_def or_blank_def split: option.splits)
    with True assms(1) less own_mono [OF _ c(1)] show ?thesis
      by (auto simp: settings_inv_def verify_answer_def Let_def)
  next
    case False
    with assms(1) less show ?thesis by (auto simp: settings_inv_def verify_answer_def Let_def own_email_def)
  qed
qed

lemma inv_submit: "settings_inv old s \<Longrightarrow> settings_inv old (settings_onSubmit s)"
proof -
  assume inv: "settings_inv old s"
  then have "sp_isEmailVerified s \<or> sg_email (sp_form s) = Some (sp_originalEmail s) \<Longrightarrow>
      own_email old s (ua_email (attributes_of (sp_user s) (sp_form s)))"
    by (auto simp: settings_inv_def attributes_of_def intro: own_orelse)
  with inv show ?thesis by (auto simp: settings_inv_def settings_onSubmit_def own_email_def)
qed

lemma quiet_step_inv: "settings_step is_email is_url s e s' \<Longrightarrow> settings_inv old s \<Longrightarrow>
    (case e of Edit_email x \<Rightarrow> sp_checking s = [] | _ \<Rightarrow> True) \<Longrightarrow> settings_inv old s'"
proof (induction rule: settings_step.induct)
  case (set_edit s x)
  then show ?case by (auto simp: settings_inv_def edit_email_def own_email_def)
next
  case (set_info s v)
  then show ?case by (auto simp: settings_inv_def email_info_def Let_def own_email_def)
next
  case (set_sent s ok)
  then show ?case by (auto simp: settings_inv_def send_success_def own_email_def)
next
  case (set_verify s)
  then show ?case by (auto simp: settings_inv_def verifyEmailCode_def own_email_def)
next
  case (set_answer i s ok)
  then show ?case by (simp add: inv_verified)
next
  case (set_submit s)
  then show ?case by (simp add: inv_submit)
next
  case (set_updated a s ok)
  then show ?case
    by (auto simp: settings_inv_def update_success_def user_email_def user_info_def own_email_def IUserAttributes.defs)
qed (auto simp: settings_inv_def own_email_def)

interpretation own_settings: machine "quiet_step is_email is_url" "\<lambda>s. \<exists>u cached. s = settings_mount u cached \<and> user_email u = old"
  "settings_inv old" for is_email is_url old
proof
  show "\<exists>u cached. s = settings_mount u cached \<and> user_email u = old \<Longrightarrow> settings_inv old s" for s
    by (auto simp: settings_inv_def settings_mount_def settings_defaults_def own_email_def or_null_def or_blank_def
        split: option.split)
  show "settings_inv old s \<Longrightarrow> quiet_step is_email is_url s e s' \<Longrightarrow> settings_inv old s'" for s e s'
    using quiet_step_inv by (auto simp: quiet_step_def)
qed

section \<open>Properties\<close>

text \<open>C29. As long as the address is not edited while a code is being checked, the settings page never
  sends an update with an email address of the visitor's choice that nobody confirmed: each update
  carries no address, the one the visitor had when the page was opened, or one whose code the server
  accepted.\<close>

theorem settings_email_confirmed:
  assumes "runs (quiet_step is_email is_url) (settings_mount u cached) es s" "a \<in> set (sp_updates s)"
  shows "ua_email a = None \<or> ua_email a = Some [] \<or> ua_email a = user_email u \<or> (\<exists>e \<in> sp_confirmed s. ua_email a = Some e)"
proof -
  have "settings_inv (user_email u) s"
    using own_settings.reachable_inv [OF _ assms(1)] by blast
  with assms(2) have "own_email (user_email u) s (ua_email a)" by (simp add: settings_inv_def)
  then show ?thesis by (auto simp: own_email_def or_null_def split: if_splits)
qed

text \<open>The runs of the witness and of what is possible without the restriction.\<close>

fun settings_next :: "settings_event \<Rightarrow> settings_page \<Rightarrow> settings_page" where
  "settings_next (Edit_email x) s = edit_email x s"
| "settings_next (Edit_others f) s = s\<lparr>sp_form := f\<rparr>"
| "settings_next (Email_info v) s = email_info v s"
| "settings_next (Send_answer ok) s = (if ok then send_success s else s)"
| "settings_next (Type_code x) s = s\<lparr>sp_verificationCode := x\<rparr>"
| "settings_next Press_verify s = verifyEmailCode s"
| "settings_next (Verify_answer i ok) s = verify_answer i ok s"
| "settings_next Close_verify s = s\<lparr>sp_isDialogOpen := False\<rparr>"
| "settings_next Submit_settings s = settings_onSubmit s"
| "settings_next (Update_answer a ok) s = (if ok then update_success a s else s)"

fun settings_enabled :: "settings_event \<Rightarrow> settings_page \<Rightarrow> bool" where
  "settings_enabled (Edit_email x) s = (\<not> sp_isDialogOpen s)"
| "settings_enabled (Edit_others f) s = (\<not> sp_isDialogOpen s \<and> sg_email f = sg_email (sp_form s))"
| "settings_enabled (Type_code x) s = (sp_isDialogOpen s \<and> length x \<le> 6)"
| "settings_enabled Press_verify s = sp_isDialogOpen s"
| "settings_enabled (Verify_answer i ok) s = (i < length (sp_checking s))"
| "settings_enabled Close_verify s = sp_isDialogOpen s"
| "settings_enabled Submit_settings s = (\<not> sp_isDialogOpen s \<and> settings_formSchema (\<lambda>x. True) (\<lambda>x. True) (sp_form s))"
| "settings_enabled (Update_answer a ok) s = (a \<in> set (sp_updates s))"
| "settings_enabled _ s = True"

lemma settings_step_next:
  "settings_step (\<lambda>x. True) (\<lambda>x. True) s e s' \<longleftrightarrow> settings_enabled e s \<and> s' = settings_next e s"
proof
  show "settings_step (\<lambda>x. True) (\<lambda>x. True) s e s' \<Longrightarrow> settings_enabled e s \<and> s' = settings_next e s"
    by (induction rule: settings_step.induct) simp_all
  show "settings_enabled e s \<and> s' = settings_next e s \<Longrightarrow> settings_step (\<lambda>x. True) (\<lambda>x. True) s e s'"
    by (cases e) (auto intro: settings_step.intros split del: if_split)
qed

fun settings_run :: "settings_page \<Rightarrow> settings_event list \<Rightarrow> settings_page option" where
  "settings_run s [] = Some s"
| "settings_run s (e # es) = (if settings_enabled e s then settings_run (settings_next e s) es else None)"

lemma settings_runs: "runs (settings_step (\<lambda>x. True) (\<lambda>x. True)) s es s' \<longleftrightarrow> settings_run s es = Some s'"
  by (induction es arbitrary: s) (auto simp: runs_Cons_simp settings_step_next)

definition demo_user :: UserInfo where
  "demo_user = \<lparr>ua_id = 1, ua_name = ''ann'', ua_nickname = ''Ann'', ua_email = Some ''a'', ua_teacher = None,
     ua_group = None, ua_expiredAt = None, ua_phone = None, ua_avatar = None, ua_uid = None, ua_gid = None, uf_space = ''ann''\<rparr>"

lemmas settings_run_defs = settings_mount_def settings_defaults_def demo_user_def edit_email_def
  send_success_def verifyEmailCode_def verify_answer_def settings_onSubmit_def settings_formSchema_def
  user_email_def or_null_def or_blank_def orelse_def attributes_of_def Let_def

text \<open>The page when the address \<open>x\<close> in its form passes for confirmed and the server confirmed \<open>b\<close>.\<close>

definition confirmed_page :: "string \<Rightarrow> settings_page" where
  "confirmed_page x = (settings_mount (Some demo_user) None)\<lparr>
     sp_form := (settings_defaults (Some demo_user))\<lparr>sg_email := Some x\<rparr>, sp_originalEmail := x,
     sp_isEmailVerified := True, sp_verificationCode := ''123456'', sp_confirmed := {''b''}\<rparr>"

lemma confirmed_submit:
  "map_option (\<lambda>s. map ua_email (sp_updates s)) (settings_run (confirmed_page x) [Submit_settings]) = Some [Some x]"
  "map_option sp_confirmed (settings_run (confirmed_page x) [Submit_settings]) = Some {''b''}"
  by (simp_all add: confirmed_page_def settings_run_defs)

lemma settings_run_append: "settings_run s (es @ fs) = Option.bind (settings_run s es) (\<lambda>s. settings_run s fs)"
  by (induction es arbitrary: s) simp_all

definition verified_change :: "settings_event list" where
  "verified_change = [Edit_email ''b'', Send_answer True, Type_code ''123456'', Press_verify, Verify_answer 0 True] @ [Submit_settings]"

theorem settings_email_confirmed_witness:
  "\<exists>s a. runs (quiet_step (\<lambda>x. True) (\<lambda>x. True)) (settings_mount (Some demo_user) None) verified_change s \<and>
     a \<in> set (sp_updates s) \<and> ua_email a = Some ''b'' \<and> ''b'' \<in> sp_confirmed s"
proof -
  define s0 where "s0 = settings_mount (Some demo_user) None"
  have quiet: "sp_checking s0 = []" by (simp add: s0_def settings_mount_def)
  have "settings_run s0 [Edit_email ''b'', Send_answer True, Type_code ''123456'', Press_verify, Verify_answer 0 True] =
      Some (confirmed_page ''b'')"
    by (simp add: s0_def confirmed_page_def settings_run_defs)
  then have "map_option (\<lambda>s. map ua_email (sp_updates s)) (settings_run s0 verified_change) = Some [Some ''b'']"
    using confirmed_submit(1) [of "''b''"] unfolding verified_change_def settings_run_append by simp
  then obtain s where s: "settings_run s0 verified_change = Some s" "map ua_email (sp_updates s) = [Some ''b'']"
    unfolding map_option_eq_Some by (elim exE conjE) (rule that)
  then have "runs (settings_step (\<lambda>x. True) (\<lambda>x. True)) s0 verified_change s" by (simp add: settings_runs)
  then have run: "runs (quiet_step (\<lambda>x. True) (\<lambda>x. True)) s0 verified_change s"
    using quiet by (simp add: verified_change_def runs_Cons_simp quiet_step_def)
  from s(2) obtain a where a: "a \<in> set (sp_updates s)" "ua_email a = Some ''b''" by auto
  have "user_email (Some demo_user) = Some ''a''" by (simp add: settings_run_defs)
  then have "''b'' \<in> sp_confirmed s"
    using settings_email_confirmed [OF run [unfolded s0_def] a(1)] a(2) by auto
  with run a show ?thesis unfolding s0_def by blast
qed

text \<open>
  The restriction is needed: an address typed while the code of another is being checked passes for
  confirmed when that check succeeds.
\<close>

definition hasty_change :: "settings_event list" where
  "hasty_change = [Edit_email ''b'', Send_answer True, Type_code ''123456'', Press_verify, Close_verify, Edit_email ''c'',
     Verify_answer 0 True] @ [Submit_settings]"

lemma unconfirmed_email_sent:
  "\<exists>s. runs (settings_step (\<lambda>x. True) (\<lambda>x. True)) (settings_mount (Some demo_user) None) hasty_change s \<and>
     map ua_email (sp_updates s) = [Some ''c''] \<and> sp_confirmed s = {''b''}"
proof -
  have "settings_run (settings_mount (Some demo_user) None) [Edit_email ''b'', Send_answer True, Type_code ''123456'',
      Press_verify, Close_verify, Edit_email ''c'', Verify_answer 0 True] = Some (confirmed_page ''c'')"
    by (simp add: confirmed_page_def settings_run_defs)
  then have "settings_run (settings_mount (Some demo_user) None) hasty_change = settings_run (confirmed_page ''c'') [Submit_settings]"
    unfolding hasty_change_def settings_run_append by simp
  moreover obtain s where "settings_run (confirmed_page ''c'') [Submit_settings] = Some s" "map ua_email (sp_updates s) = [Some ''c'']"
    using confirmed_submit(1) [of "''c''"] unfolding map_option_eq_Some by (elim exE conjE) (rule that)
  moreover from this(2) have "sp_confirmed s = {''b''}"
    using confirmed_submit(2) [of "''c''"] calculation(2) by simp
  ultimately show ?thesis unfolding settings_runs by metis
qed

text \<open>A visitor without an address cannot save other settings: no address is not the empty one.\<close>

lemma no_address_refused:
  assumes "user_email u = None" "\<not> sp_isEmailVerified s" "sp_form s = settings_defaults u" "sp_originalEmail s = or_blank (user_email u)"
  shows "sp_updates (settings_onSubmit s) = sp_updates s \<and> sp_refused (settings_onSubmit s) = Suc (sp_refused s)"
  using assms by (simp add: settings_onSubmit_def settings_defaults_def or_null_def)

end
