(* ===== verification/CronJobs.thy ===== *)
theory CronJobs
  imports ApiJobs Coerce
begin

text \<open>
  The administrators' scheduled clean-ups: the policy form and the run that cleans up at once
  (\<open>routes/admin/cronjobs/index.tsx\<close>), and the table of past runs
  (\<open>routes/admin/cronjobs/cronjob-records-table.tsx\<close>). Which texts are schedules is for the
  \<open>cron-validator\<close> package to say: the parameter \<open>isValidCron\<close>.
\<close>

section \<open>The policies\<close>

record cron_policy =
  cp_suspend :: bool
  cp_schedule :: string
  cp_configs :: jobj

record cron_form =
  cf_cleanLongTime :: cron_policy
  cf_cleanLowGpu :: cron_policy
  cf_cleanWaitingJupyter :: cron_policy

definition config_number :: "cron_policy \<Rightarrow> string \<Rightarrow> number" where
  "config_number p k = to_number (map_of (cp_configs p) k)"

definition cleanLongTimeSchema :: "(string \<Rightarrow> bool) \<Rightarrow> cron_policy \<Rightarrow> bool" where
  "cleanLongTimeSchema isValidCron p \<longleftrightarrow> isValidCron (cp_schedule p) \<and>
     positive_int (config_number p ''batchDays'') \<and> positive_int (config_number p ''interactiveDays'')"

definition cleanLowGpuSchema :: "(string \<Rightarrow> bool) \<Rightarrow> cron_policy \<Rightarrow> bool" where
  "cleanLowGpuSchema isValidCron p \<longleftrightarrow> isValidCron (cp_schedule p) \<and>
     positive_int (config_number p ''timeRange'') \<and> \<not> is_nan (config_number p ''util'') \<and>
     positive_int (config_number p ''waitTime'')"

definition cleanWaitingJupyterSchema :: "(string \<Rightarrow> bool) \<Rightarrow> cron_policy \<Rightarrow> bool" where
  "cleanWaitingJupyterSchema isValidCron p \<longleftrightarrow> isValidCron (cp_schedule p) \<and>
     positive_int (config_number p ''waitMinitues'')"

definition cron_formSchema :: "(string \<Rightarrow> bool) \<Rightarrow> cron_form \<Rightarrow> bool" where
  "cron_formSchema isValidCron f \<longleftrightarrow> cleanLongTimeSchema isValidCron (cf_cleanLongTime f) \<and>
     cleanLowGpuSchema isValidCron (cf_cleanLowGpu f) \<and> cleanWaitingJupyterSchema isValidCron (cf_cleanWaitingJupyter f)"

text \<open>Loading: each policy is the job of its name, or stays as the form has it.\<close>

definition policy_named :: "string \<Rightarrow> (string \<times> cron_policy) list \<Rightarrow> cron_policy \<Rightarrow> cron_policy" where
  "policy_named name jobs now = (case find (\<lambda>j. fst j = name) jobs of None \<Rightarrow> now | Some j \<Rightarrow> snd j)"

definition loadJobSchedule :: "(string \<times> cron_policy) list \<Rightarrow> cron_form \<Rightarrow> cron_form" where
  "loadJobSchedule jobs f = \<lparr>cf_cleanLongTime = policy_named ''clean-long-time-job'' jobs (cf_cleanLongTime f),
     cf_cleanLowGpu = policy_named ''clean-low-gpu-util-job'' jobs (cf_cleanLowGpu f),
     cf_cleanWaitingJupyter = policy_named ''clean-waiting-jupyter'' jobs (cf_cleanWaitingJupyter f)\<rparr>"

text \<open>
  Saving a policy: \<open>handleSubmit\<close> checks the whole form, and the handler sends the values as the form
  holds them, together with the name of the job they were loaded with.
\<close>

datatype policy = Long_time | Low_gpu | Waiting_jupyter

fun policy_of :: "policy \<Rightarrow> cron_form \<Rightarrow> cron_policy" where
  "policy_of Long_time f = cf_cleanLongTime f"
| "policy_of Low_gpu f = cf_cleanLowGpu f"
| "policy_of Waiting_jupyter f = cf_cleanWaitingJupyter f"

definition json_policy :: "string option \<Rightarrow> cron_policy \<Rightarrow> json" where
  "json_policy name p = JObj (opt_field ''name'' JStr name @ [(''suspend'', JBool (cp_suspend p)),
     (''schedule'', JStr (cp_schedule p)), (''configs'', JObj (cp_configs p))])"

definition submit_policy :: "(string \<Rightarrow> bool) \<Rightarrow> policy \<Rightarrow> string option \<Rightarrow> cron_form \<Rightarrow> http_request option" where
  "submit_policy isValidCron which name f =
     (if cron_formSchema isValidCron f then Some (apiJobScheduleChangeAdmin (json_policy name (policy_of which f))) else None)"

section \<open>Running the clean-ups at once\<close>

definition long_time_request :: "cron_policy \<Rightarrow> http_request" where
  "long_time_request p = apiV1Post ''admin/operations/clean/clean-long-running-job''
     (Some (JObj [(''batchDays'', json_of_number (config_number p ''batchDays'')),
        (''interactiveDays'', json_of_number (config_number p ''interactiveDays''))]))"

definition low_gpu_request :: "cron_policy \<Rightarrow> http_request" where
  "low_gpu_request p = apiV1Post ''admin/operations/clean/clean-low-gpu-usage-job''
     (Some (JObj [(''timeRange'', json_of_number (config_number p ''timeRange'')),
        (''waitTime'', json_of_number (config_number p ''waitTime'')), (''util'', json_of_number (config_number p ''util''))]))"

definition waiting_jupyter_request :: "cron_policy \<Rightarrow> http_request" where
  "waiting_jupyter_request p = apiV1Post ''admin/operations/clean/clean-waiting-jupyter-job''
     (Some (JObj [(''waitMinitues'', json_of_number (config_number p ''waitMinitues''))]))"

text \<open>The three promises: a suspended policy's is already resolved, with nothing.\<close>

definition run_requests :: "cron_form \<Rightarrow> http_request option list" where
  "run_requests f =
     [if \<not> cp_suspend (cf_cleanLongTime f) then Some (long_time_request (cf_cleanLongTime f)) else None,
      if \<not> cp_suspend (cf_cleanLowGpu f) then Some (low_gpu_request (cf_cleanLowGpu f)) else None,
      if \<not> cp_suspend (cf_cleanWaitingJupyter f) then Some (waiting_jupyter_request (cf_cleanWaitingJupyter f)) else None]"

text \<open>An answer: its code and its data, a plain list of deleted jobs or both lists, or none.\<close>

datatype cleanup_data = Deleted_jobs "string list" | Both_lists "string list option" "string list option"

record cleanup_answer =
  ca_code :: int
  ca_data :: "cleanup_data option"

definition opt_len :: "'a list option \<Rightarrow> nat" where
  "opt_len v = (case v of None \<Rightarrow> 0 | Some xs \<Rightarrow> length xs)"

text \<open>What an answer adds to the numbers of deleted and reminded jobs.\<close>

definition cleanup_counts :: "cleanup_answer option \<Rightarrow> nat \<times> nat" where
  "cleanup_counts a =
     (case a of None \<Rightarrow> (0, 0)
      | Some r \<Rightarrow>
          if ca_code r = 0
          then (case ca_data r of None \<Rightarrow> (0, 0)
                | Some (Deleted_jobs js) \<Rightarrow> (length js, 0)
                | Some (Both_lists reminded deleted) \<Rightarrow> (opt_len deleted, opt_len reminded))
          else (0, 0))"

datatype run_toast = Nothing_done | Cleanup_summary nat nat nat | Run_error

definition add_counts :: "nat \<times> nat \<Rightarrow> cleanup_answer option \<Rightarrow> nat \<times> nat" where
  "add_counts t a = (fst t + fst (cleanup_counts a), snd t + snd (cleanup_counts a))"

text \<open>
  The three answers, or the error of the first that failed: then the clean-ups that succeeded are not
  reported.
\<close>

definition confirmJobRun :: "('e + cleanup_answer option) list \<Rightarrow> run_toast" where
  "confirmJobRun answers =
     (if list_ex (\<lambda>a. case a of Inl e \<Rightarrow> True | Inr r \<Rightarrow> False) answers then Run_error
      else (let (deletedCount, remindedCount) = foldl add_counts (0, 0)
                  (List.map (\<lambda>a. case a of Inl e \<Rightarrow> None | Inr r \<Rightarrow> r) answers);
                totalCount = deletedCount + remindedCount in
            if totalCount = 0 then Nothing_done else Cleanup_summary totalCount deletedCount remindedCount))"

text \<open>The summary adds up: what it names is what the answers of the policies that ran list.\<close>

lemma run_counts:
  assumes "confirmJobRun (List.map Inr xs) = Cleanup_summary n deleted reminded"
  shows "n = deleted + reminded \<and>
    deleted = (\<Sum>a\<leftarrow>xs. fst (cleanup_counts a)) \<and> reminded = (\<Sum>a\<leftarrow>xs. snd (cleanup_counts a))"
proof -
  have fold: "foldl add_counts (d, r) ys = (d + (\<Sum>a\<leftarrow>ys. fst (cleanup_counts a)), r + (\<Sum>a\<leftarrow>ys. snd (cleanup_counts a)))"
    for d r and ys :: "cleanup_answer option list"
    by (induction ys arbitrary: d r) (simp_all add: add_counts_def)
  have "list_ex (\<lambda>a. case a of Inl e \<Rightarrow> True | Inr r \<Rightarrow> False) (List.map Inr xs) = False"
    by (induction xs) simp_all
  then show ?thesis
    using assms by (auto simp: confirmJobRun_def fold Let_def comp_def split: if_splits)
qed

text \<open>A suspended policy sends nothing, and no failure of one policy keeps another from being sent.\<close>

lemma run_sends:
  "Some q \<in> set (run_requests f) \<Longrightarrow> \<exists>p \<in> {Long_time, Low_gpu, Waiting_jupyter}. \<not> cp_suspend (policy_of p f)"
  by (auto simp: run_requests_def split: if_splits)

section \<open>The records of past runs\<close>

definition isJobDataEmpty :: "CronJobData option \<Rightarrow> bool" where
  "isJobDataEmpty jobData =
     (case jobData of None \<Rightarrow> True
      | Some d \<Rightarrow> \<not> 0 < opt_len (cj_reminded d) \<and> \<not> 0 < opt_len (cj_deleted d))"

definition truncateText :: "string \<Rightarrow> nat \<Rightarrow> string" where
  "truncateText text maxLength = (if length text \<le> maxLength then text else take maxLength text @ ''...'')"

text \<open>\<open>parseInt(n, 10) || 0\<close> of the count the server answers as text.\<close>

definition deleted_count :: "string \<Rightarrow> number" where
  "deleted_count s = num_or_zero
     (let (sg, r) = parse_sign (trim_start s); ds = takeWhile is_digit r in
      if ds = [] then NaN else Fin (sg * of_nat (digits_val ds)))"

text \<open>The choices of how old a record must be to be deleted, and the days that are subtracted from now.\<close>

definition delete_choices :: "nat list" where
  "delete_choices = [1, 7, 15]"

text \<open>The range of dates of the list: \<open>shown\<close> prints an instant.\<close>

definition records_request :: "('t \<Rightarrow> string) \<Rightarrow> ('t option \<times> 't option) option \<Rightarrow> http_request" where
  "records_request shown dateRange = apiAdminCronJobRecordList
     \<lparr>cjq_name = None, cjq_startTime = Option.bind dateRange (\<lambda>r. map_option shown (fst r)),
      cjq_endTime = Option.bind dateRange (\<lambda>r. map_option shown (snd r)), cjq_status = None\<rparr>"

lemma truncate_length: "length (truncateText t n) \<le> n + 3"
  by (simp add: truncateText_def)

end
