(* ===== verification/ResourceFields.thy ===== *)
theory ResourceFields
  imports Forms ApiCluster Collections Machine
begin

text \<open>
  Choosing resources. The fields of the job forms for the GPU model, its networks and its virtual
  GPUs (\<open>components/form/resource-form-field.tsx\<close>), and the administrators' dialogs that say which
  networks and virtual GPUs a GPU has (\<open>routes/admin/cluster/resources/-components/form.tsx\<close>).
  Of the form library the code relies on two things: resetting a form to values makes them its
  defaults, and resetting a field, or the form without values, goes back to the defaults.
\<close>

section \<open>What the fields offer\<close>

text \<open>The GPU models, most plentiful first; the networks and the virtual GPUs of the chosen one.\<close>

definition by_amount :: "ResourceInfo \<Rightarrow> ResourceInfo \<Rightarrow> int" where
  "by_amount a b = rs_amountSingleMax b - rs_amountSingleMax a"

definition gpu_items :: "ResourceInfo list \<Rightarrow> ResourceInfo list" where
  "gpu_items res = filter (\<lambda>item. 0 < rs_amountSingleMax item) (sort_by by_amount res)"

definition gpuID :: "string option \<Rightarrow> ResourceInfo list \<Rightarrow> int" where
  "gpuID gpuModel resources =
     (case gpuModel of
        None \<Rightarrow> 0
      | Some m \<Rightarrow> if m = [] then 0 else (case find (\<lambda>i. rs_name i = m) resources of None \<Rightarrow> 0 | Some g \<Rightarrow> rs_ID g))"

definition network_items :: "ResourceInfo list \<Rightarrow> string list" where
  "network_items res = map rs_name (filter (\<lambda>item. 0 < rs_amountSingleMax item) res)"

definition networks_request :: "int \<Rightarrow> http_request" where
  "networks_request i = apiResourceNetworks i"

text \<open>The virtual GPUs are asked for only when a GPU is chosen.\<close>

definition vgpu_request :: "int \<Rightarrow> http_request option" where
  "vgpu_request i = (if 0 < i then Some (apiResourceVGPUList i) else None)"

definition vgpu_items :: "ResourceVGPU list \<Rightarrow> string list" where
  "vgpu_items res = concat (map (\<lambda>v. case rv_vgpuResource v of None \<Rightarrow> [] | Some r \<Rightarrow> [rs_name r]) res)"

section \<open>The fields of a job form\<close>

text \<open>The values of the form and its defaults; the fields for the network and for vGPUs are optional.\<close>

record resource_fields =
  fd_values :: resource_form
  fd_defaults :: resource_form

definition load_fields :: "resource_form \<Rightarrow> resource_fields \<Rightarrow> resource_fields" where
  "load_fields v s = \<lparr>fd_values = v, fd_defaults = v\<rparr>"

definition select_gpu :: "bool \<Rightarrow> bool \<Rightarrow> string \<Rightarrow> resource_fields \<Rightarrow> resource_fields" where
  "select_gpu rdmaPath vgpuPath m s =
     (let v = fd_values s;
          v = v\<lparr>rf_gpu := (rf_gpu v)\<lparr>gf_model := Some m\<rparr>\<rparr>;
          v = (if rdmaPath then v\<lparr>rf_network := rf_network (fd_defaults s)\<rparr> else v);
          v = (if vgpuPath then v\<lparr>rf_vgpu := rf_vgpu (fd_defaults s)\<rparr> else v) in
      s\<lparr>fd_values := v\<rparr>)"

definition set_network :: "(network_form \<Rightarrow> network_form) \<Rightarrow> resource_fields \<Rightarrow> resource_fields" where
  "set_network f s = s\<lparr>fd_values := (fd_values s)\<lparr>rf_network := map_option f (rf_network (fd_values s))\<rparr>\<rparr>"

definition set_vgpu :: "(vgpu_form \<Rightarrow> vgpu_form) \<Rightarrow> resource_fields \<Rightarrow> resource_fields" where
  "set_vgpu f s = s\<lparr>fd_values := (fd_values s)\<lparr>rf_vgpu := map_option f (rf_vgpu (fd_values s))\<rparr>\<rparr>"

definition current_models :: "vgpu_form \<Rightarrow> vgpu_model list" where
  "current_models v = (case vf_models v of None \<Rightarrow> [] | Some ms \<Rightarrow> ms)"

definition addVGPUModel :: "vgpu_form \<Rightarrow> vgpu_form" where
  "addVGPUModel v = v\<lparr>vf_models := Some (current_models v @ [\<lparr>vg_label = [], vg_value = 0\<rparr>])\<rparr>"

definition removeVGPUModel :: "nat \<Rightarrow> vgpu_form \<Rightarrow> vgpu_form" where
  "removeVGPUModel index v =
     v\<lparr>vf_models := Some (map snd (filter (\<lambda>e. fst e \<noteq> index) (List.enumerate 0 (current_models v))))\<rparr>"

definition updateVGPUModel :: "nat \<Rightarrow> string + int \<Rightarrow> vgpu_form \<Rightarrow> vgpu_form" where
  "updateVGPUModel index x v =
     (let ms = current_models v; m = ms ! index in
      v\<lparr>vf_models := Some (ms[index := (case x of Inl l \<Rightarrow> m\<lparr>vg_label := l\<rparr> | Inr n \<Rightarrow> m\<lparr>vg_value := n\<rparr>)])\<rparr>)"

datatype fields_event =
    Load_values resource_form
  | Select_gpu string
  | Set_count int
  | Switch_network bool
  | Choose_network string
  | Switch_vgpu bool
  | Add_vgpu
  | Remove_vgpu nat
  | Label_vgpu nat string
  | Value_vgpu nat int

text \<open>
  What can be done: a network is chosen among those offered for the model, with the switch on; a
  virtual GPU's row is changed or removed while it is there.
\<close>

definition network_on :: "resource_fields \<Rightarrow> bool" where
  "network_on s \<longleftrightarrow> (case rf_network (fd_values s) of None \<Rightarrow> False | Some n \<Rightarrow> nf_enabled n)"

definition vgpu_rows :: "resource_fields \<Rightarrow> nat" where
  "vgpu_rows s = (case rf_vgpu (fd_values s) of None \<Rightarrow> 0 | Some v \<Rightarrow> length (current_models v))"

inductive fields_step :: "(string option \<Rightarrow> string set) \<Rightarrow> (string option \<Rightarrow> string set) \<Rightarrow>
    resource_fields \<Rightarrow> fields_event \<Rightarrow> resource_fields \<Rightarrow> bool"
  for nets :: "string option \<Rightarrow> string set" and vgpus :: "string option \<Rightarrow> string set" where
  fd_load: "fields_step nets vgpus s (Load_values v) (load_fields v s)"
| fd_gpu: "fields_step nets vgpus s (Select_gpu m) (select_gpu True True m s)"
| fd_count: "fields_step nets vgpus s (Set_count n)
    (s\<lparr>fd_values := (fd_values s)\<lparr>rf_gpu := (rf_gpu (fd_values s))\<lparr>gf_count := n\<rparr>\<rparr>\<rparr>)"
| fd_switch: "fields_step nets vgpus s (Switch_network b) (set_network (\<lambda>n. n\<lparr>nf_enabled := b\<rparr>) s)"
| fd_network: "network_on s \<Longrightarrow> l \<in> nets (gf_model (rf_gpu (fd_values s))) \<Longrightarrow>
    fields_step nets vgpus s (Choose_network l) (set_network (\<lambda>n. n\<lparr>nf_model := Some l\<rparr>) s)"
| fd_vswitch: "fields_step nets vgpus s (Switch_vgpu b) (set_vgpu (\<lambda>v. v\<lparr>vf_enabled := b\<rparr>) s)"
| fd_add: "fields_step nets vgpus s Add_vgpu (set_vgpu addVGPUModel s)"
| fd_remove: "i < vgpu_rows s \<Longrightarrow> fields_step nets vgpus s (Remove_vgpu i) (set_vgpu (removeVGPUModel i) s)"
| fd_label: "i < vgpu_rows s \<Longrightarrow> l \<in> vgpus (gf_model (rf_gpu (fd_values s))) \<Longrightarrow>
    fields_step nets vgpus s (Label_vgpu i l) (set_vgpu (updateVGPUModel i (Inl l)) s)"
| fd_value: "i < vgpu_rows s \<Longrightarrow> fields_step nets vgpus s (Value_vgpu i n) (set_vgpu (updateVGPUModel i (Inr n)) s)"

inductive_cases fields_stepE: "fields_step nets vgpus s e s'"
inductive_simps fields_gpu_simp: "fields_step nets vgpus s (Select_gpu m) s'"

definition network_model :: "resource_form \<Rightarrow> string option" where
  "network_model v = Option.bind (rf_network v) nf_model"

definition vgpu_labels :: "resource_form \<Rightarrow> string set" where
  "vgpu_labels v = (case rf_vgpu v of None \<Rightarrow> {} | Some g \<Rightarrow> vg_label ` set (current_models g))"

text \<open>
  The network is one offered for the GPU model or the defaults'; each virtual GPU is one offered for
  the model, one of the defaults, or not chosen yet.
\<close>

definition fields_inv :: "(string option \<Rightarrow> string set) \<Rightarrow> (string option \<Rightarrow> string set) \<Rightarrow> resource_fields \<Rightarrow> bool" where
  "fields_inv nets vgpus s \<longleftrightarrow>
     (\<forall>l. network_model (fd_values s) = Some l \<longrightarrow>
        l \<in> nets (gf_model (rf_gpu (fd_values s))) \<or> network_model (fd_defaults s) = Some l) \<and>
     vgpu_labels (fd_values s) \<subseteq> vgpus (gf_model (rf_gpu (fd_values s))) \<union> vgpu_labels (fd_defaults s) \<union> {[]}"

lemma network_set [simp]: "network_model (fd_values (set_vgpu f s)) = network_model (fd_values s)"
  "rf_gpu (fd_values (set_vgpu f s)) = rf_gpu (fd_values s)" "fd_defaults (set_vgpu f s) = fd_defaults s"
  "rf_gpu (fd_values (set_network g s)) = rf_gpu (fd_values s)" "fd_defaults (set_network g s) = fd_defaults s"
  "vgpu_labels (fd_values (set_network g s)) = vgpu_labels (fd_values s)"
  by (simp_all add: set_vgpu_def set_network_def network_model_def vgpu_labels_def)

lemma vgpu_labels_set:
  "vgpu_labels (fd_values (set_vgpu f s)) =
     (case rf_vgpu (fd_values s) of None \<Rightarrow> {} | Some g \<Rightarrow> vg_label ` set (current_models (f g)))"
  by (simp add: vgpu_labels_def set_vgpu_def split: option.split)

lemma models_changed:
  "vg_label ` set (current_models (addVGPUModel g)) = insert [] (vg_label ` set (current_models g))"
  "vg_label ` set (current_models (removeVGPUModel i g)) \<subseteq> vg_label ` set (current_models g)"
  "vg_label ` set (current_models (g\<lparr>vf_enabled := b\<rparr>)) = vg_label ` set (current_models g)"
  "i < length (current_models g) \<Longrightarrow>
     vg_label ` set (current_models (updateVGPUModel i (Inl l) g)) \<subseteq> insert l (vg_label ` set (current_models g))"
  "i < length (current_models g) \<Longrightarrow>
     vg_label ` set (current_models (updateVGPUModel i (Inr n) g)) \<subseteq> vg_label ` set (current_models g)"
proof -
  show "vg_label ` set (current_models (addVGPUModel g)) = insert [] (vg_label ` set (current_models g))"
    by (simp add: addVGPUModel_def current_models_def)
  have "set (map snd (filter (\<lambda>e. fst e \<noteq> i) (List.enumerate 0 ms))) \<subseteq> set ms" for ms :: "vgpu_model list"
    by (auto simp: in_set_enumerate_eq)
  moreover have "current_models (removeVGPUModel i g) = map snd (filter (\<lambda>e. fst e \<noteq> i) (List.enumerate 0 (current_models g)))"
    by (simp add: removeVGPUModel_def current_models_def)
  ultimately show "vg_label ` set (current_models (removeVGPUModel i g)) \<subseteq> vg_label ` set (current_models g)"
    by (metis image_mono)
  show "vg_label ` set (current_models (g\<lparr>vf_enabled := b\<rparr>)) = vg_label ` set (current_models g)"
    by (simp add: current_models_def)
  assume i: "i < length (current_models g)"
  have upd: "set ((current_models g)[i := x]) \<subseteq> insert x (set (current_models g))" for x
    by (rule set_update_subset_insert)
  have "current_models (updateVGPUModel i (Inl l) g) = (current_models g)[i := (current_models g ! i)\<lparr>vg_label := l\<rparr>]"
    "current_models (updateVGPUModel i (Inr n) g) = (current_models g)[i := (current_models g ! i)\<lparr>vg_value := n\<rparr>]"
    by (simp_all add: updateVGPUModel_def Let_def current_models_def)
  moreover have "vg_label (current_models g ! i) \<in> vg_label ` set (current_models g)" using i by simp
  ultimately show
    "vg_label ` set (current_models (updateVGPUModel i (Inl l) g)) \<subseteq> insert l (vg_label ` set (current_models g))"
    "vg_label ` set (current_models (updateVGPUModel i (Inr n) g)) \<subseteq> vg_label ` set (current_models g)"
    using upd [of "(current_models g ! i)\<lparr>vg_label := l\<rparr>"] upd [of "(current_models g ! i)\<lparr>vg_value := n\<rparr>"] by auto
qed

lemma inv_set_vgpu:
  assumes "fields_inv nets vgpus s"
    and "\<And>g. rf_vgpu (fd_values s) = Some g \<Longrightarrow>
      vg_label ` set (current_models (f g)) \<subseteq>
        vg_label ` set (current_models g) \<union> vgpus (gf_model (rf_gpu (fd_values s))) \<union> {[]}"
  shows "fields_inv nets vgpus (set_vgpu f s)"
proof -
  have "vgpu_labels (fd_values (set_vgpu f s)) \<subseteq>
      vgpu_labels (fd_values s) \<union> vgpus (gf_model (rf_gpu (fd_values s))) \<union> {[]}"
  proof (cases "rf_vgpu (fd_values s)")
    case None
    then show ?thesis by (simp add: vgpu_labels_set)
  next
    case (Some g)
    with assms(2) [OF this] show ?thesis by (simp add: vgpu_labels_set vgpu_labels_def [of "fd_values s"])
  qed
  with assms(1) show ?thesis by (auto simp: fields_inv_def)
qed

lemma fields_step_inv: "fields_step nets vgpus s e s' \<Longrightarrow> fields_inv nets vgpus s \<Longrightarrow> fields_inv nets vgpus s'"
proof (induction rule: fields_step.induct)
  case (fd_load s v)
  then show ?case by (auto simp: fields_inv_def load_fields_def)
next
  case (fd_gpu s m)
  then show ?case by (auto simp: fields_inv_def select_gpu_def Let_def network_model_def vgpu_labels_def)
next
  case (fd_count s n)
  then show ?case by (simp add: fields_inv_def network_model_def vgpu_labels_def)
next
  case (fd_switch s b)
  then show ?case
    by (auto simp: fields_inv_def network_model_def set_network_def vgpu_labels_def bind_eq_Some_conv)
next
  case (fd_network s l)
  then show ?case
    by (auto simp: fields_inv_def network_model_def set_network_def vgpu_labels_def bind_eq_Some_conv)
next
  case (fd_vswitch s b)
  then show ?case by (intro inv_set_vgpu) (auto simp: models_changed)
next
  case (fd_add s)
  then show ?case by (intro inv_set_vgpu) (auto simp: models_changed)
next
  case (fd_remove i s)
  then show ?case by (intro inv_set_vgpu le_supI1 models_changed(2)) assumption
next
  case (fd_label i s l)
  show ?case
  proof (intro inv_set_vgpu)
    fix g
    assume "rf_vgpu (fd_values s) = Some g"
    with fd_label have "i < length (current_models g)" and l: "l = [] \<or> l \<in> vgpus (gf_model (rf_gpu (fd_values s)))"
      by (auto simp: vgpu_rows_def)
    from models_changed(4) [OF this(1)] l
    show "vg_label ` set (current_models (updateVGPUModel i (Inl l) g)) \<subseteq>
        vg_label ` set (current_models g) \<union> vgpus (gf_model (rf_gpu (fd_values s))) \<union> {[]}" by blast
  qed (fact fd_label)
next
  case (fd_value i s n)
  then show ?case by (intro inv_set_vgpu le_supI1 models_changed(5)) (auto simp: vgpu_rows_def)
qed

definition fields_start :: "resource_fields \<Rightarrow> bool" where
  "fields_start s \<longleftrightarrow> fd_values s = fd_defaults s"

interpretation fields: machine "fields_step nets vgpus" fields_start "fields_inv nets vgpus" for nets vgpus
proof
  show "fields_start s \<Longrightarrow> fields_inv nets vgpus s" for s by (auto simp: fields_start_def fields_inv_def)
  show "fields_inv nets vgpus s \<Longrightarrow> fields_step nets vgpus s e s' \<Longrightarrow> fields_inv nets vgpus s'" for s e s'
    by (rule fields_step_inv)
qed

section \<open>The administrators' dialogs\<close>

text \<open>The label of a resource, and its kind: the kind \<open>default\<close> is never sent.\<close>

definition update_label :: "int \<Rightarrow> string \<Rightarrow> http_request option" where
  "update_label i label = (if 1 \<le> length label then Some (apiAdminResourceUpdate i (Some label) None) else None)"

definition type_default :: "ResourceInfo \<Rightarrow> ResourceKind" where
  "type_default current = (case rs_type current of None \<Rightarrow> Kind_default | Some k \<Rightarrow> k)"

definition update_type :: "ResourceInfo \<Rightarrow> ResourceKind \<Rightarrow> http_request option" where
  "update_type current t =
     (if t = Kind_default then None
      else Some (apiAdminResourceUpdate (rs_ID current) (Some (rs_label current)) (Some (Some t))))"

text \<open>The networks of a GPU: each RDMA resource is connected or not, and the button does the other.\<close>

definition rdma_resources :: "ResourceInfo list \<Rightarrow> ResourceInfo list" where
  "rdma_resources res = filter (\<lambda>r. rs_type r = Some Kind_rdma) res"

definition vgpu_resources :: "ResourceInfo list \<Rightarrow> ResourceInfo list" where
  "vgpu_resources res = filter (\<lambda>r. rs_type r = Some Kind_vgpu) res"

definition network_button :: "ResourceInfo \<Rightarrow> ResourceInfo list option \<Rightarrow> ResourceInfo \<Rightarrow> http_request" where
  "network_button gpu current rdma =
     (let currentNetworkIds = (case current of None \<Rightarrow> [] | Some ns \<Rightarrow> map rs_ID ns) in
      if rs_ID rdma \<in> set currentNetworkIds then apiAdminResourceNetworkDelete (rs_ID gpu) (rs_ID rdma)
      else apiAdminResourceNetworkAdd (rs_ID gpu) (rs_ID rdma))"

text \<open>The virtual GPUs of a GPU: the form, what it goes back to, and which entry is being edited.\<close>

record vgpu_values =
  vv_vgpuResourceId :: "int option"
  vv_min :: "int option"
  vv_max :: "int option"
  vv_description :: "string option"

definition vgpuAssociationSchema :: "vgpu_values \<Rightarrow> bool" where
  "vgpuAssociationSchema v \<longleftrightarrow> (case vv_min v of None \<Rightarrow> True | Some n \<Rightarrow> 1 \<le> n) \<and>
     (case vv_max v of None \<Rightarrow> True | Some n \<Rightarrow> 1 \<le> n)"

record vgpu_dialog =
  vd_values :: vgpu_values
  vd_defaults :: vgpu_values
  vd_isEditing :: "int option"

definition vgpu_blank :: vgpu_values where
  "vgpu_blank = \<lparr>vv_vgpuResourceId = None, vv_min = None, vv_max = None, vv_description = Some []\<rparr>"

definition startEditing :: "ResourceVGPU \<Rightarrow> vgpu_dialog \<Rightarrow> vgpu_dialog" where
  "startEditing v s =
     (let values = \<lparr>vv_vgpuResourceId = rv_vgpuResourceId v, vv_min = rv_min v, vv_max = rv_max v, vv_description = rv_description v\<rparr> in
      \<lparr>vd_values = values, vd_defaults = values, vd_isEditing = Some (rv_ID v)\<rparr>)"

definition cancelEditing :: "vgpu_dialog \<Rightarrow> vgpu_dialog" where
  "cancelEditing s = s\<lparr>vd_isEditing := None, vd_values := vd_defaults s\<rparr>"

definition vgpu_add_success :: "vgpu_dialog \<Rightarrow> vgpu_dialog" where
  "vgpu_add_success s = s\<lparr>vd_values := vd_defaults s\<rparr>"

definition vgpu_update_success :: "vgpu_dialog \<Rightarrow> vgpu_dialog" where
  "vgpu_update_success s = s\<lparr>vd_isEditing := None\<rparr>"

definition vgpu_onSubmit :: "ResourceInfo \<Rightarrow> vgpu_dialog \<Rightarrow> http_request option" where
  "vgpu_onSubmit gpu s =
     (let v = vd_values s in
      if \<not> vgpuAssociationSchema v then None
      else (case vd_isEditing s of
              Some i \<Rightarrow>
                if i \<noteq> 0
                then Some (apiAdminResourceVGPUUpdate (rs_ID gpu) i \<lparr>uv_vgpuResourceId = vv_vgpuResourceId v,
                       uv_min = vv_min v, uv_max = vv_max v, uv_description = vv_description v\<rparr>)
                else Some (apiAdminResourceVGPUAdd (rs_ID gpu) \<lparr>lv_vgpuResourceId = vv_vgpuResourceId v,
                       lv_min = vv_min v, lv_max = vv_max v, lv_description = vv_description v\<rparr>)
            | None \<Rightarrow> Some (apiAdminResourceVGPUAdd (rs_ID gpu) \<lparr>lv_vgpuResourceId = vv_vgpuResourceId v,
                       lv_min = vv_min v, lv_max = vv_max v, lv_description = vv_description v\<rparr>)))"

text \<open>After editing is given up, the form to add an entry holds the values of the one that was edited.\<close>

lemma cancel_keeps_values:
  "vd_values (cancelEditing (startEditing v s)) = vd_values (startEditing v s) \<and> vd_isEditing (cancelEditing (startEditing v s)) = None"
  by (simp add: cancelEditing_def startEditing_def Let_def)

lemma edited_entry_sent:
  assumes "vgpuAssociationSchema (vd_values (startEditing v s))" "rv_ID v \<noteq> 0"
  shows "vgpu_onSubmit gpu (startEditing v s) = Some (apiAdminResourceVGPUUpdate (rs_ID gpu) (rv_ID v)
    \<lparr>uv_vgpuResourceId = rv_vgpuResourceId v, uv_min = rv_min v, uv_max = rv_max v, uv_description = rv_description v\<rparr>)"
  using assms by (simp add: vgpu_onSubmit_def startEditing_def Let_def)

section \<open>Properties\<close>

text \<open>C34. Changing the GPU model never leaves a network or a virtual GPU behind that was chosen for another
  model: however the fields of a job form are used, the network is one offered for the model that is
  selected, or that of the configuration the form was last filled with; and each virtual GPU is one
  offered for that model, one of that configuration, or not chosen yet.\<close>

theorem network_of_gpu:
  assumes "fields_start s" "runs (fields_step nets vgpus) s es s'"
  shows "(\<forall>l. network_model (fd_values s') = Some l \<longrightarrow>
      l \<in> nets (gf_model (rf_gpu (fd_values s'))) \<or> network_model (fd_defaults s') = Some l) \<and>
    (\<forall>l \<in> vgpu_labels (fd_values s').
      l \<in> vgpus (gf_model (rf_gpu (fd_values s'))) \<or> l \<in> vgpu_labels (fd_defaults s') \<or> l = [])"
  using fields.reachable_inv [OF assms] by (auto simp: fields_inv_def)

text \<open>The second case happens: a loaded network stays when another GPU is selected.\<close>

definition loaded_resource :: resource_form where
  "loaded_resource = defaultResource\<lparr>rf_gpu := \<lparr>gf_count = 1, gf_model = Some ''a100''\<rparr>,
     rf_network := Some \<lparr>nf_enabled = True, nf_model = Some ''ib-a''\<rparr>\<rparr>"

definition swapped_gpu :: resource_fields where
  "swapped_gpu = select_gpu True True ''v100'' (load_fields loaded_resource \<lparr>fd_values = defaultResource, fd_defaults = defaultResource\<rparr>)"

lemma swapped_runs:
  "runs (fields_step nets vgpus) \<lparr>fd_values = defaultResource, fd_defaults = defaultResource\<rparr>
     [Load_values loaded_resource, Select_gpu ''v100''] swapped_gpu"
  unfolding swapped_gpu_def by (blast intro: runs.intros fields_step.intros)

theorem network_of_gpu_witness:
  "network_model (fd_values swapped_gpu) = Some ''ib-a'' \<and> gf_model (rf_gpu (fd_values swapped_gpu)) = Some ''v100'' \<and>
   network_model (fd_defaults swapped_gpu) = Some ''ib-a''"
proof -
  have now: "network_model (fd_values swapped_gpu) = Some ''ib-a''" "gf_model (rf_gpu (fd_values swapped_gpu)) = Some ''v100''"
    by (simp_all add: swapped_gpu_def select_gpu_def load_fields_def loaded_resource_def network_model_def Let_def)
  have "fields_start \<lparr>fd_values = defaultResource, fd_defaults = defaultResource\<rparr>" by (simp add: fields_start_def)
  from network_of_gpu [OF this swapped_runs [of "\<lambda>g. {}" "\<lambda>g. {}"]] now show ?thesis by simp
qed

end
