(* ===== verification/Accounts.thy ===== *)
theory Accounts
  imports Session Coerce Collections
begin

text \<open>
  Accounts, for administrators: the form that creates or edits one
  (\<open>routes/admin/accounts/-components/account-form.ts\<close> and \<open>account-form-component.tsx\<close>), its
  members (\<open>$id.tsx\<close>) and a member's share of the quota (\<open>components/badge/capacity-badges.tsx\<close>).
  The order \<open>localeCompare\<close> of names is the parameter \<open>collate\<close>; the text
  \<open>new Date(x).toISOString()\<close> is \<open>iso_text x\<close>.
\<close>

section \<open>The form of an account\<close>

text \<open>An expiry date is a date, or the text that stands for one in a configuration read from a file.\<close>

datatype expiry = Date_value string | Date_text string

record account_form =
  af_id :: "int option"
  af_name :: string
  af_resources :: "quota_row list"
  af_expiredAt :: "expiry option"
  af_admins :: "string list option"

definition account_formSchema :: "account_form \<Rightarrow> bool" where
  "account_formSchema v \<longleftrightarrow> 1 \<le> length (af_name v) \<and> length (af_name v) \<le> 16 \<and> quotaSchema (af_resources v) \<and>
     (case af_expiredAt v of Some (Date_text t) \<Rightarrow> False | _ \<Rightarrow> True)"

text \<open>\<open>accountToForm\<close>, which no component calls.\<close>

definition date_of :: "(string \<Rightarrow> string) \<Rightarrow> string option \<Rightarrow> expiry option" where
  "date_of iso_text t = (case t of None \<Rightarrow> None | Some x \<Rightarrow> if x = [] then None else Some (Date_value (iso_text x)))"

definition accountToForm :: "(string \<Rightarrow> string) \<Rightarrow> string list \<Rightarrow> IAccount \<Rightarrow> account_form" where
  "accountToForm iso_text resourceTypes account = \<lparr>af_id = None, af_name = ac_name account,
     af_resources = convertQuotaToForm (ac_quota account) (Some resourceTypes),
     af_expiredAt = date_of iso_text (ac_expiredAt account), af_admins = Some []\<rparr>"

text \<open>The resources a quota can name: CPUs, memory, then by name.\<close>

definition hidden_resources :: "string list" where
  "hidden_resources = [''ephemeral-storage'', ''hugepages-1Gi'', ''hugepages-2Mi'', ''pods'']"

definition resource_order :: "(string \<Rightarrow> string \<Rightarrow> int) \<Rightarrow> string \<Rightarrow> string \<Rightarrow> int" where
  "resource_order collate a b =
     (if a = ''cpu'' then -1 else if b = ''cpu'' then 1 else if a = ''memory'' then -1
      else if b = ''memory'' then 1 else collate a b)"

definition resourceDimension :: "(string \<Rightarrow> string \<Rightarrow> int) \<Rightarrow> string list \<Rightarrow> string list" where
  "resourceDimension collate names = sort_by (resource_order collate) (filter (\<lambda>n. n \<notin> set hidden_resources) names)"

text \<open>The users to choose the administrators from: the value, the label, the note.\<close>

definition user_option :: "IAdminUser \<Rightarrow> string \<times> string \<times> string" where
  "user_option user = (int_str (au_id user),
     if ua_nickname (au_attributes user) = [] then au_name user else ua_nickname (au_attributes user), au_name user)"

text \<open>What the form starts with; the resources are \<open>None\<close> until they are loaded.\<close>

definition blank_row :: "string \<Rightarrow> quota_row" where
  "blank_row name = \<lparr>qr_name = name, qr_guaranteed = None, qr_deserved = None, qr_capability = None\<rparr>"

definition account_defaults :: "(string \<Rightarrow> string) \<Rightarrow> string list option \<Rightarrow> IAccount option \<Rightarrow> account_form" where
  "account_defaults iso_text dims account =
     \<lparr>af_id = map_option ac_id account, af_name = (case account of None \<Rightarrow> [] | Some a \<Rightarrow> ac_nickname a),
      af_resources = map blank_row (case dims of None \<Rightarrow> [''cpu'', ''memory''] | Some ds \<Rightarrow> ds),
      af_expiredAt = Option.bind account (\<lambda>a. date_of iso_text (ac_expiredAt a)), af_admins = Some []\<rparr>"

text \<open>Rows are added blank and removed by their place.\<close>

definition append_row :: "account_form \<Rightarrow> account_form" where
  "append_row v = v\<lparr>af_resources := af_resources v @ [blank_row []]\<rparr>"

definition remove_row :: "nat \<Rightarrow> account_form \<Rightarrow> account_form" where
  "remove_row i v = v\<lparr>af_resources := take i (af_resources v) @ drop (Suc i) (af_resources v)\<rparr>"

section \<open>Saving it\<close>

text \<open>The body of both requests; an administrator's id that is no number is sent as \<open>null\<close>.\<close>

definition expiry_text :: "expiry \<Rightarrow> string" where
  "expiry_text e = (case e of Date_value t \<Rightarrow> t | Date_text t \<Rightarrow> t)"

definition account_body :: "scheduler \<Rightarrow> account_form \<Rightarrow> json" where
  "account_body scheduler v = JObj ([(''name'', JStr (af_name v)), (''quota'', json_quota (convertFormToQuota (af_resources v)))]
     @ opt_field ''expiredAt'' (\<lambda>e. JStr (expiry_text e)) (af_expiredAt v)
     @ opt_field ''admins'' (\<lambda>ids. JArr (map (\<lambda>i. json_of_number (parse_int i)) ids)) (af_admins v)
     @ [(''withoutVolcano'', JBool (scheduler \<noteq> Volcano))])"

definition account_onSubmit :: "scheduler \<Rightarrow> account_form \<Rightarrow> http_request option" where
  "account_onSubmit scheduler v =
     (if \<not> account_formSchema v then None
      else (case af_id v of
              None \<Rightarrow> Some (apiV1Post ''admin/accounts'' (Some (account_body scheduler v)))
            | Some i \<Rightarrow>
                if i \<noteq> 0 then Some (apiV1Put (''admin/accounts/'' @ int_str i) (Some (account_body scheduler v)))
                else Some (apiV1Post ''admin/accounts'' (Some (account_body scheduler v)))))"

section \<open>Importing a configuration\<close>

text \<open>
  The page: the form and \<open>cachedFormName\<close>. Reading a file calls the handlers of the render in which
  the file was chosen: \<open>beforeImport\<close> sets the name to keep, and \<open>afterImport\<close> tests the name of
  that render, not the one just set, before it clears it.
\<close>

record account_page =
  ap_form :: account_form
  ap_cachedFormName :: "string option"

definition import_account :: "account_form \<Rightarrow> account_page \<Rightarrow> account_page" where
  "import_account v rendered =
     (let p = rendered\<lparr>ap_cachedFormName := Some (af_name v)\<rparr>;
          p = p\<lparr>ap_form := v\<rparr>;
          p = (case ap_cachedFormName rendered of
                 None \<Rightarrow> p
               | Some name \<Rightarrow> if name = [] then p else p\<lparr>ap_form := (ap_form p)\<lparr>af_name := name, af_expiredAt := None\<rparr>\<rparr>) in
      p\<lparr>ap_cachedFormName := None\<rparr>)"

text \<open>The values of a configuration that was exported: JSON has no dates, it has their text.\<close>

definition stored_form :: "account_form \<Rightarrow> account_form" where
  "stored_form v = v\<lparr>af_expiredAt := map_option (\<lambda>e. Date_text (expiry_text e)) (af_expiredAt v)\<rparr>"

datatype account_event = Edit_account account_form | Import_account account_form

inductive account_step :: "account_page \<Rightarrow> account_event \<Rightarrow> account_page \<Rightarrow> bool" where
  acc_edit: "account_step p (Edit_account v) (p\<lparr>ap_form := v\<rparr>)"
| acc_import: "account_step p (Import_account v) (import_account v p)"

inductive_cases account_stepE: "account_step p e p'"

definition account_start :: "account_page \<Rightarrow> bool" where
  "account_start p \<longleftrightarrow> ap_cachedFormName p = None"

interpretation account_page: machine account_step account_start account_start
  by unfold_locales (auto simp: account_start_def import_account_def Let_def elim: account_stepE)

section \<open>Members (accounts/$id.tsx)\<close>

record member_form =
  mf_userIds :: "string list"
  mf_role :: string
  mf_accessmode :: string

definition member_defaults :: member_form where
  "member_defaults = \<lparr>mf_userIds = [], mf_role = ''2'', mf_accessmode = ''2''\<rparr>"

definition member_formSchema :: "member_form \<Rightarrow> bool" where
  "member_formSchema v \<longleftrightarrow> 1 \<le> length (mf_userIds v) \<and> 1 \<le> length (mf_role v) \<and> 1 \<le> length (mf_accessmode v)"

definition member_option :: "IUserInAccount \<Rightarrow> string \<times> string \<times> string" where
  "member_option user = (int_str (uic_id user),
     if ua_nickname (uia_userInfo user) = [] then uic_name user else ua_nickname (uia_userInfo user), uic_name user)"

text \<open>The requests for the chosen users; an id that is not among the users asks for user \<open>undefined\<close>.\<close>

definition add_member :: "int \<Rightarrow> IUserInAccount list \<Rightarrow> member_form \<Rightarrow> string \<Rightarrow> http_request" where
  "add_member pid usersOutOfProject v userId =
     (case find (\<lambda>u. int_str (uic_id u) = userId) usersOutOfProject of
        Some u \<Rightarrow> apiAddUser pid \<lparr>uic_id = uic_id u, uic_name = uic_name u, uic_role = mf_role v, uic_accessmode = mf_accessmode v\<rparr>
      | None \<Rightarrow> apiV1Post (''admin/accounts/add/'' @ int_str pid @ ''/undefined'')
          (Some (JObj [(''role'', JStr (mf_role v)), (''accessmode'', JStr (mf_accessmode v))])))"

definition members_onSubmit :: "int \<Rightarrow> IUserInAccount list \<Rightarrow> member_form \<Rightarrow> http_request list" where
  "members_onSubmit pid usersOutOfProject v =
     (if member_formSchema v then map (add_member pid usersOutOfProject v) (mf_userIds v) else [])"

text \<open>The menus of a member's row.\<close>

definition userRoles :: "string list" where
  "userRoles = [int_str (Role_val Role_Admin), int_str (Role_val Role_User)]"

definition accessModes :: "string list" where
  "accessModes = [int_str (Access_val Access_RO), int_str (Access_val Access_RW)]"

definition set_role :: "int \<Rightarrow> IUserInAccount \<Rightarrow> string \<Rightarrow> http_request" where
  "set_role pid user role = apiUpdateUser pid
     \<lparr>uic_id = uic_id user, uic_name = uic_name user, uic_role = role, uic_accessmode = uic_accessmode user\<rparr>"

definition set_access :: "int \<Rightarrow> IUserInAccount \<Rightarrow> string \<Rightarrow> http_request" where
  "set_access pid user accessmode = apiUpdateUser pid
     \<lparr>uic_id = uic_id user, uic_name = uic_name user, uic_role = uic_role user, uic_accessmode = accessmode\<rparr>"

section \<open>A member's quota (capacity-badges.tsx)\<close>

text \<open>The amounts in their order, and how a resource is shown: without its namespace.\<close>

definition capacity_order :: "(string \<Rightarrow> string \<Rightarrow> int) \<Rightarrow> string \<times> string \<Rightarrow> string \<times> string \<Rightarrow> int" where
  "capacity_order collate x y =
     (let a = fst x; b = fst y in
      if a = ''cpu'' then -1 else if b = ''cpu'' then 1
      else if a = ''memory'' then (if b = ''cpu'' then 1 else -1)
      else if b = ''memory'' then (if a = ''cpu'' then -1 else 1)
      else collate a b)"

definition sortedEntries :: "(string \<Rightarrow> string \<Rightarrow> int) \<Rightarrow> strobj \<Rightarrow> strobj" where
  "sortedEntries collate m = sort_by (capacity_order collate) m"

definition displayKey :: "string \<Rightarrow> string" where
  "displayKey rawKey = (if CHR ''/'' \<in> set rawKey then concat (tl (split_char (CHR ''/'') rawKey)) else rawKey)"

definition capacity_text :: "string \<Rightarrow> string \<Rightarrow> string" where
  "capacity_text key v = (if key = ''cpu'' then v @ ''c'' else if key = ''memory'' then v else key @ '': '' @ v)"

text \<open>Saving an amount: the button is disabled for a blank or unchanged one.\<close>

definition save_enabled :: "bool \<Rightarrow> string \<Rightarrow> string \<Rightarrow> bool" where
  "save_enabled isPending editValue v \<longleftrightarrow> editValue \<noteq> [] \<and> editValue \<noteq> v \<and> \<not> isPending"

definition handleUpdateCapacity ::
  "int \<Rightarrow> int \<Rightarrow> quota option \<Rightarrow> strobj \<Rightarrow> string \<Rightarrow> string \<Rightarrow> strobj \<times> http_request" where
  "handleUpdateCapacity aid uid quota current key v =
     (let next' = AList.update key v current in
      (next', apiUpdateUserOutOfProjectList \<lparr>uiq_aid = aid, uiq_uid = uid, uiq_role = None, uiq_accessmode = None,
         uiq_quota = Some \<lparr>guaranteed = Option.bind quota guaranteed, deserved = Option.bind quota deserved,
           capability = Some next'\<rparr>\<rparr>))"

section \<open>Properties\<close>

lemma comparator_two_first:
  assumes "comparator collate"
  shows "comparator (\<lambda>a b. if a = c then - 1 else if b = c then 1 else if a = m then - 1 else if b = m then 1 else collate a b)"
    (is "comparator ?cmp")
proof -
  have le: "?cmp a b \<le> 0 \<longleftrightarrow> a = c \<or> (b \<noteq> c \<and> (a = m \<or> (b \<noteq> m \<and> collate a b \<le> 0)))" for a b by simp
  show ?thesis unfolding comparator_def le using assms [unfolded comparator_def] by blast
qed

lemma comparator_resource_order: "comparator collate \<Longrightarrow> comparator (resource_order collate)"
  using comparator_two_first [of collate "''cpu''" "''memory''"] by (simp only: resource_order_def [abs_def])

lemma comparator_capacity_order: "comparator collate \<Longrightarrow> comparator (capacity_order collate)"
proof -
  assume "comparator collate"
  then have "comparator (\<lambda>x y. resource_order collate (fst x) (fst y :: string))"
    by (rule comparator_key [OF comparator_resource_order])
  moreover have "capacity_order collate x y \<le> 0 \<longleftrightarrow> resource_order collate (fst x) (fst y) \<le> 0" for x y
    unfolding capacity_order_def resource_order_def Let_def by (simp only: split: if_split) blast
  ultimately show ?thesis by (simp add: comparator_def)
qed

interpretation resource_names: comparator "resource_order compare_codes"
  by (rule comparator_resource_order [OF compare_codes])

lemma put_column_blank: "put_column f (map blank_row ns) m = m" if "f \<in> {qr_guaranteed, qr_deserved, qr_capability}"
proof (induction ns arbitrary: m)
  case (Cons n ns)
  then show ?case using that by (auto simp: put_column_def blank_row_def put_amount_def)
qed (simp add: put_column_def)

lemma blank_quota: "convertFormToQuota (map blank_row ns) = \<lparr>guaranteed = Some [], deserved = Some [], capability = Some []\<rparr>"
  by (simp add: convertFormToQuota_columns put_column_blank)

text \<open>Editing an account and saving it as the form shows it clears its quotas: the form takes the name
  and the date from the account but starts every resource blank, so that the update sends a quota
  without a single amount, whatever the account's quota is.\<close>

theorem account_edit_clears:
  assumes "1 \<le> length (ac_nickname a)" "length (ac_nickname a) \<le> 16" "ac_id a \<noteq> 0"
    and "\<And>ns. dims = Some ns \<Longrightarrow> [] \<notin> set ns"
  shows "account_onSubmit scheduler (account_defaults iso_text dims (Some a)) =
    Some (apiV1Put (''admin/accounts/'' @ int_str (ac_id a)) (Some (JObj (
      [(''name'', JStr (ac_nickname a)),
       (''quota'', json_quota \<lparr>guaranteed = Some [], deserved = Some [], capability = Some []\<rparr>)]
      @ opt_field ''expiredAt'' (\<lambda>e. JStr (expiry_text e)) (date_of iso_text (ac_expiredAt a))
      @ [(''admins'', JArr []), (''withoutVolcano'', JBool (scheduler \<noteq> Volcano))]))))"
proof -
  let ?v = "account_defaults iso_text dims (Some a)"
  define ns' where "ns' = (case dims of None \<Rightarrow> [''cpu'', ''memory''] | Some ds \<Rightarrow> ds)"
  have rows: "af_resources ?v = map blank_row ns'" by (simp add: account_defaults_def ns'_def)
  have "[] \<notin> set ns'" using assms(4) by (auto simp: ns'_def split: option.splits)
  then have "quotaSchema (af_resources ?v)"
    by (auto simp: rows quotaSchema_def list_all_iff blank_row_def nonNegativeNumberSchema_def Suc_le_eq)
  then have "account_formSchema ?v"
    using assms(1,2) by (auto simp: account_formSchema_def account_defaults_def date_of_def split: option.splits if_splits)
  moreover have "af_id ?v = Some (ac_id a)" by (simp add: account_defaults_def)
  moreover have "account_body scheduler ?v = JObj (
      [(''name'', JStr (ac_nickname a)),
       (''quota'', json_quota \<lparr>guaranteed = Some [], deserved = Some [], capability = Some []\<rparr>)]
      @ opt_field ''expiredAt'' (\<lambda>e. JStr (expiry_text e)) (date_of iso_text (ac_expiredAt a))
      @ [(''admins'', JArr []), (''withoutVolcano'', JBool (scheduler \<noteq> Volcano))])"
    unfolding account_body_def rows blank_quota by (simp add: account_defaults_def opt_field_def)
  ultimately show ?thesis unfolding account_onSubmit_def using assms(3) by (simp only: not_True_eq_False if_False option.case) simp
qed

definition demo_account :: IAccount where
  "demo_account = \<lparr>ac_id = 7, ac_name = ''lab'', ac_nickname = ''Lab'', ac_space = ''lab'',
     ac_quota = \<lparr>guaranteed = None, deserved = Some [(''cpu'', ''64'')], capability = None\<rparr>, ac_expiredAt = None\<rparr>"

theorem account_edit_clears_witness:
  "account_onSubmit Volcano (account_defaults id (Some [''cpu'', ''memory'']) (Some demo_account)) =
    Some (apiV1Put ''admin/accounts/7'' (Some (JObj [(''name'', JStr ''Lab''),
       (''quota'', json_quota \<lparr>guaranteed = Some [], deserved = Some [], capability = Some []\<rparr>),
       (''admins'', JArr []), (''withoutVolcano'', JBool False)])))"
proof -
  have n: "int_str 7 = ''7''" by code_simp
  show ?thesis
    using account_edit_clears [of demo_account "Some [''cpu'', ''memory'']" Volcano id]
    by (simp add: demo_account_def date_of_def opt_field_def n)
qed

text \<open>A configuration with an expiry date cannot be saved after it was imported: however the page came
  to its state, \<open>afterImport\<close> finds no name to keep, so that it neither keeps the name nor clears the
  date; the date is a text then, which the schema refuses, and no request is sent.\<close>

theorem imported_expiry:
  assumes "account_start p0" "runs account_step p0 es p" "account_step p (Import_account (stored_form v)) p'"
  shows "ap_form p' = stored_form v \<and>
    (af_expiredAt v \<noteq> None \<longrightarrow> account_onSubmit scheduler (ap_form p') = None)"
proof -
  have "ap_cachedFormName p = None"
    using account_page.reachable_inv [OF assms(1,2)] by (simp add: account_start_def)
  moreover have "p' = import_account (stored_form v) p" using assms(3) by (auto elim: account_stepE)
  ultimately have "ap_form p' = stored_form v" by (simp add: import_account_def Let_def)
  then show ?thesis by (auto simp: account_onSubmit_def account_formSchema_def stored_form_def)
qed

theorem imported_expiry_witness:
  "account_onSubmit Volcano (ap_form (import_account
     (stored_form ((account_defaults id None (Some demo_account))\<lparr>af_expiredAt := Some (Date_value ''2026-01-01T00:00:00.000Z'')\<rparr>))
     \<lparr>ap_form = account_defaults id None None, ap_cachedFormName = None\<rparr>)) = None"
proof -
  define p where "p = \<lparr>ap_form = account_defaults id None None, ap_cachedFormName = None\<rparr>"
  define v where "v = (account_defaults id None (Some demo_account))\<lparr>af_expiredAt := Some (Date_value ''2026-01-01T00:00:00.000Z'')\<rparr>"
  have "account_start p" "af_expiredAt v \<noteq> None" by (simp_all add: account_start_def p_def v_def)
  then have "account_onSubmit Volcano (ap_form (import_account (stored_form v) p)) = None"
    using imported_expiry [OF _ runs_Nil acc_import] by blast
  then show ?thesis by (simp only: p_def v_def)
qed

text \<open>Users that are offered are found: each chosen one is added, once per choice and in that order.\<close>

lemma chosen_members:
  assumes "member_formSchema v" "list_all (\<lambda>i. \<exists>u \<in> set users. fst (member_option u) = i) (mf_userIds v)"
  shows "\<exists>us. set us \<subseteq> set users \<and> map (\<lambda>u. fst (member_option u)) us = mf_userIds v \<and>
    members_onSubmit pid users v = map (\<lambda>u. apiAddUser pid
      \<lparr>uic_id = uic_id u, uic_name = uic_name u, uic_role = mf_role v, uic_accessmode = mf_accessmode v\<rparr>) us"
proof -
  have one: "\<exists>u \<in> set users. int_str (uic_id u) = i \<and> add_member pid users v i = apiAddUser pid
      \<lparr>uic_id = uic_id u, uic_name = uic_name u, uic_role = mf_role v, uic_accessmode = mf_accessmode v\<rparr>"
    if "\<exists>u \<in> set users. int_str (uic_id u) = i" for i
  proof (cases "find (\<lambda>u. int_str (uic_id u) = i) users")
    case None
    with that show ?thesis by (auto simp: find_None_iff)
  next
    case (Some u)
    then have "u \<in> set users" "int_str (uic_id u) = i" by (auto simp: find_Some_iff)
    with Some show ?thesis by (auto simp: add_member_def)
  qed
  have "list_all (\<lambda>i. \<exists>u \<in> set users. int_str (uic_id u) = i) is \<Longrightarrow>
      \<exists>us. set us \<subseteq> set users \<and> map (\<lambda>u. int_str (uic_id u)) us = is \<and> map (add_member pid users v) is =
        map (\<lambda>u. apiAddUser pid \<lparr>uic_id = uic_id u, uic_name = uic_name u, uic_role = mf_role v, uic_accessmode = mf_accessmode v\<rparr>) us" for "is"
  proof (induction "is")
    case Nil
    then show ?case by (intro exI [of _ "[]"]) simp
  next
    case (Cons i "is")
    then obtain us where "set us \<subseteq> set users" "map (\<lambda>u. int_str (uic_id u)) us = is" "map (add_member pid users v) is =
        map (\<lambda>u. apiAddUser pid \<lparr>uic_id = uic_id u, uic_name = uic_name u, uic_role = mf_role v, uic_accessmode = mf_accessmode v\<rparr>) us"
      by auto
    moreover obtain u where "u \<in> set users" "int_str (uic_id u) = i" "add_member pid users v i = apiAddUser pid
        \<lparr>uic_id = uic_id u, uic_name = uic_name u, uic_role = mf_role v, uic_accessmode = mf_accessmode v\<rparr>"
      using one [of i] Cons.prems by auto
    ultimately show ?case by (intro exI [of _ "u # us"]) simp
  qed
  with assms show ?thesis by (simp add: members_onSubmit_def member_option_def)
qed

text \<open>The id of an administrator that was chosen is sent as it is.\<close>

lemma chosen_admin: "json_of_number (parse_int (fst (user_option u))) = jint (au_id u)"
proof -
  have "parse_int (int_str (au_id u) @ []) = Fin (of_int (au_id u))" by (rule parse_int_int_str) (simp add: stops_digits_def)
  then show ?thesis by (simp add: user_option_def jint_def)
qed

text \<open>Saving one amount of a member leaves the other amounts, and the other parts of the quota.\<close>

lemma other_capacities: "k \<noteq> key \<Longrightarrow> map_of (fst (handleUpdateCapacity aid uid q current key v)) k = map_of current k"
  by (simp add: handleUpdateCapacity_def Let_def update_conv')

end
