(* ===== verification/NodeMarks.thy ===== *)
theory NodeMarks
  imports ApiCluster Images
begin

text \<open>
  Labels, annotations and taints of a node, for administrators: the three tables of
  \<open>components/node/node-mark.tsx\<close> and the dialog of \<open>components/node/add-node-mark-dialog.tsx\<close>.
\<close>

datatype DialogType = Label_mark | Annotation_mark | Taint_mark

fun DialogType_val :: "DialogType \<Rightarrow> string" where
  "DialogType_val Label_mark = ''label''"
| "DialogType_val Annotation_mark = ''annotation''"
| "DialogType_val Taint_mark = ''taint''"

text \<open>What a table is configured with; the texts are static.\<close>

record MarkTypeConfig =
  mc_type :: DialogType
  mc_hasEffect :: bool
  mc_maxKey :: nat
  mc_maxValue :: nat
  mc_maxEffect :: "nat option"

fun MARK_TYPE_CONFIGS :: "DialogType \<Rightarrow> MarkTypeConfig" where
  "MARK_TYPE_CONFIGS Label_mark = \<lparr>mc_type = Label_mark, mc_hasEffect = False, mc_maxKey = 50, mc_maxValue = 50, mc_maxEffect = None\<rparr>"
| "MARK_TYPE_CONFIGS Annotation_mark = \<lparr>mc_type = Annotation_mark, mc_hasEffect = False, mc_maxKey = 30, mc_maxValue = 50, mc_maxEffect = None\<rparr>"
| "MARK_TYPE_CONFIGS Taint_mark = \<lparr>mc_type = Taint_mark, mc_hasEffect = True, mc_maxKey = 30, mc_maxValue = 50, mc_maxEffect = Some 20\<rparr>"

text \<open>A cell shows a value or its start; then a click copies the value.\<close>

definition shouldTruncate :: "nat \<Rightarrow> string \<Rightarrow> bool" where
  "shouldTruncate maxLength v \<longleftrightarrow> maxLength < length v"

definition displayValue :: "nat \<Rightarrow> string \<Rightarrow> string" where
  "displayValue maxLength v = (if shouldTruncate maxLength v then take maxLength v @ ''...'' else v)"

definition copied_value :: "nat \<Rightarrow> string \<Rightarrow> string option" where
  "copied_value maxLength v = (if shouldTruncate maxLength v then Some v else None)"

section \<open>The table of one kind\<close>

datatype mark_item = Label_item IClusterNodeLabel | Annotation_item IClusterNodeAnnotation | Taint_item IClusterNodeTaint

fun mark_key :: "mark_item \<Rightarrow> string" where
  "mark_key (Label_item x) = nl_key x"
| "mark_key (Annotation_item x) = na_key x"
| "mark_key (Taint_item x) = nt_key x"

text \<open>The rows are those of the kind in the node's marks, none without an answer.\<close>

definition node_marks :: "DialogType \<Rightarrow> IClusterNodeMark option \<Rightarrow> mark_item list" where
  "node_marks type data =
     (case data of None \<Rightarrow> []
      | Some d \<Rightarrow> (case type of Label_mark \<Rightarrow> map Label_item (nm_labels d)
           | Annotation_mark \<Rightarrow> map Annotation_item (nm_annotations d)
           | Taint_mark \<Rightarrow> map Taint_item (nm_taints d)))"

text \<open>\<open>deleteMutate\<close>: the request goes by the table's kind, which is that of its rows.\<close>

fun deleteMutate :: "string \<Rightarrow> mark_item \<Rightarrow> http_request" where
  "deleteMutate nodeName (Label_item x) = apiDeleteNodeLabel nodeName x"
| "deleteMutate nodeName (Annotation_item x) = apiDeleteNodeAnnotation nodeName x"
| "deleteMutate nodeName (Taint_item x) = apiDeleteNodeTaint nodeName x"

text \<open>
  \<open>handleAdd\<close> and \<open>addMutate\<close>: the effect goes into the item of a taint when there is one; without it
  the item has a key and a value only.
\<close>

definition handleAdd :: "string \<Rightarrow> DialogType \<Rightarrow> string \<Rightarrow> string \<Rightarrow> string option \<Rightarrow> http_request" where
  "handleAdd nodeName type key v effect =
     (case type of
        Label_mark \<Rightarrow> apiAddNodeLabel nodeName \<lparr>nl_key = key, nl_value = v\<rparr>
      | Annotation_mark \<Rightarrow> apiAddNodeAnnotation nodeName \<lparr>na_key = key, na_value = v\<rparr>
      | Taint_mark \<Rightarrow>
          (case effect of
             Some e \<Rightarrow>
               if e = [] then apiV1Post (''admin/nodes/'' @ nodeName @ ''/taint'') (Some (JObj [(''key'', JStr key), (''value'', JStr v)]))
               else apiAddNodeTaint nodeName \<lparr>nt_key = key, nt_value = v, nt_effect = e, nt_reason = None\<rparr>
           | None \<Rightarrow> apiV1Post (''admin/nodes/'' @ nodeName @ ''/taint'') (Some (JObj [(''key'', JStr key), (''value'', JStr v)]))))"

text \<open>Deleting asks first: the dialog keeps its item when it is closed.\<close>

record delete_dialog =
  dd_open :: bool
  dd_item :: "mark_item option"

definition handleDelete :: "mark_item \<Rightarrow> delete_dialog \<Rightarrow> delete_dialog" where
  "handleDelete item d = \<lparr>dd_open = True, dd_item = Some item\<rparr>"

definition dialog_open_change :: "bool \<Rightarrow> delete_dialog \<Rightarrow> delete_dialog" where
  "dialog_open_change b d = d\<lparr>dd_open := b\<rparr>"

definition handleDeleteConfirm :: "string \<Rightarrow> delete_dialog \<Rightarrow> http_request option" where
  "handleDeleteConfirm nodeName d = map_option (deleteMutate nodeName) (dd_item d)"

definition effect_options :: "DialogType \<Rightarrow> string list" where
  "effect_options type = (if mc_hasEffect (MARK_TYPE_CONFIGS type)
     then map TaintEffect_val [TaintEffect_NoSchedule, TaintEffect_PreferNoSchedule, TaintEffect_NoExecute] else [])"

section \<open>The dialog to add a mark\<close>

text \<open>\<open>/^[a-zA-Z0-9.-]+$/\<close>.\<close>

definition mark_key_char :: "char \<Rightarrow> bool" where
  "mark_key_char c \<longleftrightarrow> alnum c \<or> c = CHR ''.'' \<or> c = CHR ''-''"

record mark_values =
  mv_key :: string
  mv_value :: string
  mv_effect :: "TaintEffect option"

definition mark_formSchema :: "DialogType \<Rightarrow> mark_values \<Rightarrow> bool" where
  "mark_formSchema type v \<longleftrightarrow>
     1 \<le> length (mv_key v) \<and> length (mv_key v) \<le> 253 \<and> mv_key v \<noteq> [] \<and> list_all mark_key_char (mv_key v) \<and>
     (if type = Taint_mark then length (mv_value v) \<le> 63 \<or> mv_value v = []
      else 1 \<le> length (mv_value v) \<and> length (mv_value v) \<le> 63) \<and>
     (type = Taint_mark \<longrightarrow> mv_effect v \<noteq> None)"

definition mark_defaults :: mark_values where
  "mark_defaults = \<lparr>mv_key = [], mv_value = [], mv_effect = None\<rparr>"

text \<open>Submitting: the request and the form afterwards; nothing happens when the schema refuses.\<close>

definition mark_handleSubmit :: "string \<Rightarrow> DialogType \<Rightarrow> mark_values \<Rightarrow> (http_request \<times> mark_values) option" where
  "mark_handleSubmit nodeName type v =
     (if mark_formSchema type v
      then Some (handleAdd nodeName type (mv_key v) (mv_value v)
             (if type = Taint_mark then map_option TaintEffect_val (mv_effect v) else None), mark_defaults)
      else None)"

text \<open>Keys with a prefix, as those of Kubernetes have, are refused: the expression allows no slash.\<close>

lemma prefixed_keys_refused: "CHR ''/'' \<in> set (mv_key v) \<Longrightarrow> mark_handleSubmit nodeName type v = None"
proof -
  have "\<not> mark_key_char (CHR ''/'')" by code_simp
  then show "CHR ''/'' \<in> set (mv_key v) \<Longrightarrow> mark_handleSubmit nodeName type v = None"
    by (auto simp: mark_handleSubmit_def mark_formSchema_def list_all_iff)
qed

text \<open>A taint that is added has one of the three effects, and the dialog is blank afterwards.\<close>

lemma added_taint:
  assumes "mark_handleSubmit nodeName Taint_mark v = Some (request, v')"
  shows "v' = mark_defaults \<and> (\<exists>e. request = apiAddNodeTaint nodeName
     \<lparr>nt_key = mv_key v, nt_value = mv_value v, nt_effect = TaintEffect_val e, nt_reason = None\<rparr>)"
proof -
  from assms obtain e where e: "mv_effect v = Some e"
    by (auto simp: mark_handleSubmit_def mark_formSchema_def split: if_splits)
  have "TaintEffect_val e \<noteq> []" by (cases e) simp_all
  with assms e show ?thesis
    by (intro conjI exI [of _ e]) (simp_all add: mark_handleSubmit_def handleAdd_def split: if_splits)
qed

end
