(* ===== verification/ImageList.thy ===== *)
theory ImageList
  imports ImageBuild TagsInput Coerce
begin

text \<open>
  The list of image links (\<open>components/image/images/index.tsx\<close>) with the dialogs of a row
  (\<open>valid-dialog.tsx\<close>, \<open>rename-dialog.tsx\<close>, \<open>tags-dialog.tsx\<close>, \<open>arch-dialog.tsx\<close>,
  \<open>status-dialog.tsx\<close>, \<open>delete-dialog.tsx\<close>) and the sheet that shares an image
  (\<open>share-image-sheet.tsx\<close>).
\<close>

section \<open>The rows\<close>

definition image_pair :: "ImageInfoResponse \<Rightarrow> ImageLinkPair" where
  "image_pair r = \<lparr>lp_id = ii_ID r, lp_imageLink = ii_imageLink r, lp_description = ii_description r,
     lp_creator = ii_userInfo r\<rparr>"

text \<open>The text a row is searched by, whether it is public, and whether its name is a link.\<close>

definition image_text :: "ImageInfoResponse \<Rightarrow> string" where
  "image_text r = ii_imageLink r @ '' ('' @ ii_description r @ '')''"

definition row_isPublic :: "ImageInfoResponse \<Rightarrow> bool" where
  "row_isPublic r \<longleftrightarrow> ii_imageShareStatus r = ''Public''"

definition row_link :: "bool \<Rightarrow> ImageInfoResponse \<Rightarrow> string option" where
  "row_link isAdminView r =
     (if ii_imageBuildSource r = 1
      then Some ((if isAdminView then ''/admin/env/registry/'' else ''/portal/env/registry/'') @ ii_imagepackName r) else None)"

text \<open>The functions the table is given: the administrators' page passes other ones.\<close>

definition delete_images :: "bool \<Rightarrow> int list \<Rightarrow> http_request" where
  "delete_images isAdminMode ids = (if isAdminMode then apiAdminDeleteImageList ids else apiUserDeleteImageList ids)"

definition change_public :: "bool \<Rightarrow> int \<Rightarrow> http_request" where
  "change_public isAdminMode i = (if isAdminMode then apiAdminChangeImagePublicStatus i else apiUserChangeImagePublicStatus i)"

definition change_description :: "bool \<Rightarrow> UpdateDescription \<Rightarrow> http_request" where
  "change_description isAdminMode d =
     (if isAdminMode then apiAdminChangeImageDescription d else apiUserChangeImageDescription d)"

section \<open>The menu of a row\<close>

text \<open>What the menu and its dialogs can end in, with what was entered.\<close>

datatype image_action =
    Check_links
  | Delete_invalid "ImageLinkPair list"
  | Toggle_public
  | Share_image
  | Save_tags "tag_item list"
  | Save_archs "string list"
  | Rename_image string
  | Delete_image

definition isDisabled :: "bool \<Rightarrow> string \<Rightarrow> ImageInfoResponse \<Rightarrow> bool" where
  "isDisabled isAdminMode userName r \<longleftrightarrow> \<not> isAdminMode \<and> ui_username (ii_userInfo r) \<noteq> userName"

definition action_enabled :: "bool \<Rightarrow> string \<Rightarrow> ImageInfoResponse \<Rightarrow> image_action \<Rightarrow> bool" where
  "action_enabled isAdminMode userName r a =
     (case a of
        Check_links \<Rightarrow> True
      | Delete_invalid ps \<Rightarrow> True
      | Toggle_public \<Rightarrow> isAdminMode \<and> \<not> isDisabled isAdminMode userName r
      | _ \<Rightarrow> \<not> isDisabled isAdminMode userName r)"

text \<open>The dialogs' own rules: a new name, and at least one architecture.\<close>

definition rename_formSchema :: "string \<Rightarrow> string \<Rightarrow> bool" where
  "rename_formSchema imageDescription v \<longleftrightarrow> 1 \<le> length v \<and> v \<noteq> imageDescription"

definition initial_tags :: "ImageInfoResponse \<Rightarrow> tag_item list" where
  "initial_tags r = map (\<lambda>t. \<lparr>tg_value = t, tg_label = Some t\<rparr>) (ii_tags r)"

definition handleArchToggle :: "string \<Rightarrow> string list \<Rightarrow> string list" where
  "handleArchToggle arch prev = (if arch \<in> set prev then filter (\<lambda>a. a \<noteq> arch) prev else prev @ [arch])"

definition own_pairs :: "string \<Rightarrow> ImageLinkPair list \<Rightarrow> int list" where
  "own_pairs userName ps = map lp_id (filter (\<lambda>p. ui_username (lp_creator p) = userName) ps)"

text \<open>The request an action ends in; sharing opens the sheet.\<close>

definition action_request :: "bool \<Rightarrow> string \<Rightarrow> ImageInfoResponse \<Rightarrow> image_action \<Rightarrow> http_request option" where
  "action_request isAdminMode userName r a =
     (if \<not> action_enabled isAdminMode userName r a then None
      else (case a of
        Check_links \<Rightarrow> Some (apiUserCheckImageValid \<lparr>lps_linkPairs = [image_pair r]\<rparr>)
      | Delete_invalid ps \<Rightarrow> Some (delete_images isAdminMode (own_pairs userName ps))
      | Toggle_public \<Rightarrow> Some (change_public isAdminMode (ii_ID r))
      | Share_image \<Rightarrow> None
      | Save_tags ts \<Rightarrow> Some (apiUserUpdateImageTags \<lparr>ut_id = ii_ID r, ut_tags = map tg_value ts\<rparr>)
      | Save_archs as \<Rightarrow> if as = [] then None else Some (apiUserUpdateImageArchs \<lparr>uar_id = ii_ID r, uar_archs = as\<rparr>)
      | Rename_image n \<Rightarrow> if rename_formSchema (ii_description r) n
          then Some (change_description isAdminMode \<lparr>ud_id = ii_ID r, ud_description = n\<rparr>) else None
      | Delete_image \<Rightarrow> Some (delete_images isAdminMode [ii_ID r])))"

text \<open>The actions on several selected rows.\<close>

definition bulk_delete :: "bool \<Rightarrow> ImageInfoResponse list \<Rightarrow> http_request" where
  "bulk_delete isAdminMode rows = delete_images isAdminMode (map ii_ID rows)"

definition bulk_check :: "ImageInfoResponse list \<Rightarrow> http_request" where
  "bulk_check rows = apiUserCheckImageValid \<lparr>lps_linkPairs = map image_pair rows\<rparr>"

definition bulk_delete_invalid :: "bool \<Rightarrow> string option \<Rightarrow> ImageLinkPair list \<Rightarrow> http_request" where
  "bulk_delete_invalid isAdminMode user ps = delete_images isAdminMode
     (if isAdminMode then map lp_id ps else map lp_id (filter (\<lambda>p. Some (ui_username (lp_creator p)) = user) ps))"

text \<open>The dialog that checks links: valid without an invalid pair, deletion offered with one.\<close>

definition links_valid :: "bool \<Rightarrow> ImageLinkPair list option \<Rightarrow> bool" where
  "links_valid isLoading invalidPairs \<longleftrightarrow> \<not> isLoading \<and> map_option length invalidPairs = Some 0"

definition delete_offered :: "ImageLinkPair list option \<Rightarrow> bool" where
  "delete_offered invalidPairs \<longleftrightarrow> 0 < (case invalidPairs of None \<Rightarrow> 0 | Some ps \<Rightarrow> length ps)"

section \<open>Sharing an image\<close>

datatype share_type = Share_user | Share_account

fun share_type_val :: "share_type \<Rightarrow> string" where
  "share_type_val Share_user = ''user''"
| "share_type_val Share_account = ''account''"

record share_sheet =
  sh_selectedUsers :: "string list"
  sh_selectedAccounts :: "string list"
  sh_activeTab :: share_type

definition share_start :: share_sheet where
  "share_start = \<lparr>sh_selectedUsers = [], sh_selectedAccounts = [], sh_activeTab = Share_user\<rparr>"

text \<open>The objects to choose from: the value, which is the id, the label, the note.\<close>

definition account_choice :: "ImageAccounts \<Rightarrow> string \<times> string" where
  "account_choice a = (int_str (ia_id a), ia_name a)"

definition user_choice :: "IUserAttributes \<Rightarrow> string \<times> string \<times> string" where
  "user_choice u = (int_str (ua_id u), ua_nickname u, ua_name u)"

text \<open>\<open>handleAddAccess\<close>: a request, or the toast that nothing is selected.\<close>

definition handleAddAccess :: "int \<Rightarrow> number list \<Rightarrow> share_type \<Rightarrow> http_request option" where
  "handleAddAccess imageID idList type =
     (if 0 < length idList
      then Some (apiV1Post ''images/share'' (Some (JObj [(''idList'', JArr (map json_of_number idList)),
             (''imageID'', jint imageID), (''type'', JStr (share_type_val type))])))
      else None)"

definition handleRemoveAccess :: "int \<Rightarrow> int \<Rightarrow> share_type \<Rightarrow> http_request" where
  "handleRemoveAccess imageID i type =
     apiUserDeleteImageShare \<lparr>di_id = i, di_imageID = imageID, di_type = share_type_val type\<rparr>"

definition share_submit :: "int \<Rightarrow> share_sheet \<Rightarrow> http_request option \<times> share_sheet" where
  "share_submit imageID s =
     (case sh_activeTab s of
        Share_account \<Rightarrow> (handleAddAccess imageID (map parse_int (sh_selectedAccounts s)) Share_account,
          s\<lparr>sh_selectedAccounts := []\<rparr>)
      | Share_user \<Rightarrow> (handleAddAccess imageID (map parse_int (sh_selectedUsers s)) Share_user,
          s\<lparr>sh_selectedUsers := []\<rparr>))"

text \<open>The cross beside an object removes an object of the shown list's kind.\<close>

definition share_remove :: "int \<Rightarrow> int \<Rightarrow> share_sheet \<Rightarrow> http_request" where
  "share_remove imageID i s = handleRemoveAccess imageID i (sh_activeTab s)"

section \<open>Properties\<close>

text \<open>The ids of chosen objects are sent as they are.\<close>

lemma chosen_ids: "map json_of_number (map parse_int (map int_str is)) = map jint is"
proof -
  have "json_of_number (parse_int (int_str i)) = jint i" for i
    using parse_int_int_str [of "[]" i] by (simp add: stops_digits_def jint_def)
  then show ?thesis by simp
qed

lemma shared_with:
  assumes "sh_activeTab s = Share_user" "sh_selectedUsers s = map (\<lambda>u. fst (user_choice u)) us" "us \<noteq> []"
  shows "share_submit i s = (Some (apiUserAddImageShare \<lparr>ai_idList = map ua_id us, ai_imageID = i, ai_type = ''user''\<rparr>),
     s\<lparr>sh_selectedUsers := []\<rparr>)"
  using assms chosen_ids [of "map ua_id us"]
  by (simp add: share_submit_def handleAddAccess_def user_choice_def wire_defs jints_def comp_def)

text \<open>Outside the administrators' page a user changes only their own images: an action of a row's menu
  that sends anything but a check of the link is for an image the user created, or deletes only links
  the user created among those found invalid; and it never calls a function for administrators.\<close>

theorem own_images_only:
  assumes "action_request False userName r a = Some request"
  shows "(case a of
      Check_links \<Rightarrow> request = apiUserCheckImageValid \<lparr>lps_linkPairs = [image_pair r]\<rparr>
    | Delete_invalid ps \<Rightarrow> \<exists>own. set own \<subseteq> set ps \<and> (\<forall>p \<in> set own. ui_username (lp_creator p) = userName) \<and>
        request = apiUserDeleteImageList (map lp_id own)
    | Save_tags ts \<Rightarrow> ui_username (ii_userInfo r) = userName \<and>
        request = apiUserUpdateImageTags \<lparr>ut_id = ii_ID r, ut_tags = map tg_value ts\<rparr>
    | Save_archs as \<Rightarrow> ui_username (ii_userInfo r) = userName \<and> as \<noteq> [] \<and>
        request = apiUserUpdateImageArchs \<lparr>uar_id = ii_ID r, uar_archs = as\<rparr>
    | Rename_image n \<Rightarrow> ui_username (ii_userInfo r) = userName \<and> n \<noteq> [] \<and> n \<noteq> ii_description r \<and>
        request = apiUserChangeImageDescription \<lparr>ud_id = ii_ID r, ud_description = n\<rparr>
    | Delete_image \<Rightarrow> ui_username (ii_userInfo r) = userName \<and> request = apiUserDeleteImageList [ii_ID r]
    | _ \<Rightarrow> False)"
proof (cases a)
  case (Delete_invalid ps)
  with assms show ?thesis
    by (auto simp: action_request_def action_enabled_def delete_images_def own_pairs_def
        intro!: exI [of _ "filter (\<lambda>p. ui_username (lp_creator p) = userName) ps"])
qed (use assms in \<open>auto simp: action_request_def action_enabled_def isDisabled_def delete_images_def
    change_description_def rename_formSchema_def split: if_splits\<close>)

definition demo_image :: ImageInfoResponse where
  "demo_image = \<lparr>ii_ID = 5, ii_imageLink = ''harbor/ml:1'', ii_description = ''ml'', ii_status = '''', ii_createdAt = '''',
     ii_isPublic = False, ii_taskType = JobType_Jupyter, ii_userInfo = \<lparr>ui_username = ''ann'', ui_nickname = ''Ann''\<rparr>,
     ii_tags = [], ii_imageBuildSource = 1, ii_imagepackName = ''ml'', ii_imageShareStatus = ''Private'', ii_archs = []\<rparr>"

theorem own_images_only_witness:
  "action_request False ''ann'' demo_image Delete_image = Some (apiUserDeleteImageList [5]) \<and>
   action_request False ''bob'' demo_image Delete_image = None"
proof -
  obtain q where q: "action_request False ''ann'' demo_image Delete_image = Some q"
    by (simp add: action_request_def action_enabled_def isDisabled_def demo_image_def)
  then have "q = apiUserDeleteImageList [ii_ID demo_image]"
    using own_images_only [OF q] by simp
  with q show ?thesis
    by (simp add: action_request_def action_enabled_def isDisabled_def demo_image_def)
qed

end
