(* ===== verification/Encoding.thy ===== *)
theory Encoding
  imports JsNumber
begin

text \<open>
  Two decoders of the language's library that the logs go through: \<open>atob\<close>, which reads base64 as
  the HTML standard's forgiving decoder does, and \<open>new TextDecoder('utf-8').decode\<close>, with its
  replacement characters and the byte order mark it drops. Their reference definitions are the
  encoders of the side that sends the logs. Bytes and code points are natural numbers.
\<close>

section \<open>Base64\<close>

definition b64_alphabet :: string where
  "b64_alphabet = ''ABCDEFGHIJKLMNOPQRSTUVWXYZabcdefghijklmnopqrstuvwxyz0123456789+/''"

definition b64_char :: "nat \<Rightarrow> char" where
  "b64_char n = b64_alphabet ! n"

definition b64_val :: "char \<Rightarrow> nat option" where
  "b64_val c = (let n = length (takeWhile (\<lambda>d. d \<noteq> c) b64_alphabet) in if n < 64 then Some n else None)"

definition ascii_space :: "char \<Rightarrow> bool" where
  "ascii_space c \<longleftrightarrow> c \<in> {CHR '' '', CHR 0x09, CHR 0x0A, CHR 0x0C, CHR 0x0D}"

text \<open>Up to two padding characters go, if the length is a multiple of four.\<close>

definition strip_padding :: "string \<Rightarrow> string" where
  "strip_padding s =
     (if length s mod 4 \<noteq> 0 then s
      else if ends_with s ''=='' then take (length s - 2) s
      else if ends_with s ''='' then take (length s - 1) s else s)"

fun bytes_of :: "nat list \<Rightarrow> nat list" where
  "bytes_of (a # b # c # d # r) =
     [a * 4 + b div 16, (b mod 16) * 16 + c div 4, (c mod 4) * 64 + d] @ bytes_of r"
| "bytes_of [a, b, c] = [a * 4 + b div 16, (b mod 16) * 16 + c div 4]"
| "bytes_of [a, b] = [a * 4 + b div 16]"
| "bytes_of _ = []"

text \<open>The bytes of the string \<open>atob\<close> returns; \<open>None\<close> is its exception.\<close>

definition atob :: "string \<Rightarrow> nat list option" where
  "atob s =
     (let t = strip_padding (filter (\<lambda>c. \<not> ascii_space c) s) in
      if length t mod 4 = 1 \<or> \<not> list_all (\<lambda>c. b64_val c \<noteq> None) t then None
      else Some (bytes_of (map (\<lambda>c. the (b64_val c)) t)))"

text \<open>The encoder, with padding.\<close>

fun b64_encode :: "nat list \<Rightarrow> string" where
  "b64_encode (x # y # z # r) =
     [b64_char (x div 4), b64_char ((x mod 4) * 16 + y div 16), b64_char ((y mod 16) * 4 + z div 64), b64_char (z mod 64)]
     @ b64_encode r"
| "b64_encode [x, y] = [b64_char (x div 4), b64_char ((x mod 4) * 16 + y div 16), b64_char ((y mod 16) * 4), CHR ''='']"
| "b64_encode [x] = [b64_char (x div 4), b64_char ((x mod 4) * 16), CHR ''='', CHR ''='']"
| "b64_encode [] = []"

text \<open>The six-bit values of the encoding, without the padding.\<close>

fun sextets :: "nat list \<Rightarrow> nat list" where
  "sextets (x # y # z # r) = [x div 4, (x mod 4) * 16 + y div 16, (y mod 16) * 4 + z div 64, z mod 64] @ sextets r"
| "sextets [x, y] = [x div 4, (x mod 4) * 16 + y div 16, (y mod 16) * 4]"
| "sextets [x] = [x div 4, (x mod 4) * 16]"
| "sextets [] = []"

lemma alphabet: "list_all (\<lambda>n. b64_val (b64_char n) = Some n \<and> \<not> ascii_space (b64_char n) \<and> \<not> js_space (b64_char n)
    \<and> b64_char n \<noteq> CHR ''='' \<and> b64_char n \<noteq> CHR 0x0A) [0..<64]"
  by code_simp

lemma b64_val_char [simp]: "n < 64 \<Longrightarrow> b64_val (b64_char n) = Some n"
  and b64_char_plain: "n < 64 \<Longrightarrow> \<not> ascii_space (b64_char n)" "n < 64 \<Longrightarrow> \<not> js_space (b64_char n)"
    "n < 64 \<Longrightarrow> b64_char n \<noteq> CHR ''=''" "n < 64 \<Longrightarrow> b64_char n \<noteq> CHR 0x0A"
  using alphabet by (auto simp: list_all_iff)

lemma sextets_bound: "list_all (\<lambda>b. b < 256) bs \<Longrightarrow> list_all (\<lambda>n. n < 64) (sextets bs)"
  by (induction bs rule: sextets.induct) (auto simp: less_mult_imp_div_less)

lemma bytes_of_sextets: "list_all (\<lambda>b. b < 256) bs \<Longrightarrow> bytes_of (sextets bs) = bs"
proof (induction bs rule: sextets.induct)
  case (1 x y z r)
  then have "y div 16 < 16" "z div 64 < 4" by auto
  then have "((x mod 4) * 16 + y div 16) div 16 = x mod 4" "((x mod 4) * 16 + y div 16) mod 16 = y div 16"
    "((y mod 16) * 4 + z div 64) div 4 = y mod 16" "((y mod 16) * 4 + z div 64) mod 4 = z div 64" by auto
  with 1 show ?case by simp
next
  case (2 x y)
  then have "y div 16 < 16" by auto
  then have "((x mod 4) * 16 + y div 16) div 16 = x mod 4" "((x mod 4) * 16 + y div 16) mod 16 = y div 16" by auto
  then show ?case by simp
qed auto

definition b64_padding :: "nat list \<Rightarrow> string" where
  "b64_padding bs = (if length bs mod 3 = 1 then ''=='' else if length bs mod 3 = 2 then ''='' else [])"

lemma b64_encode_sextets: "b64_encode bs = map b64_char (sextets bs) @ b64_padding bs"
proof (induction bs rule: b64_encode.induct)
  case (1 x y z r)
  have "b64_padding (x # y # z # r) = b64_padding r" by (simp add: b64_padding_def)
  with 1 show ?case by simp
qed (simp_all add: b64_padding_def)

lemma length_sextets: "length (sextets bs) + length (b64_padding bs) = 4 * ((length bs + 2) div 3)"
proof (induction bs rule: sextets.induct)
  case (1 x y z r)
  have "b64_padding (x # y # z # r) = b64_padding r" by (simp add: b64_padding_def)
  moreover have "(length (x # y # z # r) + 2) div 3 = Suc ((length r + 2) div 3)" by simp
  ultimately show ?case using 1 by simp
qed (simp_all add: b64_padding_def)

lemma no_suffix:
  "c \<notin> set xs \<Longrightarrow> \<not> suffix [c] xs" "c \<notin> set xs \<Longrightarrow> \<not> suffix [c, c] xs" "c \<notin> set xs \<Longrightarrow> \<not> suffix [c, c] (xs @ [c])"
proof -
  show "c \<notin> set xs \<Longrightarrow> \<not> suffix [c] xs" "c \<notin> set xs \<Longrightarrow> \<not> suffix [c, c] xs" by (auto simp: suffix_def)
  have "xs = zs @ [c]" if "xs @ [c] = zs @ [c, c]" for zs
    using that by (metis append.assoc append1_eq_conv append_Cons append_Nil)
  then show "c \<notin> set xs \<Longrightarrow> \<not> suffix [c, c] (xs @ [c])" by (auto simp: suffix_def)
qed

lemma strip_padding_once:
  assumes "CHR ''='' \<notin> set t" "length (t @ pad) mod 4 = 0" "pad \<in> {[], ''='', ''==''}"
  shows "strip_padding (t @ pad) = t"
proof -
  have e: "suffix ''=='' (t @ ''=='')" "suffix ''='' (t @ ''='')" by (auto simp: suffix_def)
  from assms(3) consider "pad = []" | "pad = ''=''" | "pad = ''==''" by blast
  then show ?thesis
    using assms(2) e no_suffix [OF assms(1)] by cases (simp_all add: strip_padding_def ends_with_def)
qed

lemma atob_encode: 
  assumes "list_all (\<lambda>b. b < 256) bs"
  shows "atob (b64_encode bs) = Some bs"
proof -
  let ?t = "map b64_char (sextets bs)"
  have b: "list_all (\<lambda>n. n < 64) (sextets bs)" by (rule sextets_bound [OF assms])
  have "\<not> ascii_space (CHR ''='')" by code_simp
  then have "list_all (\<lambda>c. \<not> ascii_space c) (?t @ b64_padding bs)"
    using b by (auto simp: list_all_iff b64_char_plain b64_padding_def)
  then have same: "filter (\<lambda>c. \<not> ascii_space c) (b64_encode bs) = ?t @ b64_padding bs"
    by (simp add: b64_encode_sextets list_all_iff filter_id_conv)
  have len: "length (?t @ b64_padding bs) mod 4 = 0" using length_sextets [of bs] by simp
  have free: "CHR ''='' \<notin> set ?t" using b b64_char_plain(3) by (metis imageE list_all_iff set_map)
  have strip: "strip_padding (?t @ b64_padding bs) = ?t"
    by (rule strip_padding_once [OF free len]) (simp add: b64_padding_def)
  have "length (sextets bs) mod 4 \<noteq> 1"
  proof -
    define x p where "x = length (sextets bs)" and "p = length (b64_padding bs)"
    have "(x mod 4 + p) mod 4 = 0" using length_sextets [of bs] by (simp add: mod_add_left_eq x_def p_def)
    moreover have "p = 0 \<or> p = 1 \<or> p = 2" by (simp add: p_def b64_padding_def)
    moreover have "\<not> 4 dvd (2 :: nat)" "\<not> 4 dvd (3 :: nat)" by presburger+
    ultimately show ?thesis unfolding x_def by (auto simp: numeral_2_eq_2 numeral_3_eq_3)
  qed
  moreover have "list_all (\<lambda>c. b64_val c \<noteq> None) ?t" using b by (auto simp: list_all_iff)
  moreover have "map (\<lambda>c. the (b64_val c)) ?t = sextets bs" using b by (auto simp: list_all_iff intro: map_idI)
  ultimately show ?thesis
    using bytes_of_sextets [OF assms] by (simp add: atob_def same strip Let_def)
qed

section \<open>UTF-8\<close>

text \<open>The state of the decoder: the code point so far, the bytes it still needs, the bounds of the next.\<close>

record utf8_state =
  u8_point :: nat
  u8_needed :: nat
  u8_lower :: nat
  u8_upper :: nat

definition utf8_init :: utf8_state where
  "utf8_init = \<lparr>u8_point = 0, u8_needed = 0, u8_lower = 0x80, u8_upper = 0xBF\<rparr>"

definition utf8_first :: "nat \<Rightarrow> nat list \<times> utf8_state" where
  "utf8_first b =
     (if b \<le> 0x7F then ([b], utf8_init)
      else if 0xC2 \<le> b \<and> b \<le> 0xDF then ([], utf8_init\<lparr>u8_point := b - 0xC0, u8_needed := 1\<rparr>)
      else if 0xE0 \<le> b \<and> b \<le> 0xEF then
        ([], \<lparr>u8_point = b - 0xE0, u8_needed = 2, u8_lower = (if b = 0xE0 then 0xA0 else 0x80),
              u8_upper = (if b = 0xED then 0x9F else 0xBF)\<rparr>)
      else if 0xF0 \<le> b \<and> b \<le> 0xF4 then
        ([], \<lparr>u8_point = b - 0xF0, u8_needed = 3, u8_lower = (if b = 0xF0 then 0x90 else 0x80),
              u8_upper = (if b = 0xF4 then 0x8F else 0xBF)\<rparr>)
      else ([0xFFFD], utf8_init))"

definition utf8_byte :: "utf8_state \<Rightarrow> nat \<Rightarrow> nat list \<times> utf8_state" where
  "utf8_byte st b =
     (if u8_needed st = 0 then utf8_first b
      else if u8_lower st \<le> b \<and> b \<le> u8_upper st then
        (let point = u8_point st * 64 + b mod 64 in
         if u8_needed st = 1 then ([point], utf8_init)
         else ([], \<lparr>u8_point = point, u8_needed = u8_needed st - 1, u8_lower = 0x80, u8_upper = 0xBF\<rparr>))
      else (0xFFFD # fst (utf8_first b), snd (utf8_first b)))"

fun utf8_run :: "utf8_state \<Rightarrow> nat list \<Rightarrow> nat list" where
  "utf8_run st [] = (if u8_needed st = 0 then [] else [0xFFFD])"
| "utf8_run st (b # bs) = fst (utf8_byte st b) @ utf8_run (snd (utf8_byte st b)) bs"

definition utf8_decode :: "nat list \<Rightarrow> nat list" where
  "utf8_decode bs = utf8_run utf8_init (if take 3 bs = [0xEF, 0xBB, 0xBF] then drop 3 bs else bs)"

text \<open>The encoder, on the code points that are not surrogates.\<close>

definition scalar_value :: "nat \<Rightarrow> bool" where
  "scalar_value c \<longleftrightarrow> c < 0xD800 \<or> 0xE000 \<le> c \<and> c \<le> 0x10FFFF"

definition utf8_char :: "nat \<Rightarrow> nat list" where
  "utf8_char c =
     (if c < 0x80 then [c]
      else if c < 0x800 then [0xC0 + c div 64, 0x80 + c mod 64]
      else if c < 0x10000 then [0xE0 + c div 4096, 0x80 + c div 64 mod 64, 0x80 + c mod 64]
      else [0xF0 + c div 262144, 0x80 + c div 4096 mod 64, 0x80 + c div 64 mod 64, 0x80 + c mod 64])"

definition utf8_encode :: "nat list \<Rightarrow> nat list" where
  "utf8_encode cs = concat (map utf8_char cs)"

lemma utf8_char_bound: "scalar_value c \<Longrightarrow> list_all (\<lambda>b. b < 256) (utf8_char c)"
  by (auto simp: utf8_char_def scalar_value_def)

lemma six_bits:
  fixes c :: nat
  obtains e m where "c = e * 64 + m" "m < 64" "c div 64 = e" "c mod 64 = m"
proof
  show "c = c div 64 * 64 + c mod 64" by simp
qed auto

lemma continuation [simp]: "m < 64 \<Longrightarrow> (128 + m) mod 64 = (m :: nat)"
  using mod_mult_self4 [of 64 2 m] by simp

lemma utf8_run_char:
  assumes "scalar_value c"
  shows "utf8_run utf8_init (utf8_char c @ bs) = c # utf8_run utf8_init bs"
proof -
  note defs = utf8_char_def utf8_byte_def utf8_first_def utf8_init_def Let_def
  obtain e m where c: "c = e * 64 + m" "m < 64" "c div 64 = e" "c mod 64 = m" by (rule six_bits)
  obtain f n where e: "e = f * 64 + n" "n < 64" "e div 64 = f" "e mod 64 = n" by (rule six_bits)
  obtain g k where f: "f = g * 64 + k" "k < 64" "f div 64 = g" "f mod 64 = k" by (rule six_bits)
  have high: "c div 4096 = f" "c div 262144 = g"
    using c(3) e(3) f(3) div_mult2_eq [of c 64 64] div_mult2_eq [of c 64 4096] div_mult2_eq [of e 64 64] by simp_all
  consider "c < 0x80" | "0x80 \<le> c" "c < 0x800" | "0x800 \<le> c" "c < 0x10000" | "0x10000 \<le> c" "c \<le> 0x10FFFF"
    using assms by (cases "c < 0x80"; cases "c < 0x800"; cases "c < 0x10000") (auto simp: scalar_value_def)
  then show ?thesis
  proof cases
    case 1
    then show ?thesis by (simp add: defs)
  next
    case 2
    have "utf8_char c = [192 + e, 128 + m]" using 2 c by (simp add: utf8_char_def)
    moreover have "2 \<le> e" "e \<le> 31" using 2 c by linarith+
    ultimately show ?thesis using c by (simp add: defs)
  next
    case 3
    have "utf8_char c = [224 + f, 128 + n, 128 + m]" using 3 c e high by (simp add: utf8_char_def)
    moreover have "f \<le> 15" "f = 0 \<Longrightarrow> 32 \<le> n" using 3 c e by linarith+
    moreover have "f = 13 \<Longrightarrow> n \<le> 31" using assms c e unfolding scalar_value_def by linarith
    ultimately show ?thesis using c e by (simp add: defs)
  next
    case 4
    have "utf8_char c = [240 + g, 128 + k, 128 + n, 128 + m]" using 4 c e f high by (simp add: utf8_char_def)
    moreover have "g \<le> 4" "g = 0 \<Longrightarrow> 16 \<le> k" "g = 4 \<Longrightarrow> k \<le> 15" using 4 c e f by linarith+
    ultimately show ?thesis using c e f by (simp add: defs)
  qed
qed

lemma utf8_run_encode: "list_all scalar_value cs \<Longrightarrow> utf8_run utf8_init (utf8_encode cs) = cs"
  by (induction cs) (simp_all add: utf8_encode_def utf8_run_char, simp add: utf8_init_def)

text \<open>Decoding what was encoded gives it back, except for a byte order mark at its start.\<close>

lemma utf8_decode_encode:
  assumes "list_all scalar_value cs" "cs \<noteq> [] \<Longrightarrow> hd cs \<noteq> 0xFEFF"
  shows "utf8_decode (utf8_encode cs) = cs"
proof -
  have "take 3 (utf8_encode cs) \<noteq> [0xEF, 0xBB, 0xBF]"
  proof
    assume bom: "take 3 (utf8_encode cs) = [0xEF, 0xBB, 0xBF]"
    then obtain c r where cs: "cs = c # r" by (cases cs) (auto simp: utf8_encode_def)
    have "utf8_run utf8_init (utf8_encode cs) = 0xFEFF # utf8_run utf8_init (drop 3 (utf8_encode cs))"
    proof -
      have mark: "utf8_char 0xFEFF = [0xEF, 0xBB, 0xBF]" "scalar_value 0xFEFF"
        by (simp_all add: utf8_char_def scalar_value_def)
      have "utf8_encode cs = utf8_char 0xFEFF @ drop 3 (utf8_encode cs)"
        unfolding mark(1) bom [symmetric] by (rule append_take_drop_id [symmetric])
      from arg_cong [OF this, of "utf8_run utf8_init"] show ?thesis unfolding utf8_run_char [OF mark(2)] .
    qed
    with utf8_run_encode [OF assms(1)] assms(2) cs show False by simp
  qed
  then show ?thesis using utf8_run_encode [OF assms(1)] by (simp add: utf8_decode_def)
qed

lemma utf8_encode_bound: "list_all scalar_value cs \<Longrightarrow> list_all (\<lambda>b. b < 256) (utf8_encode cs)"
  by (induction cs) (simp_all add: utf8_encode_def utf8_char_bound)

end
