(* ===== verification/Logs.thy ===== *)
theory Logs
  imports Encoding ApiCluster Machine
begin

text \<open>
  The logs of a container (\<open>components/codeblock/log-dialog.tsx\<close>): what is asked for and shown, the
  text of a log that is sent as base64, and the live stream of log lines with its controllers.
  Texts of logs are lists of code points. The chunks of a stream are given as the texts the
  streaming decoder returns for them.
\<close>

section \<open>The text of a log\<close>

datatype log_text = Decoded "nat list" | Decode_failed

definition decodeBase64ToUtf8 :: "string \<Rightarrow> log_text" where
  "decodeBase64ToUtf8 base64 = (case atob base64 of None \<Rightarrow> Decode_failed | Some bytes \<Rightarrow> Decoded (utf8_decode bytes))"

text \<open>The text the server encodes.\<close>

definition sent_text :: "nat list \<Rightarrow> string" where
  "sent_text t = b64_encode (utf8_encode t)"

definition plain_text :: "nat list \<Rightarrow> bool" where
  "plain_text t \<longleftrightarrow> list_all scalar_value t \<and> t \<noteq> [] \<and> hd t \<noteq> 0xFEFF"

lemma decode_sent: "plain_text t \<Longrightarrow> decodeBase64ToUtf8 (sent_text t) = Decoded t"
  by (simp add: decodeBase64ToUtf8_def sent_text_def plain_text_def atob_encode utf8_encode_bound utf8_decode_encode)

section \<open>The whole log\<close>

definition DEFAULT_TAIL_LINES :: int where "DEFAULT_TAIL_LINES = 500"

text \<open>The pod, the container and whether the container waits; the view's lines and timestamps.\<close>

record log_target =
  lt_namespace :: string
  lt_pod :: string
  lt_container :: string
  lt_waiting :: bool

record log_view =
  lv_tailLines :: int
  lv_timestamps :: bool
  lv_copied :: bool

definition log_start :: log_view where
  "log_start = \<lparr>lv_tailLines = DEFAULT_TAIL_LINES, lv_timestamps = False, lv_copied = False\<rparr>"

definition log_request :: "log_target \<Rightarrow> log_view \<Rightarrow> http_request option" where
  "log_request t v =
     (if \<not> lt_waiting t \<and> lt_namespace t \<noteq> [] \<and> lt_pod t \<noteq> [] \<and> lt_container t \<noteq> [] \<and> lv_tailLines v \<noteq> 0
      then Some (apiGetPodContainerLog (Some (lt_namespace t)) (Some (lt_pod t)) (Some (lt_container t))
        (Some \<lparr>lq_timestamps = lv_timestamps v, lq_follow = False, lq_previous = False, lq_tailLines = Some (lv_tailLines v)\<rparr>))
      else None)"

text \<open>An empty text counts as none: nothing is copied or downloaded then.\<close>

definition has_text :: "log_text option \<Rightarrow> bool" where
  "has_text x \<longleftrightarrow> (case x of None \<Rightarrow> False | Some Decode_failed \<Rightarrow> True | Some (Decoded t) \<Rightarrow> t \<noteq> [])"

definition copyCode :: "log_text option \<Rightarrow> log_text option" where
  "copyCode logText = (if has_text logText then logText else None)"

definition handleDownload_log :: "log_target \<Rightarrow> log_view \<Rightarrow> log_text option \<Rightarrow> http_request option" where
  "handleDownload_log t v logText =
     (if has_text logText
      then Some (apiGetPodContainerLog (Some (lt_namespace t)) (Some (lt_pod t)) (Some (lt_container t))
        (Some \<lparr>lq_timestamps = lv_timestamps v, lq_follow = False, lq_previous = False, lq_tailLines = None\<rparr>))
      else None)"

definition handleRefresh :: "log_view \<Rightarrow> log_view" where
  "handleRefresh v = \<lparr>lv_tailLines = DEFAULT_TAIL_LINES, lv_timestamps = False, lv_copied = False\<rparr>"

text \<open>More lines are offered while the text has more of them than were asked for.\<close>

definition count_lines :: "log_text \<Rightarrow> nat" where
  "count_lines x = (case x of Decode_failed \<Rightarrow> 1 | Decoded t \<Rightarrow> Suc (count_list t 10))"

definition showMore :: "log_view \<Rightarrow> log_text option \<Rightarrow> bool" where
  "showMore v logText = (case logText of None \<Rightarrow> False | Some x \<Rightarrow> has_text logText \<and> lv_tailLines v < int (count_lines x))"

definition handleShowMore :: "log_view \<Rightarrow> log_view" where
  "handleShowMore v = v\<lparr>lv_tailLines := lv_tailLines v + DEFAULT_TAIL_LINES\<rparr>"

section \<open>The lines of a stream\<close>

definition stream_url :: "string \<Rightarrow> log_target \<Rightarrow> bool \<Rightarrow> string" where
  "stream_url base t timestamps = base @ ''/api/v1/namespaces/'' @ lt_namespace t @ ''/pods/'' @ lt_pod t
     @ ''/containers/'' @ lt_container t @ ''/log/stream?timestamps='' @ (if timestamps then ''true'' else ''false'')"

text \<open>Blank lines are skipped, any other is decoded.\<close>

definition log_lines :: "string list \<Rightarrow> log_text list" where
  "log_lines lines = map (\<lambda>l. decodeBase64ToUtf8 (js_trim l)) (filter (\<lambda>l. js_trim l \<noteq> []) lines)"

text \<open>One chunk: the lines that are complete now, and what is left for the next.\<close>

definition read_chunk :: "string \<Rightarrow> string \<Rightarrow> string \<times> log_text list" where
  "read_chunk buffer chunk =
     (let lines = split_char newline (buffer @ chunk) in (last lines, log_lines (butlast lines)))"

text \<open>The loop until the stream ends: the rest of the buffer is the last line.\<close>

fun stream_lines :: "string \<Rightarrow> string list \<Rightarrow> log_text list" where
  "stream_lines buffer [] = log_lines [buffer]"
| "stream_lines buffer (chunk # chunks) =
     (let (rest, logs) = read_chunk buffer chunk in logs @ stream_lines rest chunks)"

lemma log_lines_append: "log_lines (xs @ ys) = log_lines xs @ log_lines ys"
  by (simp add: log_lines_def)

lemma stream_whole:
  "newline \<notin> set buffer \<Longrightarrow> stream_lines buffer chunks = log_lines (split_char newline (buffer @ concat chunks))"
proof (induction chunks arbitrary: buffer)
  case (Cons chunk chunks)
  let ?lines = "split_char newline (buffer @ chunk)"
  have "newline \<notin> set (last ?lines)" by (rule split_char_parts [OF last_in_set]) simp
  with Cons.IH show ?case
    using split_char_cut [of newline "buffer @ chunk" "concat chunks"]
    by (simp add: read_chunk_def Let_def log_lines_append)
qed simp

lemma js_trim_plain: "list_all (\<lambda>c. \<not> js_space c) s \<Longrightarrow> js_trim s = s"
proof -
  have keep: "list_all (\<lambda>c. \<not> js_space c) t \<Longrightarrow> dropWhile js_space t = t" for t by (cases t) simp_all
  assume s: "list_all (\<lambda>c. \<not> js_space c) s"
  then have "list_all (\<lambda>c. \<not> js_space c) (rev s)" by (simp add: list_all_iff)
  then show "js_trim s = s" using keep [OF s] keep [of "rev s"] by (simp add: js_trim_def trim_start_def)
qed

lemma sent_text_chars:
  assumes "plain_text t"
  shows "list_all (\<lambda>c. \<not> js_space c) (sent_text t)" "newline \<notin> set (sent_text t)" "sent_text t \<noteq> []"
proof -
  have b: "list_all (\<lambda>n. n < 64) (sextets (utf8_encode t))"
    using assms by (intro sextets_bound utf8_encode_bound) (simp add: plain_text_def)
  have pad: "\<not> js_space (CHR ''='')" "newline \<noteq> CHR ''=''" by code_simp+
  show "list_all (\<lambda>c. \<not> js_space c) (sent_text t)"
    using b pad by (auto simp: sent_text_def b64_encode_sextets list_all_iff b64_char_plain b64_padding_def)
  have "newline \<notin> b64_char ` set (sextets (utf8_encode t))"
    using b b64_char_plain(4) unfolding newline_def by (metis imageE list_all_iff)
  then show "newline \<notin> set (sent_text t)"
    using pad(2) by (auto simp: sent_text_def b64_encode_sextets b64_padding_def)
  have "utf8_encode t \<noteq> []" using assms by (cases t) (auto simp: plain_text_def utf8_encode_def utf8_char_def)
  then show "sent_text t \<noteq> []" unfolding sent_text_def by (cases "utf8_encode t" rule: b64_encode.cases) auto
qed

section \<open>Starting and stopping the stream\<close>

text \<open>
  Each start makes a connection with a controller of its own: it is being made, it is being read, or
  it is over; and its controller was aborted or not. The card holds one controller at most. An
  aborted connection ends by itself, since its read fails.
\<close>

datatype stream_phase = Connecting | Reading | Ended

record log_stream =
  ls_phase :: stream_phase
  ls_aborted :: bool

record log_card =
  lc_streams :: "log_stream list"
  lc_current :: "nat option"
  lc_streaming :: bool
  lc_paused :: bool
  lc_logs :: "log_text list"

definition card_start :: log_card where
  "card_start = \<lparr>lc_streams = [], lc_current = None, lc_streaming = False, lc_paused = False, lc_logs = []\<rparr>"

definition abort_stream :: "nat \<Rightarrow> log_stream list \<Rightarrow> log_stream list" where
  "abort_stream i ss = ss[i := (ss ! i)\<lparr>ls_aborted := True\<rparr>]"

definition stopStreaming :: "log_card \<Rightarrow> log_card" where
  "stopStreaming c =
     c\<lparr>lc_streams := (case lc_current c of None \<Rightarrow> lc_streams c | Some i \<Rightarrow> abort_stream i (lc_streams c)),
       lc_current := None, lc_streaming := False, lc_logs := [], lc_paused := False\<rparr>"

definition startStreaming :: "log_card \<Rightarrow> log_card" where
  "startStreaming c =
     (let c = (if lc_current c = None then c else stopStreaming c) in
      c\<lparr>lc_streams := lc_streams c @ [\<lparr>ls_phase = Connecting, ls_aborted = False\<rparr>],
        lc_current := Some (length (lc_streams c))\<rparr>)"

definition press_stream :: "log_card \<Rightarrow> log_card" where
  "press_stream c = (if lc_streaming c then stopStreaming c else startStreaming c)"

text \<open>\<open>finally\<close>: whichever connection ends, the card forgets its controller.\<close>

definition end_stream :: "nat \<Rightarrow> log_text list \<Rightarrow> log_card \<Rightarrow> log_card" where
  "end_stream i rest c = c\<lparr>lc_streams := (lc_streams c)[i := (lc_streams c ! i)\<lparr>ls_phase := Ended\<rparr>],
     lc_logs := lc_logs c @ rest, lc_streaming := False, lc_current := None\<rparr>"

definition open_stream :: "nat \<Rightarrow> log_card \<Rightarrow> log_card" where
  "open_stream i c = c\<lparr>lc_streams := (lc_streams c)[i := (lc_streams c ! i)\<lparr>ls_phase := Reading\<rparr>], lc_streaming := True\<rparr>"

datatype stream_event =
    Press_stream
  | Toggle_pause
  | Stream_open nat
  | Stream_chunk nat "log_text list"
  | Stream_end nat "log_text list"
  | Streaming_effect
  | Close_card

definition in_phase :: "log_card \<Rightarrow> nat \<Rightarrow> stream_phase \<Rightarrow> bool" where
  "in_phase c i p \<longleftrightarrow> i < length (lc_streams c) \<and> ls_phase (lc_streams c ! i) = p"

definition aborted :: "log_card \<Rightarrow> nat \<Rightarrow> bool" where
  "aborted c i \<longleftrightarrow> ls_aborted (lc_streams c ! i)"

inductive stream_step :: "log_card \<Rightarrow> stream_event \<Rightarrow> log_card \<Rightarrow> bool" where
  st_press: "stream_step c Press_stream (press_stream c)"
| st_pause: "lc_streaming c \<Longrightarrow> stream_step c Toggle_pause (c\<lparr>lc_paused := \<not> lc_paused c\<rparr>)"
| st_open: "in_phase c i Connecting \<Longrightarrow> \<not> aborted c i \<Longrightarrow> stream_step c (Stream_open i) (open_stream i c)"
| st_chunk: "in_phase c i Reading \<Longrightarrow> \<not> aborted c i \<Longrightarrow>
    stream_step c (Stream_chunk i ls) (c\<lparr>lc_logs := lc_logs c @ ls\<rparr>)"
| st_end: "in_phase c i Connecting \<or> in_phase c i Reading \<Longrightarrow> stream_step c (Stream_end i ls) (end_stream i ls c)"
| st_effect: "lc_streaming c \<Longrightarrow> stream_step c Streaming_effect (c\<lparr>lc_logs := []\<rparr>)"
| st_close: "stream_step c Close_card (stopStreaming c)"

inductive_cases stream_stepE: "stream_step c e c'"

text \<open>Runs in which the button is not pressed while a connection is being made or is ending.\<close>

definition calm_step :: "log_card \<Rightarrow> stream_event \<Rightarrow> log_card \<Rightarrow> bool" where
  "calm_step c e c' \<longleftrightarrow> stream_step c e c' \<and>
     (e = Press_stream \<longrightarrow> lc_streaming c \<or> list_all (\<lambda>s. ls_phase s = Ended) (lc_streams c))"

text \<open>Only the last connection is not over, and unless it was aborted the card holds its controller.\<close>

definition card_inv :: "log_card \<Rightarrow> bool" where
  "card_inv c \<longleftrightarrow> (\<forall>i < length (lc_streams c). ls_phase (lc_streams c ! i) \<noteq> Ended \<longrightarrow>
     Suc i = length (lc_streams c) \<and> (ls_aborted (lc_streams c ! i) \<or> lc_current c = Some i)) \<and>
     (\<forall>i. lc_current c = Some i \<longrightarrow> i < length (lc_streams c))"

lemma card_inv_stop: "card_inv c \<Longrightarrow> card_inv (stopStreaming c)"
  by (auto simp: card_inv_def stopStreaming_def abort_stream_def nth_list_update split: option.splits)

lemma card_inv_start:
  assumes "list_all (\<lambda>s. ls_phase s = Ended) (lc_streams c)"
  shows "card_inv (startStreaming c)"
proof -
  have "list_all (\<lambda>s. ls_phase s = Ended) (abort_stream i (lc_streams c))" for i
    using assms by (cases "i < length (lc_streams c)")
      (auto simp: abort_stream_def list_all_length nth_list_update list_update_beyond)
  then have "list_all (\<lambda>s. ls_phase s = Ended) (lc_streams (stopStreaming c))"
    using assms by (simp add: stopStreaming_def split: option.split)
  then have "list_all (\<lambda>s. ls_phase s = Ended) (lc_streams (if lc_current c = None then c else stopStreaming c))"
    using assms by simp
  then show ?thesis
    by (auto simp: card_inv_def startStreaming_def Let_def list_all_length nth_append less_Suc_eq)
qed

lemma calm_step_inv: "calm_step c e c' \<Longrightarrow> card_inv c \<Longrightarrow> card_inv c'"
  unfolding calm_step_def
proof (elim conjE stream_stepE)
  assume "card_inv c" "e = Press_stream" "c' = press_stream c"
    "e = Press_stream \<longrightarrow> lc_streaming c \<or> list_all (\<lambda>s. ls_phase s = Ended) (lc_streams c)"
  then show "card_inv c'" by (auto simp: press_stream_def card_inv_stop card_inv_start)
next
  fix i ls
  assume c: "card_inv c" "in_phase c i Connecting \<or> in_phase c i Reading" "c' = end_stream i ls c"
  then have "Suc i = length (lc_streams c)" by (auto simp: card_inv_def in_phase_def)
  moreover have "Suc j = length (lc_streams c)"
    if "j < length (lc_streams c)" "ls_phase (lc_streams c ! j) \<noteq> Ended" for j
    using c(1) that by (simp add: card_inv_def)
  ultimately show "card_inv c'" using c(3) by (fastforce simp: card_inv_def end_stream_def nth_list_update)
next
  fix i
  assume "card_inv c" "in_phase c i Connecting" "c' = open_stream i c"
  then show "card_inv c'" by (auto simp: card_inv_def open_stream_def in_phase_def nth_list_update split: if_splits)
next
  assume "card_inv c" "c' = stopStreaming c"
  then show "card_inv c'" by (simp add: card_inv_stop)
qed (auto simp: card_inv_def)

interpretation log_card: machine calm_step "\<lambda>c. c = card_start" card_inv
proof
  show "c = card_start \<Longrightarrow> card_inv c" for c by (simp add: card_start_def card_inv_def)
  show "card_inv c \<Longrightarrow> calm_step c e c' \<Longrightarrow> card_inv c'" for c e c' by (rule calm_step_inv)
qed

section \<open>Properties\<close>





text \<open>
  The button pressed again while the first connection is being made: the first ends by its abort, and
  its \<open>finally\<close> takes the controller of the second. The second then goes on after it is stopped, its
  lines are still added.
\<close>

definition double_press :: log_card where
  "double_press = press_stream (open_stream 1 (end_stream 0 [] (press_stream (press_stream card_start))))"

lemma stream_left_open:
  "stream_step card_start Press_stream (press_stream card_start)"
  "stream_step (press_stream card_start) Press_stream (press_stream (press_stream card_start))"
  "stream_step (press_stream (press_stream card_start)) (Stream_end 0 []) (end_stream 0 [] (press_stream (press_stream card_start)))"
  "stream_step (end_stream 0 [] (press_stream (press_stream card_start))) (Stream_open 1)
     (open_stream 1 (end_stream 0 [] (press_stream (press_stream card_start))))"
  "stream_step (open_stream 1 (end_stream 0 [] (press_stream (press_stream card_start)))) Press_stream double_press"
  "\<not> lc_streaming double_press \<and> stream_step double_press (Stream_chunk 1 ls) (double_press\<lparr>lc_logs := ls\<rparr>)"
proof -
  note defs = double_press_def press_stream_def open_stream_def end_stream_def startStreaming_def stopStreaming_def
    abort_stream_def card_start_def in_phase_def aborted_def
  show "stream_step card_start Press_stream (press_stream card_start)"
    "stream_step (press_stream card_start) Press_stream (press_stream (press_stream card_start))"
    "stream_step (open_stream 1 (end_stream 0 [] (press_stream (press_stream card_start)))) Press_stream double_press"
    unfolding double_press_def by (rule st_press)+
  show "stream_step (press_stream (press_stream card_start)) (Stream_end 0 [])
      (end_stream 0 [] (press_stream (press_stream card_start)))"
    by (rule st_end) (simp add: defs)
  show "stream_step (end_stream 0 [] (press_stream (press_stream card_start))) (Stream_open 1)
     (open_stream 1 (end_stream 0 [] (press_stream (press_stream card_start))))"
    by (rule st_open) (simp_all add: defs)
  have "stream_step double_press (Stream_chunk 1 ls) (double_press\<lparr>lc_logs := lc_logs double_press @ ls\<rparr>)"
    by (rule st_chunk) (simp_all add: defs)
  then show "\<not> lc_streaming double_press \<and> stream_step double_press (Stream_chunk 1 ls) (double_press\<lparr>lc_logs := ls\<rparr>)"
    by (simp add: defs)
qed

end
