(* ===== verification/JobPages.thy ===== *)
theory JobPages
  imports Templates
begin

text \<open>
  The pages around the job forms (\<open>routes/portal/jobs/new\<close>): the values a blank form starts with, what
  its submit handler checks beyond the schema, what follows a created job, and the import button
  (\<open>components/form/form-import-button.tsx\<close>). Also the fields for forwarded ports
  (\<open>components/form/forward-form-field.tsx\<close>).
\<close>

section \<open>Blank forms\<close>

text \<open>A home directory of nobody is that of \<open>undefined\<close>.\<close>

definition home_of :: "string option \<Rightarrow> string" where
  "home_of user = ''/home/'' @ (case user of None \<Rightarrow> ''undefined'' | Some n \<Rightarrow> n)"

definition home_mounts :: "string option \<Rightarrow> mount_form list" where
  "home_mounts user = [\<lparr>mt_type = VolumeMountType_val FileType, mt_subPath = ''user'', mt_datasetID = None,
     mt_mountPath = home_of user\<rparr>]"

definition blank_image :: IImageBaseInfo where
  "blank_image = \<lparr>ib_imageLink = [], ib_archs = []\<rparr>"

definition no_node :: selector_form where
  "no_node = \<lparr>sf_enable = False, sf_nodeName = None\<rparr>"

definition blank_job :: "string option \<Rightarrow> string option \<Rightarrow> job_form" where
  "blank_job shell user =
     \<lparr>jf_jobName = [],
       jf_task = \<lparr>tf'_taskName = ''training'', tf'_replicas = 1, tf'_resource = defaultResource,
         tf'_image = blank_image, tf'_shell = shell, tf'_command = Some [], tf'_workingDir = Some (home_of user),
         tf'_ports = []\<rparr>,
       jf_envs = [], jf_volumeMounts = home_mounts user, jf_nodeSelector = no_node, jf_alertEnabled = True,
       jf_forwards = []\<rparr>"

definition single_defaults :: "string option \<Rightarrow> job_form" where
  "single_defaults = blank_job (Some ''/crater-start.sh'')"

definition jupyter_defaults :: "string option \<Rightarrow> job_form" where
  "jupyter_defaults = blank_job (Some [])"

definition emias_jupyter_defaults :: "string option \<Rightarrow> job_form" where
  "emias_jupyter_defaults = blank_job (Some [])"

text \<open>
  The form for jobs with a priority, which is not chosen at first.
\<close>

record emias_form =
  em_job :: job_form
  em_priority :: "string option"

definition emias_defaults :: "string option \<Rightarrow> emias_form" where
  "emias_defaults user = \<lparr>em_job = blank_job None user, em_priority = None\<rparr>"

definition emias_formSchema :: "emias_form \<Rightarrow> bool" where
  "emias_formSchema v \<longleftrightarrow> job_formSchema (em_job v) \<and>
     (case em_priority v of None \<Rightarrow> False | Some p \<Rightarrow> p = ''low'' \<or> p = ''high'')"

text \<open>
  The fields of a distributed job; the forwarded ports may be missing in the form, which the schema
  refuses.
\<close>

record pair_input =
  pi_form :: pair_form
  pi_forwards :: "Forward list option"

definition pair_values :: "pair_input \<Rightarrow> pair_form option" where
  "pair_values i = (case pi_forwards i of
     None \<Rightarrow> None
   | Some fs \<Rightarrow> (let v = (pi_form i)\<lparr>pr_forwards := fs\<rparr> in if pair_formSchema v then Some v else None))"

definition blank_task :: "string \<Rightarrow> task_form" where
  "blank_task name = \<lparr>tf'_taskName = name, tf'_replicas = 1, tf'_resource = defaultResource, tf'_image = blank_image,
     tf'_shell = None, tf'_command = None, tf'_workingDir = None, tf'_ports = []\<rparr>"

definition blank_pair :: "string \<Rightarrow> string option \<Rightarrow> pair_form" where
  "blank_pair ps user = \<lparr>pr_jobName = [], pr_ps = blank_task ps, pr_worker = blank_task ''worker'', pr_envs = [],
     pr_volumeMounts = home_mounts user, pr_alertEnabled = True, pr_nodeSelector = no_node, pr_forwards = []\<rparr>"

definition tensorflow_defaults :: "string option \<Rightarrow> pair_input" where
  "tensorflow_defaults user = \<lparr>pi_form = blank_pair ''ps'' user, pi_forwards = Some []\<rparr>"

definition pytorch_defaults :: "string option \<Rightarrow> pair_input" where
  "pytorch_defaults user = \<lparr>pi_form = blank_pair ''master'' user, pi_forwards = None\<rparr>"

section \<open>Submitting\<close>

text \<open>
  What pressing the button leads to: the schema refuses, a request is pending already, the handler sets
  errors on fields, or the request is made.
\<close>

datatype submit_result =
    Schema_refused
  | Already_pending
  | Field_errors "string list"
  | Submitted "form_error + http_request"

definition single_onSubmit :: "string \<Rightarrow> bool \<Rightarrow> job_form \<Rightarrow> submit_result" where
  "single_onSubmit u isPending v =
     (if \<not> job_formSchema v then Schema_refused
      else if isPending then Already_pending
      else Submitted (create_single u v))"

text \<open>An interactive job with GPUs needs more than the default CPU or memory.\<close>

definition jupyter_onSubmit :: "string \<Rightarrow> bool \<Rightarrow> job_form \<Rightarrow> submit_result" where
  "jupyter_onSubmit u isPending v =
     (if \<not> job_formSchema v then Schema_refused
      else if isPending then Already_pending
      else let r = tf'_resource (jf_task v) in
        if 0 < gf_count (rf_gpu r) \<and> rf_cpu r \<le> 2 \<and> rf_memory r \<le> 4
        then Field_errors [''task.resource.gpu.model'', ''task.resource.cpu'', ''task.resource.memory'']
        else Submitted (create_jupyter u v))"

definition emias_jupyter_onSubmit :: "string \<Rightarrow> bool \<Rightarrow> job_form \<Rightarrow> submit_result" where
  "emias_jupyter_onSubmit u isPending v =
     (if \<not> job_formSchema v then Schema_refused
      else if isPending then Already_pending
      else Submitted (create_emias_jupyter u v))"

text \<open>The network is on or off in both tasks, and of one model.\<close>

definition networks_differ :: "pair_form \<Rightarrow> bool" where
  "networks_differ v \<longleftrightarrow>
     (case (rf_network (tf'_resource (pr_ps v)), rf_network (tf'_resource (pr_worker v))) of
        (Some p, Some w) \<Rightarrow> nf_enabled p \<noteq> nf_enabled w \<or> nf_enabled p \<and> nf_model p \<noteq> nf_model w
      | _ \<Rightarrow> False)"

definition pair_onSubmit :: "(pair_form \<Rightarrow> form_error + http_request) \<Rightarrow> bool \<Rightarrow> pair_input \<Rightarrow> submit_result" where
  "pair_onSubmit create isPending i =
     (case pair_values i of
        None \<Rightarrow> Schema_refused
      | Some v \<Rightarrow>
          if isPending then Already_pending
          else if networks_differ v
          then Field_errors [''ps.resource.network.model'', ''worker.resource.network.model'']
          else Submitted (create v))"

definition tensorflow_onSubmit :: "string \<Rightarrow> bool \<Rightarrow> pair_input \<Rightarrow> submit_result" where
  "tensorflow_onSubmit u = pair_onSubmit (create_tensorflow u)"

definition pytorch_onSubmit :: "string \<Rightarrow> bool \<Rightarrow> pair_input \<Rightarrow> submit_result" where
  "pytorch_onSubmit u = pair_onSubmit (create_pytorch u)"

text \<open>
  A job with a priority is a custom job whose request has the service level as a further property,
  after the name; its configuration is stored with the version and type of custom jobs.
\<close>

definition json_emias :: "emias_form \<Rightarrow> json" where
  "json_emias v = (let j = em_job v in JObj ([(''jobName'', JStr (jf_jobName j)), (''task'', json_task (jf_task j))]
     @ opt_field ''priority'' JStr (em_priority v)
     @ [(''envs'', JArr (map json_Env (jf_envs j))), (''volumeMounts'', JArr (map json_mount (jf_volumeMounts j))),
        (''nodeSelector'', json_selector (jf_nodeSelector j)), (''forwards'', JArr (map json_Forward (jf_forwards j))),
        (''alertEnabled'', JBool (jf_alertEnabled j))]))"

definition slo_of :: "emias_form \<Rightarrow> int" where
  "slo_of v = (if em_priority v = Some ''high'' then 1 else 0)"

definition emias_payload :: "emias_form \<Rightarrow> form_error + ITrainingCreate" where
  "emias_payload v =
     bindE (single_payload (em_job v)) (\<lambda>p.
       Inr (p\<lparr>jc_template := exportToJsonString MetadataFormCustom (json_emias v), tc_shell := None\<rparr>))"

definition create_emias :: "string \<Rightarrow> emias_form \<Rightarrow> form_error + http_request" where
  "create_emias u v = bindE (emias_payload v) (\<lambda>p.
     Inr (apiV1Post (u @ ''/training'') (Some (JObj
       (case fields_ITrainingCreate p of
          [] \<Rightarrow> [(''slo'', jint (slo_of v))]
        | name # rest \<Rightarrow> name # (''slo'', jint (slo_of v)) # rest)))))"

definition emias_onSubmit :: "string \<Rightarrow> bool \<Rightarrow> emias_form \<Rightarrow> submit_result" where
  "emias_onSubmit u isPending v =
     (if \<not> emias_formSchema v then Schema_refused
      else if isPending then Already_pending
      else Submitted (create_emias u v))"

definition EMIAS_METADATA :: MetadataFormType where
  "EMIAS_METADATA = \<lparr>md_version = ''20240528'', md_type = ''single''\<rparr>"

section \<open>After a job is created\<close>

text \<open>The queries that are loaded again, the name in the toast, and where the visitor is taken.\<close>

datatype destination = Go string | Go_back

record created =
  cr_invalidated :: "string list list"
  cr_name :: string
  cr_to :: destination

definition job_queries :: "string list list" where
  "job_queries = [[''job''], [''context'', ''quota''], [''aitask'', ''stats'']]"

definition single_created :: "string \<Rightarrow> created" where
  "single_created name = \<lparr>cr_invalidated = job_queries, cr_name = name, cr_to = Go ''/portal/jobs/custom''\<rparr>"

definition jupyter_created :: "string \<Rightarrow> created" where
  "jupyter_created name = \<lparr>cr_invalidated = [[''job'']], cr_name = name, cr_to = Go ''/portal/jobs/inter''\<rparr>"

definition tensorflow_created :: "string \<Rightarrow> created" where
  "tensorflow_created name = \<lparr>cr_invalidated = job_queries, cr_name = name, cr_to = Go_back\<rparr>"

definition pytorch_created :: "string \<Rightarrow> created" where
  "pytorch_created name = \<lparr>cr_invalidated = job_queries, cr_name = name, cr_to = Go_back\<rparr>"

definition emias_created :: "string \<Rightarrow> created" where
  "emias_created name = \<lparr>cr_invalidated = job_queries, cr_name = name, cr_to = Go_back\<rparr>"

definition emias_jupyter_created :: "string \<Rightarrow> created" where
  "emias_jupyter_created name = \<lparr>cr_invalidated = job_queries, cr_name = name, cr_to = Go_back\<rparr>"

section \<open>Importing a file\<close>

text \<open>\<open>data.envs.length > 0\<close>: of \<open>undefined\<close> or \<open>null\<close> it throws.\<close>

definition length_positive :: "json option \<Rightarrow> form_error + bool" where
  "length_positive v = (case v of
     None \<Rightarrow> Inl Type_error
   | Some JNull \<Rightarrow> Inl Type_error
   | Some (JArr xs) \<Rightarrow> Inr (xs \<noteq> [])
   | Some (JStr s) \<Rightarrow> Inr (s \<noteq> [])
   | Some (JObj ms) \<Rightarrow> Inr (num_less (Fin 0) (to_number (map_of ms ''length'')))
   | Some _ \<Rightarrow> Inr False)"

text \<open>The two cards of the page that can be folded.\<close>

record cards =
  cd_envOpen :: bool
  cd_otherOpen :: bool

definition single_cards :: cards where
  "single_cards = \<lparr>cd_envOpen = False, cd_otherOpen = True\<rparr>"
definition jupyter_cards :: cards where
  "jupyter_cards = \<lparr>cd_envOpen = False, cd_otherOpen = True\<rparr>"
definition tensorflow_cards :: cards where
  "tensorflow_cards = \<lparr>cd_envOpen = False, cd_otherOpen = False\<rparr>"
definition pytorch_cards :: cards where
  "pytorch_cards = \<lparr>cd_envOpen = False, cd_otherOpen = True\<rparr>"
definition emias_cards :: cards where
  "emias_cards = \<lparr>cd_envOpen = False, cd_otherOpen = False\<rparr>"
definition emias_jupyter_cards :: cards where
  "emias_jupyter_cards = \<lparr>cd_envOpen = False, cd_otherOpen = False\<rparr>"

text \<open>\<open>afterImport\<close>, with the error it may end by.\<close>

definition after_import :: "json option \<Rightarrow> cards \<Rightarrow> cards \<times> form_error option" where
  "after_import data c =
     (case bindE (get_prop data ''envs'') length_positive of
        Inl e \<Rightarrow> (c, Some e)
      | Inr env \<Rightarrow>
          (let c = (if env then c\<lparr>cd_envOpen := True\<rparr> else c) in
           case bindE (get_prop data ''nodeSelector'') (\<lambda>s. get_prop s ''enable'') of
             Inl e \<Rightarrow> (c, Some e)
           | Inr b \<Rightarrow> (if truthy b then c\<lparr>cd_otherOpen := True\<rparr> else c, None)))"

text \<open>The import button: the value the form is reset to, the cards, and the error that is shown.\<close>

record import_result =
  ir_reset :: "json option option"
  ir_cards :: cards
  ir_error :: "form_error option"

definition import_button ::
  "MetadataFormType \<Rightarrow> (json option \<Rightarrow> form_error + json option) \<Rightarrow> string option \<Rightarrow> cards \<Rightarrow> import_result" where
  "import_button metadata dataProcessor file c =
     (case bindE (importFromJsonFile (md_version metadata) (md_type metadata) file) dataProcessor of
        Inl e \<Rightarrow> \<lparr>ir_reset = None, ir_cards = c, ir_error = Some e\<rparr>
      | Inr data \<Rightarrow> (let (c', e) = after_import data c in \<lparr>ir_reset = Some data, ir_cards = c', ir_error = e\<rparr>))"

text \<open>
  \<open>fetchJobTemplate\<close> of the interactive jobs with a priority: it reads properties of an older format.
  \<open>||\<close> takes the second value when the first one counts as false.
\<close>

definition or_else :: "json option \<Rightarrow> json \<Rightarrow> json" where
  "or_else v d = (if truthy v then the v else d)"

definition loaded_image :: "json option \<Rightarrow> json" where
  "loaded_image v = (case v of
     Some (JStr s) \<Rightarrow> JObj [(''imageLink'', JStr s), (''archs'', JArr [])]
   | _ \<Rightarrow> or_else v (JObj [(''imageLink'', JStr []), (''archs'', JArr [])]))"

definition emias_jupyter_data :: "json option \<Rightarrow> form_error + json" where
  "emias_jupyter_data data =
     bindE (get_prop data ''taskname'') (\<lambda>_.
       let p = (\<lambda>k. case get_prop data k of Inl _ \<Rightarrow> None | Inr v \<Rightarrow> v) in
       Inr (JObj (opt_field ''jobName'' id (p ''taskname'')
         @ [(''task'', JObj [(''resource'', JObj (opt_field ''cpu'' id (p ''cpu'') @ opt_field ''memory'' id (p ''memory'')
                @ opt_field ''gpu'' id (p ''gpu''))), (''image'', loaded_image (p ''image''))]),
            (''envs'', or_else (p ''envs'') (JArr [])), (''volumeMounts'', or_else (p ''volumeMounts'') (JArr [])),
            (''nodeSelector'', or_else (p ''nodeSelector'') (JObj [(''enable'', JBool False)])),
            (''alertEnabled'', (case p ''alertEnabled'' of None \<Rightarrow> JBool True | Some v \<Rightarrow> v)),
            (''forwards'', or_else (p ''forwards'') (JArr []))])))"

definition emias_jupyter_load :: "string \<Rightarrow> cards \<Rightarrow> import_result" where
  "emias_jupyter_load text c =
     (case json_parse text of
        None \<Rightarrow> \<lparr>ir_reset = None, ir_cards = c, ir_error = Some Syntax_error\<rparr>
      | Some jobInfo \<Rightarrow>
          (case bindE (get_prop (Some jobInfo) ''data'') emias_jupyter_data of
             Inl e \<Rightarrow> \<lparr>ir_reset = None, ir_cards = c, ir_error = Some e\<rparr>
           | Inr data \<Rightarrow> (let (c', e) = after_import (Some data) c in
               \<lparr>ir_reset = Some (Some data), ir_cards = c', ir_error = e\<rparr>)))"

section \<open>Cards after a template\<close>

text \<open>
  The conditions under which loading a job or a template opens the cards (state 0: the variables,
  state 1: the other options); the two differ in what they do with the notifications.
\<close>

definition prop_of :: "json option \<Rightarrow> string \<Rightarrow> json option" where
  "prop_of v k = (case get_prop v k of Inl _ \<Rightarrow> None | Inr x \<Rightarrow> x)"

definition env_condition :: "json option \<Rightarrow> bool" where
  "env_condition data = (case length_positive (prop_of data ''envs'') of Inl _ \<Rightarrow> False | Inr b \<Rightarrow> b)"

definition selects_node :: "json option \<Rightarrow> bool" where
  "selects_node data = truthy (prop_of (prop_of data ''nodeSelector'') ''enable'')"

definition job_updaters :: "updater list" where
  "job_updaters =
     [\<lparr>up_condition = env_condition, up_setter = 0, up_value = True\<rparr>,
      \<lparr>up_condition = (\<lambda>d. selects_node d \<or> truthy (prop_of d ''alertEnabled'')), up_setter = 1, up_value = True\<rparr>]"

definition emias_updaters :: "updater list" where
  "emias_updaters =
     [\<lparr>up_condition = env_condition, up_setter = 0, up_value = True\<rparr>,
      \<lparr>up_condition = (\<lambda>d. selects_node d \<or> \<not> truthy (prop_of d ''alertEnabled'')), up_setter = 1, up_value = True\<rparr>]"

definition emias_jupyter_updaters :: "updater list" where
  "emias_jupyter_updaters =
     [\<lparr>up_condition = env_condition, up_setter = 0, up_value = True\<rparr>,
      \<lparr>up_condition = (\<lambda>d. selects_node d \<or> prop_of d ''alertEnabled'' = Some (JBool False)), up_setter = 1, up_value = True\<rparr>]"

section \<open>Forwarded ports\<close>

record forward_row =
  fr_name :: string
  fr_port :: "int option"

definition parse_int10 :: "string \<Rightarrow> int option" where
  "parse_int10 s =
     (let (sg, r) = parse_sign (trim_start s); ds = takeWhile is_digit r
      in if ds = [] then None else Some (\<lfloor>sg\<rfloor> * int (digits_val ds)))"

definition forwardAppend :: "forward_row list \<Rightarrow> forward_row list" where
  "forwardAppend rows = rows @ [\<lparr>fr_name = [], fr_port = None\<rparr>]"

definition forwardRemove :: "nat \<Rightarrow> forward_row list \<Rightarrow> forward_row list" where
  "forwardRemove i rows = take i rows @ drop (Suc i) rows"

text \<open>What is typed into the port: blank is no port, what is no number changes nothing.\<close>

definition port_change :: "string \<Rightarrow> forward_row \<Rightarrow> forward_row" where
  "port_change value r =
     (if value = [] then r\<lparr>fr_port := None\<rparr>
      else case parse_int10 value of None \<Rightarrow> r | Some p \<Rightarrow> r\<lparr>fr_port := Some p\<rparr>)"

text \<open>The ports as the schema sees them: \<open>null\<close> is refused.\<close>

definition forward_values :: "forward_row list \<Rightarrow> Forward list option" where
  "forward_values rows =
     (if list_all (\<lambda>r. fr_port r \<noteq> None) rows
      then let fs = map (\<lambda>r. \<lparr>fw_name = fr_name r, fw_port = the (fr_port r)\<rparr>) rows
           in if forwardsSchema fs then Some fs else None
      else None)"

section \<open>What is sent\<close>

text \<open>The inputs of a page for distributed jobs: no input of these pages sets the forwarded ports.\<close>

datatype pair_edit =
    Set_pair_name string
  | Set_ps task_form
  | Set_worker task_form
  | Set_pair_envs "Env list"
  | Set_pair_mounts "mount_form list"
  | Set_pair_alert bool
  | Set_pair_node selector_form

fun edit_pair :: "pair_edit \<Rightarrow> pair_form \<Rightarrow> pair_form" where
  "edit_pair (Set_pair_name s) v = v\<lparr>pr_jobName := s\<rparr>"
| "edit_pair (Set_ps t) v = v\<lparr>pr_ps := t\<rparr>"
| "edit_pair (Set_worker t) v = v\<lparr>pr_worker := t\<rparr>"
| "edit_pair (Set_pair_envs es) v = v\<lparr>pr_envs := es\<rparr>"
| "edit_pair (Set_pair_mounts ms) v = v\<lparr>pr_volumeMounts := ms\<rparr>"
| "edit_pair (Set_pair_alert b) v = v\<lparr>pr_alertEnabled := b\<rparr>"
| "edit_pair (Set_pair_node n) v = v\<lparr>pr_nodeSelector := n\<rparr>"

definition pair_edits :: "pair_edit list \<Rightarrow> pair_input \<Rightarrow> pair_input" where
  "pair_edits es i = i\<lparr>pi_form := fold edit_pair es (pi_form i)\<rparr>"


lemma tensorflow_form_accepted:
  assumes "v = (fold edit_pair es (blank_pair ''ps'' user))\<lparr>pr_forwards := []\<rparr>" "pair_formSchema v" "\<not> networks_differ v"
  shows "tensorflow_onSubmit u False (pair_edits es (tensorflow_defaults user)) = Submitted (create_tensorflow u v)"
  using assms
  by (simp add: tensorflow_onSubmit_def pair_onSubmit_def pair_values_def pair_edits_def tensorflow_defaults_def)

text \<open>C23. A distributed job is only requested when the schema accepts it, no request is pending, and both
  tasks ask for the same network; an interactive job only when it asks for no GPU or for more than two
  CPUs or more than 4 GB. In the other cases nothing is sent.\<close>

theorem jobs_checked:
  "(pair_onSubmit create isPending i = Submitted r \<longrightarrow>
      \<not> isPending \<and> (\<exists>v. pair_values i = Some v \<and> pair_formSchema v \<and> r = create v \<and>
        (\<exists>p w. rf_network (tf'_resource (pr_ps v)) = Some p \<and> rf_network (tf'_resource (pr_worker v)) = Some w \<and>
          nf_enabled p = nf_enabled w \<and> (nf_enabled p \<longrightarrow> nf_model p = nf_model w)))) \<and>
   (jupyter_onSubmit u isPending j = Submitted r' \<longrightarrow>
      \<not> isPending \<and> job_formSchema j \<and> r' = create_jupyter u j \<and>
      (gf_count (rf_gpu (tf'_resource (jf_task j))) = 0 \<or> 2 < rf_cpu (tf'_resource (jf_task j)) \<or>
       4 < rf_memory (tf'_resource (jf_task j))))"
proof (rule conjI; rule impI)
  assume r: "pair_onSubmit create isPending i = Submitted r"
  then obtain v where v: "pair_values i = Some v" "\<not> isPending" "\<not> networks_differ v" "r = create v"
    by (auto simp: pair_onSubmit_def split: option.splits if_splits)
  then have s: "pair_formSchema v" by (auto simp: pair_values_def Let_def split: option.splits if_splits)
  then obtain p w where "rf_network (tf'_resource (pr_ps v)) = Some p" "rf_network (tf'_resource (pr_worker v)) = Some w"
    using schema_resources(2) [OF s] schema_complete unfolding complete_def by blast
  with v s show "\<not> isPending \<and> (\<exists>v. pair_values i = Some v \<and> pair_formSchema v \<and> r = create v \<and>
        (\<exists>p w. rf_network (tf'_resource (pr_ps v)) = Some p \<and> rf_network (tf'_resource (pr_worker v)) = Some w \<and>
          nf_enabled p = nf_enabled w \<and> (nf_enabled p \<longrightarrow> nf_model p = nf_model w)))"
    by (auto simp: networks_differ_def)
next
  assume r: "jupyter_onSubmit u isPending j = Submitted r'"
  then have j: "job_formSchema j" "\<not> isPending" "r' = create_jupyter u j"
    "gf_count (rf_gpu (tf'_resource (jf_task j))) \<le> 0 \<or> 2 < rf_cpu (tf'_resource (jf_task j)) \<or>
       4 < rf_memory (tf'_resource (jf_task j))"
    by (auto simp: jupyter_onSubmit_def Let_def split: if_splits)
  moreover have "0 \<le> gf_count (rf_gpu (tf'_resource (jf_task j)))"
    using schema_resources(1) [OF j(1)] by (auto simp: resourceSchema_def gpu_ok_def)
  ultimately show "\<not> isPending \<and> job_formSchema j \<and> r' = create_jupyter u j \<and>
      (gf_count (rf_gpu (tf'_resource (jf_task j))) = 0 \<or> 2 < rf_cpu (tf'_resource (jf_task j)) \<or>
       4 < rf_memory (tf'_resource (jf_task j)))" by auto
qed

lemma demo_pair_sent:
  "tensorflow_onSubmit ''vcjobs'' False \<lparr>pi_form = demo_pair, pi_forwards = Some []\<rparr> =
     Submitted (create_tensorflow ''vcjobs'' demo_pair)"
proof -
  have "demo_pair\<lparr>pr_forwards := []\<rparr> = demo_pair" by (simp add: demo_pair_def)
  moreover have "\<not> networks_differ demo_pair" by (simp add: networks_differ_def demo_pair_def demo_task_def defaultResource_def)
  ultimately show ?thesis using demo_ok
    by (simp add: tensorflow_onSubmit_def pair_onSubmit_def pair_values_def)
qed

lemma demo_job_sent: "jupyter_onSubmit ''vcjobs'' False demo_job = Submitted (create_jupyter ''vcjobs'' demo_job)"
proof -
  have "gf_count (rf_gpu (tf'_resource (jf_task demo_job))) = 0"
    by (simp add: demo_job_def demo_task_def defaultResource_def)
  then show ?thesis using demo_ok(1) by (simp add: jupyter_onSubmit_def Let_def)
qed

theorem jobs_checked_witness:
  "(\<exists>v. pair_values \<lparr>pi_form = demo_pair, pi_forwards = Some []\<rparr> = Some v \<and> pair_formSchema v) \<and>
   (gf_count (rf_gpu (tf'_resource (jf_task demo_job))) = 0 \<or> 2 < rf_cpu (tf'_resource (jf_task demo_job)) \<or>
    4 < rf_memory (tf'_resource (jf_task demo_job)))"
  using demo_pair_sent demo_job_sent
    jobs_checked [of "create_tensorflow ''vcjobs''" False "\<lparr>pi_form = demo_pair, pi_forwards = Some []\<rparr>"
      "create_tensorflow ''vcjobs'' demo_pair" "''vcjobs''" demo_job "create_jupyter ''vcjobs'' demo_job"]
  unfolding tensorflow_onSubmit_def by blast

section \<open>Configurations that do not come back\<close>

text \<open>
  A job with a priority is stored as a custom job, but its page only loads another version and type:
  cloning such a job, or importing its configuration, fails.
\<close>

lemma wf_emias: "wf_json (json_emias v)"
  by (auto simp: json_emias_def Let_def opt_field_def split: option.split)

lemma emias_clone_refused:
  "emias_payload v = Inr p \<Longrightarrow> reload EMIAS_METADATA f (jc_template p) =
     Inl (Version_differs ''20240528'' (Some (JStr ''20250317'')))"
proof -
  assume "emias_payload v = Inr p"
  then have "jc_template p = exportToJsonString MetadataFormCustom (json_emias v)"
    by (auto simp: emias_payload_def bindE_def split: sum.splits)
  moreover have "json_parse (exportToJsonString MetadataFormCustom (json_emias v)) =
      Some (job_submit MetadataFormCustom (json_emias v))"
    using wf_emias by (simp add: exportToJsonString_def json_parse_stringify job_submit_def)
  ultimately show ?thesis
    by (simp add: reload_def importFromJsonString_def job_submit_def MetadataFormCustom_def EMIAS_METADATA_def)
qed

text \<open>
  An interactive job with a priority loses its name, resources and image when it is cloned: they are
  looked for where they are not.
\<close>

lemma emias_jupyter_clone:
  assumes "jupyter_payload MetadataFormJupyterEmias v = Inr p"
  shows "emias_jupyter_load (jc_template p) c =
    \<lparr>ir_reset = Some (Some (JObj
       [(''task'', JObj [(''resource'', JObj []), (''image'', JObj [(''imageLink'', JStr []), (''archs'', JArr [])])]),
        (''envs'', JArr (map json_Env (jf_envs v))), (''volumeMounts'', JArr (map json_mount (jf_volumeMounts v))),
        (''nodeSelector'', json_selector (jf_nodeSelector v)), (''alertEnabled'', JBool (jf_alertEnabled v)),
        (''forwards'', JArr (map json_Forward (jf_forwards v)))])),
     ir_cards = \<lparr>cd_envOpen = cd_envOpen c \<or> jf_envs v \<noteq> [],
       cd_otherOpen = cd_otherOpen c \<or> sf_enable (jf_nodeSelector v)\<rparr>,
     ir_error = None\<rparr>"
proof -
  have t: "jc_template p = exportToJsonString MetadataFormJupyterEmias (json_job v)"
    using assms by (auto simp: jupyter_payload_def bindE_def split: sum.splits)
  have "json_parse (jc_template p) = Some (job_submit MetadataFormJupyterEmias (json_job v))"
    unfolding t by (simp add: exportToJsonString_def json_parse_stringify job_submit_def)
  then show ?thesis
    by (cases c) (simp add: emias_jupyter_load_def job_submit_def emias_jupyter_data_def json_job_def or_else_def
        loaded_image_def after_import_def length_positive_def json_selector_def Let_def opt_field_def)
qed

text \<open>A valid configuration is imported as it is, and the cards show what is set in it.\<close>

lemma jupyter_imported:
  assumes "job_formSchema v"
  shows "import_button MetadataFormJupyter dataProcessor_jupyter (Some (exportToJsonString MetadataFormJupyter (json_job v))) c =
    \<lparr>ir_reset = Some (Some (json_job v)),
     ir_cards = \<lparr>cd_envOpen = cd_envOpen c \<or> jf_envs v \<noteq> [],
       cd_otherOpen = cd_otherOpen c \<or> sf_enable (jf_nodeSelector v)\<rparr>, ir_error = None\<rparr>"
proof -
  have "bindE (importFromJsonFile (md_version MetadataFormJupyter) (md_type MetadataFormJupyter)
      (Some (exportToJsonString MetadataFormJupyter (json_job v)))) dataProcessor_jupyter = Inr (Some (json_job v))"
    using reload_export [of "json_job v" MetadataFormJupyter dataProcessor_jupyter]
      schema_complete [OF schema_resources(1) [OF assms]]
    by (simp add: reload_def importFromJsonFile_def dataProcessor_jupyter_def MetadataFormJupyter_def)
  moreover have "after_import (Some (json_job v)) c =
      (\<lparr>cd_envOpen = cd_envOpen c \<or> jf_envs v \<noteq> [], cd_otherOpen = cd_otherOpen c \<or> sf_enable (jf_nodeSelector v)\<rparr>, None)"
    by (cases c) (simp add: after_import_def json_job_def length_positive_def json_selector_def opt_field_def Let_def)
  ultimately show ?thesis by (simp add: import_button_def)
qed

end
