(* ===== verification/SparseJob.thy ===== *)
theory SparseJob
  imports JobPages Coerce
begin

text \<open>
  The form for training jobs with sparse features (\<open>routes/portal/jobs/new/seacs-job.tsx\<close>). Unlike the
  forms of \<open>JobForms\<close> it stores the values of its fields as they are typed, loads the configuration of
  any job, and asks a service for a prediction. Numbers typed into a field that is coerced are JSON
  values of the form: texts once they are typed.
\<close>

definition SPARSE_VERSION :: string where "SPARSE_VERSION = ''20240528''"
definition SPARSE_TYPE :: string where "SPARSE_TYPE = ''single''"

definition sparse_metadata :: MetadataFormType where
  "sparse_metadata = \<lparr>md_version = SPARSE_VERSION, md_type = SPARSE_TYPE\<rparr>"

section \<open>The form\<close>

record sparse_dim =
  sd_vocabularySize :: json
  sd_embeddingDim :: json

record sparse_form =
  sj_jobName :: string
  sj_runningType :: string
  sj_macs :: json
  sj_params :: json
  sj_batchSize :: json
  sj_dim :: "sparse_dim list"
  sj_task :: task_form
  sj_volumeMounts :: "mount_form list"
  sj_envs :: "Env list"
  sj_nodeSelector :: selector_form
  sj_forwards :: "Forward list"
  sj_alertEnabled :: "bool option"

text \<open>What the schema makes of it.\<close>

record sparse_values =
  sv_jobName :: string
  sv_runningType :: string
  sv_macs :: number
  sv_params :: number
  sv_batchSize :: number
  sv_dim :: "(number \<times> number) list"
  sv_task :: task_form
  sv_envs :: "Env list"
  sv_volumeMounts :: "mount_form list"
  sv_alertEnabled :: bool
  sv_nodeSelector :: selector_form
  sv_forwards :: "Forward list"

definition sparse_jobName_ok :: "string \<Rightarrow> bool" where
  "sparse_jobName_ok s \<longleftrightarrow> 1 \<le> length s \<and> length s \<le> 40"

definition dim_values :: "sparse_dim \<Rightarrow> number \<times> number" where
  "dim_values d = (json_number (sd_vocabularySize d), json_number (sd_embeddingDim d))"

definition sparse_formSchema :: "sparse_form \<Rightarrow> sparse_values option" where
  "sparse_formSchema f =
     (let v = \<lparr>sv_jobName = sj_jobName f, sv_runningType = sj_runningType f, sv_macs = json_number (sj_macs f),
        sv_params = json_number (sj_params f), sv_batchSize = json_number (sj_batchSize f),
        sv_dim = map dim_values (sj_dim f), sv_task = sj_task f, sv_envs = sj_envs f,
        sv_volumeMounts = sj_volumeMounts f,
        sv_alertEnabled = (case sj_alertEnabled f of None \<Rightarrow> True | Some b \<Rightarrow> b),
        sv_nodeSelector = sj_nodeSelector f, sv_forwards = sj_forwards f\<rparr>
      in if sparse_jobName_ok (sv_jobName v) \<and> sv_runningType v \<in> {''one-shot'', ''long-running''} \<and>
           \<not> is_nan (sv_macs v) \<and> \<not> is_nan (sv_params v) \<and> \<not> is_nan (sv_batchSize v) \<and>
           list_all (\<lambda>(a, b). \<not> is_nan a \<and> \<not> is_nan b) (sv_dim v) \<and> taskSchema (sv_task v) \<and>
           envsSchema (sv_envs v) \<and> volumeMountsSchema (sv_volumeMounts v) \<and>
           nodeSelectorSchema (sv_nodeSelector v) \<and> forwardsSchema (sv_forwards v)
         then Some v else None)"

definition sparse_defaults :: "string option \<Rightarrow> sparse_form" where
  "sparse_defaults user =
     \<lparr>sj_jobName = [], sj_runningType = ''one-shot'', sj_macs = JNum 0, sj_params = JNum 0, sj_batchSize = JNum 0,
       sj_dim = [],
       sj_task = \<lparr>tf'_taskName = ''training'', tf'_replicas = 1,
         tf'_resource = \<lparr>rf_cpu = 1, rf_memory = 2, rf_gpu = \<lparr>gf_count = 0, gf_model = Some ''nvidia.com/gpu''\<rparr>,
           rf_network = Some \<lparr>nf_enabled = False, nf_model = None\<rparr>, rf_vgpu = None\<rparr>,
         tf'_image = \<lparr>ib_imageLink = [], ib_archs = []\<rparr>, tf'_shell = None, tf'_command = Some [],
         tf'_workingDir = Some (home_of user), tf'_ports = []\<rparr>,
       sj_volumeMounts = home_mounts user,
       sj_envs = [], sj_nodeSelector = \<lparr>sf_enable = False, sf_nodeName = None\<rparr>, sj_forwards = [],
       sj_alertEnabled = None\<rparr>"

text \<open>The values of the form as they are stored, in the order of its default values.\<close>

definition json_sparse_resource :: "resource_form \<Rightarrow> json" where
  "json_sparse_resource r = JObj ([(''cpu'', jint (rf_cpu r)), (''gpu'', json_gpu (rf_gpu r)), (''memory'', jint (rf_memory r))]
     @ opt_field ''network'' json_network (rf_network r) @ opt_field ''vgpu'' json_vgpu (rf_vgpu r))"

definition json_sparse_task :: "task_form \<Rightarrow> json" where
  "json_sparse_task t = JObj ([(''taskName'', JStr (tf'_taskName t)), (''replicas'', jint (tf'_replicas t)),
      (''resource'', json_sparse_resource (tf'_resource t)), (''image'', json_IImageBaseInfo (tf'_image t))]
     @ opt_field ''shell'' JStr (tf'_shell t) @ opt_field ''command'' JStr (tf'_command t)
     @ opt_field ''workingDir'' JStr (tf'_workingDir t) @ [(''ports'', JArr (map json_TaskPort (tf'_ports t)))])"

definition json_dim :: "sparse_dim \<Rightarrow> json" where
  "json_dim d = JObj [(''vocabularySize'', sd_vocabularySize d), (''embeddingDim'', sd_embeddingDim d)]"

definition json_sparse :: "sparse_form \<Rightarrow> json" where
  "json_sparse f = JObj ([(''jobName'', JStr (sj_jobName f)), (''runningType'', JStr (sj_runningType f)),
     (''macs'', sj_macs f), (''params'', sj_params f), (''batchSize'', sj_batchSize f),
     (''dim'', JArr (map json_dim (sj_dim f))), (''task'', json_sparse_task (sj_task f)),
     (''volumeMounts'', JArr (map json_mount (sj_volumeMounts f))), (''envs'', JArr (map json_Env (sj_envs f))),
     (''nodeSelector'', json_selector (sj_nodeSelector f)), (''forwards'', JArr (map json_Forward (sj_forwards f)))]
     @ opt_field ''alertEnabled'' JBool (sj_alertEnabled f))"

section \<open>Submitting\<close>

text \<open>The request is made of the parsed values \<open>v\<close>, the stored configuration of the fields \<open>f\<close>.\<close>

definition sparse_payload :: "sparse_form \<Rightarrow> sparse_values \<Rightarrow> form_error + ISparseCreate" where
  "sparse_payload f v =
     bindE (convertToResourceList (tf'_resource (sv_task v))) (\<lambda>resource.
       Inr \<lparr>jc_name = sv_jobName v, jc_resource = Some resource, jc_image = tf'_image (sv_task v),
         jc_volumeMounts = map json_mount (sv_volumeMounts v), jc_envs = sv_envs v,
         jc_selectors = selectors_of (sv_nodeSelector v),
         jc_template = exportToJsonString sparse_metadata (json_sparse f),
         jc_alertEnabled = sv_alertEnabled v, jc_forwards = sv_forwards v,
         tc_shell = None, tc_command = tf'_command (sv_task v), tc_workingDir = tf'_workingDir (sv_task v),
         sc_runningType = Some (sv_runningType v), sc_params = Some (sv_params v), sc_macs = Some (sv_macs v),
         sc_batchSize = Some (sv_batchSize v), sc_vocabularySize = Some (map fst (sv_dim v)),
         sc_embeddingDim = Some (map snd (sv_dim v)), sc_replicas = Some 1\<rparr>)"

text \<open>Submitting: nothing is sent while a request is pending, or when the schema refuses the form.\<close>

definition sparse_onSubmit :: "string \<Rightarrow> bool \<Rightarrow> sparse_form \<Rightarrow> (form_error + http_request) option" where
  "sparse_onSubmit u isPending f =
     (case sparse_formSchema f of
        None \<Rightarrow> None
      | Some v \<Rightarrow> if isPending then None
                  else Some (bindE (sparse_payload f v) (\<lambda>p. Inr (apiSparseCreate u p))))"

text \<open>The file that is offered for download, when the form is valid: its name and its text.\<close>

definition sparse_export :: "sparse_form \<Rightarrow> (string \<times> string) option" where
  "sparse_export f = (if sparse_formSchema f = None then None
     else Some (sj_jobName f @ ''.json'', exportToJsonString sparse_metadata (json_sparse f)))"

section \<open>Loading a configuration\<close>

text \<open>The value the form is reset to, whether the card of the variables opens, and the toast.\<close>

datatype sparse_toast = Import_done | Import_failed

record sparse_load =
  sl_reset :: "json option option"
  sl_envOpen :: bool
  sl_toasts :: "sparse_toast list"

definition show_loaded :: "sparse_toast list \<Rightarrow> json option \<Rightarrow> sparse_load" where
  "show_loaded done data =
     (case bindE (get_prop data ''envs'') length_positive of
        Inl _ \<Rightarrow> \<lparr>sl_reset = Some data, sl_envOpen = False, sl_toasts = [Import_failed]\<rparr>
      | Inr b \<Rightarrow> \<lparr>sl_reset = Some data, sl_envOpen = b, sl_toasts = done\<rparr>)"

definition load_failed :: sparse_load where
  "load_failed = \<lparr>sl_reset = None, sl_envOpen = False, sl_toasts = [Import_failed]\<rparr>"

text \<open>
  The configuration of a job named in the URL: neither its version nor its type is looked at.
\<close>

definition fetchJobTemplate :: "string \<Rightarrow> sparse_load" where
  "fetchJobTemplate text =
     (case json_parse text of
        None \<Rightarrow> load_failed
      | Some jobInfo \<Rightarrow>
          (case bindE (get_prop (Some jobInfo) ''data'') (at_prop ''task'' fix_image) of
             Inl _ \<Rightarrow> load_failed
           | Inr data \<Rightarrow> show_loaded [] data))"

definition from_job_request :: "string \<Rightarrow> string option \<Rightarrow> http_request option" where
  "from_job_request u fromJob = (case fromJob of None \<Rightarrow> None | Some [] \<Rightarrow> None | Some j \<Rightarrow> Some (apiJobTemplate u j))"

definition sparse_import :: "string option \<Rightarrow> sparse_load" where
  "sparse_import file =
     (case importFromJsonFile SPARSE_VERSION SPARSE_TYPE file of
        Inl _ \<Rightarrow> load_failed
      | Inr data \<Rightarrow> show_loaded [Import_done] data)"

section \<open>The prediction\<close>

fun json_text :: "json \<Rightarrow> string" where
  "json_text (JStr s) = s"
| "json_text (JNum r) = rat_str r"
| "json_text (JBool b) = (if b then ''true'' else ''false'')"
| "json_text JNull = ''null''"
| "json_text (JArr xs) = join_with '','' (map (\<lambda>x. if x = JNull then [] else json_text x) xs)"
| "json_text (JObj ms) = ''[object Object]''"

definition parse_field :: "json \<Rightarrow> number" where
  "parse_field v = parse_int (json_text v)"

definition analyzeTask :: "sparse_form \<Rightarrow> http_request" where
  "analyzeTask f = apiDlAnalyze
     \<lparr>da_runningType = sj_runningType f, da_relationShips = [], da_macs = parse_field (sj_macs f),
       da_params = parse_field (sj_params f), da_batchSize = parse_field (sj_batchSize f),
       da_vocabularySize = map (\<lambda>d. parse_field (sd_vocabularySize d)) (sj_dim f),
       da_embeddingDim = map (\<lambda>d. parse_field (sd_embeddingDim d)) (sj_dim f)\<rparr>"

record IDlAnalyze_p100 =
  p1_gpuUtilAvg :: rat
  p1_gpuMemoryMaxGB :: rat

record IDlAnalyze_v100 =
  v1_gpuUtilAvg :: rat
  v1_gpuMemoryMaxGB :: rat
  v1_smActiveAvg :: rat
  v1_smOccupancyAvg :: rat
  v1_fp32ActiveAvg :: rat
  v1_dramActiveAvg :: rat

record IDlAnalyze =
  an_p100 :: IDlAnalyze_p100
  an_v100 :: IDlAnalyze_v100

text \<open>The lengths of the bars; memory counts against the 16 and 32 GB of the two models.\<close>

definition bar_width :: "rat \<Rightarrow> rat" where
  "bar_width percent = (if percent > 100 then 100 else percent)"

definition analyze_percents :: "IDlAnalyze \<Rightarrow> rat list" where
  "analyze_percents a =
     [p1_gpuUtilAvg (an_p100 a), p1_gpuMemoryMaxGB (an_p100 a) / 16 * 100,
      v1_gpuUtilAvg (an_v100 a), v1_gpuMemoryMaxGB (an_v100 a) / 32 * 100,
      v1_smActiveAvg (an_v100 a), v1_smOccupancyAvg (an_v100 a), v1_fp32ActiveAvg (an_v100 a), v1_dramActiveAvg (an_v100 a)]"

section \<open>Editing\<close>

text \<open>The inputs of the page.\<close>

datatype sparse_edit =
    Set_jobName string
  | Set_runningType string
  | Set_cpu int
  | Set_gpu_count int
  | Set_memory int
  | Set_macs string
  | Set_params string
  | Set_batchSize string
  | Set_vocabularySize nat string
  | Set_embeddingDim nat string
  | Dim_append
  | Dim_remove nat
  | Set_image IImageBaseInfo
  | Set_command string
  | Set_workingDir string
  | Set_volumeMounts "mount_form list"
  | Set_envs "Env list"
  | Set_alertEnabled bool
  | Set_nodeSelector selector_form
  | Set_forwards "Forward list"

definition with_task :: "(task_form \<Rightarrow> task_form) \<Rightarrow> sparse_form \<Rightarrow> sparse_form" where
  "with_task g f = f\<lparr>sj_task := g (sj_task f)\<rparr>"

definition with_resource :: "(resource_form \<Rightarrow> resource_form) \<Rightarrow> sparse_form \<Rightarrow> sparse_form" where
  "with_resource g = with_task (\<lambda>t. t\<lparr>tf'_resource := g (tf'_resource t)\<rparr>)"

fun edit_sparse :: "sparse_edit \<Rightarrow> sparse_form \<Rightarrow> sparse_form" where
  "edit_sparse (Set_jobName s) f = f\<lparr>sj_jobName := s\<rparr>"
| "edit_sparse (Set_runningType s) f = f\<lparr>sj_runningType := s\<rparr>"
| "edit_sparse (Set_cpu n) f = with_resource (\<lambda>r. r\<lparr>rf_cpu := n\<rparr>) f"
| "edit_sparse (Set_gpu_count n) f = with_resource (\<lambda>r. r\<lparr>rf_gpu := (rf_gpu r)\<lparr>gf_count := n\<rparr>\<rparr>) f"
| "edit_sparse (Set_memory n) f = with_resource (\<lambda>r. r\<lparr>rf_memory := n\<rparr>) f"
| "edit_sparse (Set_macs s) f = f\<lparr>sj_macs := JStr s\<rparr>"
| "edit_sparse (Set_params s) f = f\<lparr>sj_params := JStr s\<rparr>"
| "edit_sparse (Set_batchSize s) f = f\<lparr>sj_batchSize := JStr s\<rparr>"
| "edit_sparse (Set_vocabularySize i s) f =
     f\<lparr>sj_dim := (sj_dim f)[i := (sj_dim f ! i)\<lparr>sd_vocabularySize := JStr s\<rparr>]\<rparr>"
| "edit_sparse (Set_embeddingDim i s) f =
     f\<lparr>sj_dim := (sj_dim f)[i := (sj_dim f ! i)\<lparr>sd_embeddingDim := JStr s\<rparr>]\<rparr>"
| "edit_sparse Dim_append f = f\<lparr>sj_dim := sj_dim f @ [\<lparr>sd_vocabularySize = JNum 0, sd_embeddingDim = JNum 0\<rparr>]\<rparr>"
| "edit_sparse (Dim_remove i) f = f\<lparr>sj_dim := take i (sj_dim f) @ drop (Suc i) (sj_dim f)\<rparr>"
| "edit_sparse (Set_image im) f = with_task (\<lambda>t. t\<lparr>tf'_image := im\<rparr>) f"
| "edit_sparse (Set_command s) f = with_task (\<lambda>t. t\<lparr>tf'_command := Some s\<rparr>) f"
| "edit_sparse (Set_workingDir s) f = with_task (\<lambda>t. t\<lparr>tf'_workingDir := Some s\<rparr>) f"
| "edit_sparse (Set_volumeMounts ms) f = f\<lparr>sj_volumeMounts := ms\<rparr>"
| "edit_sparse (Set_envs es) f = f\<lparr>sj_envs := es\<rparr>"
| "edit_sparse (Set_alertEnabled b) f = f\<lparr>sj_alertEnabled := Some b\<rparr>"
| "edit_sparse (Set_nodeSelector s) f = f\<lparr>sj_nodeSelector := s\<rparr>"
| "edit_sparse (Set_forwards fs) f = f\<lparr>sj_forwards := fs\<rparr>"

definition edits :: "sparse_edit list \<Rightarrow> sparse_form \<Rightarrow> sparse_form" where
  "edits es f = fold edit_sparse es f"

section \<open>Properties\<close>

lemma no_vgpu_kept: "rf_vgpu (tf'_resource (sj_task (edit_sparse e f))) = rf_vgpu (tf'_resource (sj_task f))"
  by (cases e) (simp_all add: with_resource_def with_task_def)

lemma no_vgpu_edits: "rf_vgpu (tf'_resource (sj_task (edits es f))) = rf_vgpu (tf'_resource (sj_task f))"
  unfolding edits_def by (induction es arbitrary: f) (simp_all add: no_vgpu_kept)

lemma sparse_formSchema_task:
  "sparse_formSchema f = Some v \<Longrightarrow> sv_task v = sj_task f \<and> taskSchema (sj_task f)"
  by (auto simp: sparse_formSchema_def Let_def split: if_splits)

text \<open>C26. The page cannot submit what is typed into it: its default values have no virtual GPUs, the schema asks
  for them and no input sets them, so whatever is typed, nothing is sent or exported.\<close>

theorem sparse_form_refused:
  "sparse_onSubmit u isPending (edits es (sparse_defaults user)) = None \<and>
   sparse_export (edits es (sparse_defaults user)) = None"
proof -
  have none: "rf_vgpu (tf'_resource (sj_task (edits es (sparse_defaults user)))) = None"
    by (simp add: no_vgpu_edits sparse_defaults_def)
  have "sparse_formSchema (edits es (sparse_defaults user)) = None"
  proof (cases "sparse_formSchema (edits es (sparse_defaults user))")
    case (Some v)
    then have "rf_vgpu (tf'_resource (sj_task (edits es (sparse_defaults user)))) \<noteq> None"
      using sparse_formSchema_task [OF Some] schema_complete by (simp add: taskSchema_def complete_def)
    with none show ?thesis by simp
  qed
  then show ?thesis by (simp add: sparse_onSubmit_def sparse_export_def)
qed

text \<open>
  A form that is accepted, as one loaded from another job can be, carries its own fields as
  configuration, which fill the form again as they were.
\<close>

lemma wf_sparse:
  assumes "wf_json (sj_macs f)" "wf_json (sj_params f)" "wf_json (sj_batchSize f)"
    "list_all (\<lambda>d. wf_json (sd_vocabularySize d) \<and> wf_json (sd_embeddingDim d)) (sj_dim f)"
  shows "wf_json (json_sparse f)"
  using assms
  by (auto simp: json_sparse_def json_sparse_task_def json_sparse_resource_def json_dim_def json_gpu_def json_network_def
      json_vgpu_def opt_field_def list_all_iff split: option.split)

lemma sparse_reload:
  assumes "sparse_formSchema f = Some v" "wf_json (json_sparse f)"
  shows "\<exists>p. sparse_payload f v = Inr p \<and>
    fetchJobTemplate (jc_template p) =
      \<lparr>sl_reset = Some (Some (json_sparse f)), sl_envOpen = (sj_envs f \<noteq> []), sl_toasts = []\<rparr>"
proof -
  have t: "sv_task v = sj_task f" "taskSchema (sj_task f)" using sparse_formSchema_task [OF assms(1)] by auto
  then obtain m where m: "convertToResourceList (tf'_resource (sj_task f)) = Inr m"
    using convert_total by (auto simp: taskSchema_def)
  have img: "fix_image (Some (json_sparse_task (sj_task f))) = Inr (Some (json_sparse_task (sj_task f)))"
    by (simp add: fix_image_def json_sparse_task_def ensureImageCompatibility_def wire_defs)
  have "at_prop ''task'' fix_image (Some (json_sparse f)) = Inr (Some (json_sparse f))"
    using img by (simp add: at_prop_def json_sparse_def)
  moreover have "bindE (get_prop (Some (json_sparse f)) ''envs'') length_positive = Inr (sj_envs f \<noteq> [])"
    by (simp add: json_sparse_def length_positive_def)
  moreover have "json_parse (exportToJsonString sparse_metadata (json_sparse f)) =
      Some (job_submit sparse_metadata (json_sparse f))"
    using assms(2) by (simp add: exportToJsonString_def json_parse_stringify job_submit_def)
  ultimately show ?thesis using m t
    by (simp add: sparse_payload_def fetchJobTemplate_def show_loaded_def job_submit_def)
qed

end
