(* ===== verification/JobLists.thy ===== *)
theory JobLists
  imports JobPages Jobs Publish Collections ApiCluster Accounts
begin

text \<open>
  The lists of jobs (\<open>components/job/overview\<close>, \<open>routes/portal/jobs/inter\<close>), the page of one job with its
  pods (\<open>components/job/detail\<close>), and which form a job or a template is opened with
  (\<open>components/job/new-job-button.tsx\<close>, \<open>routes/portal/templates\<close>). \<open>localeCompare\<close> is the parameter
  \<open>collate\<close>, the time of a text the function \<open>instant\<close>.
\<close>

section \<open>Forms for new jobs\<close>

definition linkJupyterJob :: string where "linkJupyterJob = ''/portal/jobs/new/jupyter-job''"
definition linkPyTorchDDPJob :: string where "linkPyTorchDDPJob = ''/portal/jobs/new/pytorch-ddp-job''"
definition linkTensorFlowPSJob :: string where "linkTensorFlowPSJob = ''/portal/jobs/new/tensorflow-ps-job''"
definition linkSingleJob :: string where "linkSingleJob = ''/portal/jobs/new/single-job''"

definition interOptions :: "string list" where "interOptions = [linkJupyterJob]"
definition customOptions :: "string list" where
  "customOptions = [linkPyTorchDDPJob, linkTensorFlowPSJob, linkSingleJob]"
definition allOptions :: "string list" where "allOptions = interOptions @ customOptions"

definition getOptionsByMode :: "string \<Rightarrow> string list" where
  "getOptionsByMode mode =
     (if mode = ''inter'' then interOptions else if mode = ''custom'' then customOptions else allOptions)"

definition getNewJobLink :: "JobType \<Rightarrow> string" where
  "getNewJobLink jobType = (case jobType of
     JobType_Jupyter \<Rightarrow> linkJupyterJob
   | JobType_Custom \<Rightarrow> linkSingleJob
   | JobType_Tensorflow \<Rightarrow> linkTensorFlowPSJob
   | JobType_Pytorch \<Rightarrow> linkPyTorchDDPJob
   | _ \<Rightarrow> linkSingleJob)"

definition all_job_types :: "JobType list" where
  "all_job_types = [JobType_Jupyter, JobType_Pytorch, JobType_Tensorflow, JobType_Custom, JobType_KubeRay,
     JobType_DeepSpeed, JobType_OpenMPI]"

text \<open>The form a template is opened with: that of its type, the one for Jupyter when it has no known type.\<close>

definition getJobUrlFromTemplate :: "string \<Rightarrow> string" where
  "getJobUrlFromTemplate text' =
     (case json_parse text' of
        None \<Rightarrow> getNewJobLink JobType_Jupyter
      | Some parsed \<Rightarrow>
          (case get_prop (Some parsed) ''type'' of
             Inl _ \<Rightarrow> getNewJobLink JobType_Jupyter
           | Inr ty \<Rightarrow>
               (case find (\<lambda>t. ty = Some (JStr (JobType_val t))) all_job_types of
                  None \<Rightarrow> getNewJobLink JobType_Jupyter
                | Some t \<Rightarrow> getNewJobLink t)))"

text \<open>The version and type a page loads configurations of, as its \<open>TemplateInfo\<close> is given them.\<close>

definition page_metadata :: "string \<Rightarrow> MetadataFormType option" where
  "page_metadata page =
     (if page = linkJupyterJob then Some MetadataFormJupyter
      else if page = linkSingleJob then Some MetadataFormCustom
      else if page = linkTensorFlowPSJob then Some MetadataFormTensorflow
      else if page = linkPyTorchDDPJob then Some MetadataFormPytorch
      else None)"

section \<open>The lists\<close>

definition batch_jobs :: "IJobInfo list \<Rightarrow> IJobInfo list" where
  "batch_jobs res = filter (\<lambda>task. ji_jobType task \<noteq> JobType_Jupyter) res"

definition inter_jobs :: "IJobInfo list \<Rightarrow> IJobInfo list" where
  "inter_jobs res = filter (\<lambda>task. ji_jobType task = JobType_Jupyter) res"

definition colocate_jobs :: "(string \<Rightarrow> string \<Rightarrow> int) \<Rightarrow> IJobInfo list \<Rightarrow> IJobInfo list" where
  "colocate_jobs collate res =
     sort_by (\<lambda>a b. collate (ji_createdAt b) (ji_createdAt a)) (filter (\<lambda>task. ji_jobType task \<noteq> JobType_Jupyter) res)"

text \<open>What a job may be asked for in its menu: the word for ending it depends on its state.\<close>

datatype end_action = Cancel_job | Stop_job | Delete_job

definition end_action_of :: "JobPhase \<Rightarrow> end_action" where
  "end_action_of phase = (let s = getJobStateType phase in
     if s = JobStatus_NotStarted then Cancel_job else if s = JobStatus_Running then Stop_job else Delete_job)"

text \<open>Asking for a lock: \<open>canExtend\<close> is the constant \<open>true\<close>.\<close>

definition can_extend :: "JobPhase \<Rightarrow> bool" where
  "can_extend phase \<longleftrightarrow> (let canExtend = True in canExtend \<and> getJobStateType phase = JobStatus_Running)"

definition clone_link :: "IJobInfo \<Rightarrow> string \<times> string" where
  "clone_link job = (getNewJobLink (ji_jobType job), ji_jobName job)"

definition onDelete :: "string \<Rightarrow> IJobInfo \<Rightarrow> http_request" where
  "onDelete u job = apiJobDelete u (ji_jobName job)"

definition jupyter_offered :: "IJobInfo \<Rightarrow> bool" where
  "jupyter_offered job \<longleftrightarrow> ji_status job = JobPhase_Running"

definition bulk_end :: "string \<Rightarrow> IJobInfo list \<Rightarrow> http_request list" where
  "bulk_end u rows = map (onDelete u) rows"

text \<open>A column's filter: the chosen values contain the row's.\<close>

definition status_filter :: "string list \<Rightarrow> IJobInfo \<Rightarrow> bool" where
  "status_filter chosen job \<longleftrightarrow> JobPhase_val (ji_status job) \<in> set chosen"

subsection \<open>The administrators' list\<close>

record admin_jobs =
  aj_days :: int
  aj_selectedJobs :: "IJobInfo list"
  aj_isLockDialogOpen :: bool
  aj_isExtendDialogOpen :: bool

definition admin_jobs_start :: admin_jobs where
  "admin_jobs_start = \<lparr>aj_days = 7, aj_selectedJobs = [], aj_isLockDialogOpen = False, aj_isExtendDialogOpen = False\<rparr>"

definition admin_query :: "string \<Rightarrow> admin_jobs \<Rightarrow> http_request" where
  "admin_query u s = apiAdminGetJobList u (aj_days s)"

definition day_choices :: "int list" where
  "day_choices = [7, 14, 30, 90, -1]"

definition choose_days :: "string \<Rightarrow> admin_jobs \<Rightarrow> admin_jobs" where
  "choose_days value s = (case parse_int10 value of None \<Rightarrow> s | Some d \<Rightarrow> s\<lparr>aj_days := d\<rparr>)"

definition shouldStop :: "IJobInfo \<Rightarrow> bool" where
  "shouldStop job \<longleftrightarrow> ji_status job \<noteq> JobPhase_Deleted \<and> ji_status job \<noteq> JobPhase_Freed"

definition handleClick :: "IJobInfo \<Rightarrow> admin_jobs \<Rightarrow> admin_jobs" where
  "handleClick job s = s\<lparr>aj_selectedJobs := [job], aj_isLockDialogOpen := True\<rparr>"

definition handleClickToExtend :: "IJobInfo \<Rightarrow> admin_jobs \<Rightarrow> admin_jobs" where
  "handleClickToExtend job s = s\<lparr>aj_selectedJobs := [job], aj_isExtendDialogOpen := True\<rparr>"

definition extend_offered :: "IJobInfo \<Rightarrow> bool" where
  "extend_offered job \<longleftrightarrow> ji_locked job"

definition bulk_lock :: "IJobInfo list \<Rightarrow> admin_jobs \<Rightarrow> admin_jobs" where
  "bulk_lock rows s = s\<lparr>aj_selectedJobs := rows, aj_isLockDialogOpen := True\<rparr>"

definition admin_delete :: "string \<Rightarrow> IJobInfo \<Rightarrow> http_request" where
  "admin_delete u job = apiJobDeleteForAdmin u (ji_jobName job)"

subsection \<open>Jobs with a priority\<close>

definition priorities :: "(string \<times> string) list" where
  "priorities =
     [(''high'', ''text-highlight-amber border-highlight-amber bg-highlight-amber/20''),
      (''low'', ''text-highlight-slate border-highlight-slate bg-highlight-slate/20'')]"

definition priority_badge :: "string \<Rightarrow> (string \<times> string) option" where
  "priority_badge priority = find (\<lambda>p. fst p = priority) priorities"

definition profilingStatuses :: "(string \<times> string) list" where
  "profilingStatuses =
     [(''0'', ''text-highlight-purple border-highlight-purple bg-highlight-purple/20''),
      (''1'', ''text-highlight-slate border-highlight-slate bg-highlight-slate/20''),
      (''2'', ''text-highlight-sky border-highlight-sky bg-highlight-sky/20''),
      (''3'', ''text-highlight-emerald border-highlight-emerald bg-highlight-emerald/20''),
      (''4'', ''text-highlight-red border-highlight-red bg-highlight-red/20''),
      (''5'', ''text-highlight-slate border-highlight-slate bg-highlight-slate/20'')]"

text \<open>The state of the analysis that is shown: analysed when the job succeeded, nothing when it is unknown.\<close>

definition profiling_badge :: "string \<Rightarrow> string \<Rightarrow> (string \<times> string) option" where
  "profiling_badge status profileStatus =
     (case find (\<lambda>p. fst p = profileStatus) profilingStatuses of
        None \<Rightarrow> None
      | Some profiling \<Rightarrow>
          if status = ''Succeeded''
          then Some (''3'', ''text-highlight-emerald border-highlight-emerald bg-highlight-emerald/20'')
          else Some profiling)"

text \<open>The row's button takes the number of the job, which the answer does not have for its jobs.\<close>

definition colocate_delete :: "string \<Rightarrow> int option \<Rightarrow> http_request option" where
  "colocate_delete u jobid = (case jobid of None \<Rightarrow> None | Some i \<Rightarrow> Some (apiJobDelete u (int_str i)))"

section \<open>The page of a job\<close>

definition getDaysDifference :: "(string \<Rightarrow> int) \<Rightarrow> int \<Rightarrow> string option \<Rightarrow> int" where
  "getDaysDifference instant now dateStr =
     (case dateStr of None \<Rightarrow> 0 | Some [] \<Rightarrow> 0 | Some d \<Rightarrow> (now - instant d) div (1000 * 60 * 60 * 24))"

definition getHoursDifference :: "(string \<Rightarrow> int) \<Rightarrow> int \<Rightarrow> string option \<Rightarrow> int" where
  "getHoursDifference instant now dateStr =
     (case dateStr of None \<Rightarrow> 0 | Some [] \<Rightarrow> 0 | Some d \<Rightarrow> (now - instant d) div (1000 * 60 * 60))"

definition isCompletedOver3Days :: "(string \<Rightarrow> int) \<Rightarrow> int \<Rightarrow> IJupyterDetail \<Rightarrow> bool" where
  "isCompletedOver3Days instant now d \<longleftrightarrow> 3 < getDaysDifference instant now (Some (jd_completedAt d))"

definition detail_pods :: "(string \<Rightarrow> string \<Rightarrow> int) \<Rightarrow> PodDetail list \<Rightarrow> PodDetail list" where
  "detail_pods collate res = sort_by (\<lambda>a b. collate (pd_name a) (pd_name b)) res"

text \<open>The rules for external access are those of the first pod.\<close>

definition ingress_query :: "PodDetail list \<Rightarrow> http_request option" where
  "ingress_query pods = (case pods of [] \<Rightarrow> None
     | p # _ \<Rightarrow> if pd_namespace p \<noteq> [] \<and> pd_name p \<noteq> [] then Some (apiGetPodIngresses (pd_namespace p) (pd_name p)) else None)"

text \<open>The buttons of the header.\<close>

definition access_offered :: "IJupyterDetail \<Rightarrow> bool" where
  "access_offered d \<longleftrightarrow> (jd_jobType d = JobType_Jupyter \<or> jd_jobType d = JobType_Custom) \<and> jd_status d = JobPhase_Running"

definition jupyter_button :: "IJupyterDetail \<Rightarrow> bool" where
  "jupyter_button d \<longleftrightarrow> jd_jobType d = JobType_Jupyter \<and> jd_status d = JobPhase_Running"

text \<open>The rules listed under the button: a name with the prefix of the same rule, except Jupyter's own.\<close>

definition prefix_links :: "string list \<Rightarrow> string list \<Rightarrow> (string \<times> string) list" where
  "prefix_links names pfxs =
     filter (\<lambda>(n, p). n \<noteq> ''notebook'') (map (\<lambda>i. (names ! i, pfxs ! i)) [0..<length names])"

definition access_links :: "PodIngress list \<Rightarrow> (string \<times> string) list" where
  "access_links ingressList = prefix_links (map pi_name ingressList) (map pi_prefix ingressList)"

text \<open>The tabs that are not hidden.\<close>

definition detail_tabs :: "(string \<Rightarrow> int) \<Rightarrow> int \<Rightarrow> nat \<Rightarrow> IJupyterDetail \<Rightarrow> string list" where
  "detail_tabs instant now orders d =
     (let s = getJobStateType (jd_status d) in
      (if jd_profileData d = None \<or> s = JobStatus_Running \<or> s = JobStatus_NotStarted then [] else [''profile'']) @
      (if s = JobStatus_MetadataOnly \<or> isCompletedOver3Days instant now d then [] else [''base'']) @
      [''config'', ''event''] @
      (if orders = 0 then [] else [''order'']) @
      (if s = JobStatus_NotStarted then [] else [''monitor'']) @
      (if \<not> hasNvidiaGPU (jd_resources d) \<or> s = JobStatus_NotStarted then [] else [''gpu'']))"

definition fromTime :: "(string \<Rightarrow> string) \<Rightarrow> IJupyterDetail \<Rightarrow> string" where
  "fromTime iso_text d = (if jd_startedAt d = [] then ''now-3h'' else iso_text (jd_startedAt d))"

definition toTime :: "(string \<Rightarrow> string) \<Rightarrow> IJupyterDetail \<Rightarrow> string" where
  "toTime iso_text d = (if jd_completedAt d = [] then ''now'' else iso_text (jd_completedAt d))"

definition monitor_src :: "(string \<Rightarrow> string) \<Rightarrow> string \<Rightarrow> IJupyterDetail \<Rightarrow> string" where
  "monitor_src iso_text base d =
     base @ ''?var-job='' @ jd_jobName d @ ''&from='' @ fromTime iso_text d @ ''&to='' @ toTime iso_text d"

subsection \<open>Pods\<close>

definition getPodMonitorUrl :: "string \<Rightarrow> PodDetail \<Rightarrow> string" where
  "getPodMonitorUrl baseURL pod = baseURL @ ''?orgId=1&refresh=5s&var-node_name='' @ pd_nodename pod
     @ ''&var-pod_name='' @ pd_name pod @ ''&var-gpu=All&from=now-15m&to=now''"

datatype pod_view = No_pods | One_pod PodDetail | Pod_rows "PodDetail list"

definition pod_table :: "(string \<Rightarrow> string \<Rightarrow> int) \<Rightarrow> PodDetail list \<Rightarrow> pod_view" where
  "pod_table collate res = (case detail_pods collate res of [] \<Rightarrow> No_pods | [p] \<Rightarrow> One_pod p | ps \<Rightarrow> Pod_rows ps)"

text \<open>
  What is open over the pods: a log, a terminal, the rules for access, each for a pod, and the monitor.
  The name of a pod and its button open the monitor; only the button needs a running pod.
\<close>

record pod_dialogs =
  pt_showLog :: "(string \<times> string) option"
  pt_showTerminal :: "(string \<times> string) option"
  pt_showIngress :: "(string \<times> string) option"
  pt_showMonitor :: bool
  pt_grafanaUrl :: string

definition no_dialogs :: pod_dialogs where
  "no_dialogs = \<lparr>pt_showLog = None, pt_showTerminal = None, pt_showIngress = None, pt_showMonitor = False, pt_grafanaUrl = []\<rparr>"

definition namespaced :: "PodDetail \<Rightarrow> string \<times> string" where
  "namespaced pod = (pd_namespace pod, pd_name pod)"

datatype pod_button = Name_button | Terminal_button | Ingress_button | Monitor_button | Log_button

definition pod_enabled :: "pod_button \<Rightarrow> PodDetail \<Rightarrow> bool" where
  "pod_enabled b pod \<longleftrightarrow> (case b of
     Name_button \<Rightarrow> pd_name pod \<noteq> []
   | Log_button \<Rightarrow> True
   | _ \<Rightarrow> pd_phase pod = ''Running'')"

definition press_pod :: "string \<Rightarrow> pod_button \<Rightarrow> PodDetail \<Rightarrow> pod_dialogs \<Rightarrow> pod_dialogs" where
  "press_pod grafanaPod b pod s =
     (if \<not> pod_enabled b pod then s
      else case b of
        Name_button \<Rightarrow> s\<lparr>pt_grafanaUrl := getPodMonitorUrl grafanaPod pod, pt_showMonitor := True\<rparr>
      | Terminal_button \<Rightarrow> s\<lparr>pt_showTerminal := Some (namespaced pod)\<rparr>
      | Ingress_button \<Rightarrow> s\<lparr>pt_showIngress := Some (namespaced pod)\<rparr>
      | Monitor_button \<Rightarrow> s\<lparr>pt_grafanaUrl := getPodMonitorUrl grafanaPod pod, pt_showMonitor := True\<rparr>
      | Log_button \<Rightarrow> s\<lparr>pt_showLog := Some (namespaced pod)\<rparr>)"

section \<open>Resource badges\<close>

definition badge_order :: "(string \<Rightarrow> string \<Rightarrow> int) \<Rightarrow> string \<Rightarrow> string \<Rightarrow> int" where
  "badge_order collate a b =
     (if a = ''cpu'' then -1 else if b = ''cpu'' then 1
      else if a = ''memory'' then (if b = ''cpu'' then 1 else -1)
      else if b = ''memory'' then (if a = ''cpu'' then -1 else 1)
      else collate a b)"

definition badge_key :: "string \<Rightarrow> string" where
  "badge_key rawKey = (if CHR ''/'' \<in> set rawKey then concat (tl (split_char (CHR ''/'') rawKey)) else rawKey)"

definition badge_text :: "string \<Rightarrow> string \<Rightarrow> string" where
  "badge_text key value = (if key = ''cpu'' then value @ ''c'' else if key = ''memory'' then value else key @ '': '' @ value)"

definition resource_badges :: "(string \<Rightarrow> string \<Rightarrow> int) \<Rightarrow> strobj \<Rightarrow> string list" where
  "resource_badges collate resources =
     map (\<lambda>(k, v). badge_text (badge_key k) v) (sort_by (\<lambda>x y. badge_order collate (fst x) (fst y)) resources)"

definition badge_editable :: "bool \<Rightarrow> bool \<Rightarrow> string \<Rightarrow> bool" where
  "badge_editable showEdit isAdmin rawKey \<longleftrightarrow>
     showEdit \<and> isAdmin \<and> (badge_key rawKey = ''cpu'' \<or> badge_key rawKey = ''memory'')"

text \<open>Saving a changed amount of a pod, by an administrator; the button needs some text.\<close>

definition handleUpdateResource :: "string \<Rightarrow> string \<Rightarrow> string \<Rightarrow> string \<Rightarrow> http_request option" where
  "handleUpdateResource ns podName key value' =
     (if value' \<noteq> [] \<and> podName \<noteq> [] \<and> ns \<noteq> []
      then Some (apiAdminResourceReset (Some ns) (Some podName) (key = ''cpu'') value') else None)"

section \<open>Properties\<close>

text \<open>The page of a template is that of its type.\<close>

definition type_page :: "string \<Rightarrow> string" where
  "type_page ty = (case find (\<lambda>t. ty = JobType_val t) all_job_types of
     None \<Rightarrow> getNewJobLink JobType_Jupyter | Some t \<Rightarrow> getNewJobLink t)"

lemma url_of_export:
  "wf_json v \<Longrightarrow> getJobUrlFromTemplate (exportToJsonString md v) = type_page (md_type md)"
  by (simp add: getJobUrlFromTemplate_def exportToJsonString_def json_parse_stringify job_submit_def type_page_def)

lemma import_of_export: "wf_json v \<Longrightarrow> importFromJsonString md (exportToJsonString md v) = Inr (Some v)"
  by (simp add: exportToJsonString_def json_parse_stringify job_submit_def importFromJsonString_def)

lemma page_of_types:
  "type_page (md_type MetadataFormJupyter) = linkJupyterJob"
  "type_page (md_type MetadataFormCustom) = linkSingleJob"
  "type_page (md_type MetadataFormTensorflow) = linkTensorFlowPSJob"
  "type_page (md_type MetadataFormPytorch) = linkPyTorchDDPJob"
  "type_page (md_type MetadataFormJupyterEmias) = linkJupyterJob"
  "type_page (md_type MetadataFormCustomEmias) = linkJupyterJob"
  by code_simp+

lemma metadata_of_pages:
  "page_metadata linkJupyterJob = Some MetadataFormJupyter"
  "page_metadata linkSingleJob = Some MetadataFormCustom"
  "page_metadata linkTensorFlowPSJob = Some MetadataFormTensorflow"
  "page_metadata linkPyTorchDDPJob = Some MetadataFormPytorch"
  by code_simp+

text \<open>C9. A template opens the form it was published from: for each of the four kinds of jobs, the page that is
  linked loads configurations of just the version and type the template has, and reading the template
  there gives back its data.\<close>

theorem template_opens_its_page:
  assumes "md \<in> {MetadataFormJupyter, MetadataFormCustom, MetadataFormTensorflow, MetadataFormPytorch}" "wf_json v"
  shows "page_metadata (getJobUrlFromTemplate (exportToJsonString md v)) = Some md \<and>
    importFromJsonString md (exportToJsonString md v) = Inr (Some v)"
  using assms by (elim insertE emptyE) (simp_all only: url_of_export import_of_export page_of_types metadata_of_pages)

theorem template_opens_its_page_witness:
  "page_metadata (getJobUrlFromTemplate (exportToJsonString MetadataFormPytorch (json_pair demo_pair))) =
     Some MetadataFormPytorch"
  using template_opens_its_page [of MetadataFormPytorch "json_pair demo_pair"] by simp

text \<open>A template of a job with a priority, interactive or not, opens the form for other interactive jobs, which refuses it.\<close>

lemma emias_template_refused:
  assumes "wf_json v"
  shows "getJobUrlFromTemplate (exportToJsonString MetadataFormJupyterEmias v) = linkJupyterJob"
    "importFromJsonString MetadataFormJupyter (exportToJsonString MetadataFormJupyterEmias v) =
      Inl (Version_differs ''20250420'' (Some (JStr ''20240528'')))"
    "getJobUrlFromTemplate (exportToJsonString MetadataFormCustomEmias v) = linkJupyterJob"
    "importFromJsonString MetadataFormJupyter (exportToJsonString MetadataFormCustomEmias v) =
      Inl (Type_differs ''jupyter'' (Some (JStr ''custom-emias'')))"
  using assms by (simp_all only: url_of_export page_of_types)
    (simp_all add: exportToJsonString_def json_parse_stringify job_submit_def importFromJsonString_def
      MetadataFormJupyterEmias_def MetadataFormJupyter_def MetadataFormCustomEmias_def)

text \<open>Every job is in exactly one of the visitor's two lists.\<close>

lemma lists_partition: "mset (batch_jobs res) + mset (inter_jobs res) = mset res"
  unfolding batch_jobs_def inter_jobs_def by (simp add: multiset_partition [symmetric] add.commute)

text \<open>
  The two lists call ending a job differently: a cancelled or a finished job is deleted in the visitor's
  list and stopped in the administrators'.
\<close>

lemma stop_word_differs:
  "ji_status job \<in> {JobPhase_Completed, JobPhase_Failed, JobPhase_Terminated, JobPhase_Aborted, JobPhase_Cancelled} \<Longrightarrow>
   end_action_of (ji_status job) = Delete_job \<and> shouldStop job"
  by (auto simp: end_action_of_def getJobStateType_def shouldStop_def)

lemma access_links_paired:
  "access_links ingressList = map (\<lambda>i. (pi_name i, pi_prefix i)) (filter (\<lambda>i. pi_name i \<noteq> ''notebook'') ingressList)"
proof -
  have "map (\<lambda>i. (map pi_name ingressList ! i, map pi_prefix ingressList ! i)) [0..<length ingressList] =
      map (\<lambda>i. (pi_name i, pi_prefix i)) ingressList"
    by (rule nth_equalityI) simp_all
  then show ?thesis by (simp add: access_links_def prefix_links_def filter_map comp_def)
qed

text \<open>
  What may be done with a job on its page agrees with its tabs: rules for access, the terminal and
  Jupyter are offered for running jobs only, whose tab of statistics is hidden.
\<close>

lemma running_tabs:
  assumes "access_offered d" "isCompletedOver3Days instant now d = False"
  shows "''profile'' \<notin> set (detail_tabs instant now n d) \<and> {''base'', ''monitor''} \<subseteq> set (detail_tabs instant now n d) \<and>
    end_action_of (jd_status d) = Stop_job"
  using assms by (simp add: access_offered_def detail_tabs_def getJobStateType_def end_action_of_def)

text \<open>The days an administrator chooses are those the list is asked for.\<close>

lemma chosen_days: "d \<in> set day_choices \<Longrightarrow> aj_days (choose_days (int_str d) s) = d"
proof -
  have "list_all (\<lambda>d. parse_int10 (int_str d) = Some d) day_choices" by code_simp
  then show "d \<in> set day_choices \<Longrightarrow> aj_days (choose_days (int_str d) s) = d"
    by (auto simp: list_all_iff choose_days_def)
qed

text \<open>A terminal and the rules for access are opened for a running pod, and for the pod of the row.\<close>

lemma dialogs_of_running_pods:
  "pt_showTerminal (press_pod g b pod s) \<noteq> pt_showTerminal s \<or> pt_showIngress (press_pod g b pod s) \<noteq> pt_showIngress s \<Longrightarrow>
   pd_phase pod = ''Running'' \<and> namespaced pod \<in> set_option (pt_showTerminal (press_pod g b pod s)) \<union>
     set_option (pt_showIngress (press_pod g b pod s))"
  by (cases b) (auto simp: press_pod_def pod_enabled_def split: if_splits)

text \<open>The badges of a job and the resources of an account are put in the same order.\<close>

lemma badge_order_eq: "badge_order = resource_order"
  by (rule ext)+ (simp add: badge_order_def resource_order_def)

lemma comparator_badges: "comparator collate \<Longrightarrow> comparator (badge_order collate)"
  by (simp only: badge_order_eq comparator_resource_order)

end
