(* ===== verification/DataPages.thy ===== *)
theory DataPages
  imports JobLists ImageList Files TagsInput Coerce
begin

text \<open>
  Datasets, models and shared files: the form for a new one (\<open>components/file/data-create-form.tsx\<close>), the
  page of one with its files, its sharing and its changes (\<open>data-detail.tsx\<close>, \<open>data-update-form.tsx\<close>,
  \<open>unselected-users.tsx\<close>, \<open>unselected-accounts.tsx\<close>), and the lists of them and of templates
  (\<open>data-view.tsx\<close>, \<open>components/layout/data-list.tsx\<close>). The name of the visitor is \<open>None\<close> while nobody is
  logged in; what a text of a date means is the parameter \<open>instant\<close>.
\<close>

section \<open>The form\<close>

datatype DataType = Type_dataset | Type_model | Type_sharefile

fun DataType_val :: "DataType \<Rightarrow> string" where
  "DataType_val Type_dataset = ''dataset''"
| "DataType_val Type_model = ''model''"
| "DataType_val Type_sharefile = ''sharefile''"

record DataFormSchema =
  df_datasetName :: string
  df_describe :: string
  df_url :: string
  df_type :: DataType
  df_tags :: "tag_item list option"
  df_weburl :: string
  df_ispublic :: bool
  df_readOnly :: bool

definition dataFormSchema :: "DataFormSchema \<Rightarrow> bool" where
  "dataFormSchema v \<longleftrightarrow> 1 \<le> length (df_datasetName v) \<and> length (df_datasetName v) \<le> 256"

definition type_or_dataset :: "DataType option \<Rightarrow> DataType" where
  "type_or_dataset ty = (case ty of None \<Rightarrow> Type_dataset | Some t \<Rightarrow> t)"

definition tag_values :: "tag_item list option \<Rightarrow> string list" where
  "tag_values tags = (case tags of None \<Rightarrow> [] | Some ts \<Rightarrow> map tg_value ts)"

text \<open>What is sent, for a new one and for a change; the type is the page's, not the form's.\<close>

definition dataset_req :: "DataType option \<Rightarrow> DataFormSchema \<Rightarrow> DatasetReq" where
  "dataset_req ty v = \<lparr>dr_describe = df_describe v, dr_name = df_datasetName v, dr_url = df_url v,
     dr_type = DataType_val (type_or_dataset ty), dr_tags = tag_values (df_tags v), dr_weburl = df_weburl v,
     dr_ispublic = df_ispublic v, dr_editable = (\<not> df_readOnly v)\<rparr>"

definition data_blank :: "DataType option \<Rightarrow> DataFormSchema" where
  "data_blank ty = \<lparr>df_datasetName = [], df_describe = [], df_url = [], df_type = type_or_dataset ty,
     df_tags = Some [], df_weburl = [], df_ispublic = True, df_readOnly = True\<rparr>"

text \<open>The effect of the page on the blank form: a shared file is private and can be written.\<close>

definition data_defaults :: "DataType option \<Rightarrow> DataFormSchema" where
  "data_defaults ty =
     (if ty = Some Type_sharefile then (data_blank ty)\<lparr>df_ispublic := False, df_readOnly := False\<rparr> else data_blank ty)"

definition data_onSubmit :: "DataType option \<Rightarrow> DataFormSchema \<Rightarrow> http_request option" where
  "data_onSubmit ty v = (if dataFormSchema v then Some (apiDatasetCreate (dataset_req ty v)) else None)"

text \<open>
  The inputs. The form for a new one has a switch for who may see it and, as tags and the address of a
  repository, hides it for shared files; the form for changes has no such switch.
\<close>

datatype data_input =
    Data_name string | Data_describe string | Data_url string | Data_tags "tag_item list" | Data_weburl string | Data_public bool

fun data_input_set :: "data_input \<Rightarrow> DataFormSchema \<Rightarrow> DataFormSchema" where
  "data_input_set (Data_name x) v = v\<lparr>df_datasetName := x\<rparr>"
| "data_input_set (Data_describe x) v = v\<lparr>df_describe := x\<rparr>"
| "data_input_set (Data_url x) v = v\<lparr>df_url := x\<rparr>"
| "data_input_set (Data_tags ts) v = v\<lparr>df_tags := Some ts\<rparr>"
| "data_input_set (Data_weburl x) v = v\<lparr>df_weburl := x\<rparr>"
| "data_input_set (Data_public b) v = v\<lparr>df_ispublic := b\<rparr>"

fun create_input :: "DataType option \<Rightarrow> data_input \<Rightarrow> bool" where
  "create_input ty (Data_tags ts) \<longleftrightarrow> ty \<noteq> Some Type_sharefile"
| "create_input ty (Data_weburl x) \<longleftrightarrow> ty \<noteq> Some Type_sharefile"
| "create_input ty (Data_public b) \<longleftrightarrow> ty \<noteq> Some Type_sharefile"
| "create_input ty _ \<longleftrightarrow> True"

fun update_input :: "data_input \<Rightarrow> bool" where
  "update_input (Data_public b) \<longleftrightarrow> False"
| "update_input _ \<longleftrightarrow> True"

text \<open>Choosing an address: something is selected, a folder where files are not allowed; its id is taken.\<close>

definition select_enabled :: "bool \<Rightarrow> tree_item option \<Rightarrow> bool" where
  "select_enabled allowSelectFile content =
     (case content of None \<Rightarrow> False | Some i \<Rightarrow> allowSelectFile \<or> fi_isdir (ti_data i))"

definition choose_url :: "bool \<Rightarrow> tree_item option \<Rightarrow> data_input option" where
  "choose_url allowSelectFile content =
     (if select_enabled allowSelectFile content then map_option (\<lambda>i. Data_url (ti_path i)) content else None)"

section \<open>The page of one\<close>

text \<open>The answer is a list; the number in the path is read by \<open>Number\<close>, 0 when it is none.\<close>

definition dataset_request :: "string \<Rightarrow> http_request" where
  "dataset_request id' = apiV1Get (''dataset/detail/'' @ num_str (num_or_zero (string_number id'))) []"

definition dataset_loaded :: "string \<Rightarrow> IDataset list \<Rightarrow> string \<times> IDataset option" where
  "dataset_loaded id' res =
     (case res of [] \<Rightarrow> (id', None)
      | d # _ \<Rightarrow> (if ds_name d = [] then id' else ds_name d, Some d))"

text \<open>The pages that show a dataset: those of the three kinds, and one for administrators.\<close>

datatype data_page = Datasets_page | Models_page | Blocks_page | Admin_data_page

fun page_type :: "data_page \<Rightarrow> DataType" where
  "page_type Datasets_page = Type_dataset"
| "page_type Models_page = Type_model"
| "page_type Blocks_page = Type_sharefile"
| "page_type Admin_data_page = Type_dataset"

definition datasetId :: "IDataset option \<Rightarrow> int" where
  "datasetId data = (case data of None \<Rightarrow> 0 | Some d \<Rightarrow> ds_id d)"

definition activeTab :: "string option \<Rightarrow> string" where
  "activeTab currentTab = (case currentTab of None \<Rightarrow> ''datasetinfo'' | Some t \<Rightarrow> if t = [] then ''datasetinfo'' else t)"

text \<open>Only what the shown tab needs is asked for.\<close>

definition tab_query :: "string option \<Rightarrow> int \<Rightarrow> string \<Rightarrow> http_request option" where
  "tab_query currentTab i pathname = (let t = activeTab currentTab in
     if t = ''usershare'' then Some (apiListUsersInDataset i)
     else if t = ''accountshare'' then Some (apiListQueuesInDataset i)
     else if t = ''datasetFiles'' then Some (apiGetDatasetFiles i pathname)
     else None)"

definition edit_offered :: "string option \<Rightarrow> IDataset option \<Rightarrow> bool \<Rightarrow> bool" where
  "edit_offered user data isAdminMode \<longleftrightarrow> user = map_option (\<lambda>d. ui_username (ds_userInfo d)) data \<or> isAdminMode"

text \<open>The data a change begins with, each time the form is opened.\<close>

definition initialData :: "DataType \<Rightarrow> IDataset option \<Rightarrow> DataFormSchema" where
  "initialData ty data = (case data of
     None \<Rightarrow> \<lparr>df_datasetName = [], df_describe = [], df_url = [], df_type = ty, df_tags = Some [], df_weburl = [],
       df_ispublic = True, df_readOnly = True\<rparr>
   | Some d \<Rightarrow> \<lparr>df_datasetName = ds_name d, df_describe = ds_describe d, df_url = ds_url d, df_type = ty,
       df_tags = Some (map (\<lambda>t. \<lparr>tg_value = t, tg_label = None\<rparr>) (ex_tag (ds_extra d))),
       df_weburl = ex_weburl (ds_extra d), df_ispublic = True, df_readOnly = (\<not> ex_editable (ds_extra d))\<rparr>)"

definition update_onSubmit :: "DataType \<Rightarrow> IDataset option \<Rightarrow> DataFormSchema \<Rightarrow> http_request option" where
  "update_onSubmit ty data v =
     (if dataFormSchema v then Some (apiDatasetUpdate (dataset_req (Some ty) v) (datasetId data)) else None)"

definition delete_dataset :: "IDataset option \<Rightarrow> http_request" where
  "delete_dataset data = apiDatasetDelete (datasetId data)"

subsection \<open>Files\<close>

definition strip_end :: "string \<Rightarrow> string" where
  "strip_end s = rev (dropWhile (\<lambda>c. c = CHR ''/'') (rev s))"

definition enter_folder :: "string \<Rightarrow> string \<Rightarrow> string" where
  "enter_folder name prevPath = strip_end prevPath @ ''/'' @ name"

definition handleBackClick :: "string \<Rightarrow> string" where
  "handleBackClick pathname =
     (if pathname \<noteq> []
      then let pathParts = path_parts pathname in
           if 1 < length pathParts then ''/'' @ join_with ''/'' (butlast pathParts) else []
      else pathname)"

datatype folder_click = Enter string | Back

fun folder_next :: "folder_click \<Rightarrow> string \<Rightarrow> string" where
  "folder_next (Enter name) p = enter_folder name p"
| "folder_next Back p = handleBackClick p"

subsection \<open>Sharing\<close>

text \<open>The field to choose from (\<open>components/custom/select-box.tsx\<close>): choosing again removes.\<close>

definition select_box :: "string \<Rightarrow> string list option \<Rightarrow> string list" where
  "select_box selectedValue value' = (case value' of
     None \<Rightarrow> [selectedValue]
   | Some vs \<Rightarrow> if selectedValue \<in> set vs then filter (\<lambda>v. v \<noteq> selectedValue) vs else vs @ [selectedValue])"

text \<open>What is shown of the chosen values: those that are still offered, in their order.\<close>

definition select_shown :: "(string \<times> 'a) list \<Rightarrow> string list \<Rightarrow> (string \<times> 'a) list" where
  "select_shown options value' = filter (\<lambda>p. fst p \<in> set value') options"

definition share_user_options :: "IUserAttributes list \<Rightarrow> (string \<times> string \<times> string) list" where
  "share_user_options us = map (\<lambda>u. (int_str (ua_id u), ua_nickname u, ua_name u)) us"

definition share_account_options :: "QueueDatasetGetResp list \<Rightarrow> (string \<times> string) list" where
  "share_account_options qs = map (\<lambda>q. (int_str (dqr_id q), dqr_name q)) qs"

definition share_with_users :: "bool \<Rightarrow> int \<Rightarrow> string list \<Rightarrow> http_request" where
  "share_with_users isAdmin i users = apiV1Post ((if isAdmin then ''admin/'' else '''') @ ''dataset/share/user'')
     (Some (JObj [(''datasetID'', jint i), (''userIDs'', JArr (map (json_of_number \<circ> parse_int) users))]))"

definition share_with_accounts :: "bool \<Rightarrow> int \<Rightarrow> string list \<Rightarrow> http_request" where
  "share_with_accounts isAdmin i queueIds = apiV1Post ((if isAdmin then ''admin/'' else '''') @ ''dataset/share/queue'')
     (Some (JObj [(''queueIDs'', JArr (map (json_of_number \<circ> parse_int) queueIds)), (''datasetID'', jint i)]))"

definition cancel_user :: "bool \<Rightarrow> int \<Rightarrow> int \<Rightarrow> http_request" where
  "cancel_user isAdmin i userId =
     (if isAdmin then apiAdminCancelShareWithUser \<lparr>csu_datasetID = i, csu_userID = userId\<rparr>
      else apiCancelShareWithUser \<lparr>csu_datasetID = i, csu_userID = userId\<rparr>)"

definition cancel_account :: "bool \<Rightarrow> int \<Rightarrow> int \<Rightarrow> http_request" where
  "cancel_account isAdmin i queueId =
     (if isAdmin then apiAdminCancelShareWithQueue \<lparr>csq_datasetID = i, csq_queueID = queueId\<rparr>
      else apiCancelShareWithQueue \<lparr>csq_datasetID = i, csq_queueID = queueId\<rparr>)"

text \<open>After accounts were given access the choice is empty, after users it stays.\<close>

definition chosen_after :: "bool \<Rightarrow> string list \<Rightarrow> string list" where
  "chosen_after accounts chosen = (if accounts then [] else chosen)"

section \<open>The lists\<close>

record DataItem =
  di_item :: int
  di_name :: string
  di_desc :: string
  di_createdAt :: string
  di_tag :: "string list"
  di_template :: "string option"
  di_owner :: IUserInfo

definition getLinkOptions :: "string \<Rightarrow> string" where
  "getLinkOptions sourceType =
     (if sourceType = ''model'' then ''/portal/data/models/$id''
      else if sourceType = ''sharefile'' then ''/portal/data/blocks/$id''
      else ''/portal/data/datasets/$id'')"

definition data_items :: "DataType option \<Rightarrow> IDataset list option \<Rightarrow> DataItem list" where
  "data_items sourceType data = (case data of None \<Rightarrow> []
   | Some ds \<Rightarrow> map (\<lambda>d. \<lparr>di_item = ds_id d, di_name = ds_name d, di_desc = ds_describe d, di_createdAt = ds_createdAt d,
         di_tag = ex_tag (ds_extra d), di_template = None, di_owner = ds_userInfo d\<rparr>)
       (filter (\<lambda>d. Some (ds_type d) = map_option DataType_val sourceType) ds))"

definition template_items :: "JobTemplate list option \<Rightarrow> DataItem list" where
  "template_items data = (case data of None \<Rightarrow> []
   | Some ts \<Rightarrow> map (\<lambda>t. \<lparr>di_item = jt_id t, di_name = jt_name t, di_desc = jt_describe t, di_createdAt = jt_createdAt t,
       di_tag = [], di_template = Some (jt_template t), di_owner = jt_userInfo t\<rparr>) ts)"

datatype owner_filter = All_owners | Own_items | Items_of_others

text \<open>The order, the tag (\<open>None\<close> for all), the text searched for and whose items are shown.\<close>

record data_view =
  dv_sort :: string
  dv_modelType :: "string option"
  dv_searchTerm :: string
  dv_ownerFilter :: owner_filter

definition data_view_start :: data_view where
  "data_view_start = \<lparr>dv_sort = ''ascending'', dv_modelType = None, dv_searchTerm = [], dv_ownerFilter = All_owners\<rparr>"

definition tags_offered :: "DataItem list \<Rightarrow> string list" where
  "tags_offered items = js_set (concat (map di_tag items))"

definition item_order :: "(string \<Rightarrow> int) \<Rightarrow> string \<Rightarrow> DataItem \<Rightarrow> DataItem \<Rightarrow> int" where
  "item_order instant s a b =
     (if s = ''descending'' then instant (di_createdAt a) - instant (di_createdAt b)
      else instant (di_createdAt b) - instant (di_createdAt a))"

definition owner_ok :: "owner_filter \<Rightarrow> string option \<Rightarrow> DataItem \<Rightarrow> bool" where
  "owner_ok f user i = (case f of All_owners \<Rightarrow> True
     | Own_items \<Rightarrow> user = Some (ui_username (di_owner i))
     | Items_of_others \<Rightarrow> user \<noteq> Some (ui_username (di_owner i)))"

definition filteredItems :: "(string \<Rightarrow> int) \<Rightarrow> string option \<Rightarrow> data_view \<Rightarrow> DataItem list \<Rightarrow> DataItem list" where
  "filteredItems instant user v items =
     filter (owner_ok (dv_ownerFilter v) user)
      (filter (\<lambda>i. str_includes (lower (di_name i)) (lower (dv_searchTerm v)))
       (filter (\<lambda>i. case dv_modelType v of None \<Rightarrow> True | Some t \<Rightarrow> t \<in> set (di_tag i))
        (sort_by (item_order instant (dv_sort v)) items)))"

text \<open>Deleting is offered for one's own items, and only templates have it.\<close>

definition list_delete :: "string option \<Rightarrow> DataItem \<Rightarrow> http_request option" where
  "list_delete user i = (if user = Some (ui_username (di_owner i)) then Some (deleteJobTemplate (di_item i)) else None)"

definition template_link :: "DataItem \<Rightarrow> string \<times> int" where
  "template_link i = (getJobUrlFromTemplate (case di_template i of None \<Rightarrow> [] | Some t \<Rightarrow> t), di_item i)"

section \<open>Folders and their paths\<close>

text \<open>The folders that are open, from the outermost: entering adds one, going back drops the last.\<close>

fun stack_next :: "string list \<Rightarrow> folder_click \<Rightarrow> string list" where
  "stack_next ns (Enter n) = ns @ [n]"
| "stack_next ns Back = butlast ns"

definition folder_path :: "string list \<Rightarrow> string" where
  "folder_path ns = concat (map (\<lambda>n. ''/'' @ n) ns)"

definition file_name :: "string \<Rightarrow> bool" where
  "file_name n \<longleftrightarrow> n \<noteq> [] \<and> CHR ''/'' \<notin> set n"

fun click_ok :: "folder_click \<Rightarrow> bool" where
  "click_ok (Enter n) \<longleftrightarrow> file_name n"
| "click_ok Back \<longleftrightarrow> True"

lemma folder_path_simps [simp]:
  "folder_path [] = []" "folder_path (ns @ [n]) = folder_path ns @ ''/'' @ n"
  by (simp_all add: folder_path_def)

lemma folder_path_join: "ns \<noteq> [] \<Longrightarrow> folder_path ns = CHR ''/'' # join_with ''/'' ns"
proof (induction ns)
  case (Cons n ns)
  then show ?case by (cases ns) (simp_all add: folder_path_def)
qed simp

lemma strip_end_path: "list_all file_name ns \<Longrightarrow> strip_end (folder_path ns) = folder_path ns"
proof (induction ns rule: rev_induct)
  case (snoc n ns)
  then have "n \<noteq> []" "CHR ''/'' \<notin> set n" by (simp_all add: file_name_def)
  then have "last n \<noteq> CHR ''/''" using last_in_set by metis
  with \<open>n \<noteq> []\<close> show ?case by (cases n rule: rev_cases) (simp_all add: strip_end_def)
qed (simp add: strip_end_def)

lemma path_parts_folder: "list_all file_name ns \<Longrightarrow> path_parts (folder_path ns) = ns"
proof (cases "ns = []")
  case False
  assume "list_all file_name ns"
  then have "\<forall>n \<in> set ns. CHR ''/'' \<notin> set n" "filter (\<lambda>s. s \<noteq> []) ns = ns"
    by (auto simp: list_all_iff file_name_def intro: filter_True)
  with False show ?thesis by (simp add: folder_path_join path_parts_def split_join)
qed (simp add: path_parts_def)

lemma back_path: "list_all file_name ns \<Longrightarrow> handleBackClick (folder_path ns) = folder_path (butlast ns)"
proof (cases "1 < length ns")
  case True
  assume "list_all file_name ns"
  moreover from True have "ns \<noteq> []" "butlast ns \<noteq> []" by (cases ns; auto)+
  ultimately show ?thesis
    using True path_parts_folder [of ns] by (simp add: handleBackClick_def folder_path_join)
next
  case False
  assume "list_all file_name ns"
  with False show ?thesis by (cases ns) (simp_all add: handleBackClick_def path_parts_folder)
qed

lemma folder_next_path:
  "list_all file_name ns \<Longrightarrow> click_ok c \<Longrightarrow>
   folder_next c (folder_path ns) = folder_path (stack_next ns c) \<and> list_all file_name (stack_next ns c)"
  by (cases c) (auto simp: enter_folder_def strip_end_path back_path list_all_iff dest: in_set_butlastD)



section \<open>Changing a dataset\<close>

definition data_edits :: "data_input list \<Rightarrow> DataFormSchema \<Rightarrow> DataFormSchema" where
  "data_edits es v = fold data_input_set es v"

lemma update_keeps:
  "list_all update_input es \<Longrightarrow>
   df_ispublic (data_edits es v) = df_ispublic v \<and> df_readOnly (data_edits es v) = df_readOnly v"
proof (induction es arbitrary: v)
  case (Cons e es)
  then show ?case by (cases e) (simp_all add: data_edits_def)
qed (simp add: data_edits_def)


definition demo_model :: IDataset where
  "demo_model = \<lparr>ds_id = 3, ds_name = ''llm'', ds_url = ''public/llm'', ds_describe = ''d'', ds_createdAt = ''2025-01-01'',
     ds_type = ''model'', ds_extra = \<lparr>ex_tag = [''LLM''], ex_weburl = [], ex_editable = False\<rparr>,
     ds_userInfo = \<lparr>ui_username = ''li'', ui_nickname = ''Li''\<rparr>\<rparr>"


text \<open>A new shared file is private and can be written, whatever is entered; the others can only be read.\<close>

lemma new_shared_file:
  assumes "list_all (create_input ty) es"
  shows "df_readOnly (data_edits es (data_defaults ty)) \<longleftrightarrow> ty \<noteq> Some Type_sharefile"
    "ty = Some Type_sharefile \<Longrightarrow> \<not> df_ispublic (data_edits es (data_defaults ty))"
proof -
  have "df_readOnly (data_edits es v) = df_readOnly v" for v
  proof (induction es arbitrary: v)
    case (Cons e es)
    then show ?case by (cases e) (simp_all add: data_edits_def)
  qed (simp add: data_edits_def)
  then show "df_readOnly (data_edits es (data_defaults ty)) \<longleftrightarrow> ty \<noteq> Some Type_sharefile"
    by (simp add: data_defaults_def data_blank_def)
next
  assume ty: "ty = Some Type_sharefile"
  have "df_ispublic (data_edits es v) = df_ispublic v" for v
    using assms
  proof (induction es arbitrary: v)
    case (Cons e es)
    then show ?case using ty by (cases e) (simp_all add: data_edits_def)
  qed (simp add: data_edits_def)
  then show "\<not> df_ispublic (data_edits es (data_defaults ty))" using ty by (simp add: data_defaults_def)
qed

text \<open>Sharing names just the users that were chosen.\<close>

lemma shared_users:
  "share_with_users isAdmin i (map (\<lambda>u. int_str (ua_id u)) us) =
     (if isAdmin then apiAdminShareDatasetwithUser else apiShareDatasetwithUser) \<lparr>dus_datasetID = i, dus_userIDs = map ua_id us\<rparr>"
  using chosen_ids [of "map ua_id us"] by (simp add: share_with_users_def wire_defs jints_def comp_def)

lemma select_box_twice: "v \<notin> set vs \<Longrightarrow> select_box v (Some (select_box v (Some vs))) = vs"
  by (auto simp: select_box_def filter_id_conv)

lemma select_box_distinct: "distinct vs \<Longrightarrow> distinct (select_box v (Some vs))"
  by (simp add: select_box_def)

section \<open>What a list shows\<close>

interpretation item_list: comparator "item_order instant s" for instant s
  by unfold_locales (auto simp: item_order_def split: if_splits)

text \<open>A list of datasets or templates shows exactly the items with the chosen tag and owner whose names contain
  the text, in either case of letters, none lost and none twice; the order called ascending, which is the
  first one, has the newest on top, the other the oldest.\<close>

lemma list_shows:
  shows "mset (filteredItems instant user v items) =
      filter_mset (\<lambda>i. owner_ok (dv_ownerFilter v) user i \<and> str_includes (lower (di_name i)) (lower (dv_searchTerm v)) \<and>
        (dv_modelType v = None \<or> (\<exists>t \<in> set (di_tag i). dv_modelType v = Some t))) (mset items) \<and>
    sorted_wrt (\<lambda>a b. if dv_sort v = ''descending'' then instant (di_createdAt a) \<le> instant (di_createdAt b)
      else instant (di_createdAt b) \<le> instant (di_createdAt a)) (filteredItems instant user v items) \<and>
    filteredItems instant user data_view_start items = sort_by (item_order instant ''ascending'') items"
proof -
  have "mset (filteredItems instant user v items) =
      filter_mset (\<lambda>i. owner_ok (dv_ownerFilter v) user i \<and> str_includes (lower (di_name i)) (lower (dv_searchTerm v)) \<and>
        (dv_modelType v = None \<or> (\<exists>t \<in> set (di_tag i). dv_modelType v = Some t))) (mset items)"
    by (cases "dv_modelType v") (simp_all add: filteredItems_def mset_filter filter_filter_mset conj_ac)
  moreover have "sorted_wrt (\<lambda>a b. item_order instant (dv_sort v) a b \<le> 0) (filteredItems instant user v items)"
    by (simp add: filteredItems_def sorted_wrt_filter item_list.sorted_sort_by)
  then have "sorted_wrt (\<lambda>a b. if dv_sort v = ''descending'' then instant (di_createdAt a) \<le> instant (di_createdAt b)
      else instant (di_createdAt b) \<le> instant (di_createdAt a)) (filteredItems instant user v items)"
    by (rule sorted_wrt_mono_rel [rotated]) (simp add: item_order_def split: if_splits)
  moreover have "filteredItems instant user data_view_start items = sort_by (item_order instant ''ascending'') items"
    by (simp add: filteredItems_def data_view_start_def owner_ok_def str_includes_def lower_def)
  ultimately show ?thesis by blast
qed

end
