(* ===== verification/JobAccess.thy ===== *)
theory JobAccess
  imports JobLists Client Machine
begin

text \<open>
  Reaching into a running job: the dialogs over a pod (\<open>hooks/use-namespaced-state.ts\<close>,
  \<open>components/codeblock/pod-container-dialog.tsx\<close>), the terminal (\<open>terminal-dialog.tsx\<close>), the rules for
  external access (\<open>components/job/detail/ingress-panel.tsx\<close>, \<open>nodeport-panel.tsx\<close>), SSH
  (\<open>s-s-h-port-dialog.tsx\<close>) and the page of a notebook (\<open>routes/ingress/jupyter.$name.tsx\<close>).
\<close>

section \<open>Dialogs over a pod\<close>

text \<open>
  \<open>useNamespacedState\<close>: after each rendering the two effects run if what they depend on has changed;
  what they set is rendered again. The fuel counts renderings.
\<close>

record ns_state =
  ns_name :: "(string \<times> string) option"
  ns_isOpen :: bool

definition ns_start :: ns_state where "ns_start = \<lparr>ns_name = None, ns_isOpen = False\<rparr>"

definition ns_effects :: "ns_state \<Rightarrow> ns_state \<Rightarrow> ns_state" where
  "ns_effects prev s =
     \<lparr>ns_name = (if ns_isOpen s \<noteq> ns_isOpen prev \<and> \<not> ns_isOpen s then None else ns_name s),
      ns_isOpen = (if ns_name s \<noteq> ns_name prev \<and> ns_name s \<noteq> None then True else ns_isOpen s)\<rparr>"

fun ns_settle :: "nat \<Rightarrow> ns_state \<Rightarrow> ns_state \<Rightarrow> ns_state option" where
  "ns_settle 0 prev s = None"
| "ns_settle (Suc fuel) prev s =
     (let s' = ns_effects prev s in if s' = s then Some s else ns_settle fuel s s')"

datatype ns_event = Show_pod "string \<times> string" | Set_open bool

fun ns_apply :: "ns_event \<Rightarrow> ns_state \<Rightarrow> ns_state" where
  "ns_apply (Show_pod p) s = s\<lparr>ns_name := Some p\<rparr>"
| "ns_apply (Set_open b) s = s\<lparr>ns_isOpen := b\<rparr>"

definition ns_next :: "ns_state \<Rightarrow> ns_event \<Rightarrow> ns_state option" where
  "ns_next s e = ns_settle 4 s (ns_apply e s)"

text \<open>The containers of a pod, those without a name left out, and the one that is selected.\<close>

definition pod_containers :: "ContainerInfo list \<Rightarrow> ContainerInfo list" where
  "pod_containers res = filter (\<lambda>c. ci_name c \<noteq> []) res"

definition containers_query :: "string option \<Rightarrow> string option \<Rightarrow> http_request option" where
  "containers_query ns podName =
     (if ns \<notin> {None, Some []} \<and> podName \<notin> {None, Some []} then Some (apiGetPodContainers ns podName) else None)"

definition first_selected :: "ContainerInfo list \<Rightarrow> ContainerInfo option \<Rightarrow> ContainerInfo option" where
  "first_selected containers prev =
     (case find (\<lambda>c. \<not> ci_isInitContainer c) containers of
        None \<Rightarrow> prev
      | Some c \<Rightarrow> (case prev of None \<Rightarrow> Some c | Some p \<Rightarrow> Some p))"

definition select_container :: "string \<Rightarrow> ContainerInfo list \<Rightarrow> ContainerInfo option \<Rightarrow> ContainerInfo option" where
  "select_container name containers prev = (case find (\<lambda>c. ci_name c = name) containers of None \<Rightarrow> prev | Some c \<Rightarrow> Some c)"

datatype container_status = Container_running | Container_terminated | Container_waiting

definition container_status_of :: "ContainerInfo \<Rightarrow> container_status" where
  "container_status_of c =
     (if truthy (jget (ci_state c) ''running'') then Container_running
      else if truthy (jget (ci_state c) ''terminated'') then Container_terminated
      else Container_waiting)"

text \<open>\<open>utils/formatter.ts\<close>: the last two parts of a link, the last one.\<close>

definition last_parts :: "nat \<Rightarrow> string list \<Rightarrow> string list" where
  "last_parts n xs = drop (length xs - n) xs"

definition shortenImageName :: "string \<Rightarrow> string" where
  "shortenImageName imageName =
     replace_first ''docker.io/'' [] (join_with ''/'' (last_parts 2 (split_char (CHR ''/'') imageName)))"

definition shortestImageName :: "string \<Rightarrow> string" where
  "shortestImageName imageName = join_with ''/'' (last_parts 1 (split_char (CHR ''/'') imageName))"

section \<open>The terminal\<close>

definition buildWebSocketUrl :: "bool \<Rightarrow> string \<Rightarrow> strobj \<Rightarrow> string \<Rightarrow> string \<Rightarrow> string \<Rightarrow> string \<Rightarrow> string" where
  "buildWebSocketUrl https host ls apiBase ns podName containerName =
     (if https then ''wss'' else ''ws'') @ ''://'' @ host @ apiBase @ ''/api/v1/websocket/namespaces/'' @ ns
     @ ''/pods/'' @ podName @ ''/containers/'' @ containerName @ ''/terminal?token='' @ stored ls REFRESH_TOKEN_KEY"

datatype ws_state = Ws_connecting | Ws_open | Ws_closed

datatype terminal_message = Resize_message int int | Stdin_message string

definition terminal_json :: "terminal_message \<Rightarrow> json" where
  "terminal_json m = (case m of
     Resize_message c r \<Rightarrow> JObj [(''op'', JStr ''resize''), (''cols'', jint c), (''rows'', jint r)]
   | Stdin_message d \<Rightarrow> JObj [(''op'', JStr ''stdin''), (''data'', JStr d)])"

text \<open>
  The socket, what was sent through it and what is written to the screen; the size of the screen and the
  last size the debounced sending was called with.
\<close>

datatype screen_text = From_server string | Socket_error | Connection_closed

record terminal =
  tm_ready :: ws_state
  tm_sent :: "terminal_message list"
  tm_screen :: "screen_text list"
  tm_size :: "int \<times> int"
  tm_pending :: "(int \<times> int) option"

definition terminal_start :: "terminal \<Rightarrow> bool" where
  "terminal_start t \<longleftrightarrow> tm_ready t = Ws_connecting \<and> tm_sent t = [] \<and> tm_screen t = [] \<and> tm_pending t = None"

definition send_message :: "terminal_message \<Rightarrow> terminal \<Rightarrow> terminal" where
  "send_message m t = (if tm_ready t = Ws_open then t\<lparr>tm_sent := tm_sent t @ [m]\<rparr> else t)"

datatype terminal_event =
    Ws_opened | Ws_message string | Ws_failed | Ws_close | Typed string | Resized int int | Debounced | Unmounted

inductive terminal_step :: "terminal \<Rightarrow> terminal_event \<Rightarrow> terminal \<Rightarrow> bool" where
  tm_open: "tm_ready t = Ws_connecting \<Longrightarrow> terminal_step t Ws_opened
    (send_message (Resize_message (fst (tm_size t)) (snd (tm_size t))) (t\<lparr>tm_ready := Ws_open\<rparr>))"
| tm_message: "tm_ready t = Ws_open \<Longrightarrow> terminal_step t (Ws_message d) (t\<lparr>tm_screen := tm_screen t @ [From_server d]\<rparr>)"
| tm_failed: "tm_ready t \<noteq> Ws_closed \<Longrightarrow> terminal_step t Ws_failed (t\<lparr>tm_screen := tm_screen t @ [Socket_error]\<rparr>)"
| tm_close: "tm_ready t \<noteq> Ws_closed \<Longrightarrow> terminal_step t Ws_close
    (t\<lparr>tm_ready := Ws_closed, tm_screen := tm_screen t @ [Connection_closed]\<rparr>)"
| tm_typed: "terminal_step t (Typed d) (send_message (Stdin_message d) t)"
| tm_resized: "terminal_step t (Resized c r) (t\<lparr>tm_size := (c, r), tm_pending := Some (c, r)\<rparr>)"
| tm_debounced: "tm_pending t = Some (c, r) \<Longrightarrow>
    terminal_step t Debounced (send_message (Resize_message c r) (t\<lparr>tm_pending := None\<rparr>))"
| tm_unmounted: "terminal_step t Unmounted (t\<lparr>tm_ready := Ws_closed\<rparr>)"

inductive_simps terminal_step_simps:
  "terminal_step t Ws_opened t'"
  "terminal_step t (Ws_message d) t'"
  "terminal_step t Ws_failed t'"
  "terminal_step t Ws_close t'"
  "terminal_step t (Typed d) t'"
  "terminal_step t (Resized c r) t'"
  "terminal_step t Debounced t'"
  "terminal_step t Unmounted t'"

text \<open>What is typed between the opening and the closing of the socket.\<close>

fun typed_while :: "ws_state \<Rightarrow> terminal_event list \<Rightarrow> string list" where
  "typed_while r [] = []"
| "typed_while r (Ws_opened # es) = typed_while Ws_open es"
| "typed_while r (Ws_close # es) = typed_while Ws_closed es"
| "typed_while r (Unmounted # es) = typed_while Ws_closed es"
| "typed_while r (Typed d # es) = (if r = Ws_open then d # typed_while r es else typed_while r es)"
| "typed_while r (e # es) = typed_while r es"

fun stdin_of :: "terminal_message list \<Rightarrow> string list" where
  "stdin_of [] = []"
| "stdin_of (Stdin_message d # ms) = d # stdin_of ms"
| "stdin_of (Resize_message c r # ms) = stdin_of ms"

section \<open>Rules for external access\<close>

text \<open>Both panels have the form of a forwarded port: a name and a port, empty or a number.\<close>

definition rule_blank :: forward_row where "rule_blank = \<lparr>fr_name = [], fr_port = Some 0\<rparr>"

definition rule_ok :: "forward_row \<Rightarrow> bool" where
  "rule_ok v \<longleftrightarrow> lower_name (fr_name v) \<and> length (fr_name v) \<le> 20 \<and>
     (case fr_port v of None \<Rightarrow> False | Some p \<Rightarrow> 0 < p)"

definition rules_query :: "string \<Rightarrow> string \<Rightarrow> http_request option" where
  "rules_query ns name = (if ns \<noteq> [] \<and> name \<noteq> [] then Some (apiGetPodIngresses ns name) else None)"

definition nodeports_query :: "(string \<times> string) option \<Rightarrow> http_request option" where
  "nodeports_query namespacedName = map_option (\<lambda>(ns, name). apiGetPodNodeports ns name) namespacedName"

record rule_panel =
  rp_isEditDialogOpen :: bool
  rp_form :: forward_row

definition handleAddRule :: "rule_panel \<Rightarrow> rule_panel" where
  "handleAddRule p = \<lparr>rp_isEditDialogOpen = True, rp_form = rule_blank\<rparr>"

definition rule_created :: "bool \<Rightarrow> rule_panel \<Rightarrow> rule_panel" where
  "rule_created succeeded p = (if succeeded then p\<lparr>rp_isEditDialogOpen := False\<rparr> else p)"

definition onSubmitIngress :: "string \<times> string \<Rightarrow> forward_row \<Rightarrow> http_request option" where
  "onSubmitIngress pod v =
     (if rule_ok v
      then Some (apiCreatePodIngress (fst pod) (snd pod) \<lparr>pm_name = fr_name v, pm_port = the (fr_port v)\<rparr>) else None)"

definition onSubmitNodeport :: "string \<times> string \<Rightarrow> forward_row \<Rightarrow> http_request option" where
  "onSubmitNodeport pod v =
     (if rule_ok v
      then Some (apiCreatePodNodeport (fst pod) (snd pod) \<lparr>pnm_name = fr_name v, pnm_containerPort = the (fr_port v)\<rparr>)
      else None)"

text \<open>Deleting sends the rule as it is listed, with all its fields.\<close>

definition handleDeleteIngress :: "string \<times> string \<Rightarrow> PodIngress \<Rightarrow> http_request" where
  "handleDeleteIngress pod i =
     apiV1Delete (''namespaces/'' @ fst pod @ ''/pods/'' @ snd pod @ ''/ingresses'')
       (Some (JObj [(''data'', JObj [(''name'', JStr (pi_name i)), (''port'', jint (pi_port i)), (''prefix'', JStr (pi_prefix i))])]))"

definition handleDeleteNodeport :: "string \<times> string \<Rightarrow> PodNodeport \<Rightarrow> http_request" where
  "handleDeleteNodeport pod n =
     apiV1Delete (''namespaces/'' @ fst pod @ ''/pods/'' @ snd pod @ ''/nodeports'')
       (Some (JObj [(''data'', JObj [(''name'', JStr (pn_name n)), (''containerPort'', jint (pn_containerPort n)),
         (''address'', JStr (pn_address n)), (''nodePort'', jint (pn_nodePort n))])]))"

definition nodeport_urls :: "PodNodeport \<Rightarrow> string \<times> string" where
  "nodeport_urls n = (let url = pn_address n @ '':'' @ int_str (pn_nodePort n) in (url, ''http://'' @ url))"

text \<open>A copied link is opened as it is if it begins with \<open>http\<close>.\<close>

definition command_link :: "string \<Rightarrow> string" where
  "command_link command = (if starts_with command ''http'' then command else ''http://'' @ command)"

section \<open>SSH\<close>

record ssh_dialog =
  sd_internalOpen :: bool
  sd_sshInfo :: "SSHInfo option"

definition dialogOpen :: "bool option \<Rightarrow> ssh_dialog \<Rightarrow> bool" where
  "dialogOpen opened s = (case opened of None \<Rightarrow> sd_internalOpen s | Some b \<Rightarrow> b)"

text \<open>Opening is told to the dialog itself, or, where another component keeps it, to that component.\<close>

definition handleOpenChange :: "bool option \<Rightarrow> bool \<Rightarrow> ssh_dialog \<Rightarrow> ssh_dialog \<times> bool option" where
  "handleOpenChange opened b s =
     (case opened of None \<Rightarrow> (s\<lparr>sd_internalOpen := b\<rparr>, None) | Some _ \<Rightarrow> (s, Some b))"

definition press_ssh :: "string \<Rightarrow> string \<Rightarrow> bool option \<Rightarrow> ssh_dialog \<Rightarrow> http_request option \<times> ssh_dialog \<times> bool option" where
  "press_ssh u jobName opened s =
     (case sd_sshInfo s of
        None \<Rightarrow> (Some (apiOpenSSH u jobName), s, None)
      | Some i \<Rightarrow> (None, handleOpenChange opened True s))"

definition ssh_onSuccess :: "bool option \<Rightarrow> SSHInfo \<Rightarrow> ssh_dialog \<Rightarrow> ssh_dialog \<times> bool option" where
  "ssh_onSuccess opened i s = handleOpenChange opened True (s\<lparr>sd_sshInfo := Some i\<rparr>)"

definition ssh_commands :: "string \<Rightarrow> SSHInfo \<Rightarrow> string \<times> string" where
  "ssh_commands userName i =
     (''ssh '' @ userName @ ''@'' @ si_ip i @ '' -p '' @ si_port i, userName @ ''@'' @ si_ip i @ '':'' @ si_port i)"

section \<open>The page of a notebook\<close>

record jupyter_info =
  jy_baseURL :: string
  jy_fullURL :: string
  jy_token :: string
  jy_podName :: string
  jy_namespace :: string

text \<open>The loader: no token, a server that does not answer well, no server. In development it asks for nothing.\<close>

datatype jupyter_error = No_token | Not_ready | Other_error

datatype ping_answer = Ping_ok | Ping_http_error | Ping_failed

definition ping_url :: "jupyter_info \<Rightarrow> string" where
  "ping_url d = jy_fullURL d @ ''/api/status?token='' @ jy_token d"

definition jupyter_loader :: "bool \<Rightarrow> (jupyter_error + jupyter_info) \<Rightarrow> (string \<Rightarrow> ping_answer) \<Rightarrow> jupyter_error + unit" where
  "jupyter_loader DEV res ping =
     (case res of
        Inl e \<Rightarrow> Inl e
      | Inr d \<Rightarrow>
          if jy_token d = [] then Inl No_token
          else if DEV then Inr ()
          else (case ping (ping_url d) of
                  Ping_ok \<Rightarrow> Inr () | Ping_http_error \<Rightarrow> Inl Not_ready | Ping_failed \<Rightarrow> Inl Other_error))"

text \<open>
  While it fails, the page counts down and reloads itself; the visitor may reload it at once. The
  \<open>n\<close>-th load has the answer \<open>loads n\<close>.
\<close>

datatype jupyter_view = Waiting_for_jupyter int | Notebook_shown

record jupyter_page =
  jp_loads :: nat
  jp_view :: jupyter_view

definition jupyter_load :: "(nat \<Rightarrow> jupyter_error + unit) \<Rightarrow> nat \<Rightarrow> jupyter_page" where
  "jupyter_load loads n = \<lparr>jp_loads = n, jp_view = (case loads n of Inl e \<Rightarrow> Waiting_for_jupyter 10 | Inr _ \<Rightarrow> Notebook_shown)\<rparr>"

definition jupyter_tick :: "(nat \<Rightarrow> jupyter_error + unit) \<Rightarrow> jupyter_page \<Rightarrow> jupyter_page" where
  "jupyter_tick loads p =
     (case jp_view p of
        Notebook_shown \<Rightarrow> p
      | Waiting_for_jupyter prev \<Rightarrow>
          if prev \<le> 1 then jupyter_load loads (Suc (jp_loads p)) else p\<lparr>jp_view := Waiting_for_jupyter (prev - 1)\<rparr>)"

definition handleRefresh_jupyter :: "(nat \<Rightarrow> jupyter_error + unit) \<Rightarrow> jupyter_page \<Rightarrow> jupyter_page" where
  "handleRefresh_jupyter loads p = jupyter_load loads (Suc (jp_loads p))"

definition snapshot_request :: "string \<Rightarrow> string \<Rightarrow> http_request" where
  "snapshot_request u name = apiJupyterSnapshot u name"

definition jupyter_logs :: "jupyter_info \<Rightarrow> string \<times> string" where
  "jupyter_logs d = (jy_namespace d, jy_podName d)"

section \<open>Copying\<close>

text \<open>\<open>useCopyToClipboard\<close>: a copy that succeeds is shown as such until two seconds after the last one.\<close>

record copy_state =
  cp_isCopied :: bool
  cp_timeout :: "int option"

definition copied_at :: "int \<Rightarrow> copy_state \<Rightarrow> copy_state" where
  "copied_at now s = \<lparr>cp_isCopied = True, cp_timeout = Some (now + 2000)\<rparr>"

definition copy_clock :: "int \<Rightarrow> copy_state \<Rightarrow> copy_state" where
  "copy_clock now s = (case cp_timeout s of
     None \<Rightarrow> s | Some t \<Rightarrow> if t \<le> now then \<lparr>cp_isCopied = False, cp_timeout = None\<rparr> else s)"

section \<open>Properties\<close>

lemma fuel_four: "(4::nat) = Suc (Suc (Suc (Suc 0)))"
  by simp

lemmas settle_simps = fuel_four ns_settle.simps ns_effects_def Let_def

text \<open>A dialog over a pod is open exactly while it has a pod: showing one opens it, closing it forgets the pod.\<close>

lemma dialog_follows_pod:
  assumes "ns_isOpen s \<longleftrightarrow> ns_name s \<noteq> None"
  shows "ns_next s (Show_pod p) = Some \<lparr>ns_name = Some p, ns_isOpen = True\<rparr>" "ns_next s (Set_open False) = Some ns_start"
proof -
  obtain n b where s: "s = \<lparr>ns_name = n, ns_isOpen = b\<rparr>" by (cases s)
  show "ns_next s (Show_pod p) = Some \<lparr>ns_name = Some p, ns_isOpen = True\<rparr>"
    using assms unfolding s ns_next_def settle_simps by (cases b; cases n) simp_all
  show "ns_next s (Set_open False) = Some ns_start"
    using assms unfolding s ns_next_def ns_start_def settle_simps by (cases b; cases n) simp_all
qed

text \<open>Rendering settles, whatever the two values were before and are now.\<close>

lemma effects_settle: "\<exists>s'. ns_settle 4 prev s = Some s'"
proof -
  obtain m b where prev: "prev = \<lparr>ns_name = m, ns_isOpen = b\<rparr>" by (cases prev)
  obtain n c where s: "s = \<lparr>ns_name = n, ns_isOpen = c\<rparr>" by (cases s)
  show ?thesis unfolding prev s settle_simps by (cases b; cases c; cases "m = n"; cases n) simp_all
qed

text \<open>A container that is shown is one that works, as long as the pod has one and none was chosen.\<close>

lemma first_container: "c \<in> set cs \<Longrightarrow> \<not> ci_isInitContainer c \<Longrightarrow>
    \<exists>d \<in> set cs. first_selected cs None = Some d \<and> \<not> ci_isInitContainer d"
proof -
  assume "c \<in> set cs" "\<not> ci_isInitContainer c"
  then obtain d where "find (\<lambda>c. \<not> ci_isInitContainer c) cs = Some d"
    by (cases "find (\<lambda>c. \<not> ci_isInitContainer c) cs") (auto simp: find_None_iff)
  moreover from this have "d \<in> set cs" "\<not> ci_isInitContainer d" by (auto simp: find_Some_iff)
  ultimately show ?thesis by (simp add: first_selected_def)
qed

definition terminal_inv :: "terminal \<Rightarrow> bool" where
  "terminal_inv t \<longleftrightarrow> (tm_ready t = Ws_connecting \<longrightarrow> tm_sent t = []) \<and>
     (tm_sent t \<noteq> [] \<longrightarrow> (\<exists>c r. hd (tm_sent t) = Resize_message c r)) \<and> (tm_ready t = Ws_open \<longrightarrow> tm_sent t \<noteq> [])"

interpretation shell: machine terminal_step terminal_start terminal_inv
proof
  show "terminal_start t \<Longrightarrow> terminal_inv t" for t by (simp add: terminal_start_def terminal_inv_def)
  show "terminal_inv t \<Longrightarrow> terminal_step t e t' \<Longrightarrow> terminal_inv t'" for t e t'
    by (cases e) (auto simp: terminal_step_simps terminal_inv_def send_message_def split: if_splits)
qed

lemma stdin_of_append [simp]: "stdin_of (ms @ ns) = stdin_of ms @ stdin_of ns"
  by (induction ms rule: stdin_of.induct) simp_all

lemma terminal_stdin:
  "runs terminal_step t es t' \<Longrightarrow> stdin_of (tm_sent t') = stdin_of (tm_sent t) @ typed_while (tm_ready t) es"
proof (induction rule: runs.induct)
  case (runs_Cons t e t1 es t')
  then show ?case by (cases e) (auto simp: terminal_step_simps send_message_def)
qed simp



lemma jupyter_waits:
  "m \<le> 9 \<Longrightarrow> (jupyter_tick loads ^^ m) \<lparr>jp_loads = n, jp_view = Waiting_for_jupyter 10\<rparr> =
     \<lparr>jp_loads = n, jp_view = Waiting_for_jupyter (10 - int m)\<rparr>"
  by (induction m) (simp_all add: jupyter_tick_def)

lemma jupyter_reloads:
  assumes "loads n = Inl e"
  shows "(jupyter_tick loads ^^ 10) (jupyter_load loads n) = jupyter_load loads (Suc n)"
proof -
  have ten: "(10::nat) = Suc 9" by simp
  have "jupyter_load loads n = \<lparr>jp_loads = n, jp_view = Waiting_for_jupyter 10\<rparr>"
    using assms by (simp add: jupyter_load_def)
  then show ?thesis
    unfolding ten funpow.simps comp_def using jupyter_waits [of 9 loads n] by (simp add: jupyter_tick_def)
qed

lemma jupyter_after_loads:
  "(\<And>i. i < k \<Longrightarrow> \<exists>e. loads i = Inl e) \<Longrightarrow> (jupyter_tick loads ^^ (10 * k)) (jupyter_load loads 0) = jupyter_load loads k"
proof (induction k)
  case (Suc k)
  obtain e where "loads k = Inl e" using Suc.prems by blast
  moreover have "(jupyter_tick loads ^^ (10 * k)) (jupyter_load loads 0) = jupyter_load loads k"
    using Suc by simp
  ultimately show ?case
    using jupyter_reloads [of loads k e] by (simp only: mult_Suc_right funpow_add comp_def)
qed simp



text \<open>The blank form of a rule is refused, and what is accepted is sent; the port has no upper bound.\<close>

lemma rules_sent:
  "onSubmitIngress pod rule_blank = None"
  "onSubmitIngress pod v = Some r \<Longrightarrow> \<exists>m. r = apiCreatePodIngress (fst pod) (snd pod) m \<and> lower_name (pm_name m) \<and>
     length (pm_name m) \<le> 20 \<and> 0 < pm_port m"
  "onSubmitIngress pod \<lparr>fr_name = ''web'', fr_port = Some 70000\<rparr> =
     Some (apiCreatePodIngress (fst pod) (snd pod) \<lparr>pm_name = ''web'', pm_port = 70000\<rparr>)"
  by (auto simp: onSubmitIngress_def rule_ok_def rule_blank_def lower_name_def split: if_splits option.splits)

text \<open>A copy is shown as such for two seconds after the last one.\<close>

lemma copied_for_two_seconds: "cp_isCopied (copy_clock now (copied_at t s)) \<longleftrightarrow> now < t + 2000"
  by (simp add: copy_clock_def copied_at_def)

end
