(* ===== verification/Dashboard.thy ===== *)
theory Dashboard
  imports Pseudonym Nodes Jobs Collections JobLists
begin

text \<open>
  What is counted and drawn: the start page (\<open>routes/portal/overview\<close>), the statistics of a finished job
  (\<open>components/metrics\<close>) and their cards (\<open>components/ui-custom/metric-card.tsx\<close>, \<open>progress-card.tsx\<close>). A text
  with characters beyond U+00FF, as a pseudonym, is the list of its UTF-16 code units; amounts are shown
  before rounding.
\<close>

section \<open>The start page\<close>

text \<open>\<open>acc[key] += 1\<close> on an object of counts, a missing one being set to 0 first.\<close>

definition bump :: "'k \<Rightarrow> ('k \<times> nat) list \<Rightarrow> ('k \<times> nat) list" where
  "bump k acc = AList.update k (Suc (case map_of acc k of None \<Rightarrow> 0 | Some n \<Rightarrow> n)) acc"

definition jobStatus :: "IJobInfo list option \<Rightarrow> (string \<times> nat) list" where
  "jobStatus data = (case data of None \<Rightarrow> []
   | Some jobs \<Rightarrow> fold (\<lambda>item. bump (JobPhase_val (ji_status item)))
       (filter (\<lambda>d. ji_status d \<noteq> JobPhase_Deleted \<and> ji_status d \<noteq> JobPhase_Freed) jobs) [])"

definition running_jobs :: "IJobInfo list \<Rightarrow> IJobInfo list" where
  "running_jobs jobs = filter (\<lambda>job. ji_status job = JobPhase_Running) jobs"

definition waiting_jobs :: "IJobInfo list \<Rightarrow> IJobInfo list" where
  "waiting_jobs jobs = filter (\<lambda>job. ji_status job = JobPhase_Pending) jobs"

text \<open>The pseudonym of a text of code units; of one with characters up to U+00FF it is that of Pseudonym.\<close>

definition pseudonym_units :: "nat list \<Rightarrow> nat list" where
  "pseudonym_units u =
     (let hash = \<bar>sint (foldl (\<lambda>h c. push_bit 5 h - h + word_of_nat c) (0 :: 32 word) u)\<bar> in
      element SURNAMES (js_mod hash (int (length SURNAMES)))
      @ element NUMBERS (js_mod (shift_right hash 8) (int (length NUMBERS)))
      @ element OBJECTS (js_mod (shift_right hash 16) (int (length OBJECTS))))"

definition owner_key :: "bool \<Rightarrow> string \<Rightarrow> nat list" where
  "owner_key hideUsername owner = (if hideUsername then generatePseudonym owner else map of_char owner)"

text \<open>Running jobs by owner: the nickname comes from the first job of an owner.\<close>

definition count_owner :: "bool \<Rightarrow> IJobInfo \<Rightarrow> (nat list \<times> string \<times> nat) list \<Rightarrow> (nat list \<times> string \<times> nat) list" where
  "count_owner hideUsername item acc = (let owner = owner_key hideUsername (ji_owner item) in
     case map_of acc owner of
       None \<Rightarrow> AList.update owner (ui_nickname (ji_userInfo item), 1) acc
     | Some (nickname, n) \<Rightarrow> AList.update owner (nickname, Suc n) acc)"

record user_slice =
  sl_id :: "nat list"
  sl_label :: "nat list"
  sl_value :: nat

definition userStatus :: "bool \<Rightarrow> IJobInfo list option \<Rightarrow> user_slice list" where
  "userStatus hideUsername data = (case data of None \<Rightarrow> []
   | Some jobs \<Rightarrow> map (\<lambda>(owner, nickname, n).
         \<lparr>sl_id = owner, sl_label = (if hideUsername then pseudonym_units owner else map of_char nickname), sl_value = n\<rparr>)
       (fold (count_owner hideUsername) (running_jobs jobs) []))"

text \<open>The name a user is shown with elsewhere (\<open>components/label/user-label.tsx\<close>).\<close>

definition displayName :: "bool \<Rightarrow> IUserInfo \<Rightarrow> nat list" where
  "displayName hideUsername info =
     (if hideUsername then generatePseudonym (ui_username info)
      else map of_char (if ui_nickname info = [] then ui_username info else ui_nickname info))"

text \<open>Accelerators in use, by kind. A count that is 0 or \<open>NaN\<close> is false and starts again.\<close>

fun num_plus :: "number \<Rightarrow> number \<Rightarrow> number" where
  "num_plus (Fin a) (Fin b) = Fin (a + b)"
| "num_plus NaN _ = NaN"
| "num_plus _ NaN = NaN"
| "num_plus PInf NInf = NaN"
| "num_plus NInf PInf = NaN"
| "num_plus PInf _ = PInf"
| "num_plus _ PInf = PInf"
| "num_plus NInf _ = NInf"
| "num_plus _ NInf = NInf"

definition add_gpu :: "string \<times> string \<Rightarrow> (string \<times> number) list \<Rightarrow> (string \<times> number) list" where
  "add_gpu kv acc =
     (if starts_with (fst kv) ''nvidia.com''
      then let key = replace_first ''nvidia.com/'' [] (fst kv) in
           AList.update key (num_plus (num_or_zero (case map_of acc key of None \<Rightarrow> NaN | Some n \<Rightarrow> n)) (parse_int (snd kv))) acc
      else acc)"

definition gpuStatus :: "IJobInfo list option \<Rightarrow> (string \<times> number) list" where
  "gpuStatus data = (case data of None \<Rightarrow> []
   | Some jobs \<Rightarrow> fold add_gpu (concat (map (\<lambda>j. case ji_resources j of None \<Rightarrow> [] | Some rs \<Rightarrow> rs) (running_jobs jobs))) [])"

definition gpuAllocation :: "ResourceInfo list option \<Rightarrow> (string \<times> number) list \<Rightarrow> number" where
  "gpuAllocation resources status = (case resources of None \<Rightarrow> Fin 0
   | Some rs \<Rightarrow>
       let total = sum_list (map rs_amount (filter (\<lambda>r. rs_type r = Some Kind_gpu) rs));
           used = fold (\<lambda>item acc. num_plus acc (snd item)) status (Fin 0) in
       if 0 < total then num_mul (num_div used (Fin (of_int total))) (Fin 100) else Fin 0)"

text \<open>Sorting the jobs by their resources.\<close>

definition gpu_keys :: "strobj \<Rightarrow> nat" where
  "gpu_keys resources = length (filter (\<lambda>k. starts_with k ''nvidia.com'') (map fst resources))"

definition by_resources :: "IJobInfo \<Rightarrow> IJobInfo \<Rightarrow> int" where
  "by_resources a b = (case (ji_resources a, ji_resources b) of
     (Some resourcesA, Some resourcesB) \<Rightarrow> int (gpu_keys resourcesA) - int (gpu_keys resourcesB) | _ \<Rightarrow> 0)"

section \<open>The statistics of a job\<close>

definition profile_fields :: "ProfileData \<Rightarrow> (string \<times> rat option) list" where
  "profile_fields d =
     [(''cpu_limit'', pf_cpu_limit d), (''mem_limit'', pf_mem_limit d),
      (''cpu_usage_avg'', pf_cpu_usage_avg d), (''cpu_usage_max'', pf_cpu_usage_max d), (''cpu_usage_std'', pf_cpu_usage_std d),
      (''cpu_mem_avg'', pf_cpu_mem_avg d), (''cpu_mem_max'', pf_cpu_mem_max d), (''cpu_mem_std'', pf_cpu_mem_std d),
      (''gpu_util_avg'', pf_gpu_util_avg d), (''gpu_util_max'', pf_gpu_util_max d), (''gpu_util_std'', pf_gpu_util_std d),
      (''gpu_mem_total'', pf_gpu_mem_total d),
      (''gpu_mem_avg'', pf_gpu_mem_avg d), (''gpu_mem_max'', pf_gpu_mem_max d), (''gpu_mem_std'', pf_gpu_mem_std d),
      (''dram_util_avg'', pf_dram_util_avg d), (''dram_util_max'', pf_dram_util_max d), (''dram_util_std'', pf_dram_util_std d),
      (''mem_copy_util_avg'', pf_mem_copy_util_avg d), (''mem_copy_util_max'', pf_mem_copy_util_max d),
      (''mem_copy_util_std'', pf_mem_copy_util_std d),
      (''sm_active_avg'', pf_sm_active_avg d), (''sm_active_max'', pf_sm_active_max d), (''sm_active_std'', pf_sm_active_std d),
      (''sm_occupancy_avg'', pf_sm_occupancy_avg d), (''sm_occupancy_max'', pf_sm_occupancy_max d),
      (''sm_occupancy_std'', pf_sm_occupancy_std d),
      (''sm_util_avg'', pf_sm_util_avg d), (''sm_util_max'', pf_sm_util_max d), (''sm_util_std'', pf_sm_util_std d),
      (''tensor_active_avg'', pf_tensor_active_avg d), (''tensor_active_max'', pf_tensor_active_max d),
      (''tensor_active_std'', pf_tensor_active_std d),
      (''fp64_active_avg'', pf_fp64_active_avg d), (''fp64_active_max'', pf_fp64_active_max d), (''fp64_active_std'', pf_fp64_active_std d),
      (''fp32_active_avg'', pf_fp32_active_avg d), (''fp32_active_max'', pf_fp32_active_max d), (''fp32_active_std'', pf_fp32_active_std d),
      (''fp16_active_avg'', pf_fp16_active_avg d), (''fp16_active_max'', pf_fp16_active_max d), (''fp16_active_std'', pf_fp16_active_std d),
      (''pcie_tx_avg'', pf_pcie_tx_avg d), (''pcie_tx_max'', pf_pcie_tx_max d),
      (''pcie_rx_avg'', pf_pcie_rx_avg d), (''pcie_rx_max'', pf_pcie_rx_max d)]"

definition metric :: "ProfileData \<Rightarrow> string \<Rightarrow> rat option" where
  "metric d k = (case map_of (profile_fields d) k of None \<Rightarrow> None | Some v \<Rightarrow> v)"

text \<open>
  A card has the metric it shows, its unit, for a bar the metric that is its full length, and whether
  the percentage is shown. A section has the metrics it looks for, and its cards.
\<close>

datatype metric_card = Progress_card (mc_field: string) string "string option" bool | Metric_card (mc_field: string) string

definition percent_card :: "string \<Rightarrow> metric_card" where
  "percent_card k = Progress_card k [] None True"

definition trio :: "string \<Rightarrow> string list" where
  "trio k = [k @ ''_avg'', k @ ''_max'', k @ ''_std'']"

definition metric_sections :: "(string list \<times> metric_card list) list" where
  "metric_sections =
     [(trio ''cpu_usage'' @ trio ''cpu_mem'',
       map (\<lambda>k. Progress_card k ''Core'' (Some ''cpu_limit'') False) (trio ''cpu_usage'') @
       map (\<lambda>k. Progress_card k ''MB'' (Some ''mem_limit'') False) (trio ''cpu_mem'')),
      (trio ''gpu_util'', map percent_card (trio ''gpu_util'')),
      (trio ''dram_util'' @ trio ''mem_copy_util'' @ [''gpu_mem_max''],
       map (\<lambda>k. Progress_card k ''MB'' (Some ''gpu_mem_total'') False) (trio ''gpu_mem'') @
       map percent_card (trio ''dram_util'' @ trio ''mem_copy_util'')),
      (trio ''sm_active'' @ trio ''sm_occupancy'' @ [''sm_util_std''],
       map percent_card (trio ''sm_active'' @ trio ''sm_occupancy'') @ map (\<lambda>k. Metric_card k []) (trio ''sm_util'')),
      (trio ''tensor_active'', map percent_card (trio ''tensor_active'')),
      (trio ''fp64_active'' @ trio ''fp32_active'' @ trio ''fp16_active'',
       map percent_card (trio ''fp64_active'' @ trio ''fp32_active'' @ trio ''fp16_active'')),
      ([''pcie_tx_avg'', ''pcie_tx_max'', ''pcie_rx_avg'', ''pcie_rx_max''],
       map (\<lambda>k. Metric_card k ''MB/s'') [''pcie_tx_avg'', ''pcie_tx_max'', ''pcie_rx_avg'', ''pcie_rx_max''])]"

definition section_cards :: "ProfileData \<Rightarrow> string list \<times> metric_card list \<Rightarrow> metric_card list" where
  "section_cards d s =
     (if list_ex (\<lambda>k. metric d k \<noteq> None) (fst s) then filter (\<lambda>c. metric d (mc_field c) \<noteq> None) (snd s) else [])"

definition dashboard :: "IJupyterDetail \<Rightarrow> metric_card list" where
  "dashboard data = (case jd_profileData data of None \<Rightarrow> [] | Some d \<Rightarrow> concat (map (section_cards d) metric_sections))"

definition containsBaseMetrics :: "ProfileData \<Rightarrow> bool" where
  "containsBaseMetrics d \<longleftrightarrow> list_ex (\<lambda>k. metric d k \<noteq> None) (trio ''cpu_usage'' @ trio ''cpu_mem'')"

subsection \<open>Cards\<close>

definition mb_to_gb :: "rat \<Rightarrow> string \<Rightarrow> rat \<times> string" where
  "mb_to_gb value' unit' =
     (if starts_with unit' ''MB'' \<and> 1024 < value' then (value' / 1024, replace_first ''MB'' ''GB'' unit') else (value', unit'))"

definition percentage :: "rat \<Rightarrow> rat option \<Rightarrow> number" where
  "percentage value' mx = num_mul (num_div (Fin value') (Fin (case mx of None \<Rightarrow> 1 | Some m \<Rightarrow> m))) (Fin 100)"

datatype card_text = Percent_text number | Amount_text rat string

definition progress_text :: "rat \<Rightarrow> rat option \<Rightarrow> string \<Rightarrow> bool \<Rightarrow> card_text" where
  "progress_text value' mx unit' showPercentage =
     (if showPercentage then Percent_text (percentage value' mx)
      else (let (v, u) = mb_to_gb value' unit' in Amount_text v u))"

definition bar_shown :: "rat \<Rightarrow> rat option \<Rightarrow> bool" where
  "bar_shown value' mx \<longleftrightarrow> num_less (Fin (1/10)) (percentage value' mx)"

text \<open>
  \<open>MetricCard\<close> changes its arguments inside \<open>useMemo\<close>: the rendering that computes the text shows the
  changed unit, the next ones find the text in the memory and show the unit they were given.
\<close>

type_synonym metric_memo = "((rat \<times> string) \<times> rat) option"

definition render_metric :: "rat \<Rightarrow> string \<Rightarrow> metric_memo \<Rightarrow> (rat \<times> string) \<times> metric_memo" where
  "render_metric value' unit' memo =
     (case memo of
        Some (deps, valueStr) \<Rightarrow>
          if deps = (value', unit') then ((valueStr, unit'), memo)
          else (let (v, u) = mb_to_gb value' unit' in ((v, u), Some ((value', unit'), v)))
      | None \<Rightarrow> (let (v, u) = mb_to_gb value' unit' in ((v, u), Some ((value', unit'), v))))"

fun renders :: "nat \<Rightarrow> rat \<Rightarrow> string \<Rightarrow> metric_memo \<Rightarrow> (rat \<times> string) list" where
  "renders 0 v u memo = []"
| "renders (Suc n) v u memo = (let (shown, memo') = render_metric v u memo in shown # renders n v u memo')"

subsection \<open>How a container ended\<close>

datatype exit_info =
    Exit_normal | Exit_application_error | Exit_not_run | Exit_not_invoked | Exit_not_found | Exit_invalid_argument
  | Exit_sigabrt | Exit_sigkill | Exit_sigsegv | Exit_sigterm | Exit_out_of_range | Exit_unknown | Exit_no_code

definition EXIT_CODE_MAP :: "(int \<times> exit_info) list" where
  "EXIT_CODE_MAP = [(0, Exit_normal), (1, Exit_application_error), (125, Exit_not_run), (126, Exit_not_invoked),
     (127, Exit_not_found), (128, Exit_invalid_argument), (134, Exit_sigabrt), (137, Exit_sigkill),
     (139, Exit_sigsegv), (143, Exit_sigterm), (255, Exit_out_of_range)]"

definition getExitCodeInfo :: "int \<Rightarrow> exit_info" where
  "getExitCodeInfo exitCode = (case map_of EXIT_CODE_MAP exitCode of None \<Rightarrow> Exit_unknown | Some i \<Rightarrow> i)"

definition exitCodeInfo :: "int option \<Rightarrow> exit_info" where
  "exitCodeInfo exitCode = (case exitCode of None \<Rightarrow> Exit_no_code | Some c \<Rightarrow> getExitCodeInfo c)"

section \<open>Properties\<close>

lemma bump_all:
  "map_of (fold bump ks acc) k = (if map_of acc k = None \<and> k \<notin> set ks then None
     else Some ((case map_of acc k of None \<Rightarrow> 0 | Some n \<Rightarrow> n) + count_list ks k))"
proof (induction ks arbitrary: acc)
  case Nil
  then show ?case by (cases "map_of acc k") simp_all
next
  case (Cons x ks)
  then show ?case by (cases "map_of acc k") (auto simp: bump_def update_conv')
qed

lemma distinct_bumps: "distinct (map fst acc) \<Longrightarrow> distinct (map fst (fold bump ks acc))"
  by (induction ks arbitrary: acc) (simp_all add: bump_def distinct_update)

lemma bump_update_sum:
  "sum_list (map snd (bump k acc)) = Suc (sum_list (map snd acc))"
  unfolding bump_def by (induction acc) auto

lemma bumps_sum: "sum_list (map snd (fold bump ks acc)) = sum_list (map snd acc) + length ks"
  by (induction ks arbitrary: acc) (simp_all add: bump_update_sum)

lemma fold_bump: "fold (\<lambda>x. bump (f x)) xs acc = fold bump (map f xs) acc"
  by (induction xs arbitrary: acc) simp_all

definition all_phases :: "JobPhase list" where
  "all_phases = [JobPhase_Init, JobPhase_Pending, JobPhase_Aborting, JobPhase_Aborted, JobPhase_Running, JobPhase_Restarting,
     JobPhase_Completing, JobPhase_Completed, JobPhase_Terminating, JobPhase_Terminated, JobPhase_Failed,
     JobPhase_Cancelled, JobPhase_Deleted, JobPhase_Freed]"

lemma phase_val_inj: "JobPhase_val p = JobPhase_val q \<longleftrightarrow> p = q"
proof -
  have "distinct (map JobPhase_val all_phases)" by code_simp
  moreover have "p \<in> set all_phases" for p by (cases p) (simp_all add: all_phases_def)
  ultimately show ?thesis by (auto simp: distinct_map dest: inj_onD)
qed

lemma phase_image: "JobPhase_val p \<in> (\<lambda>j. JobPhase_val (ji_status j)) ` S \<longleftrightarrow> p \<in> ji_status ` S"
  by (auto simp: image_iff phase_val_inj)

text \<open>The chart of the jobs on the start page: each state but deleted and freed has exactly one slice, with
  the number of jobs in it, unless there is none; the slices add up to the jobs that are counted.\<close>

lemma job_chart:
  shows "distinct (map fst (jobStatus (Some jobs))) \<and>
    map_of (jobStatus (Some jobs)) (JobPhase_val p) =
      (if p \<in> ji_status ` set jobs - {JobPhase_Deleted, JobPhase_Freed}
       then Some (length (filter (\<lambda>j. ji_status j = p) jobs)) else None) \<and>
    sum_list (map snd (jobStatus (Some jobs))) =
      length (filter (\<lambda>j. ji_status j \<notin> {JobPhase_Deleted, JobPhase_Freed}) jobs)"
proof -
  define counted where "counted = filter (\<lambda>d. ji_status d \<noteq> JobPhase_Deleted \<and> ji_status d \<noteq> JobPhase_Freed) jobs"
  have eq: "jobStatus (Some jobs) = fold bump (map (\<lambda>j. JobPhase_val (ji_status j)) counted) []"
    unfolding jobStatus_def counted_def option.case by (rule fold_bump)
  have count: "count_list (map (\<lambda>j. JobPhase_val (ji_status j)) js) (JobPhase_val p) = length (filter (\<lambda>j. ji_status j = p) js)" for js
    by (induction js) (simp_all add: phase_val_inj)
  have "filter (\<lambda>j. ji_status j = p) counted =
      (if p \<in> {JobPhase_Deleted, JobPhase_Freed} then [] else filter (\<lambda>j. ji_status j = p) jobs)"
    unfolding counted_def by (auto simp: filter_empty_conv intro: filter_cong)
  moreover have "JobPhase_val p \<in> (\<lambda>j. JobPhase_val (ji_status j)) ` set counted \<longleftrightarrow>
      p \<notin> {JobPhase_Deleted, JobPhase_Freed} \<and> p \<in> ji_status ` set jobs"
    unfolding phase_image counted_def by auto
  ultimately have "map_of (jobStatus (Some jobs)) (JobPhase_val p) =
      (if p \<in> ji_status ` set jobs - {JobPhase_Deleted, JobPhase_Freed}
       then Some (length (filter (\<lambda>j. ji_status j = p) jobs)) else None)"
    unfolding eq bump_all by (auto simp: count)
  moreover have "filter (\<lambda>j. ji_status j \<notin> {JobPhase_Deleted, JobPhase_Freed}) jobs = counted"
    by (simp add: counted_def)
  ultimately show ?thesis
    unfolding eq by (simp add: distinct_bumps bumps_sum)
qed

text \<open>The slices of the owners count the running jobs, those of owners with the same pseudonym together.\<close>

definition slice_count :: "nat list \<times> string \<times> nat \<Rightarrow> nat list \<times> nat" where
  "slice_count x = (fst x, snd (snd x))"

lemma slice_update: "map slice_count (AList.update k (x, n) m) = AList.update k n (map slice_count m)"
  by (induction m) (auto simp: slice_count_def)

lemma slice_lookup: "map_of (map slice_count m) k = map_option snd (map_of m k)"
  by (induction m) (auto simp: slice_count_def)

lemma owners_counted:
  "map slice_count (fold (count_owner h) js acc) = fold bump (map (\<lambda>j. owner_key h (ji_owner j)) js) (map slice_count acc)"
  by (induction js arbitrary: acc)
    (simp_all add: count_owner_def bump_def slice_update slice_lookup Let_def split: option.split)

lemma user_chart:
  "sum_list (map sl_value (userStatus h (Some jobs))) = length (running_jobs jobs)"
  "distinct (map sl_id (userStatus h (Some jobs)))"
proof -
  let ?m = "fold (count_owner h) (running_jobs jobs) []"
  have "map sl_value (userStatus h (Some jobs)) = map snd (map slice_count ?m)"
    "map sl_id (userStatus h (Some jobs)) = map fst (map slice_count ?m)"
    by (simp_all add: userStatus_def slice_count_def comp_def case_prod_beta)
  then show "sum_list (map sl_value (userStatus h (Some jobs))) = length (running_jobs jobs)"
    "distinct (map sl_id (userStatus h (Some jobs)))"
    unfolding owners_counted by (simp_all add: distinct_bumps bumps_sum)
qed

text \<open>
  With names hidden a slice is labelled with the pseudonym of the pseudonym, not with the one the user
  is shown with elsewhere.
\<close>

lemma pseudonym_of_chars: "pseudonym_units (map of_char u) = generatePseudonym u"
proof -
  have "foldl (\<lambda>h c. push_bit 5 h - h + word_of_nat c) h (map of_char u) = foldl hash_step h u" for h :: "32 word"
    by (induction u arbitrary: h) (simp_all add: hash_step_def)
  then show ?thesis by (simp add: pseudonym_units_def generatePseudonym_def hashUsername_def hash_word_def)
qed

lemmas pick_defs = Let_def js_mod_def shift_right_def to_int32_def element_def SURNAMES_def NUMBERS_def OBJECTS_def

lemma slice_labels:
  "x \<in> set (userStatus True (Some jobs)) \<Longrightarrow> sl_label x = pseudonym_units (sl_id x)"
  "pseudonym_units (generatePseudonym ''li'') \<noteq> displayName True \<lparr>ui_username = ''li'', ui_nickname = ''Li''\<rparr>"
proof -
  show "x \<in> set (userStatus True (Some jobs)) \<Longrightarrow> sl_label x = pseudonym_units (sl_id x)"
    by (auto simp: userStatus_def)
  have "generatePseudonym ''li'' = [26417, 22235, 33457]"
    by (simp add: generatePseudonym_def hashUsername_def hash_word_def hash_step_def pick_defs)
  then show "pseudonym_units (generatePseudonym ''li'') \<noteq> displayName True \<lparr>ui_username = ''li'', ui_nickname = ''Li''\<rparr>"
    by (simp add: displayName_def pseudonym_units_def pick_defs)
qed

text \<open>Sorting by resources is not a comparison: a job without any equals two that differ.\<close>

definition bare_job :: "strobj option \<Rightarrow> IJobInfo" where
  "bare_job rs = \<lparr>ji_name = [], ji_jobName = [], ji_owner = [], ji_userInfo = \<lparr>ui_username = [], ui_nickname = []\<rparr>,
     ji_jobType = JobType_Custom, ji_queue = [], ji_status = JobPhase_Running, ji_createdAt = [], ji_startedAt = [],
     ji_completedAt = [], ji_nodes = [], ji_resources = rs, ji_locked = False, ji_permanentLocked = False,
     ji_lockedTimestamp = None\<rparr>"

lemma by_resources_not_transitive: "\<not> comparator by_resources"
proof
  assume "comparator by_resources"
  moreover have "by_resources (bare_job (Some [(''nvidia.com/a100'', ''1'')])) (bare_job None) \<le> 0"
    "by_resources (bare_job None) (bare_job (Some [])) \<le> 0"
    by (simp_all add: by_resources_def bare_job_def)
  ultimately have "by_resources (bare_job (Some [(''nvidia.com/a100'', ''1'')])) (bare_job (Some [])) \<le> 0"
    by (rule comparator.cmp_trans)
  then show False by (simp add: by_resources_def bare_job_def gpu_keys_def starts_with_def)
qed

text \<open>
  The metrics of a section: all that the job has, except those its condition forgets while it has
  none of the others.
\<close>

lemma section_shown:
  assumes "list_all (\<lambda>c. mc_field c \<in> set (fst s) \<union> X) (snd s)"
  shows "mc_field ` set (section_cards d s) = {k \<in> mc_field ` set (snd s). metric d k \<noteq> None}
    - (if list_ex (\<lambda>k. metric d k \<noteq> None) (fst s) then {} else X)"
proof (cases "list_ex (\<lambda>k. metric d k \<noteq> None) (fst s)")
  case True
  then show ?thesis by (auto simp: section_cards_def)
next
  case False
  then have "k \<in> set (fst s) \<Longrightarrow> metric d k = None" for k by (auto simp: list_ex_iff)
  with assms have "c \<in> set (snd s) \<Longrightarrow> metric d (mc_field c) \<noteq> None \<Longrightarrow> mc_field c \<in> X" for c
    by (fastforce simp: list_all_iff)
  then have "{k \<in> mc_field ` set (snd s). metric d k \<noteq> None} - X = {}" by auto
  with False show ?thesis by (simp add: section_cards_def)
qed

lemma set_apart:
  "A \<inter> Y = {} \<Longrightarrow> B \<inter> X = {} \<Longrightarrow> U \<inter> (X \<union> Y) = {} \<Longrightarrow>
   {k \<in> A. P k} - X \<union> ({k \<in> B. P k} - Y) \<union> {k \<in> U. P k} = {k \<in> A \<union> B \<union> U. P k} - X - Y"
  by blast

lemma section_union:
  assumes "\<And>s. s \<in> R \<Longrightarrow> S s = {k \<in> F s. P k}" "\<And>s. s \<in> R \<Longrightarrow> F s \<inter> (X \<union> Y) = {}"
    "A \<inter> Y = {}" "B \<inter> X = {}" "X' \<subseteq> X" "Y' \<subseteq> Y"
  shows "{k \<in> A. P k} - X' \<union> ({k \<in> B. P k} - Y') \<union> (\<Union>s \<in> R. S s) = {k \<in> A \<union> B \<union> (\<Union>s \<in> R. F s). P k} - X' - Y'"
proof -
  have "(\<Union>s \<in> R. S s) = {k \<in> \<Union>s \<in> R. F s. P k}" using assms(1) by auto
  moreover have "(\<Union>s \<in> R. F s) \<inter> (X' \<union> Y') = {}" using assms(2,5,6) by blast
  ultimately show ?thesis using set_apart [of A Y' B X' "\<Union>s \<in> R. F s" P] assms(3-6) by auto
qed

definition all_metrics :: "string list" where
  "all_metrics = concat (map (\<lambda>s. map mc_field (snd s)) metric_sections)"


definition demo_profile :: ProfileData where
  "demo_profile =
    \<lparr>pf_cpu_request = None, pf_cpu_limit = None, pf_mem_request = None, pf_mem_limit = None,
     pf_cpu_usage_avg = None, pf_cpu_usage_max = None, pf_cpu_usage_std = None, pf_cpu_mem_avg = None,
     pf_cpu_mem_max = None, pf_cpu_mem_std = None, pf_gpu_util_avg = None, pf_gpu_util_max = None,
     pf_gpu_util_std = None, pf_sm_active_avg = None, pf_sm_active_max = None, pf_sm_active_std = None,
     pf_sm_util_avg = Some (1/2), pf_sm_util_max = None, pf_sm_util_std = None, pf_sm_occupancy_avg = None,
     pf_sm_occupancy_max = None, pf_sm_occupancy_std = None, pf_dram_util_avg = None, pf_dram_util_max = None,
     pf_dram_util_std = None, pf_dram_active_avg = None, pf_dram_active_max = None, pf_dram_active_std = None,
     pf_mem_copy_util_avg = None, pf_mem_copy_util_max = None, pf_mem_copy_util_std = None,
     pf_pcie_tx_avg = None, pf_pcie_tx_max = None, pf_pcie_rx_avg = None, pf_pcie_rx_max = None,
     pf_gpu_mem_total = None, pf_gpu_mem_max = None, pf_gpu_mem_avg = None, pf_gpu_mem_std = None,
     pf_tensor_active_avg = None, pf_tensor_active_max = None, pf_tensor_active_std = None,
     pf_fp64_active_avg = None, pf_fp64_active_max = None, pf_fp64_active_std = None, pf_fp32_active_avg = None,
     pf_fp32_active_max = None, pf_fp32_active_std = None, pf_fp16_active_avg = None, pf_fp16_active_max = None,
     pf_fp16_active_std = None\<rparr>"

definition demo_detail :: IJupyterDetail where
  "demo_detail = \<lparr>jd_name = ''n'', jd_namespace = ''s'', jd_username = ''li'', jd_nickname = ''Li'',
     jd_userInfo = \<lparr>ui_username = ''li'', ui_nickname = ''Li''\<rparr>, jd_jobName = ''j'', jd_jobType = JobType_Custom, jd_retry = [],
     jd_queue = ''q'', jd_status = JobPhase_Completed, jd_resources = None, jd_profileData = Some demo_profile,
     jd_scheduleData = None, jd_events = None, jd_terminatedStates = None, jd_createdAt = [], jd_startedAt = [],
     jd_completedAt = []\<rparr>"


text \<open>An amount of more than 1024 megabytes is shown in gigabytes, and from the second rendering of the card on
  in the number of gigabytes with the unit of megabytes; a smaller one is shown as it is.\<close>

lemma metric_unit:
  "renders (Suc n) v ''MB/s'' None =
     (if 1024 < v then (v / 1024, ''GB/s'') # replicate n (v / 1024, ''MB/s'') else replicate (Suc n) (v, ''MB/s''))"
proof -
  have again: "renders n v u (Some ((v, u), x)) = replicate n (x, u)" for u x
    by (induction n) (simp_all add: render_metric_def)
  show ?thesis by (simp add: render_metric_def again mb_to_gb_def starts_with_def)
qed

end
