(* ===== verification/Widgets.thy ===== *)
theory Widgets
  imports Images
begin

text \<open>
  Components the pages share: the toolbar and the facet filters of a table and the handling of chosen
  rows (\<open>components/query-table\<close>), the tabs of a detail page (\<open>components/layout/detail-page.tsx\<close>), the
  button with a list (\<open>components/button/listed-button.tsx\<close>), the news dialog, and the combobox with its
  filters (\<open>components/form/combobox.tsx\<close>) as the field for an image uses it.
\<close>

section \<open>Facet filters of a table\<close>

text \<open>
  A column's filter value is what \<open>column.setFilterValue\<close> was last called with; \<open>facets\<close> is the map
  from the values of the column to the number of rows that have them.
\<close>

type_synonym facet_map = "(string \<times> nat) list"

record facet_option =
  fo_label :: string
  fo_value :: string

definition facet_options :: "facet_option list option \<Rightarrow> facet_map option \<Rightarrow> facet_option list" where
  "facet_options rawOptions facets = (case rawOptions of
     Some (opt # opts) \<Rightarrow> opt # opts
   | _ \<Rightarrow> (case facets of None \<Rightarrow> []
       | Some fs \<Rightarrow> map (\<lambda>value. \<lparr>fo_label = value, fo_value = value\<rparr>) (filter (\<lambda>value. value \<noteq> []) (map fst fs))))"

definition facet_offered :: "facet_option list option \<Rightarrow> facet_map option \<Rightarrow> facet_option list" where
  "facet_offered rawOptions facets =
     filter (\<lambda>opt. 0 < (case facets of None \<Rightarrow> 0 | Some fs \<Rightarrow> (case map_of fs (fo_value opt) of None \<Rightarrow> 0 | Some n \<Rightarrow> n)))
       (facet_options rawOptions facets)"

definition selectedValues :: "string list option \<Rightarrow> string list" where
  "selectedValues filterValue = js_set (case filterValue of None \<Rightarrow> [] | Some vs \<Rightarrow> vs)"

definition facet_press :: "string \<Rightarrow> string list option \<Rightarrow> string list option" where
  "facet_press v filterValue =
     (let selected = selectedValues filterValue;
          filterValues = if v \<in> set selected then filter (\<lambda>x. x \<noteq> v) selected else set_add selected v
      in if filterValues = [] then None else Some filterValues)"

definition facet_clear :: "string list option \<Rightarrow> string list option" where
  "facet_clear filterValue = None"

datatype facet_badges = Chosen_count nat | Chosen_labels "string list"

definition facet_badges_of :: "facet_option list \<Rightarrow> string list option \<Rightarrow> facet_badges option" where
  "facet_badges_of opts filterValue = (let selected = selectedValues filterValue in
     if selected = [] then None
     else if 2 < length selected then Some (Chosen_count (length selected))
     else Some (Chosen_labels (map fo_label (filter (\<lambda>opt. fo_value opt \<in> set selected) opts))))"

text \<open>The effect that runs when the table appears: default values replace whatever was stored.\<close>

definition facet_effect :: "string list option \<Rightarrow> string list option \<Rightarrow> string list option" where
  "facet_effect defaultValues filterValue = (case defaultValues of None \<Rightarrow> filterValue | Some vs \<Rightarrow> Some vs)"

text \<open>\<open>filterFn\<close> of the columns for states, roles and types.\<close>

definition includes_filterFn :: "string \<Rightarrow> string list \<Rightarrow> bool" where
  "includes_filterFn cell value \<longleftrightarrow> cell \<in> set value"

section \<open>The toolbar and the table\<close>

record search_config =
  sc_enabled :: bool

definition isFiltered :: "nat \<Rightarrow> search_config option \<Rightarrow> string \<Rightarrow> bool" where
  "isFiltered columnFilters globalSearch globalFilter \<longleftrightarrow> columnFilters > 0 \<or>
     (case globalSearch of None \<Rightarrow> False | Some g \<Rightarrow> sc_enabled g) \<and> globalFilter \<noteq> []"

definition clear_offered :: "nat \<Rightarrow> search_config option \<Rightarrow> string \<Rightarrow> bool \<Rightarrow> bool" where
  "clear_offered columnFilters globalSearch globalFilter isLoading \<longleftrightarrow>
     isFiltered columnFilters globalSearch globalFilter \<and> \<not> isLoading"

definition clear_filters :: "search_config option \<Rightarrow> 'f list \<times> string \<Rightarrow> 'f list \<times> string" where
  "clear_filters globalSearch st = ([],
     if (case globalSearch of None \<Rightarrow> False | Some g \<Rightarrow> sc_enabled g) then [] else snd st)"

definition column_filters_key :: "string \<Rightarrow> string" where
  "column_filters_key storageKey = storageKey @ ''-column-filters''"

definition table_rows :: "'r list option \<Rightarrow> bool \<Rightarrow> 'r list" where
  "table_rows queryData isLoading = (case queryData of None \<Rightarrow> [] | Some rows \<Rightarrow> if isLoading then [] else rows)"

datatype 'r table_body = Rows_shown "'r list" | Loading_shown | No_data_shown

definition table_body_of :: "'r list \<Rightarrow> bool \<Rightarrow> 'r table_body" where
  "table_body_of rows isLoading =
     (if rows \<noteq> [] then Rows_shown rows else if isLoading then Loading_shown else No_data_shown)"

definition has_select_column :: "'h list option \<Rightarrow> bool" where
  "has_select_column multipleHandlers \<longleftrightarrow> (case multipleHandlers of None \<Rightarrow> False | Some hs \<Rightarrow> hs \<noteq> [])"

text \<open>The buttons for the chosen rows, and what pressing one does: its work, then nothing is chosen.\<close>

definition handlers_offered :: "'r list \<Rightarrow> 'h list option \<Rightarrow> 'h list" where
  "handlers_offered selected multipleHandlers =
     (if selected = [] then [] else case multipleHandlers of None \<Rightarrow> [] | Some hs \<Rightarrow> hs)"

definition confirm_handler :: "('r list \<Rightarrow> 'e list) \<Rightarrow> 'r list \<Rightarrow> 'e list \<times> 'r list" where
  "confirm_handler handleSubmit selected = (handleSubmit selected, [])"

section \<open>Tabs of a detail page\<close>

record detail_tab =
  dt_key :: string
  dt_subTabs :: "string list"
  dt_hidden :: bool

text \<open>\<open>search.tab || undefined\<close>, for a text.\<close>

definition detailValidateSearch :: "string option \<Rightarrow> string option" where
  "detailValidateSearch tab = (if tab = Some [] then None else tab)"

definition shown_tabs :: "detail_tab list \<Rightarrow> detail_tab list" where
  "shown_tabs rawTabs = filter (\<lambda>t. \<not> dt_hidden t) rawTabs"

definition detail_current :: "string option \<Rightarrow> detail_tab list \<Rightarrow> string" where
  "detail_current currentTab rawTabs = (case shown_tabs rawTabs of [] \<Rightarrow> []
     | t # _ \<Rightarrow> (case currentTab of None \<Rightarrow> dt_key t | Some c \<Rightarrow> if c = [] then dt_key t else c))"

definition getCurrentSubTab :: "detail_tab list \<Rightarrow> strobj \<Rightarrow> string \<Rightarrow> string option" where
  "getCurrentSubTab rawTabs selectedSubTab tabKey =
     (case find (\<lambda>t. dt_key t = tabKey) (shown_tabs rawTabs) of None \<Rightarrow> None
      | Some t \<Rightarrow> (case dt_subTabs t of [] \<Rightarrow> None
          | first # _ \<Rightarrow> (case map_of selectedSubTab tabKey of
              Some s \<Rightarrow> Some (if s = [] then first else s) | None \<Rightarrow> Some first)))"

definition setSubTab :: "string \<Rightarrow> string \<Rightarrow> strobj \<Rightarrow> strobj" where
  "setSubTab tabKey subTabKey prev = AList.update tabKey subTabKey prev"

text \<open>What is shown: the tabs whose key is the current one, a tab with sub tabs by its chosen one.\<close>

definition detail_content :: "detail_tab list \<Rightarrow> string option \<Rightarrow> strobj \<Rightarrow> (string \<times> string option) list" where
  "detail_content rawTabs currentTab selectedSubTab =
     map (\<lambda>t. (dt_key t, case getCurrentSubTab rawTabs selectedSubTab (dt_key t) of None \<Rightarrow> None
             | Some s \<Rightarrow> find (\<lambda>sub. sub = s) (dt_subTabs t)))
       (filter (\<lambda>t. dt_key t = detail_current currentTab rawTabs) (shown_tabs rawTabs))"

definition choose_sub_tab :: "string \<Rightarrow> string \<Rightarrow> string option \<times> strobj \<Rightarrow> string option \<times> strobj" where
  "choose_sub_tab tabKey subTabKey st = (Some tabKey, setSubTab tabKey subTabKey (snd st))"

section \<open>The button with a list, and the news\<close>

record split_item =
  si_key :: string
  si_disabled :: bool

definition position_key :: "string \<Rightarrow> string" where
  "position_key cacheKey = ''split-button-'' @ cacheKey"

definition first_enabled :: "split_item list \<Rightarrow> string" where
  "first_enabled items = (case find (\<lambda>i. \<not> si_disabled i) items of
     Some i \<Rightarrow> if si_key i = [] then si_key (hd items) else si_key i | None \<Rightarrow> si_key (hd items))"

definition position_effect :: "split_item list \<Rightarrow> string \<Rightarrow> string" where
  "position_effect items position = (case find (\<lambda>i. si_key i = position) items of
     None \<Rightarrow> first_enabled items
   | Some i \<Rightarrow> if si_disabled i then first_enabled items else position)"

definition press_listed :: "split_item list \<Rightarrow> string \<Rightarrow> split_item option" where
  "press_listed items position = find (\<lambda>i. si_key i = position) items"

record news_dialog =
  nw_confirmed :: string
  nw_open :: bool

definition news_effect :: "string \<Rightarrow> news_dialog \<Rightarrow> news_dialog" where
  "news_effect version d = (if nw_confirmed d \<noteq> version then d\<lparr>nw_open := True\<rparr> else d)"

definition news_handleConfirm :: "string \<Rightarrow> news_dialog \<Rightarrow> news_dialog" where
  "news_handleConfirm version d = d\<lparr>nw_confirmed := version, nw_open := False\<rparr>"

section \<open>The combobox\<close>

definition getSelectedLabel :: "combobox_item list \<Rightarrow> string \<Rightarrow> string option" where
  "getSelectedLabel items current = map_option item_selectedLabel (find (\<lambda>i. item_value i = current) items)"

text \<open>\<open>arch.includes('/') ? arch.split('/').slice(1).join('/') : arch\<close>.\<close>

definition archName :: "string \<Rightarrow> string" where
  "archName arch = (if str_includes arch ''/'' then join_with ''/'' (drop 1 (split_char (CHR ''/'') arch)) else arch)"

datatype image_filter = Tag_filter | Arch_filter

definition inferred_options :: "image_filter \<Rightarrow> combobox_item list \<Rightarrow> string list" where
  "inferred_options f items = js_set (concat (map (\<lambda>i. case f of
     Tag_filter \<Rightarrow> item_tags i | Arch_filter \<Rightarrow> map archName (ii_archs (item_detail i))) items))"

definition tag_filterFn :: "combobox_item list \<Rightarrow> string list \<Rightarrow> combobox_item list" where
  "tag_filterFn items selectedTags = (if selectedTags = [] then items else
     filter (\<lambda>i. item_tags i \<noteq> [] \<and>
       list_all (\<lambda>t. lower t \<in> set (map lower (item_tags i))) selectedTags) items)"

definition arch_filterFn :: "combobox_item list \<Rightarrow> string list \<Rightarrow> combobox_item list" where
  "arch_filterFn items selectedArchs = (if selectedArchs = [] then items else
     filter (\<lambda>i. list_ex (\<lambda>a. a \<in> set (map archName (ii_archs (item_detail i)))) selectedArchs) items)"

record combobox_state =
  cb_search :: string
  cb_tags :: "string list"
  cb_archs :: "string list"

definition combobox_start :: combobox_state where
  "combobox_start = \<lparr>cb_search = [], cb_tags = [], cb_archs = []\<rparr>"

definition combobox_items :: "combobox_item list \<Rightarrow> combobox_state \<Rightarrow> combobox_item list" where
  "combobox_items items st =
     (let result = arch_filterFn (tag_filterFn items (cb_tags st)) (cb_archs st)
      in if cb_search st = [] then result
         else filter (\<lambda>i. str_includes (lower (item_label i)) (lower (cb_search st))) result)"

text \<open>A press on an option of a filter, and the button that clears all of them.\<close>

definition toggle_value :: "string \<Rightarrow> string list \<Rightarrow> string list" where
  "toggle_value v values =
     (let selected = js_set values in if v \<in> set selected then filter (\<lambda>x. x \<noteq> v) selected else set_add selected v)"

definition combobox_press :: "image_filter \<Rightarrow> string \<Rightarrow> combobox_state \<Rightarrow> combobox_state" where
  "combobox_press f v st = (case f of
     Tag_filter \<Rightarrow> st\<lparr>cb_tags := toggle_value v (cb_tags st)\<rparr>
   | Arch_filter \<Rightarrow> st\<lparr>cb_archs := toggle_value v (cb_archs st)\<rparr>)"

definition combobox_clear :: "combobox_state \<Rightarrow> combobox_state" where
  "combobox_clear st = st\<lparr>cb_tags := [], cb_archs := []\<rparr>"

definition combobox_clear_offered :: "combobox_state \<Rightarrow> bool" where
  "combobox_clear_offered st \<longleftrightarrow> cb_tags st \<noteq> [] \<or> cb_archs st \<noteq> []"

text \<open>\<open>handleSelect\<close> of the field for an image: the link and architectures that go into the form.\<close>

definition image_handleSelect :: "combobox_item list option \<Rightarrow> string \<Rightarrow> string \<times> string list" where
  "image_handleSelect images value = (case images of None \<Rightarrow> (value, [])
     | Some items \<Rightarrow> (case find (\<lambda>i. item_value i = value) items of
         Some i \<Rightarrow> (ii_imageLink (item_detail i), ii_archs (item_detail i))
       | None \<Rightarrow> (value, [])))"

section \<open>What the filters of a table do\<close>

lemma set_js_set [simp]: "set (js_set xs) = set xs"
  by (simp add: js_set_def)

lemma distinct_js_set [simp]: "distinct (js_set xs)"
  by (simp add: js_set_def distinct_foldl_set_add)

text \<open>A press changes the membership of the pressed value only, and never leaves an empty choice.\<close>

lemma facet_press_set:
  "set (selectedValues (facet_press v c)) =
     (if v \<in> set (selectedValues c) then set (selectedValues c) - {v} else insert v (set (selectedValues c)))"
proof -
  define sel where "sel = selectedValues c"
  have lists: "set (selectedValues (if xs = [] then None else Some xs)) = set xs" for xs
    by (simp add: selectedValues_def)
  show ?thesis unfolding facet_press_def Let_def lists by auto
qed

lemma facet_press_not_empty: "facet_press v c \<noteq> Some []"
  by (simp add: facet_press_def Let_def)

lemma facet_presses_set:
  "x \<in> set (selectedValues (fold facet_press vs c)) \<longleftrightarrow>
     (x \<in> set (selectedValues c)) \<noteq> odd (count_list vs x)"
  by (induction vs arbitrary: c) (auto simp: facet_press_set)

lemma fold_facet_not_empty: "c \<noteq> Some [] \<Longrightarrow> fold facet_press vs c \<noteq> Some []"
  by (induction vs arbitrary: c) (simp_all add: facet_press_not_empty)

text \<open>The defaults of a table replace the filter that was stored.\<close>

lemma defaults_replace_stored: "facet_effect (Some defaults) stored = Some defaults"
  by (simp add: facet_effect_def)

text \<open>A tab that is hidden, named in the address, leaves the page empty.\<close>

lemma hidden_tab_shows_nothing:
  assumes "c \<noteq> []" "c \<notin> dt_key ` set (shown_tabs rawTabs)"
  shows "detail_content rawTabs (Some c) sub = []"
  using assms by (cases "shown_tabs rawTabs")
    (auto simp: detail_content_def detail_current_def filter_empty_conv)

lemma first_tab_shown:
  assumes "shown_tabs rawTabs = t # ts"
  shows "dt_key t \<in> fst ` set (detail_content rawTabs (detailValidateSearch (Some [])) sub)"
  using assms by (auto simp: detail_content_def detail_current_def detailValidateSearch_def)

lemma sub_tab_chosen:
  assumes "find (\<lambda>t. dt_key t = k) (shown_tabs rawTabs) = Some t" "s \<in> set (dt_subTabs t)" "s \<noteq> []"
  shows "getCurrentSubTab rawTabs (snd (choose_sub_tab k s st)) k = Some s"
  using assms by (cases "dt_subTabs t") (auto simp: getCurrentSubTab_def choose_sub_tab_def setSubTab_def update_conv')

lemma find_in_list:
  assumes "x \<in> set xs" "P x"
  obtains y where "find P xs = Some y" "y \<in> set xs" "P y"
proof -
  have "find P xs \<noteq> None" using assms by (auto simp: find_None_iff)
  then obtain y where "find P xs = Some y" by blast
  then show thesis using that [of y] by (auto simp: find_Some_iff)
qed

text \<open>After its effect the button names an item that can be pressed, when there is one.\<close>

lemma listed_button_ready:
  assumes "i \<in> set items" "\<not> si_disabled i" "\<forall>j \<in> set items. si_key j \<noteq> []" "distinct (map si_key items)"
  shows "\<exists>j. press_listed items (position_effect items position) = Some j \<and> \<not> si_disabled j"
proof (cases "\<exists>j. find (\<lambda>i. si_key i = position) items = Some j \<and> \<not> si_disabled j")
  case True
  then show ?thesis by (auto simp: position_effect_def press_listed_def)
next
  case False
  obtain j where j: "find (\<lambda>i. \<not> si_disabled i) items = Some j" "j \<in> set items" "\<not> si_disabled j"
    using find_in_list assms(1,2) by metis
  then have pos: "position_effect items position = si_key j"
    using False assms(3) by (auto simp: position_effect_def first_enabled_def split: option.splits)
  have "find (\<lambda>i. si_key i = si_key j) items = Some j"
    using j(2) assms(4) by (induction items) (auto simp: image_iff)
  then show ?thesis using j(3) pos by (auto simp: press_listed_def)
qed

text \<open>The news are confirmed once per version.\<close>

lemma news_confirmed: "news_effect version (news_handleConfirm version d) = news_handleConfirm version d"
  by (simp add: news_effect_def news_handleConfirm_def)

section \<open>What the combobox shows\<close>

lemma tag_offered_shown:
  assumes "t \<in> set (inferred_options Tag_filter items)"
  shows "tag_filterFn items [t] \<noteq> []"
proof -
  obtain i where "i \<in> set items" "t \<in> set (item_tags i)"
    using assms by (auto simp: inferred_options_def)
  then have "i \<in> set (tag_filterFn items [t])" by (auto simp: tag_filterFn_def)
  then show ?thesis by auto
qed

lemma arch_offered_shown:
  assumes "a \<in> set (inferred_options Arch_filter items)"
  shows "arch_filterFn items [a] \<noteq> []"
  using assms by (auto simp: inferred_options_def arch_filterFn_def filter_empty_conv)

lemma combobox_items_filter:
  "combobox_items items st = filter (\<lambda>i.
     (cb_search st = [] \<or> str_includes (lower (item_label i)) (lower (cb_search st))) \<and>
     (cb_tags st = [] \<or> list_all (\<lambda>t. lower t \<in> lower ` set (item_tags i)) (cb_tags st)) \<and>
     (cb_archs st = [] \<or> list_ex (\<lambda>a. a \<in> archName ` set (ii_archs (item_detail i))) (cb_archs st))) items"
  by (cases "cb_tags st"; cases "cb_archs st")
    (auto simp: combobox_items_def tag_filterFn_def arch_filterFn_def Let_def intro!: filter_cong)

text \<open>
  Pressing the options of a facet filter in any order leaves a value chosen exactly if it was
  chosen before and pressed an even number of times, or not chosen and pressed an odd number. A choice
  that becomes empty is removed, since an empty list of values would let no row pass; and after one
  press exactly the rows that have the pressed value pass.
\<close>

theorem facet_toggles:
  "(x \<in> set (selectedValues (fold facet_press vs c)) \<longleftrightarrow> (x \<in> set (selectedValues c)) = even (count_list vs x)) \<and>
   fold facet_press vs None \<noteq> Some [] \<and> \<not> includes_filterFn cell [] \<and>
   (\<exists>value. facet_press x None = Some value \<and> includes_filterFn cell value = (cell = x))"
  by (simp add: facet_presses_set fold_facet_not_empty)
    (simp add: facet_press_def selectedValues_def js_set_def set_add_def includes_filterFn_def)

text \<open>
  What the combobox for an image lists are the items, in their order, that have all chosen tags
  (upper and lower case alike), one of the chosen architectures and the searched text in their label;
  and an item that is listed goes into the form with its own link and architectures, for images that
  are offered once each.
\<close>

theorem combobox_choice:
  assumes "distinct (map item_value items)" "i \<in> set items" "item_value i = ii_imageLink (item_detail i)"
  shows "(i \<in> set (combobox_items items st) \<longleftrightarrow>
       (cb_search st = [] \<or> str_includes (lower (item_label i)) (lower (cb_search st))) \<and>
       lower ` set (cb_tags st) \<subseteq> lower ` set (item_tags i) \<and>
       (cb_archs st = [] \<or> set (cb_archs st) \<inter> archName ` set (ii_archs (item_detail i)) \<noteq> {})) \<and>
     image_handleSelect (Some items) (item_value i) = (item_value i, ii_archs (item_detail i))"
proof -
  have "find (\<lambda>j. item_value j = item_value i) items = Some i"
    using assms(1,2) by (induction items) (auto simp: image_iff)
  then have "image_handleSelect (Some items) (item_value i) = (item_value i, ii_archs (item_detail i))"
    using assms(3) by (simp add: image_handleSelect_def)
  then show ?thesis
    using assms(2) by (auto simp: combobox_items_filter list_all_iff list_ex_iff)
qed

definition demo_item :: combobox_item where
  "demo_item = image_item \<lparr>ii_ID = 1, ii_imageLink = ''hub/a:1'', ii_description = ''CUDA'', ii_status = [],
     ii_createdAt = [], ii_isPublic = True, ii_taskType = JobType_Custom,
     ii_userInfo = \<lparr>ui_username = ''u'', ui_nickname = ''n''\<rparr>, ii_tags = [''Python''], ii_imageBuildSource = 0,
     ii_imagepackName = [], ii_imageShareStatus = [], ii_archs = [''linux/amd64'']\<rparr>"

theorem combobox_choice_witness:
  "demo_item \<in> set (combobox_items [demo_item] \<lparr>cb_search = ''cu'', cb_tags = [''python''], cb_archs = [''amd64'']\<rparr>)"
proof -
  have "lower ''CUDA (hub/a:1) [n u]'' = ''cuda (hub/a:1) [n u]''" "lower ''cu'' = ''cu''" by code_simp+
  moreover have "archName ''linux/amd64'' = ''amd64''" "lower ''Python'' = ''python''" "lower ''python'' = ''python''" by code_simp+
  moreover have "str_includes ''cuda (hub/a:1) [n u]'' ''cu''" by code_simp
  ultimately show ?thesis
    using combobox_choice [of "[demo_item]" demo_item "\<lparr>cb_search = ''cu'', cb_tags = [''python''], cb_archs = [''amd64'']\<rparr>"]
    by (simp add: demo_item_def image_item_def)
qed

end
