(* ===== verification/NodePages.thy ===== *)
theory NodePages
  imports Widgets Nodes Machine ApiAccounts Session
begin

text \<open>
  The pages of nodes. The administrators' list with the dialogs that occupy a node for an account,
  release it and stop scheduling on it (\<open>routes/admin/cluster/nodes/index.tsx\<close>), the cells of the list
  (\<open>components/node/node-list.tsx\<close>), the look-up of an account's nickname
  (\<open>components/node/getaccountnickname.tsx\<close>), and the page of a node (\<open>components/node/node-detail.tsx\<close>).
\<close>

section \<open>What the taints of a node say\<close>

definition account_taint :: string where
  "account_taint = ''crater.raids.io/account''"

definition unscheduleTaint :: "string list \<Rightarrow> bool" where
  "unscheduleTaint taints \<longleftrightarrow> list_ex (\<lambda>t. t = ''node.kubernetes.io/unschedulable:NoSchedule'') taints"

text \<open>
  \<open>taints?.find(...)?.split('=')[1].split(':')[0]\<close> of the actions: without an \<open>=\<close> the second part is
  \<open>undefined\<close>, whose \<open>split\<close> is a \<open>TypeError\<close>. The cell of the role asks \<open>?.\<close> there.
\<close>

datatype type_error = TypeError

definition occupiedaccount :: "string list \<Rightarrow> type_error + string option" where
  "occupiedaccount taints = (case find (\<lambda>t. starts_with t account_taint) taints of
     None \<Rightarrow> Inr None
   | Some t \<Rightarrow> (case split_char (CHR ''='') t of
       a # b # _ \<Rightarrow> Inr (Some (hd (split_char (CHR '':'') b)))
     | _ \<Rightarrow> Inl TypeError))"

definition role_occupiedAccount :: "string list \<Rightarrow> string option" where
  "role_occupiedAccount taints = (case find (\<lambda>t. starts_with t account_taint) taints of
     None \<Rightarrow> None
   | Some t \<Rightarrow> (case split_char (CHR ''='') t of
       a # b # _ \<Rightarrow> Some (hd (split_char (CHR '':'') b))
     | _ \<Rightarrow> None))"

definition occupiedAccountNickname :: "(string \<Rightarrow> string option) \<Rightarrow> string option \<Rightarrow> string" where
  "occupiedAccountNickname getNicknameByName account = (case account of None \<Rightarrow> []
     | Some a \<Rightarrow> if a = [] then [] else (case getNicknameByName a of None \<Rightarrow> a | Some n \<Rightarrow> if n = [] then a else n))"

definition occupied_by :: "(string \<Rightarrow> string option) option \<Rightarrow> INodeBriefInfo \<Rightarrow> string option" where
  "occupied_by getNicknameByName n =
     (case getNicknameByName of None \<Rightarrow> None
      | Some look \<Rightarrow> if nb_status n \<noteq> NodeStatus_Occupied then None
          else (case role_occupiedAccount (nb_taints n) of None \<Rightarrow> None
            | Some a \<Rightarrow> if a = [] then None
                else Some (case look a of None \<Rightarrow> a | Some nick \<Rightarrow> if nick = [] then a else nick)))"

definition taints_counted :: "INodeBriefInfo \<Rightarrow> string list" where
  "taints_counted n = (if nb_status n = NodeStatus_Occupied then [] else nb_taints n)"

datatype status_tip =
    Occupied_tip "string option" "string option"
  | Unschedulable_tip "string option" "string option"
  | Workloads_tip int

definition nonempty_field :: "strobj \<Rightarrow> string \<Rightarrow> string option" where
  "nonempty_field m k = (case map_of m k of None \<Rightarrow> None | Some s \<Rightarrow> if s = [] then None else Some s)"

definition isUnschedulable :: "INodeBriefInfo \<Rightarrow> bool" where
  "isUnschedulable n \<longleftrightarrow> list_ex (\<lambda>t. str_includes t ''node.kubernetes.io/unschedulable'') (nb_taints n) \<or>
     str_includes (map to_lower (NodeStatus_val (nb_status n))) ''unschedulable''"

definition status_tip_of :: "INodeBriefInfo \<Rightarrow> status_tip" where
  "status_tip_of n =
     (let field = (\<lambda>k. nonempty_field (nb_annotations n) (''crater.raids.io/'' @ k)) in
      if nb_status n = NodeStatus_Occupied then Occupied_tip (field ''taint-operator-occupied'') (field ''taint-reason-occupied'')
      else if isUnschedulable n then Unschedulable_tip (field ''unschedulable-operator'') (field ''unschedulable-reason'')
      else Workloads_tip (nb_workloads n))"

definition isArm :: "string \<Rightarrow> bool" where
  "isArm arch \<longleftrightarrow> str_includes (map to_lower arch) ''arm''"

definition node_link :: "bool \<Rightarrow> string \<Rightarrow> string" where
  "node_link isAdminMode name =
     (if isAdminMode then ''/admin/cluster/nodes/'' else ''/portal/overview/'') @ name"

section \<open>The dialogs of the administrators' list\<close>

record nodes_page =
  np_open :: bool
  np_selectedAccount :: string
  np_selectedNode :: string
  np_isOccupation :: bool
  np_occupationReason :: string
  np_occupationReasonError :: bool
  np_schedulingDialogOpen :: bool
  np_schedulingNodeId :: string
  np_schedulingIsCurrentlyUnschedule :: bool
  np_schedulingReason :: string
  np_schedulingReasonError :: bool

definition nodes_page_start :: nodes_page where
  "nodes_page_start = \<lparr>np_open = False, np_selectedAccount = [], np_selectedNode = [], np_isOccupation = True,
     np_occupationReason = [], np_occupationReasonError = False, np_schedulingDialogOpen = False,
     np_schedulingNodeId = [], np_schedulingIsCurrentlyUnschedule = False, np_schedulingReason = [],
     np_schedulingReasonError = False\<rparr>"

definition blank_reason :: "string \<Rightarrow> bool" where
  "blank_reason reason \<longleftrightarrow> reason = [] \<or> js_trim reason = []"

definition taintContent :: "nodes_page \<Rightarrow> IClusterNodeTaint" where
  "taintContent s = \<lparr>nt_key = account_taint, nt_value = np_selectedAccount s, nt_effect = ''NoSchedule'',
     nt_reason = Some (np_occupationReason s)\<rparr>"

definition handleOccupation :: "nodes_page \<Rightarrow> nodes_page \<times> http_request list" where
  "handleOccupation s =
     (if np_isOccupation s \<and> blank_reason (np_occupationReason s) then (s\<lparr>np_occupationReasonError := True\<rparr>, [])
      else (s\<lparr>np_open := False, np_occupationReason := [], np_occupationReasonError := False\<rparr>,
        [if np_isOccupation s then apiAddNodeTaint (np_selectedNode s) (taintContent s)
         else apiDeleteNodeTaint (np_selectedNode s) (taintContent s)]))"

definition handleNodeScheduling :: "string \<Rightarrow> string \<Rightarrow> http_request" where
  "handleNodeScheduling nodeId reason = apichangeNodeScheduling nodeId (Some (Some reason))"

definition scheduling_finally :: "nodes_page \<Rightarrow> nodes_page" where
  "scheduling_finally s = s\<lparr>np_schedulingDialogOpen := False, np_schedulingNodeId := [],
     np_schedulingReason := [], np_schedulingReasonError := False\<rparr>"

definition press_release :: "string \<Rightarrow> string \<Rightarrow> nodes_page \<Rightarrow> nodes_page" where
  "press_release nodeId nickname s =
     s\<lparr>np_selectedNode := nodeId, np_isOccupation := False, np_selectedAccount := nickname, np_open := True\<rparr>"

definition press_occupy :: "string \<Rightarrow> nodes_page \<Rightarrow> nodes_page" where
  "press_occupy nodeId s = s\<lparr>np_selectedNode := nodeId, np_isOccupation := True, np_open := True\<rparr>"

definition press_scheduling :: "string \<Rightarrow> bool \<Rightarrow> nodes_page \<Rightarrow> nodes_page \<times> http_request list" where
  "press_scheduling nodeId unschedule s =
     (let s' = s\<lparr>np_schedulingNodeId := nodeId, np_schedulingIsCurrentlyUnschedule := unschedule\<rparr>
      in if unschedule then (s', [handleNodeScheduling nodeId []])
         else (s'\<lparr>np_schedulingReason := [], np_schedulingDialogOpen := True\<rparr>, []))"

definition confirm_scheduling :: "nodes_page \<Rightarrow> nodes_page \<times> http_request list" where
  "confirm_scheduling s =
     (if blank_reason (np_schedulingReason s) then (s\<lparr>np_schedulingReasonError := True\<rparr>, [])
      else (s, [handleNodeScheduling (np_schedulingNodeId s) (np_schedulingReason s)]))"

definition occupation_reason :: "string \<Rightarrow> nodes_page \<Rightarrow> nodes_page" where
  "occupation_reason reason s = s\<lparr>np_occupationReason := reason, np_occupationReasonError := False\<rparr>"

definition scheduling_reason :: "string \<Rightarrow> nodes_page \<Rightarrow> nodes_page" where
  "scheduling_reason reason s = s\<lparr>np_schedulingReason := reason, np_schedulingReasonError := False\<rparr>"

text \<open>The accounts offered: all but the default one, by name.\<close>

definition accounts_offered :: "IAccount list option \<Rightarrow> (string \<times> string) list" where
  "accounts_offered accounts = (case accounts of None \<Rightarrow> []
     | Some as \<Rightarrow> map (\<lambda>a. (ac_name a, ac_nickname a)) (filter (\<lambda>a. ac_name a \<noteq> ''default'') as))"

text \<open>
  What an administrator can do, with the node's name, its taints and the nickname shown for it where
  they come from the row; \<open>Scheduling_ended\<close> is the end of a request for scheduling.
\<close>

datatype nodes_event =
    Press_release string string
  | Press_occupy string
  | Open_change bool
  | Choose_account string
  | Type_occupation_reason string
  | Submit_occupation
  | Press_scheduling string "string list"
  | Scheduling_open_change bool
  | Type_scheduling_reason string
  | Confirm_scheduling
  | Scheduling_ended

fun nodes_press :: "nodes_event \<Rightarrow> nodes_page \<Rightarrow> nodes_page \<times> http_request list" where
  "nodes_press (Press_release n nick) s = (press_release n nick s, [])"
| "nodes_press (Press_occupy n) s = (press_occupy n s, [])"
| "nodes_press (Open_change b) s = (s\<lparr>np_open := b\<rparr>, [])"
| "nodes_press (Choose_account a) s = (s\<lparr>np_selectedAccount := a\<rparr>, [])"
| "nodes_press (Type_occupation_reason r) s = (occupation_reason r s, [])"
| "nodes_press Submit_occupation s = handleOccupation s"
| "nodes_press (Press_scheduling n taints) s = press_scheduling n (unscheduleTaint taints) s"
| "nodes_press (Scheduling_open_change b) s = (s\<lparr>np_schedulingDialogOpen := b\<rparr>, [])"
| "nodes_press (Type_scheduling_reason r) s = (scheduling_reason r s, [])"
| "nodes_press Confirm_scheduling s = confirm_scheduling s"
| "nodes_press Scheduling_ended s = (scheduling_finally s, [])"

text \<open>The page with the events so far, each with the requests it sent.\<close>

inductive nodes_step :: "nodes_page \<times> (nodes_event \<times> http_request list) list \<Rightarrow> nodes_event \<Rightarrow>
    nodes_page \<times> (nodes_event \<times> http_request list) list \<Rightarrow> bool" where
  "nodes_press e s = (s', rs) \<Longrightarrow> nodes_step (s, h) e (s', h @ [(e, rs)])"

inductive_cases nodes_stepE: "nodes_step (s, h) e t"

text \<open>What may be sent, given what was done.\<close>

definition request_justified :: "nodes_event list \<Rightarrow> http_request \<Rightarrow> bool" where
  "request_justified es r \<longleftrightarrow>
     (\<exists>n reason. r = handleNodeScheduling n reason \<and> \<not> blank_reason reason \<and> Type_scheduling_reason reason \<in> set es) \<or>
     (\<exists>n taints. r = handleNodeScheduling n [] \<and> Press_scheduling n taints \<in> set es \<and> unscheduleTaint taints) \<or>
     (\<exists>n t. r = apiAddNodeTaint n t \<and> nt_key t = account_taint \<and> nt_effect t = ''NoSchedule'' \<and>
        (\<exists>reason. nt_reason t = Some reason \<and> \<not> blank_reason reason)) \<or>
     (\<exists>n t nick. r = apiDeleteNodeTaint n t \<and> nt_key t = account_taint \<and> Press_release n nick \<in> set es)"

definition nodes_inv :: "nodes_page \<times> (nodes_event \<times> http_request list) list \<Rightarrow> bool" where
  "nodes_inv p \<longleftrightarrow> (case p of (s, h) \<Rightarrow>
     (\<not> np_isOccupation s \<longrightarrow> (\<exists>nick. Press_release (np_selectedNode s) nick \<in> set (map fst h))) \<and>
     (np_schedulingReason s \<noteq> [] \<longrightarrow> Type_scheduling_reason (np_schedulingReason s) \<in> set (map fst h)) \<and>
     (\<forall>rs \<in> snd ` set h. \<forall>r \<in> set rs. request_justified (map fst h) r))"

lemma justified_mono: "request_justified es r \<Longrightarrow> request_justified (es @ fs) r"
  by (auto simp: request_justified_def)

lemma blank_Nil [simp]: "blank_reason []"
  by (simp add: blank_reason_def)

lemma justified_stop: "\<not> blank_reason reason \<Longrightarrow> Type_scheduling_reason reason \<in> set es \<Longrightarrow>
    request_justified es (handleNodeScheduling n reason)"
  unfolding request_justified_def by blast

lemma justified_enable: "Press_scheduling n taints \<in> set es \<Longrightarrow> unscheduleTaint taints \<Longrightarrow>
    request_justified es (handleNodeScheduling n [])"
  unfolding request_justified_def by blast

lemma justified_add: "nt_key t = account_taint \<Longrightarrow> nt_effect t = ''NoSchedule'' \<Longrightarrow> nt_reason t = Some reason \<Longrightarrow>
    \<not> blank_reason reason \<Longrightarrow> request_justified es (apiAddNodeTaint n t)"
  unfolding request_justified_def by blast

lemma justified_delete: "nt_key t = account_taint \<Longrightarrow> Press_release n nick \<in> set es \<Longrightarrow>
    request_justified es (apiDeleteNodeTaint n t)"
  unfolding request_justified_def by blast

lemmas justified = justified_stop justified_enable justified_add justified_delete

lemma press_justified:
  assumes "nodes_inv (s, h)" "nodes_press e s = (s', rs)" "r \<in> set rs"
  shows "request_justified (map fst h @ [e]) r"
proof (cases e)
  case Submit_occupation
  show ?thesis
  proof (cases "np_isOccupation s")
    case True
    then have "r = apiAddNodeTaint (np_selectedNode s) (taintContent s)" "\<not> blank_reason (np_occupationReason s)"
      using assms(2,3) Submit_occupation by (auto simp: handleOccupation_def split: if_splits)
    then show ?thesis by (simp add: justified_add [of _ "np_occupationReason s"] taintContent_def)
  next
    case False
    then obtain nick where "Press_release (np_selectedNode s) nick \<in> set (map fst h @ [e])"
      using assms(1) by (fastforce simp: nodes_inv_def)
    moreover have "r = apiDeleteNodeTaint (np_selectedNode s) (taintContent s)"
      using assms(2,3) Submit_occupation False by (auto simp: handleOccupation_def split: if_splits)
    moreover have "nt_key (taintContent s) = account_taint" by (simp add: taintContent_def)
    ultimately show ?thesis using justified_delete by blast
  qed
next
  case (Press_scheduling n taints)
  then have "unscheduleTaint taints \<and> r = handleNodeScheduling n []"
    using assms(2,3) by (auto simp: press_scheduling_def Let_def split: if_splits)
  then show ?thesis using Press_scheduling by (auto intro: justified_enable)
next
  case Confirm_scheduling
  then have c: "\<not> blank_reason (np_schedulingReason s)"
      "r = handleNodeScheduling (np_schedulingNodeId s) (np_schedulingReason s)"
    using assms(2,3) by (auto simp: confirm_scheduling_def split: if_splits)
  then have "np_schedulingReason s \<noteq> []" by auto
  then have "Type_scheduling_reason (np_schedulingReason s) \<in> set (map fst h @ [e])"
    using assms(1) by (simp add: nodes_inv_def)
  with c show ?thesis using justified_stop by blast
qed (use assms(2,3) in auto)

text \<open>Where the form's fields come from, step by step.\<close>

lemma press_fields:
  assumes "nodes_press e s = (s', rs)"
  shows "np_isOccupation s' = np_isOccupation s \<and> np_selectedNode s' = np_selectedNode s \<or>
      np_isOccupation s' \<or> (\<exists>nick. e = Press_release (np_selectedNode s') nick)"
    and "np_schedulingReason s' \<in> {np_schedulingReason s, []} \<or> e = Type_scheduling_reason (np_schedulingReason s')"
  using assms
  by (cases e; auto simp: handleOccupation_def press_scheduling_def confirm_scheduling_def scheduling_finally_def
      press_release_def press_occupy_def occupation_reason_def scheduling_reason_def Let_def split: if_splits)+

lemma press_inv:
  assumes inv: "nodes_inv (s, h)" and press: "nodes_press e s = (s', rs)"
  shows "nodes_inv (s', h @ [(e, rs)])"
proof -
  have "\<exists>nick. Press_release (np_selectedNode s') nick \<in> set (map fst h @ [e])" if "\<not> np_isOccupation s'"
    using press_fields(1) [OF press] inv that by (fastforce simp: nodes_inv_def)
  moreover have "Type_scheduling_reason (np_schedulingReason s') \<in> set (map fst h @ [e])" if "np_schedulingReason s' \<noteq> []"
    using press_fields(2) [OF press] inv that by (force simp: nodes_inv_def)
  moreover have "request_justified (map fst h @ [e]) r" if "rs' \<in> snd ` set (h @ [(e, rs)])" "r \<in> set rs'" for rs' r
  proof (cases "rs' \<in> snd ` set h")
    case True
    then have "request_justified (map fst h) r" using inv that(2) by (auto simp: nodes_inv_def)
    then show ?thesis by (rule justified_mono)
  next
    case False
    then have "rs' = rs" using that(1) by auto
    then show ?thesis using press_justified [OF inv press] that(2) by simp
  qed
  moreover have fsts: "map fst (h @ [(e, rs)]) = map fst h @ [e]" by simp
  ultimately show ?thesis unfolding nodes_inv_def prod.case fsts by (intro conjI impI ballI)
qed

interpretation nodes: machine nodes_step "\<lambda>p. p = (nodes_page_start, [])" nodes_inv
proof
  show "nodes_inv p" if "p = (nodes_page_start, [])" for p
    using that by (simp add: nodes_inv_def nodes_page_start_def)
  show "nodes_inv q" if "nodes_inv p" "nodes_step p e q" for p e q
    using that(2,1) by (cases rule: nodes_step.cases) (simp add: press_inv)
qed

fun nodes_trace :: "nodes_event list \<Rightarrow> nodes_page \<Rightarrow> nodes_page \<times> (nodes_event \<times> http_request list) list" where
  "nodes_trace [] s = (s, [])"
| "nodes_trace (e # es) s = (let (s', rs) = nodes_press e s; (s'', h) = nodes_trace es s' in (s'', (e, rs) # h))"

lemma trace_runs: "runs nodes_step (s, h) es (fst (nodes_trace es s), h @ snd (nodes_trace es s))"
proof (induction es arbitrary: s h)
  case (Cons e es)
  obtain s' rs where press: "nodes_press e s = (s', rs)" by (cases "nodes_press e s")
  then have "nodes_step (s, h) e (s', h @ [(e, rs)])" by (rule nodes_step.intros)
  with Cons [of s' "h @ [(e, rs)]"] show ?case
    using press by (auto simp: split_beta intro: runs_Cons)
qed simp

lemma run_history: "runs nodes_step p es q \<Longrightarrow> map fst (snd q) = map fst (snd p) @ es"
  by (induction rule: runs.induct) (auto elim!: nodes_step.cases)



text \<open>
  The account of an occupation is read back from the taint, as the cluster prints it; but an occupation
  for which no account was chosen, which the dialog sends, prints without \<open>=\<close> and raises an error where
  the actions of the row are drawn.
\<close>

lemma find_account_taint: "find (\<lambda>t. starts_with t account_taint) ((account_taint @ t) # ts) = Some (account_taint @ t)"
  by (simp add: starts_with_def)

lemma split_account_taint: "split_char (CHR ''='') (account_taint @ t) =
    (case split_char (CHR ''='') t of p # ps \<Rightarrow> (account_taint @ p) # ps | [] \<Rightarrow> [])"
proof -
  have free: "CHR ''='' \<notin> set account_taint" by (simp add: account_taint_def)
  have "split_char (CHR ''='') (u @ t) = (case split_char (CHR ''='') t of p # ps \<Rightarrow> (u @ p) # ps | [] \<Rightarrow> [])"
    if "CHR ''='' \<notin> set u" for u
    using that by (induction u) (auto split: list.splits)
  then show ?thesis using free .
qed

lemma occupation_read_back:
  assumes "CHR ''='' \<notin> set v" "CHR '':'' \<notin> set v"
  shows "occupiedaccount [JoinTaint \<lparr>nt_key = account_taint, nt_value = v, nt_effect = ''NoSchedule'', nt_reason = r\<rparr>] = Inr (Some v)"
proof -
  have "split_char (CHR ''='') (''='' @ v @ '':NoSchedule'') = [] # split_char (CHR ''='') (v @ '':NoSchedule'')" by simp
  also have "split_char (CHR ''='') (v @ '':NoSchedule'') = [v @ '':NoSchedule'']" using assms(1) by simp
  finally have "split_char (CHR ''='') (''='' @ v @ '':NoSchedule'') = [[], v @ '':NoSchedule'']" .
  moreover have "hd (split_char (CHR '':'') (v @ '':NoSchedule'')) = v"
    using split_char_append [of "CHR '':''" v "''NoSchedule''"] assms(2) by simp
  ultimately show ?thesis
    by (simp add: occupiedaccount_def JoinTaint_def find_account_taint split_account_taint
        del: find.simps split_char.simps)
qed

lemma no_account_raises:
  "occupiedaccount [account_taint @ '':NoSchedule''] = Inl TypeError"
  "role_occupiedAccount [account_taint @ '':NoSchedule''] = None"
  by (simp_all add: occupiedaccount_def role_occupiedAccount_def find_account_taint split_account_taint
      del: find.simps)

lemma no_account_sent:
  assumes "np_isOccupation s" "\<not> blank_reason (np_occupationReason s)" "np_selectedAccount s = []"
  shows "snd (handleOccupation s) = [apiAddNodeTaint (np_selectedNode s) (taintContent s)] \<and> nt_value (taintContent s) = []"
  using assms by (simp add: handleOccupation_def taintContent_def)

text \<open>
  A release that is given up leaves the nickname of the account in the form: the next occupation, on
  whatever node, goes to that nickname unless an account is chosen.
\<close>

lemma stale_account:
  assumes "\<not> blank_reason r"
  shows "snd (nodes_press Submit_occupation (fold (\<lambda>e s. fst (nodes_press e s))
      [Press_release a nick, Open_change False, Press_occupy b, Type_occupation_reason r] s)) =
    [apiAddNodeTaint b \<lparr>nt_key = account_taint, nt_value = nick, nt_effect = ''NoSchedule'', nt_reason = Some r\<rparr>]"
  using assms by (simp add: press_release_def press_occupy_def occupation_reason_def handleOccupation_def taintContent_def)

section \<open>Looking up the nickname of an account\<close>

record name_lookup =
  nl_nicknameCache :: strobj
  nl_pendingRequests :: "string list"

definition lookup_start :: name_lookup where
  "lookup_start = \<lparr>nl_nicknameCache = [], nl_pendingRequests = []\<rparr>"

definition cached :: "name_lookup \<Rightarrow> string \<Rightarrow> string option" where
  "cached l name = nonempty_field (nl_nicknameCache l) name"

definition getNicknameByName :: "string \<Rightarrow> name_lookup \<Rightarrow> string option \<times> http_request option \<times> name_lookup" where
  "getNicknameByName name l = (case cached l name of
     Some nickname \<Rightarrow> (Some nickname, None, l)
   | None \<Rightarrow>
       if name \<in> set (nl_pendingRequests l) \<or> name = [] then (None, None, l)
       else (None, Some (apiAccountGetByName name), l\<lparr>nl_pendingRequests := set_add (nl_pendingRequests l) name\<rparr>))"

definition lookup_then :: "string \<Rightarrow> string option \<Rightarrow> name_lookup \<Rightarrow> name_lookup" where
  "lookup_then name nickname l = (case nickname of None \<Rightarrow> l
     | Some n \<Rightarrow> if n = [] then l else l\<lparr>nl_nicknameCache := AList.update name n (nl_nicknameCache l)\<rparr>)"

definition lookup_finally :: "string \<Rightarrow> name_lookup \<Rightarrow> name_lookup" where
  "lookup_finally name l = l\<lparr>nl_pendingRequests := filter (\<lambda>x. x \<noteq> name) (nl_pendingRequests l)\<rparr>"

datatype lookup_event = Ask string | Answered string "string option" | Failed string

inductive lookup_step :: "name_lookup \<Rightarrow> lookup_event \<Rightarrow> name_lookup \<Rightarrow> bool" where
  step_Ask: "getNicknameByName name l = (nick, req, l') \<Longrightarrow> lookup_step l (Ask name) l'"
| step_Answered: "name \<in> set (nl_pendingRequests l) \<Longrightarrow>
    lookup_step l (Answered name nickname) (lookup_finally name (lookup_then name nickname l))"
| step_Failed: "name \<in> set (nl_pendingRequests l) \<Longrightarrow> lookup_step l (Failed name) (lookup_finally name l)"

definition lookup_inv :: "name_lookup \<Rightarrow> bool" where
  "lookup_inv l \<longleftrightarrow> distinct (nl_pendingRequests l) \<and> [] \<notin> set (nl_pendingRequests l) \<and>
     (\<forall>name \<in> set (nl_pendingRequests l). cached l name = None)"

interpretation lookup: machine lookup_step "\<lambda>l. l = lookup_start" lookup_inv
proof
  show "lookup_inv l" if "l = lookup_start" for l
    using that by (simp add: lookup_inv_def lookup_start_def)
  show "lookup_inv l'" if "lookup_inv l" "lookup_step l e l'" for l e l'
    using that(2,1)
  proof (cases rule: lookup_step.cases)
    case (step_Ask name nick req)
    then show ?thesis using that(1)
      by (auto simp: lookup_inv_def getNicknameByName_def cached_def distinct_set_add split: option.splits if_splits)
  next
    case (step_Answered name nickname)
    then show ?thesis using that(1)
      by (auto simp: lookup_inv_def lookup_finally_def lookup_then_def cached_def nonempty_field_def update_conv'
          split: option.splits if_splits)
  next
    case (step_Failed name)
    then show ?thesis using that(1) by (auto simp: lookup_inv_def lookup_finally_def cached_def)
  qed
qed

text \<open>An account is not asked for twice at a time, and not again once its nickname is known.\<close>

lemma lookup_requests:
  assumes "runs lookup_step lookup_start es l" "getNicknameByName name l = (nick, Some req, l')"
  shows "req = apiAccountGetByName name \<and> nick = None \<and> cached l name = None \<and>
     name \<notin> set (nl_pendingRequests l) \<and> nl_pendingRequests l' = nl_pendingRequests l @ [name] \<and> lookup_inv l'"
proof -
  have "lookup_inv l'"
    using lookup.step_inv [OF lookup.reachable_inv [OF refl assms(1)] step_Ask [OF assms(2)]] .
  then show ?thesis
    using assms(2) by (auto simp: getNicknameByName_def set_add_def split: option.splits if_splits)
qed

text \<open>An account without a nickname, or one that cannot be read, is asked for again each time.\<close>

lemma lookup_repeats:
  assumes "cached l name = None" "name \<noteq> []" "nickname \<in> {None, Some []}"
  shows "fst (snd (getNicknameByName name (lookup_finally name (lookup_then name nickname l)))) = Some (apiAccountGetByName name)"
  using assms by (auto simp: getNicknameByName_def lookup_finally_def lookup_then_def cached_def)

section \<open>The page of a node\<close>

text \<open>A text field of an owner's reference; a template prints \<open>undefined\<close> for one that is missing.\<close>

definition owner_field :: "string \<Rightarrow> json \<Rightarrow> string option" where
  "owner_field k owner = (case owner of JObj ms \<Rightarrow> (case map_of ms k of Some (JStr s) \<Rightarrow> Some s | _ \<Rightarrow> None) | _ \<Rightarrow> None)"

definition owner_text :: "string \<Rightarrow> json \<Rightarrow> string" where
  "owner_text k owner = (case owner_field k owner of None \<Rightarrow> ''undefined'' | Some s \<Rightarrow> s)"

definition pod_with_type :: "IClusterPodInfo \<Rightarrow> IClusterPodInfo" where
  "pod_with_type p = (case cpi_ownerReference p of [] \<Rightarrow> p
     | owner # _ \<Rightarrow> p\<lparr>cpi_type := Some (owner_text ''apiVersion'' owner @ ''/'' @ owner_text ''kind'' owner)\<rparr>)"

definition node_pods :: "(string \<Rightarrow> string \<Rightarrow> int) \<Rightarrow> IClusterPodInfo list \<Rightarrow> IClusterPodInfo list" where
  "node_pods localeCompare pods = map pod_with_type (sort_by (\<lambda>a b. localeCompare (cpi_name a) (cpi_name b)) pods)"

definition type_cell :: "string option \<Rightarrow> (string \<times> string) option" where
  "type_cell type = (case type of None \<Rightarrow> None
     | Some t \<Rightarrow> if t = [] then None
         else (let splitValue = split_char (CHR ''/'') t in
           Some (join_with ''/'' (take (length splitValue - 1) splitValue), splitValue ! (length splitValue - 1))))"

definition pod_name_cell :: "IClusterPodInfo \<Rightarrow> string \<times> string option" where
  "pod_name_cell p = (case find (\<lambda>owner. owner_field ''kind'' owner = Some ''Job'') (cpi_ownerReference p) of
     Some owner \<Rightarrow> ((case owner_field ''name'' owner of None \<Rightarrow> [] | Some n \<Rightarrow> n), Some (cpi_name p))
   | None \<Rightarrow> (cpi_name p, None))"

definition pod_monitor_url :: "string \<Rightarrow> string \<Rightarrow> IClusterPodInfo \<Rightarrow> string" where
  "pod_monitor_url grafanaPod nodeName pod = grafanaPod @ ''?orgId=1&var-node_name='' @ nodeName @ ''&var-pod_name='' @
     cpi_name pod @ ''&from=now-1h&to=now''"

definition node_monitor_url :: "string \<Rightarrow> string \<Rightarrow> string" where
  "node_monitor_url grafanaBasic nodeName = grafanaBasic @
     ''?from=now-1h&to=now&var-datasource=prometheus&var-cluster=&var-resolution=30s&var-node='' @ nodeName"

definition gpu_monitor_url :: "string \<Rightarrow> string \<Rightarrow> string" where
  "gpu_monitor_url grafanaNvidia nodeName = grafanaNvidia @
     ''?from=now-30m&to=now&var-datasource=prometheus&var-host='' @ nodeName @ ''&var-gpu=$__all&refresh=5s''"

definition pod_namespaces :: "IClusterPodInfo list option \<Rightarrow> facet_option list" where
  "pod_namespaces pods = (case pods of None \<Rightarrow> []
     | Some ps \<Rightarrow> map (\<lambda>n. \<lparr>fo_label = n, fo_value = n\<rparr>)
         (foldl (\<lambda>acc pod. if cpi_namespace pod \<noteq> [] \<and> cpi_namespace pod \<notin> set acc then acc @ [cpi_namespace pod] else acc) [] ps))"

definition job_type_filter :: "scheduler \<Rightarrow> string" where
  "job_type_filter s = (if s = Volcano then ''batch.volcano.sh/v1alpha1/Job'' else ''aisystem.github.com/v1alpha1/AIJob'')"

text \<open>The filters of the table of pods with their default values.\<close>

definition pod_filters :: "scheduler \<Rightarrow> (string \<times> string list) list" where
  "pod_filters s = [(''namespace'', []), (''status'', [''Running'', ''Pending'']), (''type'', [job_type_filter s])]"

definition node_tabs :: "bool \<Rightarrow> IClusterNodeGPU option \<Rightarrow> detail_tab list" where
  "node_tabs isAdminView gpuDetail =
     [\<lparr>dt_key = ''pods'', dt_subTabs = [], dt_hidden = False\<rparr>,
      \<lparr>dt_key = ''base'', dt_subTabs = [], dt_hidden = False\<rparr>,
      \<lparr>dt_key = ''gpu'', dt_subTabs = [], dt_hidden = \<not> (case gpuDetail of None \<Rightarrow> False | Some g \<Rightarrow> ng_haveGPU g)\<rparr>,
      \<lparr>dt_key = ''nodemark'', dt_subTabs = [''labels'', ''annotations'', ''taints''], dt_hidden = \<not> isAdminView\<rparr>]"

definition kernel_shown :: "bool \<Rightarrow> IClusterNodeDetail \<Rightarrow> bool" where
  "kernel_shown isAdminView d \<longleftrightarrow> isAdminView \<and> nd_kernelVersion d \<notin> {None, Some []}"

text \<open>\<open>parseInt(gpuMemory) / 1024\<close> GB, on the card of the accelerator.\<close>

definition gpu_memory_GB :: "string \<Rightarrow> number" where
  "gpu_memory_GB m = (case parse_int m of Fin q \<Rightarrow> Fin (q / 1024) | x \<Rightarrow> x)"

text \<open>The type of a pod is split into the version and the kind it was made of.\<close>

lemma pod_type_splits:
  assumes "CHR ''/'' \<notin> set kind"
  shows "type_cell (Some (apiVersion @ ''/'' @ kind)) = Some (apiVersion, kind)"
proof -
  define ps where "ps = split_char (CHR ''/'') apiVersion"
  have ne: "ps \<noteq> []" by (simp add: ps_def)
  have "split_char (CHR ''/'') (u @ CHR ''/'' # kind) = split_char (CHR ''/'') u @ [kind]" for u
    using assms by (induction u) (auto split: list.splits)
  then have "split_char (CHR ''/'') (apiVersion @ ''/'' @ kind) = ps @ [kind]" by (simp add: ps_def)
  moreover have "join_with ''/'' ps = apiVersion" by (simp add: ps_def join_split)
  ultimately show ?thesis by (simp add: type_cell_def Let_def)
qed

lemma pod_namespaces_set:
  "fo_value ` set (pod_namespaces (Some ps)) = cpi_namespace ` set ps - {[]} \<and> distinct (map fo_value (pod_namespaces (Some ps)))"
proof -
  let ?f = "\<lambda>acc pod. if cpi_namespace pod \<noteq> [] \<and> cpi_namespace pod \<notin> set acc then acc @ [cpi_namespace pod] else acc"
  have "set (foldl ?f acc ps) = set acc \<union> (cpi_namespace ` set ps - {[]}) \<and> distinct (foldl ?f acc ps)" if "distinct acc" for acc
    using that by (induction ps arbitrary: acc) auto
  from this [of "[]"] show ?thesis by (simp add: pod_namespaces_def image_image comp_def)
qed

text \<open>A visitor who follows an administrator's link to the marks of a node sees an empty page.\<close>

lemma nodemark_link_empty: "detail_content (node_tabs False gpu) (Some ''nodemark'') sub = []"
  by (rule hidden_tab_shows_nothing) (auto simp: node_tabs_def shown_tabs_def)

end
