(* ===== verification/Shell.thy ===== *)
theory Shell
  imports Session Files Pseudonym
begin

text \<open>
  What surrounds the pages: the menus of the portal and of the administration
  (\<open>routes/portal/route.tsx\<close>, \<open>routes/admin/route.tsx\<close>), the sidebar that shows them
  (\<open>components/sidebar\<close>), the switch of the account, the menu of the visitor, the form for a
  forgotten password and the page with the versions. Titles are the keys of their translations,
  except those that the code writes out.
\<close>

section \<open>The menus\<close>

datatype menu_title = Title string | Account_management | Member_management

type_synonym sub_item = "menu_title \<times> string"

datatype nav_item = Nav_link menu_title string | Nav_menu menu_title "sub_item list"

record nav_group =
  gr_title :: string
  gr_items :: "nav_item list"

fun item_title :: "nav_item \<Rightarrow> menu_title" where
  "item_title (Nav_link t u) = t"
| "item_title (Nav_menu t is) = t"

fun item_url :: "nav_item \<Rightarrow> string option" where
  "item_url (Nav_link t u) = Some u"
| "item_url (Nav_menu t is) = None"

fun item_subs :: "nav_item \<Rightarrow> sub_item list" where
  "item_subs (Nav_link t u) = []"
| "item_subs (Nav_menu t is) = is"

definition useUserSidebarGroups :: "nav_group list" where
  "useUserSidebarGroups =
     [\<lparr>gr_title = ''sidebar.resourceAndMonitoring'', gr_items =
        [Nav_link (Title ''navigation.platformOverview'') ''/portal/overview'',
         Nav_menu (Title ''navigation.clusterMonitoring'')
           [(Title ''navigation.gpuMonitoring'', ''/portal/monitor/gpu''),
            (Title ''navigation.freeResources'', ''/portal/monitor/idle''),
            (Title ''navigation.networkMonitoring'', ''/portal/monitor/network'')]]\<rparr>,
      \<lparr>gr_title = ''sidebar.jobsAndServices'', gr_items =
        [Nav_menu (Title ''navigation.myJobs'')
           [(Title ''navigation.customJobs'', ''/portal/jobs/custom''),
            (Title ''navigation.jupyterLab'', ''/portal/jobs/inter'')],
         Nav_link (Title ''navigation.jobTemplates'') ''/portal/templates'']\<rparr>,
      \<lparr>gr_title = ''sidebar.dataAndImages'', gr_items =
        [Nav_menu (Title ''navigation.imageManagement'')
           [(Title ''navigation.imageCreation'', ''/portal/env/registry''),
            (Title ''navigation.imageList'', ''/portal/env/images'')],
         Nav_menu (Title ''navigation.dataManagement'')
           [(Title ''navigation.datasets'', ''/portal/data/datasets''),
            (Title ''navigation.models'', ''/portal/data/models''),
            (Title ''navigation.blocks'', ''/portal/data/blocks'')],
         Nav_link (Title ''navigation.fileManagement'') ''/portal/files'']\<rparr>,
      \<lparr>gr_title = ''sidebar.others'', gr_items =
        [Nav_menu (Title ''navigation.more'')
           [(Title ''navigation.userSettings'', ''/portal/settings/user''),
            (Title ''navigation.myOrders'', ''/portal/settings/orders''),
            (Title ''navigation.aboutCrater'', ''/portal/settings/version'')]]\<rparr>]"

definition useAdminSidebarGroups :: "nav_group list" where
  "useAdminSidebarGroups =
     [\<lparr>gr_title = ''sidebar.resourceAndMonitoring'', gr_items =
        [Nav_menu (Title ''navigation.resourceManagement'')
           [(Title ''navigation.nodeManagement'', ''/admin/cluster/nodes''),
            (Title ''navigation.resourceManagement'', ''/admin/cluster/resources'')],
         Nav_menu (Title ''navigation.clusterMonitoring'')
           [(Title ''navigation.gpuMonitoring'', ''/admin/monitor/gpu''),
            (Title ''navigation.freeResources'', ''/admin/monitor/idle''),
            (Title ''navigation.networkMonitoring'', ''/admin/monitor/network'')]]\<rparr>,
      \<lparr>gr_title = ''sidebar.jobsAndServices'', gr_items =
        [Nav_link (Title ''navigation.jobManagement'') ''/admin/jobs'',
         Nav_link (Title ''navigation.cronPolicy'') ''/admin/cronjobs'']\<rparr>,
      \<lparr>gr_title = ''sidebar.usersAndAccounts'', gr_items =
        [Nav_link (Title ''navigation.userManagement'') ''/admin/users'',
         Nav_link (Title ''navigation.accountManagement'') ''/admin/accounts'']\<rparr>,
      \<lparr>gr_title = ''sidebar.dataAndImages'', gr_items =
        [Nav_menu (Title ''navigation.imageManagement'')
           [(Title ''navigation.imageCreation'', ''/admin/env/registry''),
            (Title ''navigation.imageList'', ''/admin/env/images'')],
         Nav_link (Title ''navigation.dataManagement'') ''/admin/data'',
         Nav_link (Title ''navigation.fileManagement'') ''/admin/files'']\<rparr>,
      \<lparr>gr_title = ''navigation.more'', gr_items =
        [Nav_link (Title ''navigation.platformSettings'') ''/admin/settings'',
         Nav_link (Title ''navigation.approvalOrder'') ''/admin/settings/orders'',
         Nav_link (Title ''navigation.aboutCrater'') ''/admin/settings/version'']\<rparr>]"

text \<open>
  \<open>filteredGroups\<close> of the sidebar: who administrates the current account, in the view of a user, gets a
  menu for it in front of the last group; otherwise it is taken out again.
\<close>

definition account_menu :: nav_item where
  "account_menu = Nav_menu Account_management [(Member_management, ''/admin/account/member'')]"

definition account_admin :: "bool \<Rightarrow> IUserContext option \<Rightarrow> bool" where
  "account_admin isAdminView account \<longleftrightarrow> \<not> isAdminView \<and> map_option uc_queue account \<noteq> Some ''default'' \<and>
     map_option uc_roleQueue account = Some Role_Admin"

definition filteredGroups :: "bool \<Rightarrow> IUserContext option \<Rightarrow> nav_group list \<Rightarrow> nav_group list" where
  "filteredGroups isAdminView account groups =
     (if groups = [] \<or> gr_items (last groups) = [] then groups
      else (let g = last groups; first = item_title (hd (gr_items g)) in
        if account_admin isAdminView account \<and> first \<noteq> Account_management
        then butlast groups @ [g\<lparr>gr_items := account_menu # gr_items g\<rparr>]
        else if \<not> account_admin isAdminView account \<and> first = Account_management
        then butlast groups @ [g\<lparr>gr_items := tl (gr_items g)\<rparr>]
        else groups))"

section \<open>Which entry is marked\<close>

text \<open>\<open>location.pathname.replace(/^\\/portal\\//, '').replace(/^\\/admin\\//, '')\<close>.\<close>

definition drop_prefix :: "string \<Rightarrow> string \<Rightarrow> string" where
  "drop_prefix p s = (if starts_with s p then drop (length p) s else s)"

definition nav_href :: "string \<Rightarrow> string" where
  "nav_href pathname = drop_prefix ''/admin/'' (drop_prefix ''/portal/'' pathname)"

text \<open>\<open>s.split('/')[1]\<close>, which is \<open>undefined\<close> for a text without a slash.\<close>

definition second_part :: "string \<Rightarrow> string option" where
  "second_part s = (case split_char (CHR ''/'') s of a # b # _ \<Rightarrow> Some b | _ \<Rightarrow> None)"

definition checkIsActive :: "string \<Rightarrow> nav_item \<Rightarrow> bool \<Rightarrow> bool" where
  "checkIsActive h item mainNav \<longleftrightarrow>
     Some h = item_url item \<or>
     Some (hd (split_char (CHR ''?'') h)) = item_url item \<or>
     filter (\<lambda>i. snd i = h) (item_subs item) \<noteq> [] \<or>
     mainNav \<and> second_part h \<noteq> Some [] \<and> second_part h = Option.bind (item_url item) second_part"

datatype menu_entry = Entry_link bool | Entry_dropdown bool "bool list" | Entry_collapsible bool "bool list"

definition sub_active :: "string \<Rightarrow> sub_item \<Rightarrow> bool" where
  "sub_active h sub = checkIsActive h (Nav_link (fst sub) (snd sub)) False"

definition nav_entry :: "bool \<Rightarrow> string \<Rightarrow> nav_item \<Rightarrow> menu_entry" where
  "nav_entry collapsed h item = (case item of
     Nav_link t u \<Rightarrow> Entry_link (checkIsActive h item False)
   | Nav_menu t subs \<Rightarrow>
       if collapsed then Entry_dropdown (checkIsActive h item False) (map (sub_active h) subs)
       else Entry_collapsible (checkIsActive h item True) (map (sub_active h) subs))"

section \<open>The account and the visitor\<close>

definition currentQueue :: "QueueBasic list option \<Rightarrow> IUserContext option \<Rightarrow> QueueBasic option" where
  "currentQueue queues account = (case queues of None \<Rightarrow> None
     | Some qs \<Rightarrow> find (\<lambda>p. Some (qb_name p) = map_option uc_queue account) qs)"

text \<open>\<open>time\<close> is \<open>new Date(x).getTime()\<close>; the result is the difference to now, when there is a date.\<close>

definition currentExpired :: "(string \<Rightarrow> int) \<Rightarrow> int \<Rightarrow> QueueBasic option \<Rightarrow> int option" where
  "currentExpired time now queue = (case queue of None \<Rightarrow> None
     | Some q \<Rightarrow> map_option (\<lambda>d. time d - now) (qb_expiredAt q))"

definition expiry_shown :: "int option \<Rightarrow> bool option" where
  "expiry_shown diff = map_option (\<lambda>d. d < 0) diff"

definition choose_queue :: "QueueBasic option \<Rightarrow> QueueBasic \<Rightarrow> http_request option" where
  "choose_queue current queue =
     (if map_option qb_name current \<noteq> Some (qb_name queue) then Some (apiQueueSwitch_request (qb_name queue)) else None)"

definition switcher_enabled :: "string \<Rightarrow> bool" where
  "switcher_enabled pathname \<longleftrightarrow> \<not> useIsAdmin pathname"

datatype shown_name = Pseudonym_shown "nat list" | Name_shown string

definition nav_displayName :: "bool \<Rightarrow> (string \<times> nat list) list \<Rightarrow> UserInfo option \<Rightarrow> shown_name" where
  "nav_displayName hideUsername cache user =
     (if hideUsername then Pseudonym_shown (fst (getUserPseudonym cache (map_option ua_name user)))
      else Name_shown (case user of None \<Rightarrow> [] | Some u \<Rightarrow> if ua_nickname u \<noteq> [] then ua_nickname u else ua_name u))"

definition view_switch_offered :: "IUserContext option \<Rightarrow> bool" where
  "view_switch_offered context \<longleftrightarrow> map_option uc_rolePlatform context = Some Role_Admin"

definition switch_view :: "bool \<Rightarrow> session \<Rightarrow> session \<times> location" where
  "switch_view isAdminView s =
     (if isAdminView then (s\<lparr>ss_lastView := ''portal''\<rparr>, at_path ''/portal'')
      else (s\<lparr>ss_lastView := ''admin''\<rparr>, at_path ''/admin''))"

definition press_logout :: "session \<Rightarrow> session \<times> location" where
  "press_logout s = (logout s, \<lparr>loc_path = ''/auth'', loc_redirect = Some ''/''\<rparr>)"

definition toggle_theme :: "string \<Rightarrow> string" where
  "toggle_theme theme = (if theme = ''dark'' then ''light'' else ''dark'')"

section \<open>A new password, and the versions\<close>

text \<open>
  The form for a forgotten password: no request is made; after a second the visitor is told that the
  mail was sent. \<open>email_ok\<close> are the addresses \<open>zod\<close> accepts.
\<close>

datatype forgot_effect = Sent_toast | Form_reset

definition forgot_onSubmit :: "(string \<Rightarrow> bool) \<Rightarrow> string \<Rightarrow> (http_request list \<times> forgot_effect list) option" where
  "forgot_onSubmit email_ok email =
     (if email \<noteq> [] \<and> email_ok email then Some ([], [Sent_toast, Form_reset]) else None)"

definition version_text :: "string option \<Rightarrow> string option" where
  "version_text v = (if v = Some [] then None else v)"

definition development_badge :: "string option \<Rightarrow> bool" where
  "development_badge buildType \<longleftrightarrow> buildType \<notin> {None, Some [], Some ''release''}"

definition commit_shown :: "string option \<Rightarrow> (string \<times> string) option" where
  "commit_shown sha = map_option (\<lambda>s. (take 7 s, ''https://github.com/raids-lab/crater/commit/'' @ s)) (version_text sha)"

section \<open>What the menus do\<close>

definition menu_urls :: "nav_group list \<Rightarrow> string list" where
  "menu_urls groups = concat (map (\<lambda>i. case i of Nav_link t u \<Rightarrow> [u] | Nav_menu t subs \<Rightarrow> map snd subs) (concat (map gr_items groups)))"

lemma drop_prefix_append [simp]: "drop_prefix p (p @ s) = s"
  by (simp add: drop_prefix_def starts_with_def)

definition menu_path :: "string \<Rightarrow> bool" where
  "menu_path u \<longleftrightarrow> starts_with u ''/portal/'' \<or> starts_with u ''/admin/''"

lemma nav_href_relative:
  assumes "\<not> str_includes path ''//''"
  shows "\<not> menu_path (nav_href path)"
proof -
  have tail: "\<not> starts_with r (CHR ''/'' # q)" if "path = u @ CHR ''/'' # r" for u r q
  proof
    assume "starts_with r (CHR ''/'' # q)"
    then obtain t where "r = CHR ''/'' # t" by (auto simp: starts_with_def prefix_def)
    then have "path = u @ ''//'' @ t" using that by simp
    then show False using assms unfolding str_includes_def by (metis sublist_appendI)
  qed
  consider (portal) r where "path = ''/portal/'' @ r" | (admin) r where "path = ''/admin/'' @ r"
    | (other) "\<not> menu_path path"
    by (auto simp: menu_path_def starts_with_def prefix_def)
  then show ?thesis
  proof cases
    case portal
    then have "\<not> starts_with r (CHR ''/'' # q)" for q using tail [of "''/portal''" r] by simp
    then show ?thesis using portal by (simp add: nav_href_def menu_path_def drop_prefix_def starts_with_def)
  next
    case admin
    then have "\<not> starts_with r (CHR ''/'' # q)" for q using tail [of "''/admin''" r] by simp
    then show ?thesis using admin by (simp add: nav_href_def menu_path_def drop_prefix_def starts_with_def)
  next
    case other
    then show ?thesis by (simp add: nav_href_def menu_path_def drop_prefix_def)
  qed
qed

lemma prefix_hd_split: "prefix (hd (split_char c s)) s"
  by (induction s) (auto split: list.splits)

lemma not_active:
  assumes "\<not> menu_path h" "\<forall>u. item_url item = Some u \<longrightarrow> menu_path u" "\<forall>i \<in> set (item_subs item). menu_path (snd i)"
  shows "checkIsActive h item mainNav \<longleftrightarrow>
    mainNav \<and> second_part h \<noteq> Some [] \<and> second_part h = Option.bind (item_url item) second_part"
proof -
  have "\<not> menu_path (hd (split_char (CHR ''?'') h))"
    using assms(1) prefix_order.trans [OF _ prefix_hd_split] unfolding menu_path_def starts_with_def by blast
  then show ?thesis using assms by (auto simp: checkIsActive_def filter_empty_conv)
qed

lemma split_second: "second_part s = None \<longleftrightarrow> CHR ''/'' \<notin> set s"
proof -
  have "CHR ''/'' \<in> set s \<longleftrightarrow> 1 < length (split_char (CHR ''/'') s)"
    by (simp add: length_split_char count_list_0_iff neq0_conv [symmetric] del: neq0_conv)
  then show ?thesis by (auto simp: second_part_def split: list.splits)
qed

definition menu_items :: "nav_group list \<Rightarrow> nav_item list" where
  "menu_items groups = concat (map gr_items groups)"

lemma menus_paths: "list_all menu_path (menu_urls useUserSidebarGroups)" "list_all menu_path (menu_urls useAdminSidebarGroups)"
  by (simp_all add: menu_urls_def useUserSidebarGroups_def useAdminSidebarGroups_def menu_path_def starts_with_def)

lemma filteredGroups_items:
  "set (menu_items (filteredGroups v a groups)) \<subseteq> insert account_menu (set (menu_items groups))"
proof (cases groups rule: rev_cases)
  case Nil
  then show ?thesis by (simp add: filteredGroups_def menu_items_def)
next
  case (snoc gs g)
  moreover have "set (tl (gr_items g)) \<subseteq> set (gr_items g)" by (cases "gr_items g") auto
  ultimately show ?thesis by (auto simp: menu_items_def filteredGroups_def Let_def)
qed

lemma menu_item_paths:
  assumes "groups \<in> {useUserSidebarGroups, useAdminSidebarGroups}"
    and "item \<in> set (menu_items (filteredGroups isAdminView account groups))"
  shows "(\<forall>u. item_url item = Some u \<longrightarrow> menu_path u) \<and> (\<forall>i \<in> set (item_subs item). menu_path (snd i))"
proof -
  have "item = account_menu \<or> item \<in> set (menu_items groups)"
    using assms(2) filteredGroups_items by blast
  moreover have "list_all menu_path (menu_urls groups)" using assms(1) menus_paths by auto
  then have "\<forall>u \<in> set (case i of Nav_link t u \<Rightarrow> [u] | Nav_menu t subs \<Rightarrow> map snd subs). menu_path u"
    if "i \<in> set (menu_items groups)" for i
    using that by (auto simp: menu_items_def menu_urls_def list_all_iff)
  ultimately show ?thesis
    by (cases item) (force simp: account_menu_def menu_path_def starts_with_def)+
qed

text \<open>
  The account menu is there exactly for who administrates the current account, whatever was shown before.
\<close>

lemma filtered_again:
  assumes "groups \<noteq> []" "gr_items (last groups) \<noteq> []" "item_title (hd (gr_items (last groups))) \<noteq> Account_management"
  shows "filteredGroups v a (filteredGroups v' a' groups) = filteredGroups v a groups"
proof -
  have "butlast groups @ [(last groups)\<lparr>gr_items := gr_items (last groups)\<rparr>] = groups" using assms(1) by simp
  then show ?thesis using assms by (auto simp: filteredGroups_def Let_def account_menu_def)
qed

text \<open>C32. No entry of the sidebar is ever marked as the current page: on every path without an empty
  segment, in either view and whether or not the menu for an account administrator is there, each link,
  each menu and each entry of a menu is drawn as inactive, since the path is compared without its first
  part and the entries with it. The menus open by themselves only on paths of a single part.\<close>

theorem nothing_marked:
  assumes "\<not> str_includes path ''//''" "groups \<in> {useUserSidebarGroups, useAdminSidebarGroups}"
    and "item \<in> set (menu_items (filteredGroups (useIsAdmin path) account groups))"
  shows "nav_entry collapsed (nav_href path) item = (case item of
     Nav_link t u \<Rightarrow> Entry_link False
   | Nav_menu t subs \<Rightarrow>
       if collapsed then Entry_dropdown False (map (\<lambda>s. False) subs)
       else Entry_collapsible (CHR ''/'' \<notin> set (nav_href path)) (map (\<lambda>s. False) subs))"
proof -
  note rel = nav_href_relative [OF assms(1)] and paths = menu_item_paths [OF assms(2,3)]
  have item: "checkIsActive (nav_href path) item m \<longleftrightarrow> m \<and> second_part (nav_href path) \<noteq> Some [] \<and>
      second_part (nav_href path) = Option.bind (item_url item) second_part" for m
    using not_active [OF rel] paths by blast
  have sub: "\<not> sub_active (nav_href path) s" if "s \<in> set (item_subs item)" for s
    using not_active [OF rel, of "Nav_link (fst s) (snd s)" False] paths that by (simp add: sub_active_def)
  show ?thesis
  proof (cases item)
    case (Nav_link t u)
    then show ?thesis by (simp add: nav_entry_def item [unfolded Nav_link])
  next
    case (Nav_menu t subs)
    then have "map (sub_active (nav_href path)) subs = map (\<lambda>s. False) subs" using sub by simp
    then show ?thesis using Nav_menu item [unfolded Nav_menu]
      by (auto simp: nav_entry_def split_second [symmetric])
  qed
qed

theorem nothing_marked_witness:
  "nav_entry False (nav_href ''/portal/overview'') (Nav_link (Title ''navigation.platformOverview'') ''/portal/overview'') = Entry_link False"
proof -
  have "\<not> str_includes ''/portal/overview'' ''//''"
    by (simp add: str_includes_def sublist_Cons_right)
  moreover have "Nav_link (Title ''navigation.platformOverview'') ''/portal/overview''
      \<in> set (menu_items (filteredGroups (useIsAdmin ''/portal/overview'') None useUserSidebarGroups))"
    by (simp add: menu_items_def filteredGroups_def account_admin_def useUserSidebarGroups_def)
  ultimately show ?thesis using nothing_marked [of "''/portal/overview''" useUserSidebarGroups _ None False] by simp
qed

text \<open>C20. Following the menus. For a visitor who is logged in, every entry of the portal's menus ends at
  its own page, and so does every entry of the administration's menus for a platform administrator. But
  who administrates an account and is no platform administrator is also offered the members of the
  account, an address under the administration, from where they are sent back and forth between the
  guard and the login page without end.\<close>

theorem menu_destinations:
  assumes "isAuthenticated s"
  shows "(\<forall>u \<in> set (menu_urls useUserSidebarGroups). navigate 4 s (at_path u) = Some (at_path u)) \<and>
    (\<not> not_admin s \<longrightarrow> (\<forall>u \<in> set (menu_urls useAdminSidebarGroups). navigate 4 s (at_path u) = Some (at_path u))) \<and>
    (not_admin s \<and> account_admin False (ss_context s) \<longrightarrow>
       ''/admin/account/member'' \<in> set (menu_urls (filteredGroups False (ss_context s) useUserSidebarGroups)) \<and>
       (\<forall>n. navigate n s (at_path ''/admin/account/member'') = None))"
proof (intro conjI impI ballI allI)
  fix u assume u: "u \<in> set (menu_urls useUserSidebarGroups)"
  then have "starts_with u ''/portal/''"
    by (auto simp: menu_urls_def useUserSidebarGroups_def starts_with_def)
  then have "under u ''/portal''" "u \<noteq> ''/portal''" "u \<noteq> ''/''" "u \<noteq> ''/admin''"
    by (auto simp: under_def starts_with_def)
  moreover from this have "\<not> under u ''/admin''" using under_admin by blast
  ultimately show "navigate 4 s (at_path u) = Some (at_path u)"
    using navigate_landing [of s u] assms by (simp add: landing_def)
next
  fix u assume u: "u \<in> set (menu_urls useAdminSidebarGroups)" and adm: "\<not> not_admin s"
  then have "u \<noteq> ''/portal''" "u \<noteq> ''/''" "u \<noteq> ''/admin''"
    by (auto simp: menu_urls_def useAdminSidebarGroups_def)
  then show "navigate 4 s (at_path u) = Some (at_path u)"
    using navigate_landing [of s u] assms adm by (simp add: landing_def)
next
  assume "not_admin s \<and> account_admin False (ss_context s)"
  then show "''/admin/account/member'' \<in> set (menu_urls (filteredGroups False (ss_context s) useUserSidebarGroups))"
    by (simp add: menu_urls_def filteredGroups_def useUserSidebarGroups_def account_menu_def)
next
  fix n assume "not_admin s \<and> account_admin False (ss_context s)"
  moreover have "under ''/admin/account/member'' ''/admin''" by (simp add: under_def starts_with_def)
  ultimately show "navigate n s (at_path ''/admin/account/member'') = None" using admin_loop [OF assms] by blast
qed

definition demo_member :: session where
  "demo_member = demo_session\<lparr>isAuthenticated := True, ss_context := Some \<lparr>uc_queue = ''lab'', uc_roleQueue = Role_Admin,
     uc_rolePlatform = Role_User, uc_accessQueue = AccessMode_ReadWrite, uc_accessPublic = AccessMode_ReadWrite, uc_space = []\<rparr>\<rparr>"

theorem menu_destinations_witness:
  "navigate 9 demo_member (at_path ''/admin/account/member'') = None \<and>
   navigate 4 demo_member (at_path ''/portal/files'') = Some (at_path ''/portal/files'')"
proof -
  have "isAuthenticated demo_member" by (simp add: demo_member_def)
  moreover have "not_admin demo_member \<and> account_admin False (ss_context demo_member)"
    by (simp add: demo_member_def not_admin_def account_admin_def)
  moreover have "''/portal/files'' \<in> set (menu_urls useUserSidebarGroups)"
    by (simp add: menu_urls_def useUserSidebarGroups_def)
  ultimately show ?thesis using menu_destinations [of demo_member] by blast
qed

text \<open>The switch of the account asks for another account only; nobody is sent a mail for a password.\<close>

lemma choose_other: "choose_queue (Some q) q' = Some r \<longleftrightarrow> qb_name q \<noteq> qb_name q' \<and> r = apiQueueSwitch_request (qb_name q')"
  by (auto simp: choose_queue_def)

lemma no_mail: "forgot_onSubmit ok email = Some (rs, es) \<Longrightarrow> rs = [] \<and> Sent_toast \<in> set es"
  by (auto simp: forgot_onSubmit_def split: if_splits)

end
