(* ===== verification/AdminPages.thy ===== *)
theory AdminPages
  imports Widgets ImageBuild Session ApiCluster ApiData Machine
begin

text \<open>
  Pages for administrators and the page of a build: the list of users with the dialog that edits one
  (\<open>routes/admin/users/index.tsx\<close>), the list of resources (\<open>routes/admin/cluster/resources/index.tsx\<close>),
  the list of accounts (\<open>routes/admin/accounts/-components/account-table.tsx\<close>), the removal of a dataset
  (\<open>routes/admin/data/index.tsx\<close>), the page of an image build
  (\<open>components/image/registry/registry-detail.tsx\<close>), and how sizes are written (\<open>utils/formatter.ts\<close>).
\<close>

section \<open>Users\<close>

record TUser =
  tu_id :: int
  tu_name :: string
  tu_role :: string
  tu_status :: string
  tu_attributes :: IUserAttributes

definition user_row :: "IAdminUser \<Rightarrow> TUser" where
  "user_row i = \<lparr>tu_id = au_id i, tu_name = au_name i, tu_role = int_str (Role_val (au_role i)),
     tu_status = int_str (ProjectStatus_val (au_status i)), tu_attributes = au_attributes i\<rparr>"

definition user_roles :: "string list" where
  "user_roles = map (\<lambda>r. int_str (Role_val r)) [Role_Admin, Role_User]"

definition user_statuses :: "string list" where
  "user_statuses = map (\<lambda>s. int_str (ProjectStatus_val s)) [ProjectStatus_Active, ProjectStatus_Inactive]"

text \<open>\<open>parseInt(role.value)\<close> of an offered role, as the role with that number.\<close>

definition choose_role :: "TUser \<Rightarrow> string \<Rightarrow> http_request option" where
  "choose_role u value =
     map_option (apiAdminUserUpdateRole (tu_name u))
       (find (\<lambda>r. parse_int value = Fin (of_int (Role_val r))) [Role_Guest, Role_User, Role_Admin])"

datatype user_deletion = Self_delete_error | Delete_request http_request

definition delete_user :: "UserInfo option \<Rightarrow> TUser \<Rightarrow> user_deletion" where
  "delete_user userInfo u =
     (if Some (tu_name u) = map_option ua_name userInfo then Self_delete_error
      else Delete_request (apiAdminUserDelete (tu_name u)))"

record user_form =
  ue_nickname :: string
  ue_email :: string
  ue_teacher :: string
  ue_group :: string
  ue_phone :: string

definition text_or_empty :: "string option \<Rightarrow> string" where
  "text_or_empty x = (case x of None \<Rightarrow> [] | Some s \<Rightarrow> s)"

definition form_of_user :: "TUser option \<Rightarrow> user_form" where
  "form_of_user user = (case user of
     None \<Rightarrow> \<lparr>ue_nickname = [], ue_email = [], ue_teacher = [], ue_group = [], ue_phone = []\<rparr>
   | Some u \<Rightarrow> (let a = tu_attributes u in
       \<lparr>ue_nickname = ua_nickname a, ue_email = text_or_empty (ua_email a), ue_teacher = text_or_empty (ua_teacher a),
        ue_group = text_or_empty (ua_group a), ue_phone = text_or_empty (ua_phone a)\<rparr>))"

text \<open>\<open>email_ok\<close> are the addresses \<open>zod\<close> accepts.\<close>

definition userFormSchema :: "(string \<Rightarrow> bool) \<Rightarrow> user_form \<Rightarrow> bool" where
  "userFormSchema email_ok f \<longleftrightarrow> email_ok (ue_email f) \<or> ue_email f = []"

definition user_updateData :: "IUserAttributes \<Rightarrow> user_form \<Rightarrow> IUserAttributes" where
  "user_updateData a f = a\<lparr>ua_nickname := ue_nickname f, ua_email := Some (ue_email f), ua_teacher := Some (ue_teacher f),
     ua_group := Some (ue_group f), ua_phone := Some (ue_phone f)\<rparr>"

definition user_update :: "TUser \<Rightarrow> user_form \<Rightarrow> http_request" where
  "user_update u f = apiAdminUpdateUserAttributes (tu_name u) (user_updateData (tu_attributes u) f)"

text \<open>
  The page: the user being edited, whether the dialog is open, and the form, which stays when the
  dialog closes and is filled again by an effect when another user is chosen (the row kept for a user is the same object as long as its values are).
\<close>

record users_page =
  up_editUser :: "TUser option"
  up_open :: bool
  up_form :: user_form
  up_pending :: bool
  up_sent :: "http_request list"

definition users_page_start :: users_page where
  "users_page_start = \<lparr>up_editUser = None, up_open = False, up_form = form_of_user None, up_pending = False, up_sent = []\<rparr>"

definition press_edit :: "TUser \<Rightarrow> users_page \<Rightarrow> users_page" where
  "press_edit u s = s\<lparr>up_editUser := Some u, up_open := True,
     up_form := if up_editUser s = Some u then up_form s else form_of_user (Some u)\<rparr>"

definition user_onSubmit :: "(string \<Rightarrow> bool) \<Rightarrow> users_page \<Rightarrow> users_page" where
  "user_onSubmit email_ok s =
     (if \<not> userFormSchema email_ok (up_form s) then s
      else (case up_editUser s of None \<Rightarrow> s
        | Some u \<Rightarrow> s\<lparr>up_pending := True,
            up_sent := up_sent s @ [user_update u (up_form s)]\<rparr>))"

definition user_answered :: "bool \<Rightarrow> users_page \<Rightarrow> users_page" where
  "user_answered ok s = (if ok then s\<lparr>up_open := False, up_pending := False\<rparr> else s\<lparr>up_pending := False\<rparr>)"

datatype users_event =
    Press_edit TUser
  | Fill_form user_form
  | Users_open_change bool
  | Submit_user
  | User_answered bool

text \<open>The button is disabled while a request is pending; typing and submitting need the open dialog.\<close>

inductive users_step :: "(string \<Rightarrow> bool) \<Rightarrow> users_page \<Rightarrow> users_event \<Rightarrow> users_page \<Rightarrow> bool"
  for email_ok :: "string \<Rightarrow> bool" where
  users_edit: "users_step email_ok s (Press_edit u) (press_edit u s)"
| users_fill: "up_open s \<Longrightarrow> users_step email_ok s (Fill_form f) (s\<lparr>up_form := f\<rparr>)"
| users_open: "users_step email_ok s (Users_open_change b) (s\<lparr>up_open := b\<rparr>)"
| users_submit: "up_open s \<Longrightarrow> \<not> up_pending s \<Longrightarrow> users_step email_ok s Submit_user (user_onSubmit email_ok s)"
| users_answer: "up_pending s \<Longrightarrow> users_step email_ok s (User_answered ok) (user_answered ok s)"

inductive_simps users_step_simps:
  "users_step email_ok s (Press_edit u) s'"
  "users_step email_ok s (Fill_form f) s'"
  "users_step email_ok s (Users_open_change b) s'"
  "users_step email_ok s Submit_user s'"
  "users_step email_ok s (User_answered ok) s'"

section \<open>Sizes\<close>

text \<open>\<open>x.toFixed(2)\<close> of a number that is not negative: of two nearest values the larger.\<close>

definition hundredths :: "rat \<Rightarrow> nat" where
  "hundredths x = nat \<lfloor>x * 100 + 1 / 2\<rfloor>"

definition to_fixed2 :: "rat \<Rightarrow> string" where
  "to_fixed2 x = (let n = hundredths x in
     nat_str (n div 100) @ ''.'' @ [digit_char (n div 10 mod 10), digit_char (n mod 10)])"

text \<open>\<open>Math.floor(Math.log(bytes) / Math.log(1024))\<close> for a positive whole number.\<close>

fun unit_index :: "nat \<Rightarrow> nat" where
  "unit_index b = (if b < 1024 then 0 else Suc (unit_index (b div 1024)))"

declare unit_index.simps [simp del]

definition byte_units :: "string list" where
  "byte_units = [''B'', ''KB'', ''MB'', ''GB'', ''TB'']"

definition positive_bytes :: "nat \<Rightarrow> string" where
  "positive_bytes b = (let i = unit_index b in
     to_fixed2 (of_nat b / 1024 ^ i) @ (if i < length byte_units then byte_units ! i else ''undefined''))"

definition formatBytes :: "int \<Rightarrow> string" where
  "formatBytes bytes = (if bytes = 0 then ''0 B''
     else if bytes < 0 then ''-'' @ positive_bytes (nat (- bytes)) else positive_bytes (nat bytes))"

section \<open>Resources, accounts and datasets\<close>

definition is_gpu :: "ResourceInfo \<Rightarrow> bool" where
  "is_gpu r \<longleftrightarrow> rs_type r = Some Kind_gpu"

definition networks_query :: "ResourceInfo \<Rightarrow> http_request option" where
  "networks_query r = (if is_gpu r then Some (apiResourceNetworks (rs_ID r)) else None)"

definition networks_cell :: "ResourceInfo \<Rightarrow> ResourceInfo list option \<Rightarrow> string list" where
  "networks_cell r answer = (case answer of None \<Rightarrow> [] | Some ns \<Rightarrow> if is_gpu r then map rs_name ns else [])"

text \<open>A virtual GPU is shown by a name and, unless it is empty, its description.\<close>

definition vgpu_cell :: "ResourceInfo \<Rightarrow> ResourceVGPU list option \<Rightarrow> (string \<times> string option) list" where
  "vgpu_cell r answer = (case answer of None \<Rightarrow> [] | Some vs \<Rightarrow> if is_gpu r
     then map (\<lambda>v. (case map_option rs_name (rv_vgpuResource v) of
           Some (c # cs) \<Rightarrow> c # cs | _ \<Rightarrow> ''VGPU-'' @ int_str (rv_ID v),
         case rv_description v of Some (c # cs) \<Rightarrow> Some (c # cs) | _ \<Rightarrow> None)) vs
     else [])"

datatype resource_action = Edit_labels | Edit_type | Associate_networks | Associate_vgpu | Delete_resource

definition resource_actions :: "ResourceInfo \<Rightarrow> resource_action list" where
  "resource_actions r = [Edit_labels, Edit_type] @ (if is_gpu r then [Associate_networks, Associate_vgpu] else []) @ [Delete_resource]"

definition amount_cell :: "int \<Rightarrow> string option" where
  "amount_cell amount = (if amount = 0 then None
     else if 1024 * 1024 < amount then Some (formatBytes amount) else Some (int_str amount))"

definition listed_resources :: "(string \<Rightarrow> string \<Rightarrow> int) \<Rightarrow> ResourceInfo list \<Rightarrow> ResourceInfo list" where
  "listed_resources localeCompare rs = sort_by (\<lambda>a b. localeCompare (rs_name a) (rs_name b)) rs"

record account_dialog =
  ad_currentAccount :: "IAccount option"
  ad_isOpen :: bool

definition edit_account :: "IAccount \<Rightarrow> account_dialog \<Rightarrow> account_dialog" where
  "edit_account a d = d\<lparr>ad_currentAccount := Some a, ad_isOpen := True\<rparr>"

definition create_account :: "account_dialog \<Rightarrow> account_dialog" where
  "create_account d = d\<lparr>ad_currentAccount := None, ad_isOpen := True\<rparr>"

definition admin_delete_dataset :: "IDataset \<Rightarrow> http_request" where
  "admin_delete_dataset d = apiDatasetDelete (ds_id d)"

section \<open>The page of a build\<close>

definition shouldShowDelete :: "KanikoInfoResponse \<Rightarrow> bool" where
  "shouldShowDelete k \<longleftrightarrow> ki_status k = Pack_Finished \<or> ki_status k = Pack_Failed \<or> ki_status k = Pack_Canceled"

definition shouldShowCancel :: "KanikoInfoResponse \<Rightarrow> bool" where
  "shouldShowCancel k \<longleftrightarrow> ki_status k = Pack_Pending \<or> ki_status k = Pack_Running"

definition copy_link_offered :: "KanikoInfoResponse \<Rightarrow> bool" where
  "copy_link_offered k \<longleftrightarrow> ki_status k = Pack_Finished"

definition copied_link :: "KanikoInfoResponse \<Rightarrow> string option" where
  "copied_link k = (if ki_imageLink k = [] then None else Some (ki_imageLink k))"

definition detail_removal :: "KanikoInfoResponse \<Rightarrow> http_request" where
  "detail_removal k = apiUserRemoveKanikoList [ki_ID k]"

text \<open>What follows the answer: a wait in ms, the queries that are dropped or read again, the page, a toast.\<close>

datatype removal_effect =
    Wait_ms int | Invalidate_build | Forget_build string | Go_to string | Removal_toast removal_toast

definition detail_removed :: "bool \<Rightarrow> bool \<Rightarrow> bool \<Rightarrow> string \<Rightarrow> removal_effect list" where
  "detail_removed isAdmin ok isCancel name =
     (if \<not> ok then [Removal_toast (removal_toast_of False isCancel)]
      else if isCancel then [Wait_ms 2000, Invalidate_build, Removal_toast (removal_toast_of True True)]
      else (if name = [] then [] else [Forget_build name]) @
        [Go_to (if isAdmin then ''/admin/env/registry'' else ''/portal/env/registry''), Removal_toast (removal_toast_of True False)])"

definition build_tabs :: "KanikoInfoResponse \<Rightarrow> detail_tab list" where
  "build_tabs k = [\<lparr>dt_key = ''info'', dt_subTabs = [], dt_hidden = (ki_podName k = [])\<rparr>,
     \<lparr>dt_key = ''dockerfile'', dt_subTabs = [], dt_hidden = (ki_buildSource k = ImagePackSource_Snapshot)\<rparr>]"

definition code_language :: "KanikoInfoResponse \<Rightarrow> string" where
  "code_language k =
     (if ki_buildSource k = ImagePackSource_Dockerfile \<or> ki_buildSource k = ImagePackSource_PipApt then ''dockerfile'' else ''python'')"

section \<open>Who is updated with what\<close>

lemma form_round_trip: "form_of_user (Some (u\<lparr>tu_attributes := user_updateData (tu_attributes u) f\<rparr>)) = f"
  by (simp add: form_of_user_def user_updateData_def text_or_empty_def Let_def)

definition same_identity :: "IUserAttributes \<Rightarrow> IUserAttributes \<Rightarrow> bool" where
  "same_identity a b \<longleftrightarrow> ua_id a = ua_id b \<and> ua_name a = ua_name b \<and> ua_expiredAt a = ua_expiredAt b \<and>
     ua_avatar a = ua_avatar b \<and> ua_uid a = ua_uid b \<and> ua_gid a = ua_gid b"

lemma updateData_keeps: "same_identity (user_updateData a f) a"
  by (simp add: user_updateData_def same_identity_def)

text \<open>The form belongs to the user chosen last, and was filled since or is as it was loaded.\<close>

definition form_belongs :: "users_event list \<Rightarrow> TUser \<Rightarrow> user_form \<Rightarrow> bool" where
  "form_belongs es u f \<longleftrightarrow> (\<exists>es1 es2. es = es1 @ Press_edit u # es2 \<and>
     (\<forall>v. Press_edit v \<in> set es2 \<longrightarrow> v = u) \<and> (f = form_of_user (Some u) \<or> Fill_form f \<in> set es2))"

lemma form_belongs_snoc:
  assumes "form_belongs es u f" "\<forall>v. e = Press_edit v \<longrightarrow> v = u"
  shows "form_belongs (es @ [e]) u f"
proof -
  obtain es1 es2 where "es = es1 @ Press_edit u # es2" "\<forall>v. Press_edit v \<in> set es2 \<longrightarrow> v = u"
      "f = form_of_user (Some u) \<or> Fill_form f \<in> set es2"
    using assms(1) by (auto simp: form_belongs_def)
  then show ?thesis using assms(2) unfolding form_belongs_def
    by (intro exI [of _ es1] exI [of _ "es2 @ [e]"]) auto
qed

lemma form_belongs_fill:
  assumes "form_belongs es u g"
  shows "form_belongs (es @ [Fill_form f]) u f"
proof -
  obtain es1 es2 where "es = es1 @ Press_edit u # es2" "\<forall>v. Press_edit v \<in> set es2 \<longrightarrow> v = u"
    using assms by (auto simp: form_belongs_def)
  then show ?thesis unfolding form_belongs_def
    by (intro exI [of _ es1] exI [of _ "es2 @ [Fill_form f]"]) auto
qed

lemma form_belongs_new: "form_belongs (es @ [Press_edit u]) u (form_of_user (Some u))"
  unfolding form_belongs_def by (intro exI [of _ es] exI [of _ "[]"]) simp

inductive sent_ok :: "(string \<Rightarrow> bool) \<Rightarrow> users_event list \<Rightarrow> http_request \<Rightarrow> bool" for email_ok where
  sent_ok: "form_belongs fs u f \<Longrightarrow> userFormSchema email_ok f \<Longrightarrow> sent_ok email_ok (fs @ Submit_user # gs) (user_update u f)"

inductive_cases sent_okE: "sent_ok email_ok es r"

lemma sent_ok_snoc: "sent_ok email_ok es r \<Longrightarrow> sent_ok email_ok (es @ [e]) r"
proof (elim sent_okE)
  fix fs gs u f
  assume "es = fs @ Submit_user # gs" "r = user_update u f" "form_belongs fs u f" "userFormSchema email_ok f"
  then show ?thesis using sent_ok [of fs u f email_ok "gs @ [e]"] by simp
qed

definition users_inv :: "(string \<Rightarrow> bool) \<Rightarrow> users_event list \<Rightarrow> users_page \<Rightarrow> bool" where
  "users_inv email_ok es s \<longleftrightarrow>
     (\<forall>u. up_editUser s = Some u \<longrightarrow> form_belongs es u (up_form s)) \<and> (\<forall>r \<in> set (up_sent s). sent_ok email_ok es r)"

lemma users_sent_new:
  assumes "users_step email_ok s e s'" "r \<in> set (up_sent s')" "r \<notin> set (up_sent s)"
  shows "\<exists>u. e = Submit_user \<and> up_editUser s = Some u \<and> userFormSchema email_ok (up_form s) \<and> r = user_update u (up_form s)"
  using assms(1)
proof cases
  case users_submit
  then show ?thesis using assms(2,3) by (auto simp: user_onSubmit_def split: if_splits option.splits)
qed (use assms(2,3) in \<open>auto simp: press_edit_def user_answered_def split: if_splits\<close>)

lemma users_form_step:
  assumes inv: "users_inv email_ok es s" and step: "users_step email_ok s e s'" and that: "up_editUser s' = Some u"
  shows "form_belongs (es @ [e]) u (up_form s')"
  using step
proof cases
  case (users_edit v)
  show ?thesis
  proof (cases "up_editUser s = Some v")
    case True
    then have "form_belongs es u (up_form s)" using inv that users_edit by (simp add: users_inv_def press_edit_def)
    then show ?thesis using users_edit that True by (auto intro: form_belongs_snoc simp: press_edit_def)
  next
    case False
    then show ?thesis using users_edit that by (auto intro: form_belongs_new simp: press_edit_def)
  qed
next
  case (users_fill f)
  then show ?thesis using inv that by (auto intro: form_belongs_fill simp: users_inv_def)
next
  case (users_open b)
  then show ?thesis using inv that by (simp add: users_inv_def form_belongs_snoc)
next
  case users_submit
  then have "up_form s' = up_form s" "up_editUser s' = up_editUser s" by (auto simp: user_onSubmit_def split: option.splits)
  then show ?thesis using inv that users_submit by (simp add: users_inv_def form_belongs_snoc)
next
  case (users_answer ok)
  then have "up_form s' = up_form s" "up_editUser s' = up_editUser s" by (auto simp: user_answered_def)
  then show ?thesis using inv that users_answer by (simp add: users_inv_def form_belongs_snoc)
qed

lemma users_sent_step:
  assumes inv: "users_inv email_ok es s" and step: "users_step email_ok s e s'" and r: "r \<in> set (up_sent s')"
  shows "sent_ok email_ok (es @ [e]) r"
proof (cases "r \<in> set (up_sent s)")
  case True
  then show ?thesis using inv by (auto intro: sent_ok_snoc simp: users_inv_def)
next
  case False
  then obtain u where "e = Submit_user" "up_editUser s = Some u" "userFormSchema email_ok (up_form s)" "r = user_update u (up_form s)"
    using users_sent_new [OF step r] by blast
  then show ?thesis using inv sent_ok [of es u "up_form s" email_ok "[]"] by (simp add: users_inv_def)
qed

lemma users_run_inv: "runs (users_step email_ok) users_page_start es s \<Longrightarrow> users_inv email_ok es s"
proof (induction es arbitrary: s rule: rev_induct)
  case Nil
  then show ?case by (simp add: users_inv_def users_page_start_def)
next
  case (snoc e es)
  then obtain t where "runs (users_step email_ok) users_page_start es t" "users_step email_ok t e s"
    by (elim runs_snocE)
  then have inv: "users_inv email_ok es t" and step: "users_step email_ok t e s" using snoc.IH by simp_all
  show ?case unfolding users_inv_def using users_form_step [OF inv step] users_sent_step [OF inv step] by simp
qed


definition demo_row :: TUser where
  "demo_row = user_row \<lparr>au_id = 1, au_name = ''li'', au_role = Role_User, au_status = ProjectStatus_Active,
     au_attributes = ar_user demo_auth\<rparr>"


text \<open>Edits that were given up are there again when the dialog opens for the same user.\<close>

lemma discarded_edits_kept:
  "up_form (press_edit u (user_answered False (press_edit u s\<lparr>up_form := f, up_open := False\<rparr>))) = f"
  by (simp add: press_edit_def user_answered_def)

lemma not_self: "delete_user (Some i) u = Delete_request r \<Longrightarrow> tu_name u \<noteq> ua_name i \<and> r = apiAdminUserDelete (tu_name u)"
  by (simp add: delete_user_def split: if_splits)

lemma role_chosen: "choose_role u (int_str (Role_val r)) = Some (apiAdminUserUpdateRole (tu_name u) r)"
  using parse_int_int_str [of "[]" "Role_val r"] by (cases r) (simp_all add: choose_role_def stops_digits_def)

section \<open>Sizes are written with the right unit\<close>

lemma unit_index_bounds: "0 < b \<Longrightarrow> 1024 ^ unit_index b \<le> b \<and> b < 1024 ^ Suc (unit_index b)"
proof (induction b rule: unit_index.induct)
  case (1 b)
  show ?case
  proof (cases "b < 1024")
    case True
    then show ?thesis using 1(2) by (simp add: unit_index.simps [of b])
  next
    case False
    then have "1024 ^ unit_index (b div 1024) \<le> b div 1024 \<and> b div 1024 < 1024 ^ Suc (unit_index (b div 1024))"
      using 1(1) by simp
    moreover have "unit_index b = Suc (unit_index (b div 1024))" using False by (simp add: unit_index.simps [of b])
    ultimately show ?thesis by (simp add: less_eq_div_iff_mult_less_eq div_less_iff_less_mult mult.commute)
  qed
qed

lemma hundredths_near:
  assumes "0 \<le> x"
  shows "\<bar>of_nat (hundredths x) / 100 - x\<bar> \<le> 1 / 200"
proof -
  have "0 \<le> \<lfloor>x * 100 + 1 / 2\<rfloor>" using assms by (simp add: le_floor_iff)
  then have "of_nat (hundredths x) = (of_int \<lfloor>x * 100 + 1 / 2\<rfloor> :: rat)" by (simp add: hundredths_def)
  moreover have "of_int \<lfloor>x * 100 + 1 / 2\<rfloor> \<le> x * 100 + 1 / 2" "x * 100 + 1 / 2 < of_int \<lfloor>x * 100 + 1 / 2\<rfloor> + 1"
    by linarith+
  ultimately show ?thesis by (simp only: abs_le_iff) linarith
qed

text \<open>
  A size below \<open>1024 ^ 5\<close> bytes is written as a number of a unit that is at least one and below 1024
  before it is rounded, and the number written is off by at most half of its last digit; from there on
  the code runs out of units.
\<close>

lemma size_unit:
  assumes "0 < b" "b < 1024 ^ 5"
  shows "\<exists>i x. i < 5 \<and> x = of_nat b / 1024 ^ i \<and> 1 \<le> x \<and> x < 1024 \<and>
    formatBytes (int b) = to_fixed2 x @ byte_units ! i \<and> \<bar>of_nat (hundredths x) / 100 - x\<bar> \<le> 1 / 200"
proof -
  define i where "i = unit_index b"
  define x :: rat where "x = of_nat b / 1024 ^ i"
  have low: "1024 ^ i \<le> b" and high: "b < 1024 ^ Suc i" using unit_index_bounds [OF assms(1)] by (simp_all add: i_def)
  have i: "i < 5"
  proof (rule ccontr)
    assume "\<not> i < 5"
    then have "(1024::nat) ^ 5 \<le> 1024 ^ i" by (intro power_increasing) simp_all
    with low assms(2) show False by linarith
  qed
  have "(of_nat (1024 ^ i) :: rat) \<le> of_nat b" "(of_nat b :: rat) < of_nat (1024 ^ Suc i)"
    using low high by (simp_all only: of_nat_le_iff of_nat_less_iff)
  then have "1 \<le> x" "x < 1024" by (simp_all add: x_def field_simps)
  moreover have "formatBytes (int b) = to_fixed2 x @ byte_units ! i"
    using assms(1) i by (simp add: formatBytes_def positive_bytes_def Let_def i_def x_def byte_units_def)
  moreover have "\<bar>of_nat (hundredths x) / 100 - x\<bar> \<le> 1 / 200" using \<open>1 \<le> x\<close> by (intro hundredths_near) simp
  ultimately show ?thesis using i by (intro exI [of _ i] exI [of _ x]) (simp add: x_def)
qed

lemma size_without_unit:
  assumes "1024 ^ 5 \<le> b"
  shows "suffix ''undefined'' (formatBytes (int b))"
proof -
  have pos: "0 < b" using assms by (rule less_le_trans [rotated]) simp
  have "\<not> unit_index b < 5"
  proof
    assume "unit_index b < 5"
    then have "(1024::nat) ^ Suc (unit_index b) \<le> 1024 ^ 5" by (intro power_increasing) simp_all
    with unit_index_bounds [OF pos] assms show False by linarith
  qed
  then show ?thesis using pos by (simp add: formatBytes_def positive_bytes_def Let_def byte_units_def suffix_def)
qed

section \<open>What the page of a build offers\<close>

text \<open>
  The page offers at most one of deleting and cancelling, deleting exactly when the list does; while a
  build is being checked, and for a build without a state, the page offers neither, where the list
  offers to cancel.
\<close>

lemma build_buttons:
  "\<not> (shouldShowDelete k \<and> shouldShowCancel k)" "shouldShowDelete k \<longleftrightarrow> build_over (ki_status k)"
  "(\<not> shouldShowDelete k \<and> \<not> shouldShowCancel k) \<longleftrightarrow> ki_status k \<in> {Pack_Initial, Pack_Empty}"
  by (cases "ki_status k"; simp add: shouldShowDelete_def shouldShowCancel_def build_over_def)+

text \<open>Administrators remove a build from its page by the request for users.\<close>

lemma admin_detail_removal: "detail_removal k \<noteq> apiAdminDeleteKanikoList ids"
  by (simp add: detail_removal_def wire_defs)

end
