(* ===== verification/Highlight.thy ===== *)
theory Highlight
  imports ImageBuild Machine
begin

text \<open>
  Texts with code in them (\<open>components/form/markdown-renderer.tsx\<close>): the highlighter of a block of
  code, an asynchronous component with a cache that all blocks share, as a step relation; which
  language a block is in, what its text is, and how its lines are numbered. The library for
  highlighting is a parameter: \<open>bundled\<close> are its languages and \<open>codeToTokens\<close> its answer (lines of
  pieces of text), \<open>None\<close> when it throws. The colours of a piece are left out.
\<close>

type_synonym tokens = "string list list"

section \<open>The language and the text of a block\<close>

fun language_of :: "string \<Rightarrow> string option" where
  "language_of [] = None"
| "language_of (c # cs) =
     (if starts_with (c # cs) ''language-'' \<and> takeWhile word_char (drop 9 (c # cs)) \<noteq> []
      then Some (takeWhile word_char (drop 9 (c # cs))) else language_of cs)"

datatype code_view = Inline_code | Light_block string | Highlighted_block string string

text \<open>The children of a React element; an element may have no property \<open>children\<close>.\<close>

datatype react_child =
    Nothing_child
  | Text_child string
  | Number_child int
  | Bool_child bool
  | List_child "react_child list"
  | Element_child "react_child option"

fun childrenTakeAllStringContents :: "react_child \<Rightarrow> string" where
  "childrenTakeAllStringContents Nothing_child = []"
| "childrenTakeAllStringContents (Text_child s) = s"
| "childrenTakeAllStringContents (Number_child n) = (if n = 0 then [] else int_str n)"
| "childrenTakeAllStringContents (Bool_child b) = (if b then ''true'' else [])"
| "childrenTakeAllStringContents (List_child cs) = concat (map childrenTakeAllStringContents cs)"
| "childrenTakeAllStringContents (Element_child (Some c)) = childrenTakeAllStringContents c"
| "childrenTakeAllStringContents (Element_child None) = ''[object Object]''"

definition code_view_of :: "string option \<Rightarrow> react_child \<Rightarrow> code_view" where
  "code_view_of className children = (case language_of (case className of None \<Rightarrow> [] | Some c \<Rightarrow> c) of
     None \<Rightarrow> Inline_code
   | Some language \<Rightarrow> (let code = childrenTakeAllStringContents children in
       if 5000 < length code then Light_block code else Highlighted_block language code))"

section \<open>The highlighter\<close>

datatype work_phase = Idle_waiting | Importing | Tokenizing | Tokens_stored | Given_up

record highlight_work =
  hw_language :: string
  hw_text :: string
  hw_phase :: work_phase
  hw_aborted :: bool

text \<open>
  One block: the cache of all blocks, what the block is given, its state, \<open>isMountedRef\<close>, the works
  its effect started, and which of them the cleanup of the last effect aborts: none when the effect
  found its answer in the cache, where it returns without a cleanup.
\<close>

record highlighter =
  hl_cache :: "string \<Rightarrow> tokens option"
  hl_language :: string
  hl_text :: string
  hl_tokens :: tokens
  hl_isLoading :: bool
  hl_mounted :: bool
  hl_works :: "highlight_work list"
  hl_cleanup :: "nat option"
  hl_live :: bool

definition cacheKey :: "string \<Rightarrow> string \<Rightarrow> string" where
  "cacheKey language text = language @ '':'' @ text"

definition highlight_effect :: "highlighter \<Rightarrow> highlighter" where
  "highlight_effect s = (case hl_cache s (cacheKey (hl_language s) (hl_text s)) of
     Some ts \<Rightarrow> s\<lparr>hl_mounted := True, hl_tokens := ts, hl_isLoading := False, hl_cleanup := None\<rparr>
   | None \<Rightarrow> s\<lparr>hl_mounted := True,
       hl_works := hl_works s @ [\<lparr>hw_language = hl_language s, hw_text = hl_text s, hw_phase = Idle_waiting, hw_aborted = False\<rparr>],
       hl_cleanup := Some (length (hl_works s))\<rparr>)"

definition highlight_cleanup :: "highlighter \<Rightarrow> highlighter" where
  "highlight_cleanup s = (case hl_cleanup s of None \<Rightarrow> s
   | Some i \<Rightarrow> s\<lparr>hl_mounted := False, hl_works := (hl_works s)[i := (hl_works s ! i)\<lparr>hw_aborted := True\<rparr>], hl_cleanup := None\<rparr>)"

definition highlight_mount :: "(string \<Rightarrow> tokens option) \<Rightarrow> string \<Rightarrow> string \<Rightarrow> highlighter" where
  "highlight_mount cache language text = highlight_effect
     \<lparr>hl_cache = cache, hl_language = language, hl_text = text, hl_tokens = [], hl_isLoading = True, hl_mounted = True,
      hl_works = [], hl_cleanup = None, hl_live = True\<rparr>"

definition highlight_update :: "string \<Rightarrow> string \<Rightarrow> highlighter \<Rightarrow> highlighter" where
  "highlight_update language text s = (if hl_language s = language \<and> hl_text s = text then s
     else highlight_effect ((highlight_cleanup s)\<lparr>hl_language := language, hl_text := text\<rparr>))"

definition highlight_unmount :: "highlighter \<Rightarrow> highlighter" where
  "highlight_unmount s = (highlight_cleanup s)\<lparr>hl_live := False\<rparr>"

definition set_work :: "nat \<Rightarrow> work_phase \<Rightarrow> highlighter \<Rightarrow> highlighter" where
  "set_work i p s = s\<lparr>hl_works := (hl_works s)[i := (hl_works s ! i)\<lparr>hw_phase := p\<rparr>]\<rparr>"

definition still_wanted :: "nat \<Rightarrow> highlighter \<Rightarrow> bool" where
  "still_wanted i s \<longleftrightarrow> hl_mounted s \<and> \<not> hw_aborted (hl_works s ! i)"

text \<open>\<open>requestIdleCallback\<close> asks whether the block is mounted before it starts, \<open>setTimeout\<close> does not.\<close>

definition work_started :: "nat \<Rightarrow> bool \<Rightarrow> highlighter \<Rightarrow> highlighter" where
  "work_started i idle_callback s = set_work i (if idle_callback \<and> \<not> hl_mounted s then Given_up else Importing) s"

definition work_failed :: "nat \<Rightarrow> highlighter \<Rightarrow> highlighter" where
  "work_failed i s = set_work i Given_up (if still_wanted i s then s\<lparr>hl_isLoading := False\<rparr> else s)"

definition work_imported :: "(string \<Rightarrow> bool) \<Rightarrow> nat \<Rightarrow> bool \<Rightarrow> highlighter \<Rightarrow> highlighter" where
  "work_imported bundled i ok s =
     (if \<not> ok then work_failed i s
      else if \<not> still_wanted i s then set_work i Given_up s
      else if \<not> bundled (hw_language (hl_works s ! i)) then set_work i Given_up (s\<lparr>hl_isLoading := False\<rparr>)
      else set_work i Tokenizing s)"

definition work_tokenized :: "(string \<Rightarrow> string \<Rightarrow> tokens option) \<Rightarrow> nat \<Rightarrow> highlighter \<Rightarrow> highlighter" where
  "work_tokenized codeToTokens i s = (let w = hl_works s ! i in
     case codeToTokens (hw_language w) (hw_text w) of
       None \<Rightarrow> work_failed i s
     | Some ts \<Rightarrow> if still_wanted i s
         then set_work i Tokens_stored (s\<lparr>hl_cache := (hl_cache s)(cacheKey (hw_language w) (hw_text w) \<mapsto> ts),
           hl_tokens := ts, hl_isLoading := False\<rparr>)
         else set_work i Given_up s)"

datatype code_rendering = Plain_code string | Coloured_code tokens

definition highlight_shown :: "highlighter \<Rightarrow> code_rendering" where
  "highlight_shown s = (if hl_isLoading s \<or> hl_tokens s = [] then Plain_code (hl_text s) else Coloured_code (hl_tokens s))"

text \<open>
  What happens to a block: it is given another language or text, it is removed, its works go on, and
  another block stores its answer in the cache. Languages are words, as the pattern above and the
  callers see to.
\<close>

definition language_word :: "string \<Rightarrow> bool" where
  "language_word l \<longleftrightarrow> list_all word_char l"

datatype highlight_event =
    Block_given string string
  | Block_removed
  | Work_started nat bool
  | Work_imported nat bool
  | Work_tokenized nat
  | Stored_elsewhere string string

definition work_at :: "highlighter \<Rightarrow> nat \<Rightarrow> work_phase \<Rightarrow> bool" where
  "work_at s i p \<longleftrightarrow> i < length (hl_works s) \<and> hw_phase (hl_works s ! i) = p"

inductive highlight_step :: "(string \<Rightarrow> bool) \<Rightarrow> (string \<Rightarrow> string \<Rightarrow> tokens option) \<Rightarrow>
    highlighter \<Rightarrow> highlight_event \<Rightarrow> highlighter \<Rightarrow> bool"
  for bundled :: "string \<Rightarrow> bool" and codeToTokens :: "string \<Rightarrow> string \<Rightarrow> tokens option" where
  hl_given: "hl_live s \<Longrightarrow> language_word l \<Longrightarrow> highlight_step bundled codeToTokens s (Block_given l x) (highlight_update l x s)"
| hl_removed: "hl_live s \<Longrightarrow> highlight_step bundled codeToTokens s Block_removed (highlight_unmount s)"
| hl_started: "work_at s i Idle_waiting \<Longrightarrow>
    highlight_step bundled codeToTokens s (Work_started i b) (work_started i b s)"
| hl_imported: "work_at s i Importing \<Longrightarrow>
    highlight_step bundled codeToTokens s (Work_imported i ok) (work_imported bundled i ok s)"
| hl_tokenized: "work_at s i Tokenizing \<Longrightarrow>
    highlight_step bundled codeToTokens s (Work_tokenized i) (work_tokenized codeToTokens i s)"
| hl_elsewhere: "language_word l \<Longrightarrow> codeToTokens l x = Some ts \<Longrightarrow>
    highlight_step bundled codeToTokens s (Stored_elsewhere l x) (s\<lparr>hl_cache := (hl_cache s)(cacheKey l x \<mapsto> ts)\<rparr>)"

inductive_cases highlight_stepE: "highlight_step bundled codeToTokens s e s'"
inductive_simps highlight_step_simps:
  "highlight_step bundled codeToTokens s (Block_given l x) s'"
  "highlight_step bundled codeToTokens s Block_removed s'"
  "highlight_step bundled codeToTokens s (Work_started i b) s'"
  "highlight_step bundled codeToTokens s (Work_imported i ok) s'"
  "highlight_step bundled codeToTokens s (Work_tokenized i) s'"

section \<open>The text that is shown\<close>

text \<open>\<open>String(lineIndex + 1).padStart(String(tokens.length).length, ' ')\<close>.\<close>

definition line_number :: "tokens \<Rightarrow> nat \<Rightarrow> string" where
  "line_number ts i = (let n = nat_str (i + 1) in replicate (length (nat_str (length ts)) - length n) (CHR '' '') @ n)"

definition coloured_lines :: "bool \<Rightarrow> tokens \<Rightarrow> string list" where
  "coloured_lines withLineNumbers ts =
     map (\<lambda>i. (if withLineNumbers then line_number ts i else []) @ concat (ts ! i)) [0..<length ts]"

definition coloured_text :: "bool \<Rightarrow> tokens \<Rightarrow> string" where
  "coloured_text withLineNumbers ts = join_with [newline] (coloured_lines withLineNumbers ts)"

section \<open>Lemmas on the text\<close>

lemma language_of_word: "language_of s = Some l \<Longrightarrow> language_word l \<and> l \<noteq> []"
proof (induction s)
  case (Cons c cs)
  then show ?case
    by (auto simp: language_word_def list_all_iff split: if_splits dest: set_takeWhileD)
qed simp

lemma colon_no_word [simp]: "language_word l \<Longrightarrow> CHR '':'' \<notin> set l"
proof -
  have "\<not> word_char (CHR '':'')"
    by (simp add: word_char_def alnum_def lower_alnum_def ascii_between_def is_digit_def)
  then show "language_word l \<Longrightarrow> CHR '':'' \<notin> set l" by (auto simp: language_word_def list_all_iff)
qed

lemma cacheKey_inj:
  assumes "cacheKey l x = cacheKey m y" "language_word l" "language_word m"
  shows "l = m \<and> x = y"
proof -
  have "takeWhile (\<lambda>c. c \<noteq> CHR '':'') (cacheKey k z) = k" if "language_word k" for k z
  proof -
    have "\<forall>c\<in>set k. c \<noteq> CHR '':''" using colon_no_word [OF that] by blast
    then show ?thesis by (simp add: cacheKey_def takeWhile_append2)
  qed
  then have "l = m" using assms by metis
  then show ?thesis using assms(1) by (simp add: cacheKey_def)
qed

lemma nat_str_length_mono: "i \<le> n \<Longrightarrow> length (nat_str i) \<le> length (nat_str n)"
proof (induction n arbitrary: i rule: nat_str.induct)
  case (1 n)
  show ?case
  proof (cases "n < 10")
    case True
    then show ?thesis using 1(2) by (simp add: nat_str.simps [of i] nat_str.simps [of n])
  next
    case False
    have "length (nat_str (i div 10)) \<le> length (nat_str (n div 10))" using 1 False div_le_mono by blast
    then show ?thesis using False by (simp add: nat_str.simps [of i] nat_str.simps [of n])
  qed
qed

text \<open>All numbers of lines take the same room, the room of the last one.\<close>

lemma line_number_width: "i < length ts \<Longrightarrow> length (line_number ts i) = length (nat_str (length ts))"
  using nat_str_length_mono [of "i + 1" "length ts"] by (simp add: line_number_def Let_def)

definition keeps_text :: "(string \<Rightarrow> string \<Rightarrow> tokens option) \<Rightarrow> bool" where
  "keeps_text codeToTokens \<longleftrightarrow>
     (\<forall>l x ts. codeToTokens l x = Some ts \<longrightarrow> join_with [newline] (map concat ts) = x)"

lemma coloured_text_kept: "keeps_text codeToTokens \<Longrightarrow> codeToTokens l x = Some ts \<Longrightarrow> coloured_text False ts = x"
proof -
  assume a: "keeps_text codeToTokens" "codeToTokens l x = Some ts"
  have "coloured_lines False ts = map concat (map ((!) ts) [0..<length ts])" by (simp add: coloured_lines_def)
  then have "coloured_lines False ts = map concat ts" by (simp only: map_nth)
  then show ?thesis using a by (simp add: coloured_text_def keeps_text_def)
qed

section \<open>What a block shows\<close>

definition cache_ok :: "(string \<Rightarrow> string \<Rightarrow> tokens option) \<Rightarrow> (string \<Rightarrow> tokens option) \<Rightarrow> bool" where
  "cache_ok codeToTokens cache \<longleftrightarrow>
     (\<forall>k ts. cache k = Some ts \<longrightarrow> (\<exists>l x. language_word l \<and> k = cacheKey l x \<and> codeToTokens l x = Some ts))"

lemma cache_hit:
  assumes "cache_ok codeToTokens cache" "language_word l" "cache (cacheKey l x) = Some ts"
  shows "codeToTokens l x = Some ts"
proof -
  obtain m y where "language_word m" "cacheKey l x = cacheKey m y" "codeToTokens m y = Some ts"
    using assms(1,3) unfolding cache_ok_def by metis
  then show ?thesis using cacheKey_inj assms(2) by metis
qed

lemma cache_ok_store [intro]:
  "cache_ok codeToTokens cache \<Longrightarrow> language_word l \<Longrightarrow> codeToTokens l x = Some ts \<Longrightarrow>
   cache_ok codeToTokens (cache(cacheKey l x \<mapsto> ts))"
  unfolding cache_ok_def by (metis fun_upd_apply option.inject)

text \<open>The effect that counts has its answer: from the cache, or from its work.\<close>

definition settled :: "highlighter \<Rightarrow> bool" where
  "settled s \<longleftrightarrow> (case hl_cleanup s of None \<Rightarrow> True | Some i \<Rightarrow> hw_phase (hl_works s ! i) = Tokens_stored)"

definition answer_shown :: "(string \<Rightarrow> string \<Rightarrow> tokens option) \<Rightarrow> highlighter \<Rightarrow> bool" where
  "answer_shown codeToTokens s \<longleftrightarrow> codeToTokens (hl_language s) (hl_text s) = Some (hl_tokens s) \<and> \<not> hl_isLoading s"

definition works_ok :: "highlighter \<Rightarrow> bool" where
  "works_ok s \<longleftrightarrow>
     (\<forall>i. i < length (hl_works s) \<longrightarrow> \<not> hw_aborted (hl_works s ! i) \<longrightarrow> hl_cleanup s = Some i) \<and>
     (\<forall>i. hl_cleanup s = Some i \<longrightarrow> hl_live s \<and> hl_mounted s \<and> i < length (hl_works s) \<and> \<not> hw_aborted (hl_works s ! i) \<and>
        hw_language (hl_works s ! i) = hl_language s \<and> hw_text (hl_works s ! i) = hl_text s)"

definition highlight_inv :: "(string \<Rightarrow> string \<Rightarrow> tokens option) \<Rightarrow> highlighter \<Rightarrow> bool" where
  "highlight_inv codeToTokens s \<longleftrightarrow> language_word (hl_language s) \<and> cache_ok codeToTokens (hl_cache s) \<and> works_ok s \<and>
     (hl_live s \<longrightarrow> settled s \<longrightarrow> answer_shown codeToTokens s)"

lemmas highlight_inv_defs = highlight_inv_def works_ok_def settled_def answer_shown_def

lemma effect_fields [simp]:
  "hl_live (highlight_effect s) = hl_live s" "hl_cache (highlight_effect s) = hl_cache s"
  "hl_language (highlight_effect s) = hl_language s" "hl_text (highlight_effect s) = hl_text s"
  by (simp_all add: highlight_effect_def split: option.split)

lemma effect_inv:
  assumes "language_word (hl_language s)" "cache_ok codeToTokens (hl_cache s)" "hl_live s"
    "\<forall>w\<in>set (hl_works s). hw_aborted w"
  shows "highlight_inv codeToTokens (highlight_effect s)"
proof -
  have aborted: "hw_aborted (hl_works s ! i)" if "i < length (hl_works s)" for i using assms(4) that by simp
  show ?thesis
  proof (cases "hl_cache s (cacheKey (hl_language s) (hl_text s))")
    case None
    then have "works_ok (highlight_effect s)" "\<not> settled (highlight_effect s)"
      using assms(3) aborted by (simp_all add: highlight_effect_def works_ok_def settled_def nth_append)
    then show ?thesis using assms(1,2) by (simp add: highlight_inv_def)
  next
    case (Some ts)
    then have "works_ok (highlight_effect s)" "answer_shown codeToTokens (highlight_effect s)"
      using aborted cache_hit [OF assms(2,1) Some] by (simp_all add: highlight_effect_def works_ok_def answer_shown_def)
    then show ?thesis using assms(1,2) by (simp add: highlight_inv_def)
  qed
qed

lemma cleanup_aborted_at:
  assumes "works_ok s" "j < length (hl_works s)"
  shows "hw_aborted (hl_works (highlight_cleanup s) ! j)"
proof (cases "hl_cleanup s")
  case None
  then show ?thesis using assms by (auto simp: works_ok_def highlight_cleanup_def)
next
  case (Some i)
  have "hw_aborted (hl_works s ! j)" if "j \<noteq> i" using assms Some that by (auto simp: works_ok_def)
  then show ?thesis using assms(2) Some by (cases "j = i") (simp_all add: highlight_cleanup_def)
qed

lemma cleanup_length [simp]: "length (hl_works (highlight_cleanup s)) = length (hl_works s)"
  by (simp add: highlight_cleanup_def split: option.split)

lemma cleanup_all_aborted: "works_ok s \<Longrightarrow> w \<in> set (hl_works (highlight_cleanup s)) \<Longrightarrow> hw_aborted w"
  using cleanup_aborted_at by (auto simp: in_set_conv_nth)

lemma cleanup_fields [simp]:
  "hl_live (highlight_cleanup s) = hl_live s" "hl_cache (highlight_cleanup s) = hl_cache s"
  "hl_language (highlight_cleanup s) = hl_language s" "hl_text (highlight_cleanup s) = hl_text s"
  "hl_cleanup (highlight_cleanup s) = None"  "hl_tokens (highlight_cleanup s) = hl_tokens s"
  by (simp_all add: highlight_cleanup_def split: option.split)

lemma mount_inv:
  "cache_ok codeToTokens cache \<Longrightarrow> language_word l \<Longrightarrow> highlight_inv codeToTokens (highlight_mount cache l x)"
  unfolding highlight_mount_def by (rule effect_inv) simp_all

lemma update_inv:
  assumes "highlight_inv codeToTokens s" "language_word l" "hl_live s"
  shows "highlight_inv codeToTokens (highlight_update l x s)"
proof (cases "hl_language s = l \<and> hl_text s = x")
  case True
  then show ?thesis using assms by (simp add: highlight_update_def)
next
  case False
  have "highlight_inv codeToTokens (highlight_effect ((highlight_cleanup s)\<lparr>hl_language := l, hl_text := x\<rparr>))"
    using assms cleanup_all_aborted [of s] by (intro effect_inv) (simp_all add: highlight_inv_def)
  with False show ?thesis unfolding highlight_update_def by (simp only: if_False)
qed

lemma unmount_inv:
  assumes "highlight_inv codeToTokens s"
  shows "highlight_inv codeToTokens (highlight_unmount s)"
proof -
  have "works_ok s" using assms by (simp add: highlight_inv_def)
  then have "works_ok (highlight_unmount s)"
    using cleanup_aborted_at [of s] unfolding works_ok_def [of "highlight_unmount s"]
    by (simp add: highlight_unmount_def)
  then show ?thesis using assms by (simp add: highlight_inv_def highlight_unmount_def)
qed

lemma set_work_fields [simp]:
  "hl_live (set_work i p s) = hl_live s" "hl_cache (set_work i p s) = hl_cache s"
  "hl_language (set_work i p s) = hl_language s" "hl_text (set_work i p s) = hl_text s"
  "hl_tokens (set_work i p s) = hl_tokens s" "hl_isLoading (set_work i p s) = hl_isLoading s"
  "hl_mounted (set_work i p s) = hl_mounted s" "hl_cleanup (set_work i p s) = hl_cleanup s"
  "length (hl_works (set_work i p s)) = length (hl_works s)"
  by (simp_all add: set_work_def)

lemma set_work_nth:
  "hl_works (set_work i p s) ! j =
     (if j = i \<and> i < length (hl_works s) then (hl_works s ! i)\<lparr>hw_phase := p\<rparr> else hl_works s ! j)"
  by (cases "i < length (hl_works s)") (simp_all add: set_work_def list_update_beyond)

lemma set_work_at [simp]:
  "hw_aborted (hl_works (set_work i p s) ! j) = hw_aborted (hl_works s ! j)"
  "hw_language (hl_works (set_work i p s) ! j) = hw_language (hl_works s ! j)"
  "hw_text (hl_works (set_work i p s) ! j) = hw_text (hl_works s ! j)"
  by (simp_all add: set_work_nth)

lemma set_work_phase:
  "j \<noteq> i \<Longrightarrow> hw_phase (hl_works (set_work i p s) ! j) = hw_phase (hl_works s ! j)"
  "i < length (hl_works s) \<Longrightarrow> hw_phase (hl_works (set_work i p s) ! i) = p"
  by (simp_all add: set_work_nth)

text \<open>A work that does not count any more only goes on by itself.\<close>

lemma other_unwanted: "works_ok s \<Longrightarrow> i < length (hl_works s) \<Longrightarrow> hl_cleanup s \<noteq> Some i \<Longrightarrow> \<not> still_wanted i s"
  unfolding works_ok_def still_wanted_def by blast

lemma current_wanted: "works_ok s \<Longrightarrow> hl_cleanup s = Some i \<Longrightarrow> still_wanted i s"
  unfolding works_ok_def still_wanted_def by blast

lemma set_work_works_ok [simp]: "works_ok (set_work i p s) = works_ok s"
  by (simp add: works_ok_def)

lemma other_inv:
  assumes "highlight_inv codeToTokens s" "hl_cleanup s \<noteq> Some i"
  shows "highlight_inv codeToTokens (set_work i p s)"
proof -
  have "settled (set_work i p s) = settled s" using assms(2) by (auto simp: settled_def set_work_phase split: option.split)
  then show ?thesis using assms(1) by (simp add: highlight_inv_def answer_shown_def)
qed

lemma works_ok_index: "works_ok s \<Longrightarrow> hl_cleanup s = Some i \<Longrightarrow> i < length (hl_works s)"
  by (simp add: works_ok_def)

lemma works_ok_cong:
  "hl_works t = hl_works s \<Longrightarrow> hl_cleanup t = hl_cleanup s \<Longrightarrow> hl_live t = hl_live s \<Longrightarrow> hl_mounted t = hl_mounted s \<Longrightarrow>
   hl_language t = hl_language s \<Longrightarrow> hl_text t = hl_text s \<Longrightarrow> works_ok t = works_ok s"
  by (simp add: works_ok_def)

lemma current_inv:
  assumes "highlight_inv codeToTokens s" "hl_cleanup s = Some i" "p \<noteq> Tokens_stored"
  shows "highlight_inv codeToTokens (set_work i p (s\<lparr>hl_isLoading := b\<rparr>))"
proof -
  have ok: "works_ok s" using assms(1) by (simp add: highlight_inv_def)
  then have "works_ok (s\<lparr>hl_isLoading := b\<rparr>)" by (subst works_ok_cong [of _ s]) simp_all
  moreover have "\<not> settled (set_work i p (s\<lparr>hl_isLoading := b\<rparr>))"
    using assms(2,3) works_ok_index [OF ok assms(2)] by (simp add: settled_def set_work_phase)
  ultimately show ?thesis using assms(1) by (simp add: highlight_inv_def)
qed

lemma stored_inv:
  assumes "highlight_inv codeToTokens s" "codeToTokens (hl_language s) (hl_text s) = Some ts"
  shows "highlight_inv codeToTokens (set_work i Tokens_stored (s\<lparr>hl_cache := (hl_cache s)(cacheKey (hl_language s) (hl_text s) \<mapsto> ts),
    hl_tokens := ts, hl_isLoading := False\<rparr>))" (is "highlight_inv _ (set_work i Tokens_stored ?t)")
proof -
  have "works_ok ?t" using assms(1) by (subst works_ok_cong [of _ s]) (simp_all add: highlight_inv_def)
  then show ?thesis using assms by (auto simp: highlight_inv_def answer_shown_def)
qed

lemma work_inv:
  assumes inv: "highlight_inv codeToTokens s" and i: "i < length (hl_works s)"
  shows "highlight_inv codeToTokens (work_started i b s)" "highlight_inv codeToTokens (work_failed i s)"
    "highlight_inv codeToTokens (work_imported bundled i ok s)" "highlight_inv codeToTokens (work_tokenized codeToTokens i s)"
proof -
  have ok: "works_ok s" using inv by (simp add: highlight_inv_def)
  have quiet: "highlight_inv codeToTokens (set_work i p s)" if "p \<noteq> Tokens_stored" for p
    using other_inv [OF inv, of i p] current_inv [OF inv, of i p "hl_isLoading s"] that by (cases "hl_cleanup s = Some i") simp_all
  show "highlight_inv codeToTokens (work_started i b s)" unfolding work_started_def by (rule quiet) simp
  have loaded: "highlight_inv codeToTokens (set_work i Given_up (s\<lparr>hl_isLoading := False\<rparr>))" if "still_wanted i s"
    using current_inv [OF inv] other_unwanted [OF ok i] that by blast
  show failed: "highlight_inv codeToTokens (work_failed i s)"
    using quiet [of Given_up] loaded by (simp add: work_failed_def)
  show "highlight_inv codeToTokens (work_imported bundled i ok s)"
    using failed quiet [of Given_up] quiet [of Tokenizing] loaded by (simp add: work_imported_def)
  show "highlight_inv codeToTokens (work_tokenized codeToTokens i s)"
  proof (cases "still_wanted i s")
    case True
    then have "hl_cleanup s = Some i" using other_unwanted [OF ok i] by blast
    then have "hw_language (hl_works s ! i) = hl_language s" "hw_text (hl_works s ! i) = hl_text s"
      using ok by (simp_all add: works_ok_def)
    then show ?thesis using failed quiet [of Given_up] stored_inv [OF inv, of _ i]
      by (simp add: work_tokenized_def Let_def split: option.split)
  next
    case False
    then show ?thesis using failed quiet [of Given_up] by (simp add: work_tokenized_def Let_def split: option.split)
  qed
qed

lemma highlight_step_inv:
  assumes inv: "highlight_inv codeToTokens s" and step: "highlight_step bundled codeToTokens s e s'"
  shows "highlight_inv codeToTokens s'"
  using step
proof cases
  case (hl_elsewhere l x ts)
  have "works_ok s' = works_ok s" using hl_elsewhere by (intro works_ok_cong) simp_all
  moreover have "settled s' = settled s" using hl_elsewhere by (simp add: settled_def split: option.split)
  ultimately show ?thesis using inv hl_elsewhere by (simp add: highlight_inv_def answer_shown_def cache_ok_store)
qed (use inv in \<open>auto intro: update_inv unmount_inv work_inv simp: work_at_def\<close>)

section \<open>What is shown was given\<close>

text \<open>\<open>P\<close> holds of everything the block was given; what it shows in colour is an answer for such a text.\<close>

definition shows_given :: "(string \<Rightarrow> string \<Rightarrow> tokens option) \<Rightarrow> (string \<Rightarrow> string \<Rightarrow> bool) \<Rightarrow> highlighter \<Rightarrow> bool" where
  "shows_given codeToTokens P s \<longleftrightarrow> P (hl_language s) (hl_text s) \<and> (\<forall>w \<in> set (hl_works s). P (hw_language w) (hw_text w)) \<and>
     (hl_tokens s \<noteq> [] \<longrightarrow> (\<exists>l x. P l x \<and> codeToTokens l x = Some (hl_tokens s)))"

lemma set_work_given [simp]: "shows_given codeToTokens P (set_work i p s) = shows_given codeToTokens P s"
proof -
  have "(\<forall>w \<in> set (hl_works (set_work i p s)). P (hw_language w) (hw_text w)) \<longleftrightarrow>
      (\<forall>w \<in> set (hl_works s). P (hw_language w) (hw_text w))"
    by (simp add: all_set_conv_all_nth)
  then show ?thesis by (simp add: shows_given_def)
qed

lemma cleanup_given [simp]: "shows_given codeToTokens P (highlight_cleanup s) = shows_given codeToTokens P s"
proof -
  have "hw_language (hl_works (highlight_cleanup s) ! j) = hw_language (hl_works s ! j) \<and>
      hw_text (hl_works (highlight_cleanup s) ! j) = hw_text (hl_works s ! j)" if "j < length (hl_works s)" for j
    using that by (cases "hl_cleanup s"; cases "hl_cleanup s = Some j") (auto simp: highlight_cleanup_def)
  then have "(\<forall>w \<in> set (hl_works (highlight_cleanup s)). P (hw_language w) (hw_text w)) \<longleftrightarrow>
      (\<forall>w \<in> set (hl_works s). P (hw_language w) (hw_text w))"
    by (simp add: all_set_conv_all_nth)
  then show ?thesis by (simp add: shows_given_def)
qed

lemma effect_given:
  assumes "cache_ok codeToTokens (hl_cache s)" "language_word (hl_language s)" "P (hl_language s) (hl_text s)"
    "\<forall>w \<in> set (hl_works s). P (hw_language w) (hw_text w)"
    "hl_tokens s \<noteq> [] \<Longrightarrow> \<exists>l x. P l x \<and> codeToTokens l x = Some (hl_tokens s)"
  shows "shows_given codeToTokens P (highlight_effect s)"
proof (cases "hl_cache s (cacheKey (hl_language s) (hl_text s))")
  case None
  then show ?thesis using assms by (auto simp: highlight_effect_def shows_given_def)
next
  case (Some ts)
  then have "codeToTokens (hl_language s) (hl_text s) = Some ts" using cache_hit [OF assms(1,2)] by blast
  then show ?thesis using Some assms by (auto simp: highlight_effect_def shows_given_def)
qed

lemma loading_given [simp]: "shows_given codeToTokens P (s\<lparr>hl_isLoading := b\<rparr>) = shows_given codeToTokens P s"
  by (simp add: shows_given_def)

lemma work_given:
  assumes "shows_given codeToTokens P s" "i < length (hl_works s)"
  shows "shows_given codeToTokens P (work_started i b s)" "shows_given codeToTokens P (work_failed i s)"
    "shows_given codeToTokens P (work_imported bundled i ok s)" "shows_given codeToTokens P (work_tokenized codeToTokens i s)"
proof -
  show failed: "shows_given codeToTokens P (work_failed i s)" using assms(1) by (simp add: work_failed_def)
  show "shows_given codeToTokens P (work_started i b s)" using assms(1) by (simp add: work_started_def)
  show "shows_given codeToTokens P (work_imported bundled i ok s)"
    using assms(1) failed by (simp add: work_imported_def)
  have "P (hw_language (hl_works s ! i)) (hw_text (hl_works s ! i))" using assms by (simp add: shows_given_def)
  then have "shows_given codeToTokens P (s\<lparr>hl_cache := c, hl_tokens := ts, hl_isLoading := False\<rparr>)"
    if "codeToTokens (hw_language (hl_works s ! i)) (hw_text (hl_works s ! i)) = Some ts" for c ts
    using assms(1) that by (auto simp: shows_given_def)
  then show "shows_given codeToTokens P (work_tokenized codeToTokens i s)"
    using assms(1) failed by (simp add: work_tokenized_def Let_def split: option.split)
qed

lemma step_given:
  assumes given: "shows_given codeToTokens P s" and inv: "highlight_inv codeToTokens s"
    and step: "highlight_step bundled codeToTokens s e s'" and P: "\<And>l x. e = Block_given l x \<Longrightarrow> P l x"
  shows "shows_given codeToTokens P s'"
  using step
proof cases
  case (hl_given l x)
  show ?thesis
  proof (cases "hl_language s = l \<and> hl_text s = x")
    case True
    then show ?thesis using given hl_given by (simp add: highlight_update_def)
  next
    case False
    have "shows_given codeToTokens P (highlight_cleanup s)" using given by simp
    then have "shows_given codeToTokens P (highlight_effect ((highlight_cleanup s)\<lparr>hl_language := l, hl_text := x\<rparr>))"
      using inv hl_given P by (intro effect_given) (simp_all add: highlight_inv_def shows_given_def)
    then show ?thesis using False hl_given unfolding highlight_update_def by (simp only: if_False)
  qed
next
  case hl_removed
  have "shows_given codeToTokens P (highlight_cleanup s)" using given by simp
  then show ?thesis using hl_removed by (simp add: highlight_unmount_def shows_given_def)
next
  case (hl_elsewhere l x ts)
  then show ?thesis using given by (simp add: shows_given_def)
qed (use given in \<open>auto intro: work_given simp: work_at_def\<close>)

lemma runs_given:
  "runs (highlight_step bundled codeToTokens) s es s' \<Longrightarrow> highlight_inv codeToTokens s \<Longrightarrow> shows_given codeToTokens P s \<Longrightarrow>
   (\<And>l x. Block_given l x \<in> set es \<Longrightarrow> P l x) \<Longrightarrow> shows_given codeToTokens P s'"
proof (induction rule: runs.induct)
  case (runs_Cons s e s' es s'')
  have "shows_given codeToTokens P s'" using step_given [OF runs_Cons(5,4,1)] runs_Cons(6) by simp
  moreover have "highlight_inv codeToTokens s'" using highlight_step_inv [OF runs_Cons(4,1)] .
  ultimately show ?case using runs_Cons by simp
qed simp

section \<open>Works end\<close>

definition work_weight :: "work_phase \<Rightarrow> nat" where
  "work_weight p = (case p of Idle_waiting \<Rightarrow> 3 | Importing \<Rightarrow> 2 | Tokenizing \<Rightarrow> 1 | Tokens_stored \<Rightarrow> 0 | Given_up \<Rightarrow> 0)"

definition highlight_weight :: "highlighter \<Rightarrow> nat" where
  "highlight_weight s = sum_list (map (\<lambda>w. work_weight (hw_phase w)) (hl_works s))"

fun work_reply :: "highlight_event \<Rightarrow> bool" where
  "work_reply (Work_started i b) = True"
| "work_reply (Work_imported i ok) = True"
| "work_reply (Work_tokenized i) = True"
| "work_reply _ = False"

lemma set_work_weight:
  assumes "i < length (hl_works s)" "work_weight p < work_weight (hw_phase (hl_works s ! i))"
  shows "highlight_weight (set_work i p s) < highlight_weight s"
proof -
  let ?f = "\<lambda>w. work_weight (hw_phase w)"
  have "?f (hl_works s ! i) \<le> sum_list (map ?f (hl_works s))"
    using elem_le_sum_list [of i "map ?f (hl_works s)"] assms(1) by simp
  then show ?thesis using assms
    by (simp add: highlight_weight_def set_work_def map_update sum_list_update)
qed

lemma highlight_weight_bound: "highlight_weight s \<le> 3 * length (hl_works s)"
proof -
  have "sum_list (map (\<lambda>w. work_weight (hw_phase w)) ws) \<le> 3 * length ws" for ws
    by (induction ws) (auto simp: work_weight_def split: work_phase.split)
  then show ?thesis by (simp add: highlight_weight_def)
qed

lemma weight_cong: "hl_works t = hl_works s \<Longrightarrow> highlight_weight t = highlight_weight s"
  by (simp add: highlight_weight_def)

lemma work_less:
  assumes "i < length (hl_works s)"
  shows "hw_phase (hl_works s ! i) = Idle_waiting \<Longrightarrow> highlight_weight (work_started i b s) < highlight_weight s"
    "0 < work_weight (hw_phase (hl_works s ! i)) \<Longrightarrow> highlight_weight (work_failed i s) < highlight_weight s"
    "hw_phase (hl_works s ! i) = Importing \<Longrightarrow> highlight_weight (work_imported bundled i ok s) < highlight_weight s"
    "hw_phase (hl_works s ! i) = Tokenizing \<Longrightarrow> highlight_weight (work_tokenized codeToTokens i s) < highlight_weight s"
proof -
  have less: "highlight_weight (set_work i p t) < highlight_weight s"
    if "hl_works t = hl_works s" "work_weight p < work_weight (hw_phase (hl_works s ! i))" for p t
    using set_work_weight [of i t p] that assms weight_cong [of t s] by simp
  show failed: "0 < work_weight (hw_phase (hl_works s ! i)) \<Longrightarrow> highlight_weight (work_failed i s) < highlight_weight s"
    by (auto simp: work_failed_def work_weight_def intro!: less)
  show "hw_phase (hl_works s ! i) = Idle_waiting \<Longrightarrow> highlight_weight (work_started i b s) < highlight_weight s"
    unfolding work_started_def by (rule less) (simp_all add: work_weight_def)
  show "hw_phase (hl_works s ! i) = Importing \<Longrightarrow> highlight_weight (work_imported bundled i ok s) < highlight_weight s"
    using failed by (auto simp: work_imported_def work_weight_def intro!: less)
  show "hw_phase (hl_works s ! i) = Tokenizing \<Longrightarrow> highlight_weight (work_tokenized codeToTokens i s) < highlight_weight s"
    using failed by (auto simp: work_tokenized_def Let_def work_weight_def split: option.split intro!: less)
qed

lemma highlight_reply_less:
  assumes "highlight_step bundled codeToTokens s e s'" "work_reply e"
  shows "highlight_weight s' < highlight_weight s"
  using assms(1)
proof cases
  case (hl_started i b)
  then show ?thesis using work_less(1) by (simp add: work_at_def)
next
  case (hl_imported i ok)
  then show ?thesis using work_less(3) by (simp add: work_at_def)
next
  case (hl_tokenized i)
  then show ?thesis using work_less(4) by (simp add: work_at_def)
qed (use assms(2) in simp_all)

lemma highlight_reply_enabled:
  assumes "0 < highlight_weight s"
  shows "\<exists>e s'. work_reply e \<and> highlight_step bundled codeToTokens s e s'"
proof -
  have "\<exists>w \<in> set (hl_works s). work_weight (hw_phase w) \<noteq> 0"
  proof (rule ccontr)
    assume "\<not> (\<exists>w \<in> set (hl_works s). work_weight (hw_phase w) \<noteq> 0)"
    then have "highlight_weight s = 0" unfolding highlight_weight_def by (subst sum_list_eq_0_iff) auto
    then show False using assms by simp
  qed
  then obtain i where i: "i < length (hl_works s)" "0 < work_weight (hw_phase (hl_works s ! i))"
    by (auto simp: in_set_conv_nth)
  then consider "work_at s i Idle_waiting" | "work_at s i Importing" | "work_at s i Tokenizing"
    by (cases "hw_phase (hl_works s ! i)") (simp_all add: work_at_def work_weight_def)
  then show ?thesis
  proof cases
    case 1
    then have "highlight_step bundled codeToTokens s (Work_started i True) (work_started i True s)" by (rule hl_started)
    then show ?thesis by (intro exI [of _ "Work_started i True"] exI) simp
  next
    case 2
    then have "highlight_step bundled codeToTokens s (Work_imported i True) (work_imported bundled i True s)" by (rule hl_imported)
    then show ?thesis by (intro exI [of _ "Work_imported i True"] exI) simp
  next
    case 3
    then have "highlight_step bundled codeToTokens s (Work_tokenized i) (work_tokenized codeToTokens i s)" by (rule hl_tokenized)
    then show ?thesis by (intro exI [of _ "Work_tokenized i"] exI) simp
  qed
qed

definition highlight_start :: "(string \<Rightarrow> string \<Rightarrow> tokens option) \<Rightarrow> highlighter \<Rightarrow> bool" where
  "highlight_start codeToTokens s \<longleftrightarrow>
     (\<exists>cache l x. cache_ok codeToTokens cache \<and> language_word l \<and> s = highlight_mount cache l x)"

interpretation block: draining_machine "highlight_step bundled codeToTokens" "highlight_start codeToTokens"
  "highlight_inv codeToTokens" work_reply highlight_weight
  for bundled and codeToTokens
proof
  show "highlight_start codeToTokens s \<Longrightarrow> highlight_inv codeToTokens s" for s
    by (auto simp: highlight_start_def intro: mount_inv)
  show "highlight_inv codeToTokens s \<Longrightarrow> highlight_step bundled codeToTokens s e s' \<Longrightarrow> highlight_inv codeToTokens s'" for s e s'
    by (rule highlight_step_inv)
  show "highlight_step bundled codeToTokens s e s' \<Longrightarrow> work_reply e \<Longrightarrow> highlight_weight s' < highlight_weight s" for s e s'
    by (rule highlight_reply_less)
  show "0 < highlight_weight s \<Longrightarrow> \<exists>e s'. work_reply e \<and> highlight_step bundled codeToTokens s e s'" for s
    by (rule highlight_reply_enabled)
qed

section \<open>Properties\<close>

lemma mount_given: "cache_ok codeToTokens cache \<Longrightarrow> language_word l \<Longrightarrow> P l x \<Longrightarrow>
  shows_given codeToTokens P (highlight_mount cache l x)"
  unfolding highlight_mount_def by (intro effect_given) simp_all

lemma shown_given:
  "shows_given codeToTokens P s \<Longrightarrow> highlight_shown s = Coloured_code ts \<Longrightarrow> \<exists>l x. P l x \<and> codeToTokens l x = Some ts"
  by (auto simp: highlight_shown_def shows_given_def split: if_splits)

text \<open>C18. However the works of a block of code overlap with each other, with changes of its text and
  with other blocks, a late answer never replaces a newer one: once the work for the text it has now is
  done, or the cache had it, the block shows exactly the answer for this text. What it shows in colour
  is always the answer for a text it was given, the shared cache holds only true answers under keys
  that tell languages and texts apart, and from every state at most three replies per work lead to one
  where no work is left.\<close>

theorem highlight_current:
  assumes "runs (highlight_step bundled codeToTokens) (highlight_mount cache l0 x0) es s"
    and "cache_ok codeToTokens cache" "language_word l0"
  shows "(hl_live s \<longrightarrow> settled s \<longrightarrow>
       codeToTokens (hl_language s) (hl_text s) = Some (hl_tokens s) \<and> \<not> hl_isLoading s) \<and>
     (\<forall>ts. highlight_shown s = Coloured_code ts \<longrightarrow>
       (\<exists>l x. ((l, x) = (l0, x0) \<or> Block_given l x \<in> set es) \<and> codeToTokens l x = Some ts)) \<and>
     cache_ok codeToTokens (hl_cache s) \<and>
     (\<exists>fs s'. list_all work_reply fs \<and> length fs \<le> 3 * length (hl_works s) \<and>
       runs (highlight_step bundled codeToTokens) s fs s' \<and> highlight_weight s' = 0)"
proof -
  have start: "highlight_inv codeToTokens (highlight_mount cache l0 x0)" using assms(2,3) by (rule mount_inv)
  have inv: "highlight_inv codeToTokens s" using block.runs_inv [OF assms(1) start] .
  let ?P = "\<lambda>l x. (l, x) = (l0, x0) \<or> Block_given l x \<in> set es"
  have "shows_given codeToTokens ?P s"
    using runs_given [OF assms(1) start] mount_given [OF assms(2,3)] by simp
  then have given: "\<forall>ts. highlight_shown s = Coloured_code ts \<longrightarrow> (\<exists>l x. ?P l x \<and> codeToTokens l x = Some ts)"
    using shown_given by blast
  obtain fs s' where fs: "list_all work_reply fs" "runs (highlight_step bundled codeToTokens) s fs s'" "highlight_weight s' = 0"
    using block.drains [OF inv] by blast
  then have "length fs \<le> highlight_weight s" using block.replies_bounded [OF _ inv] by fastforce
  then have "length fs \<le> 3 * length (hl_works s)" using highlight_weight_bound [of s] by simp
  then show ?thesis using inv given fs unfolding highlight_inv_def answer_shown_def by blast
qed

definition demo_answer :: "string \<Rightarrow> string \<Rightarrow> tokens option" where
  "demo_answer l x = Some [[x]]"

definition demo_block :: highlighter where
  "demo_block = work_tokenized demo_answer 0 (work_imported (\<lambda>l. l = ''py'') 0 True (work_started 0 True
     (highlight_mount Map.empty ''py'' ''a'')))"

lemmas block_defs = highlight_mount_def highlight_effect_def work_started_def work_imported_def work_tokenized_def
  still_wanted_def set_work_def work_at_def demo_answer_def

lemma demo_block_value: "demo_block = \<lparr>hl_cache = [''py:a'' \<mapsto> [[''a'']]], hl_language = ''py'', hl_text = ''a'',
    hl_tokens = [[''a'']], hl_isLoading = False, hl_mounted = True,
    hl_works = [\<lparr>hw_language = ''py'', hw_text = ''a'', hw_phase = Tokens_stored, hw_aborted = False\<rparr>],
    hl_cleanup = Some 0, hl_live = True\<rparr>"
  by (simp add: demo_block_def block_defs cacheKey_def)

lemma demo_block_run: "runs (highlight_step (\<lambda>l. l = ''py'') demo_answer) (highlight_mount Map.empty ''py'' ''a'')
    [Work_started 0 True, Work_imported 0 True, Work_tokenized 0] demo_block"
  by (simp add: runs_Cons_simp highlight_step_simps demo_block_def block_defs)

theorem highlight_current_witness:
  "runs (highlight_step (\<lambda>l. l = ''py'') demo_answer) (highlight_mount Map.empty ''py'' ''a'')
     [Work_started 0 True, Work_imported 0 True, Work_tokenized 0] demo_block \<and>
   demo_answer ''py'' ''a'' = Some (hl_tokens demo_block) \<and> highlight_shown demo_block = Coloured_code [[''a'']]"
proof -
  have "cache_ok demo_answer Map.empty" "language_word ''py''"
    by (simp_all add: cache_ok_def language_word_def word_char_def alnum_def lower_alnum_def ascii_between_def)
  note current = highlight_current [OF demo_block_run this]
  have "hl_live demo_block" "settled demo_block" by (simp_all add: demo_block_value settled_def)
  then have "demo_answer (hl_language demo_block) (hl_text demo_block) = Some (hl_tokens demo_block)"
    using current by blast
  then show ?thesis using demo_block_run by (simp add: demo_block_value highlight_shown_def)
qed

text \<open>
  When the next text is in a language that is not bundled, the old text stays in colour for good: the
  block stops loading and keeps its pieces.
\<close>

lemma stale_colours:
  "\<exists>s. runs (highlight_step (\<lambda>l. l = ''py'') demo_answer) demo_block
      [Block_given ''log'' ''b'', Work_started 1 True, Work_imported 1 True] s \<and>
    highlight_weight s = 0 \<and> hl_text s = ''b'' \<and> highlight_shown s = Coloured_code [[''a'']]"
proof -
  define s1 where "s1 = highlight_update ''log'' ''b'' demo_block"
  define s2 where "s2 = work_started 1 True s1"
  define s3 where "s3 = work_imported (\<lambda>l. l = ''py'') 1 True s2"
  have s1: "s1 = demo_block\<lparr>hl_language := ''log'', hl_text := ''b'',
      hl_works := [\<lparr>hw_language = ''py'', hw_text = ''a'', hw_phase = Tokens_stored, hw_aborted = True\<rparr>,
        \<lparr>hw_language = ''log'', hw_text = ''b'', hw_phase = Idle_waiting, hw_aborted = False\<rparr>], hl_cleanup := Some 1\<rparr>"
    by (simp add: s1_def demo_block_value highlight_update_def highlight_effect_def highlight_cleanup_def cacheKey_def)
  have word: "language_word ''log''"
    by (simp add: language_word_def word_char_def alnum_def lower_alnum_def ascii_between_def)
  have "runs (highlight_step (\<lambda>l. l = ''py'') demo_answer) demo_block
      [Block_given ''log'' ''b'', Work_started 1 True, Work_imported 1 True] s3"
    using word by (simp add: runs_Cons_simp highlight_step_simps flip: s1_def)
      (simp add: s1 s2_def s3_def work_started_def set_work_def work_at_def demo_block_value)
  moreover have "highlight_weight s3 = 0 \<and> hl_text s3 = ''b'' \<and> highlight_shown s3 = Coloured_code [[''a'']]"
    by (simp add: s3_def s2_def s1 block_defs demo_block_value highlight_weight_def work_weight_def highlight_shown_def)
  ultimately show ?thesis by blast
qed

text \<open>A block of a text that its pieces make up shows the text it has, once it is settled.\<close>

lemma settled_text:
  assumes "highlight_inv codeToTokens s" "keeps_text codeToTokens" "hl_live s" "settled s"
  shows "highlight_shown s = Plain_code (hl_text s) \<or>
    (\<exists>ts. highlight_shown s = Coloured_code ts \<and> coloured_text False ts = hl_text s)"
  using assms coloured_text_kept [OF assms(2)]
  by (auto simp: highlight_inv_def answer_shown_def highlight_shown_def)

end
