(* ===== verification/Members.thy ===== *)
theory Members
  imports Accounts JsNumber Machine
begin

text \<open>
  The page of an account at work (\<open>routes/admin/accounts/$id.tsx\<close>): who is listed, who is offered, the
  form for new members and the requests that are on their way, as a step relation over the queries the
  page keeps; and the cards of a quota (\<open>-components/account-quota.tsx\<close> and
  \<open>routes/portal/jobs/inter/-components/quota.tsx\<close>).
\<close>

section \<open>The page\<close>

text \<open>
  A batch of requests to add members: for each chosen id the user it was found to be, if any. The set
  \<open>mp_server\<close> is who is a member for the server; a request that succeeds adds or removes its user.
\<close>

type_synonym member_batch = "(int option) list"

record member_page =
  mp_server :: "int set"
  mp_members :: "int set"
  mp_usersOutOfProject :: "IUserInAccount list"
  mp_form :: member_form
  mp_open :: bool
  mp_batches :: "member_batch list"
  mp_sent :: "http_request list"

definition outsiders :: "IUserInAccount list \<Rightarrow> int set \<Rightarrow> IUserInAccount list" where
  "outsiders users server = filter (\<lambda>u. uic_id u \<notin> server) users"

definition member_page_start :: "IUserInAccount list \<Rightarrow> int set \<Rightarrow> member_page" where
  "member_page_start users server = \<lparr>mp_server = server, mp_members = server, mp_usersOutOfProject = outsiders users server,
     mp_form = member_defaults, mp_open = False, mp_batches = [], mp_sent = []\<rparr>"

text \<open>\<open>handleSelect\<close> of the field: a chosen value is taken out, another one is put at the end.\<close>

definition pick_member :: "string \<Rightarrow> member_page \<Rightarrow> member_page" where
  "pick_member v s = (let f = mp_form s in s\<lparr>mp_form := f\<lparr>mf_userIds :=
     if v \<in> set (mf_userIds f) then filter (\<lambda>w. w \<noteq> v) (mf_userIds f) else mf_userIds f @ [v]\<rparr>\<rparr>)"

definition found_member :: "IUserInAccount list \<Rightarrow> string \<Rightarrow> int option" where
  "found_member users userId = map_option uic_id (find (\<lambda>u. int_str (uic_id u) = userId) users)"

text \<open>Submitting sends the requests and closes the dialog; the form keeps its values.\<close>

definition submit_members :: "int \<Rightarrow> member_page \<Rightarrow> member_page" where
  "submit_members pid s =
     (if \<not> member_formSchema (mp_form s) then s
      else s\<lparr>mp_batches := mp_batches s @ [map (found_member (mp_usersOutOfProject s)) (mf_userIds (mp_form s))],
        mp_sent := mp_sent s @ members_onSubmit pid (mp_usersOutOfProject s) (mp_form s), mp_open := False\<rparr>)"

definition added_ids :: "member_batch \<Rightarrow> bool list \<Rightarrow> int set" where
  "added_ids batch oks = {i. (Some i, True) \<in> set (zip batch oks)}"

text \<open>\<open>Promise.all\<close> succeeds when all do; only then the members are read again, the other users never.\<close>

definition batch_answered :: "nat \<Rightarrow> bool list \<Rightarrow> member_page \<Rightarrow> member_page" where
  "batch_answered i oks s = (let server = mp_server s \<union> added_ids (mp_batches s ! i) oks in
     s\<lparr>mp_server := server, mp_members := if list_all id oks then server else mp_members s,
       mp_batches := take i (mp_batches s) @ drop (Suc i) (mp_batches s)\<rparr>)"

definition remove_member :: "int \<Rightarrow> IUserInAccount \<Rightarrow> bool \<Rightarrow> member_page \<Rightarrow> member_page" where
  "remove_member pid u ok s = (let server = if ok then mp_server s - {uic_id u} else mp_server s in
     s\<lparr>mp_server := server, mp_members := if ok then server else mp_members s,
       mp_sent := mp_sent s @ [apiRemoveUser pid \<lparr>uic_id = uic_id u, uic_name = uic_name u, uic_role = uic_role u,
         uic_accessmode = uic_accessmode u\<rparr>]\<rparr>)"

text \<open>Coming back to the window reads both lists again.\<close>

definition window_focused :: "IUserInAccount list \<Rightarrow> member_page \<Rightarrow> member_page" where
  "window_focused users s = s\<lparr>mp_members := mp_server s, mp_usersOutOfProject := outsiders users (mp_server s)\<rparr>"

datatype member_event =
    Open_members bool
  | Pick_member string
  | Submit_members
  | Batch_answered nat "bool list"
  | Remove_member IUserInAccount bool
  | Window_focused

definition answers_fit :: "member_batch \<Rightarrow> bool list \<Rightarrow> bool" where
  "answers_fit batch oks \<longleftrightarrow> length oks = length batch \<and> (\<forall>(m, ok) \<in> set (zip batch oks). ok \<longrightarrow> m \<noteq> None)"

inductive member_step :: "int \<Rightarrow> IUserInAccount list \<Rightarrow> member_page \<Rightarrow> member_event \<Rightarrow> member_page \<Rightarrow> bool"
  for pid :: int and users :: "IUserInAccount list" where
  member_open: "member_step pid users s (Open_members b) (s\<lparr>mp_open := b\<rparr>)"
| member_pick: "mp_open s \<Longrightarrow> v \<in> (\<lambda>u. fst (member_option u)) ` set (mp_usersOutOfProject s) \<Longrightarrow>
    member_step pid users s (Pick_member v) (pick_member v s)"
| member_submit: "mp_open s \<Longrightarrow> member_step pid users s Submit_members (submit_members pid s)"
| member_answer: "i < length (mp_batches s) \<Longrightarrow> answers_fit (mp_batches s ! i) oks \<Longrightarrow>
    member_step pid users s (Batch_answered i oks) (batch_answered i oks s)"
| member_remove: "uic_id u \<in> mp_members s \<Longrightarrow> member_step pid users s (Remove_member u ok) (remove_member pid u ok s)"
| member_focus: "member_step pid users s Window_focused (window_focused users s)"

inductive_cases member_stepE: "member_step pid users s e s'"
inductive_simps member_step_simps:
  "member_step pid users s (Open_members b) s'"
  "member_step pid users s (Pick_member v) s'"
  "member_step pid users s Submit_members s'"
  "member_step pid users s (Batch_answered i oks) s'"
  "member_step pid users s Window_focused s'"

section \<open>What the page shows\<close>

text \<open>A batch is answered as one when all of its requests succeed or all of them fail.\<close>

definition answered_as_one :: "member_event \<Rightarrow> bool" where
  "answered_as_one e \<longleftrightarrow> (case e of Batch_answered i oks \<Rightarrow> list_all id oks \<or> True \<notin> set oks | _ \<Rightarrow> True)"

lemma none_added: "True \<notin> set oks \<Longrightarrow> added_ids batch oks = {}"
  by (auto simp: added_ids_def dest: set_zip_rightD)

lemma members_true_step:
  assumes "member_step pid users s e s'" "answered_as_one e" "mp_members s = mp_server s"
  shows "mp_members s' = mp_server s'"
  using assms(1)
proof cases
  case (member_answer i oks)
  then have "list_all id oks \<or> added_ids (mp_batches s ! i) oks = {}"
    using assms(2) none_added by (auto simp: answered_as_one_def)
  then show ?thesis using assms(3) member_answer(2) by (auto simp: batch_answered_def Let_def)
qed (use assms(3) in \<open>auto simp: pick_member_def submit_members_def remove_member_def window_focused_def Let_def\<close>)

text \<open>
  As long as no batch succeeds in part, the page lists exactly the members the server has, whatever is
  done in whatever order; and whatever happened, coming back to the window puts it right.
\<close>

theorem members_true:
  assumes "runs (member_step pid users) (member_page_start users server) es s" "list_all answered_as_one es"
  shows "mp_members s = mp_server s"
proof -
  have "runs (member_step pid users) t es s \<Longrightarrow> list_all answered_as_one es \<Longrightarrow> mp_members t = mp_server t \<Longrightarrow>
      mp_members s = mp_server s" for t
    by (induction rule: runs.induct) (auto dest: members_true_step)
  then show ?thesis using assms by (simp add: member_page_start_def)
qed

lemma focus_repairs: "mp_members (window_focused users s) = mp_server (window_focused users s)"
  by (simp add: window_focused_def)

text \<open>Two users, of whom the first is added with success and the second without.\<close>

definition some_user :: "int \<Rightarrow> IUserInAccount" where
  "some_user i = \<lparr>uic_id = i, uic_name = ''u'', uic_role = ''2'', uic_accessmode = ''2'', uia_userInfo = ar_user demo_auth,
     uia_quota = \<lparr>guaranteed = None, deserved = None, capability = None\<rparr>\<rparr>"

lemma some_user_id [simp]: "uic_id (some_user i) = i"
  by (simp add: some_user_def)

lemmas member_page_defs = member_page_start_def outsiders_def pick_member_def submit_members_def batch_answered_def
  window_focused_def member_defaults_def member_formSchema_def found_member_def added_ids_def answers_fit_def
  member_option_def

lemma int_str_eq [simp]: "int_str i = int_str j \<longleftrightarrow> i = j"
  using int_str_inj by blast

definition picked_two :: member_page where
  "picked_two = (member_page_start [some_user 5, some_user 6] {})\<lparr>mp_open := True,
     mp_form := member_defaults\<lparr>mf_userIds := [int_str 5, int_str 6]\<rparr>\<rparr>"

lemma picked_two_run: "runs (member_step 1 [some_user 5, some_user 6]) (member_page_start [some_user 5, some_user 6] {})
    [Open_members True, Pick_member (int_str 5), Pick_member (int_str 6)] picked_two"
  by (simp add: runs_Cons_simp member_step_simps picked_two_def member_page_defs Let_def)

lemma partly_added:
  "\<exists>s. runs (member_step 1 [some_user 5, some_user 6]) (member_page_start [some_user 5, some_user 6] {})
      ([Open_members True, Pick_member (int_str 5), Pick_member (int_str 6)] @ [Submit_members, Batch_answered 0 [True, False]]) s \<and>
    mp_server s = {5} \<and> mp_members s = {}"
proof -
  define s where "s = batch_answered 0 [True, False] (submit_members 1 picked_two)"
  have sub: "submit_members 1 picked_two = picked_two\<lparr>mp_batches := [[Some 5, Some 6]],
      mp_sent := members_onSubmit 1 [some_user 5, some_user 6] (mp_form picked_two), mp_open := False\<rparr>"
    by (simp add: picked_two_def member_page_defs)
  have "runs (member_step 1 [some_user 5, some_user 6]) picked_two [Submit_members, Batch_answered 0 [True, False]] s"
    by (simp add: runs_Cons_simp member_step_simps flip: s_def)
      (simp add: sub answers_fit_def s_def, simp add: picked_two_def)
  moreover have "mp_server s = {5} \<and> mp_members s = {}"
    unfolding s_def sub by (auto simp: picked_two_def batch_answered_def added_ids_def member_page_start_def)
  ultimately show ?thesis using runs_append [OF picked_two_run] by blast
qed

text \<open>
  The choice of the last time stays in the form. Once the other users were read again it is not among
  the options any more, so that it is neither seen nor can be taken out, and the next submit asks the
  server to add the user \<open>undefined\<close>.
\<close>

lemma leftover_choice:
  assumes "mp_open s" "mf_userIds (mp_form s) = [v]" "found_member (mp_usersOutOfProject s) v = None"
    "mf_role (mp_form s) \<noteq> []" "mf_accessmode (mp_form s) \<noteq> []"
  shows "\<not> member_step pid users s (Pick_member v) s'"
    "apiV1Post (''admin/accounts/add/'' @ int_str pid @ ''/undefined'')
       (Some (JObj [(''role'', JStr (mf_role (mp_form s))), (''accessmode'', JStr (mf_accessmode (mp_form s)))]))
     \<in> set (mp_sent (submit_members pid s))"
proof -
  have "find (\<lambda>u. int_str (uic_id u) = v) (mp_usersOutOfProject s) = None" using assms(3) by (simp add: found_member_def)
  then have none: "\<forall>u \<in> set (mp_usersOutOfProject s). int_str (uic_id u) \<noteq> v" by (auto simp: find_None_iff)
  then show "\<not> member_step pid users s (Pick_member v) s'" by (auto simp: member_step_simps member_option_def)
  show "apiV1Post (''admin/accounts/add/'' @ int_str pid @ ''/undefined'')
       (Some (JObj [(''role'', JStr (mf_role (mp_form s))), (''accessmode'', JStr (mf_accessmode (mp_form s)))]))
     \<in> set (mp_sent (submit_members pid s))"
    using assms \<open>find _ _ = None\<close>
    by (simp add: submit_members_def member_formSchema_def members_onSubmit_def add_member_def Suc_le_eq)
qed

lemma leftover_reached:
  assumes "mp_open s" "mf_userIds (mp_form s) = [int_str (uic_id u)]" "mp_server s = {}"
    "member_formSchema (mp_form s)" "mp_usersOutOfProject s = [u]" "mp_batches s = []" "users = [u]"
  shows "\<exists>t. runs (member_step pid users) s [Submit_members, Batch_answered 0 [True], Window_focused, Open_members True] t \<and>
    mp_open t \<and> mp_form t = mp_form s \<and> found_member (mp_usersOutOfProject t) (int_str (uic_id u)) = None"
  using assms
  by (auto simp: runs_Cons_simp member_step_simps submit_members_def batch_answered_def window_focused_def answers_fit_def
      found_member_def added_ids_def outsiders_def Let_def)

section \<open>The cards of a quota\<close>

text \<open>Amounts are numbers; the unit of a resource is one of four texts.\<close>

datatype quota_unit = Unit_GB | Unit_core | Unit_network | Unit_card

definition showUnit :: "string option \<Rightarrow> quota_unit" where
  "showUnit label = (if label = Some ''mem'' then Unit_GB else if label = Some ''cpu'' then Unit_core
     else if (case label of None \<Rightarrow> False | Some l \<Rightarrow> starts_with l ''rdma'') then Unit_network else Unit_card)"

text \<open>The page of an account knows no unit for networks.\<close>

definition account_showUnit :: "string option \<Rightarrow> quota_unit" where
  "account_showUnit label = (if label = Some ''mem'' then Unit_GB else if label = Some ''cpu'' then Unit_core else Unit_card)"

text \<open>\<open>toFixed(0)\<close> of a rational, the larger of two nearest numbers, for those that are not negative.\<close>

definition showAmount :: "rat \<Rightarrow> string option \<Rightarrow> string" where
  "showAmount allocated label = (if label = Some ''mem'' then int_str \<lfloor>allocated / 1024 / 1024 / 1024 + 1 / 2\<rfloor> else rat_str allocated)"

definition amount_of :: "ResourceBase option \<Rightarrow> rat option" where
  "amount_of b = map_option rb_amount b"

definition card_allocated :: "ResourceResp option \<Rightarrow> rat" where
  "card_allocated r = (case Option.bind r (\<lambda>r. amount_of (rr_allocated r)) of None \<Rightarrow> 0 | Some x \<Rightarrow> x)"

definition card_quota :: "ResourceResp option \<Rightarrow> rat" where
  "card_quota r = (case Option.bind r (\<lambda>r. amount_of (rr_deserved r)) of Some x \<Rightarrow> x
   | None \<Rightarrow> (case Option.bind r (\<lambda>r. amount_of (rr_capability r)) of Some x \<Rightarrow> x | None \<Rightarrow> 1))"

definition card_progress :: "ResourceResp option \<Rightarrow> number" where
  "card_progress r = (let progress = num_mul (num_div (Fin (card_allocated r)) (Fin (card_quota r))) (Fin 100) in
     if num_less (Fin 100) progress then Fin 100 else progress)"

datatype progress_colour = Emerald | Sky | Yellow | Orange | Red

text \<open>The colours among the classes of the text, of which the last counts; the first is always there.\<close>

definition progressTextColor :: "number \<Rightarrow> progress_colour list" where
  "progressTextColor p = [Emerald] @ (if num_le p (Fin 20) then [Emerald] else []) @
     (if num_less (Fin 20) p \<and> num_le p (Fin 50) then [Sky] else []) @
     (if num_less (Fin 50) p \<and> num_le p (Fin 70) then [Yellow] else []) @
     (if num_less (Fin 70) p \<and> num_le p (Fin 90) then [Orange] else []) @
     (if num_less (Fin 90) p then [Red] else [])"

text \<open>The cards of a user's quota; networks have a card of their own among the accelerators.\<close>

datatype quota_card = Cpu_card "ResourceResp option" | Memory_card "ResourceResp option" | Network_card ResourceResp | Gpu_card ResourceResp

definition quota_cards :: "QuotaResp option \<Rightarrow> quota_card list" where
  "quota_cards q = [Cpu_card (map_option qp_cpu q), Memory_card (map_option qp_memory q)] @
     (case q of None \<Rightarrow> [] | Some q \<Rightarrow> map (\<lambda>g. if starts_with (rr_label g) ''rdma'' then Network_card g else Gpu_card g) (qp_gpus q))"

definition quota_columns :: "QuotaResp option \<Rightarrow> nat" where
  "quota_columns q = (if map_option (\<lambda>q. length (qp_gpus q)) q = Some 1 then 3 else 4)"

text \<open>
  With a positive quota and amounts that are not negative, a card's bar is the share of the quota that
  is used, at most full; with the quota 0 it is full as soon as something is used, and \<open>NaN\<close> before.
\<close>

lemma card_progress_share:
  assumes "0 \<le> card_allocated r" "0 < card_quota r"
  shows "card_progress r = Fin (min 100 (card_allocated r / card_quota r * 100))"
  using assms by (auto simp: card_progress_def Let_def min_def)

lemma card_progress_zero:
  assumes "0 \<le> card_allocated r" "card_quota r = 0"
  shows "card_progress r = (if card_allocated r = 0 then NaN else Fin 100)"
  using assms by (auto simp: card_progress_def Let_def inf_signed_def)

lemma one_colour: "card_progress r \<noteq> NaN \<Longrightarrow> \<exists>c. progressTextColor (card_progress r) = [Emerald, c]"
proof -
  have "p \<noteq> NaN \<Longrightarrow> \<exists>c. progressTextColor p = [Emerald, c]" for p
    by (cases p) (auto simp: progressTextColor_def num_le_def)
  then show "card_progress r \<noteq> NaN \<Longrightarrow> ?thesis" by blast
qed

lemma network_unit_differs: "starts_with l ''rdma'' \<Longrightarrow> showUnit (Some l) = Unit_network \<and> account_showUnit (Some l) = Unit_card"
  by (auto simp: showUnit_def account_showUnit_def starts_with_def)

end
