(* ===== verification/Layout.thy ===== *)
theory Layout
  imports Session Files Forms Images Jobs Collections Machine Pseudonym Templates
begin

text \<open>
  What is around the pages: the theme (\<open>utils/theme.tsx\<close>), the breadcrumbs
  (\<open>components/layout/app-breadcrumb.tsx\<close>), the transitions (\<open>app-layout.tsx\<close>), the platform settings
  (\<open>routes/admin/settings/index.tsx\<close>), the page of a user (\<open>components/layout/user-detail/index.tsx\<close>); and
  parts that many pages use: the timeline of events, the links of a job's name and of its nodes, the
  card of a template and the button that saves a form to a file.
\<close>

section \<open>The theme\<close>

text \<open>
  The state of the provider, the classes of the document and the storage. The stored text is taken for
  a theme as it is; \<open>dark\<close> tells whether the system prefers a dark theme now.
\<close>

record theme_provider =
  th_theme :: string
  th_classes :: "string list"
  th_storage :: strobj

definition stored_theme :: "string \<Rightarrow> string \<Rightarrow> strobj \<Rightarrow> string" where
  "stored_theme storageKey defaultTheme storage = (case map_of storage storageKey of
     Some (c # cs) \<Rightarrow> c # cs | _ \<Rightarrow> defaultTheme)"

definition theme_effect :: "bool \<Rightarrow> theme_provider \<Rightarrow> theme_provider" where
  "theme_effect dark s = (let classes = filter (\<lambda>c. c \<noteq> ''light'' \<and> c \<noteq> ''dark'') (th_classes s) in
     if th_theme s = ''system'' then s\<lparr>th_classes := classes, th_theme := (if dark then ''dark'' else ''light'')\<rparr>
     else s\<lparr>th_classes := (if th_theme s \<in> set classes then classes else classes @ [th_theme s])\<rparr>)"

text \<open>The effect runs again when it changed the theme.\<close>

definition theme_effects :: "bool \<Rightarrow> theme_provider \<Rightarrow> theme_provider" where
  "theme_effects dark s = (let s' = theme_effect dark s in if th_theme s' = th_theme s then s' else theme_effect dark s')"

definition theme_mount :: "string \<Rightarrow> string \<Rightarrow> bool \<Rightarrow> string list \<Rightarrow> strobj \<Rightarrow> theme_provider" where
  "theme_mount storageKey defaultTheme dark classes storage = theme_effects dark
     \<lparr>th_theme = stored_theme storageKey defaultTheme storage, th_classes = classes, th_storage = storage\<rparr>"

definition setTheme :: "string \<Rightarrow> string \<Rightarrow> bool \<Rightarrow> theme_provider \<Rightarrow> theme_provider" where
  "setTheme storageKey theme dark s = (let s' = s\<lparr>th_storage := AList.update storageKey theme (th_storage s)\<rparr> in
     if th_theme s = theme then s' else theme_effects dark (s'\<lparr>th_theme := theme\<rparr>))"

definition themes :: "string list" where
  "themes = [''dark'', ''light'', ''system'']"

text \<open>What happens: a theme is chosen while the system prefers the dark one or not, the page is loaded again, the system changes.\<close>

datatype theme_event = Choose_theme string bool | Reload_page bool | System_changes

inductive theme_step :: "string \<Rightarrow> string \<Rightarrow> theme_provider \<Rightarrow> theme_event \<Rightarrow> theme_provider \<Rightarrow> bool"
  for storageKey :: string and defaultTheme :: string where
  theme_chosen: "theme \<in> set themes \<Longrightarrow> theme_step storageKey defaultTheme s (Choose_theme theme dark) (setTheme storageKey theme dark s)"
| theme_reload: "theme_step storageKey defaultTheme s (Reload_page dark) (theme_mount storageKey defaultTheme dark [] (th_storage s))"
| theme_system: "theme_step storageKey defaultTheme s System_changes s"

inductive_cases theme_stepE: "theme_step storageKey defaultTheme s e s'"

definition theme_shown :: "theme_provider \<Rightarrow> string list" where
  "theme_shown s = filter (\<lambda>c. c = ''light'' \<or> c = ''dark'') (th_classes s)"

definition theme_inv :: "string \<Rightarrow> string \<Rightarrow> theme_provider \<Rightarrow> bool" where
  "theme_inv storageKey defaultTheme s \<longleftrightarrow> defaultTheme \<in> set themes \<and> th_theme s \<in> {''light'', ''dark''} \<and> theme_shown s = [th_theme s] \<and>
     (\<forall>t. map_of (th_storage s) storageKey = Some t \<longrightarrow> t = [] \<or> t \<in> set themes)"

lemma theme_names [simp]: "''system'' \<noteq> ''light''" "''system'' \<noteq> ''dark''" "''light'' \<noteq> ''dark''"
  "''light'' \<noteq> ''system''" "''dark'' \<noteq> ''system''" "''dark'' \<noteq> ''light''"
  by simp_all

lemma theme_effects_settle:
  assumes "th_theme s \<in> set themes"
  shows "th_theme (theme_effects dark s) =
      (if th_theme s = ''system'' then if dark then ''dark'' else ''light'' else th_theme s)"
    "theme_shown (theme_effects dark s) = [th_theme (theme_effects dark s)]"
    "th_storage (theme_effects dark s) = th_storage s"
  using assms by (auto simp: theme_effects_def theme_effect_def theme_shown_def themes_def Let_def filter_empty_conv)

lemma theme_effects_range: "th_theme s \<in> set themes \<Longrightarrow> th_theme (theme_effects dark s) \<in> {''light'', ''dark''}"
  using theme_effects_settle(1) [of s dark] by (auto simp: themes_def)

lemma mount_settles:
  assumes "defaultTheme \<in> set themes" "stored_theme storageKey defaultTheme storage \<in> set themes"
    "\<forall>t. map_of storage storageKey = Some t \<longrightarrow> t = [] \<or> t \<in> set themes"
  shows "theme_inv storageKey defaultTheme (theme_mount storageKey defaultTheme dark classes storage)"
proof -
  let ?s = "\<lparr>th_theme = stored_theme storageKey defaultTheme storage, th_classes = classes, th_storage = storage\<rparr>"
  have "th_theme ?s \<in> set themes" using assms(2) by simp
  note settled = theme_effects_settle(2,3) [OF this, of dark] theme_effects_range [OF this, of dark]
  then show ?thesis using assms unfolding theme_inv_def theme_mount_def by simp
qed

lemma stored_theme_ok:
  "theme_inv storageKey defaultTheme s \<Longrightarrow> stored_theme storageKey defaultTheme (th_storage s) \<in> set themes"
  by (auto simp: theme_inv_def stored_theme_def split: option.split list.split)

lemma setTheme_inv:
  assumes "theme_inv storageKey defaultTheme s" "theme \<in> set themes"
  shows "theme_inv storageKey defaultTheme (setTheme storageKey theme dark s)"
proof -
  let ?s = "s\<lparr>th_storage := AList.update storageKey theme (th_storage s)\<rparr>"
  have store: "\<forall>t. map_of (th_storage ?s) storageKey = Some t \<longrightarrow> t = [] \<or> t \<in> set themes"
    using assms(2) by (simp add: update_conv')
  show ?thesis
  proof (cases "th_theme s = theme")
    case True
    then have "setTheme storageKey theme dark s = ?s" by (simp add: setTheme_def)
    then show ?thesis using assms(1) store by (simp add: theme_inv_def theme_shown_def)
  next
    case False
    have "th_theme (?s\<lparr>th_theme := theme\<rparr>) \<in> set themes" using assms(2) by simp
    note settled = theme_effects_settle(2,3) [OF this, of dark] theme_effects_range [OF this, of dark]
    have "setTheme storageKey theme dark s = theme_effects dark (?s\<lparr>th_theme := theme\<rparr>)"
      using False by (simp add: setTheme_def Let_def)
    then show ?thesis using settled store assms(1) unfolding theme_inv_def by simp
  qed
qed

lemma theme_step_inv:
  "theme_inv storageKey defaultTheme s \<Longrightarrow> theme_step storageKey defaultTheme s e s' \<Longrightarrow> theme_inv storageKey defaultTheme s'"
proof (erule theme_stepE)
  fix dark
  assume inv: "theme_inv storageKey defaultTheme s" and s': "s' = theme_mount storageKey defaultTheme dark [] (th_storage s)"
  show "theme_inv storageKey defaultTheme s'" unfolding s' using inv stored_theme_ok [OF inv]
    by (intro mount_settles) (simp_all add: theme_inv_def)
qed (auto intro: setTheme_inv)

definition theme_start :: "string \<Rightarrow> string \<Rightarrow> theme_provider \<Rightarrow> bool" where
  "theme_start storageKey defaultTheme s \<longleftrightarrow> (\<exists>dark classes storage. defaultTheme \<in> set themes \<and>
     (\<forall>t. map_of storage storageKey = Some t \<longrightarrow> t = [] \<or> t \<in> set themes) \<and>
     s = theme_mount storageKey defaultTheme dark classes storage)"

lemma theme_start_inv: "theme_start storageKey defaultTheme s \<Longrightarrow> theme_inv storageKey defaultTheme s"
  unfolding theme_start_def by (elim exE conjE, simp, rule mount_settles)
    (auto simp: stored_theme_def split: option.split list.split)

interpretation theme: machine "theme_step storageKey defaultTheme" "theme_start storageKey defaultTheme"
  "theme_inv storageKey defaultTheme"
  for storageKey and defaultTheme
  using theme_start_inv theme_step_inv by unfold_locales blast+

text \<open>
  After every choice and every reload exactly one of the two classes is on the document, and it is the
  one of the theme the application works with, provided that the storage held a theme or nothing.
\<close>

theorem theme_settled:
  assumes "theme_start storageKey defaultTheme s" "runs (theme_step storageKey defaultTheme) s es s'"
  shows "th_theme s' \<in> {''light'', ''dark''} \<and> theme_shown s' = [th_theme s']"
  using theme.reachable_inv [OF assms] by (simp add: theme_inv_def)

text \<open>What was chosen is what the next load starts with.\<close>

lemma theme_kept:
  assumes "theme \<in> set themes"
  shows "stored_theme storageKey defaultTheme (th_storage (setTheme storageKey theme dark s)) = theme"
proof -
  have "th_storage (setTheme storageKey theme dark s) = AList.update storageKey theme (th_storage s)"
    using theme_effects_settle(3) [of "s\<lparr>th_storage := AList.update storageKey theme (th_storage s), th_theme := theme\<rparr>"] assms
    by (simp add: setTheme_def Let_def)
  then show ?thesis using assms by (auto simp: stored_theme_def update_conv' themes_def)
qed

text \<open>
  The choice of the system's theme is forgotten as soon as it is made: the provider replaces it by the
  theme of that moment, so that no component sees that it is chosen and no change of the system is followed.
\<close>

lemma system_forgotten: "th_theme (setTheme storageKey ''system'' dark s) \<noteq> ''system'' \<or> th_theme s = ''system''"
  using theme_effects_settle(1) [of "s\<lparr>th_storage := AList.update storageKey ''system'' (th_storage s), th_theme := ''system''\<rparr>" dark]
  by (simp add: setTheme_def Let_def themes_def)

section \<open>Breadcrumbs and transitions\<close>

record crumb_match =
  cr_pathname :: string
  cr_crumb :: "string option"
  cr_back :: bool

definition breadcrumb_items :: "BreadCrumbItem list \<Rightarrow> crumb_match list \<Rightarrow> BreadCrumbItem list" where
  "breadcrumb_items customItems ms =
     (if 0 < length customItems then customItems
      else (let withCrumbs = filter (\<lambda>m. cr_crumb m \<noteq> None) ms; withBacks = filter cr_back ms in
        map (\<lambda>m. \<lparr>bc_href = cr_pathname m, bc_label = (case cr_crumb m of None \<Rightarrow> [] | Some c \<Rightarrow> c),
          bc_back = Some (list_ex (\<lambda>n. cr_pathname n = cr_pathname m) withBacks)\<rparr>) withCrumbs))"

datatype crumb_part = Current_page string | Go_back string | Page_link string string

definition breadcrumbs :: "BreadCrumbItem list \<Rightarrow> crumb_part list" where
  "breadcrumbs items = map (\<lambda>(i, item). if i = length items - 1 then Current_page (bc_label item)
     else if bc_back item = Some True then Go_back (bc_label item) else Page_link (bc_href item) (bc_label item)) (enumerate 0 items)"

definition motionKey :: "string \<Rightarrow> string" where
  "motionKey rawPath = (if starts_with rawPath ''/portal/files/'' then ''/portal/files/''
     else if starts_with rawPath ''/admin/files/'' then ''/admin/files/'' else rawPath)"

definition scheduler_badge :: "settings \<Rightarrow> scheduler option" where
  "scheduler_badge st = (if st_scheduler st \<noteq> Volcano then Some (st_scheduler st) else None)"

text \<open>Exactly the last item is the current page, and the labels are kept in their order.\<close>

definition crumb_label :: "crumb_part \<Rightarrow> string" where
  "crumb_label b = (case b of Current_page l \<Rightarrow> l | Go_back l \<Rightarrow> l | Page_link h l \<Rightarrow> l)"

lemma breadcrumb_labels: "map crumb_label (breadcrumbs items) = map bc_label items"
  by (rule nth_equalityI) (simp_all add: breadcrumbs_def crumb_label_def nth_enumerate_eq)

lemma current_last: "i < length items \<Longrightarrow> (\<exists>l. breadcrumbs items ! i = Current_page l) \<longleftrightarrow> Suc i = length items"
  by (auto simp: breadcrumbs_def nth_enumerate_eq)

text \<open>Moving between folders of one view is no transition.\<close>

lemma folders_same_motion:
  "motionKey (''/portal/files/'' @ p) = motionKey (''/portal/files/'' @ q)" "motionKey (''/admin/files/'' @ p) = motionKey (''/admin/files/'' @ q)"
  by (simp_all add: motionKey_def starts_with_def)

section \<open>Platform settings\<close>

text \<open>Both forms of the page share their values; submitting either stores all of them and loads the page again.\<close>

datatype platform_effect = Settings_toast | Store_settings settings | Reload_window

definition platform_handleSubmit :: "settings \<Rightarrow> platform_effect list" where
  "platform_handleSubmit v = [Settings_toast, Store_settings v, Reload_window]"

definition hideUsername_chosen :: "string \<Rightarrow> settings \<Rightarrow> settings" where
  "hideUsername_chosen value v = v\<lparr>st_hideUsername := (value = ''true'')\<rparr>"

section \<open>The page of a user\<close>

datatype user_text = Pseudonym "nat list" | Real_text string | No_text

text \<open>The name in the header and the name below it; with hidden names both are the pseudonym.\<close>

definition user_header :: "(string \<times> nat list) list \<Rightarrow> bool \<Rightarrow> IUser option \<Rightarrow> user_text \<times> bool \<times> user_text" where
  "user_header cache hideUsername user =
     (let hidden = Pseudonym (fst (getUserPseudonym cache (map_option us_name user))) in
      (if hideUsername then hidden
       else (case user of None \<Rightarrow> No_text | Some u \<Rightarrow> Real_text (if us_nickname u = [] then us_name u else us_nickname u)),
       map_option us_role user = Some Role_Admin,
       if hideUsername then hidden else (case user of None \<Rightarrow> No_text | Some u \<Rightarrow> Real_text (us_name u))))"

definition user_query :: "string \<Rightarrow> http_request option" where
  "user_query name = (if name = [] then None else Some (apiGetUser name))"

text \<open>A value that is not set, or empty, is shown as not set.\<close>

definition user_info_value :: "string option \<Rightarrow> string option" where
  "user_info_value v = (case v of Some (c # cs) \<Rightarrow> Some (c # cs) | _ \<Rightarrow> None)"

definition user_monitor :: "string \<Rightarrow> IUser option \<Rightarrow> string" where
  "user_monitor nvidia user = nvidia @ ''?var-user='' @ (case user of None \<Rightarrow> ''undefined'' | Some u \<Rightarrow> us_name u)"

lemma hidden_header: "user_header cache True user = (Pseudonym p, a, q) \<Longrightarrow> q = Pseudonym p"
  by (auto simp: user_header_def Let_def)

section \<open>Events, names, nodes, templates and files\<close>

record timeline_event =
  ev_reason :: "string option"
  ev_lastTimestamp :: "string option"

text \<open>\<open>date_ms\<close> reads a time. An empty time counts as none.\<close>

definition event_time :: "timeline_event \<Rightarrow> string option" where
  "event_time e = (case ev_lastTimestamp e of Some (c # cs) \<Rightarrow> Some (c # cs) | _ \<Rightarrow> None)"

definition event_order :: "(string \<Rightarrow> int) \<Rightarrow> timeline_event \<Rightarrow> timeline_event \<Rightarrow> int" where
  "event_order date_ms a b = (case event_time a of None \<Rightarrow> -1
   | Some ta \<Rightarrow> (case event_time b of None \<Rightarrow> 1 | Some tb \<Rightarrow> date_ms tb - date_ms ta))"

definition event_timeline :: "(string \<Rightarrow> int) \<Rightarrow> timeline_event list \<Rightarrow> timeline_event list" where
  "event_timeline date_ms es = sort_by (event_order date_ms) es"

text \<open>Events that have a time are shown from the newest to the oldest, none is lost.\<close>

lemma timeline_sorted:
  assumes "\<forall>e \<in> set es. event_time e \<noteq> None"
  shows "sorted_wrt (\<lambda>a b. date_ms (the (event_time b)) \<le> date_ms (the (event_time a))) (event_timeline date_ms es)"
    "mset (event_timeline date_ms es) = mset es"
proof -
  let ?key = "\<lambda>e. - date_ms (the (event_time e))"
  have "insert_by (event_order date_ms) e xs = insert_by (by_key ?key) e xs"
    if "event_time e \<noteq> None" "\<forall>x \<in> set xs. event_time x \<noteq> None" for e xs
    using that by (induction xs) (auto simp: event_order_def by_key_def)
  then have "sort_by (event_order date_ms) es = sort_by (by_key ?key) es"
    using assms by (induction es) auto
  then show "sorted_wrt (\<lambda>a b. date_ms (the (event_time b)) \<le> date_ms (the (event_time a))) (event_timeline date_ms es)"
    using by_key.sorted_sort_by [of ?key es] by (simp add: event_timeline_def by_key_def)
  show "mset (event_timeline date_ms es) = mset es" by (simp add: event_timeline_def)
qed

text \<open>Two events without a time come before each other: the comparison is no order, and the result of sorting depends on the engine.\<close>

lemma no_order: "event_time a = None \<Longrightarrow> event_time b = None \<Longrightarrow> event_order f a b = -1 \<and> event_order f b a = -1"
  by (simp add: event_order_def)

text \<open>The link of a job's name: its page, at the events while it has not started.\<close>

definition job_name_link :: "bool \<Rightarrow> IJobInfo \<Rightarrow> string \<times> string option" where
  "job_name_link isAdminView j = ((if isAdminView then ''/admin/jobs/'' else ''/portal/jobs/detail/'') @ ji_jobName j,
     if getJobStateType (ji_status j) = JobStatus_NotStarted then Some ''event'' else None)"

datatype lock_tip = Not_locked | Locked_for_good | Locked_until "string option"

definition lock_tip_of :: "IJobInfo \<Rightarrow> lock_tip" where
  "lock_tip_of j = (if \<not> ji_locked j then Not_locked else if ji_permanentLocked j then Locked_for_good
     else Locked_until (ji_lockedTimestamp j))"

lemma not_started_events: "snd (job_name_link a j) = Some ''event'' \<longleftrightarrow> ji_status j \<in> {JobPhase_Pending, JobPhase_Init}"
  by (cases "ji_status j") (simp_all add: job_name_link_def getJobStateType_def)

datatype node_badges = No_badge | One_node string string | Many_nodes nat "(string \<times> string) list"

definition node_page_link :: "bool \<Rightarrow> string \<Rightarrow> string" where
  "node_page_link isAdminView node = (if isAdminView then ''/admin/cluster/nodes/'' else ''/portal/overview/'') @ node"

definition node_badges_of :: "bool \<Rightarrow> (string \<Rightarrow> string \<Rightarrow> int) \<Rightarrow> string list option \<Rightarrow> node_badges" where
  "node_badges_of isAdminView localeCompare nodes = (case nodes of None \<Rightarrow> No_badge | Some ns \<Rightarrow>
     if ns = [] \<or> hd ns = [] then No_badge
     else if length ns = 1 then One_node (hd ns) (node_page_link isAdminView (hd ns))
     else Many_nodes (length ns) (map (\<lambda>n. (n, node_page_link isAdminView n)) (sort_by localeCompare ns)))"

lemma many_nodes: "node_badges_of a cmp (Some ns) = Many_nodes n links \<Longrightarrow>
  n = length ns \<and> map fst links = sort_by cmp ns \<and> (\<forall>(m, l) \<in> set links. l = node_page_link a m)"
  by (auto simp: node_badges_of_def o_def split: if_splits)

record template_view =
  tv_fromJob :: bool
  tv_name :: "string option"
  tv_author :: "string option"
  tv_description :: "string option"
  tv_document :: "string option"

text \<open>
  The card above a job form: nothing, the default document alone, or the template with its document and
  the default document below. The data of the template are its name, author, description and document.
\<close>

record template_data =
  td_name :: string
  td_describe :: string
  td_document :: string
  td_nickname :: string

definition text_given :: "string option \<Rightarrow> bool" where
  "text_given x \<longleftrightarrow> x \<noteq> None \<and> x \<noteq> Some []"

definition template_cards :: "string option \<Rightarrow> string option \<Rightarrow> template_data option \<Rightarrow> string option \<Rightarrow> template_view option \<times> string option" where
  "template_cards fromJob fromTemplate templateData defaultMarkdown =
     (let default = (if text_given defaultMarkdown then defaultMarkdown else None) in
      if \<not> text_given fromJob \<and> \<not> text_given fromTemplate then (None, default)
      else (Some \<lparr>tv_fromJob = text_given fromJob,
         tv_name = (if text_given fromJob then fromJob else map_option td_name templateData),
         tv_author = (case templateData of Some d \<Rightarrow> if td_nickname d = [] then None else Some (td_nickname d) | None \<Rightarrow> None),
         tv_description = (if text_given fromJob then fromJob else map_option td_describe templateData),
         tv_document = (case templateData of Some d \<Rightarrow> if td_document d = [] then None else Some (td_document d) | None \<Rightarrow> None)\<rparr>, default))"

text \<open>
  The file of a form: \<open>month_day\<close> is \<open>toLocaleDateString('en-US', \<dots>)\<close> with two digits each, which puts
  a slash between them. Nothing is saved while the form does not pass its schema.
\<close>

definition two_digits :: "nat \<Rightarrow> string" where
  "two_digits n = [digit_char (n div 10 mod 10), digit_char (n mod 10)]"

definition export_fileName :: "MetadataFormType \<Rightarrow> nat \<Rightarrow> nat \<Rightarrow> string" where
  "export_fileName metadata month day = lower (md_type metadata) @ ''_'' @ two_digits month @ ''/'' @ two_digits day @ ''.json''"

definition export_form :: "MetadataFormType \<Rightarrow> bool \<Rightarrow> json \<Rightarrow> nat \<Rightarrow> nat \<Rightarrow> (string \<times> string) option" where
  "export_form metadata isValid currentValues month day =
     (if \<not> isValid then None else Some (exportToJsonFile (job_submit metadata currentValues) (export_fileName metadata month day)))"

lemma exported_text: "export_form metadata True v month day = Some (n, text) \<Longrightarrow> text = exportToJsonString metadata v"
  by (auto simp: export_form_def exportToJsonFile_def exportToJsonString_def)

lemma name_with_slash: "CHR ''/'' \<in> set (export_fileName metadata month day)"
  by (simp add: export_fileName_def)

end
