(* ===== verification/Badges.thy ===== *)
theory Badges
  imports ApiJobs ApiAccounts ApiCluster ApiImages Orders JsNumber
begin

text \<open>
  The badges of \<open>components/badge\<close>: which label and colour a state has, and which values the filters of
  the tables offer. The labels are texts in Chinese; a constructor names each by what it says. The
  longer descriptions under the pointer are fixed texts and left out, but for the reason of a node.
\<close>

datatype badge_label =
    L_created | L_waiting | L_aborting | L_aborted | L_running | L_restarting | L_completing | L_completed
  | L_terminating | L_terminated | L_failed | L_stopped | L_released | L_unknown
  | L_custom | L_jupyter | L_tensorflow | L_pytorch
  | L_job_lock | L_data_move | L_to_approve | L_approved | L_rejected | L_cancelled
  | L_memory_pressure | L_disk_pressure | L_pid_pressure | L_network_down | L_unschedulable | L_occupied
  | L_checking | L_succeeded | L_model | L_dataset | L_shared_file
  | L_public | L_private | L_shared | L_account
  | L_disabled | L_activated | L_read_write | L_read_only | L_admin | L_user

record phase_data =
  pd_label :: badge_label
  pd_color :: string

definition tone :: "string \<Rightarrow> string \<Rightarrow> string" where
  "tone colour strength = ''text-highlight-'' @ colour @ '' bg-highlight-'' @ colour @ ''/'' @ strength"

definition badge :: "badge_label \<Rightarrow> string \<Rightarrow> phase_data" where
  "badge l colour = \<lparr>pd_label = l, pd_color = tone colour ''20''\<rparr>"

definition pale_badge :: "badge_label \<Rightarrow> string \<Rightarrow> phase_data" where
  "pale_badge l colour = \<lparr>pd_label = l, pd_color = tone colour ''10''\<rparr>"

text \<open>\<open>find\<close> in a list of values with their data, and the data of an unknown value.\<close>

definition found_label :: "(string \<times> phase_data) list \<Rightarrow> string \<Rightarrow> phase_data" where
  "found_label table value = (case map_of table value of Some d \<Rightarrow> d | None \<Rightarrow> badge L_unknown ''slate'')"

section \<open>Jobs\<close>

text \<open>The values of the filter, with their labels and the colours of the charts.\<close>

definition jobPhases :: "(string \<times> badge_label \<times> string) list" where
  "jobPhases = [
     (''Pending'', L_waiting, ''#a855f7''),
     (''Aborting'', L_aborting, ''#ec4899''),
     (''Aborted'', L_aborted, ''#ec4899''),
     (''Running'', L_running, ''#3b82f6''),
     (''Restarting'', L_restarting, ''#f43f5e''),
     (''Completing'', L_completing, ''#10b981''),
     (''Completed'', L_completed, ''#10b981''),
     (''Terminating'', L_terminating, ''#f97316''),
     (''Terminated'', L_terminated, ''#f97316''),
     (''Deleted'', L_stopped, ''#f97316''),
     (''Freed'', L_released, ''#f97316''),
     (''Failed'', L_failed, ''#ef4444'')]"

fun getJobPhaseLabel :: "JobPhase \<Rightarrow> phase_data" where
  "getJobPhaseLabel JobPhase_Init = badge L_created ''slate''"
| "getJobPhaseLabel JobPhase_Pending = badge L_waiting ''purple''"
| "getJobPhaseLabel JobPhase_Aborting = badge L_aborting ''pink''"
| "getJobPhaseLabel JobPhase_Aborted = badge L_aborted ''pink''"
| "getJobPhaseLabel JobPhase_Running = badge L_running ''blue''"
| "getJobPhaseLabel JobPhase_Restarting = badge L_restarting ''rose''"
| "getJobPhaseLabel JobPhase_Completing = badge L_completing ''emerald''"
| "getJobPhaseLabel JobPhase_Completed = badge L_completed ''emerald''"
| "getJobPhaseLabel JobPhase_Terminating = badge L_terminating ''orange''"
| "getJobPhaseLabel JobPhase_Terminated = badge L_terminated ''orange''"
| "getJobPhaseLabel JobPhase_Failed = badge L_failed ''red''"
| "getJobPhaseLabel JobPhase_Deleted = badge L_stopped ''orange''"
| "getJobPhaseLabel JobPhase_Freed = badge L_released ''orange''"
| "getJobPhaseLabel JobPhase_Cancelled = badge L_unknown ''slate''"

definition jobTypes :: "(string \<times> badge_label) list" where
  "jobTypes = [(''custom'', L_custom), (''jupyter'', L_jupyter), (''tensorflow'', L_tensorflow), (''pytorch'', L_pytorch)]"

fun getJobTypeLabel :: "JobType \<Rightarrow> phase_data" where
  "getJobTypeLabel JobType_Custom = pale_badge L_custom ''purple''"
| "getJobTypeLabel JobType_Jupyter = pale_badge L_jupyter ''amber''"
| "getJobTypeLabel JobType_Tensorflow = pale_badge L_tensorflow ''cyan''"
| "getJobTypeLabel JobType_Pytorch = pale_badge L_pytorch ''rose''"
| "getJobTypeLabel JobType_KubeRay = pale_badge L_custom ''purple''"
| "getJobTypeLabel JobType_DeepSpeed = pale_badge L_custom ''purple''"
| "getJobTypeLabel JobType_OpenMPI = pale_badge L_custom ''purple''"

section \<open>Orders\<close>

definition approvalOrderTypes :: "(string \<times> badge_label) list" where
  "approvalOrderTypes = [(''job'', L_job_lock), (''dataset'', L_data_move)]"

definition approvalOrderStatuses :: "(string \<times> badge_label) list" where
  "approvalOrderStatuses = [(''Pending'', L_to_approve), (''Approved'', L_approved), (''Rejected'', L_rejected), (''Canceled'', L_cancelled)]"

definition getApprovalOrderTypeLabel :: "string \<Rightarrow> phase_data" where
  "getApprovalOrderTypeLabel t = (if t = ''dataset'' then pale_badge L_data_move ''green'' else pale_badge L_job_lock ''blue'')"

fun getApprovalOrderStatusLabel :: "OrderStatus \<Rightarrow> phase_data" where
  "getApprovalOrderStatusLabel Order_Pending = pale_badge L_to_approve ''orange''"
| "getApprovalOrderStatusLabel Order_Approved = pale_badge L_approved ''green''"
| "getApprovalOrderStatusLabel Order_Rejected = pale_badge L_rejected ''red''"
| "getApprovalOrderStatusLabel Order_Canceled = pale_badge L_cancelled ''gray''"

section \<open>Nodes, pods and containers\<close>

definition nodeStatuses :: "(string \<times> phase_data) list" where
  "nodeStatuses = [
     (''Ready'', badge L_running ''blue''),
     (''MemoryPressure'', badge L_memory_pressure ''red''),
     (''DiskPressure'', badge L_disk_pressure ''red''),
     (''PIDPressure'', badge L_pid_pressure ''red''),
     (''NetworkUnavailable'', badge L_network_down ''red''),
     (''Unschedulable'', badge L_unschedulable ''orange''),
     (''Occupied'', badge L_occupied ''yellow'')]"

text \<open>The badge of a node; a reason that is not blank replaces the description.\<close>

definition node_status_badge :: "string \<Rightarrow> string option \<Rightarrow> phase_data \<times> string option" where
  "node_status_badge status reason = (found_label nodeStatuses status,
     case reason of None \<Rightarrow> None | Some r \<Rightarrow> if js_trim r = [] then None else Some (js_trim r))"

definition podPhases :: "(string \<times> phase_data) list" where
  "podPhases = [
     (''Pending'', badge L_waiting ''purple''),
     (''Running'', badge L_running ''blue''),
     (''Succeeded'', badge L_completed ''emerald''),
     (''Failed'', badge L_failed ''red''),
     (''Unknown'', badge L_unknown ''slate'')]"

definition containerStatuses :: "(string \<times> phase_data) list" where
  "containerStatuses = [
     (''Waiting'', badge L_waiting ''purple''),
     (''Running'', badge L_running ''blue''),
     (''Terminated'', badge L_terminated ''slate'')]"

text \<open>An accelerator as vendor and model; the colours of a vendor.\<close>

definition parseAcceleratorString :: "string \<Rightarrow> string \<times> string" where
  "parseAcceleratorString input = (if input = [] then ([], []) else
     (case split_char (CHR ''/'') input of [v, m] \<Rightarrow> (v, m) | _ \<Rightarrow> ([], input)))"

definition vendorColors :: strobj where
  "vendorColors = [
     (''nvidia.com'', ''bg-[#75a031] ring-[#75a031] text-[#75a031]''),
     (''huawei.com'', ''bg-[#be2a34] ring-[#be2a34] text-[#be2a34]''),
     (''iluvatar.com'', ''bg-[#1e40af] ring-[#1e40af] text-[#1e40af]''),
     (''amd.com'', ''bg-red-500 ring-red-500 text-white''),
     (''intel.com'', ''bg-blue-600 ring-blue-600 text-white''),
     (''qualcomm.com'', ''bg-blue-500 ring-blue-500 text-white''),
     (''broadcom.com'', ''bg-orange-600 ring-orange-600 text-white''),
     (''xilinx.com'', ''bg-purple-600 ring-purple-600 text-purple-600''),
     (''default'', ''bg-gray-600 ring-gray-600 text-gray-600'')]"

definition getVendorColor :: "string \<Rightarrow> string" where
  "getVendorColor vendor = (case map_of vendorColors vendor of Some c \<Rightarrow> c | None \<Rightarrow> ''bg-gray-600 ring-gray-600 text-gray-600'')"

text \<open>What is shown of the vendor; an empty one is not shown.\<close>

definition vendor_shown :: "string \<Rightarrow> string option" where
  "vendor_shown input = (let vendor = fst (parseAcceleratorString input) in
     if vendor = [] then None else Some (replace_first ''.com'' [] vendor))"

section \<open>Images and data\<close>

fun getImagePackStatusLabel :: "ImagePackStatus \<Rightarrow> phase_data" where
  "getImagePackStatusLabel Pack_Initial = badge L_checking ''purple''"
| "getImagePackStatusLabel Pack_Pending = badge L_waiting ''slate''"
| "getImagePackStatusLabel Pack_Running = badge L_running ''sky''"
| "getImagePackStatusLabel Pack_Finished = badge L_succeeded ''emerald''"
| "getImagePackStatusLabel Pack_Failed = badge L_failed ''red''"
| "getImagePackStatusLabel Pack_Canceled = \<lparr>pd_label = L_cancelled, pd_color = ''text-amber-600 bg-amber-600/20''\<rparr>"
| "getImagePackStatusLabel Pack_Empty = badge L_unknown ''slate''"

definition datasetTypes :: "(string \<times> badge_label) list" where
  "datasetTypes = [(''model'', L_model), (''dataset'', L_dataset), (''sharefile'', L_shared_file)]"

definition getDatasetTypeLabel :: "string \<Rightarrow> phase_data" where
  "getDatasetTypeLabel t = (if t = ''model'' then pale_badge L_model ''blue''
     else if t = ''sharefile'' then pale_badge L_shared_file ''orange'' else pale_badge L_dataset ''green'')"

definition visibilityTypes :: "(string \<times> phase_data) list" where
  "visibilityTypes = [
     (''Public'', badge L_public ''green''),
     (''Private'', badge L_private ''sky''),
     (''UserShare'', badge L_shared ''orange''),
     (''AccountShare'', badge L_account ''purple'')]"

section \<open>Users\<close>

definition status_labels :: "(string \<times> phase_data) list" where
  "status_labels = [
     (int_str (ProjectStatus_val ProjectStatus_Inactive), badge L_disabled ''orange''),
     (int_str (ProjectStatus_val ProjectStatus_Active), badge L_activated ''emerald'')]"

definition access_labels :: "(string \<times> phase_data) list" where
  "access_labels = [
     (int_str (Access_val Access_RW), badge L_read_write ''orange''),
     (int_str (Access_val Access_RO), badge L_read_only ''emerald'')]"

definition role_labels :: "(string \<times> phase_data) list" where
  "role_labels = [
     (int_str (Role_val Role_Admin), badge L_admin ''purple''),
     (int_str (Role_val Role_User), badge L_user ''blue'')]"

section \<open>Scheduled clean-ups\<close>

datatype record_status = Record_success | Record_failed | Record_unknown

definition cronJobRecordStatus :: "string \<Rightarrow> record_status" where
  "cronJobRecordStatus status = (if status = ''success'' then Record_success
     else if status = ''failed'' then Record_failed else Record_unknown)"

section \<open>What the badges tell\<close>

text \<open>The labels of a job tell its phases apart; only a cancelled job is unknown.\<close>

lemma phases_told_apart: "getJobPhaseLabel p = getJobPhaseLabel q \<Longrightarrow> p = q"
  by (cases p; cases q; simp add: badge_def)

lemma cancelled_unknown: "pd_label (getJobPhaseLabel p) = L_unknown \<longleftrightarrow> p = JobPhase_Cancelled"
  by (cases p) (simp_all add: badge_def)

text \<open>The filter offers exactly the phases but those of new and of cancelled jobs, each by the label of its badge.\<close>

lemma phases_offered:
  "set (map fst jobPhases) = JobPhase_val ` (- {JobPhase_Init, JobPhase_Cancelled})"
proof -
  have "- {JobPhase_Init, JobPhase_Cancelled} = {JobPhase_Pending, JobPhase_Aborting, JobPhase_Aborted, JobPhase_Running,
      JobPhase_Restarting, JobPhase_Completing, JobPhase_Completed, JobPhase_Terminating, JobPhase_Terminated,
      JobPhase_Deleted, JobPhase_Freed, JobPhase_Failed}" (is "?A = ?B")
  proof (rule set_eqI)
    show "p \<in> ?A \<longleftrightarrow> p \<in> ?B" for p by (cases p) simp_all
  qed
  then show ?thesis by (simp only: jobPhases_def list.map list.set image_insert image_empty fst_conv JobPhase_val.simps)
qed

lemma phase_labels_agree:
  "p \<noteq> JobPhase_Init \<Longrightarrow> p \<noteq> JobPhase_Cancelled \<Longrightarrow>
   map_option fst (map_of jobPhases (JobPhase_val p)) = Some (pd_label (getJobPhaseLabel p))"
  by (cases p) (simp_all add: jobPhases_def badge_def)

text \<open>Jobs of three kinds are shown as custom jobs, and no filter finds them.\<close>

lemma shown_as_custom:
  "pd_label (getJobTypeLabel t) = L_custom \<longleftrightarrow> t \<in> {JobType_Custom, JobType_KubeRay, JobType_DeepSpeed, JobType_OpenMPI}"
  by (cases t) (simp_all add: pale_badge_def)

lemma kinds_offered: "map_of jobTypes (JobType_val t) \<noteq> None \<longleftrightarrow> t \<notin> {JobType_KubeRay, JobType_DeepSpeed, JobType_OpenMPI}"
  by (cases t) (simp_all add: jobTypes_def)

lemma orders_agree:
  "map_of approvalOrderStatuses (OrderStatus_val s) = Some (pd_label (getApprovalOrderStatusLabel s))"
  by (cases s) (simp_all add: approvalOrderStatuses_def OrderStatus_val_def pale_badge_def)

text \<open>Of the states the server knows, a node that is not ready is shown as unknown.\<close>

lemma not_ready_unknown:
  "pd_label (fst (node_status_badge (NodeStatus_val s) reason)) = L_unknown \<longleftrightarrow> s = NodeStatus_NotReady"
  by (cases s) (simp_all add: node_status_badge_def found_label_def nodeStatuses_def badge_def)

lemma unknown_users:
  "pd_label (found_label role_labels (int_str (Role_val r))) = L_unknown \<longleftrightarrow> r = Role_Guest"
  "pd_label (found_label access_labels (int_str (Access_val a))) = L_unknown \<longleftrightarrow> a \<in> {Access_NA, Access_AO}"
  "pd_label (found_label status_labels (int_str (ProjectStatus_val s))) = L_unknown \<longleftrightarrow> s = ProjectStatus_Pending"
proof -
  have eq: "int_str i = int_str j \<longleftrightarrow> i = j" for i j using int_str_inj by blast
  show "pd_label (found_label role_labels (int_str (Role_val r))) = L_unknown \<longleftrightarrow> r = Role_Guest"
    by (cases r) (simp_all add: found_label_def role_labels_def badge_def eq)
  show "pd_label (found_label access_labels (int_str (Access_val a))) = L_unknown \<longleftrightarrow> a \<in> {Access_NA, Access_AO}"
    by (cases a) (simp_all add: found_label_def access_labels_def badge_def eq)
  show "pd_label (found_label status_labels (int_str (ProjectStatus_val s))) = L_unknown \<longleftrightarrow> s = ProjectStatus_Pending"
    by (cases s) (simp_all add: found_label_def status_labels_def badge_def eq)
qed

text \<open>A vendor and a model without slashes are read as they are, other texts are models.\<close>

lemma accelerator_read:
  "CHR ''/'' \<notin> set v \<Longrightarrow> CHR ''/'' \<notin> set m \<Longrightarrow> parseAcceleratorString (v @ ''/'' @ m) = (v, m)"
  "CHR ''/'' \<notin> set m \<Longrightarrow> parseAcceleratorString m = ([], m)"
  by (simp_all add: parseAcceleratorString_def split_char_append)

lemma vendor_read:
  assumes "CHR ''/'' \<notin> set v" "CHR ''/'' \<notin> set m" "CHR ''.'' \<notin> set v"
  shows "vendor_shown (v @ ''.com'' @ ''/'' @ m) = Some v \<or> v = []"
proof -
  have "parseAcceleratorString ((v @ ''.com'') @ ''/'' @ m) = (v @ ''.com'', m)"
    using assms by (intro accelerator_read) simp_all
  then show ?thesis using replace_first_suffix [of "''.com''" "CHR ''.''" "''com''" v "[]"] assms(3)
    by (simp add: vendor_shown_def)
qed

end
