(* ===== verification/Rows.thy ===== *)
theory Rows
  imports Orders Files CronJobs AdminPages Machine
begin

text \<open>
  What the rows and the toolbars of lists do: the menu of an approval order
  (\<open>components/approval-order\<close>) as the three lists of orders configure it, the time that has passed
  since a date (\<open>components/custom/time-distance.tsx\<close>), the past runs of the clean-ups with their removal
  (\<open>routes/admin/cronjobs/cronjob-records-table.tsx\<close>), the download of a file and the dialog for a new
  folder (\<open>components/file/file-system-table.tsx\<close>), the box that several values are chosen in
  (\<open>components/custom/select-box.tsx\<close>), and how sizes, architectures and entries are written.
\<close>

section \<open>The menu of an approval order\<close>

text \<open>The texts of the entries, and what an entry does when it is chosen.\<close>

datatype menu_text = Txt_view | Txt_approve | Txt_reject | Txt_approve_and_lock | Txt_generate_link

datatype row_event = Visit string | Visit_order int string | Ask_rejection ApprovalOrder | Decide review
  | Not_yet | Link_dialog ApprovalOrder

record order_action =
  oa_show :: bool
  oa_onClick :: "ApprovalOrder \<Rightarrow> row_event"
  oa_label :: "menu_text option"
  oa_disabled :: "(ApprovalOrder \<Rightarrow> bool) option"

record custom_action =
  cu_label :: menu_text
  cu_onClick :: "ApprovalOrder \<Rightarrow> row_event"
  cu_disabled :: "(ApprovalOrder \<Rightarrow> bool) option"
  cu_separator :: bool

record action_config =
  ac_view :: "order_action option"
  ac_approve :: "order_action option"
  ac_reject :: "order_action option"
  ac_custom :: "custom_action list option"

record menu_item =
  mi_text :: menu_text
  mi_disabled :: bool
  mi_event :: row_event
  mi_separated :: bool

definition showing :: "order_action option \<Rightarrow> bool" where
  "showing a = (case a of None \<Rightarrow> False | Some x \<Rightarrow> oa_show x)"

definition hasActions :: "action_config \<Rightarrow> bool" where
  "hasActions config \<longleftrightarrow> showing (ac_view config) \<or> showing (ac_approve config) \<or> showing (ac_reject config) \<or>
     (case ac_custom config of None \<Rightarrow> False | Some cs \<Rightarrow> 0 < length cs)"

definition std_item :: "menu_text \<Rightarrow> ApprovalOrder \<Rightarrow> order_action option \<Rightarrow> menu_item list" where
  "std_item text order a = (case a of None \<Rightarrow> []
     | Some x \<Rightarrow> if oa_show x
         then [\<lparr>mi_text = (case oa_label x of None \<Rightarrow> text | Some l \<Rightarrow> l),
                mi_disabled = (case oa_disabled x of None \<Rightarrow> False | Some f \<Rightarrow> f order),
                mi_event = oa_onClick x order, mi_separated = False\<rparr>]
         else [])"

definition custom_item :: "ApprovalOrder \<Rightarrow> nat \<times> custom_action \<Rightarrow> menu_item" where
  "custom_item order p = (case p of (index, c) \<Rightarrow>
     \<lparr>mi_text = cu_label c, mi_disabled = (case cu_disabled c of None \<Rightarrow> False | Some f \<Rightarrow> f order),
      mi_event = cu_onClick c order, mi_separated = (cu_separator c \<and> 0 < index)\<rparr>)"

definition operations :: "action_config \<Rightarrow> ApprovalOrder \<Rightarrow> menu_item list option" where
  "operations config order =
     (if \<not> hasActions config then None
      else Some (std_item Txt_view order (ac_view config) @ std_item Txt_approve order (ac_approve config) @
        std_item Txt_reject order (ac_reject config) @
        (case ac_custom config of None \<Rightarrow> [] | Some cs \<Rightarrow> map (custom_item order) (List.enumerate 0 cs))))"

definition createViewOnlyConfig :: "(ApprovalOrder \<Rightarrow> row_event) \<Rightarrow> action_config" where
  "createViewOnlyConfig onView = \<lparr>ac_view = Some \<lparr>oa_show = True, oa_onClick = onView, oa_label = None, oa_disabled = None\<rparr>,
     ac_approve = None, ac_reject = None, ac_custom = None\<rparr>"

definition createAdminConfig :: "(ApprovalOrder \<Rightarrow> row_event) \<Rightarrow> (ApprovalOrder \<Rightarrow> row_event) \<Rightarrow>
    (ApprovalOrder \<Rightarrow> row_event) \<Rightarrow> (ApprovalOrder \<Rightarrow> bool) \<Rightarrow> action_config" where
  "createAdminConfig onView onApprove onReject canManage =
     (let closed = (\<lambda>order. \<not> canManage order \<or> ao_status order \<noteq> Order_Pending) in
      \<lparr>ac_view = Some \<lparr>oa_show = True, oa_onClick = onView, oa_label = None, oa_disabled = None\<rparr>,
       ac_approve = Some \<lparr>oa_show = True, oa_onClick = onApprove, oa_label = None, oa_disabled = Some closed\<rparr>,
       ac_reject = Some \<lparr>oa_show = True, oa_onClick = onReject, oa_label = None, oa_disabled = Some closed\<rparr>,
       ac_custom = None\<rparr>)"

text \<open>
  The configurations of the lists: that of the administrators, that beside a job, and the visitor's
  own. While a decision is on its way (\<open>isApproving\<close>, \<open>isRejecting\<close>) or a job is fetched, entries are
  disabled.
\<close>

record pending_calls =
  isApproving :: bool
  isRejecting :: bool
  isFetchingJob :: bool

definition approve_event :: "int option \<Rightarrow> ApprovalOrder \<Rightarrow> row_event" where
  "approve_event user order = Decide (if ao_type order = ''job'' then Lock_first order else Review (approveOrder user order))"

definition approve_action :: "pending_calls \<Rightarrow> int option \<Rightarrow> ApprovalOrder \<Rightarrow> order_action" where
  "approve_action p user order = \<lparr>oa_show = (ao_status order = Order_Pending), oa_onClick = approve_event user,
     oa_label = Some (if ao_type order = ''job'' then Txt_approve_and_lock else Txt_approve),
     oa_disabled = Some (\<lambda>o'. isApproving p \<or> isRejecting p \<or> isFetchingJob p)\<rparr>"

definition admin_action_config :: "pending_calls \<Rightarrow> int option \<Rightarrow> ApprovalOrder \<Rightarrow> action_config" where
  "admin_action_config p user order =
     \<lparr>ac_view = Some \<lparr>oa_show = True, oa_onClick = (\<lambda>o'. Visit_order (ao_id order) (ao_type order)), oa_label = None, oa_disabled = None\<rparr>,
      ac_approve = Some (approve_action p user order),
      ac_reject = Some \<lparr>oa_show = (ao_status order = Order_Pending), oa_onClick = Ask_rejection, oa_label = None,
        oa_disabled = Some (\<lambda>o'. isApproving p \<or> isRejecting p)\<rparr>,
      ac_custom = None\<rparr>"

definition job_action_config :: "bool \<Rightarrow> pending_calls \<Rightarrow> int option \<Rightarrow> ApprovalOrder \<Rightarrow> action_config" where
  "job_action_config isAdmin p user order =
     (let handleViewOrder = (\<lambda>o'. Visit (job_order_link isAdmin o')) in
      if \<not> isAdmin then createViewOnlyConfig handleViewOrder
      else \<lparr>ac_view = Some \<lparr>oa_show = True, oa_onClick = handleViewOrder, oa_label = None, oa_disabled = None\<rparr>,
        ac_approve = Some (approve_action p user order),
        ac_reject = Some \<lparr>oa_show = (ao_status order = Order_Pending),
          oa_onClick = (\<lambda>o'. Decide (Review (rejectOrder_of_job user o'))), oa_label = None,
          oa_disabled = Some (\<lambda>o'. isApproving p \<or> isRejecting p)\<rparr>,
        ac_custom = None\<rparr>)"

definition portal_view :: "ApprovalOrder \<Rightarrow> row_event" where
  "portal_view order = (if ao_type order = ''job'' then Visit (''/portal/jobs/detail/'' @ ao_name order) else Not_yet)"

definition portal_action_config :: action_config where
  "portal_action_config =
     (let config = createViewOnlyConfig portal_view;
          link = \<lparr>cu_label = Txt_generate_link, cu_onClick = Link_dialog,
            cu_disabled = Some (\<lambda>order. ao_status order \<noteq> Order_Pending), cu_separator = True\<rparr> in
      config\<lparr>ac_custom := Some (case ac_custom config of None \<Rightarrow> [link] | Some cs \<Rightarrow> cs @ [link])\<rparr>)"

lemmas menu_defs = operations_def hasActions_def showing_def std_item_def custom_item_def createViewOnlyConfig_def
  approve_action_def admin_action_config_def job_action_config_def portal_action_config_def

text \<open>What the entries that are not disabled do, and which of that decides an order.\<close>

definition enabled_events :: "action_config \<Rightarrow> ApprovalOrder \<Rightarrow> row_event list" where
  "enabled_events config order =
     map mi_event (filter (\<lambda>m. \<not> mi_disabled m) (case operations config order of None \<Rightarrow> [] | Some ms \<Rightarrow> ms))"

fun decides :: "row_event \<Rightarrow> bool" where
  "decides (Ask_rejection order) = True"
| "decides (Decide r) = (case r of Lock_first order \<Rightarrow> True | Review q \<Rightarrow> True | _ \<Rightarrow> False)"
| "decides (Visit to) = False"
| "decides (Visit_order i type) = False"
| "decides Not_yet = False"
| "decides (Link_dialog order) = False"

lemma admin_events:
  "enabled_events (admin_action_config p user order) order = Visit_order (ao_id order) (ao_type order) #
     (if ao_status order = Order_Pending \<and> \<not> isApproving p \<and> \<not> isRejecting p
      then (if isFetchingJob p then [] else [approve_event user order]) @ [Ask_rejection order] else [])"
  by (simp add: enabled_events_def menu_defs)

lemma job_events:
  "enabled_events (job_action_config isAdmin p user order) order = Visit (job_order_link isAdmin order) #
     (if isAdmin \<and> ao_status order = Order_Pending \<and> \<not> isApproving p \<and> \<not> isRejecting p
      then (if isFetchingJob p then [] else [approve_event user order]) @ [Decide (Review (rejectOrder_of_job user order))] else [])"
  by (cases isAdmin) (simp_all add: enabled_events_def menu_defs Let_def)

lemma portal_events:
  "enabled_events portal_action_config order = portal_view order # (if ao_status order = Order_Pending then [Link_dialog order] else [])"
  by (simp add: enabled_events_def menu_defs Let_def)

lemma approve_events_agree:
  "ao_status order = Order_Pending \<Longrightarrow> approve_event user order = Decide (approve_click user order)"
  by (simp add: approve_event_def approve_click_def)

text \<open>Deciding an order is offered where the visitor is an administrator, the order is pending and no other
  decision is on its way, and there only: the list of the administrators, the list beside a job and
  the visitor's own list agree on this.\<close>

theorem decisions_offered:
  "(list_ex decides (enabled_events (admin_action_config p user order) order) \<longleftrightarrow>
      ao_status order = Order_Pending \<and> \<not> isApproving p \<and> \<not> isRejecting p) \<and>
   (list_ex decides (enabled_events (job_action_config isAdmin p user order) order) \<longleftrightarrow>
      isAdmin \<and> ao_status order = Order_Pending \<and> \<not> isApproving p \<and> \<not> isRejecting p) \<and>
   \<not> list_ex decides (enabled_events portal_action_config order)"
  unfolding admin_events job_events portal_events by (auto simp: approve_event_def portal_view_def)

section \<open>The time since a date\<close>

text \<open>
  The label asks \<open>formatDistanceToNow\<close> (of \<open>date-fns\<close>, the parameter \<open>distance\<close>: of the locale, the date
  and the present instant) for the time since its date when it appears, when date or language change,
  and every ten seconds, and drops what stands before the first digit of the answer.
  \<open>label_mounted\<close> is the state once both effects of the first rendering have run. Dates are taken to be valid.
\<close>

datatype date_locale = Loc_zhCN | Loc_ja | Loc_ko | Loc_enUS

definition locale_of :: "string \<Rightarrow> date_locale" where
  "locale_of language = (if language = ''zh'' then Loc_zhCN else if language = ''ja'' then Loc_ja
     else if language = ''ko'' then Loc_ko else Loc_enUS)"

definition from_digit :: "string \<Rightarrow> string" where
  "from_digit s = dropWhile (\<lambda>c. \<not> is_digit c) s"

record time_label =
  tl_date :: "string option"
  tl_locale :: date_locale
  tl_diff :: string
  tl_start :: "string option"
  tl_timer :: "(string \<times> date_locale) option"

definition time_effect :: "(date_locale \<Rightarrow> string \<Rightarrow> 'n \<Rightarrow> string) \<Rightarrow> 'n \<Rightarrow> time_label \<Rightarrow> time_label" where
  "time_effect distance now s =
     (let s0 = s\<lparr>tl_timer := None\<rparr> in
      case tl_date s of
        None \<Rightarrow> s0\<lparr>tl_start := None, tl_diff := []\<rparr>
      | Some d \<Rightarrow> if d = [] then s0\<lparr>tl_start := None, tl_diff := []\<rparr>
          else s0\<lparr>tl_start := Some d, tl_diff := from_digit (distance (tl_locale s) d now), tl_timer := Some (d, tl_locale s)\<rparr>)"

definition label_mounted :: "(date_locale \<Rightarrow> string \<Rightarrow> 'n \<Rightarrow> string) \<Rightarrow> string option \<Rightarrow> string \<Rightarrow> 'n \<Rightarrow> time_label" where
  "label_mounted distance date language now = time_effect distance now
     \<lparr>tl_date = date, tl_locale = locale_of language, tl_diff = [], tl_start = None, tl_timer = None\<rparr>"

datatype 'n label_event = Date_prop "string option" 'n | Language string 'n | Timer 'n

inductive label_step :: "(date_locale \<Rightarrow> string \<Rightarrow> 'n \<Rightarrow> string) \<Rightarrow> time_label \<Rightarrow> 'n label_event \<Rightarrow> time_label \<Rightarrow> bool"
  for distance :: "date_locale \<Rightarrow> string \<Rightarrow> 'n \<Rightarrow> string" where
  step_date: "label_step distance s (Date_prop d now) (time_effect distance now (s\<lparr>tl_date := d\<rparr>))"
| step_language: "label_step distance s (Language l now) (time_effect distance now (s\<lparr>tl_locale := locale_of l\<rparr>))"
| step_timer: "tl_timer s = Some (d, loc) \<Longrightarrow>
    label_step distance s (Timer now) (s\<lparr>tl_diff := from_digit (distance loc d now)\<rparr>)"

inductive_cases label_stepE: "label_step distance s e s'"

text \<open>The text that is rendered: none without a date.\<close>

definition label_text :: "time_label \<Rightarrow> string option" where
  "label_text s = (case tl_start s of None \<Rightarrow> None | Some d \<Rightarrow> Some (tl_diff s))"

definition label_inv :: "(date_locale \<Rightarrow> string \<Rightarrow> 'n \<Rightarrow> string) \<Rightarrow> time_label \<Rightarrow> bool" where
  "label_inv distance s \<longleftrightarrow>
     (case tl_date s of None \<Rightarrow> tl_start s = None \<and> tl_timer s = None
      | Some d \<Rightarrow> if d = [] then tl_start s = None \<and> tl_timer s = None
          else tl_start s = Some d \<and> tl_timer s = Some (d, tl_locale s) \<and>
            (\<exists>now. tl_diff s = from_digit (distance (tl_locale s) d now)))"

lemma time_effect_inv: "label_inv distance (time_effect distance now s)"
  by (auto simp: label_inv_def time_effect_def Let_def split: option.split)

lemma label_step_inv: "label_inv distance s \<Longrightarrow> label_step distance s e s' \<Longrightarrow> label_inv distance s'"
proof (erule label_stepE)
  fix d loc now
  assume "label_inv distance s" "tl_timer s = Some (d, loc)" "s' = s\<lparr>tl_diff := from_digit (distance loc d now)\<rparr>"
  then show ?thesis by (auto simp: label_inv_def split: option.splits if_splits)
qed (simp_all add: time_effect_inv)

interpretation time_label: machine "label_step distance" "\<lambda>s. \<exists>d l now. s = label_mounted distance d l now" "label_inv distance"
  for distance
  by unfold_locales (auto simp: label_mounted_def intro: time_effect_inv label_step_inv)

lemma from_digit_empty: "from_digit s = [] \<longleftrightarrow> (\<forall>c \<in> set s. \<not> is_digit c)"
  by (simp add: from_digit_def)

lemma from_digit_suffix: "suffix (from_digit s) s \<and> (from_digit s \<noteq> [] \<longrightarrow> is_digit (hd (from_digit s)))"
  using hd_dropWhile [of "\<lambda>c. \<not> is_digit c" s] by (auto simp: from_digit_def suffix_dropWhile)

text \<open>
  A label shows, of the date it is given at present and in the language chosen at present, the end of
  the distance that \<open>date-fns\<close> printed at some instant, from its first digit on; without a date it
  shows nothing. A distance without a digit is shown as the empty text.
\<close>

theorem label_current:
  assumes "runs (label_step distance) (label_mounted distance d l now) es s"
  shows "label_text s = None \<longleftrightarrow> tl_date s \<in> {None, Some []}"
    and "label_text s = Some t \<Longrightarrow> \<exists>d now. tl_date s = Some d \<and> t = from_digit (distance (tl_locale s) d now)"
proof -
  have "label_inv distance s" by (rule time_label.reachable_inv [OF _ assms]) blast
  then show "label_text s = None \<longleftrightarrow> tl_date s \<in> {None, Some []}"
    and "label_text s = Some t \<Longrightarrow> \<exists>d now. tl_date s = Some d \<and> t = from_digit (distance (tl_locale s) d now)"
    by (auto simp: label_inv_def label_text_def split: option.splits if_splits)
qed

text \<open>What happened just now has no digit in English, and what lies ahead loses the word that says so.\<close>

lemma just_now_blank:
  "from_digit ''less than a minute ago'' = []" "from_digit ''in 5 minutes'' = ''5 minutes''"
  by (simp_all add: from_digit_def is_digit_def)

section \<open>Past runs of the clean-ups\<close>

text \<open>
  Instants are milliseconds. \<open>rp_sent\<close> are the removals that were requested, each with the instant it was
  confirmed at and the end of the time that it removes; \<open>rp_waiting\<close> counts those without an answer.
  Confirming closes the dialog; so does the answer of a removal that succeeds, whether or not the
  dialog was opened again in the meantime.
\<close>

record records_page =
  rp_range :: "(int option \<times> int option) option"
  rp_min :: "int option"
  rp_max :: "int option"
  rp_open :: bool
  rp_days :: nat
  rp_waiting :: nat
  rp_sent :: "(int \<times> int) list"
  rp_refetched :: nat

definition records_start :: records_page where
  "records_start = \<lparr>rp_range = None, rp_min = None, rp_max = None, rp_open = False, rp_days = 1,
     rp_waiting = 0, rp_sent = [], rp_refetched = 0\<rparr>"

definition loadTimeRange :: "int \<Rightarrow> (int option \<times> int option) option \<Rightarrow> records_page \<Rightarrow> records_page" where
  "loadTimeRange code data s =
     (if code = 0 then (case data of None \<Rightarrow> s
        | Some (st, en) \<Rightarrow> s\<lparr>rp_min := (case st of None \<Rightarrow> rp_min s | Some t \<Rightarrow> Some t),
            rp_max := (case en of None \<Rightarrow> rp_max s | Some t \<Rightarrow> Some t)\<rparr>)
      else s)"

definition day_disabled :: "records_page \<Rightarrow> int \<Rightarrow> bool" where
  "day_disabled s date = (if (case rp_min s of None \<Rightarrow> False | Some m \<Rightarrow> date < m) then True
     else if (case rp_max s of None \<Rightarrow> False | Some m \<Rightarrow> m < date) then True else False)"

definition day_ms :: int where "day_ms = 24 * 60 * 60 * 1000"

definition removal_end :: "int \<Rightarrow> nat \<Rightarrow> int" where
  "removal_end now days = now - int days * day_ms"

definition removal_request :: "(int \<Rightarrow> string) \<Rightarrow> int \<Rightarrow> nat \<Rightarrow> http_request" where
  "removal_request toISOString now days = apiAdminCronJobRecordDelete
     \<lparr>dcj_id = None, dcj_startTime = None, dcj_endTime = Some (toISOString (removal_end now days))\<rparr>"

datatype records_toast = Removed number | Removal_failed

datatype records_event = Range_answer int "(int option \<times> int option) option" | Set_range "(int option \<times> int option) option"
  | Choose_days nat | Dialog_closed | Confirm int | Removal_answer int "string option"

definition removal_answered :: "int \<Rightarrow> string option \<Rightarrow> records_page \<Rightarrow> records_toast \<times> records_page" where
  "removal_answered code data s =
     (if code = 0 then (case data of None \<Rightarrow> (Removal_failed, s)
        | Some deleted \<Rightarrow> (Removed (deleted_count deleted), s\<lparr>rp_open := False, rp_refetched := Suc (rp_refetched s)\<rparr>))
      else (Removal_failed, s))"

inductive records_step :: "records_page \<Rightarrow> records_event \<Rightarrow> records_page \<Rightarrow> bool" where
  step_range_answer: "records_step s (Range_answer code data) (loadTimeRange code data s)"
| step_set_range: "records_step s (Set_range r) (s\<lparr>rp_range := r\<rparr>)"
| step_choose_days: "d \<in> set delete_choices \<Longrightarrow> records_step s (Choose_days d) (s\<lparr>rp_days := d, rp_open := True\<rparr>)"
| step_dialog_closed: "records_step s Dialog_closed (s\<lparr>rp_open := False\<rparr>)"
| step_confirm: "rp_open s \<Longrightarrow> records_step s (Confirm now)
    (s\<lparr>rp_open := False, rp_waiting := Suc (rp_waiting s), rp_sent := rp_sent s @ [(now, removal_end now (rp_days s))]\<rparr>)"
| step_removal_answer: "rp_waiting s = Suc n \<Longrightarrow>
    records_step s (Removal_answer code data) (snd (removal_answered code data (s\<lparr>rp_waiting := n\<rparr>)))"

inductive_cases records_stepE: "records_step s e s'"

definition records_inv :: "records_page \<Rightarrow> bool" where
  "records_inv s \<longleftrightarrow> rp_days s \<in> set delete_choices \<and>
     list_all (\<lambda>(now, until). \<exists>d \<in> set delete_choices. until = removal_end now d) (rp_sent s)"

lemma records_step_inv: "records_inv s \<Longrightarrow> records_step s e s' \<Longrightarrow> records_inv s'"
  by (erule records_stepE)
    (auto simp: records_inv_def loadTimeRange_def removal_answered_def split: option.splits prod.splits)

lemma records_start_inv: "records_inv records_start"
  by (simp add: records_inv_def records_start_def delete_choices_def)

interpretation records: machine records_step "\<lambda>s. s = records_start" records_inv
  using records_start_inv records_step_inv by unfold_locales blast+

text \<open>
  However the page is used, what it asks the server to remove is at least a day old at the moment it was
  confirmed, and reaches up to one of the ages that the menu offers.
\<close>

theorem records_kept:
  assumes "runs records_step records_start es s" "(now, until) \<in> set (rp_sent s)"
  shows "until + day_ms \<le> now \<and> (\<exists>d \<in> {1, 7, 15}. until = removal_end now d)"
proof -
  have "records_inv s" by (rule records.reachable_inv [OF _ assms(1)]) simp
  then obtain d where "d \<in> set delete_choices" "until = removal_end now d"
    using assms(2) by (auto simp: records_inv_def list_all_iff)
  moreover from this have "1 \<le> d" by (auto simp: delete_choices_def)
  moreover from this have "day_ms \<le> int d * day_ms" by (simp add: day_ms_def)
  ultimately show ?thesis by (auto simp: removal_end_def delete_choices_def)
qed

text \<open>
  The answer of one removal closes the dialog that was opened for the next. And the list of a single
  day asks for its first instant only: both ends of the range are the midnight that the day begins
  with.
\<close>

lemma dialog_closed_by_answer:
  "runs records_step records_start [Choose_days 1, Confirm now, Choose_days 7, Removal_answer 0 (Some ''3'')] s \<Longrightarrow> \<not> rp_open s"
  by (auto simp: runs_Cons_simp removal_answered_def elim!: records_stepE)

lemma single_day_request:
  "records_request shown (Some (Some midnight, Some midnight)) = apiAdminCronJobRecordList
     \<lparr>cjq_name = None, cjq_startTime = Some (shown midnight), cjq_endTime = Some (shown midnight), cjq_status = None\<rparr>"
  by (simp add: records_request_def)

section \<open>The download of a file\<close>

text \<open>
  The actions of one row. \<open>dl_active\<close> is the transfer that runs, \<open>dl_timer\<close> the second that the progress is
  still shown after it ends.
\<close>

record download =
  dl_isDownloading :: bool
  dl_progress :: int
  dl_isProcessing :: bool
  dl_active :: bool
  dl_timer :: bool

definition download_start :: download where
  "download_start = \<lparr>dl_isDownloading = False, dl_progress = 0, dl_isProcessing = False, dl_active = False, dl_timer = False\<rparr>"

datatype download_event = Click "int option" | Loaded_part nat nat | Transferred | Shown_second

inductive download_step :: "download \<Rightarrow> download_event \<Rightarrow> download \<Rightarrow> bool" where
  step_too_big: "\<not> dl_isDownloading s \<Longrightarrow> n \<noteq> 0 \<and> isFileSizeExceeded n \<Longrightarrow> download_step s (Click (Some n)) s"
| step_click: "\<not> dl_isDownloading s \<Longrightarrow> \<not> (case bytes of None \<Rightarrow> False | Some n \<Rightarrow> n \<noteq> 0 \<and> isFileSizeExceeded n) \<Longrightarrow>
    download_step s (Click bytes) (s\<lparr>dl_isDownloading := True, dl_progress := 0, dl_isProcessing := False, dl_active := True\<rparr>)"
| step_progress: "dl_active s \<Longrightarrow> 0 < all \<Longrightarrow> loaded \<le> all \<Longrightarrow> download_step s (Loaded_part loaded all)
    (s\<lparr>dl_progress := percent loaded all, dl_isProcessing := (if percent loaded all = 100 then True else dl_isProcessing s)\<rparr>)"
| step_transferred: "dl_active s \<Longrightarrow> download_step s Transferred (s\<lparr>dl_active := False, dl_timer := True\<rparr>)"
| step_timeout: "dl_timer s \<Longrightarrow> download_step s Shown_second
    (s\<lparr>dl_isDownloading := False, dl_isProcessing := False, dl_progress := 0, dl_timer := False\<rparr>)"

inductive_cases download_stepE: "download_step s e s'"

definition download_inv :: "download \<Rightarrow> bool" where
  "download_inv s \<longleftrightarrow> dl_isDownloading s = (dl_active s \<or> dl_timer s) \<and> \<not> (dl_active s \<and> dl_timer s) \<and>
     0 \<le> dl_progress s \<and> dl_progress s \<le> 100 \<and>
     (\<not> dl_isDownloading s \<longrightarrow> dl_progress s = 0 \<and> \<not> dl_isProcessing s)"

definition download_weight :: "download \<Rightarrow> nat" where
  "download_weight s = (if dl_active s then 2 else 0) + (if dl_timer s then 1 else 0)"

lemma download_quiet: "download_inv u \<Longrightarrow> download_weight u = 0 \<Longrightarrow> u = download_start"
  by (cases u) (simp add: download_inv_def download_weight_def download_start_def split: if_splits)

lemma download_step_inv: "download_inv s \<Longrightarrow> download_step s e s' \<Longrightarrow> download_inv s'"
  by (erule download_stepE) (auto simp: download_inv_def percent_bounds)

interpretation row_download: draining_machine download_step "\<lambda>s. s = download_start" download_inv
  "\<lambda>e. e \<in> {Transferred, Shown_second}" download_weight
proof
  fix s e s'
  show "s = download_start \<Longrightarrow> download_inv s" by (simp add: download_inv_def download_start_def)
  show "download_inv s \<Longrightarrow> download_step s e s' \<Longrightarrow> download_inv s'" by (rule download_step_inv)
  show "download_inv s \<Longrightarrow> download_step s e s' \<Longrightarrow> e \<in> {Transferred, Shown_second} \<Longrightarrow> download_weight s' < download_weight s"
    by (erule download_stepE) (auto simp: download_inv_def download_weight_def)
  assume "0 < download_weight s"
  then consider "dl_active s" | "dl_timer s" by (auto simp: download_weight_def split: if_splits)
  then show "\<exists>e s'. e \<in> {Transferred, Shown_second} \<and> download_step s e s'"
    by cases (blast intro: step_transferred step_timeout)+
qed

text \<open>
  A row loads one file at a time: while a transfer runs or its progress is still shown, a click does
  nothing; the progress is a percentage; and once the transfer has ended and the second is over, which
  are at most two steps, the row is as it was before the click.
\<close>

theorem one_download:
  assumes "runs download_step download_start es s"
  shows "(download_step s (Click bytes) s' \<longrightarrow> \<not> dl_active s \<and> \<not> dl_timer s) \<and>
    0 \<le> dl_progress s \<and> dl_progress s \<le> 100 \<and>
    (\<exists>fs. length fs \<le> 2 \<and> runs download_step s fs download_start)"
proof -
  have inv: "download_inv s" by (rule row_download.reachable_inv [OF _ assms]) simp
  obtain fs u where fs: "list_all (\<lambda>e. e \<in> {Transferred, Shown_second}) fs" "runs download_step s fs u" "download_weight u = 0"
    using row_download.drains [OF inv] by blast
  have "length fs + download_weight u \<le> download_weight s"
    by (rule row_download.replies_bounded [OF fs(2) inv fs(1)])
  moreover have "download_weight s \<le> 2" using inv by (simp add: download_inv_def download_weight_def)
  moreover have "u = download_start" using row_download.runs_inv [OF fs(2) inv] fs(3) by (rule download_quiet)
  ultimately have "\<exists>fs. length fs \<le> 2 \<and> runs download_step s fs download_start"
    using fs(2) by (intro exI [of _ fs]) simp
  moreover have "\<not> dl_active s \<and> \<not> dl_timer s" if "download_step s (Click bytes) s'"
    using that inv by (cases rule: download_step.cases) (simp_all add: download_inv_def)
  ultimately show ?thesis using inv by (simp add: download_inv_def)
qed

section \<open>A new folder\<close>

text \<open>
  The dialog of the page of a folder. The field is made anew, and empty, each time the dialog opens; what
  was typed is kept in the state of the page, \<open>fc_dirName\<close>, which nothing empties.
  \<open>fc_typed\<close> says whether the field was changed since the dialog opened.
\<close>

record folder_dialog =
  fc_open :: bool
  fc_field :: string
  fc_typed :: bool
  fc_dirName :: string
  fc_sent :: "(string \<times> bool \<times> http_request option) list"

definition folder_start :: folder_dialog where
  "folder_start = \<lparr>fc_open = False, fc_field = [], fc_typed = False, fc_dirName = [], fc_sent = []\<rparr>"

datatype folder_event = Open_folder_dialog | Type_name string | Create_folder | Close_folder_dialog

inductive folder_step :: "string \<Rightarrow> folder_dialog \<Rightarrow> folder_event \<Rightarrow> folder_dialog \<Rightarrow> bool" for path where
  step_open_folder: "\<not> fc_open s \<Longrightarrow> folder_step path s Open_folder_dialog (s\<lparr>fc_open := True, fc_field := [], fc_typed := False\<rparr>)"
| step_type_name: "fc_open s \<Longrightarrow> folder_step path s (Type_name x) (s\<lparr>fc_field := x, fc_typed := True, fc_dirName := x\<rparr>)"
| step_create_folder: "fc_open s \<Longrightarrow> folder_step path s Create_folder
    (s\<lparr>fc_open := False, fc_sent := fc_sent s @ [(fc_field s, fc_typed s, clientCreateDir path (fc_dirName s))]\<rparr>)"
| step_close_folder: "fc_open s \<Longrightarrow> folder_step path s Close_folder_dialog (s\<lparr>fc_open := False\<rparr>)"

inductive_cases folder_stepE: "folder_step path s e s'"

inductive_simps folder_simps:
  "folder_step path s Open_folder_dialog s'"
  "folder_step path s (Type_name x) s'"
  "folder_step path s Create_folder s'"

definition folder_inv :: "string \<Rightarrow> folder_dialog \<Rightarrow> bool" where
  "folder_inv path s \<longleftrightarrow> (fc_open s \<and> fc_typed s \<longrightarrow> fc_dirName s = fc_field s) \<and>
     list_all (\<lambda>(field, typed, q). typed \<longrightarrow> q = clientCreateDir path field) (fc_sent s)"

lemma folder_step_inv: "folder_inv path s \<Longrightarrow> folder_step path s e s' \<Longrightarrow> folder_inv path s'"
  by (erule folder_stepE) (auto simp: folder_inv_def)

lemma folder_start_inv: "folder_inv path folder_start"
  by (simp add: folder_inv_def folder_start_def)

interpretation new_folder: machine "folder_step path" "\<lambda>s. s = folder_start" "folder_inv path" for path
  using folder_start_inv folder_step_inv by unfold_locales blast+

text \<open>The folder that is made has the name in the field, when something was typed into it since the dialog
  opened.\<close>

lemma folder_named:
  assumes "runs (folder_step path) folder_start es s" "(field, True, q) \<in> set (fc_sent s)"
  shows "q = clientCreateDir path field"
proof -
  have "folder_inv path s" by (rule new_folder.reachable_inv [OF _ assms(1)]) simp
  then show ?thesis using assms(2) by (auto simp: folder_inv_def list_all_iff)
qed

text \<open>When nothing was typed, the empty field makes the folder of the time before once more.\<close>

lemma folder_made_again:
  "\<exists>s. runs (folder_step path) folder_start
      [Open_folder_dialog, Type_name ''a'', Create_folder, Open_folder_dialog, Create_folder] s \<and>
    last (fc_sent s) = ([], False, Some (apiMkdir (path @ ''/a'')))"
  by (simp add: runs_Cons_simp folder_simps folder_start_def clientCreateDir_def)

section \<open>The name of an entry\<close>

text \<open>
  In the two folders in which each entry is the space of a user or of an account, the administrators see
  the nickname instead. The map is built of the list the server sends; of entries with the same space
  the last counts.
\<close>

definition space_map :: "('a \<Rightarrow> string) \<Rightarrow> 'a list \<Rightarrow> string \<Rightarrow> 'a option" where
  "space_map space infos name = map_of (rev (List.map (\<lambda>u. (space u, u)) infos)) name"

definition isAdminUserSpace :: "string \<Rightarrow> bool" where
  "isAdminUserSpace pathname \<longleftrightarrow> pathname = ''/admin/files/spacefile/admin-user''"

definition isAdminAccountSpace :: "string \<Rightarrow> bool" where
  "isAdminAccountSpace pathname \<longleftrightarrow> pathname = ''/admin/files/spacefile/admin-account''"

definition cell_name :: "string \<Rightarrow> (string \<Rightarrow> IAccount option) \<Rightarrow> (string \<Rightarrow> BaseUserInfo option) \<Rightarrow> FileItem \<Rightarrow> string" where
  "cell_name pathname accountMap userMap row =
     (if isAdminAccountSpace pathname
      then (case accountMap (fi_name row) of None \<Rightarrow> fi_name row | Some a \<Rightarrow> ac_nickname a)
      else if isAdminUserSpace pathname
      then (case userMap (fi_name row) of None \<Rightarrow> fi_name row | Some u \<Rightarrow> bu_nickname u)
      else fi_name row)"

definition folder_target :: "string \<Rightarrow> FileItem \<Rightarrow> string option" where
  "folder_target pathname row = (if fi_isdir row then Some (pathname @ ''/'' @ fi_name row) else None)"

lemma space_map_last: "space_map space (infos @ [u]) (space u) = Some u"
  by (simp add: space_map_def)

lemma space_map_mem: "space_map space infos name = Some u \<Longrightarrow> u \<in> set infos \<and> space u = name"
  by (auto simp: space_map_def dest: map_of_SomeD)

section \<open>Choosing several values\<close>

definition handleSelect :: "string list option \<Rightarrow> string \<Rightarrow> string list" where
  "handleSelect value selectedValue =
     (case value of
        None \<Rightarrow> [selectedValue]
      | Some vs \<Rightarrow> if selectedValue \<in> set vs then filter (\<lambda>v. v \<noteq> selectedValue) vs else vs @ [selectedValue])"

record box_option =
  bo_value :: string
  bo_label :: string

definition chosen_labels :: "box_option list \<Rightarrow> string list option \<Rightarrow> string list option" where
  "chosen_labels options value = (case value of None \<Rightarrow> None
     | Some vs \<Rightarrow> if 0 < length vs then Some (List.map bo_label (filter (\<lambda>opt. bo_value opt \<in> set vs) options)) else None)"

text \<open>
  Choosing twice gives back the values; no value is chosen twice; and what is shown are the chosen options
  in the order of the options, so that a value that is no option is not seen.
\<close>

lemma select_toggles:
  assumes "distinct vs"
  shows "set (handleSelect (Some vs) v) = (if v \<in> set vs then set vs - {v} else insert v (set vs))"
    and "distinct (handleSelect (Some vs) v)"
    and "v \<notin> set vs \<Longrightarrow> handleSelect (Some (handleSelect (Some vs) v)) v = vs"
    and "mset (handleSelect (Some (handleSelect (Some vs) v)) v) = mset vs"
proof -
  show "set (handleSelect (Some vs) v) = (if v \<in> set vs then set vs - {v} else insert v (set vs))"
    by (auto simp: handleSelect_def)
  show "distinct (handleSelect (Some vs) v)" using assms by (simp add: handleSelect_def)
  show new: "v \<notin> set vs \<Longrightarrow> handleSelect (Some (handleSelect (Some vs) v)) v = vs"
    by (auto simp: handleSelect_def intro!: filter_True)
  have "set (handleSelect (Some (handleSelect (Some vs) v)) v) = set vs"
    by (auto simp: handleSelect_def)
  moreover have "distinct (handleSelect (Some (handleSelect (Some vs) v)) v)"
    using assms by (simp add: handleSelect_def)
  ultimately show "mset (handleSelect (Some (handleSelect (Some vs) v)) v) = mset vs"
    using assms by (simp add: set_eq_iff_mset_eq_distinct)
qed

lemma unseen_choice: "0 < length vs \<Longrightarrow> \<forall>opt \<in> set options. bo_value opt \<notin> set vs \<Longrightarrow> chosen_labels options (Some vs) = Some []"
  by (simp add: chosen_labels_def filter_empty_conv)

section \<open>Sizes and architectures\<close>

datatype file_size_unit = Bytes_unit | Kilobytes | Megabytes | Gigabytes

definition formatSize :: "nat \<Rightarrow> string \<times> file_size_unit" where
  "formatSize bytes =
     (if bytes < 1024 then (nat_str bytes, Bytes_unit)
      else if bytes < 1024 * 1024 then (to_fixed2 (of_nat bytes / 1024), Kilobytes)
      else if bytes < 1024 * 1024 * 1024 then (to_fixed2 (of_nat bytes / (1024 * 1024)), Megabytes)
      else (to_fixed2 (of_nat bytes / (1024 * 1024 * 1024)), Gigabytes))"

definition arch_name :: "string \<Rightarrow> string" where
  "arch_name arch = (if CHR ''/'' \<in> set arch then join_with ''/'' (drop 1 (split_char CHR ''/'' arch)) else arch)"

text \<open>The unit is the largest that the size reaches.\<close>

lemma size_in_unit:
  "snd (formatSize bytes) = Bytes_unit \<Longrightarrow> bytes < 1024"
  "snd (formatSize bytes) = Kilobytes \<Longrightarrow> 1024 \<le> bytes \<and> bytes < 1024 * 1024"
  "snd (formatSize bytes) = Megabytes \<Longrightarrow> 1024 * 1024 \<le> bytes \<and> bytes < 1024 * 1024 * 1024"
  "snd (formatSize bytes) = Gigabytes \<Longrightarrow> 1024 * 1024 * 1024 \<le> bytes"
  by (simp_all add: formatSize_def split: if_splits)

lemma arch_names:
  "arch_name ''linux/amd64'' = ''amd64''" "arch_name ''linux/arm/v7'' = ''arm/v7''" "arch_name ''arm64'' = ''arm64''"
  by (simp_all add: arch_name_def)

end
