(* ===== verification/Spec2Isabelle.thy ===== *)
theory Spec2Isabelle
  imports ApiCluster ApiImages ApiData Resources ApiErrors AuthForms JobForms ApprovalLock Templates
    Pagination Images Nodes Pseudonym Jobs Publish Files ClientSpec ImageBuild TagsInput Config Orders
    UserSettings CronJobs ResourceFields Accounts NodeMarks ImageList Encoding Logs SparseJob JobLists
    DataPages JobAccess Dashboard Widgets NodePages Shell AdminPages Highlight Members Layout Badges Rows
begin

text \<open>
  Crater's web front end (\<open>frontend/src\<close> of the repository): users of a GPU cluster create jobs,
  images and datasets through it, administrators manage nodes, accounts, resources and approvals. It
  is TypeScript over React. What it does beyond drawing is translated here: the HTTP client, the
  session, the schemas and submit handlers of the forms, the configurations that are stored and
  loaded again, and the logic of the pages and their components. Names of definitions are those of
  the sources; a suffix is added where the name is taken.

  HOW THE PARTS WORK TOGETHER

  A page's form parses its values with a schema (\<open>..._formSchema\<close>), its submit handler makes a
  request of them (\<open>..._onSubmit\<close>, a function into \<open>http_request\<close> of Wire), and the request goes
  through the client (Client), which adds the bearer token, renews it when it has expired, and sends
  the requests that waited again. The answer comes back to the page as data, or as an error that is
  shown as a toast (ApiErrors). Who may see a page is decided by the guards of the routes from the
  session (Session). The configuration of a job or of an image is stored as a JSON text with it
  (Forms, JobForms), is published with the owner's name hidden (Publish), and fills a form again when
  a job, a template or an image is cloned (Templates). Approval orders connect an extension request
  (ApprovalLock: \<open>extension-request-dialog.tsx\<close>) to the lists in which it is decided (Orders) and to
  the lock of the job (ApprovalLock: \<open>use-approval-order-lock.ts\<close>).

  THE THEORIES

  Prelude. JsBase: strings, dictionaries in insertion order, \<open>split\<close>, \<open>trim\<close>, \<open>replace\<close>, 32-bit
  operations. JsNumber: \<open>NaN\<close>, infinities and rationals, \<open>parseInt\<close>, \<open>parseFloat\<close>, printing. Json:
  \<open>JSON.stringify\<close> and \<open>JSON.parse\<close>. Coerce: \<open>Number(x)\<close>. Collections: \<open>sort\<close>, \<open>Set\<close>, \<open>Map\<close>, and the
  contracts \<open>comparator\<close> (a total, transitive comparison gives a sorted, stable permutation) and
  \<open>property_store\<close> (what a lookup returns after an assignment or a deletion). Encoding: \<open>atob\<close> and
  UTF-8 decoding against their encoders. Machine: runs of a step relation, and the contracts
  \<open>machine\<close> (an invariant), \<open>draining_machine\<close> (what is pending can be answered, and at most so often)
  and \<open>refinement\<close> (a simulation). Wire, Uri: requests as the client layer builds them, and the part
  of a URL that names the target.

  Interface of the server. ApiAccounts, ApiJobs, ApiCluster, ApiImages, ApiData: the interfaces, enums
  and calls of \<open>services/api\<close>. ApiErrors: \<open>showErrorToast\<close>, \<open>apiRequest\<close>, \<open>getErrorCode\<close> and the
  transfers by \<open>XMLHttpRequest\<close>.

  The client. Client: \<open>services/client.ts\<close> as a step relation, one step per piece of code between two
  \<open>await\<close>s; \<open>isRefreshing\<close> and \<open>failedQueue\<close> are fields of the state, each request in the hands of the
  client is an entry with the phase it waits in. ClientSpec: the contract without flag and queue,
  which the client refines.

  The session. Session: \<open>utils/store/index.ts\<close>, \<open>hooks/use-auth.tsx\<close>, the queue switch and the guards
  of \<open>routes\<close>. AuthForms: login and signup. Config: the configuration of the site and the loader of
  the root route, with its reloads. UserSettings: the visitor's own settings and the check of a new
  address. Pseudonym: \<open>utils/pseudonym.ts\<close>.

  Jobs. Forms: \<open>utils/form.ts\<close> and \<open>components/form/types.ts\<close>. JobForms: the forms of
  \<open>routes/portal/jobs/new\<close>, each with its schema, payload and data processor. JobPages: their default
  values, cards and submit handlers, the import button and the pages of jobs with a priority.
  SparseJob: the form for recommender jobs with its analysis. JobLists: the lists of jobs, the page of
  a job and its pods, and which form a job or a template is opened with. JobAccess: the dialogs over a
  pod, the terminal, rules for external access, SSH, and the page of a notebook. Templates:
  \<open>hooks/use-template-loader.ts\<close>. Publish: \<open>components/job/publish.tsx\<close>. Resources: \<open>utils/resource.ts\<close>
  and \<open>utils/quota.ts\<close>. ResourceFields: the choice of a GPU with its networks and virtual GPUs, and
  the administrators' association of the two. Jobs: phases and the times of the schedule section.
  Logs: \<open>components/codeblock/log-dialog.tsx\<close> with the live stream as a step relation. ApprovalLock,
  Orders: the approval of orders; the states of an order are an instance of \<open>linorder\<close>. Badges: the
  badges, filters and labels of the states of jobs, pods, images and nodes.

  Images. Images: tags, links and the upload. ImageBuild: the four ways to build an image.
  ImageList: the list with its actions and sharing. TagsInput: the field for tags.

  Data and cluster. Files: the file browser, uploads and mount sources. DataPages: datasets, models
  and shared files, their forms, their files and sharing, and the lists of them and of templates.
  Nodes, NodeMarks: the lists of nodes, their usage, labels, annotations and taints. NodePages: the
  page of a node, which of its requests are made, and its GPUs and pods. Accounts: accounts, their
  forms, capacities. Members: the page of an account with its members and quotas. AdminPages: the
  administrators' pages of users and resources. CronJobs: the scheduled clean-ups. Pagination: the
  pager and the stored page size. Dashboard: the counts of the start page, the metrics of a finished
  job, their cards, and what exit codes mean.

  Around the pages. Shell: the sidebar, the menus and the switch between the sides of the site.
  Layout: the theme, the breadcrumbs, the settings of the platform, a user's page, timelines and cards.
  Rows: the menus of approval orders, the label of a date, the removal of old records, downloads and new
  folders. Widgets: tables, detail pages and fields with a list. Highlight: the highlighter of markdown texts
  as a step relation.

  This theory: the composition of Client, ApiErrors and Session. A page that loads with a session that
  has expired is followed through the loads to the page that stays, and requests that share one error
  through what each reports of it.

  STATE, ERRORS AND NUMBERS

  The state of a page or a hook is a record with a field for each \<open>useState\<close>, \<open>useRef\<close> and form value;
  a handler is a function from state to state, and where several handlers can follow in any order
  they are the steps of a relation (\<open>client_step\<close>, \<open>gate_step\<close>, \<open>session_step\<close>,
  \<open>upload_step\<close>, \<open>settings_step\<close>, \<open>tags_step\<close>, \<open>fields_step\<close>, \<open>account_step\<close>, \<open>lock_step\<close>,
  \<open>stream_step\<close>, \<open>terminal_step\<close>, \<open>nodes_step\<close>, \<open>lookup_step\<close>, \<open>users_step\<close>, \<open>highlight_step\<close>,
  \<open>member_step\<close>, \<open>theme_step\<close>, \<open>label_step\<close>, \<open>records_step\<close>, \<open>download_step\<close>, \<open>folder_step\<close>), whose
  invariants are proved for all runs through the interpretation of \<open>machine\<close>. An exception is \<open>Inl\<close>,
  \<open>undefined\<close> is \<open>None\<close>, a shown toast is part of the result. Numbers are exact rationals with \<open>NaN\<close> and the infinities; the hash of Pseudonym uses 32-bit words. Strings are 8-bit
  characters, except where code units or code points matter (Pseudonym, Encoding, Logs).

  WHAT THE LEMMAS SHOW

  Client: at most one refresh at a time, whose leader is the request that found the token expired
  (invariant); every request that waits is sent again or rejected when it ends; every pending request
  can be answered, within a bound; the refinement of ClientSpec. Session: the stored tokens, the user
  and the account agree after every action; the guards redirect at most once, with the exception that
  is stated. Forms, JobForms, ImageBuild, Publish: round trips of what is stored, and what foreign or
  unsafe values do. Resources: round trips of quantities and quotas. ApprovalLock, Orders: what is
  approved is locked for the hours shown, durations stay in bounds, an order is decided by the
  request for it. UserSettings, ImageList, Files: only confirmed addresses, own images and permitted
  files are sent. ResourceFields, TagsInput, Accounts, Logs: invariants of the form or the stream.
  Encoding, Logs: what was encoded is shown, however the stream is cut.
  JobPages, SparseJob: what a blank form sends or why it cannot. JobLists: a template opens the page that
  accepts it. DataPages: folders are a stack, and what a change does to a dataset. JobAccess: what the
  terminal sends, and when a notebook is shown. Dashboard: which metrics are shown, and with what unit.
  NodePages: a
  request is made only when what it needs is there. Shell: the entry that is marked in the sidebar.
  AdminPages: a user's change is made on the user the dialog shows. Highlight: an older text never
  replaces a newer one. Members: the listed members are the server's, unless a batch succeeds in part.
  Layout: the page has one class of theme. Badges: which phases a badge can tell apart. Rows: who
  is offered a decision, that records stay for a day, and that a row loads one file at a time. This theory:
  where a session that can not be renewed ends, and how often one error is shown.
  Where the code does not do
  what it means to, the lemma states what it does and the manifest lists the finding.

  FUEL AND TERMINATION

  \<open>JSON.parse\<close> runs on fuel: the length of the text, which \<open>jfuel_length\<close> and the round trip show to be
  enough for every text that \<open>JSON.stringify\<close> writes. The root loader may reload the page without end:
  \<open>page_loads\<close> is a \<open>partial_function (option)\<close>, and the property on it shows that it does not. The effects of a
  dialog over a pod settle within the four renderings of \<open>ns_settle\<close> (\<open>effects_settle\<close>). The loads
  of a page with an expired session are at most two (\<open>expired_session_lands\<close>). All other recursion ends
  by its structure or by the measure given with it. The steps of the client are bounded by \<open>client_weight\<close>.

  PARAMETERS

  The orders of \<open>localeCompare\<close>, instants and printed dates of \<open>Date\<close>, the addresses and links \<open>zod\<close>
  accepts, the schedules \<open>cron-validator\<close> accepts, the storage of \<open>jotai\<close>, the printed distances of
  \<open>date-fns\<close>, the highlighter \<open>shiki\<close>, and the answers of the server are arguments. Of a comparison the
  properties assume that it is total and transitive, of the storage
  that what is read is what was stored; the witnesses instantiate them.

  NOT MODELLED

  The JSX and styling, the texts of the translations, the component libraries (\<open>components/ui\<close>), charts,
  monaco and the terminal emulator; the query cache of \<open>@tanstack/react-query\<close> beyond the order of
  handlers; the generated route tree; mocks; pages that only show what a query returns or fixed and
  random data (as the activity on a user's page); \<open>components/file/file-select.tsx\<close>, which nothing
  uses; the Go services
  (\<open>backend\<close>, \<open>storage\<close>) and the website. Rounding of floating point numbers, numbers above \<open>10 ^ 21\<close>,
  and characters above U+00FF outside the theories named above are outside the models.
\<close>

section \<open>A session that has expired\<close>

text \<open>
  A page that was just loaded asks who the visitor is (\<open>apiCheckToken\<close>). When the answer is that the
  token has expired and the refresh fails, the client may send the browser to another address, which is
  loaded in turn; the tokens stay in the storage. \<open>expired_session n\<close> follows at most \<open>n\<close> loads to the
  page that stays.
\<close>

definition fresh_page :: "strobj \<Rightarrow> string \<Rightarrow> client" where
  "fresh_page ls url = \<lparr>requests = [], isRefreshing = False, failedQueue = [], localStorage = ls, href = url, navigations = []\<rparr>"

definition check_token_load :: "response \<Rightarrow> failure \<Rightarrow> strobj \<Rightarrow> string \<Rightarrow> client" where
  "check_token_load r error ls url = refresh_catch 0 r error (afterResponse 0 r (send_request (fresh_page ls url)))"

fun expired_session :: "nat \<Rightarrow> string \<Rightarrow> response \<Rightarrow> failure \<Rightarrow> strobj \<Rightarrow> string \<Rightarrow> (string \<times> client) option" where
  "expired_session 0 origin r error ls url = None"
| "expired_session (Suc n) origin r error ls url =
     (let c = check_token_load r error ls url in
      case navigations c of [] \<Rightarrow> Some (url, c) | u # us \<Rightarrow> expired_session n origin r error (localStorage c) (origin @ u))"

lemma check_token_load_value:
  assumes "rs_status r = 401" "rs_payload r = Fields (Some ERROR_TOKEN_EXPIRED) msg"
  shows "check_token_load r error ls url = (if ends_with url ''/auth''
    then (fresh_page ls url)\<lparr>requests := [Settled (Rejected (Http r))]\<rparr>
    else (fresh_page ls url)\<lparr>requests := [Settled (Rejected error)], navigations := [''/auth'']\<rparr>)"
  using assms by (simp add: check_token_load_def fresh_page_def handler_defs response_ok_def)

lemma check_token_load_runs:
  assumes "rs_status r = 401" "rs_payload r = Fields (Some ERROR_TOKEN_EXPIRED) msg"
  shows "runs client_step (fresh_page ls url) [Send, Answer 0 r, Refresh_answer 0 (Inl error)] (check_token_load r error ls url)"
proof -
  let ?c1 = "send_request (fresh_page ls url)"
  let ?c2 = "afterResponse 0 r ?c1"
  have "client_step ?c1 (Answer 0 r) ?c2"
    by (rule step_answer [where t = "bearer ls"]) (simp add: phase_at_def send_request_def fresh_page_def)
  moreover have "client_step ?c2 (Refresh_answer 0 (Inl error)) (check_token_load r error ls url)"
    unfolding check_token_load_def
    by (rule step_refresh_fail [where r = r and t = "stored ls REFRESH_TOKEN_KEY"])
      (use assms in \<open>simp add: phase_at_def send_request_def fresh_page_def afterResponse_def response_ok_def\<close>)
  ultimately show ?thesis by (auto intro: runs.intros step_send)
qed

lemma auth_page_ends: "ends_with (origin @ ''/auth'') ''/auth''"
  by (simp add: ends_with_def suffix_def)

text \<open>C5. Whoever opens any page with a session that can not be renewed ends at the login page after at
  most two loads, although the tokens are kept: the first load is sent to \<open>/auth\<close> unless its address
  ends so already, the second stays there, its check is rejected with its own answer, which makes the
  visitor one who is not logged in, whom the router leaves at \<open>/auth\<close>, and they see exactly one toast,
  with the title \<open>undefined\<close>.\<close>

theorem expired_session_lands:
  assumes "rs_status r = 401" "rs_payload r = Fields (Some ERROR_TOKEN_EXPIRED) msg"
  shows "\<exists>c. expired_session 2 origin r error ls url =
      Some (if ends_with url ''/auth'' then url else origin @ ''/auth'', c) \<and>
    requests c = [Settled (Rejected (Http r))] \<and> localStorage c = ls \<and> navigations c = [] \<and>
    (\<exists>t. apiRequest (Inl (Http r) :: failure + ICheckResponse option) None = ([t], Inl (Http (read_body r))) \<and>
       toast_title t = Undefined_text) \<and>
    (let s' = restore (Inl (Http (read_body r))) s in
      \<not> isAuthenticated s' \<and> ss_user s' = None \<and> navigate 4 s' (at_path ''/auth'') = Some (at_path ''/auth''))"
proof -
  let ?url = "if ends_with url ''/auth'' then url else origin @ ''/auth''"
  let ?c = "check_token_load r error ls ?url"
  have at_auth: "ends_with ?url ''/auth''" using auth_page_ends by simp
  then have c: "requests ?c = [Settled (Rejected (Http r))]" "localStorage ?c = ls" "navigations ?c = []"
    using check_token_load_value [OF assms, of error ls ?url] by (simp_all add: fresh_page_def)
  have "expired_session 2 origin r error ls url = Some (?url, ?c)"
    using check_token_load_value [OF assms, of error ls] auth_page_ends [of origin]
    by (simp add: numeral_2_eq_2 fresh_page_def)
  moreover have "\<exists>t. apiRequest (Inl (Http r) :: failure + ICheckResponse option) None = ([t], Inl (Http (read_body r))) \<and>
      toast_title t = Undefined_text"
    using assms(2) by (simp add: apiRequest_def code_toasts_def error_code_defs title_of_def)
  moreover have "let s' = restore (Inl (Http (read_body r))) s in
      \<not> isAuthenticated s' \<and> ss_user s' = None \<and> navigate 4 s' (at_path ''/auth'') = Some (at_path ''/auth'')"
    by (simp add: restore_def forget_def navigate_landing landing_def under_def starts_with_def Let_def)
  ultimately show ?thesis using c by blast
qed

definition lost_session :: response where
  "lost_session = \<lparr>rs_status = 401, rs_payload = Fields (Some ERROR_TOKEN_EXPIRED) (Some ''expired''), rs_text = ''401''\<rparr>"

theorem expired_session_lands_witness:
  "\<exists>c. expired_session 2 ''https://c'' lost_session (Failure ''down'') [] ''https://c/portal/files'' = Some (''https://c/auth'', c)"
proof -
  have "rs_status lost_session = 401" "rs_payload lost_session = Fields (Some ERROR_TOKEN_EXPIRED) (Some ''expired'')"
    by (simp_all add: lost_session_def)
  note lands = expired_session_lands [OF this, of "''https://c''" "Failure ''down''" "[]" "''https://c/portal/files''"]
  have "\<not> ends_with ''https://c/portal/files'' ''/auth''" by (simp add: ends_with_def suffix_def)
  then show ?thesis using lands by auto
qed

section \<open>Many requests, one error\<close>

text \<open>
  Requests that are rejected with one and the same error read its body one after the other. A body can
  be read once: the first reader gets it, in whatever order they come.
\<close>

fun consumed :: "failure \<Rightarrow> failure" where
  "consumed (Http r) = Http (read_body r)"
| "consumed (Failure m) = Failure m"

definition shared_report :: "failure \<Rightarrow> string option list \<Rightarrow> (toast list \<times> (failure + json)) list" where
  "shared_report error ms = (case ms of [] \<Rightarrow> []
   | m # ms' \<Rightarrow> apiRequest (Inl error) m # map (apiRequest (Inl (consumed error))) ms')"

definition silent_error :: "failure \<Rightarrow> bool" where
  "silent_error error \<longleftrightarrow> (\<exists>q msg. error = Http q \<and> rs_payload q = Fields (Some ERROR_TOKEN_INVALID) msg)"

lemma consumed_toasts:
  "length (concat (map fst (map (apiRequest (Inl (consumed error) :: failure + json)) ms))) =
     (case error of Failure e \<Rightarrow> 0 | Http q \<Rightarrow> length ms)"
  by (induction ms) (auto simp: apiRequest_def read_body_def split: failure.split)

lemma first_toasts:
  "length (fst (apiRequest (Inl error :: failure + json) m)) =
     (case error of Failure e \<Rightarrow> 0 | Http q \<Rightarrow> if silent_error error then 0 else 1)"
proof (cases error)
  case (Http q)
  then show ?thesis
    by (cases "rs_payload q") (auto simp: apiRequest_def silent_error_def code_toasts_def)
qed (simp add: apiRequest_def)

text \<open>C6. When a refresh fails away from the login page, the request that led it and all that waited for it are
  rejected with one and the same error, and each reports it: an error of the network by no toast, an
  answer of the server by a toast for each request; and the answer that an invalid refresh token gets,
  which is meant to be silent, by a toast for each request but one, since only the first of them can
  read the code that says so.\<close>

theorem refresh_failure_reported:
  assumes "client_start c0" "runs client_step c0 es c" "phase_at c i (Refreshing r t)"
    and "client_step c (Refresh_answer i (Inl error)) c'" "\<not> ends_with (href c) ''/auth''"
    and "length ms = card {j. j < length (requests c) \<and> (j = i \<or> requests c ! j = Waiting)}"
  shows "(\<forall>j < length (requests c). j = i \<or> requests c ! j = Waiting \<longrightarrow> requests c' ! j = Settled (Rejected error)) \<and>
    1 \<le> length ms \<and>
    length (concat (map fst (shared_report error ms))) = (case error of Failure e \<Rightarrow> 0
      | Http q \<Rightarrow> if silent_error error then length ms - 1 else length ms)"
proof -
  have "i \<in> {j. j < length (requests c) \<and> (j = i \<or> requests c ! j = Waiting)}" using assms(3) by (simp add: phase_at_def)
  then have "0 < card {j. j < length (requests c) \<and> (j = i \<or> requests c ! j = Waiting)}" by (auto simp: card_gt_0_iff)
  then have pos: "1 \<le> length ms" using assms(6) by simp
  then obtain m ms' where ms: "ms = m # ms'" by (cases ms) auto
  have "length (concat (map fst (shared_report error ms))) =
      length (fst (apiRequest (Inl error :: failure + json) m)) +
      length (concat (map fst (map (apiRequest (Inl (consumed error) :: failure + json)) ms')))"
    by (simp add: shared_report_def ms)
  then have "length (concat (map fst (shared_report error ms))) = (case error of Failure e \<Rightarrow> 0
      | Http q \<Rightarrow> if silent_error error then length ms - 1 else length ms)"
    unfolding first_toasts consumed_toasts by (simp add: ms split: failure.split)
  then show ?thesis using pos refresh_catch_effect [OF assms(1-4)] assms(5) by simp
qed

theorem refresh_failure_reported_witness:
  "length (concat (map fst (shared_report (Failure ''down'') [None, None]))) = 0 \<and>
   requests (refresh_catch 0 expired_response (Failure ''down'') page_two_expired) ! 1 = Settled (Rejected (Failure ''down''))"
proof -
  have at: "phase_at page_two_expired 0 (Refreshing expired_response ''r'')"
    by (simp add: phase_at_def page_two_expired_def)
  have step: "client_step page_two_expired (Refresh_answer 0 (Inl (Failure ''down'')))
      (refresh_catch 0 expired_response (Failure ''down'') page_two_expired)"
    using at by (auto intro: client_step.intros)
  have away: "\<not> ends_with (href page_two_expired) ''/auth''"
    by (simp add: page_two_expired_def page_start_def ends_with_def suffix_def)
  have "{j. j < length (requests page_two_expired) \<and> (j = 0 \<or> requests page_two_expired ! j = Waiting)} = {0, 1}"
    by (auto simp: page_two_expired_def less_Suc_eq)
  then have two: "length [None, None] = card {j. j < length (requests page_two_expired) \<and> (j = 0 \<or> requests page_two_expired ! j = Waiting)}"
    by simp
  have "1 < length (requests page_two_expired)" "requests page_two_expired ! 1 = Waiting"
    by (simp_all add: page_two_expired_def)
  then show ?thesis using refresh_failure_reported [OF page_start page_runs at step away two] by simp
qed

text \<open>Two requests and a refresh token that is not valid any more: one toast, where none was meant.\<close>

lemma silence_broken:
  "map (\<lambda>(ts, r). length ts) (shared_report (Http \<lparr>rs_status = 401, rs_payload = Fields (Some ERROR_TOKEN_INVALID) None, rs_text = []\<rparr>) [None, None])
     = [0, 1]"
  by (simp add: shared_report_def apiRequest_def code_toasts_def read_body_def)

end
